(* ===== verification/Prelude.thy ===== *)
theory Prelude
  imports Main "HOL-Library.Char_ord" "HOL-Library.List_Lexorder" "HOL-Library.Product_Lexorder"
begin

text \<open>
  Prelude of the OSForge development: what the components share.
  \<^item> the values of JavaScript the sources rely on: errors that are thrown, strings (a
    \<^typ>\<open>string\<close> holds the UTF-16 code units 0..255 of a JavaScript string), white space as
    \<^verbatim>\<open>String.prototype.trim\<close> removes it, decimal printing of integers;
  \<^item> \<open>isNonEmptyString\<close>, the check that every package repeats;
  \<^item> the runs of a claim operation and the locale \<open>one_shot\<close>, the contract of every
    component that hands a key out at most once (permit nonces, approvals, runtime permits).
\<close>

section \<open>Values of the language\<close>

text \<open>What a call can throw. The string is the message.\<close>

datatype js_error = TypeError string | RangeError string | JsError string

type_synonym 'a result = "js_error + 'a"

text \<open>
  White space and line terminators among the code units 0..255 (ECMAScript: TAB, LF, VT, FF,
  CR, SP, NBSP).
\<close>

definition is_ws :: "char \<Rightarrow> bool" where
  "is_ws c \<longleftrightarrow> (of_char c :: nat) \<in> {9, 10, 11, 12, 13, 32, 160}"

definition js_trim :: "string \<Rightarrow> string" where
  "js_trim s = rev (dropWhile is_ws (rev (dropWhile is_ws s)))"

definition isNonEmptyString :: "string \<Rightarrow> bool" where
  "isNonEmptyString v \<longleftrightarrow> 0 < length (js_trim v)"

text \<open>An optional property: \<^term>\<open>None\<close> is \<^verbatim>\<open>undefined\<close>.\<close>

definition isNonEmptyOpt :: "string option \<Rightarrow> bool" where
  "isNonEmptyOpt v = (case v of None \<Rightarrow> False | Some s \<Rightarrow> isNonEmptyString s)"

definition digit_char :: "nat \<Rightarrow> char" where
  "digit_char n = char_of (48 + n)"

definition is_digit :: "char \<Rightarrow> bool" where
  "is_digit c \<longleftrightarrow> 48 \<le> (of_char c :: nat) \<and> (of_char c :: nat) \<le> 57"

definition digit_val :: "char \<Rightarrow> nat" where
  "digit_val c = of_char c - 48"

text \<open>Decimal text of a natural number and of an integer, as string templates print them.\<close>

fun show_nat :: "nat \<Rightarrow> string" where
  "show_nat n = (if n < 10 then [digit_char n] else show_nat (n div 10) @ [digit_char (n mod 10)])"

declare show_nat.simps [simp del]

definition show_int :: "int \<Rightarrow> string" where
  "show_int i = (if i < 0 then CHR ''-'' # show_nat (nat (- i)) else show_nat (nat i))"

text \<open>\<^verbatim>\<open>strings.join(c)\<close> for a separator of one code unit.\<close>

fun join_sep :: "char \<Rightarrow> string list \<Rightarrow> string" where
  "join_sep c [] = []"
| "join_sep c [s] = s"
| "join_sep c (s # t # ss) = s @ c # join_sep c (t # ss)"

section \<open>Lemmas on strings\<close>

lemma isNonEmptyString_iff: "isNonEmptyString s \<longleftrightarrow> (\<exists>c \<in> set s. \<not> is_ws c)"
proof -
  have drop: "dropWhile is_ws xs = [] \<longleftrightarrow> (\<forall>c \<in> set xs. is_ws c)" for xs
    by (induction xs) auto
  have "(\<forall>c \<in> set (dropWhile is_ws xs). is_ws c) \<longleftrightarrow> (\<forall>c \<in> set xs. is_ws c)" for xs
    by (induction xs) auto
  then show ?thesis
    by (auto simp: isNonEmptyString_def js_trim_def drop)
qed

lemma isNonEmptyString_nonempty [dest]: "isNonEmptyString s \<Longrightarrow> s \<noteq> []"
  by (auto simp: isNonEmptyString_iff)

lemma isNonEmptyString_append:
  "isNonEmptyString (xs @ ys) \<longleftrightarrow> isNonEmptyString xs \<or> isNonEmptyString ys"
  by (auto simp: isNonEmptyString_iff)

lemma isNonEmptyString_Cons:
  "isNonEmptyString (c # cs) \<longleftrightarrow> \<not> is_ws c \<or> isNonEmptyString cs"
  by (auto simp: isNonEmptyString_iff)

lemma of_char_digit_char [simp]: "n < 10 \<Longrightarrow> (of_char (digit_char n) :: nat) = 48 + n"
  by (simp add: digit_char_def)

lemma digit_val_digit_char [simp]: "n < 10 \<Longrightarrow> digit_val (digit_char n) = n"
  by (simp add: digit_val_def)

lemma is_digit_digit_char [simp]: "n < 10 \<Longrightarrow> is_digit (digit_char n)"
  by (simp add: is_digit_def)

lemma show_nat_digits: "\<forall>c \<in> set (show_nat n). is_digit c"
proof (induction n rule: show_nat.induct)
  case (1 n)
  then show ?case by (subst show_nat.simps) auto
qed

lemma show_nat_nonempty [simp]: "show_nat n \<noteq> []"
  by (subst show_nat.simps) simp

text \<open>Reading digits back: the left-to-right accumulation a decimal reader does.\<close>

fun read_nat :: "nat \<Rightarrow> string \<Rightarrow> nat" where
  "read_nat acc [] = acc"
| "read_nat acc (c # cs) = read_nat (10 * acc + digit_val c) cs"

lemma read_nat_append: "read_nat acc (xs @ ys) = read_nat (read_nat acc xs) ys"
  by (induction xs arbitrary: acc) auto

lemma read_show_nat: "read_nat 0 (show_nat n) = n"
proof (induction n rule: show_nat.induct)
  case (1 n)
  show ?case
  proof (cases "n < 10")
    case True
    then show ?thesis by (simp add: show_nat.simps)
  next
    case False
    with 1 have "read_nat 0 (show_nat (n div 10)) = n div 10" by simp
    with False show ?thesis
      by (subst show_nat.simps) (simp add: read_nat_append)
  qed
qed

lemma show_nat_inject [simp]: "show_nat m = show_nat n \<longleftrightarrow> m = n"
  by (metis read_show_nat)

lemma append_sep_inject:
  "c \<notin> set xs \<Longrightarrow> c \<notin> set ys \<Longrightarrow> xs @ c # us = ys @ c # vs \<longleftrightarrow> xs = ys \<and> us = vs"
proof (induction xs arbitrary: ys)
  case Nil
  then show ?case by (cases ys) auto
next
  case (Cons x xs)
  then show ?case by (cases ys) auto
qed

text \<open>Without the separator in the parts, the joined text determines them.\<close>

lemma join_sep_inject:
  "length ss = length ts \<Longrightarrow> \<forall>s \<in> set ss \<union> set ts. c \<notin> set s \<Longrightarrow> join_sep c ss = join_sep c ts \<Longrightarrow> ss = ts"
proof (induction c ss arbitrary: ts rule: join_sep.induct)
  case (1 c)
  then show ?case by simp
next
  case (2 c s)
  then show ?case by (cases ts) auto
next
  case (3 c s t ss)
  then obtain s' t' ts' where ts: "ts = s' # t' # ts'" by (metis length_Suc_conv)
  have "s = s' \<and> join_sep c (t # ss) = join_sep c (t' # ts')"
    using 3 ts append_sep_inject [of c s s'] by simp
  moreover from this have "t # ss = t' # ts'"
    using 3(2,3) ts by (intro 3(1)) auto
  ultimately show ?case using ts by simp
qed

section \<open>Components that give a key out at most once\<close>

text \<open>
  A run of a claim operation over a list of requests, in the order given: the requests that
  succeeded and the final state.
\<close>

fun claim_run :: "('q \<Rightarrow> 's \<Rightarrow> bool \<times> 's) \<Rightarrow> 'q list \<Rightarrow> 's \<Rightarrow> 'q list \<times> 's" where
  "claim_run claim [] s = ([], s)"
| "claim_run claim (q # qs) s =
     (let (ok, s') = claim q s; (won, s'') = claim_run claim qs s'
      in (if ok then q # won else won, s''))"

text \<open>
  The contract: a claim that wins finds its key unused and marks it, and no claim ever frees a
  key. A losing claim may mark keys too (a permit that is burned by a failing store).
\<close>

locale one_shot =
  fixes claim :: "'q \<Rightarrow> 's \<Rightarrow> bool \<times> 's"
    and key :: "'q \<Rightarrow> 'k"
    and used :: "'s \<Rightarrow> 'k set"
  assumes claim_wins: "claim q s = (True, s') \<Longrightarrow> key q \<notin> used s \<and> key q \<in> used s'"
    and claim_mono: "claim q s = (ok, s') \<Longrightarrow> used s \<subseteq> used s'"
begin

lemma claim_run_inv:
  "claim_run claim qs s = (won, s') \<Longrightarrow>
     distinct (map key won) \<and> key ` set won \<inter> used s = {} \<and>
     used s \<union> key ` set won \<subseteq> used s' \<and> set won \<subseteq> set qs"
proof (induction qs arbitrary: s won)
  case Nil
  then show ?case by simp
next
  case (Cons q qs)
  obtain ok t where c: "claim q s = (ok, t)" by fastforce
  obtain won' where r: "claim_run claim qs t = (won', s')"
    and w: "won = (if ok then q # won' else won')"
    using Cons.prems c by (auto split: prod.splits)
  note IH = Cons.IH [OF r] and mono = claim_mono [OF c]
  show ?case
  proof (cases ok)
    case True
    with c have "key q \<notin> used s" "key q \<in> used t" using claim_wins by auto
    with IH w True mono show ?thesis by auto
  next
    case False
    with IH w mono show ?thesis by auto
  qed
qed

lemma claimed_at_most_once:
  assumes "claim_run claim qs s = (won, s')"
  shows "distinct (map key won)"
  using claim_run_inv [OF assms] by simp

lemma used_never_claimed:
  assumes "claim_run claim qs s = (won, s')" and "k \<in> used s"
  shows "k \<notin> key ` set won \<and> k \<in> used s'"
  using claim_run_inv [OF assms(1)] assms(2) by auto

end

text \<open>Stores whose losing claims change nothing: the used keys are exactly the won ones.\<close>

locale exact_one_shot =
  fixes claim :: "'q \<Rightarrow> 's \<Rightarrow> bool \<times> 's"
    and key :: "'q \<Rightarrow> 'k"
    and used :: "'s \<Rightarrow> 'k set"
  assumes exact_wins: "claim q s = (True, s') \<Longrightarrow> key q \<notin> used s \<and> used s' = insert (key q) (used s)"
    and exact_loses: "claim q s = (False, s') \<Longrightarrow> used s' = used s"

sublocale exact_one_shot \<subseteq> one_shot
proof
  show "key q \<notin> used s \<and> key q \<in> used s'" if "claim q s = (True, s')" for q s s'
    using exact_wins [OF that] by simp
  show "used s \<subseteq> used s'" if "claim q s = (ok, s')" for q s ok s'
    using that exact_wins exact_loses by (cases ok) auto
qed

context exact_one_shot
begin

lemma claim_run_used:
  "claim_run claim qs s = (won, s') \<Longrightarrow> used s' = used s \<union> key ` set won"
proof (induction qs arbitrary: s won)
  case Nil
  then show ?case by simp
next
  case (Cons q qs)
  obtain ok t where c: "claim q s = (ok, t)" by fastforce
  obtain won' where r: "claim_run claim qs t = (won', s')"
    and w: "won = (if ok then q # won' else won')"
    using Cons.prems c by (auto split: prod.splits)
  show ?case
    using Cons.IH [OF r] w c exact_wins exact_loses by (cases ok) auto
qed

end

end
