(* ===== verification/Topological_Sort.thy ===== *)
theory Topological_Sort
  imports Prelude "HOL-Library.Multiset"
begin

text \<open>
  What the two topological sorts of the repository share: \<^verbatim>\<open>resolveBootOrder\<close> of
  \<^verbatim>\<open>kernel/src/dependency-graph.ts\<close> and \<^verbatim>\<open>validateExecutionGraph\<close> of
  \<^verbatim>\<open>orchestrator/src/execution-graph.ts\<close>. Both are Kahn's algorithm and differ in how they sort the ready
  list and when. A graph is seen here as the list of its nodes with their dependencies; the contract
  of the loop is the locale \<^verbatim>\<open>kahn\<close>: the ready list after a step is the relaxed one in some order. Its
  lemmas say what the final order is; each component interprets it on its own loop.
\<close>

section \<open>Sorting and sets of the language\<close>

text \<open>\<^verbatim>\<open>new Set(xs)\<close> as a list: the first occurrences, in order.\<close>

fun js_unique :: "string list \<Rightarrow> string list \<Rightarrow> string list" where
  "js_unique seen [] = []"
| "js_unique seen (x # xs) = (if x \<in> set seen then js_unique seen xs else x # js_unique (x # seen) xs)"

fun join_ids :: "string list \<Rightarrow> string" where
  "join_ids [] = []"
| "join_ids [x] = x"
| "join_ids (x # y # ys) = x @ '', '' @ join_ids (y # ys)"

text \<open>A stable sort by a comparison function.\<close>

fun insert_by :: "(string \<Rightarrow> string \<Rightarrow> int) \<Rightarrow> string \<Rightarrow> string list \<Rightarrow> string list" where
  "insert_by cmp x [] = [x]"
| "insert_by cmp x (y # ys) = (if cmp x y \<le> 0 then x # y # ys else y # insert_by cmp x ys)"

definition js_sort :: "(string \<Rightarrow> string \<Rightarrow> int) \<Rightarrow> string list \<Rightarrow> string list" where
  "js_sort cmp xs = foldr (insert_by cmp) xs []"

lemma insert_by_set [simp]: "set (insert_by cmp x ys) = insert x (set ys)"
  and insert_by_length [simp]: "length (insert_by cmp x ys) = Suc (length ys)"
  and insert_by_distinct [simp]: "distinct (insert_by cmp x ys) \<longleftrightarrow> x \<notin> set ys \<and> distinct ys"
  by (induction ys) auto

lemma js_sort_set [simp]: "set (js_sort cmp xs) = set xs"
  and js_sort_length [simp]: "length (js_sort cmp xs) = length xs"
  and js_sort_distinct [simp]: "distinct (js_sort cmp xs) \<longleftrightarrow> distinct xs"
  by (induction xs) (auto simp: js_sort_def)

lemma insert_by_mset [simp]: "mset (insert_by cmp x ys) = add_mset x (mset ys)"
  by (induction ys) auto

lemma js_sort_mset [simp]: "mset (js_sort cmp xs) = mset xs"
  by (induction xs) (auto simp: js_sort_def)

lemma js_unique_set: "set (js_unique seen xs) = set xs - set seen"
  by (induction seen xs rule: js_unique.induct) auto

section \<open>The step of the loop\<close>

fun relax :: "string list \<Rightarrow> (string \<Rightarrow> int) \<Rightarrow> string list \<Rightarrow> (string \<Rightarrow> int) \<times> string list" where
  "relax [] deg ready = (deg, ready)"
| "relax (d # ds) deg ready =
     (let degree = deg d - 1 in relax ds (deg(d := degree)) (if degree = 0 then ready @ [d] else ready))"


type_synonym graph = "(string \<times> string list) list"

definition node_ids :: "graph \<Rightarrow> string set" where
  "node_ids g = fst ` set g"

definition unique_nodes :: "graph \<Rightarrow> bool" where
  "unique_nodes g \<longleftrightarrow> distinct (map fst g)"

text \<open>The ids of the dependents of \<open>i\<close>, one per occurrence of \<open>i\<close> among the dependencies.\<close>

definition dependents_of :: "graph \<Rightarrow> string \<Rightarrow> string list" where
  "dependents_of g i = concat (map (\<lambda>n. map (\<lambda>d. fst n) (filter (\<lambda>d. d = i) (snd n))) g)"

text \<open>The measure of the loop: ready nodes and nodes whose in-degree is still positive.\<close>

definition waiting :: "string set \<Rightarrow> (string \<Rightarrow> int) \<Rightarrow> string set" where
  "waiting I deg = {i \<in> I. 0 < deg i}"

lemma waiting_finite [simp]: "finite I \<Longrightarrow> finite (waiting I deg)"
  by (simp add: waiting_def)

lemma relax_measure:
  assumes "finite I"
  shows "set ds \<subseteq> I \<Longrightarrow> relax ds deg ready = (deg', ready') \<Longrightarrow>
     length ready' + card (waiting I deg') \<le> length ready + card (waiting I deg)"
proof (induction ds arbitrary: deg ready)
  case (Cons d ds)
  let ?deg = "deg(d := deg d - 1)" and ?ready = "if deg d = 1 then ready @ [d] else ready"
  have "relax ds ?deg ?ready = (deg', ready')" using Cons.prems(2) by simp
  then have "length ready' + card (waiting I deg') \<le> length ?ready + card (waiting I ?deg)" using Cons by simp
  also have "\<dots> \<le> length ready + card (waiting I deg)"
  proof (cases "deg d = 1")
    case True
    then have "waiting I ?deg = waiting I deg - {d}" "d \<in> waiting I deg" using Cons.prems(1) by (auto simp: waiting_def)
    then show ?thesis using True card_Suc_Diff1 [of "waiting I deg" d] assms by simp
  next
    case False
    have "waiting I ?deg \<subseteq> waiting I deg" by (auto simp: waiting_def)
    then show ?thesis using False assms by (simp add: card_mono)
  qed
  finally show ?case .
qed simp

lemma dependents_of_ids: "set (dependents_of g i) \<subseteq> node_ids g"
  by (auto simp: dependents_of_def node_ids_def)

lemma dependents_of_Cons: "dependents_of (n # g) i = replicate (count_list (snd n) i) (fst n) @ dependents_of g i"
proof -
  have "map (\<lambda>d. x) (filter (\<lambda>d. d = i) ds) = replicate (count_list ds i) x" for x :: string and ds
    by (induction ds) auto
  then show ?thesis by (simp add: dependents_of_def)
qed

lemma count_replicate: "count_list (replicate k x) y = (if x = y then k else 0)"
  by (induction k) auto

lemma count_dependents_out: "i \<notin> node_ids g \<Longrightarrow> count_list (dependents_of g n) i = 0"
  using dependents_of_ids [of g n] by (auto simp: count_list_0_iff)

lemma count_dependents:
  "unique_nodes g \<Longrightarrow> (i, ds) \<in> set g \<Longrightarrow> count_list (dependents_of g n) i = count_list ds n"
proof (induction g)
  case (Cons a g)
  show ?case
  proof (cases "(i, ds) = a")
    case True
    then have "i \<notin> node_ids g" using Cons.prems(1) by (force simp: unique_nodes_def node_ids_def)
    then show ?thesis using True by (auto simp: dependents_of_Cons count_replicate count_dependents_out)
  next
    case False
    then have "i \<in> fst ` set g" using Cons.prems(2) by (force simp: image_iff)
    then have "fst a \<noteq> i" using Cons.prems(1) by (auto simp: unique_nodes_def)
    then show ?thesis using False Cons by (simp add: dependents_of_Cons count_replicate unique_nodes_def)
  qed
qed simp

lemma relax_spec:
  "(\<And>i. int (count_list ds i) \<le> deg i \<or> count_list ds i = 0) \<Longrightarrow>
     \<exists>new. relax ds deg ready = (\<lambda>i. deg i - int (count_list ds i), ready @ new) \<and> distinct new \<and>
       set new = {i. i \<in> set ds \<and> deg i = int (count_list ds i)}"
proof (induction ds arbitrary: deg ready)
  case (Cons d ds)
  let ?deg = "deg(d := deg d - 1)"
  have h: "int (count_list ds i) \<le> ?deg i \<or> count_list ds i = 0" for i
    using Cons.prems [of i] by (cases "i = d") auto
  have e: "(\<lambda>i. ?deg i - int (count_list ds i)) = (\<lambda>i. deg i - int (count_list (d # ds) i))" by (auto simp: fun_eq_iff)
  show ?case
  proof (cases "deg d = 1")
    case True
    then have "count_list ds d = 0" using Cons.prems [of d] by simp
    then have d: "d \<notin> set ds" by (simp add: count_list_0_iff)
    obtain new where n: "relax ds ?deg (ready @ [d]) = (\<lambda>i. ?deg i - int (count_list ds i), (ready @ [d]) @ new)" "distinct new"
      "set new = {i. i \<in> set ds \<and> ?deg i = int (count_list ds i)}" using Cons.IH [OF h] by blast
    have "set (d # new) = {i. i \<in> set (d # ds) \<and> deg i = int (count_list (d # ds) i)}"
      using n(3) d True by (auto simp: count_notin)
    then show ?thesis using n d True unfolding e by (intro exI [of _ "d # new"]) simp
  next
    case False
    obtain new where n: "relax ds ?deg ready = (\<lambda>i. ?deg i - int (count_list ds i), ready @ new)" "distinct new"
      "set new = {i. i \<in> set ds \<and> ?deg i = int (count_list ds i)}" using Cons.IH [OF h] by blast
    have "set new = {i. i \<in> set (d # ds) \<and> deg i = int (count_list (d # ds) i)}"
      using n(3) False by (auto simp: count_notin)
    then show ?thesis using n False unfolding e by (intro exI [of _ new]) simp
  qed
qed simp

section \<open>The invariant of the loop\<close>

definition topological_order :: "graph \<Rightarrow> string list \<Rightarrow> bool" where
  "topological_order g order \<longleftrightarrow>
     (\<forall>xs i ys. order = xs @ i # ys \<longrightarrow> (\<forall>ds. (i, ds) \<in> set g \<longrightarrow> set ds \<subseteq> set xs))"

definition remaining :: "string list \<Rightarrow> string list \<Rightarrow> nat" where
  "remaining order ds = length (filter (\<lambda>d. d \<notin> set order) ds)"

definition kahn_inv :: "graph \<Rightarrow> (string \<Rightarrow> int) \<Rightarrow> string list \<Rightarrow> string list \<Rightarrow> bool" where
  "kahn_inv g deg ready order \<longleftrightarrow>
     distinct (order @ ready) \<and> set (order @ ready) \<subseteq> node_ids g \<and>
     (\<forall>i ds. (i, ds) \<in> set g \<longrightarrow> deg i = int (remaining order ds) \<and> (deg i = 0 \<longleftrightarrow> i \<in> set (order @ ready))) \<and>
     topological_order g order"

lemma remaining_snoc: "n \<notin> set order \<Longrightarrow> remaining order ds = remaining (order @ [n]) ds + count_list ds n"
  unfolding remaining_def by (induction ds) auto

lemma remaining_0: "remaining order ds = 0 \<longleftrightarrow> set ds \<subseteq> set order"
  by (auto simp: remaining_def filter_empty_conv)

lemma topological_snoc:
  assumes "topological_order g order" "\<And>ds. (n, ds) \<in> set g \<Longrightarrow> set ds \<subseteq> set order"
  shows "topological_order g (order @ [n])"
  unfolding topological_order_def
proof (intro allI impI)
  fix xs i ys ds assume o: "order @ [n] = xs @ i # ys" and d: "(i, ds) \<in> set g"
  from o consider "ys = []" "xs = order" "i = n" | zs where "ys = zs @ [n]" "order = xs @ i # zs"
    by (cases ys rule: rev_cases) auto
  then show "set ds \<subseteq> set xs" using assms d unfolding topological_order_def by cases blast+
qed

lemma kahn_inv_mset: "mset ready = mset ready' \<Longrightarrow> kahn_inv g deg ready order \<longleftrightarrow> kahn_inv g deg ready' order"
  using mset_eq_setD [of ready ready'] mset_eq_imp_distinct_iff [of ready ready'] by (simp add: kahn_inv_def)

lemma kahn_inv_step:
  assumes u: "unique_nodes g" and i: "kahn_inv g deg (n # ready) order"
    and r: "relax (dependents_of g n) deg ready = (deg', ready')"
  shows "kahn_inv g deg' ready' (order @ [n])"
proof -
  let ?c = "\<lambda>i. count_list (dependents_of g n) i"
  have n: "n \<notin> set order" "distinct (order @ n # ready)" "set (order @ n # ready) \<subseteq> node_ids g"
    using i by (auto simp: kahn_inv_def)
  have all: "deg j = int (remaining order ds) \<and> (deg j = 0 \<longleftrightarrow> j \<in> set (order @ n # ready))" if "(j, ds) \<in> set g" for j ds
    using i that unfolding kahn_inv_def by blast
  have deg: "deg j = int (remaining (order @ [n]) ds + ?c j)" "deg j = 0 \<longleftrightarrow> j \<in> set (order @ n # ready)"
    if "(j, ds) \<in> set g" for j ds
    using all [OF that] remaining_snoc [OF n(1), of ds] count_dependents [OF u that, of n] by auto
  have "int (?c j) \<le> deg j \<or> ?c j = 0" for j
    using deg(1) [of j] count_dependents_out [of j g n] by (cases "j \<in> node_ids g") (auto simp: node_ids_def)
  then obtain new where s: "deg' = (\<lambda>j. deg j - int (?c j))" "ready' = ready @ new" "distinct new"
    "set new = {j. j \<in> set (dependents_of g n) \<and> deg j = int (?c j)}"
    using relax_spec [of "dependents_of g n" deg ready] r by force
  have in_new: "j \<in> set new \<longleftrightarrow> 0 < ?c j \<and> remaining (order @ [n]) ds = 0" if "(j, ds) \<in> set g" for j ds
    using count_list_0_iff [of "dependents_of g n" j] deg(1) [OF that] by (auto simp: s(4))
  have new_ids: "set new \<subseteq> node_ids g" using s(4) dependents_of_ids [of g n] by auto
  have fresh: "set new \<inter> set (order @ n # ready) = {}"
  proof -
    have False if j: "j \<in> set new" "j \<in> set (order @ n # ready)" for j
    proof -
      obtain ds where "(j, ds) \<in> set g" using j(1) new_ids by (force simp: node_ids_def)
      then show False using deg [of j ds] in_new [of j ds] j by simp
    qed
    then show ?thesis by blast
  qed
  have "deg j - int (?c j) = int (remaining (order @ [n]) ds) \<and>
      (deg j - int (?c j) = 0 \<longleftrightarrow> j \<in> set ((order @ [n]) @ ready @ new))" if g: "(j, ds) \<in> set g" for j ds
    using deg [OF g] in_new [OF g] by auto
  moreover have "topological_order g (order @ [n])"
  proof (rule topological_snoc)
    show "topological_order g order" using i by (simp add: kahn_inv_def)
    show "set ds \<subseteq> set order" if "(n, ds) \<in> set g" for ds
      using i that remaining_0 [of order ds] unfolding kahn_inv_def by fastforce
  qed
  moreover have "distinct ((order @ [n]) @ ready @ new)" "set ((order @ [n]) @ ready @ new) \<subseteq> node_ids g"
    using n s(3) fresh new_ids by auto
  ultimately show ?thesis unfolding kahn_inv_def s(1,2) by blast
qed

definition closed_graph :: "graph \<Rightarrow> bool" where
  "closed_graph g \<longleftrightarrow> (\<forall>(i, ds) \<in> set g. set ds \<subseteq> node_ids g)"

definition in_degrees :: "graph \<Rightarrow> (string \<Rightarrow> int) \<Rightarrow> bool" where
  "in_degrees g deg \<longleftrightarrow> (\<forall>i ds. (i, ds) \<in> set g \<longrightarrow> deg i = int (length ds))"

lemma kahn_inv_start:
  assumes "unique_nodes g" "in_degrees g deg"
  shows "kahn_inv g deg (map fst (filter (\<lambda>n. deg (fst n) = 0) g)) []"
proof -
  have "distinct (map fst (filter P g))" for P using assms(1) by (simp add: unique_nodes_def distinct_map_filter)
  moreover have "remaining [] ds = length ds" for ds by (simp add: remaining_def)
  ultimately show ?thesis using assms(2)
    by (force simp: kahn_inv_def topological_order_def node_ids_def in_degrees_def)
qed

section \<open>The contract of the loop\<close>

locale kahn =
  fixes g :: graph and loop :: "(string \<Rightarrow> int) \<Rightarrow> string list \<Rightarrow> string list \<Rightarrow> string list"
  assumes loop_Nil: "loop deg [] order = order"
    and loop_Cons: "relax (dependents_of g n) deg ready = (deg', ready') \<Longrightarrow>
      \<exists>ready''. mset ready'' = mset ready' \<and> loop deg (n # ready) order = loop deg' ready'' (order @ [n])"
begin

lemma loop_inv:
  assumes "unique_nodes g"
  shows "kahn_inv g deg ready order \<Longrightarrow> \<exists>deg'. kahn_inv g deg' [] (loop deg ready order)"
proof (induction "card (node_ids g) - length order" arbitrary: deg ready order rule: less_induct)
  case less
  show ?case
  proof (cases ready)
    case Nil
    then show ?thesis using less.prems by (auto simp: loop_Nil)
  next
    case (Cons n rest)
    obtain deg' ready' where r: "relax (dependents_of g n) deg rest = (deg', ready')" by fastforce
    obtain ready'' where s: "mset ready'' = mset ready'" "loop deg (n # rest) order = loop deg' ready'' (order @ [n])"
      using loop_Cons [OF r] by blast
    have "kahn_inv g deg' ready'' (order @ [n])"
      using kahn_inv_step [OF assms _ r, of order] less.prems Cons kahn_inv_mset [OF s(1)] by simp
    moreover have "length order < card (node_ids g)"
    proof -
      have "distinct (order @ [n])" "set (order @ [n]) \<subseteq> node_ids g" using less.prems Cons by (auto simp: kahn_inv_def)
      then show ?thesis using card_mono [of "node_ids g" "set (order @ [n])"] distinct_card [of "order @ [n]"]
        by (simp add: node_ids_def)
    qed
    ultimately show ?thesis using less.hyps [of "order @ [n]"] s(2) Cons by simp
  qed
qed

lemma loop_start:
  assumes "unique_nodes g" "in_degrees g deg" "mset ready = mset (map fst (filter (\<lambda>n. deg (fst n) = 0) g))"
  obtains deg' where "kahn_inv g deg' [] (loop deg ready [])"
  using loop_inv [OF assms(1)] kahn_inv_mset [OF assms(3)] kahn_inv_start [OF assms(1,2)] by blast

lemma full_order:
  assumes "unique_nodes g" "distinct order" "set order \<subseteq> node_ids g"
  shows "length order = length g \<longleftrightarrow> set order = node_ids g"
proof -
  have "card (node_ids g) = length g"
    using assms(1) distinct_card [of "map fst g"] by (simp add: unique_nodes_def node_ids_def)
  moreover have "card (set order) = length order" using assms(2) by (rule distinct_card)
  ultimately show ?thesis using assms(3) card_subset_eq [of "node_ids g" "set order"] by (auto simp: node_ids_def)
qed

lemma no_order_of_stuck:
  assumes "topological_order g order" "set order = node_ids g" "C \<noteq> {}" "C \<subseteq> node_ids g"
    "\<And>i ds. (i, ds) \<in> set g \<Longrightarrow> i \<in> C \<Longrightarrow> \<exists>d \<in> set ds. d \<in> C"
  shows False
proof -
  have "\<exists>x \<in> set order. x \<in> C" using assms(2-4) by blast
  then obtain xs x ys where o: "order = xs @ x # ys" "x \<in> C" "\<forall>y \<in> set xs. y \<notin> C"
    using split_list_first_prop [of order "\<lambda>x. x \<in> C"] by blast
  then obtain ds where m: "(x, ds) \<in> set g" using assms(4) by (auto simp: node_ids_def)
  then have "set ds \<subseteq> set xs" using assms(1) o(1) unfolding topological_order_def by blast
  moreover obtain d where "d \<in> set ds" "d \<in> C" using assms(5) [OF m] o(2) by blast
  ultimately show False using o(3) by blast
qed

text \<open>
  The final order of the loop: it is topological; when it is not full, the nodes left out are stuck on
  each other and no order of the whole graph exists.
\<close>

lemma loop_result:
  assumes "unique_nodes g" "in_degrees g deg" "mset ready = mset (map fst (filter (\<lambda>n. deg (fst n) = 0) g))"
    and "closed_graph g"
  defines "order \<equiv> loop deg ready []"
  shows "distinct order" "set order \<subseteq> node_ids g" "topological_order g order"
    "length order = length g \<longleftrightarrow> set order = node_ids g"
    "\<And>i ds. (i, ds) \<in> set g \<Longrightarrow> i \<notin> set order \<Longrightarrow> \<exists>d \<in> set ds. d \<in> node_ids g - set order"
    "length order \<noteq> length g \<Longrightarrow> set ord = node_ids g \<Longrightarrow> \<not> topological_order g ord"
proof -
  obtain deg' where i: "kahn_inv g deg' [] order" using loop_start [OF assms(1-3)] unfolding order_def by blast
  then show o: "distinct order" "set order \<subseteq> node_ids g" "topological_order g order" by (auto simp: kahn_inv_def)
  show f: "length order = length g \<longleftrightarrow> set order = node_ids g" using full_order [OF assms(1) o(1,2)] .
  show stuck: "\<exists>d \<in> set ds. d \<in> node_ids g - set order" if "(j, ds) \<in> set g" "j \<notin> set order" for j ds
  proof -
    have "remaining order ds \<noteq> 0" using i that unfolding kahn_inv_def by force
    then show ?thesis using remaining_0 [of order ds] assms(4) that(1) by (fastforce simp: closed_graph_def)
  qed
  show "\<not> topological_order g ord" if "length order \<noteq> length g" "set ord = node_ids g"
  proof
    assume "topological_order g ord"
    then show False using no_order_of_stuck [of ord "node_ids g - set order"] that f o(2) stuck by blast
  qed
qed

end

end
