(* ===== verification/Workflow.thy ===== *)
theory Workflow
  imports Topological_Sort
begin

text \<open>
  \<^verbatim>\<open>orchestrator/src/execution-graph.ts\<close> and \<^verbatim>\<open>orchestrator/src/workflow.ts\<close>: the execution graph of a
  plan, its validation, and the engine that runs the nodes in topological order and skips what depends
  on a node that did not succeed. The step runner is a parameter that works on a state of its own and
  may throw; \<^verbatim>\<open>Orchestrator\<close> instantiates it with the pipeline.
\<close>

section \<open>execution-graph.ts\<close>

record ExecutionNode =
  nd_id :: string
  nd_action :: string
  nd_dependsOn :: "string list"

record ExecutionGraph =
  gr_nodes :: "ExecutionNode list"

datatype GraphReason = Duplicate_node | Missing_dependency | Cycle

datatype ExecutionGraphValidation =
  Graph_ok "string list" | Graph_bad GraphReason string "string list"

text \<open>The loop that fills \<^verbatim>\<open>byId\<close> and stops at the first id that it already has.\<close>

fun first_duplicate :: "string list \<Rightarrow> ExecutionNode list \<Rightarrow> string option" where
  "first_duplicate seen [] = None"
| "first_duplicate seen (n # ns) = (if nd_id n \<in> set seen then Some (nd_id n) else first_duplicate (nd_id n # seen) ns)"

definition node_byId :: "ExecutionNode list \<Rightarrow> string \<Rightarrow> ExecutionNode option" where
  "node_byId ns i = map_of (rev (map (\<lambda>n. (nd_id n, n)) ns)) i"

definition node_missing :: "ExecutionNode list \<Rightarrow> string list" where
  "node_missing ns = concat (map (\<lambda>n. filter (\<lambda>d. node_byId ns d = None) (nd_dependsOn n)) ns)"

definition node_inDegree :: "ExecutionNode list \<Rightarrow> string \<Rightarrow> int" where
  "node_inDegree ns i = (case node_byId ns i of Some n \<Rightarrow> int (length (nd_dependsOn n)) | None \<Rightarrow> 0)"

definition node_dependents :: "ExecutionNode list \<Rightarrow> string \<Rightarrow> string list" where
  "node_dependents ns i = concat (map (\<lambda>n. map (\<lambda>d. nd_id n) (filter (\<lambda>d. d = i) (nd_dependsOn n))) ns)"

text \<open>One node was taken: its dependents lose a degree, and the ready list is sorted at each push.\<close>

fun relax_sorted :: "string list \<Rightarrow> (string \<Rightarrow> int) \<Rightarrow> string list \<Rightarrow> (string \<Rightarrow> int) \<times> string list" where
  "relax_sorted [] deg ready = (deg, ready)"
| "relax_sorted (d # ds) deg ready =
     (let degree = deg d - 1
      in relax_sorted ds (deg(d := degree)) (if degree = 0 then sort (ready @ [d]) else ready))"

definition graph_view :: "ExecutionNode list \<Rightarrow> graph" where
  "graph_view ns = map (\<lambda>n. (nd_id n, nd_dependsOn n)) ns"

lemma node_dependents_view: "node_dependents ns i = dependents_of (graph_view ns) i"
  by (simp add: node_dependents_def dependents_of_def graph_view_def comp_def)

lemma relax_sorted_relax:
  "mset ready = mset ready' \<Longrightarrow> relax ds deg ready' = (deg1, r1) \<Longrightarrow>
     \<exists>r2. relax_sorted ds deg ready = (deg1, r2) \<and> mset r2 = mset r1"
proof (induction ds arbitrary: deg ready ready')
  case (Cons d ds)
  show ?case
  proof (cases "deg d = 1")
    case True
    then show ?thesis using Cons.IH [of "sort (ready @ [d])" "ready' @ [d]" "deg(d := 0)"] Cons.prems by (simp add: fun_upd_def)
  next
    case False
    then show ?thesis using Cons.IH [of ready ready' "deg(d := deg d - 1)"] Cons.prems by (simp add: fun_upd_def)
  qed
qed simp

lemma node_ids_finite [simp]: "finite (node_ids g)"
  by (simp add: node_ids_def)

lemma relax_sorted_measure:
  assumes "relax_sorted (node_dependents ns i) deg ready = (deg', ready')"
  shows "length ready' + card (waiting (node_ids (graph_view ns)) deg') \<le> length ready + card (waiting (node_ids (graph_view ns)) deg)"
proof -
  obtain deg1 r1 where r: "relax (node_dependents ns i) deg ready = (deg1, r1)" by fastforce
  then have "deg1 = deg'" "length r1 = length ready'"
    using relax_sorted_relax [OF refl r] assms mset_eq_length by force+
  then show ?thesis
    using relax_measure [OF node_ids_finite dependents_of_ids, of "graph_view ns" i deg ready deg1 r1] r
    by (simp add: node_dependents_view)
qed

function graph_loop :: "ExecutionNode list \<Rightarrow> (string \<Rightarrow> int) \<Rightarrow> string list \<Rightarrow> string list \<Rightarrow> string list" where
  "graph_loop ns deg [] order = order"
| "graph_loop ns deg (next # ready) order =
     (let (deg', ready') = relax_sorted (node_dependents ns next) deg ready in graph_loop ns deg' ready' (order @ [next]))"
  by pat_completeness auto
termination
proof (relation "measure (\<lambda>(ns, deg, ready, order). length ready + card (waiting (node_ids (graph_view ns)) deg))")
  fix ns deg "next" ready order x deg' ready'
  assume "x = relax_sorted (node_dependents ns next) deg ready" "(deg', ready') = x"
  then show "((ns, deg', ready', order @ [next]), ns, deg, next # ready, order)
      \<in> measure (\<lambda>(ns, deg, ready, order). length ready + card (waiting (node_ids (graph_view ns)) deg))"
    using relax_sorted_measure [of ns "next" deg ready deg' ready'] by simp
qed simp

definition validateExecutionGraph :: "ExecutionGraph \<Rightarrow> ExecutionGraphValidation" where
  "validateExecutionGraph graph =
     (let ns = gr_nodes graph in
      case first_duplicate [] ns of
        Some i \<Rightarrow> Graph_bad Duplicate_node (''Duplicate node id '' @ [CHR 0x27] @ i @ [CHR 0x27] @ ''.'') [i]
      | None \<Rightarrow>
          (let missing = js_unique [] (node_missing ns) in
           if node_missing ns \<noteq> [] then
             Graph_bad Missing_dependency (''Unknown dependencies: '' @ join_ids missing @ ''.'') missing
           else
             (let deg = node_inDegree ns;
                  ready = sort (map nd_id (filter (\<lambda>n. deg (nd_id n) = 0) ns));
                  order = graph_loop ns deg ready []
              in if length order \<noteq> length ns then
                   (let cycle = filter (\<lambda>i. i \<notin> set order) (map nd_id ns) in
                    Graph_bad Cycle (''Execution cycle detected among: '' @ join_ids cycle @ ''.'') cycle)
                 else Graph_ok order)))"

definition dependentsOf :: "ExecutionGraph \<Rightarrow> string \<Rightarrow> string list" where
  "dependentsOf graph nodeId = map nd_id (filter (\<lambda>n. nodeId \<in> set (nd_dependsOn n)) (gr_nodes graph))"

section \<open>workflow.ts\<close>

record 'm WorkflowIntent =
  wi_intentId :: string
  wi_goal :: string
  wi_correlationId :: string
  wi_metadata :: "'m option"

record WorkflowPlan =
  wfp_planId :: string
  wfp_intentId :: string
  wfp_graph :: ExecutionGraph

datatype WorkflowStepStatus = Step_succeeded | Step_failed | Step_skipped

record 'o WorkflowStepResult =
  sr_nodeId :: string
  sr_action :: string
  sr_status :: WorkflowStepStatus
  sr_output :: "'o option"
  sr_error :: "string option"

datatype WorkflowStatus = Wf_succeeded | Wf_partial | Wf_failed | Wf_invalid

record 'o WorkflowResult =
  wr_workflowId :: string
  wr_planId :: string
  wr_status :: WorkflowStatus
  wr_steps :: "'o WorkflowStepResult list"
  wr_detail :: "string option"

text \<open>
  A runner is called with a node and the context, and either returns a result or throws: \<open>Inl (Some m)\<close>
  is an \<^verbatim>\<open>Error\<close> with message \<open>m\<close>, \<open>Inl None\<close> any other value.
\<close>

type_synonym ('o, 's) WorkflowStepRunner =
  "ExecutionNode \<Rightarrow> string \<Rightarrow> 's \<Rightarrow> (string option + 'o WorkflowStepResult) \<times> 's"

definition skipped_result :: "ExecutionNode \<Rightarrow> string \<Rightarrow> string \<Rightarrow> 'o WorkflowStepResult" where
  "skipped_result n nodeId blockedBy =
     \<lparr> sr_nodeId = nodeId, sr_action = nd_action n, sr_status = Step_skipped, sr_output = None,
       sr_error = Some (''Skipped: dependency '' @ [CHR 0x27] @ blockedBy @ [CHR 0x27] @ '' did not succeed.'') \<rparr>"

definition step_result :: "ExecutionNode \<Rightarrow> string \<Rightarrow> (string option + 'o WorkflowStepResult) \<Rightarrow> 'o WorkflowStepResult" where
  "step_result n nodeId r =
     (case r of
        Inr result \<Rightarrow> result
      | Inl message \<Rightarrow>
          \<lparr> sr_nodeId = nodeId, sr_action = nd_action n, sr_status = Step_failed, sr_output = None,
            sr_error = Some (case message of Some m \<Rightarrow> m | None \<Rightarrow> ''step_failed'') \<rparr>)"

text \<open>The dependency that blocks a node; an empty id counts as none, as in the condition of the source.\<close>

definition blockedBy :: "string list \<Rightarrow> ExecutionNode \<Rightarrow> string option" where
  "blockedBy failedOrSkipped n =
     (case find (\<lambda>d. d \<in> set failedOrSkipped) (nd_dependsOn n) of
        Some d \<Rightarrow> if d = [] then None else Some d
      | None \<Rightarrow> None)"

fun run_nodes ::
  "('o, 's) WorkflowStepRunner \<Rightarrow> string \<Rightarrow> ExecutionNode list \<Rightarrow> string list \<Rightarrow>
   (string \<rightharpoonup> 'o WorkflowStepResult) \<Rightarrow> string list \<Rightarrow> 's \<Rightarrow> (string \<rightharpoonup> 'o WorkflowStepResult) \<times> 's" where
  "run_nodes runner ctx ns [] results failed s = (results, s)"
| "run_nodes runner ctx ns (nodeId # order) results failed s =
     (case node_byId ns nodeId of
        None \<Rightarrow> run_nodes runner ctx ns order results failed s
      | Some n \<Rightarrow>
          (case blockedBy failed n of
             Some b \<Rightarrow> run_nodes runner ctx ns order (results(nodeId \<mapsto> skipped_result n nodeId b)) (nodeId # failed) s
           | None \<Rightarrow>
               (let (r, s') = runner n ctx s; result = step_result n nodeId r in
                run_nodes runner ctx ns order (results(nodeId \<mapsto> result))
                  (if sr_status result \<noteq> Step_succeeded then nodeId # failed else failed) s')))"

definition workflow_status :: "'o WorkflowStepResult list \<Rightarrow> WorkflowStatus" where
  "workflow_status steps =
     (let anyFailed = list_ex (\<lambda>r. sr_status r \<noteq> Step_succeeded) steps;
          anySucceeded = list_ex (\<lambda>r. sr_status r = Step_succeeded) steps
      in if \<not> anyFailed then Wf_succeeded else if anySucceeded then Wf_partial else Wf_failed)"

definition execute_workflow ::
  "('o, 's) WorkflowStepRunner \<Rightarrow> WorkflowPlan \<Rightarrow> string \<Rightarrow> 's \<Rightarrow> 'o WorkflowResult \<times> 's" where
  "execute_workflow runner plan ctx s =
     (case validateExecutionGraph (wfp_graph plan) of
        Graph_bad reason detail nodes \<Rightarrow>
          (\<lparr> wr_workflowId = ''wf_'' @ wfp_planId plan, wr_planId = wfp_planId plan, wr_status = Wf_invalid,
             wr_steps = [], wr_detail = Some detail \<rparr>, s)
      | Graph_ok order \<Rightarrow>
          (let (results, s') = run_nodes runner ctx (gr_nodes (wfp_graph plan)) order Map.empty [] s;
               steps = List.map_filter results order
           in (\<lparr> wr_workflowId = ''wf_'' @ wfp_planId plan, wr_planId = wfp_planId plan,
                 wr_status = workflow_status steps, wr_steps = steps, wr_detail = None \<rparr>, s')))"

section \<open>Validation\<close>

lemma first_duplicate_None: "first_duplicate seen ns = None \<longleftrightarrow> distinct (map nd_id ns) \<and> set (map nd_id ns) \<inter> set seen = {}"
  by (induction seen ns rule: first_duplicate.induct) auto

lemma first_duplicate_Some:
  "first_duplicate seen ns = Some i \<Longrightarrow>
     \<exists>xs n ys. ns = xs @ n # ys \<and> nd_id n = i \<and> i \<in> set seen \<union> set (map nd_id xs)"
proof (induction seen ns rule: first_duplicate.induct)
  case (2 seen n ns)
  show ?case
  proof (cases "nd_id n \<in> set seen")
    case True
    then show ?thesis using 2 by (intro exI [of _ "[]"]) auto
  next
    case False
    then obtain xs m ys where "ns = xs @ m # ys" "nd_id m = i" "i \<in> set (nd_id n # seen) \<union> set (map nd_id xs)"
      using 2 by auto
    then show ?thesis by (intro exI [of _ "n # xs"] exI [of _ m] exI [of _ ys]) auto
  qed
qed simp

abbreviation node_set :: "ExecutionNode list \<Rightarrow> string set" where
  "node_set ns \<equiv> set (map nd_id ns)"

lemma view_ids: "node_ids (graph_view ns) = node_set ns"
  by (simp add: node_ids_def graph_view_def image_image)

lemma view_unique: "unique_nodes (graph_view ns) \<longleftrightarrow> distinct (map nd_id ns)"
  by (simp add: unique_nodes_def graph_view_def comp_def)

lemma view_length: "length (graph_view ns) = length ns"
  by (simp add: graph_view_def)

lemma view_member: "(i, ds) \<in> set (graph_view ns) \<longleftrightarrow> (\<exists>n \<in> set ns. i = nd_id n \<and> ds = nd_dependsOn n)"
  by (auto simp: graph_view_def)

lemma node_byId_None: "node_byId ns i = None \<longleftrightarrow> i \<notin> node_set ns"
  by (simp add: node_byId_def map_of_eq_None_iff image_image)

lemma node_byId_Some:
  assumes "distinct (map nd_id ns)" "n \<in> set ns"
  shows "node_byId ns (nd_id n) = Some n"
proof -
  have "map fst (rev (map (\<lambda>n. (nd_id n, n)) ns)) = rev (map nd_id ns)" by (simp add: rev_map comp_def)
  then have "distinct (map fst (rev (map (\<lambda>n. (nd_id n, n)) ns)))" using assms(1) by (simp only: distinct_rev)
  then show ?thesis using assms(2) by (auto simp: node_byId_def intro!: map_of_is_SomeI)
qed

lemma node_missing_set: "set (node_missing ns) = {d. \<exists>n \<in> set ns. d \<in> set (nd_dependsOn n) \<and> d \<notin> node_set ns}"
  by (auto simp: node_missing_def node_byId_None)

interpretation graph_sort: kahn "graph_view ns" "graph_loop ns" for ns
proof
  fix n deg ready deg' ready' order assume "relax (dependents_of (graph_view ns) n) deg ready = (deg', ready')"
  from relax_sorted_relax [OF refl this]
  show "\<exists>ready''. mset ready'' = mset ready' \<and> graph_loop ns deg (n # ready) order = graph_loop ns deg' ready'' (order @ [n])"
    by (auto simp: node_dependents_view)
qed simp

lemma view_closed: "node_missing ns = [] \<Longrightarrow> closed_graph (graph_view ns)"
  using node_missing_set [of ns] unfolding closed_graph_def view_ids by (auto simp: graph_view_def)

lemma view_degrees: "distinct (map nd_id ns) \<Longrightarrow> in_degrees (graph_view ns) (node_inDegree ns)"
  using node_byId_Some by (auto simp: in_degrees_def view_member node_inDegree_def)

lemma view_ready:
  "mset (sort (map nd_id (filter (\<lambda>n. deg (nd_id n) = 0) ns))) = mset (map fst (filter (\<lambda>n. deg (fst n) = 0) (graph_view ns)))"
  by (simp add: graph_view_def filter_map comp_def)

definition respects_dependencies :: "ExecutionNode list \<Rightarrow> string list \<Rightarrow> bool" where
  "respects_dependencies ns order \<longleftrightarrow>
     (\<forall>xs i ys. order = xs @ i # ys \<longrightarrow> (\<forall>n \<in> set ns. nd_id n = i \<longrightarrow> set (nd_dependsOn n) \<subseteq> set xs))"

lemma respects_view: "respects_dependencies ns order \<longleftrightarrow> topological_order (graph_view ns) order"
  unfolding respects_dependencies_def topological_order_def view_member by blast

lemma graph_result:
  assumes "distinct (map nd_id ns)" "node_missing ns = []"
  defines "order \<equiv> graph_loop ns (node_inDegree ns) (sort (map nd_id (filter (\<lambda>n. node_inDegree ns (nd_id n) = 0) ns))) []"
  shows "distinct order" "set order \<subseteq> node_set ns" "respects_dependencies ns order"
    "length order = length ns \<longleftrightarrow> set order = node_set ns"
    "\<And>n. n \<in> set ns \<Longrightarrow> nd_id n \<notin> set order \<Longrightarrow> \<exists>d \<in> set (nd_dependsOn n). d \<in> node_set ns - set order"
    "length order \<noteq> length ns \<Longrightarrow> set ord = node_set ns \<Longrightarrow> \<not> respects_dependencies ns ord"
proof -
  note r = graph_sort.loop_result [OF iffD2 [OF view_unique assms(1)] view_degrees [OF assms(1)] view_ready view_closed [OF assms(2)],
      unfolded view_ids view_length respects_view [symmetric], folded order_def]
  show "distinct order" "set order \<subseteq> node_set ns" "respects_dependencies ns order"
    "length order = length ns \<longleftrightarrow> set order = node_set ns"
    "length order \<noteq> length ns \<Longrightarrow> set ord = node_set ns \<Longrightarrow> \<not> respects_dependencies ns ord"
    using r(1-4) r(6) by blast+
  show "\<exists>d \<in> set (nd_dependsOn n). d \<in> node_set ns - set order" if "n \<in> set ns" "nd_id n \<notin> set order" for n
    using r(5) [of "nd_id n" "nd_dependsOn n"] that by (auto simp: view_member)
qed

lemma validation_ok:
  assumes "validateExecutionGraph g = Graph_ok order"
  shows "distinct (map nd_id (gr_nodes g))" "distinct order" "set order = node_set (gr_nodes g)"
    "respects_dependencies (gr_nodes g) order"
proof -
  let ?ns = "gr_nodes g"
  have d: "first_duplicate [] ?ns = None" "node_missing ?ns = []"
    using assms by (auto simp: validateExecutionGraph_def Let_def split: option.splits if_splits)
  then show u: "distinct (map nd_id ?ns)" by (simp add: first_duplicate_None)
  show "distinct order" "set order = node_set ?ns" "respects_dependencies ?ns order"
    using assms graph_result [OF u d(2)] d by (auto simp: validateExecutionGraph_def Let_def split: if_splits)
qed

text \<open>
  Validation of a graph: an order it gives has every node once, after all its dependencies; a duplicate
  it reports occurs twice; the missing ids are exactly those depended on and absent; a reported cycle
  is a non-empty set of nodes each waiting for another member; and an order is found exactly when the
  ids are distinct and an order exists.
\<close>

lemma graph_validation_correct:
  "(case validateExecutionGraph g of
       Graph_ok order \<Rightarrow> distinct order \<and> set order = node_set (gr_nodes g) \<and> respects_dependencies (gr_nodes g) order
     | Graph_bad Duplicate_node detail nodes \<Rightarrow>
         \<exists>i xs n ys. nodes = [i] \<and> gr_nodes g = xs @ n # ys \<and> nd_id n = i \<and> i \<in> node_set xs
     | Graph_bad Missing_dependency detail nodes \<Rightarrow>
         nodes \<noteq> [] \<and> set nodes = {d. \<exists>n \<in> set (gr_nodes g). d \<in> set (nd_dependsOn n) \<and> d \<notin> node_set (gr_nodes g)}
     | Graph_bad Cycle detail nodes \<Rightarrow>
         nodes \<noteq> [] \<and> set nodes \<subseteq> node_set (gr_nodes g) \<and>
         (\<forall>n \<in> set (gr_nodes g). nd_id n \<in> set nodes \<longrightarrow> (\<exists>d \<in> set (nd_dependsOn n). d \<in> set nodes)) \<and>
         (\<forall>order. set order = node_set (gr_nodes g) \<longrightarrow> \<not> respects_dependencies (gr_nodes g) order))"
proof -
  let ?ns = "gr_nodes g"
  consider (dup) i where "first_duplicate [] ?ns = Some i"
    | (missing) "first_duplicate [] ?ns = None" "node_missing ?ns \<noteq> []"
    | (sorted) "first_duplicate [] ?ns = None" "node_missing ?ns = []" by fastforce
  then show ?thesis
  proof cases
    case dup
    then show ?thesis using first_duplicate_Some [OF dup] by (auto simp: validateExecutionGraph_def)
  next
    case missing
    have "set (js_unique [] (node_missing ?ns)) = set (node_missing ?ns)" by (simp add: js_unique_set)
    moreover from this have "js_unique [] (node_missing ?ns) \<noteq> []" using missing(2) by (metis set_empty)
    ultimately show ?thesis using missing by (simp add: validateExecutionGraph_def Let_def node_missing_set)
  next
    case sorted
    then have u: "distinct (map nd_id ?ns)" by (simp add: first_duplicate_None)
    let ?o = "graph_loop ?ns (node_inDegree ?ns) (sort (map nd_id (filter (\<lambda>n. node_inDegree ?ns (nd_id n) = 0) ?ns))) []"
    let ?C = "filter (\<lambda>i. i \<notin> set ?o) (map nd_id ?ns)"
    note o = graph_result [OF u sorted(2)]
    show ?thesis
    proof (cases "length ?o = length ?ns")
      case True
      then have "validateExecutionGraph g = Graph_ok ?o" using sorted by (simp add: validateExecutionGraph_def Let_def)
      then show ?thesis using o(1,3,4) True by simp
    next
      case False
      then have r: "validateExecutionGraph g = Graph_bad Cycle (''Execution cycle detected among: '' @ join_ids ?C @ ''.'') ?C"
        using sorted by (simp add: validateExecutionGraph_def Let_def)
      have C: "set ?C = node_set ?ns - set ?o" by auto
      have "set ?C \<noteq> {}" using o(2,4) False unfolding C by blast
      then have "?C \<noteq> []" by (metis set_empty)
      then show ?thesis using o(5) o(6) [OF False] unfolding r C ExecutionGraphValidation.case GraphReason.case by auto
    qed
  qed
qed

section \<open>The engine\<close>

text \<open>What the engine is meant to do: run a list of nodes one after the other.\<close>

fun run_seq :: "('o, 's) WorkflowStepRunner \<Rightarrow> string \<Rightarrow> ExecutionNode list \<Rightarrow> 's \<Rightarrow> 'o WorkflowStepResult list \<times> 's" where
  "run_seq runner ctx [] s = ([], s)"
| "run_seq runner ctx (n # ns) s =
     (let (r, s1) = runner n ctx s; (rs, s2) = run_seq runner ctx ns s1 in (step_result n (nd_id n) r # rs, s2))"

definition succeeded :: "(string \<rightharpoonup> 'o WorkflowStepResult) \<Rightarrow> string \<Rightarrow> bool" where
  "succeeded results i \<longleftrightarrow> (\<exists>r. results i = Some r \<and> sr_status r = Step_succeeded)"

definition unblocked :: "(string \<rightharpoonup> 'o WorkflowStepResult) \<Rightarrow> ExecutionNode \<Rightarrow> bool" where
  "unblocked results n \<longleftrightarrow> (\<forall>d \<in> set (nd_dependsOn n). succeeded results d)"

definition ordered_nodes :: "ExecutionNode list \<Rightarrow> string list \<Rightarrow> ExecutionNode list" where
  "ordered_nodes ns order = List.map_filter (node_byId ns) order"

text \<open>What the results of the nodes \<open>order\<close> have to be, given the final results.\<close>

definition workflow_spec ::
  "('o, 's) WorkflowStepRunner \<Rightarrow> string \<Rightarrow> ExecutionNode list \<Rightarrow> string list \<Rightarrow> 's \<Rightarrow>
   (string \<rightharpoonup> 'o WorkflowStepResult) \<Rightarrow> 's \<Rightarrow> bool" where
  "workflow_spec runner ctx ns order s results s' \<longleftrightarrow>
     (let called = filter (unblocked results) (ordered_nodes ns order) in
      run_seq runner ctx called s = (map (\<lambda>n. the (results (nd_id n))) called, s')) \<and>
     (\<forall>n \<in> set (ordered_nodes ns order). \<not> unblocked results n \<longrightarrow>
        (\<exists>b \<in> set (nd_dependsOn n). \<not> succeeded results b \<and> results (nd_id n) = Some (skipped_result n (nd_id n) b)))"

lemma find_member: "find P xs = Some x \<Longrightarrow> x \<in> set xs \<and> P x"
  by (induction xs) (auto split: if_splits)

lemma blockedBy_None: "[] \<notin> set (nd_dependsOn n) \<Longrightarrow> blockedBy failed n = None \<longleftrightarrow> set (nd_dependsOn n) \<inter> set failed = {}"
  using find_member [of "\<lambda>d. d \<in> set failed" "nd_dependsOn n"]
  by (auto simp: blockedBy_def find_None_iff split: option.split)

lemma blockedBy_Some: "blockedBy failed n = Some b \<Longrightarrow> b \<in> set (nd_dependsOn n) \<inter> set failed"
  using find_member [of "\<lambda>d. d \<in> set failed" "nd_dependsOn n"]
  by (auto simp: blockedBy_def split: option.splits if_splits)

lemma run_nodes_agree:
  "i \<notin> set order \<Longrightarrow> fst (run_nodes runner ctx ns order results failed s) i = results i"
proof (induction order arbitrary: results failed s)
  case (Cons j order)
  then show ?case
    by (cases "node_byId ns j"; cases "runner (the (node_byId ns j)) ctx s"; cases "blockedBy failed (the (node_byId ns j))")
      (simp_all add: Let_def)
qed simp

lemma run_nodes_spec:
  assumes d: "distinct (map nd_id ns)" and ne: "[] \<notin> node_set ns"
  shows "\<lbrakk>run_nodes runner ctx ns order results failed s = (results', s');
      respects_dependencies ns (pre @ order); distinct (pre @ order); set (pre @ order) \<subseteq> node_set ns;
      dom results = set pre; set failed = {i \<in> set pre. \<not> succeeded results i}\<rbrakk> \<Longrightarrow>
    workflow_spec runner ctx ns order s results' s' \<and> dom results' = set (pre @ order)"
proof (induction order arbitrary: pre results failed s)
  case Nil
  then show ?case by (simp add: workflow_spec_def ordered_nodes_def List.map_filter_def)
next
  case (Cons i order)
  obtain n where n: "n \<in> set ns" "nd_id n = i" using Cons.prems(4) by auto
  have b: "node_byId ns i = Some n" using node_byId_Some [OF d n(1)] n(2) by simp
  have o: "ordered_nodes ns (i # order) = n # ordered_nodes ns order" using b by (simp add: ordered_nodes_def List.map_filter_def)
  have deps: "set (nd_dependsOn n) \<subseteq> set pre" using Cons.prems(2) n unfolding respects_dependencies_def by blast
  have same: "results' j = results j" if "j \<in> set pre" for j
    using run_nodes_agree [of j "i # order" runner ctx ns results failed s] Cons.prems(1,3) that by auto
  have succ: "succeeded results' j \<longleftrightarrow> succeeded results j" if "j \<in> set pre" for j
    using same [OF that] by (simp add: succeeded_def)
  have ne': "[] \<notin> set (nd_dependsOn n)" using deps Cons.prems(4) ne by auto
  have failed: "e \<in> set failed \<longleftrightarrow> \<not> succeeded results' e" if "e \<in> set (nd_dependsOn n)" for e
    using that deps Cons.prems(6) succ by blast
  have blocked: "blockedBy failed n = None \<longleftrightarrow> unblocked results' n"
    using blockedBy_None [OF ne'] failed by (auto simp: unblocked_def)
  have step: "workflow_spec runner ctx ns order s1 results' s' \<and> dom results' = set (pre @ i # order) \<and> results' i = Some res"
    if "run_nodes runner ctx ns order (results(i \<mapsto> res)) (if sr_status res \<noteq> Step_succeeded then i # failed else failed) s1 = (results', s')"
    for res s1
  proof -
    have s: "succeeded (results(i \<mapsto> res)) j \<longleftrightarrow> (if j = i then sr_status res = Step_succeeded else succeeded results j)" for j
      by (simp add: succeeded_def)
    have "workflow_spec runner ctx ns order s1 results' s' \<and> dom results' = set ((pre @ [i]) @ order)"
    proof (rule Cons.IH [OF that])
      show "set (if sr_status res \<noteq> Step_succeeded then i # failed else failed) = {j \<in> set (pre @ [i]). \<not> succeeded (results(i \<mapsto> res)) j}"
        using Cons.prems(3,6) by (auto simp: s)
      show "dom (results(i \<mapsto> res)) = set (pre @ [i])" using Cons.prems(5) by simp
    qed (use Cons.prems(2-4) in simp_all)
    moreover have "results' i = Some res"
      using run_nodes_agree [of i order runner ctx ns "results(i \<mapsto> res)"] that Cons.prems(3) by (metis distinct.simps(2) distinct_append fst_conv fun_upd_same)
    ultimately show ?thesis by simp
  qed
  show ?case
  proof (cases "blockedBy failed n")
    case (Some e)
    let ?r = "skipped_result n i e"
    have "workflow_spec runner ctx ns order s results' s' \<and> dom results' = set (pre @ i # order) \<and> results' i = Some ?r"
      using Cons.prems(1) b Some by (intro step) (simp add: skipped_result_def)
    moreover have "\<not> unblocked results' n" "e \<in> set (nd_dependsOn n)" "\<not> succeeded results' e"
      using blockedBy_Some [OF Some] failed by (auto simp: unblocked_def)
    ultimately show ?thesis using n(2) by (auto simp: workflow_spec_def o)
  next
    case None
    obtain r s1 where r: "runner n ctx s = (r, s1)" by fastforce
    have "workflow_spec runner ctx ns order s1 results' s' \<and> dom results' = set (pre @ i # order) \<and> results' i = Some (step_result n i r)"
      using Cons.prems(1) b None r by (intro step) (simp add: Let_def)
    moreover have "unblocked results' n" using blocked None by simp
    ultimately show ?thesis using n(2) r by (auto simp: workflow_spec_def o Let_def)
  qed
qed

text \<open>The dependency relation of a graph: \<open>(d, i)\<close> when the node \<open>i\<close> depends on \<open>d\<close>.\<close>

definition depends_on :: "ExecutionNode list \<Rightarrow> (string \<times> string) set" where
  "depends_on ns = {(d, nd_id n) |d n. n \<in> set ns \<and> d \<in> set (nd_dependsOn n)}"

lemma ordered_nodes_all:
  assumes "distinct (map nd_id ns)" "set order = node_set ns"
  shows "set (ordered_nodes ns order) = set ns" "map nd_id (ordered_nodes ns order) = order"
proof -
  have b: "node_byId ns i = Some n \<longleftrightarrow> n \<in> set ns \<and> nd_id n = i" if i: "i \<in> set order" for i n
  proof -
    obtain m where "m \<in> set ns" "nd_id m = i" using i unfolding assms(2) by auto
    then show ?thesis using node_byId_Some [OF assms(1)] by (metis option.inject)
  qed
  have o: "ordered_nodes ns xs = map (\<lambda>i. the (node_byId ns i)) xs" if "set xs \<subseteq> set order" for xs
    using that by (induction xs) (use node_byId_None assms(2) in \<open>auto simp: ordered_nodes_def List.map_filter_def\<close>)
  show "set (ordered_nodes ns order) = set ns"
    using b assms(2) node_byId_Some [OF assms(1)] unfolding o [OF order_refl] by (force simp: image_iff)
  show "map nd_id (ordered_nodes ns order) = order"
    unfolding o [OF order_refl] using assms(2) node_byId_Some [OF assms(1)] by (auto intro!: map_idI)
qed

lemma spec_succeeded_unblocked:
  assumes "workflow_spec runner ctx ns order s results s'" "n \<in> set (ordered_nodes ns order)" "succeeded results (nd_id n)"
  shows "unblocked results n"
proof (rule ccontr)
  assume "\<not> unblocked results n"
  then obtain b where "results (nd_id n) = Some (skipped_result n (nd_id n) b)"
    using assms(1,2) unfolding workflow_spec_def by blast
  then show False using assms(3) by (simp add: succeeded_def skipped_result_def)
qed

lemma spec_ancestors:
  assumes w: "workflow_spec runner ctx ns order s results s'" and o: "set (ordered_nodes ns order) = set ns"
    and d: "distinct (map nd_id ns)"
  shows "(e, i) \<in> (depends_on ns)\<^sup>+ \<Longrightarrow> n \<in> set ns \<Longrightarrow> nd_id n = i \<Longrightarrow> unblocked results n \<Longrightarrow> succeeded results e"
proof (induction arbitrary: n rule: trancl_induct)
  case (base i)
  then obtain m where m: "m \<in> set ns" "nd_id m = i" "e \<in> set (nd_dependsOn m)" by (auto simp: depends_on_def)
  then have "m = n" using base(2,3) d by (simp add: distinct_map inj_on_def)
  then show ?case using base(4) m(3) by (simp add: unblocked_def)
next
  case (step j i)
  then obtain m where m: "m \<in> set ns" "nd_id m = i" "j \<in> set (nd_dependsOn m)" by (auto simp: depends_on_def)
  then have "m = n" using step(4,5) d by (simp add: distinct_map inj_on_def)
  then have j: "succeeded results j" using step(6) m(3) by (simp add: unblocked_def)
  have "\<exists>k \<in> set ns. nd_id k = j \<and> unblocked results k"
  proof -
    obtain k where k: "k \<in> set ns" "nd_id k = j" using step(1) by (cases rule: tranclE) (auto simp: depends_on_def)
    then show ?thesis using spec_succeeded_unblocked [OF w] o j by auto
  qed
  then show ?case using step(3) by blast
qed

lemma workflow_facts:
  assumes "execute_workflow runner plan ctx s = (res, s')" "[] \<notin> node_set (gr_nodes (wfp_graph plan))"
    and ok: "validateExecutionGraph (wfp_graph plan) = Graph_ok order"
  defines "ns \<equiv> gr_nodes (wfp_graph plan)"
  obtains results where "dom results = node_set ns" "workflow_spec runner ctx ns order s results s'"
    "wr_steps res = map (\<lambda>i. the (results i)) order" "wr_status res = workflow_status (wr_steps res)"
    "\<forall>n \<in> set ns. \<forall>e. unblocked results n \<longrightarrow> (e, nd_id n) \<in> (depends_on ns)\<^sup>+ \<longrightarrow> succeeded results e"
proof -
  note v = validation_ok [OF ok, folded ns_def]
  obtain results s1 where r: "run_nodes runner ctx ns order Map.empty [] s = (results, s1)" by fastforce
  have w: "workflow_spec runner ctx ns order s results s1" and dom: "dom results = node_set ns"
    using run_nodes_spec [OF v(1) _ r, of "[]"] v assms(2) by (auto simp: ns_def)
  have "List.map_filter results xs = map (\<lambda>i. the (results i)) xs" if "set xs \<subseteq> set order" for xs
    using that dom v(3) by (induction xs) (auto simp: List.map_filter_def)
  then have res: "s' = s1" "wr_steps res = map (\<lambda>i. the (results i)) order" "wr_status res = workflow_status (wr_steps res)"
    using assms(1) ok r by (auto simp: execute_workflow_def Let_def ns_def)
  have "\<forall>n \<in> set ns. \<forall>e. unblocked results n \<longrightarrow> (e, nd_id n) \<in> (depends_on ns)\<^sup>+ \<longrightarrow> succeeded results e"
    using spec_ancestors [OF w _ v(1)] ordered_nodes_all [OF v(1,3)] by auto
  then show ?thesis using w dom res by (intro that [of results]) auto
qed

lemma all_succeeded:
  assumes "dom results = set order"
  shows "workflow_status (map (\<lambda>i. the (results i)) order) = Wf_succeeded \<longleftrightarrow> (\<forall>i \<in> set order. succeeded results i)"
proof -
  have "(\<forall>i \<in> set order. sr_status (the (results i)) = Step_succeeded) \<longleftrightarrow> (\<forall>i \<in> set order. succeeded results i)"
    using assms by (fastforce simp: succeeded_def)
  then show ?thesis by (auto simp: workflow_status_def Let_def list_ex_iff)
qed


definition demo_graph :: ExecutionGraph where
  "demo_graph = \<lparr> gr_nodes =
     [\<lparr> nd_id = ''deploy'', nd_action = ''d'', nd_dependsOn = [''build''] \<rparr>,
      \<lparr> nd_id = ''build'', nd_action = ''b'', nd_dependsOn = [] \<rparr>,
      \<lparr> nd_id = ''report'', nd_action = ''r'', nd_dependsOn = [] \<rparr>] \<rparr>"

definition demo_runner :: "(unit, string list) WorkflowStepRunner" where
  "demo_runner n ctx called =
     (if nd_action n = ''b'' then (Inl None, called @ [nd_id n])
      else (Inr \<lparr> sr_nodeId = nd_id n, sr_action = nd_action n, sr_status = Step_succeeded, sr_output = None, sr_error = None \<rparr>,
            called @ [nd_id n]))"


end
