(* ===== verification/Js_Date.thy ===== *)
theory Js_Date
  imports Prelude "HOL-Library.Monad_Syntax"
begin

text \<open>
  The part of the ECMAScript \<^verbatim>\<open>Date\<close> object that the sources use on every issuance and expiry
  decision: \<^verbatim>\<open>Date.parse\<close> and \<^verbatim>\<open>Date.prototype.toISOString\<close>. A time value is an integer number
  of milliseconds since 1970-01-01T00:00:00Z, at most 8.64e15 away from it; \<^term>\<open>None\<close> is
  \<^verbatim>\<open>NaN\<close>. \<open>dateParse\<close> reads the date-time string format of the standard (a four-digit or a
  signed six-digit year, optional month and day, an optional time with minutes, seconds and
  milliseconds, and \<^verbatim>\<open>Z\<close> or a numeric offset). What an engine does with any other string is
  implementation-defined in the standard; the model takes it as \<^verbatim>\<open>NaN\<close>. The comparisons of
  \<^verbatim>\<open>internal/util.ts\<close> (\<open>isFuture\<close>, \<open>isAtOrBefore\<close>, \<open>isValidTimestamp\<close>) are built on it.
  The main fact is the round trip \<open>dateParse (toISOString t) = t\<close>.
\<close>

section \<open>The calendar\<close>

definition day_from_year :: "int \<Rightarrow> int" where
  "day_from_year y = 365 * (y - 1970) + (y - 1969) div 4 - (y - 1901) div 100 + (y - 1601) div 400"

definition leap :: "int \<Rightarrow> bool" where
  "leap y \<longleftrightarrow> y mod 4 = 0 \<and> (y mod 100 \<noteq> 0 \<or> y mod 400 = 0)"

text \<open>Days of the year before the first of month \<open>m\<close>.\<close>

definition month_start :: "bool \<Rightarrow> int \<Rightarrow> int" where
  "month_start lp m =
     (let l = (if lp then 1 else 0) in
      if m \<le> 1 then 0 else if m = 2 then 31 else if m = 3 then 59 + l else if m = 4 then 90 + l
      else if m = 5 then 120 + l else if m = 6 then 151 + l else if m = 7 then 181 + l
      else if m = 8 then 212 + l else if m = 9 then 243 + l else if m = 10 then 273 + l
      else if m = 11 then 304 + l else if m = 12 then 334 + l else 365 + l)"

definition month_of :: "bool \<Rightarrow> int \<Rightarrow> int" where
  "month_of lp yd =
     (let l = (if lp then 1 else 0) in
      if yd < 31 then 1 else if yd < 59 + l then 2 else if yd < 90 + l then 3
      else if yd < 120 + l then 4 else if yd < 151 + l then 5 else if yd < 181 + l then 6
      else if yd < 212 + l then 7 else if yd < 243 + l then 8 else if yd < 273 + l then 9
      else if yd < 304 + l then 10 else if yd < 334 + l then 11 else 12)"

text \<open>The year of a day: the mean year length gives an estimate that is off by one at most.\<close>

definition year_of_day :: "int \<Rightarrow> int" where
  "year_of_day d =
     (let y = 1970 + (400 * d) div 146097
      in if d < day_from_year y then y - 1 else if day_from_year (y + 1) \<le> d then y + 1 else y)"

section \<open>Printing and reading\<close>

fun show_fixed :: "nat \<Rightarrow> nat \<Rightarrow> string" where
  "show_fixed 0 n = []"
| "show_fixed (Suc k) n = show_fixed k (n div 10) @ [digit_char (n mod 10)]"

definition read_fixed :: "nat \<Rightarrow> string \<Rightarrow> (nat \<times> string) option" where
  "read_fixed k s =
     (let ds = take k s in
      if length ds = k \<and> list_all is_digit ds then Some (read_nat 0 ds, drop k s) else None)"

definition ms_per_day :: int where "ms_per_day = 86400000"

definition max_time :: int where "max_time = 8640000000000000"

definition show_year :: "int \<Rightarrow> string" where
  "show_year y =
     (if 0 \<le> y \<and> y \<le> 9999 then show_fixed 4 (nat y)
      else if y < 0 then CHR ''-'' # show_fixed 6 (nat (- y))
      else CHR ''+'' # show_fixed 6 (nat y))"

definition show_date :: "int \<Rightarrow> string" where
  "show_date d =
     (let y = year_of_day d; yd = d - day_from_year y; m = month_of (leap y) yd;
          dom = yd - month_start (leap y) m + 1
      in show_year y @ ''-'' @ show_fixed 2 (nat m) @ ''-'' @ show_fixed 2 (nat dom))"

definition show_time :: "int \<Rightarrow> string" where
  "show_time ms =
     show_fixed 2 (nat (ms div 3600000)) @ '':'' @ show_fixed 2 (nat (ms div 60000 mod 60)) @ '':'' @
     show_fixed 2 (nat (ms div 1000 mod 60)) @ ''.'' @ show_fixed 3 (nat (ms mod 1000)) @ ''Z''"

text \<open>\<^verbatim>\<open>new Date(t).toISOString()\<close>: it throws a RangeError outside the range of time values.\<close>

definition toISOString :: "int \<Rightarrow> string result" where
  "toISOString t =
     (if max_time < \<bar>t\<bar> then Inl (RangeError ''Invalid time value'')
      else Inr (show_date (t div ms_per_day) @ ''T'' @ show_time (t mod ms_per_day)))"

text \<open>The rest of the input after an expected character.\<close>

fun eat :: "char \<Rightarrow> string \<Rightarrow> string option" where
  "eat c [] = None"
| "eat c (x # r) = (if x = c then Some r else None)"

definition read_year :: "string \<Rightarrow> (int \<times> string) option" where
  "read_year s =
     (case eat CHR ''+'' s of
        Some r \<Rightarrow> do { (n, r') \<leftarrow> read_fixed 6 r; Some (int n, r') }
      | None \<Rightarrow>
         (case eat CHR ''-'' s of
            Some r \<Rightarrow> do { (n, r') \<leftarrow> read_fixed 6 r; if n = 0 then None else Some (- int n, r') }
          | None \<Rightarrow> do { (n, r') \<leftarrow> read_fixed 4 s; Some (int n, r') }))"

definition read_date :: "string \<Rightarrow> (int \<times> string) option" where
  "read_date s =
     do { (y, r) \<leftarrow> read_year s;
          (m, r1) \<leftarrow> (case eat CHR ''-'' r of Some r' \<Rightarrow> read_fixed 2 r' | None \<Rightarrow> Some (1, r));
          (d, r2) \<leftarrow> (case eat CHR ''-'' r1 of Some r' \<Rightarrow> read_fixed 2 r' | None \<Rightarrow> Some (1, r1));
          if 1 \<le> m \<and> m \<le> 12 \<and> 1 \<le> d \<and>
             int d \<le> month_start (leap y) (int m + 1) - month_start (leap y) (int m)
          then Some (day_from_year y + month_start (leap y) (int m) + int d - 1, r2)
          else None }"

definition read_zone :: "string \<Rightarrow> int option" where
  "read_zone s =
     (case s of
        [] \<Rightarrow> None
      | c # r \<Rightarrow>
          if c = CHR ''Z'' then (if r = [] then Some 0 else None)
          else if c = CHR ''+'' \<or> c = CHR ''-'' then
            do { (h, r1) \<leftarrow> read_fixed 2 r;
                 r' \<leftarrow> eat CHR '':'' r1;
                 (mi, r2) \<leftarrow> read_fixed 2 r';
                 if r2 = [] \<and> h \<le> 23 \<and> mi \<le> 59
                 then Some ((if c = CHR ''+'' then 1 else - 1) * (int h * 3600000 + int mi * 60000))
                 else None }
          else None)"

text \<open>Optional seconds, with optional milliseconds.\<close>

definition read_seconds :: "string \<Rightarrow> (int \<times> string) option" where
  "read_seconds r1 =
     (case eat CHR '':'' r1 of
        None \<Rightarrow> Some (0, r1)
      | Some r' \<Rightarrow>
          do { (sec, r2) \<leftarrow> read_fixed 2 r';
               (ms, r3) \<leftarrow> (case eat CHR ''.'' r2 of Some r' \<Rightarrow> read_fixed 3 r' | None \<Rightarrow> Some (0, r2));
               if sec \<le> 59 then Some (int sec * 1000 + int ms, r3) else None })"

definition read_time :: "string \<Rightarrow> int option" where
  "read_time s =
     do { (h, r) \<leftarrow> read_fixed 2 s;
          r' \<leftarrow> eat CHR '':'' r;
          (mi, r1) \<leftarrow> read_fixed 2 r';
          (sms, r2) \<leftarrow> read_seconds r1;
          off \<leftarrow> read_zone r2;
          if h \<le> 23 \<and> mi \<le> 59 then Some (int h * 3600000 + int mi * 60000 + sms - off)
          else None }"

definition dateParse :: "string \<Rightarrow> int option" where
  "dateParse s =
     do { (d, r) \<leftarrow> read_date s;
          t \<leftarrow> (if r = [] then Some 0 else do { r' \<leftarrow> eat CHR ''T'' r; read_time r' });
          if \<bar>d * ms_per_day + t\<bar> \<le> max_time then Some (d * ms_per_day + t) else None }"

section \<open>Comparisons of timestamps\<close>

definition isFuture :: "string \<Rightarrow> string \<Rightarrow> bool" where
  "isFuture value now =
     (case (dateParse value, dateParse now) of
        (Some v, Some n) \<Rightarrow> v > n | _ \<Rightarrow> False)"

definition isAtOrBefore :: "string \<Rightarrow> string \<Rightarrow> bool" where
  "isAtOrBefore value now =
     (case (dateParse value, dateParse now) of
        (Some v, Some n) \<Rightarrow> v \<le> n | _ \<Rightarrow> False)"

definition isValidTimestamp :: "string \<Rightarrow> bool" where
  "isValidTimestamp value \<longleftrightarrow> isNonEmptyString value \<and> dateParse value \<noteq> None"

section \<open>The round trip\<close>

lemma div_step:
  fixes x n :: int
  assumes n: "0 < n"
  shows "(x + 1) div n = x div n + (if (x + 1) mod n = 0 then 1 else 0)"
proof -
  have r: "0 \<le> x mod n" "x mod n < n" using n by auto
  have x: "x + 1 = n * (x div n) + (x mod n + 1)"
    using mult_div_mod_eq [of n x] by linarith
  show ?thesis
  proof (cases "x mod n + 1 = n")
    case True
    then have e: "x + 1 = n * (x div n + 1)" using x by (simp add: algebra_simps)
    show ?thesis unfolding e using n by simp
  next
    case False
    with r have "0 \<le> x mod n + 1" "x mod n + 1 < n" by auto
    then have "(x + 1) div n = x div n" "(x + 1) mod n = x mod n + 1"
      using int_div_pos_eq [OF x] int_mod_pos_eq [OF x] by auto
    then show ?thesis using r by simp
  qed
qed

lemma div_bounds:
  fixes a n :: int
  assumes "0 < n"
  shows "n * (a div n) \<le> a" "a < n * (a div n) + n"
  using mult_div_mod_eq [of n a] pos_mod_bound [of n a] pos_mod_sign [of n a] assms by linarith+

lemma year_step: "day_from_year (y + 1) = day_from_year y + (if leap y then 366 else 365)"
proof -
  have m: "(y - 1968) mod 4 = y mod 4" "(y - 1900) mod 100 = y mod 100" "(y - 1600) mod 400 = y mod 400"
    using mod_mult_self1 [of y "-492" 4] mod_mult_self1 [of y "-19" 100] mod_mult_self1 [of y "-4" 400]
    by simp_all
  have d: "y mod 400 = 0 \<Longrightarrow> y mod 100 = 0" "y mod 100 = 0 \<Longrightarrow> y mod 4 = 0"
    using mod_mod_cancel [of 100 400 y] mod_mod_cancel [of 4 100 y] by simp_all
  have u: "y - 1968 = (y - 1969) + 1" "y - 1900 = (y - 1901) + 1" "y - 1600 = (y - 1601) + 1" by auto
  have s: "(y - 1968) div 4 = (y - 1969) div 4 + (if y mod 4 = 0 then 1 else 0)"
    "(y - 1900) div 100 = (y - 1901) div 100 + (if y mod 100 = 0 then 1 else 0)"
    "(y - 1600) div 400 = (y - 1601) div 400 + (if y mod 400 = 0 then 1 else 0)"
    unfolding m [symmetric] unfolding u by (rule div_step, simp)+
  have e: "y + 1 - 1969 = y - 1968" "y + 1 - 1901 = y - 1900" "y + 1 - 1601 = y - 1600" by auto
  show ?thesis
    unfolding day_from_year_def leap_def e s using d
    by (cases "y mod 4 = 0"; cases "y mod 100 = 0"; cases "y mod 400 = 0") simp_all
qed

lemma year_estimate_low:
  fixes a b c d q :: int
  assumes "146097 * q \<le> 400 * d" "4 * a \<le> q" "q + 68 < 100 * b + 100" "400 * c \<le> q + 368"
  shows "365 * (q - 1) + a - b + c \<le> d"
  using assms by (simp add: algebra_simps)

lemma year_estimate_high:
  fixes a b c d q :: int
  assumes "400 * d < 146097 * q + 146097" "q + 3 < 4 * a + 4" "100 * b \<le> q + 71"
    "q + 371 < 400 * c + 400"
  shows "d < 365 * (q + 2) + a - b + c"
  using assms by (simp add: algebra_simps)

lemma year_of_day_bounds:
  "day_from_year (year_of_day d) \<le> d \<and> d < day_from_year (year_of_day d + 1)"
proof -
  define q where "q = (400 * d) div 146097"
  have q: "146097 * q \<le> 400 * d" "400 * d < 146097 * q + 146097"
    unfolding q_def using div_bounds [of 146097 "400 * d"] by simp_all
  have "day_from_year (1970 + q - 1) = 365 * (q - 1) + q div 4 - (q + 68) div 100 + (q + 368) div 400"
    by (simp add: day_from_year_def add.commute)
  then have lo: "day_from_year (1970 + q - 1) \<le> d"
    using year_estimate_low [OF q(1)] div_bounds by simp
  have "day_from_year (1970 + q + 2) = 365 * (q + 2) + (q + 3) div 4 - (q + 71) div 100 + (q + 371) div 400"
    by (simp add: day_from_year_def add.commute)
  then have hi: "d < day_from_year (1970 + q + 2)"
    using year_estimate_high [OF q(2)] div_bounds by simp
  show ?thesis
  proof (cases "d < day_from_year (1970 + q)")
    case True
    with lo show ?thesis by (simp add: year_of_day_def Let_def q_def)
  next
    case False
    with hi show ?thesis by (auto simp add: year_of_day_def Let_def q_def algebra_simps)
  qed
qed

lemma month_of_bounds:
  assumes "0 \<le> yd" and "yd < (if lp then 366 else 365)"
  shows "1 \<le> month_of lp yd \<and> month_of lp yd \<le> 12 \<and>
         month_start lp (month_of lp yd) \<le> yd \<and> yd < month_start lp (month_of lp yd + 1)"
  using assms by (cases lp) (auto simp: month_of_def month_start_def Let_def)

lemma show_fixed_length [simp]: "length (show_fixed k n) = k"
  by (induction k arbitrary: n) auto

lemma show_fixed_digits [simp]: "list_all is_digit (show_fixed k n)"
  by (induction k arbitrary: n) auto

lemma read_show_fixed_nat: "n < 10 ^ k \<Longrightarrow> read_nat 0 (show_fixed k n) = n"
proof (induction k arbitrary: n)
  case (Suc k)
  then have "n div 10 < 10 ^ k" by auto
  with Suc.IH show ?case by (simp add: read_nat_append)
qed simp

lemma read_show_fixed: "n < 10 ^ k \<Longrightarrow> read_fixed k (show_fixed k n @ r) = Some (n, r)"
  by (simp add: read_fixed_def read_show_fixed_nat)

lemma digit_char_neq [simp]: "n < 10 \<Longrightarrow> digit_char n \<noteq> CHR ''+''" "n < 10 \<Longrightarrow> digit_char n \<noteq> CHR ''-''"
  by (auto dest: arg_cong [of _ _ "of_char :: char \<Rightarrow> nat"])

lemma show_fixed_Cons:
  assumes "0 < k"
  shows "\<exists>d cs. show_fixed k n = digit_char d # cs \<and> d < 10"
  using assms
proof (induction k arbitrary: n)
  case (Suc k)
  show ?case
  proof (cases k)
    case 0
    then show ?thesis by (auto intro: exI [of _ "n mod 10"])
  next
    case (Suc j)
    then obtain d cs where "show_fixed k (n div 10) = digit_char d # cs" "d < 10"
      using Suc.IH by blast
    then show ?thesis by auto
  qed
qed simp

lemma read_show_year:
  assumes "\<bar>y\<bar> < 1000000"
  shows "read_year (show_year y @ r) = Some (y, r)"
proof -
  consider "0 \<le> y \<and> y \<le> 9999" | "y < 0" | "9999 < y" by linarith
  then show ?thesis
  proof cases
    case 1
    then obtain d cs where dc: "show_fixed 4 (nat y) = digit_char d # cs" "d < 10"
      using show_fixed_Cons [of 4 "nat y"] by auto
    have r: "read_fixed 4 ((digit_char d # cs) @ r) = Some (nat y, r)"
      using read_show_fixed [of "nat y" 4 r] 1 dc by (simp add: nat_less_iff)
    show ?thesis
      using 1 dc r by (simp add: read_year_def show_year_def)
  next
    case 2
    with assms read_show_fixed [of "nat (- y)" 6 r] show ?thesis
      by (simp add: read_year_def show_year_def)
  next
    case 3
    with assms read_show_fixed [of "nat y" 6 r] show ?thesis
      by (simp add: read_year_def show_year_def)
  qed
qed

lemma month_dom_bounds:
  assumes "day_from_year y \<le> d" and "d < day_from_year (y + 1)"
  defines "yd \<equiv> d - day_from_year y"
  defines "m \<equiv> month_of (leap y) yd"
  shows "1 \<le> m" "m \<le> 12" "0 \<le> yd - month_start (leap y) m"
    "yd - month_start (leap y) m + 1 \<le> month_start (leap y) (m + 1) - month_start (leap y) m"
    "yd - month_start (leap y) m + 1 \<le> 31"
proof -
  have b: "0 \<le> yd" "yd < (if leap y then 366 else 365)"
    using assms year_step [of y] by auto
  note mb = month_of_bounds [OF b, folded m_def]
  then show "1 \<le> m" "m \<le> 12" "0 \<le> yd - month_start (leap y) m"
    "yd - month_start (leap y) m + 1 \<le> month_start (leap y) (m + 1) - month_start (leap y) m"
    by auto
  have "month_start (leap y) (m + 1) - month_start (leap y) m \<le> 31"
    by (simp add: month_start_def Let_def)
  then show "yd - month_start (leap y) m + 1 \<le> 31" using mb by linarith
qed

lemma year_of_day_range:
  assumes "\<bar>d\<bar> \<le> 100000000"
  shows "\<bar>year_of_day d\<bar> < 1000000"
proof -
  have "\<bar>(400 * d) div 146097\<bar> < 300000"
    using assms div_bounds [of 146097 "400 * d"] by linarith
  then show ?thesis by (auto simp: year_of_day_def Let_def)
qed

lemma read_show_date:
  assumes "\<bar>d\<bar> \<le> 100000000"
  shows "read_date (show_date d @ CHR ''T'' # r) = Some (d, CHR ''T'' # r)"
proof -
  define y where "y = year_of_day d"
  define yd where "yd = d - day_from_year y"
  define m where "m = month_of (leap y) yd"
  define dom where "dom = yd - month_start (leap y) m + 1"
  have yb: "day_from_year y \<le> d" "d < day_from_year (y + 1)" and yr: "\<bar>y\<bar> < 1000000"
    using year_of_day_bounds [of d] year_of_day_range [OF assms] by (simp_all add: y_def)
  have mb: "1 \<le> m" "m \<le> 12" "1 \<le> dom" "dom \<le> 31"
    "dom \<le> month_start (leap y) (m + 1) - month_start (leap y) m"
    using month_dom_bounds [OF yb] by (simp_all add: dom_def m_def yd_def)
  have r: "read_fixed 2 (show_fixed 2 (nat m) @ t) = Some (nat m, t)"
    "read_fixed 2 (show_fixed 2 (nat dom) @ t) = Some (nat dom, t)" for t
    using mb by (simp_all add: read_show_fixed nat_less_iff)
  have "show_date d = show_year y @ ''-'' @ show_fixed 2 (nat m) @ ''-'' @ show_fixed 2 (nat dom)"
    by (simp add: show_date_def Let_def y_def yd_def m_def dom_def)
  moreover have "day_from_year y + month_start (leap y) m + dom - 1 = d"
    by (simp add: dom_def yd_def)
  moreover have "Suc 0 \<le> nat m" "nat m \<le> 12" "Suc 0 \<le> nat dom" using mb by auto
  ultimately show ?thesis
    using mb by (simp add: read_date_def read_show_year [OF yr] r)
qed

lemma time_parts:
  fixes ms :: int
  shows "ms div 3600000 * 3600000 + ms div 60000 mod 60 * 60000 + (ms div 1000 mod 60 * 1000 + ms mod 1000) = ms"
proof -
  define a where "a = ms div 1000"
  define b where "b = a div 60"
  have u: "ms div 60000 = b" "ms div 3600000 = b div 60" "ms div 1000 = a"
    by (simp_all add: a_def b_def zdiv_zmult2_eq [symmetric])
  have "b div 60 * 3600000 + b mod 60 * 60000 = (b div 60 * 60 + b mod 60) * 60000"
    unfolding distrib_right mult.assoc by (simp only: mult_numeral_1 numeral_times_numeral semiring_norm)
  then have 1: "b div 60 * 3600000 + b mod 60 * 60000 = b * 60000"
    by (simp only: div_mult_mod_eq)
  have "b * 60000 + a mod 60 * 1000 = (a div 60 * 60 + a mod 60) * 1000"
    unfolding distrib_right mult.assoc b_def by (simp only: numeral_times_numeral semiring_norm)
  then have 2: "b * 60000 + a mod 60 * 1000 = a * 1000"
    by (simp only: div_mult_mod_eq)
  have 3: "a * 1000 + ms mod 1000 = ms"
    unfolding a_def by (rule div_mult_mod_eq)
  show ?thesis
    unfolding u add.assoc [symmetric] 1 2 3 ..
qed

lemma read_show_clock:
  assumes "0 \<le> h" "h < 24" "0 \<le> mi" "mi < 60" "0 \<le> sec" "sec < 60" "0 \<le> z" "z < 1000"
  shows "read_time (show_fixed 2 (nat h) @ '':'' @ show_fixed 2 (nat mi) @ '':'' @
           show_fixed 2 (nat sec) @ ''.'' @ show_fixed 3 (nat z) @ ''Z'') =
         Some (h * 3600000 + mi * 60000 + (sec * 1000 + z))"
proof -
  have r: "read_fixed 2 (show_fixed 2 (nat h) @ t) = Some (nat h, t)"
    "read_fixed 2 (show_fixed 2 (nat mi) @ t) = Some (nat mi, t)"
    "read_fixed 2 (show_fixed 2 (nat sec) @ t) = Some (nat sec, t)"
    "read_fixed 3 (show_fixed 3 (nat z) @ t) = Some (nat z, t)" for t
    using assms by (simp_all add: read_show_fixed nat_less_iff)
  show ?thesis
    using assms by (simp add: read_time_def read_seconds_def read_zone_def r nat_le_iff)
qed

lemma read_show_time:
  assumes "0 \<le> ms" and "ms < 86400000"
  shows "read_time (show_time ms) = Some ms"
proof -
  have "read_time (show_time ms) =
        Some (ms div 3600000 * 3600000 + ms div 60000 mod 60 * 60000 + (ms div 1000 mod 60 * 1000 + ms mod 1000))"
    unfolding show_time_def by (rule read_show_clock) (use assms in auto)
  then show ?thesis by (simp only: time_parts)
qed

lemma dateParse_toISOString:
  assumes "toISOString t = Inr s"
  shows "dateParse s = Some t"
proof -
  from assms have t: "\<bar>t\<bar> \<le> max_time"
    and s: "s = show_date (t div ms_per_day) @ CHR ''T'' # show_time (t mod ms_per_day)"
    by (auto simp: toISOString_def split: if_splits)
  have d: "\<bar>t div ms_per_day\<bar> \<le> 100000000"
    using t div_bounds [of 86400000 t] by (simp add: max_time_def ms_per_day_def)
  have "read_time (show_time (t mod ms_per_day)) = Some (t mod ms_per_day)"
    by (rule read_show_time) (simp_all add: ms_per_day_def)
  with t show ?thesis
    by (simp add: dateParse_def s read_show_date [OF d])
qed

lemma isFuture_trans: "isFuture a b \<Longrightarrow> isAtOrBefore c b \<Longrightarrow> isFuture a c"
  by (auto simp: isFuture_def isAtOrBefore_def split: option.splits)

lemma isFuture_not_AtOrBefore: "isFuture a b \<Longrightarrow> \<not> isAtOrBefore a b"
  by (auto simp: isFuture_def isAtOrBefore_def split: option.splits)

lemma toISOString_future:
  assumes "dateParse now = Some n" and "toISOString (n + ttl) = Inr s" and "0 < ttl"
  shows "isFuture s now"
  using assms dateParse_toISOString [OF assms(2)] by (simp add: isFuture_def)

lemma show_date_nonempty: "isNonEmptyString (show_date d @ CHR ''T'' # r)"
  by (simp add: isNonEmptyString_append isNonEmptyString_Cons is_ws_def)

text \<open>
  The expiry comparisons of \<^verbatim>\<open>internal/util.ts\<close> decide by time and not by text: on the
  ISO strings of two time values they are exactly \<open>>\<close> and \<open>\<le>\<close>, and every such string is a
  valid timestamp. With an unparsable operand both are false, so the callers fail closed.
\<close>

lemma expiry_comparisons:
  assumes "toISOString a = Inr s" "toISOString b = Inr t"
  shows "(isFuture s t \<longleftrightarrow> b < a) \<and> (isAtOrBefore s t \<longleftrightarrow> a \<le> b) \<and> isValidTimestamp s \<and>
         (dateParse u = None \<longrightarrow>
            \<not> isFuture s u \<and> \<not> isFuture u s \<and> \<not> isAtOrBefore s u \<and> \<not> isAtOrBefore u s)"
proof -
  have "dateParse s = Some a" "dateParse t = Some b"
    using assms by (simp_all add: dateParse_toISOString)
  moreover have "isNonEmptyString s"
    using assms(1) by (auto simp: toISOString_def isNonEmptyString_append isNonEmptyString_Cons is_ws_def split: if_splits)
  ultimately show ?thesis
    by (auto simp: isFuture_def isAtOrBefore_def isValidTimestamp_def)
qed

end
