(* ===== verification/Json.thy ===== *)
theory Json
  imports Js_Date "HOL-Library.Multiset"
begin

text \<open>
  JSON values and the two functions of the language that the packages serialise with,
  \<^verbatim>\<open>JSON.stringify\<close> and \<^verbatim>\<open>JSON.parse\<close>, and \<^verbatim>\<open>canonicalJson\<close> / \<^verbatim>\<open>sortValue\<close> of the
  \<^verbatim>\<open>internal/crypto.ts\<close> files. An object is its own properties in enumeration order: array
  indices in ascending order, then the other keys in the order they were created. Numbers are
  integers (a text with a fraction or an exponent is not read) and strings hold the code units
  0..255. The results: reading what was printed gives the value back, canonical texts are
  equal only for equal sorted values, and the text does not depend on the order of insertion.
\<close>

datatype json =
    JNull
  | JBool bool
  | JNum int
  | JStr string
  | JArr "json list"
  | JObj "(string \<times> json) list"

section \<open>JSON.stringify\<close>

definition hex_digit :: "nat \<Rightarrow> char" where
  "hex_digit n = (if n < 10 then char_of (48 + n) else char_of (87 + n))"

definition escape_char :: "char \<Rightarrow> string" where
  "escape_char c =
     (let n = (of_char c :: nat) in
      if c = CHR 0x22 then [CHR 0x5C, CHR 0x22]
      else if c = CHR 0x5C then [CHR 0x5C, CHR 0x5C]
      else if n = 8 then [CHR 0x5C, CHR ''b'']
      else if n = 9 then [CHR 0x5C, CHR ''t'']
      else if n = 10 then [CHR 0x5C, CHR ''n'']
      else if n = 12 then [CHR 0x5C, CHR ''f'']
      else if n = 13 then [CHR 0x5C, CHR ''r'']
      else if n < 32 then [CHR 0x5C, CHR ''u'', CHR ''0'', CHR ''0'', hex_digit (n div 16), hex_digit (n mod 16)]
      else [c])"

definition quote :: "string \<Rightarrow> string" where
  "quote s = CHR 0x22 # concat (map escape_char s) @ [CHR 0x22]"

fun join_comma :: "string list \<Rightarrow> string" where
  "join_comma [] = []"
| "join_comma [s] = s"
| "join_comma (s # t # ss) = s @ CHR '','' # join_comma (t # ss)"

fun stringify :: "json \<Rightarrow> string" where
  "stringify JNull = ''null''"
| "stringify (JBool b) = (if b then ''true'' else ''false'')"
| "stringify (JNum i) = show_int i"
| "stringify (JStr s) = quote s"
| "stringify (JArr vs) = CHR ''['' # join_comma (map stringify vs) @ '']''"
| "stringify (JObj kvs) =
     CHR ''{'' # join_comma (map (\<lambda>(k, v). quote k @ CHR '':'' # stringify v) kvs) @ ''}''"

section \<open>Objects\<close>

text \<open>
  An array index: the canonical decimal text of a number below \<open>2 ^ 32 - 1\<close>. Such keys are
  enumerated first, in ascending order, which on canonical texts is the order by length and
  then by code units.
\<close>

definition is_index :: "string \<Rightarrow> bool" where
  "is_index k \<longleftrightarrow> k \<noteq> [] \<and> list_all is_digit k \<and> (hd k = CHR ''0'' \<longrightarrow> length k = 1) \<and>
     (length k < 10 \<or> length k = 10 \<and> k < ''4294967295'')"

definition key_rank :: "string \<times> 'v \<Rightarrow> bool \<times> nat \<times> string" where
  "key_rank kv = (\<not> is_index (fst kv), if is_index (fst kv) then length (fst kv) else 0, fst kv)"

definition enum_rank :: "string \<times> 'v \<Rightarrow> bool \<times> nat \<times> string" where
  "enum_rank kv = (if is_index (fst kv) then (False, length (fst kv), fst kv) else (True, 0, []))"

definition jget :: "string \<Rightarrow> json \<Rightarrow> json option" where
  "jget k v = (case v of JObj kvs \<Rightarrow> map_of kvs k | _ \<Rightarrow> None)"

definition jstr :: "json option \<Rightarrow> string option" where
  "jstr v = (case v of Some (JStr s) \<Rightarrow> Some s | _ \<Rightarrow> None)"

text \<open>
  \<^verbatim>\<open>sortValue\<close> assigns the sorted keys to a fresh object literal: the result enumerates
  indices first, and an assignment to \<^verbatim>\<open>__proto__\<close> creates no property.
\<close>

fun sortValue :: "json \<Rightarrow> json" where
  "sortValue (JArr vs) = JArr (map sortValue vs)"
| "sortValue (JObj kvs) =
     JObj (sort_key key_rank (map (\<lambda>(k, v). (k, sortValue v)) (filter (\<lambda>(k, v). k \<noteq> ''__proto__'') kvs)))"
| "sortValue v = v"

definition canonicalJson :: "json \<Rightarrow> string" where
  "canonicalJson v = stringify (sortValue v)"

section \<open>JSON.parse\<close>

text \<open>The object that results from creating the properties in the order of the text.\<close>

fun put_prop :: "(string \<times> json) list \<Rightarrow> string \<Rightarrow> json \<Rightarrow> (string \<times> json) list" where
  "put_prop [] k v = [(k, v)]"
| "put_prop ((k', v') # r) k v = (if k' = k then (k, v) # r else (k', v') # put_prop r k v)"

definition make_obj :: "(string \<times> json) list \<Rightarrow> (string \<times> json) list" where
  "make_obj kvs = sort_key enum_rank (foldl (\<lambda>ps (k, v). put_prop ps k v) [] kvs)"

definition json_ws :: "char \<Rightarrow> bool" where
  "json_ws c \<longleftrightarrow> (of_char c :: nat) \<in> {9, 10, 13, 32}"

definition skip :: "string \<Rightarrow> string" where
  "skip s = dropWhile json_ws s"

fun match :: "string \<Rightarrow> string \<Rightarrow> string option" where
  "match [] s = Some s"
| "match (x # xs) [] = None"
| "match (x # xs) (y # ys) = (if x = y then match xs ys else None)"

definition hex_val :: "char \<Rightarrow> nat option" where
  "hex_val c =
     (let n = (of_char c :: nat) in
      if 48 \<le> n \<and> n \<le> 57 then Some (n - 48)
      else if 97 \<le> n \<and> n \<le> 102 then Some (n - 87)
      else if 65 \<le> n \<and> n \<le> 70 then Some (n - 55)
      else None)"

definition unescape :: "char \<Rightarrow> char option" where
  "unescape e =
     (if e = CHR 0x22 \<or> e = CHR 0x5C \<or> e = CHR ''/'' then Some e
      else if e = CHR ''b'' then Some (CHR 0x08)
      else if e = CHR ''t'' then Some (CHR 0x09)
      else if e = CHR ''n'' then Some (CHR 0x0A)
      else if e = CHR ''f'' then Some (CHR 0x0C)
      else if e = CHR ''r'' then Some (CHR 0x0D)
      else None)"

text \<open>The characters of a string literal after its opening quote.\<close>

fun read_chars :: "string \<Rightarrow> (string \<times> string) option" where
  "read_chars [] = None"
| "read_chars (c # r) =
     (if c = CHR 0x22 then Some ([], r)
      else if c = CHR 0x5C then
        (case r of
           [] \<Rightarrow> None
         | e # r1 \<Rightarrow>
             if e = CHR ''u'' then
               (case r1 of
                  a # b # x # y # r2 \<Rightarrow>
                    (case (hex_val a, hex_val b, hex_val x, hex_val y) of
                       (Some 0, Some 0, Some h, Some l) \<Rightarrow>
                         map_option (\<lambda>(cs, t). (char_of (16 * h + l) # cs, t)) (read_chars r2)
                     | _ \<Rightarrow> None)
                | _ \<Rightarrow> None)
             else
               (case unescape e of
                  None \<Rightarrow> None
                | Some d \<Rightarrow> map_option (\<lambda>(cs, t). (d # cs, t)) (read_chars r1)))
      else if (of_char c :: nat) < 32 then None
      else map_option (\<lambda>(cs, t). (c # cs, t)) (read_chars r))"

text \<open>An integer literal: no leading zero, no fraction, no exponent.\<close>

definition read_int :: "string \<Rightarrow> (int \<times> string) option" where
  "read_int s =
     (let (sg, s1) = (case eat CHR ''-'' s of Some r \<Rightarrow> (- 1, r) | None \<Rightarrow> (1, s));
          ds = takeWhile is_digit s1; r = dropWhile is_digit s1
      in if ds = [] \<or> (hd ds = CHR ''0'' \<and> length ds \<noteq> 1) \<or>
            (r \<noteq> [] \<and> hd r \<in> {CHR ''.'', CHR ''e'', CHR ''E''}) then None
         else Some (sg * int (read_nat 0 ds), r))"

text \<open>
  Values, the elements after an opening bracket and the members after an opening brace. The
  first argument bounds the recursion; \<open>jsonParse\<close> gives two units per character, and every
  two calls consume one.
\<close>

fun read_value :: "nat \<Rightarrow> string \<Rightarrow> (json \<times> string) option"
  and read_elems :: "nat \<Rightarrow> string \<Rightarrow> (json list \<times> string) option"
  and read_members :: "nat \<Rightarrow> string \<Rightarrow> ((string \<times> json) list \<times> string) option" where
  "read_value 0 s = None"
| "read_value (Suc n) s0 =
     (case skip s0 of
        [] \<Rightarrow> None
      | c # r \<Rightarrow>
          if c = CHR 0x22 then map_option (\<lambda>(s, t). (JStr s, t)) (read_chars r)
          else if c = CHR ''['' then
            (case eat CHR '']'' (skip r) of
               Some t \<Rightarrow> Some (JArr [], t)
             | None \<Rightarrow> map_option (\<lambda>(vs, t). (JArr vs, t)) (read_elems n r))
          else if c = CHR ''{'' then
            (case eat CHR ''}'' (skip r) of
               Some t \<Rightarrow> Some (JObj [], t)
             | None \<Rightarrow> map_option (\<lambda>(kvs, t). (JObj (make_obj kvs), t)) (read_members n r))
          else if c = CHR ''n'' then map_option (\<lambda>t. (JNull, t)) (match ''ull'' r)
          else if c = CHR ''t'' then map_option (\<lambda>t. (JBool True, t)) (match ''rue'' r)
          else if c = CHR ''f'' then map_option (\<lambda>t. (JBool False, t)) (match ''alse'' r)
          else map_option (\<lambda>(i, t). (JNum i, t)) (read_int (c # r)))"
| "read_elems 0 s = None"
| "read_elems (Suc n) s =
     (case read_value n s of
        None \<Rightarrow> None
      | Some (v, t) \<Rightarrow>
          (case eat CHR '','' (skip t) of
             Some u \<Rightarrow> map_option (\<lambda>(vs, w). (v # vs, w)) (read_elems n u)
           | None \<Rightarrow> map_option (\<lambda>w. ([v], w)) (eat CHR '']'' (skip t))))"
| "read_members 0 s = None"
| "read_members (Suc n) s =
     do { q \<leftarrow> eat CHR 0x22 (skip s);
          (k, t) \<leftarrow> read_chars q;
          u \<leftarrow> eat CHR '':'' (skip t);
          (v, w) \<leftarrow> read_value n u;
          (case eat CHR '','' (skip w) of
             Some x \<Rightarrow> map_option (\<lambda>(kvs, y). ((k, v) # kvs, y)) (read_members n x)
           | None \<Rightarrow> map_option (\<lambda>y. ([(k, v)], y)) (eat CHR ''}'' (skip w))) }"

definition jsonParse :: "string \<Rightarrow> json option" where
  "jsonParse s =
     (case read_value (2 * length s + 1) s of
        None \<Rightarrow> None
      | Some (v, t) \<Rightarrow> if skip t = [] then Some v else None)"

text \<open>A value as the language can hold it: keys are distinct and in enumeration order.\<close>

fun js_value :: "json \<Rightarrow> bool" where
  "js_value (JArr vs) = list_all js_value vs"
| "js_value (JObj kvs) =
     (distinct (map fst kvs) \<and> sorted (map enum_rank kvs) \<and> list_all (\<lambda>(k, v). js_value v) kvs)"
| "js_value v = True"

text \<open>Logical equality of two values: the same properties, whatever their order.\<close>

fun json_eq :: "json \<Rightarrow> json \<Rightarrow> bool" where
  "json_eq (JArr vs) w = (case w of JArr ws \<Rightarrow> list_all2 json_eq vs ws | _ \<Rightarrow> False)"
| "json_eq (JObj kvs) w =
     (case w of
        JObj kws \<Rightarrow>
          (\<forall>(k, v) \<in> set kvs. k \<noteq> ''__proto__'' \<longrightarrow>
             (case map_of kws k of None \<Rightarrow> False | Some u \<Rightarrow> json_eq v u)) \<and>
          (\<forall>(k, u) \<in> set kws. k \<noteq> ''__proto__'' \<longrightarrow> k \<in> fst ` set kvs)
      | _ \<Rightarrow> False)"
| "json_eq v w = (v = w)"

section \<open>Reading back what was printed\<close>

lemma hex_val_digit [simp]: "k < 16 \<Longrightarrow> hex_val (hex_digit k) = Some k"
  by (auto simp: hex_val_def hex_digit_def)

lemma hex_val_zero [simp]: "hex_val CHR ''0'' = Some 0"
  by (simp add: hex_val_def)

lemma unescape_simps [simp]:
  "unescape CHR 0x22 = Some CHR 0x22" "unescape CHR 0x5C = Some CHR 0x5C"
  "unescape CHR ''b'' = Some CHR 0x08" "unescape CHR ''t'' = Some CHR 0x09"
  "unescape CHR ''n'' = Some CHR 0x0A" "unescape CHR ''f'' = Some CHR 0x0C"
  "unescape CHR ''r'' = Some CHR 0x0D"
  by (simp_all add: unescape_def)

lemma char_eqI: "(of_char c :: nat) = of_char d \<Longrightarrow> c = d"
  by (metis char_of_char)

lemma read_chars_escape:
  "read_chars (escape_char c @ t) = map_option (\<lambda>(cs, u). (c # cs, u)) (read_chars t)"
proof -
  let ?n = "of_char c :: nat"
  consider "c = CHR 0x22" | "c = CHR 0x5C" | "c = CHR 0x08" | "c = CHR 0x09" | "c = CHR 0x0A"
    | "c = CHR 0x0C" | "c = CHR 0x0D"
    | "c \<noteq> CHR 0x22" "c \<noteq> CHR 0x5C" "?n \<noteq> 8" "?n \<noteq> 9" "?n \<noteq> 10" "?n \<noteq> 12" "?n \<noteq> 13" "?n < 32"
    | "c \<noteq> CHR 0x22" "c \<noteq> CHR 0x5C" "\<not> ?n < 32"
    using char_eqI [of c "CHR 0x08"] char_eqI [of c "CHR 0x09"] char_eqI [of c "CHR 0x0A"]
      char_eqI [of c "CHR 0x0C"] char_eqI [of c "CHR 0x0D"] by fastforce
  then show ?thesis
  proof cases
    case 8
    then have "?n div 16 < 16" "?n mod 16 < 16" by simp_all
    moreover have "char_of (16 * (?n div 16) + ?n mod 16) = c" by simp
    ultimately show ?thesis using 8 by (simp add: escape_char_def Let_def)
  qed (simp_all add: escape_char_def Let_def)
qed

lemma read_chars_quote: "read_chars (concat (map escape_char s) @ CHR 0x22 # r) = Some (s, r)"
  by (induction s) (simp_all add: read_chars_escape)

definition stop :: "string \<Rightarrow> bool" where
  "stop r \<longleftrightarrow> r = [] \<or> hd r \<in> {CHR '','', CHR '']'', CHR ''}''}"

lemma not_digit_stop: "stop r \<Longrightarrow> takeWhile is_digit r = [] \<and> dropWhile is_digit r = r"
  by (cases r) (auto simp: stop_def is_digit_def)

lemma show_nat_hd: "hd (show_nat n) = CHR ''0'' \<Longrightarrow> length (show_nat n) = 1"
proof (induction n rule: show_nat.induct)
  case (1 n)
  show ?case
  proof (cases "n < 10")
    case True
    then show ?thesis by (simp add: show_nat.simps)
  next
    case False
    then have "hd (show_nat n) = hd (show_nat (n div 10))"
      by (subst show_nat.simps) simp
    with 1 False have "length (show_nat (n div 10)) = 1" by simp
    moreover have "hd (show_nat (n div 10)) = CHR ''0''"
      using 1 \<open>hd (show_nat n) = hd (show_nat (n div 10))\<close> by simp
    ultimately have "show_nat (n div 10) = ''0''"
      by (cases "show_nat (n div 10)") auto
    then have "read_nat 0 (show_nat (n div 10)) = 0" by (simp add: digit_val_def)
    then have "n div 10 = 0" by (simp add: read_show_nat)
    with False show ?thesis by simp
  qed
qed

lemma show_nat_span:
  assumes "stop r"
  shows "takeWhile is_digit (show_nat n @ r) = show_nat n" "dropWhile is_digit (show_nat n @ r) = r"
  using not_digit_stop [OF assms] show_nat_digits [of n] by simp_all

lemma show_nat_Cons: "\<exists>c cs. show_nat n = c # cs \<and> is_digit c"
  using show_nat_digits [of n] show_nat_nonempty [of n] by (cases "show_nat n") auto

lemma not_digit_minus: "is_digit c \<Longrightarrow> c \<noteq> CHR ''-''"
  by (auto simp: is_digit_def)

lemma eat_minus_show_nat: "eat CHR ''-'' (show_nat n @ r) = None"
  using show_nat_Cons [of n] not_digit_minus by fastforce

lemma read_digits:
  assumes "stop r"
  shows "(let ds = takeWhile is_digit (show_nat n @ r); r' = dropWhile is_digit (show_nat n @ r)
          in if ds = [] \<or> (hd ds = CHR ''0'' \<and> length ds \<noteq> 1) \<or>
                (r' \<noteq> [] \<and> hd r' \<in> {CHR ''.'', CHR ''e'', CHR ''E''}) then None
             else Some (sg * int (read_nat 0 ds), r')) = Some (sg * int n, r)"
proof -
  have "\<not> (r \<noteq> [] \<and> hd r \<in> {CHR ''.'', CHR ''e'', CHR ''E''})"
    using assms by (auto simp: stop_def)
  moreover have "\<not> (hd (show_nat n) = CHR ''0'' \<and> length (show_nat n) \<noteq> 1)"
    using show_nat_hd by blast
  ultimately show ?thesis
    unfolding Let_def show_nat_span [OF assms] by (simp add: read_show_nat)
qed

lemma read_show_int:
  assumes "stop r"
  shows "read_int (show_int i @ r) = Some (i, r)"
proof (cases "i < 0")
  case True
  then show ?thesis
    using read_digits [OF assms, where n = "nat (- i)" and sg = "- 1"]
    unfolding read_int_def show_int_def by (simp only: if_True append_Cons eat.simps option.case prod.case Let_def) simp
next
  case False
  then show ?thesis
    using read_digits [OF assms, where n = "nat i" and sg = 1]
    unfolding read_int_def show_int_def by (simp only: if_False eat_minus_show_nat option.case prod.case Let_def) simp
qed

text \<open>The recursion bound a value needs.\<close>

fun fuel :: "json \<Rightarrow> nat" where
  "fuel (JArr vs) = Suc (sum_list (map (\<lambda>v. Suc (fuel v)) vs))"
| "fuel (JObj kvs) = Suc (sum_list (map (\<lambda>(k, v). Suc (fuel v)) kvs))"
| "fuel v = 1"

lemma length_join_comma:
  "ss \<noteq> [] \<Longrightarrow> length (join_comma ss) + 1 = sum_list (map (\<lambda>s. Suc (length s)) ss)"
  by (induction ss rule: join_comma.induct) auto

lemma sum_list_le:
  "(\<And>x. x \<in> set xs \<Longrightarrow> f x \<le> 2 * g x) \<Longrightarrow> sum_list (map f xs) \<le> 2 * sum_list (map g xs)"
  for f g :: "'a \<Rightarrow> nat"
  by (induction xs) (simp_all add: add_mono)

lemma fuel_le: "fuel v \<le> 2 * length (stringify v) + 1"
proof (induction v rule: fuel.induct)
  case (1 vs)
  have "sum_list (map (\<lambda>v. Suc (fuel v)) vs) \<le> 2 * sum_list (map (\<lambda>v. Suc (length (stringify v))) vs)"
    using 1 by (intro sum_list_le) fastforce
  moreover have "vs \<noteq> [] \<Longrightarrow>
      length (join_comma (map stringify vs)) + 1 = sum_list (map (\<lambda>v. Suc (length (stringify v))) vs)"
    using length_join_comma [of "map stringify vs"] by (simp add: o_def)
  ultimately show ?case by (cases "vs = []") simp_all
next
  case (2 kvs)
  let ?m = "\<lambda>(k, v). quote k @ CHR '':'' # stringify v"
  have "sum_list (map (\<lambda>(k, v). Suc (fuel v)) kvs) \<le> 2 * sum_list (map (\<lambda>kv. Suc (length (?m kv))) kvs)"
  proof (intro sum_list_le)
    fix kv assume "kv \<in> set kvs"
    obtain k v where kv: "kv = (k, v)" by fastforce
    have "fuel v \<le> 2 * length (stringify v) + 1"
      using 2 [OF \<open>kv \<in> set kvs\<close> kv [symmetric]] .
    then show "(case kv of (k, v) \<Rightarrow> Suc (fuel v)) \<le> 2 * Suc (length (?m kv))"
      by (simp add: kv)
  qed
  moreover have "kvs \<noteq> [] \<Longrightarrow>
      length (join_comma (map ?m kvs)) + 1 = sum_list (map (\<lambda>kv. Suc (length (?m kv))) kvs)"
    using length_join_comma [of "map ?m kvs"] by (simp add: o_def)
  ultimately show ?case by (cases "kvs = []") simp_all
qed simp_all

lemma skip_Cons: "\<not> json_ws c \<Longrightarrow> skip (c # r) = c # r"
  by (simp add: skip_def)

lemma not_ws_simps [simp]:
  "\<not> json_ws CHR 0x22" "\<not> json_ws CHR ''['' " "\<not> json_ws CHR ''{''" "\<not> json_ws CHR '']''"
  "\<not> json_ws CHR ''}''" "\<not> json_ws CHR '',''" "\<not> json_ws CHR '':''" "\<not> json_ws CHR ''n''"
  "\<not> json_ws CHR ''t''" "\<not> json_ws CHR ''f''" "\<not> json_ws CHR ''-''"
  by (simp_all add: json_ws_def)

lemma digit_not_ws: "is_digit c \<Longrightarrow> \<not> json_ws c"
  by (auto simp: is_digit_def json_ws_def)

definition value_start :: "char \<Rightarrow> bool" where
  "value_start c \<longleftrightarrow> \<not> json_ws c \<and> c \<noteq> CHR '']'' \<and> c \<noteq> CHR ''}''"

lemma digit_value_start: "is_digit c \<Longrightarrow> value_start c"
  by (auto simp: value_start_def digit_not_ws) (auto simp: is_digit_def)

lemma show_int_Cons: "\<exists>c t. show_int i = c # t \<and> value_start c \<and> (c = CHR ''-'' \<or> is_digit c)"
  using show_nat_Cons [of "nat i"] digit_value_start
  by (cases "i < 0") (auto simp: show_int_def value_start_def)

lemma stringify_Cons: "\<exists>c t. stringify v = c # t \<and> value_start c"
proof (cases v)
  case (JNum i)
  then show ?thesis
    using show_int_Cons [of i] by auto
qed (auto simp: value_start_def quote_def)

lemma read_elems_join:
  assumes "\<And>v n r. v \<in> set vs \<Longrightarrow> fuel v \<le> n \<Longrightarrow> stop r \<Longrightarrow> read_value n (stringify v @ r) = Some (v, r)"
    and "vs \<noteq> []" and "sum_list (map (\<lambda>v. Suc (fuel v)) vs) \<le> n"
  shows "read_elems n (join_comma (map stringify vs) @ CHR '']'' # r) = Some (vs, r)"
  using assms
proof (induction vs arbitrary: n)
  case (Cons v vs)
  from Cons.prems(3) obtain m where n: "n = Suc m" and m: "fuel v \<le> m" "sum_list (map (\<lambda>v. Suc (fuel v)) vs) \<le> m"
    by (cases n) auto
  show ?case
  proof (cases vs)
    case Nil
    then show ?thesis
      using Cons.prems(1) [of v m "CHR '']'' # r"] m by (simp add: n stop_def skip_Cons)
  next
    case (Cons w ws)
    have "read_value m (stringify v @ CHR '','' # join_comma (map stringify vs) @ CHR '']'' # r) =
          Some (v, CHR '','' # join_comma (map stringify vs) @ CHR '']'' # r)"
      using Cons.prems(1) m by (simp add: stop_def)
    moreover have "read_elems m (join_comma (map stringify vs) @ CHR '']'' # r) = Some (vs, r)"
      using Cons.IH Cons.prems(1) m Cons by simp
    ultimately show ?thesis
      using Cons by (simp add: n skip_Cons)
  qed
qed simp

lemma read_members_join:
  assumes "\<And>k v n r. (k, v) \<in> set kvs \<Longrightarrow> fuel v \<le> n \<Longrightarrow> stop r \<Longrightarrow> read_value n (stringify v @ r) = Some (v, r)"
    and "kvs \<noteq> []" and "sum_list (map (\<lambda>(k, v). Suc (fuel v)) kvs) \<le> n"
  shows "read_members n (join_comma (map (\<lambda>(k, v). quote k @ CHR '':'' # stringify v) kvs) @ CHR ''}'' # r) =
         Some (kvs, r)"
  using assms
proof (induction kvs arbitrary: n)
  case (Cons kv kvs)
  obtain k v where kv: "kv = (k, v)" by fastforce
  from Cons.prems(3) obtain m where n: "n = Suc m" and m: "fuel v \<le> m"
    "sum_list (map (\<lambda>(k, v). Suc (fuel v)) kvs) \<le> m"
    by (cases n) (auto simp: kv)
  have colon: "skip (CHR '':'' # t) = CHR '':'' # t" for t by (simp add: skip_Cons)
  show ?case
  proof (cases kvs)
    case Nil
    then show ?thesis
      using Cons.prems(1) [of k v m "CHR ''}'' # r"] m
      by (simp add: n kv stop_def skip_Cons quote_def read_chars_quote)
  next
    case (Cons kw ws)
    let ?rest = "join_comma (map (\<lambda>(k, v). quote k @ CHR '':'' # stringify v) kvs) @ CHR ''}'' # r"
    have "read_value m (stringify v @ CHR '','' # ?rest) = Some (v, CHR '','' # ?rest)"
      using Cons.prems(1) [of k v] m by (simp add: stop_def kv)
    moreover have "read_members m ?rest = Some (kvs, r)"
    proof (rule Cons.IH)
      show "read_value n' (stringify v' @ r') = Some (v', r')"
        if "(k', v') \<in> set kvs" "fuel v' \<le> n'" "stop r'" for k' v' n' r'
        using Cons.prems(1) [of k' v' n' r'] that by simp
    qed (use m Cons in simp_all)
    ultimately show ?thesis
      using Cons by (simp add: n kv skip_Cons quote_def read_chars_quote)
  qed
qed simp

lemma put_prop_new: "k \<notin> fst ` set ps \<Longrightarrow> put_prop ps k v = ps @ [(k, v)]"
  by (induction ps) auto

lemma make_obj_id: "distinct (map fst kvs) \<Longrightarrow> sorted (map enum_rank kvs) \<Longrightarrow> make_obj kvs = kvs"
proof -
  have "distinct (map fst (ps @ kvs)) \<Longrightarrow> foldl (\<lambda>ps (k, v). put_prop ps k v) ps kvs = ps @ kvs" for ps
  proof (induction kvs arbitrary: ps)
    case (Cons kv kvs)
    then show ?case
      using put_prop_new [of "fst kv" ps "snd kv"] Cons.IH [of "ps @ [kv]"]
      by (cases kv) auto
  qed simp
  from this [of "[]"] show "distinct (map fst kvs) \<Longrightarrow> sorted (map enum_rank kvs) \<Longrightarrow> make_obj kvs = kvs"
    by (simp add: make_obj_def sort_key_id_if_sorted)
qed

lemma read_value_num:
  assumes "Suc 0 \<le> n" "stop r"
  shows "read_value n (stringify (JNum i) @ r) = Some (JNum i, r)"
proof -
  from assms obtain m where n: "n = Suc m" by (cases n) auto
  obtain c t where ct: "show_int i = c # t" "value_start c" "c = CHR ''-'' \<or> is_digit c"
    using show_int_Cons [of i] by auto
  then have "c \<notin> {CHR 0x22, CHR ''['', CHR ''{'', CHR ''n'', CHR ''t'', CHR ''f''}"
    by (auto simp: is_digit_def)
  then show ?thesis
    using read_show_int [OF assms(2), of i] ct by (simp add: n skip_Cons value_start_def)
qed

lemma read_value_atom:
  assumes "Suc 0 \<le> n"
  shows "read_value n (stringify JNull @ r) = Some (JNull, r)"
    and "read_value n (stringify (JBool b) @ r) = Some (JBool b, r)"
    and "read_value n (stringify (JStr s) @ r) = Some (JStr s, r)"
  using assms by (cases n; simp add: quote_def read_chars_quote skip_Cons)+

lemma read_stringify:
  "js_value v \<Longrightarrow> fuel v \<le> n \<Longrightarrow> stop r \<Longrightarrow> read_value n (stringify v @ r) = Some (v, r)"
proof (induction v arbitrary: n r rule: fuel.induct)
  case (1 vs)
  then obtain m where n: "n = Suc m" and m: "sum_list (map (\<lambda>v. Suc (fuel v)) vs) \<le> m"
    by (cases n) auto
  show ?case
  proof (cases vs)
    case Nil
    then show ?thesis by (simp add: n skip_Cons)
  next
    case (Cons v ws)
    have "read_elems m (join_comma (map stringify vs) @ CHR '']'' # r) = Some (vs, r)"
      using 1 m Cons by (intro read_elems_join) (auto simp: list_all_iff)
    moreover obtain c t where "join_comma (map stringify vs) = c # t" "value_start c"
      using stringify_Cons [of v] Cons by (cases ws) fastforce+
    ultimately show ?thesis
      using Cons by (simp add: n skip_Cons value_start_def)
  qed
next
  case (2 kvs)
  then obtain m where n: "n = Suc m" and m: "sum_list (map (\<lambda>(k, v). Suc (fuel v)) kvs) \<le> m"
    by (cases n) auto
  let ?ms = "map (\<lambda>(k, v). quote k @ CHR '':'' # stringify v) kvs"
  show ?case
  proof (cases kvs)
    case Nil
    then show ?thesis by (simp add: n skip_Cons)
  next
    case (Cons kv ws)
    have "read_members m (join_comma ?ms @ CHR ''}'' # r) = Some (kvs, r)"
    proof (rule read_members_join)
      show "read_value n' (stringify v' @ r') = Some (v', r')"
        if "(k', v') \<in> set kvs" "fuel v' \<le> n'" "stop r'" for k' v' n' r'
        using 2(1) [of "(k', v')" k' v' n' r'] that 2(2) by (auto simp: list_all_iff)
    qed (use m Cons in simp_all)
    moreover obtain t where "join_comma ?ms = CHR 0x22 # t"
      using Cons by (cases ws; cases kv) (auto simp: quote_def)
    moreover have "make_obj kvs = kvs" using 2 by (intro make_obj_id) auto
    ultimately show ?thesis
      using Cons by (simp add: n skip_Cons)
  qed
qed (simp_all add: read_value_num read_value_atom del: read_value.simps stringify.simps(1-4))

lemma jsonParse_stringify:
  assumes "js_value v"
  shows "jsonParse (stringify v) = Some v"
  using read_stringify [OF assms fuel_le, of "[]"] by (simp add: jsonParse_def stop_def skip_def)

lemma stringify_inject:
  "js_value v \<Longrightarrow> js_value w \<Longrightarrow> stringify v = stringify w \<longleftrightarrow> v = w"
  by (metis jsonParse_stringify option.inject)

section \<open>Canonical text\<close>

lemma enum_rank_mono: "key_rank a \<le> key_rank b \<Longrightarrow> enum_rank a \<le> enum_rank b"
  by (auto simp: key_rank_def enum_rank_def)

lemma sorted_enum_rank: "sorted (map enum_rank (sort_key key_rank kvs))"
proof -
  have "sorted (map key_rank xs) \<Longrightarrow> sorted (map enum_rank xs)" for xs :: "(string \<times> 'a) list"
    by (auto simp: sorted_iff_nth_mono intro: enum_rank_mono)
  then show ?thesis by simp
qed

lemma distinct_keys_sort: "distinct (map fst (sort_key f kvs)) \<longleftrightarrow> distinct (map fst kvs)"
  by (metis mset_map mset_sort mset_eq_imp_distinct_iff)

lemma map_fst_sortValue [simp]: "map fst (map (\<lambda>(k, v). (k, f v)) kvs) = map fst kvs"
  by (induction kvs) auto

lemma js_value_sortValue: "js_value v \<Longrightarrow> js_value (sortValue v)"
proof (induction v rule: sortValue.induct)
  case (2 kvs)
  have "js_value (sortValue v)" if "(k, v) \<in> set kvs" "k \<noteq> ''__proto__''" for k v
    using 2(1) [of "(k, v)" k v] 2(2) that by (auto simp: list_all_iff)
  moreover have "distinct (map fst (filter (\<lambda>(k, v). k \<noteq> ''__proto__'') kvs))"
    using 2(2) by (simp add: distinct_map_filter)
  ultimately show ?case
    by (auto simp: sorted_enum_rank distinct_keys_sort list_all_iff simp del: map_map)
qed (auto simp: list_all_iff)

lemma canonicalJson_inject:
  assumes "js_value v" "js_value w"
  shows "canonicalJson v = canonicalJson w \<longleftrightarrow> sortValue v = sortValue w"
  using assms by (simp add: canonicalJson_def stringify_inject js_value_sortValue)

lemma inj_key_rank: "distinct (map fst kvs) \<Longrightarrow> inj_on key_rank (set kvs)"
  by (auto simp: inj_on_def key_rank_def distinct_map)

text \<open>The order of the properties does not matter.\<close>

lemma sortValue_perm:
  assumes "mset kvs = mset kvs'" and "distinct (map fst kvs)"
  shows "sortValue (JObj kvs) = sortValue (JObj kvs')"
proof -
  let ?f = "\<lambda>xs. map (\<lambda>(k, v). (k, sortValue v)) (filter (\<lambda>(k, v). k \<noteq> ''__proto__'') xs)"
  have "mset (?f kvs) = mset (?f kvs')"
    using assms(1) by simp
  moreover have "inj_on key_rank (set (?f kvs))"
    using assms(2) by (intro inj_key_rank) (simp add: distinct_map_filter del: map_map)
  ultimately have "sort_key key_rank (?f kvs) = sort_key key_rank (?f kvs')"
    by (intro sort_key_inj_key_eq) simp_all
  then show ?thesis by simp
qed

lemma sortValue_idem: "sortValue (sortValue v) = sortValue v"
proof (induction v rule: sortValue.induct)
  case (2 kvs)
  let ?xs = "sort_key key_rank (map (\<lambda>(k, v). (k, sortValue v)) (filter (\<lambda>(k, v). k \<noteq> ''__proto__'') kvs))"
  have "sortValue v = v" if "(k, v) \<in> set ?xs" for k v
  proof -
    from that obtain w where "(k, w) \<in> set kvs" "k \<noteq> ''__proto__''" "v = sortValue w"
      by (fastforce simp del: sortValue.simps)
    moreover from this have "sortValue (sortValue w) = sortValue w"
      by (intro 2 [of "(k, w)" k w]) auto
    ultimately show ?thesis by (simp only:)
  qed
  note fix_v = this
  have "map (\<lambda>(k, v). (k, sortValue v)) ?xs = ?xs"
  proof (rule map_idI)
    fix kv assume "kv \<in> set ?xs"
    then show "(case kv of (k, v) \<Rightarrow> (k, sortValue v)) = kv"
      using fix_v [of "fst kv" "snd kv"] by (simp only: prod.collapse case_prod_beta)
  qed
  moreover have "filter (\<lambda>(k, v). k \<noteq> ''__proto__'') ?xs = ?xs"
    by (auto simp: filter_id_conv)
  ultimately show ?case by (simp add: sort_key_id_if_sorted)
qed simp_all

definition sorted_props :: "(string \<times> json) list \<Rightarrow> (string \<times> json) list" where
  "sorted_props kvs = map (\<lambda>(k, v). (k, sortValue v)) (filter (\<lambda>(k, v). k \<noteq> ''__proto__'') kvs)"

lemma sortValue_JObj: "sortValue (JObj kvs) = JObj (sort_key key_rank (sorted_props kvs))"
  by (simp add: sorted_props_def)

lemma sorted_props_distinct: "distinct (map fst kvs) \<Longrightarrow> distinct (map fst (sorted_props kvs))"
  by (simp add: sorted_props_def distinct_map_filter del: map_map)

lemma sort_props_eq_iff:
  assumes "distinct (map fst xs)" "distinct (map fst ys)"
  shows "sort_key key_rank xs = sort_key key_rank ys \<longleftrightarrow> set xs = set ys"
proof
  assume "sort_key key_rank xs = sort_key key_rank ys"
  then show "set xs = set ys" by (metis set_sort)
next
  assume "set xs = set ys"
  moreover have "distinct xs" "distinct ys" using assms by (simp_all add: distinct_map)
  ultimately have "mset xs = mset ys" by (metis set_eq_iff_mset_eq_distinct)
  moreover have "inj_on key_rank (set xs)" using assms(1) by (rule inj_key_rank)
  ultimately show "sort_key key_rank xs = sort_key key_rank ys"
    by (intro sort_key_inj_key_eq) simp_all
qed

lemma in_sorted_props: "(k, v) \<in> set (sorted_props kvs) \<longleftrightarrow> k \<noteq> ''__proto__'' \<and> (\<exists>u. (k, u) \<in> set kvs \<and> v = sortValue u)"
  by (auto simp: sorted_props_def)

lemma set_sorted_props_eq_iff:
  assumes "distinct (map fst kvs)" "distinct (map fst kws)"
  shows "set (sorted_props kvs) = set (sorted_props kws) \<longleftrightarrow>
     (\<forall>(k, v) \<in> set kvs. k \<noteq> ''__proto__'' \<longrightarrow> (\<exists>u. map_of kws k = Some u \<and> sortValue v = sortValue u)) \<and>
     (\<forall>(k, u) \<in> set kws. k \<noteq> ''__proto__'' \<longrightarrow> k \<in> fst ` set kvs)" (is "?L \<longleftrightarrow> ?R")
proof
  assume L: ?L
  have "\<exists>u. map_of kws k = Some u \<and> sortValue v = sortValue u" if "(k, v) \<in> set kvs" "k \<noteq> ''__proto__''" for k v
  proof -
    have "(k, sortValue v) \<in> set (sorted_props kws)"
      using that L in_sorted_props [of k "sortValue v" kvs] by auto
    then show ?thesis using assms(2) by (auto simp: in_sorted_props)
  qed
  moreover have "k \<in> fst ` set kvs" if "(k, u) \<in> set kws" "k \<noteq> ''__proto__''" for k u
  proof -
    have "(k, sortValue u) \<in> set (sorted_props kvs)"
      using that L in_sorted_props [of k "sortValue u" kws] by auto
    then show ?thesis by (force simp: in_sorted_props)
  qed
  ultimately show ?R by auto
next
  assume R: ?R
  have "(k, v) \<in> set (sorted_props kvs) \<longleftrightarrow> (k, v) \<in> set (sorted_props kws)" for k v
  proof
    assume "(k, v) \<in> set (sorted_props kvs)"
    then obtain u where "k \<noteq> ''__proto__''" "(k, u) \<in> set kvs" "v = sortValue u"
      by (auto simp: in_sorted_props)
    then show "(k, v) \<in> set (sorted_props kws)"
      using R by (auto simp: in_sorted_props dest!: map_of_SomeD)
  next
    assume "(k, v) \<in> set (sorted_props kws)"
    then obtain u where u: "k \<noteq> ''__proto__''" "(k, u) \<in> set kws" "v = sortValue u"
      by (auto simp: in_sorted_props)
    then obtain w where w: "(k, w) \<in> set kvs" using R by auto
    then obtain u' where "map_of kws k = Some u'" "sortValue w = sortValue u'"
      using R u by blast
    moreover have "map_of kws k = Some u" using u assms(2) by simp
    ultimately show "(k, v) \<in> set (sorted_props kvs)"
      using u w by (auto simp: in_sorted_props)
  qed
  then show ?L by auto
qed

lemma sortValue_atom:
  "JNull = sortValue w \<longleftrightarrow> JNull = w" "JBool b = sortValue w \<longleftrightarrow> JBool b = w"
  "JNum i = sortValue w \<longleftrightarrow> JNum i = w" "JStr s = sortValue w \<longleftrightarrow> JStr s = w"
  by (cases w; simp)+

lemma sortValue_eq_iff: "js_value v \<Longrightarrow> js_value w \<Longrightarrow> sortValue v = sortValue w \<longleftrightarrow> json_eq v w"
proof (induction v arbitrary: w rule: sortValue.induct)
  case (1 vs)
  show ?case
  proof (cases w)
    case (JArr ws)
    have "map sortValue vs = map sortValue ws \<longleftrightarrow> list_all2 (\<lambda>x y. sortValue x = sortValue y) vs ws"
      by (simp add: list_all2_conv_all_nth list_eq_iff_nth_eq) (metis nth_map)
    also have "\<dots> \<longleftrightarrow> list_all2 json_eq vs ws"
      using 1 JArr by (intro list.rel_cong_simp) (auto simp: simp_implies_def list_all_iff)
    finally show ?thesis by (simp add: JArr)
  qed simp_all
next
  case (2 kvs)
  show ?case
  proof (cases w)
    case (JObj kws)
    have eq: "sortValue v = sortValue u \<longleftrightarrow> json_eq v u"
      if "(k, v) \<in> set kvs" "k \<noteq> ''__proto__''" "map_of kws k = Some u" for k v u
    proof (rule 2(1) [of "(k, v)" k v])
      show "js_value v" using 2(2) that by (auto simp: list_all_iff)
      show "js_value u" using 2(3) that by (auto simp: JObj list_all_iff dest!: map_of_SomeD)
    qed (use that in auto)
    have "sortValue (JObj kvs) = sortValue w \<longleftrightarrow> set (sorted_props kvs) = set (sorted_props kws)"
      using 2(2,3) unfolding JObj sortValue_JObj json.inject
      by (intro sort_props_eq_iff sorted_props_distinct) simp_all
    also have "\<dots> \<longleftrightarrow> json_eq (JObj kvs) w"
      using 2(2,3) set_sorted_props_eq_iff [of kvs kws] eq by (simp add: JObj) (fastforce split: option.splits)
    finally show ?thesis .
  qed simp_all
qed (simp_all add: sortValue_atom)



text \<open>The loss of \<^verbatim>\<open>__proto__\<close>, on two objects that differ in nothing else.\<close>

lemma canonicalJson_ignores_proto:
  "canonicalJson (JObj [(''__proto__'', v), (''a'', w)]) = canonicalJson (JObj [(''a'', w)])"
  by (simp add: canonicalJson_def)

end
