(* ===== verification/Crypto.thy ===== *)
theory Crypto
  imports Json
begin

text \<open>
  \<^verbatim>\<open>pipeline/src/internal/crypto.ts\<close>. SHA-256, HMAC-SHA256 and \<^verbatim>\<open>randomUUID\<close> belong to
  \<^verbatim>\<open>node:crypto\<close> and are the fields of the record \<open>crypto\<close>: the digests as hex text, and the
  \<open>n\<close>-th UUID the process draws. A theorem that needs more than that names what it needs:
  \<open>hex_digests\<close> (digests are lower-case hex of 32 bytes), \<open>fresh_uuids\<close> (UUIDs do not repeat,
  also without their dashes), and that no two of the texts at hand share a digest (\<open>inj_on\<close> a
  set of texts: a digest of fixed length is not injective on all of them).
\<close>

record crypto =
  sha256Hex :: "string \<Rightarrow> string"
  hmacSha256Hex :: "string \<Rightarrow> string \<Rightarrow> string"
  randomUUID :: "nat \<Rightarrow> string"

text \<open>
  \<^verbatim>\<open>Buffer.from(s, "hex")\<close> decodes pairs of hex digits and stops at the first pair that is
  none; \<^verbatim>\<open>timingSafeEqual\<close> throws when the two buffers differ in length, which
  \<^verbatim>\<open>safeEqualHex\<close> turns into \<^verbatim>\<open>false\<close>.
\<close>

fun hex_bytes :: "string \<Rightarrow> nat list" where
  "hex_bytes (a # b # r) =
     (case (hex_val a, hex_val b) of
        (Some h, Some l) \<Rightarrow> (16 * h + l) # hex_bytes r
      | _ \<Rightarrow> [])"
| "hex_bytes _ = []"

definition safeEqualHex :: "string \<Rightarrow> string \<Rightarrow> bool" where
  "safeEqualHex left right \<longleftrightarrow>
     (if length left \<noteq> length right then False
      else if length (hex_bytes left) \<noteq> length (hex_bytes right) then False
      else hex_bytes left = hex_bytes right)"

text \<open>The draws of a process are numbered; each call takes the next one.\<close>

definition newId :: "crypto \<Rightarrow> string \<Rightarrow> nat \<Rightarrow> string \<times> nat" where
  "newId C prefix n = (prefix @ ''_'' @ randomUUID C n, Suc n)"

definition newNonce :: "crypto \<Rightarrow> nat \<Rightarrow> string \<times> nat" where
  "newNonce C n = (filter (\<lambda>c. c \<noteq> CHR ''-'') (randomUUID C n), Suc n)"

section \<open>What a theorem may ask of the primitives\<close>

definition lower_hex :: "char \<Rightarrow> bool" where
  "lower_hex c \<longleftrightarrow> (\<exists>k < 16. c = hex_digit k)"

definition hex_digest :: "string \<Rightarrow> bool" where
  "hex_digest s \<longleftrightarrow> length s = 64 \<and> (\<forall>c \<in> set s. lower_hex c)"

definition hex_digests :: "crypto \<Rightarrow> bool" where
  "hex_digests C \<longleftrightarrow> (\<forall>s. hex_digest (sha256Hex C s)) \<and> (\<forall>k s. hex_digest (hmacSha256Hex C k s))"

definition fresh_uuids :: "crypto \<Rightarrow> bool" where
  "fresh_uuids C \<longleftrightarrow>
     inj (randomUUID C) \<and> inj (\<lambda>n. filter (\<lambda>c. c \<noteq> CHR ''-'') (randomUUID C n)) \<and>
     (\<forall>n. isNonEmptyString (filter (\<lambda>c. c \<noteq> CHR ''-'') (randomUUID C n)))"

section \<open>Lemmas\<close>

lemma hex_digit_inj: "i < 16 \<Longrightarrow> j < 16 \<Longrightarrow> hex_digit i = hex_digit j \<longleftrightarrow> i = j"
  by (metis hex_val_digit option.inject)

lemma hex_bytes_inject:
  "even (length s) \<Longrightarrow> length s = length t \<Longrightarrow> \<forall>c \<in> set s. lower_hex c \<Longrightarrow> \<forall>c \<in> set t. lower_hex c \<Longrightarrow>
   hex_bytes s = hex_bytes t \<Longrightarrow> s = t"
proof (induction s arbitrary: t rule: hex_bytes.induct)
  case (1 a b r)
  then obtain a' b' r' where t: "t = a' # b' # r'"
    by (metis length_Suc_conv)
  from 1 obtain i j where ij: "i < 16" "j < 16" "a = hex_digit i" "b = hex_digit j"
    by (auto simp: lower_hex_def)
  from 1 t obtain k l where kl: "k < 16" "l < 16" "a' = hex_digit k" "b' = hex_digit l"
    by (auto simp: lower_hex_def)
  from 1(6) have "16 * i + j = 16 * k + l" and rest: "hex_bytes r = hex_bytes r'"
    by (simp_all add: t ij kl)
  then have "i = k" using ij(2) kl(2) by linarith
  moreover from this \<open>16 * i + j = 16 * k + l\<close> have "j = l" by simp
  moreover have "r = r'"
    using 1(2-5) rest by (intro 1(1) [of "Some i" "Some j" i j]) (auto simp: t ij)
  ultimately show ?case by (simp add: t ij kl)
qed auto

lemma safeEqualHex_refl [simp]: "safeEqualHex s s"
  by (simp add: safeEqualHex_def)

lemma safeEqualHex_digest:
  assumes "hex_digest s" "hex_digest t"
  shows "safeEqualHex s t \<longleftrightarrow> s = t"
  using assms hex_bytes_inject [of s t] by (auto simp: safeEqualHex_def hex_digest_def)

lemma hex_digest_nonempty:
  assumes "hex_digest s"
  shows "isNonEmptyString s"
proof -
  obtain c cs where s: "s = c # cs" using assms by (cases s) (auto simp: hex_digest_def)
  then obtain k where "k < 16" "c = hex_digit k"
    using assms by (auto simp: hex_digest_def lower_hex_def)
  then have "\<not> is_ws c" by (auto simp: hex_digit_def is_ws_def)
  then show ?thesis by (simp add: s isNonEmptyString_Cons)
qed

text \<open>
  A concrete instance for evaluation: a polynomial checksum printed as 64 hex digits, and
  decimal numbers as identifiers.
\<close>

definition checksum :: "string \<Rightarrow> int" where
  "checksum s = foldl (\<lambda>h c. (31 * h + of_char c) mod 65521) 7 s"

definition demo_digest :: "string \<Rightarrow> string" where
  "demo_digest s =
     (let h = checksum s
      in replicate 60 (CHR ''0'') @
         map (\<lambda>d. hex_digit (nat (h div d mod 16))) [4096, 256, 16, 1])"

definition demo_crypto :: crypto where
  "demo_crypto = \<lparr> sha256Hex = demo_digest, hmacSha256Hex = (\<lambda>k s. demo_digest (quote k @ s)),
     randomUUID = show_nat \<rparr>"

lemma demo_hex_digests: "hex_digests demo_crypto"
proof -
  have "lower_hex (hex_digit (nat (h mod 16)))" for h :: int
    unfolding lower_hex_def by (intro exI [of _ "nat (h mod 16)"]) auto
  moreover have "lower_hex (CHR ''0'')"
    unfolding lower_hex_def by (intro exI [of _ 0]) (auto simp: hex_digit_def intro: char_eqI)
  ultimately have "hex_digest (demo_digest s)" for s
    by (auto simp: hex_digest_def demo_digest_def Let_def)
  then show ?thesis by (simp add: hex_digests_def demo_crypto_def)
qed

lemma filter_dash_show_nat: "filter (\<lambda>c. c \<noteq> CHR ''-'') (show_nat n) = show_nat n"
  using show_nat_digits [of n] not_digit_minus by (auto simp: filter_id_conv)

lemma digit_not_is_ws: "is_digit c \<Longrightarrow> \<not> is_ws c"
  by (auto simp: is_digit_def is_ws_def)

lemma demo_fresh_uuids: "fresh_uuids demo_crypto"
proof -
  have "isNonEmptyString (show_nat n)" for n
    using show_nat_Cons [of n] digit_not_is_ws by (auto simp: isNonEmptyString_Cons)
  then show ?thesis
    by (simp add: fresh_uuids_def demo_crypto_def filter_dash_show_nat inj_def)
qed

end
