(* ===== verification/Protocol.thy ===== *)
theory Protocol
  imports Prelude
begin

text \<open>
  \<^verbatim>\<open>protocol/src/core.ts\<close> and \<^verbatim>\<open>protocol/src/context.ts\<close>: the execution context every
  package passes around and its validation. A value of \<open>OSForgeContext\<close> is well typed;
  \<open>raw_context\<close> is what \<^verbatim>\<open>validateOSForgeContext\<close> may really receive, with \<^term>\<open>None\<close> for a
  part that is no object and for an id that is no string. The main fact: a context is valid
  exactly when all four parts are present, every id is non-empty and actor, organization and
  workspace belong to the one tenant and organization.
\<close>

datatype ActorType = HumanUser | DigitalEmployee | AiAgent | System | ExternalService

definition actor_type_text :: "ActorType \<Rightarrow> string" where
  "actor_type_text t =
     (case t of HumanUser \<Rightarrow> ''human_user'' | DigitalEmployee \<Rightarrow> ''digital_employee''
      | AiAgent \<Rightarrow> ''ai_agent'' | System \<Rightarrow> ''system'' | ExternalService \<Rightarrow> ''external_service'')"

datatype TenantStatus = Active | Suspended | Archived

record Tenant =
  tenant_id :: string
  tenant_name :: string
  tenant_status :: TenantStatus
  tenant_createdAt :: string

record Organization =
  org_id :: string
  org_tenantId :: string
  org_name :: string
  org_domain :: "string option"
  org_createdAt :: string

record Workspace =
  ws_id :: string
  ws_tenantId :: string
  ws_organizationId :: string
  ws_name :: string
  ws_purpose :: "string option"

record Actor =
  actor_id :: string
  actor_type :: ActorType
  actor_displayName :: string
  actor_tenantId :: string
  actor_organizationId :: "string option"
  actor_workspaceId :: "string option"

record OSForgeContext =
  ctx_tenant :: Tenant
  ctx_organization :: Organization
  ctx_workspace :: Workspace
  ctx_actor :: Actor
  ctx_correlationId :: string
  ctx_locale :: "string option"
  ctx_timezone :: "string option"

datatype ContextInvariantCode =
    Missing_context | Invalid_tenant_id | Invalid_actor_id | Invalid_actor_tenant_id
  | Invalid_organization_id | Invalid_organization_tenant_id | Invalid_workspace_id
  | Invalid_workspace_tenant_id | Invalid_workspace_organization_id | Invalid_correlation_id
  | Actor_tenant_mismatch | Organization_tenant_mismatch | Workspace_tenant_mismatch
  | Workspace_organization_mismatch

record ContextInvariantViolation =
  cv_code :: ContextInvariantCode
  cv_message :: string
  expectedTenantId :: "string option"
  actualTenantId :: "string option"
  expectedOrganizationId :: "string option"
  actualOrganizationId :: "string option"

datatype ContextValidationResult = Valid | Invalid "ContextInvariantViolation list"

record TenantBoundary =
  tb_tenantId :: string

record WorkspaceBoundary = TenantBoundary +
  wb_organizationId :: string
  wb_workspaceId :: string

definition tenantBoundaryFromContext :: "OSForgeContext \<Rightarrow> TenantBoundary" where
  "tenantBoundaryFromContext c = \<lparr> tb_tenantId = tenant_id (ctx_tenant c) \<rparr>"

definition workspaceBoundaryFromContext :: "OSForgeContext \<Rightarrow> WorkspaceBoundary" where
  "workspaceBoundaryFromContext c =
     \<lparr> tb_tenantId = tenant_id (ctx_tenant c), wb_organizationId = org_id (ctx_organization c),
       wb_workspaceId = ws_id (ctx_workspace c) \<rparr>"

section \<open>Validation\<close>

record raw_tenant =
  rt_id :: "string option"

record raw_actor =
  ra_id :: "string option"
  ra_tenantId :: "string option"

record raw_organization =
  ro_id :: "string option"
  ro_tenantId :: "string option"

record raw_workspace =
  rw_id :: "string option"
  rw_tenantId :: "string option"
  rw_organizationId :: "string option"

record raw_context =
  rc_tenant :: "raw_tenant option"
  rc_organization :: "raw_organization option"
  rc_workspace :: "raw_workspace option"
  rc_actor :: "raw_actor option"
  rc_correlationId :: "string option"

definition raw_of :: "OSForgeContext \<Rightarrow> raw_context" where
  "raw_of c =
     \<lparr> rc_tenant = Some \<lparr> rt_id = Some (tenant_id (ctx_tenant c)) \<rparr>,
       rc_organization = Some \<lparr> ro_id = Some (org_id (ctx_organization c)),
                                ro_tenantId = Some (org_tenantId (ctx_organization c)) \<rparr>,
       rc_workspace = Some \<lparr> rw_id = Some (ws_id (ctx_workspace c)),
                             rw_tenantId = Some (ws_tenantId (ctx_workspace c)),
                             rw_organizationId = Some (ws_organizationId (ctx_workspace c)) \<rparr>,
       rc_actor = Some \<lparr> ra_id = Some (actor_id (ctx_actor c)),
                         ra_tenantId = Some (actor_tenantId (ctx_actor c)) \<rparr>,
       rc_correlationId = Some (ctx_correlationId c) \<rparr>"

definition violation :: "ContextInvariantCode \<Rightarrow> string \<Rightarrow> ContextInvariantViolation" where
  "violation c m = \<lparr> cv_code = c, cv_message = m, expectedTenantId = None, actualTenantId = None,
                     expectedOrganizationId = None, actualOrganizationId = None \<rparr>"

definition push_if :: "bool \<Rightarrow> 'a \<Rightarrow> 'a list \<Rightarrow> 'a list" where
  "push_if b x xs = (if b then xs @ [x] else xs)"

text \<open>The nine checks on single fields, in the order of the source.\<close>

definition field_violations ::
  "string option \<Rightarrow> raw_tenant \<Rightarrow> raw_actor \<Rightarrow> raw_organization \<Rightarrow> raw_workspace \<Rightarrow>
   ContextInvariantViolation list" where
  "field_violations correlationId tenant actor organization workspace =
     (let v0 = push_if (\<not> isNonEmptyOpt (rt_id tenant))
                 (violation Invalid_tenant_id ''Tenant id must be a non-empty string.'') [];
          v1 = push_if (\<not> isNonEmptyOpt (ra_id actor))
                 (violation Invalid_actor_id ''Actor id must be a non-empty string.'') v0;
          v2 = push_if (\<not> isNonEmptyOpt (ra_tenantId actor))
                 (violation Invalid_actor_tenant_id ''Actor tenant id must be a non-empty string.'') v1;
          v3 = push_if (\<not> isNonEmptyOpt (ro_id organization))
                 (violation Invalid_organization_id ''Organization id must be a non-empty string.'') v2;
          v4 = push_if (\<not> isNonEmptyOpt (ro_tenantId organization))
                 (violation Invalid_organization_tenant_id
                    ''Organization tenant id must be a non-empty string.'') v3;
          v5 = push_if (\<not> isNonEmptyOpt (rw_id workspace))
                 (violation Invalid_workspace_id ''Workspace id must be a non-empty string.'') v4;
          v6 = push_if (\<not> isNonEmptyOpt (rw_tenantId workspace))
                 (violation Invalid_workspace_tenant_id
                    ''Workspace tenant id must be a non-empty string.'') v5;
          v7 = push_if (\<not> isNonEmptyOpt (rw_organizationId workspace))
                 (violation Invalid_workspace_organization_id
                    ''Workspace organization id must be a non-empty string.'') v6
      in push_if (\<not> isNonEmptyOpt correlationId)
           (violation Invalid_correlation_id ''Correlation id must be a non-empty string.'') v7)"

text \<open>The four checks that compare fields; they run only when every field is non-empty.\<close>

definition boundary_violations ::
  "raw_tenant \<Rightarrow> raw_actor \<Rightarrow> raw_organization \<Rightarrow> raw_workspace \<Rightarrow> ContextInvariantViolation list" where
  "boundary_violations tenant actor organization workspace =
     (let expected = rt_id tenant;
          v0 = push_if (ra_tenantId actor \<noteq> expected)
                 \<lparr> cv_code = Actor_tenant_mismatch,
                   cv_message = ''Actor must belong to the active tenant boundary.'',
                   expectedTenantId = expected, actualTenantId = ra_tenantId actor,
                   expectedOrganizationId = None, actualOrganizationId = None \<rparr> [];
          v1 = push_if (ro_tenantId organization \<noteq> expected)
                 \<lparr> cv_code = Organization_tenant_mismatch,
                   cv_message = ''Organization must belong to the active tenant boundary.'',
                   expectedTenantId = expected, actualTenantId = ro_tenantId organization,
                   expectedOrganizationId = None, actualOrganizationId = None \<rparr> v0;
          v2 = push_if (rw_tenantId workspace \<noteq> expected)
                 \<lparr> cv_code = Workspace_tenant_mismatch,
                   cv_message = ''Workspace must belong to the active tenant boundary.'',
                   expectedTenantId = expected, actualTenantId = rw_tenantId workspace,
                   expectedOrganizationId = None, actualOrganizationId = None \<rparr> v1
      in push_if (rw_organizationId workspace \<noteq> ro_id organization)
           \<lparr> cv_code = Workspace_organization_mismatch,
             cv_message = ''Workspace must belong to the active organization boundary.'',
             expectedTenantId = expected, actualTenantId = None,
             expectedOrganizationId = ro_id organization,
             actualOrganizationId = rw_organizationId workspace \<rparr> v2)"

definition validateOSForgeContext :: "raw_context option \<Rightarrow> ContextValidationResult" where
  "validateOSForgeContext context =
     (case context of
        None \<Rightarrow> Invalid [violation Missing_context ''OSForgeContext is required before execution.'']
      | Some c \<Rightarrow>
         (case (rc_tenant c, rc_actor c, rc_organization c, rc_workspace c) of
            (Some tenant, Some actor, Some organization, Some workspace) \<Rightarrow>
              (let vs = field_violations (rc_correlationId c) tenant actor organization workspace in
               if vs \<noteq> [] then Invalid vs
               else (let ws = boundary_violations tenant actor organization workspace in
                     if ws = [] then Valid else Invalid ws))
          | _ \<Rightarrow> Invalid [violation Missing_context
                    ''Tenant, actor, organization and workspace are required before execution.'']))"

text \<open>What validity means, stated without the order of the checks.\<close>

definition well_bound :: "raw_context \<Rightarrow> bool" where
  "well_bound c \<longleftrightarrow>
     (\<exists>t tid a aid g gid w wid cid.
        rc_tenant c = Some t \<and> rc_actor c = Some a \<and> rc_organization c = Some g \<and> rc_workspace c = Some w \<and>
        rt_id t = Some tid \<and> ra_id a = Some aid \<and> ro_id g = Some gid \<and> rw_id w = Some wid \<and>
        rc_correlationId c = Some cid \<and>
        (\<forall>s \<in> {tid, aid, gid, wid, cid}. isNonEmptyString s) \<and>
        ra_tenantId a = Some tid \<and> ro_tenantId g = Some tid \<and> rw_tenantId w = Some tid \<and>
        rw_organizationId w = Some gid)"

lemma push_if_Nil [simp]: "push_if b x xs = [] \<longleftrightarrow> \<not> b \<and> xs = []"
  by (simp add: push_if_def)

lemma field_violations_Nil:
  "field_violations cid t a g w = [] \<longleftrightarrow>
     isNonEmptyOpt (rt_id t) \<and> isNonEmptyOpt (ra_id a) \<and> isNonEmptyOpt (ra_tenantId a) \<and>
     isNonEmptyOpt (ro_id g) \<and> isNonEmptyOpt (ro_tenantId g) \<and> isNonEmptyOpt (rw_id w) \<and>
     isNonEmptyOpt (rw_tenantId w) \<and> isNonEmptyOpt (rw_organizationId w) \<and> isNonEmptyOpt cid"
  by (auto simp: field_violations_def Let_def)

lemma boundary_violations_Nil:
  "boundary_violations t a g w = [] \<longleftrightarrow>
     ra_tenantId a = rt_id t \<and> ro_tenantId g = rt_id t \<and> rw_tenantId w = rt_id t \<and>
     rw_organizationId w = ro_id g"
  by (auto simp: boundary_violations_def Let_def)

lemma isNonEmptyOpt_iff: "isNonEmptyOpt v \<longleftrightarrow> (\<exists>s. v = Some s \<and> isNonEmptyString s)"
  by (auto simp: isNonEmptyOpt_def split: option.splits)

lemma validate_iff_well_bound: "validateOSForgeContext (Some c) = Valid \<longleftrightarrow> well_bound c"
proof (cases "\<exists>t a g w. rc_tenant c = Some t \<and> rc_actor c = Some a \<and> rc_organization c = Some g \<and> rc_workspace c = Some w")
  case True
  then obtain t a g w where c: "rc_tenant c = Some t" "rc_actor c = Some a"
    "rc_organization c = Some g" "rc_workspace c = Some w" by blast
  have "validateOSForgeContext (Some c) = Valid \<longleftrightarrow>
      field_violations (rc_correlationId c) t a g w = [] \<and> boundary_violations t a g w = []"
    by (simp add: validateOSForgeContext_def c Let_def)
  then show ?thesis
    unfolding field_violations_Nil boundary_violations_Nil isNonEmptyOpt_iff well_bound_def c by auto
next
  case False
  then have "\<not> well_bound c" by (auto simp: well_bound_def)
  moreover have "validateOSForgeContext (Some c) \<noteq> Valid"
    using False by (auto simp: validateOSForgeContext_def split: option.splits)
  ultimately show ?thesis by blast
qed

text \<open>An invalid result always names at least one violation.\<close>

lemma validate_Invalid_nonempty: "validateOSForgeContext c = Invalid vs \<Longrightarrow> vs \<noteq> []"
  by (auto simp: validateOSForgeContext_def Let_def split: option.splits if_splits)

definition valid_context :: "OSForgeContext \<Rightarrow> bool" where
  "valid_context c \<longleftrightarrow> validateOSForgeContext (Some (raw_of c)) = Valid"

lemma valid_context_iff:
  "valid_context c \<longleftrightarrow>
     isNonEmptyString (tenant_id (ctx_tenant c)) \<and> isNonEmptyString (actor_id (ctx_actor c)) \<and>
     isNonEmptyString (org_id (ctx_organization c)) \<and> isNonEmptyString (ws_id (ctx_workspace c)) \<and>
     isNonEmptyString (ctx_correlationId c) \<and>
     actor_tenantId (ctx_actor c) = tenant_id (ctx_tenant c) \<and>
     org_tenantId (ctx_organization c) = tenant_id (ctx_tenant c) \<and>
     ws_tenantId (ctx_workspace c) = tenant_id (ctx_tenant c) \<and>
     ws_organizationId (ctx_workspace c) = org_id (ctx_organization c)"
  by (auto simp: valid_context_def validate_iff_well_bound well_bound_def raw_of_def)

text \<open>A context for evaluation.\<close>

definition demo_context :: OSForgeContext where
  "demo_context =
     \<lparr> ctx_tenant = \<lparr> tenant_id = ''t1'', tenant_name = ''T'', tenant_status = Active,
                      tenant_createdAt = ''2026-01-01T00:00:00.000Z'' \<rparr>,
       ctx_organization = \<lparr> org_id = ''o1'', org_tenantId = ''t1'', org_name = ''O'', org_domain = None,
                            org_createdAt = ''2026-01-01T00:00:00.000Z'' \<rparr>,
       ctx_workspace = \<lparr> ws_id = ''w1'', ws_tenantId = ''t1'', ws_organizationId = ''o1'',
                         ws_name = ''W'', ws_purpose = None \<rparr>,
       ctx_actor = \<lparr> actor_id = ''a1'', actor_type = HumanUser, actor_displayName = ''A'',
                     actor_tenantId = ''t1'', actor_organizationId = None, actor_workspaceId = None \<rparr>,
       ctx_correlationId = ''c1'', ctx_locale = None, ctx_timezone = None \<rparr>"

text \<open>
  \<^verbatim>\<open>validateOSForgeContext\<close> accepts a context exactly when tenant, actor, organization
  and workspace are all present with non-empty ids and lie in one tenant and one organization;
  a rejection always carries a violation, and a missing context is rejected.
\<close>

lemma validateOSForgeContext_correct:
  "(validateOSForgeContext (Some c) = Valid \<longleftrightarrow> well_bound c) \<and>
   validateOSForgeContext None \<noteq> Valid \<and> validateOSForgeContext x \<noteq> Invalid []"
  using validate_iff_well_bound [of c] validate_Invalid_nonempty [of x "[]"]
  by (auto simp: validateOSForgeContext_def)

end
