(* ===== verification/Decision.thy ===== *)
theory Decision
  imports Permit Protocol
begin

text \<open>
  The vocabulary of the pipeline: \<^verbatim>\<open>types.ts\<close> (modes and authentication levels),
  \<^verbatim>\<open>decision.ts\<close> (the explainable decision every gate returns), \<^verbatim>\<open>execution-context.ts\<close> (the
  context that is derived from a validated \<open>OSForgeContext\<close>, and its hash) and
  \<^verbatim>\<open>intent-boundary.ts\<close> of \<^verbatim>\<open>pipeline/src\<close>.
\<close>

section \<open>types.ts\<close>

datatype RuntimeMode = Test | Production

datatype AuthenticationLevel = AalNone | Aal1 | Aal2 | Aal3

definition AUTHENTICATION_LEVEL_RANK :: "AuthenticationLevel \<Rightarrow> int" where
  "AUTHENTICATION_LEVEL_RANK l = (case l of AalNone \<Rightarrow> 0 | Aal1 \<Rightarrow> 1 | Aal2 \<Rightarrow> 2 | Aal3 \<Rightarrow> 3)"

definition meetsAuthenticationLevel :: "AuthenticationLevel \<Rightarrow> AuthenticationLevel \<Rightarrow> bool" where
  "meetsAuthenticationLevel actual required \<longleftrightarrow>
     AUTHENTICATION_LEVEL_RANK required \<le> AUTHENTICATION_LEVEL_RANK actual"

definition level_text :: "AuthenticationLevel \<Rightarrow> string" where
  "level_text l = (case l of AalNone \<Rightarrow> ''none'' | Aal1 \<Rightarrow> ''aal1'' | Aal2 \<Rightarrow> ''aal2'' | Aal3 \<Rightarrow> ''aal3'')"

datatype PipelineRiskLevel = Low | Medium | High | Critical

definition risk_text :: "PipelineRiskLevel \<Rightarrow> string" where
  "risk_text l = (case l of Low \<Rightarrow> ''low'' | Medium \<Rightarrow> ''medium'' | High \<Rightarrow> ''high'' | Critical \<Rightarrow> ''critical'')"

section \<open>decision.ts\<close>

datatype DecisionStatus =
    Allow | Deny | Approval_required | Step_up_required | Retry_rejected | Context_invalid | Runtime_rejected

datatype DecisionStage =
    Edge_validation | Identity_verification | Tenant_context | Workspace_context | Authorization
  | Policy_evaluation_stage | Approval_evaluation | Replay_protection | Execution_permit_stage
  | Runtime_isolation_stage | Final_gate | Execution_stage | Verification

record PolicyReference =
  pr_id :: string
  pr_description :: "string option"

record DecisionEvidence =
  ev_key :: string
  ev_value :: string

record SecurityDecision =
  dec_decisionId :: string
  dec_stage :: DecisionStage
  dec_status :: DecisionStatus
  dec_reasonCode :: string
  dec_humanReadableReason :: string
  dec_policyReferences :: "PolicyReference list"
  dec_evidence :: "DecisionEvidence list"
  dec_nextRequiredAction :: string
  dec_timestamp :: string

record DecisionInput =
  di_stage :: DecisionStage
  di_status :: DecisionStatus
  di_reasonCode :: string
  di_humanReadableReason :: string
  di_nextRequiredAction :: string
  di_timestamp :: string
  di_policyReferences :: "PolicyReference list option"
  di_evidence :: "DecisionEvidence list option"

definition createDecision :: "crypto \<Rightarrow> DecisionInput \<Rightarrow> nat \<Rightarrow> SecurityDecision \<times> nat" where
  "createDecision C i n =
     (let (decisionId, n') = newId C ''dec'' n in
      (\<lparr> dec_decisionId = decisionId, dec_stage = di_stage i, dec_status = di_status i,
         dec_reasonCode = di_reasonCode i, dec_humanReadableReason = di_humanReadableReason i,
         dec_policyReferences = (case di_policyReferences i of None \<Rightarrow> [] | Some rs \<Rightarrow> rs),
         dec_evidence = (case di_evidence i of None \<Rightarrow> [] | Some es \<Rightarrow> es),
         dec_nextRequiredAction = di_nextRequiredAction i, dec_timestamp = di_timestamp i \<rparr>, n'))"

definition isAllow :: "SecurityDecision \<Rightarrow> bool" where
  "isAllow d \<longleftrightarrow> dec_status d = Allow"

definition allAllowed :: "SecurityDecision list \<Rightarrow> bool" where
  "allAllowed ds = list_all isAllow ds"

section \<open>execution-context.ts\<close>

record ExecutionContext =
  ec_requestId :: string
  ec_correlationId :: string
  ec_causationId :: "string option"
  ec_actorId :: string
  ec_actorType :: string
  ec_tenantId :: string
  ec_organizationId :: string
  ec_workspaceId :: string
  ec_sessionId :: string
  ec_authenticationLevel :: AuthenticationLevel
  ec_requestedAction :: string
  ec_resource :: ResourceRef
  ec_riskLevel :: PipelineRiskLevel
  ec_timestamp :: string
  ec_trace :: "(string \<times> string) list"

text \<open>
  \<^verbatim>\<open>authenticationLevel\<close> arrives by a cast from the identity's assurance level and
  \<^verbatim>\<open>riskLevel\<close> from the caller: both may be any string, so they are strings here.
\<close>

record ExecutionContextInput =
  ei_osforgeContext :: OSForgeContext
  ei_requestId :: string
  ei_correlationId :: string
  ei_causationId :: "string option"
  ei_sessionId :: string
  ei_authenticationLevel :: string
  ei_requestedAction :: string
  ei_resource :: ResourceRef
  ei_riskLevel :: string
  ei_timestamp :: string
  ei_trace :: "(string \<times> string) list option"

datatype ExecutionContextResult = ContextOk ExecutionContext | ContextBad string string

definition isValidResource :: "ResourceRef \<Rightarrow> bool" where
  "isValidResource r \<longleftrightarrow> isNonEmptyString (rr_id r) \<and> isNonEmptyString (rr_type r)"

definition isAuthenticationLevel :: "string \<Rightarrow> AuthenticationLevel option" where
  "isAuthenticationLevel v =
     List.find (\<lambda>l. level_text l = v) [AalNone, Aal1, Aal2, Aal3]"

definition isRiskLevel :: "string \<Rightarrow> PipelineRiskLevel option" where
  "isRiskLevel v = List.find (\<lambda>l. risk_text l = v) [Low, Medium, High, Critical]"

text \<open>The first of the required fields that is empty.\<close>

definition missing_field :: "ExecutionContextInput \<Rightarrow> string option" where
  "missing_field i =
     map_option fst (List.find (\<lambda>(f, v). \<not> isNonEmptyString v)
       [(''requestId'', ei_requestId i), (''correlationId'', ei_correlationId i),
        (''sessionId'', ei_sessionId i), (''requestedAction'', ei_requestedAction i),
        (''timestamp'', ei_timestamp i)])"

definition createExecutionContext :: "ExecutionContextInput \<Rightarrow> ExecutionContextResult" where
  "createExecutionContext i =
     (let osforge = ei_osforgeContext i in
      if validateOSForgeContext (Some (raw_of osforge)) \<noteq> Valid then
        ContextBad ''context_invalid'' ''OSForgeContext failed tenant/workspace/actor validation.''
      else
        (case missing_field i of
           Some f \<Rightarrow> ContextBad ''context_field_missing'' (''Field '' @ [CHR 0x27] @ f @ [CHR 0x27] @ '' is required.'')
         | None \<Rightarrow>
             if \<not> isValidResource (ei_resource i) then
               ContextBad ''resource_invalid'' ''Resource id and type are required.''
             else
               (case isAuthenticationLevel (ei_authenticationLevel i) of
                  None \<Rightarrow> ContextBad ''authentication_level_invalid'' ''Authentication level is invalid.''
                | Some level \<Rightarrow>
                    (case isRiskLevel (ei_riskLevel i) of
                       None \<Rightarrow> ContextBad ''risk_level_invalid'' ''Risk level is invalid.''
                     | Some risk \<Rightarrow>
                         ContextOk
                           \<lparr> ec_requestId = ei_requestId i, ec_correlationId = ei_correlationId i,
                             ec_causationId =
                               (if isNonEmptyOpt (ei_causationId i) then ei_causationId i else None),
                             ec_actorId = actor_id (ctx_actor osforge),
                             ec_actorType = actor_type_text (actor_type (ctx_actor osforge)),
                             ec_tenantId = tenant_id (ctx_tenant osforge),
                             ec_organizationId = org_id (ctx_organization osforge),
                             ec_workspaceId = ws_id (ctx_workspace osforge),
                             ec_sessionId = ei_sessionId i, ec_authenticationLevel = level,
                             ec_requestedAction = ei_requestedAction i,
                             ec_resource = \<lparr> rr_id = rr_id (ei_resource i), rr_type = rr_type (ei_resource i) \<rparr>,
                             ec_riskLevel = risk, ec_timestamp = ei_timestamp i,
                             ec_trace = (case ei_trace i of None \<Rightarrow> [] | Some t \<Rightarrow> t) \<rparr>))))"

definition context_json :: "ExecutionContext \<Rightarrow> json" where
  "context_json c =
     JObj [(''requestId'', JStr (ec_requestId c)), (''actorId'', JStr (ec_actorId c)),
           (''actorType'', JStr (ec_actorType c)), (''tenantId'', JStr (ec_tenantId c)),
           (''organizationId'', JStr (ec_organizationId c)), (''workspaceId'', JStr (ec_workspaceId c)),
           (''sessionId'', JStr (ec_sessionId c)),
           (''authenticationLevel'', JStr (level_text (ec_authenticationLevel c))),
           (''requestedAction'', JStr (ec_requestedAction c)), (''resource'', resource_json (ec_resource c)),
           (''riskLevel'', JStr (risk_text (ec_riskLevel c)))]"

definition hashExecutionContext :: "crypto \<Rightarrow> ExecutionContext \<Rightarrow> string" where
  "hashExecutionContext C c = sha256Hex C (canonicalJson (context_json c))"

section \<open>intent-boundary.ts\<close>

datatype Channel = Api | Chat | Voice | WorkflowChannel | SystemChannel

record Intent =
  in_intentId :: string
  in_context :: OSForgeContext
  in_requestedAction :: string
  in_resource :: ResourceRef
  in_rawInput :: string
  in_channel :: Channel
  in_statedRiskLevel :: PipelineRiskLevel
  in_receivedAt :: string

definition createIntent ::
  "string \<Rightarrow> OSForgeContext \<Rightarrow> string \<Rightarrow> ResourceRef option \<Rightarrow> string \<Rightarrow> Channel \<Rightarrow> PipelineRiskLevel \<Rightarrow>
   string \<Rightarrow> Intent option" where
  "createIntent intentId context requestedAction resource rawInput channel statedRiskLevel receivedAt =
     (case resource of
        None \<Rightarrow> None
      | Some r \<Rightarrow>
          if \<not> isNonEmptyString intentId \<or> \<not> isNonEmptyString requestedAction \<or>
             \<not> isNonEmptyString rawInput \<or> \<not> isNonEmptyString receivedAt then None
          else Some \<lparr> in_intentId = intentId, in_context = context, in_requestedAction = requestedAction,
                      in_resource = \<lparr> rr_id = rr_id r, rr_type = rr_type r \<rparr>, in_rawInput = rawInput,
                      in_channel = channel, in_statedRiskLevel = statedRiskLevel, in_receivedAt = receivedAt \<rparr>)"

text \<open>Any object may be handed to the boundary; it is an intent when its \<^verbatim>\<open>kind\<close> says so.\<close>

definition isIntent :: "json \<Rightarrow> bool" where
  "isIntent v \<longleftrightarrow> is_record (Some v) \<and> jget ''kind'' v = Some (JStr ''intent'')"

definition assertIntentIsNotExecutable :: "json \<Rightarrow> unit result" where
  "assertIntentIsNotExecutable v =
     (if isIntent v
      then Inl (JsError ''An intent is a request, not an execution authority. Route it through the secure pipeline.'')
      else Inr ())"

section \<open>Lemmas\<close>

lemma createDecision_fields [simp]:
  "dec_status (fst (createDecision C i n)) = di_status i"
  "dec_stage (fst (createDecision C i n)) = di_stage i"
  "dec_reasonCode (fst (createDecision C i n)) = di_reasonCode i"
  "dec_timestamp (fst (createDecision C i n)) = di_timestamp i"
  "snd (createDecision C i n) = Suc n"
  by (simp_all add: createDecision_def newId_def Let_def)

lemma meets_refl [simp]: "meetsAuthenticationLevel l l"
  by (simp add: meetsAuthenticationLevel_def)

lemma meets_trans: "meetsAuthenticationLevel a b \<Longrightarrow> meetsAuthenticationLevel b c \<Longrightarrow> meetsAuthenticationLevel a c"
  by (simp add: meetsAuthenticationLevel_def)

lemma isAuthenticationLevel_iff: "isAuthenticationLevel v = Some l \<longleftrightarrow> v = level_text l"
  by (cases l) (auto simp: isAuthenticationLevel_def level_text_def)

lemma isRiskLevel_iff: "isRiskLevel v = Some l \<longleftrightarrow> v = risk_text l"
  by (cases l) (auto simp: isRiskLevel_def risk_text_def)

lemma level_text_inject [simp]: "level_text a = level_text b \<longleftrightarrow> a = b"
  by (cases a; cases b) (simp_all add: level_text_def)

lemma risk_text_inject [simp]: "risk_text a = risk_text b \<longleftrightarrow> a = b"
  by (cases a; cases b) (simp_all add: risk_text_def)

lemma missing_field_None_iff:
  "missing_field i = None \<longleftrightarrow>
     isNonEmptyString (ei_requestId i) \<and> isNonEmptyString (ei_correlationId i) \<and>
     isNonEmptyString (ei_sessionId i) \<and> isNonEmptyString (ei_requestedAction i) \<and>
     isNonEmptyString (ei_timestamp i)"
  by (auto simp: missing_field_def)

text \<open>What a created context is: the input's fields, with the boundary taken from the context.\<close>

lemma createExecutionContext_Ok:
  assumes "createExecutionContext i = ContextOk c"
  shows "valid_context (ei_osforgeContext i)" "missing_field i = None" "isValidResource (ei_resource i)"
    "ei_authenticationLevel i = level_text (ec_authenticationLevel c)" "ei_riskLevel i = risk_text (ec_riskLevel c)"
    "ec_tenantId c = tenant_id (ctx_tenant (ei_osforgeContext i))"
    "ec_organizationId c = org_id (ctx_organization (ei_osforgeContext i))"
    "ec_workspaceId c = ws_id (ctx_workspace (ei_osforgeContext i))"
    "ec_actorId c = actor_id (ctx_actor (ei_osforgeContext i))"
    "ec_actorType c = actor_type_text (actor_type (ctx_actor (ei_osforgeContext i)))"
    "ec_requestId c = ei_requestId i" "ec_correlationId c = ei_correlationId i"
    "ec_requestedAction c = ei_requestedAction i" "ec_resource c = ei_resource i" "ec_sessionId c = ei_sessionId i"
    "ec_timestamp c = ei_timestamp i"
  using assms
  by (auto simp: createExecutionContext_def Let_def valid_context_def isAuthenticationLevel_iff isRiskLevel_iff
      split: if_splits option.splits)

lemma js_value_context [simp]: "js_value (context_json c)"
  unfolding context_json_def by (rule js_value_JObjI) (simp_all add: not_index_Cons is_digit_def)

text \<open>
  The fields the hash covers. \<^verbatim>\<open>correlationId\<close>, \<^verbatim>\<open>causationId\<close>, \<^verbatim>\<open>timestamp\<close> and \<^verbatim>\<open>trace\<close> are
  not among them.
\<close>

definition same_security_fields :: "ExecutionContext \<Rightarrow> ExecutionContext \<Rightarrow> bool" where
  "same_security_fields c d \<longleftrightarrow>
     ec_requestId c = ec_requestId d \<and> ec_actorId c = ec_actorId d \<and> ec_actorType c = ec_actorType d \<and>
     ec_tenantId c = ec_tenantId d \<and> ec_organizationId c = ec_organizationId d \<and>
     ec_workspaceId c = ec_workspaceId d \<and> ec_sessionId c = ec_sessionId d \<and>
     ec_authenticationLevel c = ec_authenticationLevel d \<and> ec_requestedAction c = ec_requestedAction d \<and>
     ec_resource c = ec_resource d \<and> ec_riskLevel c = ec_riskLevel d"

lemma canonical_context_eq_iff:
  "canonicalJson (context_json c) = canonicalJson (context_json d) \<longleftrightarrow> same_security_fields c d"
proof -
  have "json_eq (resource_json r) (resource_json s) \<longleftrightarrow> r = s" for r s
    by (cases r; cases s) (auto simp: resource_json_def)
  then have "json_eq (context_json c) (context_json d) \<longleftrightarrow> same_security_fields c d"
    by (auto simp: context_json_def same_security_fields_def)
  then show ?thesis by (simp add: canonicalJson_inject sortValue_eq_iff)
qed

end
