(* ===== verification/Replay_Protection.thy ===== *)
theory Replay_Protection
  imports Decision
begin

text \<open>
  \<^verbatim>\<open>pipeline/src/replay-protection.ts\<close>. \<open>PermitReplayStore\<close> is the interface the pipeline
  calls: the flag \<^verbatim>\<open>testOnly\<close> and a claim that may also throw or reject. The in-memory store
  implements it on a map from permit ids to claims. \<open>imr\<close> interprets the contract
  \<open>exact_one_shot\<close> on it: over any sequence of claims a permit id is won at most once.
\<close>

record ReplayClaimKey =
  rk_permitId :: string
  rk_nonce :: string
  rk_tenantId :: string
  rk_workspaceId :: string
  rk_actorId :: string
  rk_action :: string

datatype ReplayClaimStatus = CLAIMED | REPLAYED | REJECTED

record ReplayClaimResult =
  rcr_status :: ReplayClaimStatus
  rcr_reason :: string

record 's PermitReplayStore =
  prs_testOnly :: bool
  prs_claim :: "ReplayClaimKey \<Rightarrow> string \<Rightarrow> string \<Rightarrow> 's \<Rightarrow> ReplayClaimResult result \<times> 's"

section \<open>InMemoryPermitReplayStore\<close>

type_synonym replay_claims = "string \<rightharpoonup> ReplayClaimKey"

definition isReplayClaimKey :: "ReplayClaimKey \<Rightarrow> bool" where
  "isReplayClaimKey k = list_all isNonEmptyString
     [rk_permitId k, rk_nonce k, rk_tenantId k, rk_workspaceId k, rk_actorId k, rk_action k]"

definition sameKey :: "ReplayClaimKey \<Rightarrow> ReplayClaimKey \<Rightarrow> bool" where
  "sameKey l r \<longleftrightarrow>
     rk_permitId l = rk_permitId r \<and> rk_nonce l = rk_nonce r \<and> rk_tenantId l = rk_tenantId r \<and>
     rk_workspaceId l = rk_workspaceId r \<and> rk_actorId l = rk_actorId r \<and> rk_action l = rk_action r"

definition replay_claim ::
  "ReplayClaimKey \<Rightarrow> string \<Rightarrow> string \<Rightarrow> replay_claims \<Rightarrow> ReplayClaimResult \<times> replay_claims" where
  "replay_claim key expiresAt now s =
     (if \<not> isReplayClaimKey key then
        (\<lparr> rcr_status = REJECTED, rcr_reason = ''Replay claim key is malformed.'' \<rparr>, s)
      else if \<not> isFuture expiresAt now then
        (\<lparr> rcr_status = REJECTED, rcr_reason = ''Permit is expired at claim time.'' \<rparr>, s)
      else
        (case s (rk_permitId key) of
           Some existing \<Rightarrow>
             (\<lparr> rcr_status = REPLAYED,
                rcr_reason = (if sameKey existing key then ''Permit has already been consumed.''
                              else ''Permit id replayed with a different identity binding.'') \<rparr>, s)
         | None \<Rightarrow>
             (\<lparr> rcr_status = CLAIMED, rcr_reason = ''Permit nonce claimed for one-time use.'' \<rparr>,
              s(rk_permitId key \<mapsto> key))))"

definition InMemoryPermitReplayStore :: "replay_claims PermitReplayStore" where
  "InMemoryPermitReplayStore =
     \<lparr> prs_testOnly = True, prs_claim = (\<lambda>k e now s. map_prod Inr id (replay_claim k e now s)) \<rparr>"

text \<open>The structural check on a production store: its flags and its provider name.\<close>

record store_shape =
  shape_hasClaim :: bool
  shape_testOnly :: "bool option"
  shape_atomicClaim :: "bool option"
  shape_providerName :: "string option"

definition isDistributedPermitReplayStore :: "store_shape option \<Rightarrow> bool" where
  "isDistributedPermitReplayStore v =
     (case v of
        None \<Rightarrow> False
      | Some d \<Rightarrow> shape_hasClaim d \<and> shape_testOnly d = Some False \<and> shape_atomicClaim d = Some True \<and>
                 isNonEmptyOpt (shape_providerName d))"

section \<open>The contract\<close>

text \<open>A claim as one request, and whether it won.\<close>

definition claim_won :: "ReplayClaimKey \<times> string \<times> string \<Rightarrow> replay_claims \<Rightarrow> bool \<times> replay_claims" where
  "claim_won q s = (let (k, e, now) = q; (r, s') = replay_claim k e now s in (rcr_status r = CLAIMED, s'))"

definition claim_permit :: "ReplayClaimKey \<times> string \<times> string \<Rightarrow> string" where
  "claim_permit q = rk_permitId (fst q)"

lemma replay_claim_state:
  "snd (replay_claim k e now s) =
     (if isReplayClaimKey k \<and> isFuture e now \<and> s (rk_permitId k) = None then s(rk_permitId k \<mapsto> k) else s)"
  by (auto simp: replay_claim_def split: option.splits)

lemma replay_claim_status:
  "rcr_status (fst (replay_claim k e now s)) = CLAIMED \<longleftrightarrow>
     isReplayClaimKey k \<and> isFuture e now \<and> s (rk_permitId k) = None"
  by (auto simp: replay_claim_def split: option.splits)

interpretation imr: exact_one_shot claim_won claim_permit dom
proof
  fix q :: "ReplayClaimKey \<times> string \<times> string" and s s' :: replay_claims
  obtain k e now where q: "q = (k, e, now)" by (cases q) auto
  show "claim_permit q \<notin> dom s \<and> dom s' = insert (claim_permit q) (dom s)" if "claim_won q s = (True, s')"
    using that by (auto simp: claim_won_def claim_permit_def q case_prod_beta replay_claim_state replay_claim_status)
  show "dom s' = dom s" if "claim_won q s = (False, s')"
    using that by (auto simp: claim_won_def q case_prod_beta replay_claim_state replay_claim_status)
qed

text \<open>
  Replay protection: over any sequence of claims, from any state and with any clock
  readings, every permit id is won at most once and an id that was claimed before is never won
  again; the ids in the store afterwards are exactly the old ones and the won ones.
\<close>

lemma permit_claimed_at_most_once:
  assumes "claim_run claim_won qs s = (won, s')"
  shows "distinct (map claim_permit won) \<and> claim_permit ` set won \<inter> dom s = {} \<and>
         dom s' = dom s \<union> claim_permit ` set won"
  using imr.claim_run_inv [OF assms] imr.claim_run_used [OF assms] by blast

end
