(* ===== verification/Approval_Gate.thy ===== *)
theory Approval_Gate
  imports Decision
begin

text \<open>
  \<^verbatim>\<open>pipeline/src/approval-gate.ts\<close>: which actions need a human approval, the store of
  single-use approvals and the gate that judges the approval a request carries. \<open>apr\<close>
  interprets \<open>exact_one_shot\<close> on the store's consumption.
\<close>

definition CRITICAL_ACTIONS :: "string list" where
  "CRITICAL_ACTIONS =
     [''payment'', ''refund'', ''data_deletion'', ''permission_change'', ''bulk_message'',
      ''customer_data_export'', ''secret_management'', ''plugin_connection'', ''mcp_connection'',
      ''production_change'', ''break_glass'', ''irreversible_action'']"

definition isCriticalAction :: "string \<Rightarrow> bool" where
  "isCriticalAction action \<longleftrightarrow> action \<in> set CRITICAL_ACTIONS"

record ApprovalReference =
  apr_approvalId :: string
  apr_actorId :: string
  apr_tenantId :: string
  apr_workspaceId :: string
  apr_action :: string
  apr_scope :: string
  apr_approverId :: string
  apr_approverType :: string
  apr_stepUpLevel :: AuthenticationLevel
  apr_issuedAt :: string
  apr_expiresAt :: string
  apr_singleUse :: bool

section \<open>InMemoryApprovalStore\<close>

record approval_store =
  as_approvals :: "string \<rightharpoonup> ApprovalReference"
  as_consumed :: "string set"

definition empty_approvals :: approval_store where
  "empty_approvals = \<lparr> as_approvals = Map.empty, as_consumed = {} \<rparr>"

definition approval_register :: "ApprovalReference \<Rightarrow> approval_store \<Rightarrow> approval_store" where
  "approval_register a s = s\<lparr> as_approvals := (as_approvals s)(apr_approvalId a \<mapsto> a) \<rparr>"

definition approval_find :: "string \<Rightarrow> approval_store \<Rightarrow> ApprovalReference option" where
  "approval_find i s = as_approvals s i"

definition approval_consume :: "string \<Rightarrow> string \<Rightarrow> approval_store \<Rightarrow> (bool \<times> string) \<times> approval_store" where
  "approval_consume approvalId now s =
     (case as_approvals s approvalId of
        None \<Rightarrow> ((False, ''Approval not found.''), s)
      | Some approval \<Rightarrow>
          if approvalId \<in> as_consumed s then ((False, ''Approval already consumed.''), s)
          else if \<not> isFuture (apr_expiresAt approval) now then ((False, ''Approval expired.''), s)
          else ((True, ''Approval consumed.''), s\<lparr> as_consumed := insert approvalId (as_consumed s) \<rparr>))"

section \<open>evaluateApprovalGate\<close>

datatype ApprovalGateStatus = Gate_allow | Gate_approval_required | Gate_step_up_required | Gate_deny

record ApprovalGateInput =
  ag_action :: string
  ag_tenantId :: string
  ag_workspaceId :: string
  ag_actorId :: string
  ag_scope :: string
  ag_requiredStepUp :: AuthenticationLevel
  ag_policyRequiresApproval :: bool
  ag_approval :: "ApprovalReference option"
  ag_now :: string

record ApprovalGateEvaluation =
  ge_status :: ApprovalGateStatus
  ge_required :: bool
  ge_reasonCode :: string
  ge_message :: string
  ge_approvalId :: "string option"

definition gate_deny :: "string \<Rightarrow> string \<Rightarrow> ApprovalGateEvaluation" where
  "gate_deny c m =
     \<lparr> ge_status = Gate_deny, ge_required = True, ge_reasonCode = c, ge_message = m, ge_approvalId = None \<rparr>"

definition evaluateApprovalGate :: "ApprovalGateInput \<Rightarrow> ApprovalGateEvaluation" where
  "evaluateApprovalGate i =
     (let required = isCriticalAction (ag_action i) \<or> ag_policyRequiresApproval i;
          missing = \<lparr> ge_status = Gate_approval_required, ge_required = True, ge_reasonCode = ''approval_missing'',
                      ge_message = ''Critical action requires an explicit human approval.'',
                      ge_approvalId = None \<rparr> in
      if \<not> required then
        \<lparr> ge_status = Gate_allow, ge_required = False, ge_reasonCode = ''approval_not_required'',
          ge_message = ''Action does not require approval.'', ge_approvalId = None \<rparr>
      else
        (case ag_approval i of
           None \<Rightarrow> missing
         | Some approval \<Rightarrow>
             if \<not> isNonEmptyString (apr_approvalId approval) then missing
             else if apr_action approval \<noteq> ag_action i \<or> apr_tenantId approval \<noteq> ag_tenantId i \<or>
                     apr_workspaceId approval \<noteq> ag_workspaceId i \<or> apr_actorId approval \<noteq> ag_actorId i \<or>
                     apr_scope approval \<noteq> ag_scope i then
               gate_deny ''approval_binding_mismatch''
                 ''Approval does not match the requested actor, tenant, workspace, action or scope.''
             else if apr_singleUse approval \<noteq> True then
               gate_deny ''approval_not_single_use'' ''Approval must be single-use.''
             else if apr_approverType approval \<noteq> ''human_user'' \<or> \<not> isNonEmptyString (apr_approverId approval) then
               gate_deny ''approver_not_human'' ''Only a human user may approve a critical action.''
             else if apr_approverId approval = ag_actorId i then
               gate_deny ''approver_is_requester'' ''The requesting actor cannot approve its own critical action.''
             else if \<not> isFuture (apr_expiresAt approval) (ag_now i) then
               gate_deny ''approval_expired'' ''Approval has expired.''
             else if \<not> meetsAuthenticationLevel (apr_stepUpLevel approval) (ag_requiredStepUp i) then
               \<lparr> ge_status = Gate_step_up_required, ge_required = True, ge_reasonCode = ''step_up_required'',
                 ge_message = ''Approval does not meet the required step-up authentication level.'',
                 ge_approvalId = Some (apr_approvalId approval) \<rparr>
             else
               \<lparr> ge_status = Gate_allow, ge_required = True, ge_reasonCode = ''approval_valid'',
                 ge_message = ''Valid human approval is present.'',
                 ge_approvalId = Some (apr_approvalId approval) \<rparr>))"

section \<open>Lemmas\<close>

text \<open>An approval that is good for a request: bound to it, human, not self-made, fresh, strong enough.\<close>

definition approval_valid_for :: "ApprovalReference \<Rightarrow> ApprovalGateInput \<Rightarrow> bool" where
  "approval_valid_for a i \<longleftrightarrow>
     isNonEmptyString (apr_approvalId a) \<and>
     apr_action a = ag_action i \<and> apr_tenantId a = ag_tenantId i \<and> apr_workspaceId a = ag_workspaceId i \<and>
     apr_actorId a = ag_actorId i \<and> apr_scope a = ag_scope i \<and> apr_singleUse a \<and>
     apr_approverType a = ''human_user'' \<and> isNonEmptyString (apr_approverId a) \<and>
     apr_approverId a \<noteq> ag_actorId i \<and> isFuture (apr_expiresAt a) (ag_now i) \<and>
     meetsAuthenticationLevel (apr_stepUpLevel a) (ag_requiredStepUp i)"

lemma gate_required:
  "ge_required (evaluateApprovalGate i) \<longleftrightarrow> isCriticalAction (ag_action i) \<or> ag_policyRequiresApproval i"
  by (auto simp: evaluateApprovalGate_def Let_def gate_deny_def split: option.splits)

lemma gate_allow_iff:
  "ge_status (evaluateApprovalGate i) = Gate_allow \<longleftrightarrow>
     \<not> ge_required (evaluateApprovalGate i) \<or> (\<exists>a. ag_approval i = Some a \<and> approval_valid_for a i)"
  unfolding gate_required
  by (auto simp: evaluateApprovalGate_def Let_def gate_deny_def approval_valid_for_def split: option.splits)

lemma gate_allow_approvalId:
  "ge_status (evaluateApprovalGate i) = Gate_allow \<Longrightarrow> ge_required (evaluateApprovalGate i) \<Longrightarrow>
   \<exists>a. ag_approval i = Some a \<and> ge_approvalId (evaluateApprovalGate i) = Some (apr_approvalId a)"
  by (auto simp: evaluateApprovalGate_def Let_def gate_deny_def split: option.splits if_splits)

definition consume_won :: "string \<times> string \<Rightarrow> approval_store \<Rightarrow> bool \<times> approval_store" where
  "consume_won q s = (let ((ok, m), s') = approval_consume (fst q) (snd q) s in (ok, s'))"

interpretation apr: exact_one_shot consume_won fst as_consumed
  by unfold_locales
    (auto simp: consume_won_def approval_consume_def split: option.splits if_splits)

section \<open>Properties\<close>

text \<open>
  An approval is used at most once: over any sequence of consumptions, every approval id is
  consumed at most once, one that was consumed before is not consumed again, and registering an
  approval under the same id does not make it usable again.
\<close>

lemma approval_single_use:
  assumes "claim_run consume_won qs s = (won, s')"
  shows "distinct (map fst won) \<and> fst ` set won \<inter> as_consumed s = {} \<and>
         as_consumed s' = as_consumed s \<union> fst ` set won \<and>
         as_consumed (approval_register a s') = as_consumed s'"
  using apr.claim_run_inv [OF assms] apr.claim_run_used [OF assms]
  by (auto simp: approval_register_def)

definition demo_approval :: ApprovalReference where
  "demo_approval =
     \<lparr> apr_approvalId = ''ap1'', apr_actorId = ''a1'', apr_tenantId = ''t1'', apr_workspaceId = ''w1'',
       apr_action = ''payment'', apr_scope = ''doc1'', apr_approverId = ''boss'', apr_approverType = ''human_user'',
       apr_stepUpLevel = Aal3, apr_issuedAt = ''2026-01-01T00:00:00.000Z'',
       apr_expiresAt = ''2026-01-01T01:00:00.000Z'', apr_singleUse = True \<rparr>"

text \<open>
  The approval gate lets a request pass exactly when no approval is required or the approval
  it carries is valid for it: bound to its actor, tenant, workspace, action and scope, single
  use, given by a human other than the requester, not expired, and at the step-up level
  required. An approval is required for every critical action and whenever policy asks for one.
\<close>

lemma approval_gate_allows_iff:
  "ge_status (evaluateApprovalGate i) = Gate_allow \<longleftrightarrow>
     \<not> (isCriticalAction (ag_action i) \<or> ag_policyRequiresApproval i) \<or>
     (\<exists>a. ag_approval i = Some a \<and> approval_valid_for a i)"
  using gate_allow_iff gate_required by blast

definition demo_gate_input :: ApprovalGateInput where
  "demo_gate_input =
     \<lparr> ag_action = ''payment'', ag_tenantId = ''t1'', ag_workspaceId = ''w1'', ag_actorId = ''a1'',
       ag_scope = ''doc1'', ag_requiredStepUp = Aal2, ag_policyRequiresApproval = False,
       ag_approval = Some demo_approval, ag_now = ''2026-01-01T00:00:00.000Z'' \<rparr>"

text \<open>
  The list of critical actions is announced as a superset of the protocol's
  \<^verbatim>\<open>CriticalActionType\<close>; two of its members are missing.
\<close>

lemma critical_actions_not_superset:
  "\<not> isCriticalAction ''public_publish'' \<and> \<not> isCriticalAction ''high_value_offer''"
  by code_simp

end
