(* ===== verification/Hash_Chain.thy ===== *)
theory Hash_Chain
  imports Permit
begin

text \<open>
  What the hash-chained logs of the repository share: the audit log of the pipeline, the audit and the
  timeline of the memory, the event store and the event audit. A log is seen as a list of links, each
  with the hash of its predecessor, a body, and the digest of a text made of both. The contract of a
  log is the locale \<^verbatim>\<open>hash_chain_on\<close>: on the bodies that occur in it (everywhere, for \<^verbatim>\<open>hash_chain\<close>), that text
  determines the predecessor and the body. Its lemmas say
  that the head determines the whole chain; each log interprets it with its own text.
\<close>

text \<open>A property that is spread into an object only when it is present.\<close>

definition opt_member :: "string \<Rightarrow> string option \<Rightarrow> (string \<times> json) list" where
  "opt_member k v = (case v of None \<Rightarrow> [] | Some s \<Rightarrow> [(k, JStr s)])"

text \<open>An optional string that is spread only when it is truthy.\<close>

definition truthy_opt :: "string option \<Rightarrow> string option" where
  "truthy_opt v = (if v = Some [] then None else v)"

lemma canonical_text_iff: "js_value v \<Longrightarrow> js_value w \<Longrightarrow> canonicalJson v = canonicalJson w \<longleftrightarrow> json_eq v w"
  by (simp add: canonicalJson_inject sortValue_eq_iff)

record 'b link =
  lk_previous :: string
  lk_body :: 'b
  lk_current :: string

fun linked :: "crypto \<Rightarrow> (string \<Rightarrow> 'b \<Rightarrow> string) \<Rightarrow> string \<Rightarrow> 'b link list \<Rightarrow> bool" where
  "linked C hashed p [] \<longleftrightarrow> True"
| "linked C hashed p (l # ls) \<longleftrightarrow> lk_previous l = p \<and> lk_current l = sha256Hex C (hashed p (lk_body l)) \<and> linked C hashed (lk_current l) ls"

fun link_head :: "string \<Rightarrow> 'b link list \<Rightarrow> string" where
  "link_head p [] = p"
| "link_head p (l # ls) = link_head (lk_current l) ls"

fun link_texts :: "(string \<Rightarrow> 'b \<Rightarrow> string) \<Rightarrow> string \<Rightarrow> 'b link list \<Rightarrow> string set" where
  "link_texts hashed p [] = {}"
| "link_texts hashed p (l # ls) = insert (hashed p (lk_body l)) (link_texts hashed (lk_current l) ls)"

lemma link_head_snoc [simp]: "link_head p (ls @ [l]) = lk_current l"
  by (induction ls arbitrary: p) simp_all

lemma link_texts_snoc: "link_texts hashed p (ls @ [l]) = insert (hashed (link_head p ls) (lk_body l)) (link_texts hashed p ls)"
  by (induction ls arbitrary: p) auto

lemma linked_snoc:
  "linked C hashed p (ls @ [l]) \<longleftrightarrow> linked C hashed p ls \<and> lk_previous l = link_head p ls \<and> lk_current l = sha256Hex C (hashed (link_head p ls) (lk_body l))"
  by (induction ls arbitrary: p) auto

text \<open>Digests without a collision on a set of texts, none of them the digest that starts the chain.\<close>

definition collision_free :: "crypto \<Rightarrow> string \<Rightarrow> string set \<Rightarrow> bool" where
  "collision_free C genesis T \<longleftrightarrow> inj_on (sha256Hex C) T \<and> genesis \<notin> sha256Hex C ` T"

lemma collision_free_subset: "collision_free C g T \<Longrightarrow> S \<subseteq> T \<Longrightarrow> collision_free C g S"
  by (auto simp: collision_free_def inj_on_def)

text \<open>The contract of a log: on the bodies that occur in it, the hashed text determines predecessor and body.\<close>

locale hash_chain_on =
  fixes hashed :: "string \<Rightarrow> 'b \<Rightarrow> string" and occurs :: "'b \<Rightarrow> bool"
  assumes hashed_inject_on: "occurs b \<Longrightarrow> occurs c \<Longrightarrow> hashed p b = hashed q c \<Longrightarrow> p = q \<and> b = c"
begin

text \<open>The head of a chain determines the chain.\<close>

lemma same_head_on:
  assumes "linked C hashed g ls" "linked C hashed g ms" "link_head g ls = link_head g ms"
    and "collision_free C g (link_texts hashed g ls \<union> link_texts hashed g ms)"
    and "list_all (\<lambda>l. occurs (lk_body l)) ls" "list_all (\<lambda>l. occurs (lk_body l)) ms"
  shows "ls = ms"
  using assms
proof (induction ls arbitrary: ms rule: rev_induct)
  case Nil
  then show ?case by (cases ms rule: rev_cases) (auto simp: linked_snoc link_texts_snoc collision_free_def)
next
  case (snoc l ls)
  show ?case
  proof (cases ms rule: rev_cases)
    case Nil
    then show ?thesis using snoc.prems by (auto simp: linked_snoc link_texts_snoc collision_free_def)
  next
    case (snoc ms1 m)
    have l: "lk_previous l = link_head g ls" "lk_current l = sha256Hex C (hashed (link_head g ls) (lk_body l))"
      "lk_previous m = link_head g ms1" "lk_current m = sha256Hex C (hashed (link_head g ms1) (lk_body m))"
      and ok: "linked C hashed g ls" "linked C hashed g ms1" "lk_current l = lk_current m"
      and occ: "occurs (lk_body l)" "occurs (lk_body m)" "list_all (\<lambda>l. occurs (lk_body l)) ls" "list_all (\<lambda>l. occurs (lk_body l)) ms1"
      using snoc.prems snoc by (auto simp: linked_snoc)
    let ?T = "link_texts hashed g (ls @ [l]) \<union> link_texts hashed g ms"
    have "sha256Hex C (hashed (link_head g ls) (lk_body l)) = sha256Hex C (hashed (link_head g ms1) (lk_body m))"
      using l(2,4) ok(3) by simp
    moreover have "hashed (link_head g ls) (lk_body l) \<in> ?T" "hashed (link_head g ms1) (lk_body m) \<in> ?T"
      using snoc by (auto simp: link_texts_snoc)
    ultimately have "hashed (link_head g ls) (lk_body l) = hashed (link_head g ms1) (lk_body m)"
      using snoc.prems(4) by (auto simp: collision_free_def inj_on_def)
    then have t: "link_head g ls = link_head g ms1" "lk_body l = lk_body m" using hashed_inject_on occ by blast+
    moreover have "link_texts hashed g ls \<union> link_texts hashed g ms1 \<subseteq> ?T" using snoc by (auto simp: link_texts_snoc)
    ultimately have "ls = ms1" using snoc.IH [OF ok(1,2)] collision_free_subset [OF snoc.prems(4)] occ by blast
    moreover have "l = m" using l t ok(3) by (intro link.equality) simp_all
    ultimately show ?thesis using snoc by simp
  qed
qed

end

locale hash_chain =
  fixes hashed :: "string \<Rightarrow> 'b \<Rightarrow> string"
  assumes hashed_inject: "hashed p b = hashed q c \<Longrightarrow> p = q \<and> b = c"

sublocale hash_chain \<subseteq> everywhere: hash_chain_on hashed "\<lambda>_. True"
  by unfold_locales (rule hashed_inject)

context hash_chain
begin

lemma same_head_same_chain:
  assumes "linked C hashed g ls" "linked C hashed g ms" "link_head g ls = link_head g ms"
    and "collision_free C g (link_texts hashed g ls \<union> link_texts hashed g ms)"
  shows "ls = ms"
  using assms by (rule everywhere.same_head_on) (simp_all add: list_all_iff)

end

text \<open>Logs whose entries carry their position: numbered from 1 without a gap.\<close>

fun numbered :: "('b \<Rightarrow> nat) \<Rightarrow> nat \<Rightarrow> 'b link list \<Rightarrow> bool" where
  "numbered num n [] \<longleftrightarrow> True"
| "numbered num n (l # ls) \<longleftrightarrow> num (lk_body l) = n \<and> numbered num (Suc n) ls"

lemma numbered_snoc: "numbered num n (ls @ [l]) \<longleftrightarrow> numbered num n ls \<and> num (lk_body l) = n + length ls"
  by (induction ls arbitrary: n) auto

end
