(* ===== verification/Audit_Chain.thy ===== *)
theory Audit_Chain
  imports Decision Hash_Chain
begin

text \<open>
  \<^verbatim>\<open>pipeline/src/audit.ts\<close>: the hash-chained audit log. \<open>ImmutableAuditSink\<close> is the interface
  the pipeline appends to (an append may throw or reject); the in-memory sink keeps the
  envelopes and the head. Shown: a log built by appends alone verifies, its head is the hash of
  the last envelope, and two logs that verify with the same head are the same log, entry by
  entry, unless SHA-256 collides on the texts that were hashed.
\<close>

datatype AuditOutcome =
    ALLOWED | DENIED_outcome | PENDING_APPROVAL | STEP_UP_REQUIRED | REPLAY_REJECTED | CONTEXT_ERROR
  | RUNTIME_REJECTED | EXECUTED | EXECUTION_FAILED | VERIFIED | VERIFICATION_FAILED

definition outcome_text :: "AuditOutcome \<Rightarrow> string" where
  "outcome_text x =
     (case x of ALLOWED \<Rightarrow> ''ALLOWED'' | DENIED_outcome \<Rightarrow> ''DENIED'' | PENDING_APPROVAL \<Rightarrow> ''PENDING_APPROVAL''
      | STEP_UP_REQUIRED \<Rightarrow> ''STEP_UP_REQUIRED'' | REPLAY_REJECTED \<Rightarrow> ''REPLAY_REJECTED''
      | CONTEXT_ERROR \<Rightarrow> ''CONTEXT_ERROR'' | RUNTIME_REJECTED \<Rightarrow> ''RUNTIME_REJECTED''
      | EXECUTED \<Rightarrow> ''EXECUTED'' | EXECUTION_FAILED \<Rightarrow> ''EXECUTION_FAILED'' | VERIFIED \<Rightarrow> ''VERIFIED''
      | VERIFICATION_FAILED \<Rightarrow> ''VERIFICATION_FAILED'')"

definition status_text :: "DecisionStatus \<Rightarrow> string" where
  "status_text x =
     (case x of Allow \<Rightarrow> ''ALLOW'' | Deny \<Rightarrow> ''DENY'' | Approval_required \<Rightarrow> ''APPROVAL_REQUIRED''
      | Step_up_required \<Rightarrow> ''STEP_UP_REQUIRED'' | Retry_rejected \<Rightarrow> ''RETRY_REJECTED''
      | Context_invalid \<Rightarrow> ''CONTEXT_INVALID'' | Runtime_rejected \<Rightarrow> ''RUNTIME_REJECTED'')"

record AuditEnvelopeInput =
  au_decisionId :: string
  au_requestId :: string
  au_correlationId :: string
  au_actorId :: string
  au_tenantId :: string
  au_workspaceId :: string
  au_action :: string
  au_resource :: ResourceRef
  au_decision :: DecisionStatus
  au_reasonCode :: string
  au_reason :: string
  au_policyReferences :: "string list"
  au_approvalReferences :: "string list"
  au_permitReference :: "string option"
  au_outcome :: AuditOutcome
  au_verificationResult :: "string option"
  au_timestamp :: string

record AuditEnvelope =
  env_auditId :: string
  env_input :: AuditEnvelopeInput
  env_previousHash :: string
  env_currentHash :: string

definition AUDIT_GENESIS_HASH :: string where
  "AUDIT_GENESIS_HASH = replicate 64 (CHR ''0'')"

record 'd ImmutableAuditSink =
  ais_testOnly :: bool
  ais_append :: "AuditEnvelopeInput \<Rightarrow> nat \<Rightarrow> 'd \<Rightarrow> (AuditEnvelope result \<times> nat) \<times> 'd"

definition audit_input_json :: "AuditEnvelopeInput \<Rightarrow> json" where
  "audit_input_json i =
     JObj ([(''decisionId'', JStr (au_decisionId i)), (''requestId'', JStr (au_requestId i)),
            (''correlationId'', JStr (au_correlationId i)), (''actorId'', JStr (au_actorId i)),
            (''tenantId'', JStr (au_tenantId i)), (''workspaceId'', JStr (au_workspaceId i)),
            (''action'', JStr (au_action i)), (''resource'', resource_json (au_resource i)),
            (''decision'', JStr (status_text (au_decision i))), (''reasonCode'', JStr (au_reasonCode i)),
            (''reason'', JStr (au_reason i)),
            (''policyReferences'', JArr (map JStr (au_policyReferences i))),
            (''approvalReferences'', JArr (map JStr (au_approvalReferences i)))] @
           opt_member ''permitReference'' (au_permitReference i) @
           [(''outcome'', JStr (outcome_text (au_outcome i)))] @
           opt_member ''verificationResult'' (au_verificationResult i) @
           [(''timestamp'', JStr (au_timestamp i))])"

definition audit_text :: "string \<Rightarrow> string \<Rightarrow> AuditEnvelopeInput \<Rightarrow> string" where
  "audit_text previousHash auditId input =
     canonicalJson (JObj [(''previousHash'', JStr previousHash), (''auditId'', JStr auditId),
                          (''input'', audit_input_json input)])"

definition computeAuditHash :: "crypto \<Rightarrow> string \<Rightarrow> string \<Rightarrow> AuditEnvelopeInput \<Rightarrow> string" where
  "computeAuditHash C previousHash auditId input = sha256Hex C (audit_text previousHash auditId input)"

section \<open>InMemoryAppendOnlyAuditSink\<close>

record audit_log =
  al_entries :: "AuditEnvelope list"
  al_head :: string

definition empty_audit_log :: audit_log where
  "empty_audit_log = \<lparr> al_entries = [], al_head = AUDIT_GENESIS_HASH \<rparr>"

definition audit_append ::
  "crypto \<Rightarrow> AuditEnvelopeInput \<Rightarrow> nat \<Rightarrow> audit_log \<Rightarrow> (AuditEnvelope \<times> nat) \<times> audit_log" where
  "audit_append C input n log =
     (let previousHash = al_head log; (auditId, n') = newId C ''audit'' n;
          currentHash = computeAuditHash C previousHash auditId input;
          envelope = \<lparr> env_auditId = auditId, env_input = input, env_previousHash = previousHash,
                       env_currentHash = currentHash \<rparr>
      in ((envelope, n'), \<lparr> al_entries = al_entries log @ [envelope], al_head = currentHash \<rparr>))"

definition InMemoryAppendOnlyAuditSink :: "crypto \<Rightarrow> audit_log ImmutableAuditSink" where
  "InMemoryAppendOnlyAuditSink C =
     \<lparr> ais_testOnly = True,
       ais_append = (\<lambda>i n log. map_prod (map_prod Inr id) id (audit_append C i n log)) \<rparr>"

text \<open>The loop of \<^verbatim>\<open>verifyChain\<close>, from the hash the next entry must carry.\<close>

fun verify_from :: "crypto \<Rightarrow> string \<Rightarrow> AuditEnvelope list \<Rightarrow> bool" where
  "verify_from C previous [] = True"
| "verify_from C previous (e # es) =
     (if env_previousHash e \<noteq> previous then False
      else if computeAuditHash C previous (env_auditId e) (env_input e) \<noteq> env_currentHash e then False
      else verify_from C (env_currentHash e) es)"

definition verifyChain :: "crypto \<Rightarrow> audit_log \<Rightarrow> bool" where
  "verifyChain C log = verify_from C AUDIT_GENESIS_HASH (al_entries log)"

record sink_shape =
  ss_hasAppend :: bool
  ss_hasHead :: bool
  ss_testOnly :: "bool option"

definition isImmutableAuditSink :: "sink_shape option \<Rightarrow> bool" where
  "isImmutableAuditSink v =
     (case v of None \<Rightarrow> False | Some d \<Rightarrow> ss_hasAppend d \<and> ss_hasHead d \<and> ss_testOnly d \<noteq> None)"

definition isProductionSafeAuditSink :: "sink_shape option \<Rightarrow> bool" where
  "isProductionSafeAuditSink v \<longleftrightarrow>
     isImmutableAuditSink v \<and> (case v of None \<Rightarrow> False | Some d \<Rightarrow> ss_testOnly d = Some False)"

section \<open>The hashed texts\<close>

lemma js_value_JArr_strings [simp]: "js_value (JArr (map JStr xs))"
  by (simp add: list_all_iff)

lemma js_value_audit_input [simp]: "js_value (audit_input_json i)"
  unfolding audit_input_json_def opt_member_def
  by (rule js_value_JObjI;
      cases "au_permitReference i"; cases "au_verificationResult i";
      simp add: not_index_Cons is_digit_def list_all_iff)

lemma status_text_inject [simp]: "status_text a = status_text b \<longleftrightarrow> a = b"
  by (cases a; cases b) (simp_all add: status_text_def)

lemma outcome_text_inject [simp]: "outcome_text a = outcome_text b \<longleftrightarrow> a = b"
  by (cases a; cases b) (simp_all add: outcome_text_def)

lemma json_eq_resource [simp]: "json_eq (resource_json r) (resource_json s) \<longleftrightarrow> r = s"
  by (cases r; cases s) (auto simp: resource_json_def)

lemma jget_audit_input:
  "jget ''decisionId'' (audit_input_json i) = Some (JStr (au_decisionId i))"
  "jget ''requestId'' (audit_input_json i) = Some (JStr (au_requestId i))"
  "jget ''correlationId'' (audit_input_json i) = Some (JStr (au_correlationId i))"
  "jget ''actorId'' (audit_input_json i) = Some (JStr (au_actorId i))"
  "jget ''tenantId'' (audit_input_json i) = Some (JStr (au_tenantId i))"
  "jget ''workspaceId'' (audit_input_json i) = Some (JStr (au_workspaceId i))"
  "jget ''action'' (audit_input_json i) = Some (JStr (au_action i))"
  "jget ''resource'' (audit_input_json i) = Some (resource_json (au_resource i))"
  "jget ''decision'' (audit_input_json i) = Some (JStr (status_text (au_decision i)))"
  "jget ''reasonCode'' (audit_input_json i) = Some (JStr (au_reasonCode i))"
  "jget ''reason'' (audit_input_json i) = Some (JStr (au_reason i))"
  "jget ''policyReferences'' (audit_input_json i) = Some (JArr (map JStr (au_policyReferences i)))"
  "jget ''approvalReferences'' (audit_input_json i) = Some (JArr (map JStr (au_approvalReferences i)))"
  "jget ''outcome'' (audit_input_json i) = Some (JStr (outcome_text (au_outcome i)))"
  "jget ''timestamp'' (audit_input_json i) = Some (JStr (au_timestamp i))"
  "jget ''permitReference'' (audit_input_json i) = map_option JStr (au_permitReference i)"
  "jget ''verificationResult'' (audit_input_json i) = map_option JStr (au_verificationResult i)"
  by (simp_all add: audit_input_json_def jget_def opt_member_def split: option.splits)

lemma sortValue_strings: "sortValue (JArr (map JStr xs)) = sortValue (JArr (map JStr ys)) \<longleftrightarrow> xs = ys"
  by (simp add: o_def inj_map_eq_map inj_def)

lemma sortValue_resource: "sortValue (resource_json r) = sortValue (resource_json s) \<longleftrightarrow> r = s"
  by (simp only: sortValue_eq_iff [OF js_value_resource js_value_resource] json_eq_resource)

lemma map_JStr_inject: "map_option sortValue (map_option JStr x) = map_option sortValue (map_option JStr y) \<longleftrightarrow> x = y"
  by (cases x; cases y) simp_all

lemma audit_input_inject:
  assumes "sortValue (audit_input_json i) = sortValue (audit_input_json j)"
  shows "i = j"
proof -
  have g: "map_option sortValue (jget k (audit_input_json i)) = map_option sortValue (jget k (audit_input_json j))"
    if "k \<noteq> ''__proto__''" for k
    using assms jget_sortValue [OF js_value_audit_input that] by metis
  have "au_policyReferences i = au_policyReferences j" "au_approvalReferences i = au_approvalReferences j"
    "au_resource i = au_resource j" "au_permitReference i = au_permitReference j"
    "au_verificationResult i = au_verificationResult j"
    using g [of "''policyReferences''"] g [of "''approvalReferences''"] g [of "''resource''"]
      g [of "''permitReference''"] g [of "''verificationResult''"]
    unfolding jget_audit_input option.map option.inject sortValue_strings sortValue_resource map_JStr_inject
    by simp_all
  moreover have "au_decisionId i = au_decisionId j" "au_requestId i = au_requestId j"
    "au_correlationId i = au_correlationId j" "au_actorId i = au_actorId j" "au_tenantId i = au_tenantId j"
    "au_workspaceId i = au_workspaceId j" "au_action i = au_action j"
    using g [of "''decisionId''"] g [of "''requestId''"] g [of "''correlationId''"] g [of "''actorId''"]
      g [of "''tenantId''"] g [of "''workspaceId''"] g [of "''action''"]
    by (simp_all add: jget_audit_input)
  moreover have "au_decision i = au_decision j" "au_reasonCode i = au_reasonCode j" "au_reason i = au_reason j"
    "au_outcome i = au_outcome j" "au_timestamp i = au_timestamp j"
    using g [of "''decision''"] g [of "''reasonCode''"] g [of "''reason''"] g [of "''outcome''"]
      g [of "''timestamp''"]
    by (simp_all add: jget_audit_input)
  ultimately show ?thesis by (intro AuditEnvelopeInput.equality) simp_all
qed

lemma json_eq_audit_input: "json_eq (audit_input_json i) (audit_input_json j) \<longleftrightarrow> i = j"
  using audit_input_inject sortValue_eq_iff [OF js_value_audit_input js_value_audit_input] by blast

lemma audit_text_inject: "audit_text p a i = audit_text q b j \<longleftrightarrow> p = q \<and> a = b \<and> i = j"
proof -
  let ?v = "\<lambda>p a i. JObj [(''previousHash'', JStr p), (''auditId'', JStr a), (''input'', audit_input_json i)]"
  have js: "js_value (?v p a i)" for p a i
    by (rule js_value_JObjI) (simp_all add: not_index_Cons is_digit_def)
  have "audit_text p a i = audit_text q b j \<longleftrightarrow> json_eq (?v p a i) (?v q b j)"
    unfolding audit_text_def by (simp only: canonicalJson_inject [OF js js] sortValue_eq_iff [OF js js])
  also have "\<dots> \<longleftrightarrow> p = q \<and> a = b \<and> i = j" by (auto simp: json_eq_audit_input)
  finally show ?thesis .
qed

section \<open>The chain\<close>

text \<open>An entry as a link of the shared theory of hash chains.\<close>

definition env_link :: "AuditEnvelope \<Rightarrow> (string \<times> AuditEnvelopeInput) link" where
  "env_link e = \<lparr> lk_previous = env_previousHash e, lk_body = (env_auditId e, env_input e), lk_current = env_currentHash e \<rparr>"

definition entry_text :: "string \<Rightarrow> string \<times> AuditEnvelopeInput \<Rightarrow> string" where
  "entry_text h b = audit_text h (fst b) (snd b)"

text \<open>The hash of the last entry, and the texts that were hashed for a list of entries.\<close>

definition chain_head :: "string \<Rightarrow> AuditEnvelope list \<Rightarrow> string" where
  "chain_head h es = link_head h (map env_link es)"

definition hashed_texts :: "string \<Rightarrow> AuditEnvelope list \<Rightarrow> string set" where
  "hashed_texts h es = link_texts entry_text h (map env_link es)"

interpretation audit_links: hash_chain entry_text
  by unfold_locales (auto simp: entry_text_def audit_text_inject prod_eq_iff)

lemma verify_from_linked: "verify_from C h es \<longleftrightarrow> linked C entry_text h (map env_link es)"
  by (induction es arbitrary: h) (auto simp: env_link_def entry_text_def computeAuditHash_def)

lemma env_link_inject: "map env_link es = map env_link fs \<longleftrightarrow> es = fs"
proof -
  have "inj env_link" by (rule injI) (simp add: env_link_def)
  then show ?thesis by (simp add: inj_map_eq_map)
qed

lemma verify_from_snoc:
  "verify_from C h (es @ [e]) \<longleftrightarrow>
     verify_from C h es \<and> env_previousHash e = chain_head h es \<and>
     env_currentHash e = computeAuditHash C (chain_head h es) (env_auditId e) (env_input e)"
  by (auto simp: verify_from_linked linked_snoc chain_head_def env_link_def entry_text_def computeAuditHash_def)

lemma chain_head_snoc [simp]: "chain_head h (es @ [e]) = env_currentHash e"
  by (simp add: chain_head_def env_link_def)

inductive audit_reach :: "crypto \<Rightarrow> audit_log \<Rightarrow> bool" for C where
  log_empty: "audit_reach C empty_audit_log"
| log_append: "audit_reach C log \<Longrightarrow> audit_reach C (snd (audit_append C input n log))"

lemma audit_append_simps:
  "snd (audit_append C input n log) =
     \<lparr> al_entries = al_entries log @ [fst (fst (audit_append C input n log))],
       al_head = env_currentHash (fst (fst (audit_append C input n log))) \<rparr>"
  "env_input (fst (fst (audit_append C input n log))) = input"
  "env_previousHash (fst (fst (audit_append C input n log))) = al_head log"
  "env_currentHash (fst (fst (audit_append C input n log))) =
     computeAuditHash C (al_head log) (env_auditId (fst (fst (audit_append C input n log)))) input"
  "snd (fst (audit_append C input n log)) = Suc n"
  by (simp_all add: audit_append_def Let_def newId_def)

lemma chain_eqI:
  assumes "verify_from C g es" "verify_from C g es'" "chain_head g es = chain_head g es'"
    and "inj_on (sha256Hex C) (hashed_texts g es \<union> hashed_texts g es')"
    and "g \<notin> sha256Hex C ` (hashed_texts g es \<union> hashed_texts g es')"
  shows "es = es'"
  using audit_links.same_head_same_chain [of C g "map env_link es" "map env_link es'"] assms
  by (simp add: verify_from_linked chain_head_def hashed_texts_def collision_free_def env_link_inject)

section \<open>Properties\<close>

text \<open>
  A log that was built by appends alone always verifies, its head is the hash of its last
  entry (the genesis hash when it is empty), and an append keeps every earlier entry and adds
  exactly one, which carries the input.
\<close>

lemma appended_log_verifies:
  assumes "audit_reach C log"
  shows "verifyChain C log \<and> al_head log = chain_head AUDIT_GENESIS_HASH (al_entries log) \<and>
         (\<exists>e. al_entries (snd (audit_append C input n log)) = al_entries log @ [e] \<and> env_input e = input)"
proof -
  have "verifyChain C log \<and> al_head log = chain_head AUDIT_GENESIS_HASH (al_entries log)"
    using assms
  proof (induction rule: audit_reach.induct)
    case log_empty
    show ?case by (simp add: verifyChain_def empty_audit_log_def chain_head_def)
  next
    case (log_append log input n)
    then show ?case
      by (simp add: verifyChain_def audit_append_simps(1) verify_from_snoc audit_append_simps(2-4))
  qed
  then show ?thesis using audit_append_simps(1,2) [of C input n log] by auto
qed

definition demo_audit_input :: AuditEnvelopeInput where
  "demo_audit_input =
     \<lparr> au_decisionId = ''dec_1'', au_requestId = ''r1'', au_correlationId = ''c1'', au_actorId = ''a1'',
       au_tenantId = ''t1'', au_workspaceId = ''w1'', au_action = ''read'',
       au_resource = \<lparr> rr_id = ''doc1'', rr_type = ''doc'' \<rparr>, au_decision = Deny, au_reasonCode = ''no'',
       au_reason = ''No.'', au_policyReferences = [], au_approvalReferences = [], au_permitReference = None,
       au_outcome = DENIED_outcome, au_verificationResult = None, au_timestamp = ''2026-01-01T00:00:00.000Z'' \<rparr>"

definition demo_log :: audit_log where
  "demo_log = snd (audit_append demo_crypto demo_audit_input 0 empty_audit_log)"

text \<open>
  C10. Tamper evidence: two logs that verify and have the same head agree in every entry, in
  order and in length. So whoever keeps the head detects any edit, insertion, reordering or
  removal. The hypotheses are that SHA-256 has no collision among the texts hashed for the two
  logs and that none of them hashes to the genesis value.
\<close>

theorem audit_chain_tamper_evident:
  assumes "verifyChain C log" "verifyChain C log'"
    and "chain_head AUDIT_GENESIS_HASH (al_entries log) = chain_head AUDIT_GENESIS_HASH (al_entries log')"
    and "inj_on (sha256Hex C) (hashed_texts AUDIT_GENESIS_HASH (al_entries log) \<union>
                               hashed_texts AUDIT_GENESIS_HASH (al_entries log'))"
    and "AUDIT_GENESIS_HASH \<notin> sha256Hex C ` (hashed_texts AUDIT_GENESIS_HASH (al_entries log) \<union>
                                           hashed_texts AUDIT_GENESIS_HASH (al_entries log'))"
  shows "al_entries log = al_entries log'"
  using assms unfolding verifyChain_def by (rule chain_eqI)

theorem audit_chain_tamper_evident_witness:
  "al_entries demo_log = al_entries (snd (audit_append demo_crypto demo_audit_input 0 empty_audit_log)) \<and>
   verifyChain demo_crypto demo_log"
proof -
  have v: "verifyChain demo_crypto demo_log" by code_simp
  have t: "hashed_texts AUDIT_GENESIS_HASH (al_entries demo_log) =
      {audit_text AUDIT_GENESIS_HASH (''audit_'' @ show_nat 0) demo_audit_input}"
    by (simp add: demo_log_def audit_append_def newId_def empty_audit_log_def demo_crypto_def Let_def hashed_texts_def env_link_def entry_text_def)
  have "sha256Hex demo_crypto (audit_text AUDIT_GENESIS_HASH (''audit_'' @ show_nat 0) demo_audit_input) \<noteq> AUDIT_GENESIS_HASH"
    by code_simp
  then show ?thesis
    using audit_chain_tamper_evident [OF v v refl] v by (simp add: t demo_log_def)
qed

end
