(* ===== verification/Policy.thy ===== *)
theory Policy
  imports Protocol
begin

text \<open>
  The package \<^verbatim>\<open>policy\<close>: \<^verbatim>\<open>permissions.ts\<close> (role-based authorization), \<^verbatim>\<open>policy.ts\<close>
  (rule evaluation, deny by default) and \<^verbatim>\<open>execution-gate.ts\<close> (the gate that combines them and
  the branded decisions and permits). A brand is membership in a module-level \<^verbatim>\<open>WeakSet\<close> of
  object identities: \<open>gate_heap\<close> holds the branded objects by address, and every operation that
  creates one allocates a fresh address. \<open>write_status\<close> is what any holder of a decision can
  do, since the code does not freeze it.
\<close>

section \<open>permissions.ts\<close>

record Resource =
  res_id :: string
  res_type :: string
  res_tenantId :: string
  res_organizationId :: "string option"
  res_workspaceId :: "string option"

record Permission =
  perm_resourceType :: string
  perm_action :: string
  perm_tenantId :: string
  perm_workspaceId :: "string option"

record Role =
  role_id :: string
  role_name :: string
  role_permissions :: "Permission list"
  role_assignableTo :: "ActorType list"

record RoleAssignment =
  ra_actorId :: string
  ra_actorType :: ActorType
  ra_roleId :: string
  ra_tenant :: string
  ra_workspaceId :: "string option"

record AuthorizationRequest =
  ar_context :: OSForgeContext
  ar_actor :: Actor
  ar_resource :: Resource
  ar_action :: string
  ar_roles :: "Role list"
  ar_roleAssignments :: "RoleAssignment list"

datatype AuthorizationDecisionStatus = AuthAllow | AuthDeny

record AuthorizationResult =
  az_decision :: AuthorizationDecisionStatus
  az_reason :: string

definition assignment_applies :: "AuthorizationRequest \<Rightarrow> RoleAssignment \<Rightarrow> bool" where
  "assignment_applies r a \<longleftrightarrow>
     ra_actorId a = actor_id (ar_actor r) \<and> ra_actorType a = actor_type (ar_actor r) \<and>
     ra_tenant a = tenant_id (ctx_tenant (ar_context r)) \<and>
     (ra_workspaceId a = None \<or> ra_workspaceId a = Some (ws_id (ctx_workspace (ar_context r))))"

definition permission_matches :: "AuthorizationRequest \<Rightarrow> Permission \<Rightarrow> bool" where
  "permission_matches r p \<longleftrightarrow>
     perm_tenantId p = tenant_id (ctx_tenant (ar_context r)) \<and>
     perm_resourceType p = res_type (ar_resource r) \<and> perm_action p = ar_action r \<and>
     (perm_workspaceId p = None \<or> perm_workspaceId p = Some (ws_id (ctx_workspace (ar_context r))))"

definition assignedRoles :: "AuthorizationRequest \<Rightarrow> Role list" where
  "assignedRoles r =
     filter (\<lambda>role. actor_type (ar_actor r) \<in> set (role_assignableTo role))
       (List.map_filter (\<lambda>a. List.find (\<lambda>role. role_id role = ra_roleId a) (ar_roles r))
          (filter (assignment_applies r) (ar_roleAssignments r)))"

definition authorize :: "AuthorizationRequest \<Rightarrow> AuthorizationResult" where
  "authorize r =
     (let tenant = tenant_id (ctx_tenant (ar_context r)) in
      if actor_tenantId (ar_actor r) \<noteq> tenant \<or> res_tenantId (ar_resource r) \<noteq> tenant then
        \<lparr> az_decision = AuthDeny, az_reason = ''Authorization denied across tenant boundary.'' \<rparr>
      else if (case res_workspaceId (ar_resource r) of
                 None \<Rightarrow> False
               | Some w \<Rightarrow> w \<noteq> '''' \<and> w \<noteq> ws_id (ctx_workspace (ar_context r))) then
        \<lparr> az_decision = AuthDeny, az_reason = ''Authorization denied across workspace boundary.'' \<rparr>
      else if assignedRoles r = [] then
        \<lparr> az_decision = AuthDeny,
          az_reason = ''No verified role assignment matched the actor and context.'' \<rparr>
      else if list_ex (\<lambda>role. list_ex (permission_matches r) (role_permissions role)) (assignedRoles r) then
        \<lparr> az_decision = AuthAllow, az_reason = ''Explicit permission matched.'' \<rparr>
      else
        \<lparr> az_decision = AuthDeny, az_reason = ''No explicit permission matched.'' \<rparr>)"

section \<open>policy.ts\<close>

datatype PolicyEffect = ALLOW | DENY | REQUIRE_APPROVAL

record PolicyRule =
  rule_id :: string
  rule_description :: string
  rule_effect :: PolicyEffect
  rule_resourceType :: "string option"
  rule_action :: "string option"

record PolicySet =
  policy_id :: string
  policy_name :: string
  policy_rules :: "PolicyRule list"

record PolicyEvaluationRequest =
  per_context :: OSForgeContext
  per_resource :: Resource
  per_action :: string
  per_policies :: "PolicySet list"

record PolicyViolation =
  pv_ruleId :: "string option"
  pv_message :: string

record PolicyEvaluationResult =
  pe_decision :: PolicyEffect
  pe_matchedRules :: "PolicyRule list"
  pe_violations :: "PolicyViolation list"

definition rule_matches :: "PolicyEvaluationRequest \<Rightarrow> PolicyRule \<Rightarrow> bool" where
  "rule_matches r rule \<longleftrightarrow>
     (rule_resourceType rule = None \<or> rule_resourceType rule = Some (res_type (per_resource r))) \<and>
     (rule_action rule = None \<or> rule_action rule = Some (per_action r))"

definition evaluatePolicies :: "PolicyEvaluationRequest \<Rightarrow> PolicyEvaluationResult" where
  "evaluatePolicies r =
     (let matched = filter (rule_matches r) (concat (map policy_rules (per_policies r))) in
      if matched = [] then
        \<lparr> pe_decision = DENY, pe_matchedRules = matched,
          pe_violations = [\<lparr> pv_ruleId = None,
                             pv_message = ''No explicit policy rule matched; denied by default.'' \<rparr>] \<rparr>
      else
        (case List.find (\<lambda>rule. rule_effect rule = DENY) matched of
           Some d \<Rightarrow>
             \<lparr> pe_decision = DENY, pe_matchedRules = matched,
               pe_violations = [\<lparr> pv_ruleId = Some (rule_id d), pv_message = ''Deny policy matched.'' \<rparr>] \<rparr>
         | None \<Rightarrow>
             (case List.find (\<lambda>rule. rule_effect rule = REQUIRE_APPROVAL) matched of
                Some a \<Rightarrow> \<lparr> pe_decision = REQUIRE_APPROVAL, pe_matchedRules = matched, pe_violations = [] \<rparr>
              | None \<Rightarrow> \<lparr> pe_decision = ALLOW, pe_matchedRules = matched, pe_violations = [] \<rparr>)))"

section \<open>execution-gate.ts\<close>

datatype ExecutionGateCheckName =
  Context_validation | Authorization_check | Policy_evaluation | Approval_requirement | Execution_permission

datatype ExecutionPermission = GRANTED | DENIED | REQUIRES_APPROVAL

record ExecutionGateCheck =
  chk_name :: ExecutionGateCheckName
  chk_passed :: bool
  chk_decision :: ExecutionPermission
  chk_reason :: string

text \<open>The fields of a tool call and of an approval decision that the gate reads.\<close>

record ToolCall =
  tc_requiresApproval :: "bool option"
  tc_criticalActionType :: "string option"

datatype ApprovalDecisionStatus = Approval_granted | Approval_rejected

record ExecutionGateRequest =
  gr_context :: "raw_context option"
  gr_authorization :: AuthorizationRequest
  gr_policy :: PolicyEvaluationRequest
  gr_toolCall :: "ToolCall option"
  gr_approvalDecision :: "ApprovalDecisionStatus option"

definition hasRuntimeCriticalAction :: "ToolCall option \<Rightarrow> bool" where
  "hasRuntimeCriticalAction t = (case t of None \<Rightarrow> False | Some c \<Rightarrow> isNonEmptyOpt (tc_criticalActionType c))"

definition authorizationCheck :: "AuthorizationResult \<Rightarrow> ExecutionGateCheck" where
  "authorizationCheck a =
     \<lparr> chk_name = Authorization_check, chk_passed = (az_decision a = AuthAllow),
       chk_decision = (if az_decision a = AuthAllow then GRANTED else DENIED), chk_reason = az_reason a \<rparr>"

definition policyCheck :: "PolicyEvaluationResult \<Rightarrow> ExecutionGateCheck" where
  "policyCheck p =
     \<lparr> chk_name = Policy_evaluation, chk_passed = (pe_decision p \<noteq> DENY),
       chk_decision = (if pe_decision p = ALLOW then GRANTED
                       else if pe_decision p = DENY then DENIED else REQUIRES_APPROVAL),
       chk_reason = (if pe_decision p = DENY then ''Policy denied execution.''
                     else ''Policy evaluation did not deny execution.'') \<rparr>"

definition approval_required :: "ExecutionGateRequest \<Rightarrow> bool" where
  "approval_required r \<longleftrightarrow>
     pe_decision (evaluatePolicies (gr_policy r)) = REQUIRE_APPROVAL \<or>
     (case gr_toolCall r of None \<Rightarrow> False | Some c \<Rightarrow> tc_requiresApproval c = Some True) \<or>
     hasRuntimeCriticalAction (gr_toolCall r)"

text \<open>The permission, the checks and the reason that \<^verbatim>\<open>evaluateExecutionGate\<close> computes.\<close>

definition gate_verdict ::
  "ExecutionGateRequest \<Rightarrow> ExecutionPermission \<times> ExecutionGateCheck list \<times> string" where
  "gate_verdict r =
     (if validateOSForgeContext (gr_context r) \<noteq> Valid then
        (DENIED, [\<lparr> chk_name = Context_validation, chk_passed = False, chk_decision = DENIED,
                    chk_reason = ''Context validation failed.'' \<rparr>], ''Context validation failed.'')
      else
        (let c0 = \<lparr> chk_name = Context_validation, chk_passed = True, chk_decision = GRANTED,
                    chk_reason = ''Context boundary is valid.'' \<rparr>;
             az = authorize (gr_authorization r); c1 = authorizationCheck az in
         if az_decision az = AuthDeny then (DENIED, [c0, c1], az_reason az)
         else
           (let pol = evaluatePolicies (gr_policy r); c2 = policyCheck pol in
            if pe_decision pol = DENY then (DENIED, [c0, c1, c2], ''Policy denied execution.'')
            else
              (let critical = hasRuntimeCriticalAction (gr_toolCall r);
                   required = approval_required r;
                   granted = (gr_approvalDecision r = Some Approval_granted);
                   pending = (\<lambda>m. \<lparr> chk_name = Approval_requirement, chk_passed = False,
                                    chk_decision = REQUIRES_APPROVAL, chk_reason = m \<rparr>) in
               if critical \<and> (case gr_toolCall r of None \<Rightarrow> False | Some c \<Rightarrow> tc_requiresApproval c = Some False) then
                 (let m = ''Critical action attempted to lower approval requirement.''
                  in (REQUIRES_APPROVAL, [c0, c1, c2, pending m], m))
               else if required \<and> \<not> granted then
                 (let m = ''Approval is required before execution.''
                  in (REQUIRES_APPROVAL, [c0, c1, c2, pending m], m))
               else
                 (GRANTED,
                  [c0, c1, c2,
                   \<lparr> chk_name = Approval_requirement, chk_passed = True, chk_decision = GRANTED,
                     chk_reason = (if required then ''Required approval is granted.''
                                   else ''Approval is not required.'') \<rparr>,
                   \<lparr> chk_name = Execution_permission, chk_passed = True, chk_decision = GRANTED,
                     chk_reason = ''Execution gate granted permission.'' \<rparr>],
                  ''Execution gate granted permission.'')))))"

record FinalExecutionDecision =
  fd_status :: ExecutionPermission
  fd_checks :: "ExecutionGateCheck list"
  fd_reason :: string

type_synonym ref = nat

record gate_heap =
  finalExecutionDecisions :: "ref \<rightharpoonup> FinalExecutionDecision"
  executionPermits :: "ref \<rightharpoonup> ref"
  next_ref :: ref

record ExecutionGateResult =
  gres_permission :: ExecutionPermission
  gres_finalDecision :: ref
  gres_checks :: "ExecutionGateCheck list"

definition empty_gate_heap :: gate_heap where
  "empty_gate_heap = \<lparr> finalExecutionDecisions = Map.empty, executionPermits = Map.empty, next_ref = 0 \<rparr>"

definition executionGateResult ::
  "ExecutionPermission \<Rightarrow> ExecutionGateCheck list \<Rightarrow> string \<Rightarrow> gate_heap \<Rightarrow> ExecutionGateResult \<times> gate_heap" where
  "executionGateResult permission checks reason h =
     (let d = next_ref h in
      (\<lparr> gres_permission = permission, gres_finalDecision = d, gres_checks = checks \<rparr>,
       h\<lparr> finalExecutionDecisions := (finalExecutionDecisions h)
              (d \<mapsto> \<lparr> fd_status = permission, fd_checks = checks, fd_reason = reason \<rparr>),
          next_ref := Suc d \<rparr>))"

definition evaluateExecutionGate ::
  "ExecutionGateRequest \<Rightarrow> gate_heap \<Rightarrow> ExecutionGateResult \<times> gate_heap" where
  "evaluateExecutionGate r h =
     (let (permission, checks, reason) = gate_verdict r in executionGateResult permission checks reason h)"

definition isFinalExecutionDecision :: "ref \<Rightarrow> gate_heap \<Rightarrow> bool" where
  "isFinalExecutionDecision d h \<longleftrightarrow> finalExecutionDecisions h d \<noteq> None"

definition createExecutionPermit :: "ref \<Rightarrow> gate_heap \<Rightarrow> ref option \<times> gate_heap" where
  "createExecutionPermit d h =
     (case finalExecutionDecisions h d of
        None \<Rightarrow> (None, h)
      | Some f \<Rightarrow>
          if fd_status f \<noteq> GRANTED then (None, h)
          else (Some (next_ref h),
                h\<lparr> executionPermits := (executionPermits h)(next_ref h \<mapsto> d),
                   next_ref := Suc (next_ref h) \<rparr>))"

definition isExecutionPermit :: "ref \<Rightarrow> gate_heap \<Rightarrow> bool" where
  "isExecutionPermit p h =
     (case executionPermits h p of None \<Rightarrow> False | Some d \<Rightarrow> isFinalExecutionDecision d h)"

text \<open>\<^verbatim>\<open>decision.status = s\<close>, by whoever holds the decision object.\<close>

definition write_status :: "ref \<Rightarrow> ExecutionPermission \<Rightarrow> gate_heap \<Rightarrow> gate_heap" where
  "write_status d s h =
     (case finalExecutionDecisions h d of
        None \<Rightarrow> h
      | Some f \<Rightarrow> h\<lparr> finalExecutionDecisions := (finalExecutionDecisions h)(d \<mapsto> f\<lparr> fd_status := s \<rparr>) \<rparr>)"

section \<open>What the three functions decide\<close>

lemma find_SomeD: "List.find P xs = Some x \<Longrightarrow> x \<in> set xs \<and> P x"
  by (induction xs) (auto split: if_splits)

lemma find_None_iff2: "List.find P xs = None \<longleftrightarrow> (\<forall>x \<in> set xs. \<not> P x)"
  by (induction xs) auto

definition matched_rules :: "PolicyEvaluationRequest \<Rightarrow> PolicyRule set" where
  "matched_rules r = {rule. \<exists>p \<in> set (per_policies r). rule \<in> set (policy_rules p) \<and> rule_matches r rule}"

lemma set_matched: "set (filter (rule_matches r) (concat (map policy_rules (per_policies r)))) = matched_rules r"
  by (auto simp: matched_rules_def)

lemma evaluatePolicies_status:
  "pe_decision (evaluatePolicies r) =
     (if matched_rules r = {} \<or> (\<exists>rule \<in> matched_rules r. rule_effect rule = DENY) then DENY
      else if \<exists>rule \<in> matched_rules r. rule_effect rule = REQUIRE_APPROVAL then REQUIRE_APPROVAL
      else ALLOW)"
proof -
  define m where "m = filter (rule_matches r) (concat (map policy_rules (per_policies r)))"
  have m: "matched_rules r = set m" unfolding m_def set_matched ..
  show ?thesis
    unfolding evaluatePolicies_def Let_def m_def [symmetric] m
    by (auto split: option.splits simp: find_None_iff2 dest: find_SomeD)
qed

text \<open>An explicit grant: a role of the actor, assigned in this boundary, with a matching permission.\<close>

definition explicit_grant :: "AuthorizationRequest \<Rightarrow> bool" where
  "explicit_grant r \<longleftrightarrow>
     (\<exists>a \<in> set (ar_roleAssignments r). \<exists>role p. assignment_applies r a \<and>
        List.find (\<lambda>role. role_id role = ra_roleId a) (ar_roles r) = Some role \<and>
        actor_type (ar_actor r) \<in> set (role_assignableTo role) \<and>
        p \<in> set (role_permissions role) \<and> permission_matches r p)"

lemma in_assignedRoles:
  "role \<in> set (assignedRoles r) \<longleftrightarrow>
     (\<exists>a \<in> set (ar_roleAssignments r). assignment_applies r a \<and>
        List.find (\<lambda>role. role_id role = ra_roleId a) (ar_roles r) = Some role) \<and>
     actor_type (ar_actor r) \<in> set (role_assignableTo role)"
  by (auto simp: assignedRoles_def map_filter_def) force+

definition same_boundary :: "AuthorizationRequest \<Rightarrow> bool" where
  "same_boundary r \<longleftrightarrow>
     actor_tenantId (ar_actor r) = tenant_id (ctx_tenant (ar_context r)) \<and>
     res_tenantId (ar_resource r) = tenant_id (ctx_tenant (ar_context r)) \<and>
     (\<forall>w. res_workspaceId (ar_resource r) = Some w \<longrightarrow> w = '''' \<or> w = ws_id (ctx_workspace (ar_context r)))"

lemma authorize_iff:
  "az_decision (authorize r) = AuthAllow \<longleftrightarrow> same_boundary r \<and> explicit_grant r"
proof -
  have "list_ex (\<lambda>role. list_ex (permission_matches r) (role_permissions role)) (assignedRoles r) \<longleftrightarrow>
      explicit_grant r"
    unfolding list_ex_iff explicit_grant_def Bex_def in_assignedRoles by blast
  moreover have "explicit_grant r \<Longrightarrow> assignedRoles r \<noteq> []"
    using in_assignedRoles [of _ r] by (auto simp: explicit_grant_def) fastforce
  ultimately show ?thesis
    by (auto simp: authorize_def Let_def same_boundary_def split: option.splits)
qed

definition gate_conditions :: "ExecutionGateRequest \<Rightarrow> bool" where
  "gate_conditions r \<longleftrightarrow>
     validateOSForgeContext (gr_context r) = Valid \<and>
     same_boundary (gr_authorization r) \<and> explicit_grant (gr_authorization r) \<and>
     pe_decision (evaluatePolicies (gr_policy r)) \<noteq> DENY \<and>
     (approval_required r \<longrightarrow> gr_approvalDecision r = Some Approval_granted) \<and>
     \<not> (hasRuntimeCriticalAction (gr_toolCall r) \<and>
        (\<exists>c. gr_toolCall r = Some c \<and> tc_requiresApproval c = Some False))"

lemma AuthDeny_iff: "az_decision a = AuthDeny \<longleftrightarrow> az_decision a \<noteq> AuthAllow"
  by (cases "az_decision a") simp_all

lemma gate_granted_iff: "fst (gate_verdict r) = GRANTED \<longleftrightarrow> gate_conditions r"
  by (auto simp: gate_verdict_def gate_conditions_def Let_def AuthDeny_iff authorize_iff split: option.splits)

section \<open>Brands\<close>

inductive gate_reach :: "gate_heap \<Rightarrow> bool" where
  gate_start: "gate_reach empty_gate_heap"
| gate_eval: "gate_reach h \<Longrightarrow> gate_reach (snd (evaluateExecutionGate r h))"
| gate_permit: "gate_reach h \<Longrightarrow> gate_reach (snd (createExecutionPermit d h))"

definition gate_inv :: "gate_heap \<Rightarrow> bool" where
  "gate_inv h \<longleftrightarrow>
     (\<forall>d f. finalExecutionDecisions h d = Some f \<longrightarrow>
        d < next_ref h \<and> (\<exists>r. gate_verdict r = (fd_status f, fd_checks f, fd_reason f))) \<and>
     (\<forall>p d. executionPermits h p = Some d \<longrightarrow>
        p < next_ref h \<and> (\<exists>f. finalExecutionDecisions h d = Some f \<and> fd_status f = GRANTED))"

lemma gate_inv_eval: "gate_inv h \<Longrightarrow> gate_inv (snd (evaluateExecutionGate r h))"
proof -
  assume inv: "gate_inv h"
  obtain p cs m where v: "gate_verdict r = (p, cs, m)" by (cases "gate_verdict r") auto
  have "finalExecutionDecisions h (next_ref h) = None"
    using inv by (cases "finalExecutionDecisions h (next_ref h)") (auto simp: gate_inv_def)
  then show ?thesis
    using inv v unfolding gate_inv_def evaluateExecutionGate_def executionGateResult_def
    by (auto simp: Let_def less_Suc_eq) force+
qed

lemma gate_inv_permit: "gate_inv h \<Longrightarrow> gate_inv (snd (createExecutionPermit d h))"
  unfolding gate_inv_def createExecutionPermit_def
  by (auto simp: less_Suc_eq split: option.splits if_splits)

lemma gate_reach_inv: "gate_reach h \<Longrightarrow> gate_inv h"
proof (induction rule: gate_reach.induct)
  case gate_start
  show ?case by (simp add: gate_inv_def empty_gate_heap_def)
qed (simp_all add: gate_inv_eval gate_inv_permit)

section \<open>Properties\<close>

text \<open>A request that the gate grants, and a policy request with a DENY rule after an ALLOW rule.\<close>

definition demo_gate_request :: ExecutionGateRequest where
  "demo_gate_request =
     \<lparr> gr_context = Some (raw_of demo_context),
       gr_authorization =
         \<lparr> ar_context = demo_context, ar_actor = ctx_actor demo_context,
           ar_resource = \<lparr> res_id = ''r1'', res_type = ''doc'', res_tenantId = ''t1'',
                           res_organizationId = None, res_workspaceId = Some ''w1'' \<rparr>,
           ar_action = ''read'',
           ar_roles = [\<lparr> role_id = ''reader'', role_name = ''Reader'',
                         role_permissions = [\<lparr> perm_resourceType = ''doc'', perm_action = ''read'',
                                               perm_tenantId = ''t1'', perm_workspaceId = None \<rparr>],
                         role_assignableTo = [HumanUser] \<rparr>],
           ar_roleAssignments = [\<lparr> ra_actorId = ''a1'', ra_actorType = HumanUser, ra_roleId = ''reader'',
                                   ra_tenant = ''t1'', ra_workspaceId = None \<rparr>] \<rparr>,
       gr_policy =
         \<lparr> per_context = demo_context,
           per_resource = \<lparr> res_id = ''r1'', res_type = ''doc'', res_tenantId = ''t1'',
                            res_organizationId = None, res_workspaceId = Some ''w1'' \<rparr>,
           per_action = ''read'',
           per_policies = [\<lparr> policy_id = ''p'', policy_name = ''P'',
             policy_rules = [\<lparr> rule_id = ''x'', rule_description = ''X'', rule_effect = ALLOW,
                               rule_resourceType = Some ''doc'', rule_action = None \<rparr>] \<rparr>] \<rparr>,
       gr_toolCall = None, gr_approvalDecision = None \<rparr>"

lemma demo_gate_granted: "fst (gate_verdict demo_gate_request) = GRANTED"
  by code_simp

definition demo_deny_rule :: PolicyRule where
  "demo_deny_rule = \<lparr> rule_id = ''no'', rule_description = ''N'', rule_effect = DENY,
                      rule_resourceType = None, rule_action = Some ''read'' \<rparr>"

definition demo_deny_request :: PolicyEvaluationRequest where
  "demo_deny_request = (gr_policy demo_gate_request)\<lparr> per_policies :=
     per_policies (gr_policy demo_gate_request) @
     [\<lparr> policy_id = ''q'', policy_name = ''Q'', policy_rules = [demo_deny_rule] \<rparr>] \<rparr>"

text \<open>
  C32. Policy evaluation denies by default and a matching DENY rule overrides every other rule,
  in whatever policy and position it stands; a REQUIRE_APPROVAL rule overrides ALLOW. The
  matched rules reported are exactly the rules that match, and the rule named by a violation
  is a matching DENY rule.
\<close>

theorem evaluatePolicies_deny_overrides:
  "pe_decision (evaluatePolicies r) =
     (if matched_rules r = {} \<or> (\<exists>rule \<in> matched_rules r. rule_effect rule = DENY) then DENY
      else if \<exists>rule \<in> matched_rules r. rule_effect rule = REQUIRE_APPROVAL then REQUIRE_APPROVAL
      else ALLOW) \<and>
   set (pe_matchedRules (evaluatePolicies r)) = matched_rules r \<and>
   (\<forall>v \<in> set (pe_violations (evaluatePolicies r)). \<forall>i. pv_ruleId v = Some i \<longrightarrow>
      (\<exists>rule \<in> matched_rules r. rule_id rule = i \<and> rule_effect rule = DENY))"
proof -
  define m where "m = filter (rule_matches r) (concat (map policy_rules (per_policies r)))"
  have m: "matched_rules r = set m" unfolding m_def set_matched ..
  have "set (pe_matchedRules (evaluatePolicies r)) = matched_rules r"
    unfolding evaluatePolicies_def Let_def m_def [symmetric] m by (auto split: option.splits)
  moreover have "\<exists>rule \<in> matched_rules r. rule_id rule = i \<and> rule_effect rule = DENY"
    if "v \<in> set (pe_violations (evaluatePolicies r))" "pv_ruleId v = Some i" for v i
    using that unfolding evaluatePolicies_def Let_def m_def [symmetric] m
    by (auto split: option.splits if_splits dest!: find_SomeD)
  ultimately show ?thesis using evaluatePolicies_status by blast
qed

theorem evaluatePolicies_deny_overrides_witness:
  "demo_deny_rule \<in> matched_rules demo_deny_request \<and> pe_decision (evaluatePolicies demo_deny_request) = DENY"
proof -
  have "demo_deny_rule \<in> matched_rules demo_deny_request" "rule_effect demo_deny_rule = DENY"
    by (simp_all add: matched_rules_def demo_deny_request_def demo_gate_request_def demo_deny_rule_def rule_matches_def)
  then show ?thesis using evaluatePolicies_deny_overrides [of demo_deny_request] by auto
qed

text \<open>
  The execution gate grants exactly when the context is valid, the actor has an explicit
  grant inside the tenant and workspace boundary, policy does not deny, an approval is granted
  where policy, the tool call or a critical action requires one, and no critical tool call
  declares that it needs none. What it returns is a fresh branded decision that carries the
  permission and the checks.
\<close>

lemma evaluateExecutionGate_grants_iff:
  "evaluateExecutionGate r h = (res, h') \<Longrightarrow>
     (gres_permission res = GRANTED \<longleftrightarrow> gate_conditions r) \<and>
     (\<exists>f. finalExecutionDecisions h' (gres_finalDecision res) = Some f \<and>
          fd_status f = gres_permission res \<and> fd_checks f = gres_checks res \<and>
          (gres_permission res = GRANTED \<longleftrightarrow> (\<forall>c \<in> set (fd_checks f). chk_passed c)))"
proof -
  assume e: "evaluateExecutionGate r h = (res, h')"
  obtain p cs m where v: "gate_verdict r = (p, cs, m)" by (cases "gate_verdict r") auto
  have "p = GRANTED \<longleftrightarrow> gate_conditions r" using gate_granted_iff [of r] v by simp
  moreover have "p = GRANTED \<longleftrightarrow> (\<forall>c \<in> set cs. chk_passed c)"
    using v by (auto simp: gate_verdict_def Let_def AuthDeny_iff authorizationCheck_def policyCheck_def
        split: option.splits if_splits)
  ultimately show ?thesis
    using e v by (auto simp: evaluateExecutionGate_def executionGateResult_def Let_def)
qed


definition demo_gate_heap :: gate_heap where
  "demo_gate_heap = snd (createExecutionPermit 0 (snd (evaluateExecutionGate demo_gate_request empty_gate_heap)))"


text \<open>
  The decision object is branded but not frozen: whoever holds a denied decision can set its
  status and then obtain a permit for it.
\<close>

lemma denied_decision_can_be_promoted:
  assumes "evaluateExecutionGate r h = (res, h')" "gres_permission res \<noteq> GRANTED"
  shows "\<exists>p h''. createExecutionPermit (gres_finalDecision res)
                  (write_status (gres_finalDecision res) GRANTED h') = (Some p, h'') \<and>
                isExecutionPermit p h''"
  using assms
  by (auto simp: evaluateExecutionGate_def executionGateResult_def Let_def case_prod_beta write_status_def
      createExecutionPermit_def isExecutionPermit_def isFinalExecutionDecision_def)

end
