(* ===== verification/Runtime_Isolation.thy ===== *)
theory Runtime_Isolation
  imports Policy Js_Date
begin

text \<open>
  The package \<^verbatim>\<open>runtime-isolation\<close>: branded runtime contexts, execution identities, isolation
  decisions and runtime permits with their one-time gate, the replay store behind it, the
  isolated state store; the heap also holds the sandbox objects of \<open>Sandbox\<close>. The module's
  \<^verbatim>\<open>WeakSet\<close>s are maps from addresses in \<open>iso_heap\<close>, which contains the heap of the policy gate;
  an \<^verbatim>\<open>unknown\<close> argument is an address that may be in none of them. What the code freezes is
  never updated here.
\<close>

datatype IsolationDecisionStatus = Iso_allowed | Iso_denied

datatype RuntimeExecutionMode = Mode_test | Mode_production

datatype RuntimeIsolationRejectionReason =
    Missing_identity | Malformed_identity | Cross_tenant_mismatch | Cross_organization_mismatch
  | Cross_workspace_mismatch | Actor_mismatch | Actor_type_mismatch | Execution_mismatch
  | Invalid_execution_permit | Invalid_isolation_decision | Expired_runtime_permit
  | Runtime_permit_identity_mismatch | Runtime_permit_replayed | State_boundary_mismatch

record RuntimeIsolationContext =
  ric_tenantId :: string
  ric_organizationId :: string
  ric_workspaceId :: string
  ric_actorId :: string
  ric_actorType :: string
  ric_executionId :: string
  ric_correlationId :: string

record RuntimeIsolationExpectedBinding =
  eb_tenantId :: "string option"
  eb_organizationId :: "string option"
  eb_workspaceId :: "string option"
  eb_actorId :: "string option"
  eb_actorType :: "string option"
  eb_executionId :: "string option"

record IsolationBoundaryDecision =
  ibd_status :: IsolationDecisionStatus
  ibd_reason :: string
  ibd_identity :: "ref option"

record RuntimeExecutionPermit =
  rep_permitId :: string
  rep_basePermit :: ref
  rep_identity :: ref
  rep_issuedAt :: string
  rep_expiresAt :: string

record RuntimeResourceQuota =
  rq_maxCpuTimeMs :: int
  rq_maxMemoryBytes :: int
  rq_maxExecutionTimeMs :: int
  rq_maxProcesses :: int

datatype SandboxCapability =
  FilesystemRead | FilesystemWrite | NetworkEgress | Shell | ChildProcess | Container | Tool | Mcp

definition SANDBOX_CAPABILITIES :: "(string \<times> SandboxCapability) list" where
  "SANDBOX_CAPABILITIES =
     [(''filesystemRead'', FilesystemRead), (''filesystemWrite'', FilesystemWrite),
      (''networkEgress'', NetworkEgress), (''shell'', Shell), (''childProcess'', ChildProcess),
      (''container'', Container), (''tool'', Tool), (''mcp'', Mcp)]"

datatype SandboxCapabilityDecision = Cap_allow | Cap_deny

record SandboxPolicy =
  sbp_capabilities :: "SandboxCapability \<Rightarrow> SandboxCapabilityDecision"
  sbp_quota :: "ref option"

datatype SandboxProviderType = TestOnly | LocalDevelopment | ProductionDistributed

datatype SandboxProviderAttestationResult = Trusted | Untrusted | Unknown

datatype SandboxEnvironmentMode = Env_test | Env_development | Env_staging | Env_production

record SandboxProviderAttestation =
  att_result :: SandboxProviderAttestationResult
  att_providerId :: string
  att_providerType :: SandboxProviderType
  att_environmentMode :: SandboxEnvironmentMode
  att_capabilities :: "SandboxCapability list"
  att_attestedAt :: string

record SandboxProvider =
  sbx_providerId :: string
  sbx_providerType :: SandboxProviderType
  sbx_capabilities :: "SandboxCapability list"
  sbx_attestation :: ref
  sbx_environmentMode :: SandboxEnvironmentMode
  sbx_createdAt :: string

record iso_heap =
  ih_gate :: gate_heap
  runtimeIsolationContexts :: "ref \<rightharpoonup> RuntimeIsolationContext"
  executionIdentities :: "ref \<rightharpoonup> ref"
  isolationBoundaryDecisions :: "ref \<rightharpoonup> IsolationBoundaryDecision"
  runtimeExecutionPermits :: "ref \<rightharpoonup> RuntimeExecutionPermit"
  basePermitsWithRuntimePermit :: "ref set"
  consumedRuntimeExecutionPermitObjects :: "ref set"
  runtimeResourceQuotas :: "ref \<rightharpoonup> RuntimeResourceQuota"
  sandboxPolicies :: "ref \<rightharpoonup> SandboxPolicy"
  sandboxProviderAttestations :: "ref \<rightharpoonup> SandboxProviderAttestation"
  sandboxProviders :: "ref \<rightharpoonup> SandboxProvider"
  ih_next :: ref

definition empty_iso_heap :: iso_heap where
  "empty_iso_heap =
     \<lparr> ih_gate = empty_gate_heap, runtimeIsolationContexts = Map.empty, executionIdentities = Map.empty,
       isolationBoundaryDecisions = Map.empty, runtimeExecutionPermits = Map.empty,
       basePermitsWithRuntimePermit = {}, consumedRuntimeExecutionPermitObjects = {},
       runtimeResourceQuotas = Map.empty, sandboxPolicies = Map.empty,
       sandboxProviderAttestations = Map.empty, sandboxProviders = Map.empty, ih_next = 0 \<rparr>"

section \<open>Contexts, identities and decisions\<close>

definition isRuntimeActorType :: "string \<Rightarrow> bool" where
  "isRuntimeActorType t \<longleftrightarrow>
     t \<in> {''human_user'', ''digital_employee'', ''system'', ''external_service'', ''ai_agent''}"

definition validateRuntimeFields ::
  "RuntimeIsolationContext \<Rightarrow> (RuntimeIsolationRejectionReason \<times> string) option" where
  "validateRuntimeFields c =
     (if \<not> list_all isNonEmptyString
            [ric_tenantId c, ric_organizationId c, ric_workspaceId c, ric_actorId c, ric_actorType c,
             ric_executionId c, ric_correlationId c] then
        Some (Malformed_identity, ''Runtime isolation identity fields must be non-empty strings.'')
      else if \<not> isRuntimeActorType (ric_actorType c) then
        Some (Malformed_identity, ''Runtime actor type is not supported.'')
      else None)"

text \<open>An expected field that is \<^verbatim>\<open>undefined\<close> is not compared.\<close>

definition differs :: "string option \<Rightarrow> string \<Rightarrow> bool" where
  "differs expected actual = (case expected of None \<Rightarrow> False | Some e \<Rightarrow> actual \<noteq> e)"

definition validateExpectedBinding ::
  "RuntimeIsolationContext \<Rightarrow> RuntimeIsolationExpectedBinding \<Rightarrow> (RuntimeIsolationRejectionReason \<times> string) option" where
  "validateExpectedBinding c e =
     (if differs (eb_tenantId e) (ric_tenantId c) then Some (Cross_tenant_mismatch, ''Tenant boundary mismatch.'')
      else if differs (eb_organizationId e) (ric_organizationId c) then
        Some (Cross_organization_mismatch, ''Organization boundary mismatch.'')
      else if differs (eb_workspaceId e) (ric_workspaceId c) then
        Some (Cross_workspace_mismatch, ''Workspace boundary mismatch.'')
      else if differs (eb_actorId e) (ric_actorId c) then Some (Actor_mismatch, ''Actor boundary mismatch.'')
      else if differs (eb_actorType e) (ric_actorType c) then
        Some (Actor_type_mismatch, ''Actor type boundary mismatch.'')
      else if differs (eb_executionId e) (ric_executionId c) then
        Some (Execution_mismatch, ''Execution boundary mismatch.'')
      else None)"

definition runtime_context :: "OSForgeContext \<Rightarrow> string \<Rightarrow> RuntimeIsolationContext" where
  "runtime_context c executionId =
     \<lparr> ric_tenantId = tenant_id (ctx_tenant c), ric_organizationId = org_id (ctx_organization c),
       ric_workspaceId = ws_id (ctx_workspace c), ric_actorId = actor_id (ctx_actor c),
       ric_actorType = actor_type_text (actor_type (ctx_actor c)), ric_executionId = executionId,
       ric_correlationId = ctx_correlationId c \<rparr>"

text \<open>The context is branded before its fields are checked; a malformed one is not handed out.\<close>

definition createRuntimeIsolationContext :: "OSForgeContext \<Rightarrow> string \<Rightarrow> iso_heap \<Rightarrow> ref option \<times> iso_heap" where
  "createRuntimeIsolationContext c executionId h =
     (if validateOSForgeContext (Some (raw_of c)) \<noteq> Valid then (None, h)
      else
        (let r = ih_next h; rc = runtime_context c executionId;
             h' = h\<lparr> runtimeIsolationContexts := (runtimeIsolationContexts h)(r \<mapsto> rc), ih_next := Suc r \<rparr>
         in if validateRuntimeFields rc \<noteq> None then (None, h') else (Some r, h')))"

definition createExecutionIdentity :: "ref \<Rightarrow> iso_heap \<Rightarrow> ref option \<times> iso_heap" where
  "createExecutionIdentity c h =
     (if runtimeIsolationContexts h c = None then (None, h)
      else (Some (ih_next h),
            h\<lparr> executionIdentities := (executionIdentities h)(ih_next h \<mapsto> c), ih_next := Suc (ih_next h) \<rparr>))"

definition isExecutionIdentity :: "ref \<Rightarrow> iso_heap \<Rightarrow> bool" where
  "isExecutionIdentity i h =
     (case executionIdentities h i of None \<Rightarrow> False | Some c \<Rightarrow> runtimeIsolationContexts h c \<noteq> None)"

datatype RuntimeIsolationValidationResult = Iso_valid ref | Iso_invalid RuntimeIsolationRejectionReason string

definition validateRuntimeIsolationBoundary ::
  "ref \<Rightarrow> RuntimeIsolationExpectedBinding \<Rightarrow> iso_heap \<Rightarrow> RuntimeIsolationValidationResult" where
  "validateRuntimeIsolationBoundary v e h =
     (case runtimeIsolationContexts h v of
        None \<Rightarrow> Iso_invalid Missing_identity ''Runtime isolation context is required.''
      | Some c \<Rightarrow>
          (case validateRuntimeFields c of
             Some (r, m) \<Rightarrow> Iso_invalid r m
           | None \<Rightarrow>
               (case validateExpectedBinding c e of
                  Some (r, m) \<Rightarrow> Iso_invalid r m
                | None \<Rightarrow> Iso_valid v)))"

definition brand_decision :: "IsolationBoundaryDecision \<Rightarrow> iso_heap \<Rightarrow> ref \<times> iso_heap" where
  "brand_decision d h =
     (ih_next h, h\<lparr> isolationBoundaryDecisions := (isolationBoundaryDecisions h)(ih_next h \<mapsto> d),
                    ih_next := Suc (ih_next h) \<rparr>)"

definition evaluateIsolationBoundary ::
  "ref \<Rightarrow> RuntimeIsolationExpectedBinding \<Rightarrow> iso_heap \<Rightarrow> ref \<times> iso_heap" where
  "evaluateIsolationBoundary v e h =
     (case validateRuntimeIsolationBoundary v e h of
        Iso_invalid r m \<Rightarrow>
          brand_decision \<lparr> ibd_status = Iso_denied, ibd_reason = m, ibd_identity = None \<rparr> h
      | Iso_valid c \<Rightarrow>
          (case createExecutionIdentity c h of
             (None, h') \<Rightarrow>
               brand_decision \<lparr> ibd_status = Iso_denied, ibd_reason = ''Execution identity could not be derived.'',
                                ibd_identity = None \<rparr> h'
           | (Some i, h') \<Rightarrow>
               brand_decision \<lparr> ibd_status = Iso_allowed, ibd_reason = ''Runtime isolation boundary is valid.'',
                                ibd_identity = Some i \<rparr> h'))"

section \<open>Runtime permits\<close>

definition isolationKey :: "RuntimeIsolationContext \<Rightarrow> string" where
  "isolationKey c = join_sep (CHR 0x1F)
     [ric_tenantId c, ric_organizationId c, ric_workspaceId c, ric_actorId c, ric_actorType c, ric_executionId c]"

text \<open>The chain of an identity; callers have checked \<open>isExecutionIdentity\<close>.\<close>

definition chain_of :: "ref \<Rightarrow> iso_heap \<Rightarrow> RuntimeIsolationContext option" where
  "chain_of i h = (case executionIdentities h i of None \<Rightarrow> None | Some c \<Rightarrow> runtimeIsolationContexts h c)"

definition sameExecutionIdentity :: "ref \<Rightarrow> ref \<Rightarrow> iso_heap \<Rightarrow> bool" where
  "sameExecutionIdentity l r h = (map_option isolationKey (chain_of l h) = map_option isolationKey (chain_of r h))"

record RuntimeExecutionPermitRequest =
  rpr_permitId :: string
  rpr_executionPermit :: ref
  rpr_isolationDecision :: ref
  rpr_identity :: ref
  rpr_issuedAt :: string
  rpr_expiresAt :: string
  rpr_now :: string

definition createRuntimeExecutionPermit ::
  "RuntimeExecutionPermitRequest \<Rightarrow> iso_heap \<Rightarrow> ref option \<times> iso_heap" where
  "createRuntimeExecutionPermit q h =
     (if \<not> isNonEmptyString (rpr_permitId q) \<or> \<not> isExecutionPermit (rpr_executionPermit q) (ih_gate h) \<or>
         rpr_executionPermit q \<in> basePermitsWithRuntimePermit h then (None, h)
      else
        (case isolationBoundaryDecisions h (rpr_isolationDecision q) of
           None \<Rightarrow> (None, h)
         | Some d \<Rightarrow>
             (case ibd_identity d of
                None \<Rightarrow> (None, h)
              | Some di \<Rightarrow>
                  if ibd_status d \<noteq> Iso_allowed \<or> \<not> isExecutionIdentity (rpr_identity q) h \<or>
                     \<not> sameExecutionIdentity di (rpr_identity q) h \<or>
                     \<not> isFuture (rpr_expiresAt q) (rpr_now q) \<or> \<not> isAtOrBefore (rpr_issuedAt q) (rpr_now q) then
                    (None, h)
                  else
                    (Some (ih_next h),
                     h\<lparr> runtimeExecutionPermits := (runtimeExecutionPermits h)
                            (ih_next h \<mapsto> \<lparr> rep_permitId = rpr_permitId q, rep_basePermit = rpr_executionPermit q,
                                            rep_identity = rpr_identity q, rep_issuedAt = rpr_issuedAt q,
                                            rep_expiresAt = rpr_expiresAt q \<rparr>),
                        basePermitsWithRuntimePermit := insert (rpr_executionPermit q) (basePermitsWithRuntimePermit h),
                        ih_next := Suc (ih_next h) \<rparr>))))"

definition isRuntimeExecutionPermit :: "ref \<Rightarrow> iso_heap \<Rightarrow> bool" where
  "isRuntimeExecutionPermit p h =
     (case runtimeExecutionPermits h p of
        None \<Rightarrow> False
      | Some d \<Rightarrow> isExecutionPermit (rep_basePermit d) (ih_gate h) \<and> isExecutionIdentity (rep_identity d) h)"

subsection \<open>The replay store\<close>

record ReplayProtectionKey =
  rpk_permitId :: string
  rpk_tenantId :: string
  rpk_organizationId :: string
  rpk_workspaceId :: string
  rpk_actorId :: string
  rpk_actorType :: string
  rpk_executionId :: string

record ReplayProtectionClaim =
  rpc_key :: ReplayProtectionKey
  rpc_issuedAt :: string
  rpc_expiresAt :: string
  rpc_claimedAt :: string

text \<open>What a store answers; the decision of a foreign store may be any string.\<close>

record ReplayProtectionResult =
  rpres_decision :: string
  rpres_reason :: string

record 's ReplayProtectionStore =
  rps_testOnly :: "bool option"
  rps_providerType :: "string option"
  rps_providerName :: "string option"
  rps_requiresAtomicClaim :: "bool option"
  rps_claim :: "ReplayProtectionClaim \<Rightarrow> 's \<Rightarrow> ReplayProtectionResult result \<times> 's"

definition replayKeyFor :: "RuntimeExecutionPermit \<Rightarrow> RuntimeIsolationContext \<Rightarrow> ReplayProtectionKey" where
  "replayKeyFor p c =
     \<lparr> rpk_permitId = rep_permitId p, rpk_tenantId = ric_tenantId c, rpk_organizationId = ric_organizationId c,
       rpk_workspaceId = ric_workspaceId c, rpk_actorId = ric_actorId c, rpk_actorType = ric_actorType c,
       rpk_executionId = ric_executionId c \<rparr>"

definition isReplayProtectionClaim :: "ReplayProtectionClaim \<Rightarrow> bool" where
  "isReplayProtectionClaim c \<longleftrightarrow>
     (let k = rpc_key c in
      list_all isNonEmptyString
        [rpk_permitId k, rpk_tenantId k, rpk_organizationId k, rpk_workspaceId k, rpk_actorId k, rpk_actorType k,
         rpk_executionId k, rpc_issuedAt c, rpc_expiresAt c, rpc_claimedAt c] \<and>
      isRuntimeActorType (rpk_actorType k))"

definition sameReplayKey :: "ReplayProtectionKey \<Rightarrow> ReplayProtectionKey \<Rightarrow> bool" where
  "sameReplayKey l r \<longleftrightarrow>
     rpk_permitId l = rpk_permitId r \<and> rpk_tenantId l = rpk_tenantId r \<and>
     rpk_organizationId l = rpk_organizationId r \<and> rpk_workspaceId l = rpk_workspaceId r \<and>
     rpk_actorId l = rpk_actorId r \<and> rpk_actorType l = rpk_actorType r \<and> rpk_executionId l = rpk_executionId r"

definition imrp_claim ::
  "ReplayProtectionClaim \<Rightarrow> (string \<rightharpoonup> ReplayProtectionClaim) \<Rightarrow>
   ReplayProtectionResult \<times> (string \<rightharpoonup> ReplayProtectionClaim)" where
  "imrp_claim c s =
     (if \<not> isReplayProtectionClaim c then
        (\<lparr> rpres_decision = ''DENIED'', rpres_reason = ''Replay claim is malformed.'' \<rparr>, s)
      else if \<not> isFuture (rpc_expiresAt c) (rpc_claimedAt c) then
        (\<lparr> rpres_decision = ''DENIED'', rpres_reason = ''Replay claim is expired.'' \<rparr>, s)
      else
        (case s (rpk_permitId (rpc_key c)) of
           Some existing \<Rightarrow>
             (\<lparr> rpres_decision = ''DENIED'',
                rpres_reason =
                  (if sameReplayKey (rpc_key existing) (rpc_key c)
                   then ''Runtime execution permit has already been consumed.''
                   else ''Runtime execution permit was replayed with a different identity binding.'') \<rparr>, s)
         | None \<Rightarrow>
             (\<lparr> rpres_decision = ''ALLOWED'', rpres_reason = ''Replay claim accepted.'' \<rparr>,
              s(rpk_permitId (rpc_key c) \<mapsto> c))))"

definition InMemoryReplayProtectionStore :: "(string \<rightharpoonup> ReplayProtectionClaim) ReplayProtectionStore" where
  "InMemoryReplayProtectionStore =
     \<lparr> rps_testOnly = Some True, rps_providerType = None, rps_providerName = None, rps_requiresAtomicClaim = None,
       rps_claim = (\<lambda>c s. map_prod Inr id (imrp_claim c s)) \<rparr>"

definition isDistributedReplayProtectionStore :: "'s ReplayProtectionStore \<Rightarrow> bool" where
  "isDistributedReplayProtectionStore st \<longleftrightarrow>
     rps_testOnly st \<noteq> Some True \<and> rps_providerType st = Some ''distributed'' \<and>
     isNonEmptyOpt (rps_providerName st) \<and> rps_requiresAtomicClaim st = Some True"

definition snapshotReplayProtectionStore ::
  "RuntimeExecutionMode \<Rightarrow> 's ReplayProtectionStore \<Rightarrow> 's ReplayProtectionStore option" where
  "snapshotReplayProtectionStore mode st =
     (if mode = Mode_test then
        Some \<lparr> rps_testOnly = (if rps_testOnly st = Some True then Some True else None), rps_providerType = None,
               rps_providerName = None, rps_requiresAtomicClaim = None, rps_claim = rps_claim st \<rparr>
      else if \<not> isDistributedReplayProtectionStore st then None
      else Some \<lparr> rps_testOnly = None, rps_providerType = Some ''distributed'',
                  rps_providerName = rps_providerName st, rps_requiresAtomicClaim = Some True,
                  rps_claim = rps_claim st \<rparr>)"

record 's ReplayProtectionProvider =
  rpp_mode :: RuntimeExecutionMode
  rpp_store :: "'s ReplayProtectionStore"

definition createReplayProtectionProvider ::
  "RuntimeExecutionMode \<Rightarrow> 's ReplayProtectionStore \<Rightarrow> 's ReplayProtectionProvider option" where
  "createReplayProtectionProvider mode st =
     (if mode = Mode_production \<and> \<not> isDistributedReplayProtectionStore st then None
      else map_option (\<lambda>snap. \<lparr> rpp_mode = mode, rpp_store = snap \<rparr>) (snapshotReplayProtectionStore mode st))"

definition isReplayProtectionResult :: "ReplayProtectionResult \<Rightarrow> bool" where
  "isReplayProtectionResult r \<longleftrightarrow>
     (rpres_decision r = ''ALLOWED'' \<or> rpres_decision r = ''DENIED'') \<and> isNonEmptyString (rpres_reason r)"

subsection \<open>The gate\<close>

text \<open>
  \<^verbatim>\<open>evaluateRuntimeExecutionGate\<close>. A provider of \<^term>\<open>None\<close> is missing or not branded. The permit
  object is marked as consumed before the store is asked, so a store that throws or refuses
  burns the permit.
\<close>

definition evaluateRuntimeExecutionGate ::
  "ref \<Rightarrow> ref \<Rightarrow> string \<Rightarrow> RuntimeExecutionMode \<Rightarrow> 's ReplayProtectionProvider option \<Rightarrow> iso_heap \<times> 's \<Rightarrow>
   (IsolationDecisionStatus \<times> string) \<times> iso_heap \<times> 's" where
  "evaluateRuntimeExecutionGate permit identity now mode provider hs =
     (let (h, s) = hs in
      case provider of
        None \<Rightarrow> ((Iso_denied, ''Replay protection provider is required.''), h, s)
      | Some p \<Rightarrow>
          if rpp_mode p \<noteq> mode \<or> (mode = Mode_production \<and> rps_testOnly (rpp_store p) = Some True) \<or>
             (rpp_mode p = Mode_production \<and> \<not> isDistributedReplayProtectionStore (rpp_store p)) then
            ((Iso_denied, ''Replay protection provider is required.''), h, s)
          else
            (case (runtimeExecutionPermits h permit, chain_of identity h) of
               (Some d, Some ch) \<Rightarrow>
                 if \<not> isRuntimeExecutionPermit permit h then
                   ((Iso_denied, ''Runtime execution permit is invalid.''), h, s)
                 else if \<not> isFuture (rep_expiresAt d) now then
                   ((Iso_denied, ''Runtime execution permit is expired.''), h, s)
                 else if \<not> sameExecutionIdentity (rep_identity d) identity h then
                   ((Iso_denied, ''Runtime execution permit identity mismatch.''), h, s)
                 else if permit \<in> consumedRuntimeExecutionPermitObjects h then
                   ((Iso_denied, ''Runtime execution permit has already been consumed.''), h, s)
                 else
                   (let h' = h\<lparr> consumedRuntimeExecutionPermitObjects :=
                                insert permit (consumedRuntimeExecutionPermitObjects h) \<rparr>;
                        pc = (case chain_of (rep_identity d) h of Some c \<Rightarrow> c | None \<Rightarrow> ch);
                        (r, s') = rps_claim (rpp_store p)
                          \<lparr> rpc_key = replayKeyFor d pc, rpc_issuedAt = rep_issuedAt d,
                            rpc_expiresAt = rep_expiresAt d, rpc_claimedAt = now \<rparr> s
                    in (case r of
                          Inl err \<Rightarrow> (Iso_denied, ''Runtime execution permit consumption failed closed.'')
                        | Inr a \<Rightarrow>
                            if \<not> isReplayProtectionResult a then
                              (Iso_denied, ''Replay protection provider returned malformed result.'')
                            else if rpres_decision a \<noteq> ''ALLOWED'' then (Iso_denied, rpres_reason a)
                            else (Iso_allowed, ''Runtime execution permit consumed.''),
                        h', s'))
             | _ \<Rightarrow> ((Iso_denied, ''Runtime execution permit is invalid.''), h, s)))"

text \<open>Without a provider the mode defaults to production, and the gate refuses.\<close>

definition consumeRuntimeExecutionPermit ::
  "ref \<Rightarrow> ref \<Rightarrow> string \<Rightarrow> 's ReplayProtectionProvider option \<Rightarrow> iso_heap \<times> 's \<Rightarrow>
   (IsolationDecisionStatus \<times> string) \<times> iso_heap \<times> 's" where
  "consumeRuntimeExecutionPermit permit identity now provider hs =
     evaluateRuntimeExecutionGate permit identity now
       (case provider of Some p \<Rightarrow> rpp_mode p | None \<Rightarrow> Mode_production) provider hs"

section \<open>The isolated state store\<close>

type_synonym state_store = "string \<rightharpoonup> (string \<rightharpoonup> string)"

definition state_write :: "ref \<Rightarrow> string \<Rightarrow> string \<Rightarrow> iso_heap \<Rightarrow> state_store \<Rightarrow> IsolationDecisionStatus \<times> state_store" where
  "state_write i k v h st =
     (case chain_of i h of
        None \<Rightarrow> (Iso_denied, st)
      | Some c \<Rightarrow>
          if \<not> isNonEmptyString k then (Iso_denied, st)
          else (let owner = isolationKey c; bucket = (case st owner of None \<Rightarrow> Map.empty | Some b \<Rightarrow> b)
                in (Iso_allowed, st(owner \<mapsto> bucket(k \<mapsto> v)))))"

definition state_read :: "ref \<Rightarrow> ref \<Rightarrow> string \<Rightarrow> iso_heap \<Rightarrow> state_store \<Rightarrow> IsolationDecisionStatus \<times> string option" where
  "state_read owner requester k h st =
     (case (chain_of owner h, chain_of requester h) of
        (Some c, Some d) \<Rightarrow>
          if \<not> isNonEmptyString k then (Iso_denied, None)
          else if isolationKey c \<noteq> isolationKey d then (Iso_denied, None)
          else (Iso_allowed, (case st (isolationKey c) of None \<Rightarrow> None | Some b \<Rightarrow> b k))
      | _ \<Rightarrow> (Iso_denied, None))"

section \<open>One-time use\<close>

text \<open>A call of the gate as one request, and whether it was allowed.\<close>

type_synonym 's gate_call = "ref \<times> ref \<times> string \<times> RuntimeExecutionMode \<times> 's ReplayProtectionProvider option"

definition gate_won :: "'s gate_call \<Rightarrow> iso_heap \<times> 's \<Rightarrow> bool \<times> iso_heap \<times> 's" where
  "gate_won q hs =
     (let (permit, identity, now, mode, provider) = q;
          (r, hs') = evaluateRuntimeExecutionGate permit identity now mode provider hs
      in (fst r = Iso_allowed, hs'))"

definition consumed :: "iso_heap \<times> 's \<Rightarrow> ref set" where
  "consumed hs = consumedRuntimeExecutionPermitObjects (fst hs)"

text \<open>The gate changes nothing in the heap but the set of consumed permits.\<close>

lemma gate_heap_change:
  "evaluateRuntimeExecutionGate p i now mode prov (h, s) = (r, h', s') \<Longrightarrow>
     h' = h \<and> fst r = Iso_denied \<or>
     p \<notin> consumedRuntimeExecutionPermitObjects h \<and> isRuntimeExecutionPermit p h \<and>
     h' = h\<lparr> consumedRuntimeExecutionPermitObjects := insert p (consumedRuntimeExecutionPermitObjects h) \<rparr>"
  by (auto simp: evaluateRuntimeExecutionGate_def Let_def split: option.splits if_splits prod.splits)

interpretation rtp: one_shot gate_won fst consumed
proof
  fix q :: "'s gate_call" and hs hs' :: "iso_heap \<times> 's"
  obtain p i now mode prov where q: "q = (p, i, now, mode, prov)" by (cases q) auto
  obtain h s where hs: "hs = (h, s)" by fastforce
  obtain r h1 s1 where e: "evaluateRuntimeExecutionGate p i now mode prov (h, s) = (r, h1, s1)"
    by (metis prod_cases3)
  show "fst q \<notin> consumed hs \<and> fst q \<in> consumed hs'" if "gate_won q hs = (True, hs')"
    using that gate_heap_change [OF e] by (auto simp: gate_won_def q hs e consumed_def)
  show "consumed hs \<subseteq> consumed hs'" if "gate_won q hs = (ok, hs')" for ok
    using that gate_heap_change [OF e] by (auto simp: gate_won_def q hs e consumed_def)
qed

definition imrp_won :: "ReplayProtectionClaim \<Rightarrow> (string \<rightharpoonup> ReplayProtectionClaim) \<Rightarrow> bool \<times> (string \<rightharpoonup> ReplayProtectionClaim)" where
  "imrp_won c s = (let (r, s') = imrp_claim c s in (rpres_decision r = ''ALLOWED'', s'))"

interpretation irp: exact_one_shot imrp_won "\<lambda>c. rpk_permitId (rpc_key c)" dom
  by unfold_locales (auto simp: imrp_won_def imrp_claim_def split: option.splits if_splits)

section \<open>Reachable heaps\<close>

inductive iso_reach :: "iso_heap \<times> 's \<Rightarrow> bool" where
  iso_start: "iso_reach (empty_iso_heap, s)"
| iso_policy: "iso_reach (h, s) \<Longrightarrow> iso_reach (h\<lparr> ih_gate := snd (evaluateExecutionGate r (ih_gate h)) \<rparr>, s)"
| iso_base_permit: "iso_reach (h, s) \<Longrightarrow> iso_reach (h\<lparr> ih_gate := snd (createExecutionPermit d (ih_gate h)) \<rparr>, s)"
| iso_context: "iso_reach (h, s) \<Longrightarrow> iso_reach (snd (createRuntimeIsolationContext c x h), s)"
| iso_identity: "iso_reach (h, s) \<Longrightarrow> iso_reach (snd (createExecutionIdentity c h), s)"
| iso_boundary: "iso_reach (h, s) \<Longrightarrow> iso_reach (snd (evaluateIsolationBoundary v e h), s)"
| iso_permit: "iso_reach (h, s) \<Longrightarrow> iso_reach (snd (createRuntimeExecutionPermit q h), s)"
| iso_gate: "iso_reach (h, s) \<Longrightarrow> iso_reach (snd (evaluateRuntimeExecutionGate p i now mode prov (h, s)))"

text \<open>
  Runtime permits are backed one to one by base permits of the policy gate, and an allowed
  decision has the identity of a context that passed validation.
\<close>

definition iso_inv :: "iso_heap \<Rightarrow> bool" where
  "iso_inv h \<longleftrightarrow>
     gate_inv (ih_gate h) \<and>
     (\<forall>p d. runtimeExecutionPermits h p = Some d \<longrightarrow>
        p < ih_next h \<and> rep_basePermit d \<in> basePermitsWithRuntimePermit h \<and>
        executionPermits (ih_gate h) (rep_basePermit d) \<noteq> None) \<and>
     (\<forall>p q d e. runtimeExecutionPermits h p = Some d \<longrightarrow> runtimeExecutionPermits h q = Some e \<longrightarrow>
        rep_basePermit d = rep_basePermit e \<longrightarrow> p = q) \<and>
     (\<forall>p \<in> consumedRuntimeExecutionPermitObjects h. runtimeExecutionPermits h p \<noteq> None)"

lemma gate_permits_mono:
  "gate_inv g \<Longrightarrow> executionPermits g p \<noteq> None \<Longrightarrow> executionPermits (snd (evaluateExecutionGate r g)) p \<noteq> None"
  "gate_inv g \<Longrightarrow> executionPermits g p \<noteq> None \<Longrightarrow> executionPermits (snd (createExecutionPermit d g)) p \<noteq> None"
  by (auto simp: evaluateExecutionGate_def executionGateResult_def Let_def case_prod_beta createExecutionPermit_def
      split: option.splits)

lemma iso_same_permits:
  assumes "iso_inv h" "ih_gate h' = ih_gate h" "runtimeExecutionPermits h' = runtimeExecutionPermits h"
    "basePermitsWithRuntimePermit h' = basePermitsWithRuntimePermit h" "ih_next h \<le> ih_next h'"
    "consumedRuntimeExecutionPermitObjects h' = consumedRuntimeExecutionPermitObjects h"
  shows "iso_inv h'"
  using assms less_le_trans unfolding iso_inv_def by metis

lemma iso_inv_permit: "iso_inv h \<Longrightarrow> iso_inv (snd (createRuntimeExecutionPermit q h))"
  unfolding iso_inv_def createRuntimeExecutionPermit_def isExecutionPermit_def
  by (auto simp: less_Suc_eq split: option.splits if_splits) metis

lemma iso_inv_gate:
  assumes "iso_inv h"
  shows "iso_inv (fst (snd (evaluateRuntimeExecutionGate p i now mode prov (h, s))))"
proof -
  obtain r h1 s1 where e: "evaluateRuntimeExecutionGate p i now mode prov (h, s) = (r, h1, s1)"
    by (metis prod_cases3)
  show ?thesis
    using assms gate_heap_change [OF e]
    by (auto simp: e iso_inv_def isRuntimeExecutionPermit_def split: option.splits)
qed

lemma iso_reach_inv: "iso_reach hs \<Longrightarrow> iso_inv (fst hs)"
proof (induction rule: iso_reach.induct)
  case (iso_start s)
  show ?case by (simp add: iso_inv_def empty_iso_heap_def gate_inv_def empty_gate_heap_def)
next
  case (iso_policy h s r)
  then show ?case using gate_inv_eval gate_permits_mono(1) unfolding iso_inv_def by simp
next
  case (iso_base_permit h s d)
  then show ?case using gate_inv_permit gate_permits_mono(2) unfolding iso_inv_def by simp
next
  case (iso_context h s c x)
  from iso_context.IH show ?case unfolding fst_conv by (rule iso_same_permits) (auto simp: createRuntimeIsolationContext_def Let_def)
next
  case (iso_identity h s c)
  from iso_identity.IH show ?case unfolding fst_conv by (rule iso_same_permits) (auto simp: createExecutionIdentity_def)
next
  case (iso_boundary h s v e)
  from iso_boundary.IH show ?case unfolding fst_conv
    by (rule iso_same_permits)
      (auto simp: evaluateIsolationBoundary_def brand_decision_def createExecutionIdentity_def
        split: RuntimeIsolationValidationResult.splits)
qed (simp_all add: iso_inv_permit iso_inv_gate)


text \<open>The separator of \<open>isolationKey\<close> does not occur in the identity.\<close>

definition unit_free :: "RuntimeIsolationContext \<Rightarrow> bool" where
  "unit_free c \<longleftrightarrow>
     (\<forall>s \<in> {ric_tenantId c, ric_organizationId c, ric_workspaceId c, ric_actorId c, ric_actorType c, ric_executionId c}.
        CHR 0x1F \<notin> set s)"

definition same_chain :: "RuntimeIsolationContext \<Rightarrow> RuntimeIsolationContext \<Rightarrow> bool" where
  "same_chain c d \<longleftrightarrow>
     ric_tenantId c = ric_tenantId d \<and> ric_organizationId c = ric_organizationId d \<and>
     ric_workspaceId c = ric_workspaceId d \<and> ric_actorId c = ric_actorId d \<and>
     ric_actorType c = ric_actorType d \<and> ric_executionId c = ric_executionId d"

lemma isolationKey_eq_iff:
  assumes "unit_free c" "unit_free d"
  shows "isolationKey c = isolationKey d \<longleftrightarrow> same_chain c d"
proof
  assume "isolationKey c = isolationKey d"
  then have "[ric_tenantId c, ric_organizationId c, ric_workspaceId c, ric_actorId c, ric_actorType c, ric_executionId c] =
      [ric_tenantId d, ric_organizationId d, ric_workspaceId d, ric_actorId d, ric_actorType d, ric_executionId d]"
    using assms unfolding isolationKey_def unit_free_def by (intro join_sep_inject) auto
  then show "same_chain c d" by (simp add: same_chain_def)
next
  assume "same_chain c d"
  then show "isolationKey c = isolationKey d" by (simp add: same_chain_def isolationKey_def)
qed

section \<open>A heap for evaluation\<close>

text \<open>A heap with a base permit at 1, a context at 0, its identity at 1, a decision at 2 and a runtime permit at 3.\<close>

definition demo_permit_request :: RuntimeExecutionPermitRequest where
  "demo_permit_request =
     \<lparr> rpr_permitId = ''rp'', rpr_executionPermit = 1, rpr_isolationDecision = 2, rpr_identity = 1,
       rpr_issuedAt = ''2026-01-01T00:00:00.000Z'', rpr_expiresAt = ''2026-01-01T00:05:00.000Z'',
       rpr_now = ''2026-01-01T00:00:00.000Z'' \<rparr>"

definition no_binding :: RuntimeIsolationExpectedBinding where
  "no_binding = \<lparr> eb_tenantId = None, eb_organizationId = None, eb_workspaceId = None, eb_actorId = None,
                  eb_actorType = None, eb_executionId = None \<rparr>"

definition demo_iso_heap :: iso_heap where
  "demo_iso_heap =
     (let h0 = empty_iso_heap\<lparr> ih_gate := snd (evaluateExecutionGate demo_gate_request (ih_gate empty_iso_heap)) \<rparr>;
          h1 = h0\<lparr> ih_gate := snd (createExecutionPermit 0 (ih_gate h0)) \<rparr>;
          h2 = snd (createRuntimeIsolationContext demo_context ''x1'' h1);
          h3 = snd (evaluateIsolationBoundary 0 no_binding h2)
      in snd (createRuntimeExecutionPermit demo_permit_request h3))"

lemma demo_iso_reach: "iso_reach (demo_iso_heap, s)"
  unfolding demo_iso_heap_def Let_def
  by (intro iso_permit iso_boundary iso_context iso_base_permit iso_policy iso_start)

definition demo_call :: "(string \<rightharpoonup> ReplayProtectionClaim) gate_call" where
  "demo_call = (3, 1, ''2026-01-01T00:01:00.000Z'', Mode_test,
                createReplayProtectionProvider Mode_test InMemoryReplayProtectionStore)"

lemma demo_call_won: "fst (gate_won demo_call (demo_iso_heap, Map.empty))"
  by code_simp

lemma demo_chain: "chain_of 1 demo_iso_heap = Some (runtime_context demo_context ''x1'')"
  by code_simp

lemma demo_unit_free: "unit_free (runtime_context demo_context ''x1'')"
  by code_simp

section \<open>Properties\<close>

text \<open>
  One-time use of runtime permits: over any sequence of calls of the runtime execution gate,
  with any providers and any store behind them (also one that accepts every claim), a permit
  object is let through at most once, and one that was presented successfully before never
  again. With the in-memory store a permit id is accepted at most once, too.
\<close>

lemma runtime_permit_one_time:
  assumes "claim_run gate_won qs hs = (won, hs')" and "claim_run imrp_won cs st = (accepted, st')"
  shows "distinct (map fst won) \<and> fst ` set won \<inter> consumed hs = {} \<and> fst ` set won \<subseteq> consumed hs' \<and>
         distinct (map (\<lambda>c. rpk_permitId (rpc_key c)) accepted)"
  using rtp.claim_run_inv [OF assms(1)] irp.claimed_at_most_once [OF assms(2)] by blast



text \<open>
  The state store isolates execution identities: as long as the ids are free of the
  separator U+001F, a read is allowed only between identities that agree in tenant,
  organization, workspace, actor, actor type and execution; it then returns the last value
  written by such an identity, and a write by any other identity does not change it.
\<close>

lemma state_store_isolation:
  assumes "chain_of w h = Some c" "chain_of r h = Some d" "unit_free c" "unit_free d"
    and "state_write w k v h st = (Iso_allowed, st')"
  shows "(fst (state_read w r k h st') = Iso_allowed \<longleftrightarrow> same_chain c d) \<and>
         (same_chain c d \<longrightarrow> state_read r r k h st' = (Iso_allowed, Some v)) \<and>
         (\<not> same_chain c d \<longrightarrow> (\<forall>j. state_read r r j h st' = state_read r r j h st))"
  using assms isolationKey_eq_iff [OF assms(3,4)]
  by (auto simp: state_write_def state_read_def Let_def split: if_splits)

text \<open>
  With the separator inside an id two different identities share a key, and one reads what the
  other wrote.
\<close>

definition collide :: "string \<Rightarrow> string \<Rightarrow> RuntimeIsolationContext" where
  "collide t g = \<lparr> ric_tenantId = t, ric_organizationId = g, ric_workspaceId = ''w'', ric_actorId = ''a'',
                   ric_actorType = ''human_user'', ric_executionId = ''x'', ric_correlationId = ''c'' \<rparr>"

lemma isolationKey_collision:
  "isolationKey (collide ''a'' (''b'' @ [CHR 0x1F] @ ''c'')) = isolationKey (collide (''a'' @ [CHR 0x1F] @ ''b'') ''c'') \<and>
   validateRuntimeFields (collide (''a'' @ [CHR 0x1F] @ ''b'') ''c'') = None"
  by code_simp

end
