(* ===== verification/Secure_Pipeline.thy ===== *)
theory Secure_Pipeline
  imports Replay_Protection Approval_Gate Audit_Chain Runtime_Isolation
begin

text \<open>
  \<^verbatim>\<open>pipeline/src/executor.ts\<close>, \<^verbatim>\<open>final-gate.ts\<close>, \<^verbatim>\<open>pipeline.ts\<close> and \<^verbatim>\<open>orchestrator.ts\<close>: the one
  path from a request to an execution. The stores, the sink, the executor and the clock are
  injected dependencies of the code; they are parameters here (\<open>deps\<close>), each with its own state
  in the record \<open>world\<close>. A dependency may throw; then the promise of \<^verbatim>\<open>run\<close> rejects, which is
  \<^term>\<open>Inl\<close>. \<open>w_calls\<close> is a history variable: the requests the executor was called with.
\<close>

section \<open>executor.ts\<close>

datatype ExecutionResultStatus = SUCCEEDED | FAILED | CANCELLED | TIMED_OUT

record ExecutionResultEnvelope =
  xe_requestId :: string
  xe_permitId :: string
  xe_status :: ExecutionResultStatus
  xe_output :: "json option"
  xe_error :: "string option"
  xe_startedAt :: string
  xe_completedAt :: string

record SecureExecutionRequest =
  xr_authorization :: ref
  xr_permit :: SignedExecutionPermit
  xr_context :: ExecutionContext
  xr_timeoutMs :: int

text \<open>
  What an executor does: it returns an envelope, or it throws, with the abort signal raised or
  not, an \<^verbatim>\<open>Error\<close> with a message or anything else.
\<close>

datatype executor_reply = Returned ExecutionResultEnvelope | Thrown bool "string option"

record ('r, 'p, 'd, 'e) deps =
  d_mode :: RuntimeMode
  d_clock :: "nat \<Rightarrow> string"
  d_issuer :: PermitSigningKey
  d_replayStore :: "'r PermitReplayStore"
  d_consumeApproval :: "string \<Rightarrow> string \<Rightarrow> 'p \<Rightarrow> (bool \<times> string) result \<times> 'p"
  d_auditSink :: "'d ImmutableAuditSink"
  d_executor :: "SecureExecutionRequest \<Rightarrow> 'e \<Rightarrow> executor_reply \<times> 'e"
  d_permitTtlMs :: "int option"

record ('r, 'p, 'd, 'e) world =
  w_replay :: 'r
  w_approvals :: 'p
  w_sink :: 'd
  w_executor :: 'e
  w_iso :: iso_heap
  w_authorizations :: "ref \<rightharpoonup> string \<times> string"
  w_nextAuthorization :: ref
  w_draws :: nat
  w_reads :: nat
  w_calls :: "SecureExecutionRequest list"

definition clock_now :: "('r, 'p, 'd, 'e) deps \<Rightarrow> ('r, 'p, 'd, 'e) world \<Rightarrow> string \<times> ('r, 'p, 'd, 'e) world" where
  "clock_now D w = (d_clock D (w_reads w), w\<lparr> w_reads := Suc (w_reads w) \<rparr>)"

definition mintExecutionAuthorization ::
  "string \<Rightarrow> string \<Rightarrow> ('r, 'p, 'd, 'e) world \<Rightarrow> ref \<times> ('r, 'p, 'd, 'e) world" where
  "mintExecutionAuthorization permitId requestId w =
     (w_nextAuthorization w,
      w\<lparr> w_authorizations := (w_authorizations w)(w_nextAuthorization w \<mapsto> (permitId, requestId)),
         w_nextAuthorization := Suc (w_nextAuthorization w) \<rparr>)"

definition isExecutionAuthorization :: "ref \<Rightarrow> ('r, 'p, 'd, 'e) world \<Rightarrow> bool" where
  "isExecutionAuthorization a w \<longleftrightarrow> w_authorizations w a \<noteq> None"

definition runExecutor ::
  "('r, 'p, 'd, 'e) deps \<Rightarrow> ref \<Rightarrow> SignedExecutionPermit \<Rightarrow> ExecutionContext \<Rightarrow> int \<Rightarrow>
   ('r, 'p, 'd, 'e) world \<Rightarrow> ExecutionResultEnvelope \<times> ('r, 'p, 'd, 'e) world" where
  "runExecutor D authorization permit context maxMs w =
     (let (startedAt, w1) = clock_now D w; claims = sp_claims permit in
      if \<not> isExecutionAuthorization authorization w1 then
        (let (completedAt, w2) = clock_now D w1 in
         (\<lparr> xe_requestId = cl_requestId claims, xe_permitId = cl_permitId claims, xe_status = FAILED,
            xe_output = None, xe_error = Some ''unauthorized_executor_invocation'',
            xe_startedAt = startedAt, xe_completedAt = completedAt \<rparr>, w2))
      else
        (let timeoutMs = max 1 (min maxMs (maxExecutionTimeMs (cl_runtimeConstraints claims)));
             request = \<lparr> xr_authorization = authorization, xr_permit = permit, xr_context = context,
                         xr_timeoutMs = timeoutMs \<rparr>;
             (reply, e) = d_executor D request (w_executor w1);
             w2 = w1\<lparr> w_executor := e, w_calls := w_calls w1 @ [request] \<rparr>
         in (case reply of
               Returned envelope \<Rightarrow> (envelope, w2)
             | Thrown aborted msg \<Rightarrow>
                 (let (completedAt, w3) = clock_now D w2 in
                  (\<lparr> xe_requestId = cl_requestId claims, xe_permitId = cl_permitId claims,
                     xe_status = (if aborted then TIMED_OUT else FAILED), xe_output = None,
                     xe_error = Some (case msg of Some m \<Rightarrow> m | None \<Rightarrow> ''executor_failed''),
                     xe_startedAt = startedAt, xe_completedAt = completedAt \<rparr>, w3)))))"

section \<open>final-gate.ts\<close>

record FinalGateInput =
  fg_mode :: RuntimeMode
  fg_priorDecisions :: "SecurityDecision list"
  fg_issuer :: PermitSigningKey
  fg_permit :: SignedExecutionPermit
  fg_bindings :: PermitVerifyBindings
  fg_runtimeIsolationAllowed :: bool
  fg_approvalRequired :: bool
  fg_approvalId :: "string option"
  fg_now :: string

record FinalGateResult =
  fr_decision :: SecurityDecision
  fr_authorization :: "ref option"

definition final_deny ::
  "crypto \<Rightarrow> DecisionStatus \<Rightarrow> string \<Rightarrow> string \<Rightarrow> string \<Rightarrow> ('r, 'p, 'd, 'e) world \<Rightarrow>
   FinalGateResult result \<times> ('r, 'p, 'd, 'e) world" where
  "final_deny C status reasonCode reason now w =
     (let (d, n) = createDecision C
            \<lparr> di_stage = Final_gate, di_status = status, di_reasonCode = reasonCode,
              di_humanReadableReason = reason, di_nextRequiredAction = ''halt'', di_timestamp = now,
              di_policyReferences = None, di_evidence = None \<rparr> (w_draws w)
      in (Inr \<lparr> fr_decision = d, fr_authorization = None \<rparr>, w\<lparr> w_draws := n \<rparr>))"

definition final_grant ::
  "crypto \<Rightarrow> FinalGateInput \<Rightarrow> ('r, 'p, 'd, 'e) world \<Rightarrow> FinalGateResult result \<times> ('r, 'p, 'd, 'e) world" where
  "final_grant C i w =
     (let claims = sp_claims (fg_permit i);
          (a, w1) = mintExecutionAuthorization (cl_permitId claims) (cl_requestId claims) w;
          (d, n) = createDecision C
            \<lparr> di_stage = Final_gate, di_status = Allow, di_reasonCode = ''final_gate_granted'',
              di_humanReadableReason = ''All security gates passed; execution authorized once.'',
              di_nextRequiredAction = ''execute'', di_timestamp = fg_now i, di_policyReferences = None,
              di_evidence = Some [\<lparr> ev_key = ''permitId'', ev_value = cl_permitId claims \<rparr>,
                                  \<lparr> ev_key = ''policyDecisionId'', ev_value = cl_policyDecisionId claims \<rparr>] \<rparr>
            (w_draws w1)
      in (Inr \<lparr> fr_decision = d, fr_authorization = Some a \<rparr>, w1\<lparr> w_draws := n \<rparr>))"

text \<open>The part of the gate after the replay claim succeeded: the single-use approval.\<close>

definition final_approval ::
  "crypto \<Rightarrow> ('r, 'p, 'd, 'e) deps \<Rightarrow> FinalGateInput \<Rightarrow> ('r, 'p, 'd, 'e) world \<Rightarrow>
   FinalGateResult result \<times> ('r, 'p, 'd, 'e) world" where
  "final_approval C D i w =
     (if \<not> fg_approvalRequired i then final_grant C i w
      else
        (case fg_approvalId i of
           None \<Rightarrow> final_deny C Deny ''approval_reference_missing''
                     ''Approval was required but no approval reference was provided.'' (fg_now i) w
         | Some a \<Rightarrow>
             (let (r, p) = d_consumeApproval D a (fg_now i) (w_approvals w); w1 = w\<lparr> w_approvals := p \<rparr> in
              case r of
                Inl err \<Rightarrow> (Inl err, w1)
              | Inr (ok, reason) \<Rightarrow>
                  if \<not> ok then final_deny C Deny ''approval_consumption_failed'' reason (fg_now i) w1
                  else final_grant C i w1)))"

definition claim_key :: "ExecutionPermitClaims \<Rightarrow> ReplayClaimKey" where
  "claim_key c =
     \<lparr> rk_permitId = cl_permitId c, rk_nonce = cl_nonce c, rk_tenantId = cl_tenantId c,
       rk_workspaceId = cl_workspaceId c, rk_actorId = cl_actorId c, rk_action = cl_action c \<rparr>"

definition evaluateFinalGate ::
  "crypto \<Rightarrow> ('r, 'p, 'd, 'e) deps \<Rightarrow> FinalGateInput \<Rightarrow> ('r, 'p, 'd, 'e) world \<Rightarrow>
   FinalGateResult result \<times> ('r, 'p, 'd, 'e) world" where
  "evaluateFinalGate C D i w =
     (if \<not> allAllowed (fg_priorDecisions i) then
        final_deny C Deny ''prior_decision_not_allowed''
          ''A prior security decision did not allow execution.'' (fg_now i) w
      else if fg_mode i = Production \<and> prs_testOnly (d_replayStore D) then
        final_deny C Runtime_rejected ''replay_store_not_production_safe''
          ''Test-only replay store cannot be used in production.'' (fg_now i) w
      else if \<not> fg_runtimeIsolationAllowed i then
        final_deny C Runtime_rejected ''runtime_isolation_denied''
          ''Runtime isolation boundary was not satisfied.'' (fg_now i) w
      else
        (case verifyPermit C (fg_issuer i) (permit_json (fg_permit i)) (fg_bindings i) (fg_now i) of
           PermitBad reasonCode reason \<Rightarrow>
             final_deny C (if reasonCode = ''context_mutation_detected'' then Context_invalid else Runtime_rejected)
               reasonCode reason (fg_now i) w
         | PermitOk \<Rightarrow>
             (let claims = sp_claims (fg_permit i);
                  (r, s) = prs_claim (d_replayStore D) (claim_key claims) (cl_expiresAt claims) (fg_now i) (w_replay w);
                  w1 = w\<lparr> w_replay := s \<rparr> in
              case r of
                Inl err \<Rightarrow> (Inl err, w1)
              | Inr claim \<Rightarrow>
                  if rcr_status claim = REPLAYED then
                    final_deny C Retry_rejected ''permit_replayed'' (rcr_reason claim) (fg_now i) w1
                  else if rcr_status claim \<noteq> CLAIMED then
                    final_deny C Runtime_rejected ''replay_claim_rejected'' (rcr_reason claim) (fg_now i) w1
                  else final_approval C D i w1)))"

section \<open>pipeline.ts\<close>

text \<open>
  The proofs a request carries. An object without the module's brand symbol is \<^term>\<open>None\<close>; a
  branded one may hold any values in the fields the pipeline reads.
\<close>

record edge_proof =
  ve_contextTenantId :: string
  ve_contextWorkspaceId :: string
  ve_authenticationTenantId :: string

record identity_proof =
  vi_subjectActorId :: string
  vi_subjectTenantId :: string
  vi_subjectWorkspaceId :: "string option"
  vi_assuranceLevel :: string

record PipelineRequest =
  pq_edgeRequest :: "edge_proof option"
  pq_verifiedIdentity :: "identity_proof option"
  pq_osforgeContext :: OSForgeContext
  pq_authorization :: AuthorizationRequest
  pq_policy :: PolicyEvaluationRequest
  pq_requestId :: string
  pq_correlationId :: string
  pq_causationId :: "string option"
  pq_sessionId :: string
  pq_action :: string
  pq_resource :: ResourceRef
  pq_riskLevel :: string
  pq_requiredStepUp :: AuthenticationLevel
  pq_approval :: "ApprovalReference option"
  pq_runtimeConstraints :: PermitRuntimeConstraints
  pq_executionId :: string
  pq_trace :: "(string \<times> string) list option"

datatype PipelineStatus = Executed | Decided DecisionStatus

record PipelineOutcome =
  po_status :: PipelineStatus
  po_terminalStage :: DecisionStage
  po_decision :: SecurityDecision
  po_audit :: AuditEnvelope
  po_permitReference :: "string option"
  po_result :: "ExecutionResultEnvelope option"
  po_verified :: "bool option"

definition DEFAULT_PERMIT_TTL_MS :: int where
  "DEFAULT_PERMIT_TTL_MS = 300000"

text \<open>An optional string that is spread only when it is truthy.\<close>

definition truthy :: "string option \<Rightarrow> string option" where
  "truthy v = (if v = Some [] then None else v)"

definition stage_text :: "DecisionStage \<Rightarrow> string" where
  "stage_text s =
     (case s of Edge_validation \<Rightarrow> ''edge_validation'' | Identity_verification \<Rightarrow> ''identity_verification''
      | Tenant_context \<Rightarrow> ''tenant_context'' | Workspace_context \<Rightarrow> ''workspace_context''
      | Authorization \<Rightarrow> ''authorization'' | Policy_evaluation_stage \<Rightarrow> ''policy_evaluation''
      | Approval_evaluation \<Rightarrow> ''approval_evaluation'' | Replay_protection \<Rightarrow> ''replay_protection''
      | Execution_permit_stage \<Rightarrow> ''execution_permit'' | Runtime_isolation_stage \<Rightarrow> ''runtime_isolation''
      | Final_gate \<Rightarrow> ''final_gate'' | Execution_stage \<Rightarrow> ''execution'' | Verification \<Rightarrow> ''verification'')"

definition allow_decision :: "crypto \<Rightarrow> DecisionStage \<Rightarrow> string \<Rightarrow> string \<Rightarrow> nat \<Rightarrow> SecurityDecision \<times> nat" where
  "allow_decision C stage reasonCode now n =
     createDecision C
       \<lparr> di_stage = stage, di_status = Allow, di_reasonCode = reasonCode,
         di_humanReadableReason = stage_text stage @ '' allowed.'', di_nextRequiredAction = ''continue'',
         di_timestamp = now, di_policyReferences = None, di_evidence = None \<rparr> n"

definition deny_decision ::
  "crypto \<Rightarrow> DecisionStage \<Rightarrow> DecisionStatus \<Rightarrow> string \<Rightarrow> string \<Rightarrow> string \<Rightarrow> nat \<Rightarrow> SecurityDecision \<times> nat" where
  "deny_decision C stage status reasonCode reason now n =
     createDecision C
       \<lparr> di_stage = stage, di_status = status, di_reasonCode = reasonCode, di_humanReadableReason = reason,
         di_nextRequiredAction =
           (if status = Approval_required then ''obtain_approval''
            else if status = Step_up_required then ''complete_step_up'' else ''halt''),
         di_timestamp = now, di_policyReferences = None, di_evidence = None \<rparr> n"

definition pipeline_audit_input ::
  "PipelineRequest \<Rightarrow> SecurityDecision \<Rightarrow> AuditOutcome \<Rightarrow> string \<Rightarrow> string option \<Rightarrow> string option \<Rightarrow>
   AuditEnvelopeInput" where
  "pipeline_audit_input q decision outcome now permitRef verificationResult =
     \<lparr> au_decisionId = dec_decisionId decision, au_requestId = pq_requestId q,
       au_correlationId = pq_correlationId q, au_actorId = actor_id (ctx_actor (pq_osforgeContext q)),
       au_tenantId = tenant_id (ctx_tenant (pq_osforgeContext q)),
       au_workspaceId = ws_id (ctx_workspace (pq_osforgeContext q)), au_action = pq_action q,
       au_resource = pq_resource q, au_decision = dec_status decision,
       au_reasonCode = dec_reasonCode decision, au_reason = dec_humanReadableReason decision,
       au_policyReferences = map pr_id (dec_policyReferences decision),
       au_approvalReferences = (case pq_approval q of None \<Rightarrow> [] | Some a \<Rightarrow> [apr_approvalId a]),
       au_permitReference = truthy permitRef, au_outcome = outcome,
       au_verificationResult = truthy verificationResult, au_timestamp = now \<rparr>"

definition appendAudit ::
  "('r, 'p, 'd, 'e) deps \<Rightarrow> PipelineRequest \<Rightarrow> SecurityDecision \<Rightarrow> AuditOutcome \<Rightarrow> string \<Rightarrow> string option \<Rightarrow>
   string option \<Rightarrow> ('r, 'p, 'd, 'e) world \<Rightarrow> AuditEnvelope result \<times> ('r, 'p, 'd, 'e) world" where
  "appendAudit D q decision outcome now permitRef verificationResult w =
     (let ((r, n), s) = ais_append (d_auditSink D)
            (pipeline_audit_input q decision outcome now permitRef verificationResult) (w_draws w) (w_sink w)
      in (r, w\<lparr> w_sink := s, w_draws := n \<rparr>))"

definition finish ::
  "('r, 'p, 'd, 'e) deps \<Rightarrow> PipelineRequest \<Rightarrow> DecisionStage \<Rightarrow> SecurityDecision \<Rightarrow> AuditOutcome \<Rightarrow> string \<Rightarrow>
   string option \<Rightarrow> ('r, 'p, 'd, 'e) world \<Rightarrow> PipelineOutcome result \<times> ('r, 'p, 'd, 'e) world" where
  "finish D q terminalStage decision outcome now permitRef w =
     (let (r, w1) = appendAudit D q decision outcome now permitRef None w in
      case r of
        Inl err \<Rightarrow> (Inl err, w1)
      | Inr audit \<Rightarrow>
          (Inr \<lparr> po_status = Decided (dec_status decision), po_terminalStage = terminalStage,
                 po_decision = decision, po_audit = audit, po_permitReference = truthy permitRef,
                 po_result = None, po_verified = None \<rparr>, w1))"

text \<open>A stage that ends the run: where, with which decision and which audit outcome.\<close>

record halt =
  h_stage :: DecisionStage
  h_decision :: SecurityDecision
  h_outcome :: AuditOutcome

definition halt_with ::
  "crypto \<Rightarrow> DecisionStage \<Rightarrow> DecisionStatus \<Rightarrow> string \<Rightarrow> string \<Rightarrow> AuditOutcome \<Rightarrow> string \<Rightarrow> nat \<Rightarrow> (halt + 'a) \<times> nat" where
  "halt_with C stage status reasonCode reason outcome now n =
     (let (d, n') = deny_decision C stage status reasonCode reason now n
      in (Inl \<lparr> h_stage = stage, h_decision = d, h_outcome = outcome \<rparr>, n'))"

definition unsafe_halt :: "crypto \<Rightarrow> string \<Rightarrow> string \<Rightarrow> string \<Rightarrow> nat \<Rightarrow> (halt + 'a) \<times> nat" where
  "unsafe_halt C reasonCode reason now n =
     (let (d, n') = createDecision C
            \<lparr> di_stage = Final_gate, di_status = Runtime_rejected, di_reasonCode = reasonCode,
              di_humanReadableReason = reason, di_nextRequiredAction = ''halt'', di_timestamp = now,
              di_policyReferences = None, di_evidence = None \<rparr> n
      in (Inl \<lparr> h_stage = Edge_validation, h_decision = d, h_outcome = RUNTIME_REJECTED \<rparr>, n'))"

text \<open>The production guards and the stages 1 and 2 with the cross-boundary binding.\<close>

definition bindings_agree :: "edge_proof \<Rightarrow> identity_proof \<Rightarrow> OSForgeContext \<Rightarrow> bool" where
  "bindings_agree e i c \<longleftrightarrow>
     vi_subjectTenantId i = tenant_id (ctx_tenant c) \<and> vi_subjectWorkspaceId i = Some (ws_id (ctx_workspace c)) \<and>
     vi_subjectActorId i = actor_id (ctx_actor c) \<and> ve_contextTenantId e = tenant_id (ctx_tenant c) \<and>
     ve_contextWorkspaceId e = ws_id (ctx_workspace c) \<and> ve_authenticationTenantId e = tenant_id (ctx_tenant c)"

definition identity_stages ::
  "crypto \<Rightarrow> ('r, 'p, 'd, 'e) deps \<Rightarrow> PipelineRequest \<Rightarrow> string \<Rightarrow> nat \<Rightarrow> (halt + identity_proof) \<times> nat" where
  "identity_stages C D q now n =
     (if d_mode D = Production \<and> prs_testOnly (d_replayStore D) then
        unsafe_halt C ''replay_store_not_production_safe''
          ''Test-only replay store cannot be used in production.'' now n
      else if d_mode D = Production \<and> ais_testOnly (d_auditSink D) then
        unsafe_halt C ''audit_sink_not_production_safe''
          ''Test-only audit sink cannot be used in production.'' now n
      else
        (case pq_edgeRequest q of
           None \<Rightarrow> halt_with C Edge_validation Context_invalid ''edge_not_validated''
                     ''Request did not pass the edge security boundary.'' CONTEXT_ERROR now n
         | Some edge \<Rightarrow>
             (case pq_verifiedIdentity q of
                None \<Rightarrow> halt_with C Identity_verification Deny ''identity_not_verified''
                          ''Request carries no verified identity context.'' DENIED_outcome now n
              | Some identity \<Rightarrow>
                  if \<not> bindings_agree edge identity (pq_osforgeContext q) then
                    halt_with C Identity_verification Deny ''identity_context_binding_mismatch''
                      ''Edge, identity and context bindings do not agree.'' DENIED_outcome now n
                  else (Inr identity, n))))"

definition context_input :: "PipelineRequest \<Rightarrow> identity_proof \<Rightarrow> string \<Rightarrow> ExecutionContextInput" where
  "context_input q identity now =
     \<lparr> ei_osforgeContext = pq_osforgeContext q, ei_requestId = pq_requestId q,
       ei_correlationId = pq_correlationId q, ei_causationId = truthy (pq_causationId q),
       ei_sessionId = pq_sessionId q, ei_authenticationLevel = vi_assuranceLevel identity,
       ei_requestedAction = pq_action q, ei_resource = pq_resource q, ei_riskLevel = pq_riskLevel q,
       ei_timestamp = now, ei_trace = pq_trace q \<rparr>"

definition approval_input :: "PipelineRequest \<Rightarrow> ExecutionContext \<Rightarrow> bool \<Rightarrow> string \<Rightarrow> ApprovalGateInput" where
  "approval_input q context policyRequiresApproval now =
     \<lparr> ag_action = pq_action q, ag_tenantId = ec_tenantId context, ag_workspaceId = ec_workspaceId context,
       ag_actorId = ec_actorId context, ag_scope = rr_id (ec_resource context),
       ag_requiredStepUp = pq_requiredStepUp q, ag_policyRequiresApproval = policyRequiresApproval,
       ag_approval = pq_approval q, ag_now = now \<rparr>"

text \<open>The stages 3 to 7: context, authorization, policy, approval.\<close>

definition decision_stages ::
  "crypto \<Rightarrow> PipelineRequest \<Rightarrow> identity_proof \<Rightarrow> string \<Rightarrow> nat \<Rightarrow>
   (halt + ExecutionContext \<times> SecurityDecision \<times> ApprovalGateEvaluation) \<times> nat" where
  "decision_stages C q identity now n =
     (case createExecutionContext (context_input q identity now) of
        ContextBad reasonCode reason \<Rightarrow>
          halt_with C Tenant_context Context_invalid reasonCode reason CONTEXT_ERROR now n
      | ContextOk context \<Rightarrow>
          (let authzResult = authorize (pq_authorization q) in
           if az_decision authzResult \<noteq> AuthAllow then
             halt_with C Authorization Deny ''authorization_denied'' (az_reason authzResult) DENIED_outcome now n
           else
             (let policyResult = evaluatePolicies (pq_policy q) in
              if pe_decision policyResult = DENY then
                halt_with C Policy_evaluation_stage Deny ''policy_denied'' ''Policy denied execution.''
                  DENIED_outcome now n
              else
                (let requires = (pe_decision policyResult = REQUIRE_APPROVAL);
                     (policyDecision, n1) = createDecision C
                       \<lparr> di_stage = Policy_evaluation_stage, di_status = Allow, di_reasonCode = ''policy_allowed'',
                         di_humanReadableReason = (if requires then ''Policy allows subject to approval.''
                                                   else ''Policy allowed execution.''),
                         di_nextRequiredAction = (if requires then ''obtain_approval'' else ''continue''),
                         di_timestamp = now, di_policyReferences = None, di_evidence = None \<rparr> n;
                     approval = evaluateApprovalGate (approval_input q context requires now) in
                 case ge_status approval of
                   Gate_approval_required \<Rightarrow>
                     halt_with C Approval_evaluation Approval_required (ge_reasonCode approval)
                       (ge_message approval) PENDING_APPROVAL now n1
                 | Gate_step_up_required \<Rightarrow>
                     halt_with C Approval_evaluation Step_up_required (ge_reasonCode approval)
                       (ge_message approval) STEP_UP_REQUIRED now n1
                 | Gate_deny \<Rightarrow>
                     halt_with C Approval_evaluation Deny (ge_reasonCode approval)
                       (ge_message approval) DENIED_outcome now n1
                 | Gate_allow \<Rightarrow> (Inr (context, policyDecision, approval), n1)))))"

text \<open>
  Stage 9. The expiry is \<^verbatim>\<open>new Date(Date.parse(now) + ttl).toISOString()\<close>, which throws when the
  clock reading cannot be parsed.
\<close>

definition permit_expiry :: "('r, 'p, 'd, 'e) deps \<Rightarrow> string \<Rightarrow> string result" where
  "permit_expiry D now =
     (case dateParse now of
        None \<Rightarrow> Inl (RangeError ''Invalid time value'')
      | Some t \<Rightarrow> toISOString (t + (case d_permitTtlMs D of Some ttl \<Rightarrow> ttl | None \<Rightarrow> DEFAULT_PERMIT_TTL_MS)))"

definition issue_input ::
  "crypto \<Rightarrow> PipelineRequest \<Rightarrow> ExecutionContext \<Rightarrow> SecurityDecision \<Rightarrow> ApprovalGateEvaluation \<Rightarrow> string \<Rightarrow> string \<Rightarrow>
   PermitIssueInput" where
  "issue_input C q context policyDecision approval now expiresAt =
     \<lparr> pi_requestId = ec_requestId context, pi_correlationId = ec_correlationId context,
       pi_actorId = ec_actorId context, pi_actorType = ec_actorType context,
       pi_tenantId = ec_tenantId context, pi_organizationId = ec_organizationId context,
       pi_workspaceId = ec_workspaceId context, pi_action = ec_requestedAction context,
       pi_resource = ec_resource context, pi_issuedAt = now, pi_expiresAt = expiresAt,
       pi_policyDecisionId = dec_decisionId policyDecision,
       pi_approvalReference = truthy (ge_approvalId approval),
       pi_runtimeConstraints = pq_runtimeConstraints q, pi_contextHash = hashExecutionContext C context \<rparr>"

text \<open>
  Stage 10. A context that could not be created is replaced by a fresh object without brand. The
  decision is read back at the address that \<open>evaluateIsolationBoundary\<close> just branded.
\<close>

definition isolation_stage :: "PipelineRequest \<Rightarrow> ExecutionContext \<Rightarrow> iso_heap \<Rightarrow> IsolationBoundaryDecision \<times> iso_heap" where
  "isolation_stage q context h =
     (let (r, h1) = createRuntimeIsolationContext (pq_osforgeContext q) (pq_executionId q) h;
          (v, h2) = (case r of Some c \<Rightarrow> (c, h1) | None \<Rightarrow> (ih_next h1, h1\<lparr> ih_next := Suc (ih_next h1) \<rparr>));
          (d, h3) = evaluateIsolationBoundary v
            \<lparr> eb_tenantId = Some (ec_tenantId context), eb_organizationId = Some (ec_organizationId context),
              eb_workspaceId = Some (ec_workspaceId context), eb_actorId = Some (ec_actorId context),
              eb_actorType = None, eb_executionId = Some (pq_executionId q) \<rparr> h2
      in (case isolationBoundaryDecisions h3 d of
            Some b \<Rightarrow> b
          | None \<Rightarrow> \<lparr> ibd_status = Iso_denied, ibd_reason = [], ibd_identity = None \<rparr>, h3))"

fun allow_decisions :: "crypto \<Rightarrow> (DecisionStage \<times> string) list \<Rightarrow> string \<Rightarrow> nat \<Rightarrow> SecurityDecision list \<times> nat" where
  "allow_decisions C [] now n = ([], n)"
| "allow_decisions C ((stage, code) # r) now n =
     (let (d, n1) = allow_decision C stage code now n; (ds, n2) = allow_decisions C r now n1 in (d # ds, n2))"

definition prior_decisions ::
  "crypto \<Rightarrow> SecurityDecision \<Rightarrow> string \<Rightarrow> string \<Rightarrow> nat \<Rightarrow> SecurityDecision list \<times> nat" where
  "prior_decisions C policyDecision approvalCode now n =
     (let (before, n1) = allow_decisions C
            [(Edge_validation, ''edge_validated''), (Identity_verification, ''identity_verified''),
             (Tenant_context, ''tenant_context_valid''), (Workspace_context, ''workspace_context_valid''),
             (Authorization, ''authorization_allowed'')] now n;
          (after, n2) = allow_decisions C
            [(Approval_evaluation, approvalCode), (Replay_protection, ''replay_store_ready''),
             (Execution_permit_stage, ''permit_issued''), (Runtime_isolation_stage, ''runtime_isolation_allowed'')]
            now n1
      in (before @ [policyDecision] @ after, n2))"

definition gate_outcome :: "DecisionStatus \<Rightarrow> AuditOutcome" where
  "gate_outcome s =
     (if s = Retry_rejected then REPLAY_REJECTED else if s = Context_invalid then CONTEXT_ERROR
      else if s = Runtime_rejected then RUNTIME_REJECTED else DENIED_outcome)"

definition exec_status_text :: "ExecutionResultStatus \<Rightarrow> string" where
  "exec_status_text s =
     (case s of SUCCEEDED \<Rightarrow> ''SUCCEEDED'' | FAILED \<Rightarrow> ''FAILED'' | CANCELLED \<Rightarrow> ''CANCELLED''
      | TIMED_OUT \<Rightarrow> ''TIMED_OUT'')"

text \<open>Stages 12 and 13: execution, verification and the final audit record.\<close>

definition execute_and_verify ::
  "crypto \<Rightarrow> ('r, 'p, 'd, 'e) deps \<Rightarrow> PipelineRequest \<Rightarrow> ref \<Rightarrow> SignedExecutionPermit \<Rightarrow> ExecutionContext \<Rightarrow>
   ('r, 'p, 'd, 'e) world \<Rightarrow> PipelineOutcome result \<times> ('r, 'p, 'd, 'e) world" where
  "execute_and_verify C D q authorization permit context w =
     (let (execNow, w1) = clock_now D w;
          (res, w2) = runExecutor D authorization permit context
                        (maxExecutionTimeMs (pq_runtimeConstraints q)) w1;
          verified = (xe_status res = SUCCEEDED \<and> xe_permitId res = cl_permitId (sp_claims permit) \<and>
                      xe_requestId res = ec_requestId context);
          (finalDecision, n) = createDecision C
            \<lparr> di_stage = Verification, di_status = (if verified then Allow else Deny),
              di_reasonCode = (if verified then ''execution_verified'' else ''execution_verification_failed''),
              di_humanReadableReason = (if verified then ''Execution completed and verified.''
                                        else ''Execution result failed verification.''),
              di_nextRequiredAction = (if verified then ''complete'' else ''investigate''),
              di_timestamp = execNow, di_policyReferences = None, di_evidence = None \<rparr> (w_draws w2);
          (r, w3) = appendAudit D q finalDecision (if verified then VERIFIED else VERIFICATION_FAILED) execNow
                      (Some (permitReference C permit))
                      (Some (if verified then ''verified''
                             else ''verification_failed:'' @ exec_status_text (xe_status res)))
                      (w2\<lparr> w_draws := n \<rparr>)
      in (case r of
            Inl err \<Rightarrow> (Inl err, w3)
          | Inr audit \<Rightarrow>
              (Inr \<lparr> po_status = (if verified then Executed else Decided Deny), po_terminalStage = Verification,
                     po_decision = finalDecision, po_audit = audit,
                     po_permitReference = Some (permitReference C permit), po_result = Some res,
                     po_verified = Some verified \<rparr>, w3)))"

definition final_input ::
  "crypto \<Rightarrow> ('r, 'p, 'd, 'e) deps \<Rightarrow> SecurityDecision list \<Rightarrow> SignedExecutionPermit \<Rightarrow> ExecutionContext \<Rightarrow>
   ApprovalGateEvaluation \<Rightarrow> string \<Rightarrow> FinalGateInput" where
  "final_input C D priorDecisions permit context approval now =
     \<lparr> fg_mode = d_mode D, fg_priorDecisions = priorDecisions, fg_issuer = d_issuer D, fg_permit = permit,
       fg_bindings =
         \<lparr> b_tenantId = ec_tenantId context, b_organizationId = ec_organizationId context,
           b_workspaceId = ec_workspaceId context, b_actorId = ec_actorId context,
           b_action = ec_requestedAction context, b_resource = ec_resource context,
           b_contextHash = hashExecutionContext C context \<rparr>,
       fg_runtimeIsolationAllowed = True, fg_approvalRequired = ge_required approval,
       fg_approvalId = truthy (ge_approvalId approval), fg_now = now \<rparr>"

text \<open>From the issued permit to the end: the stages 10 to 13.\<close>

definition gated_execution ::
  "crypto \<Rightarrow> ('r, 'p, 'd, 'e) deps \<Rightarrow> PipelineRequest \<Rightarrow> ExecutionContext \<Rightarrow> SecurityDecision \<Rightarrow>
   ApprovalGateEvaluation \<Rightarrow> SignedExecutionPermit \<Rightarrow> string \<Rightarrow> ('r, 'p, 'd, 'e) world \<Rightarrow>
   PipelineOutcome result \<times> ('r, 'p, 'd, 'e) world" where
  "gated_execution C D q context policyDecision approval permit now w =
     (let (isolation, h) = isolation_stage q context (w_iso w); w1 = w\<lparr> w_iso := h \<rparr> in
          if ibd_status isolation \<noteq> Iso_allowed then
            (let (d, n) = deny_decision C Runtime_isolation_stage Runtime_rejected ''runtime_isolation_denied''
                            (ibd_reason isolation) now (w_draws w1)
             in finish D q Runtime_isolation_stage d RUNTIME_REJECTED now None (w1\<lparr> w_draws := n \<rparr>))
          else
            (let (priors, n) = prior_decisions C policyDecision (ge_reasonCode approval) now (w_draws w1);
                 (r, w2) = evaluateFinalGate C D (final_input C D priors permit context approval now)
                             (w1\<lparr> w_draws := n \<rparr>)
             in (case r of
                   Inl err \<Rightarrow> (Inl err, w2)
                 | Inr gate \<Rightarrow>
                     (case fr_authorization gate of
                        None \<Rightarrow>
                          finish D q Final_gate (fr_decision gate) (gate_outcome (dec_status (fr_decision gate))) now
                            (Some (permitReference C permit)) w2
                      | Some a \<Rightarrow>
                          if dec_status (fr_decision gate) \<noteq> Allow then
                            finish D q Final_gate (fr_decision gate) (gate_outcome (dec_status (fr_decision gate))) now
                              (Some (permitReference C permit)) w2
                          else execute_and_verify C D q a permit context w2))))"

definition run ::
  "crypto \<Rightarrow> ('r, 'p, 'd, 'e) deps \<Rightarrow> PipelineRequest \<Rightarrow> ('r, 'p, 'd, 'e) world \<Rightarrow>
   PipelineOutcome result \<times> ('r, 'p, 'd, 'e) world" where
  "run C D q w0 =
     (let (now, w) = clock_now D w0 in
      case identity_stages C D q now (w_draws w) of
        (Inl hlt, n) \<Rightarrow>
          finish D q (h_stage hlt) (h_decision hlt) (h_outcome hlt) now None (w\<lparr> w_draws := n \<rparr>)
      | (Inr identity, n) \<Rightarrow>
          (case decision_stages C q identity now n of
             (Inl hlt, n1) \<Rightarrow>
               finish D q (h_stage hlt) (h_decision hlt) (h_outcome hlt) now None (w\<lparr> w_draws := n1 \<rparr>)
           | (Inr (context, policyDecision, approval), n1) \<Rightarrow>
               (case permit_expiry D now of
                  Inl err \<Rightarrow> (Inl err, w\<lparr> w_draws := n1 \<rparr>)
                | Inr expiresAt \<Rightarrow>
                    (let (permit, n2) = issue C (d_issuer D)
                           (issue_input C q context policyDecision approval now expiresAt) n1
                     in gated_execution C D q context policyDecision approval permit now (w\<lparr> w_draws := n2 \<rparr>)))))"

section \<open>orchestrator.ts\<close>

text \<open>
  A step holds a thunk that makes its request; the thunk may throw. \<open>fst\<close> of what it returns is
  the object as the intent boundary sees it, which refuses one whose \<^verbatim>\<open>kind\<close> says it is an intent.
\<close>

record WorkflowPlanStep =
  ps_stepId :: string
  ps_toRequest :: "(json \<times> PipelineRequest) result"

record SecureWorkflowPlan =
  pl_intentId :: string
  pl_steps :: "WorkflowPlanStep list"

record OrchestrationStepResult =
  os_stepId :: string
  os_outcome :: PipelineOutcome

text \<open>The loop over the plan; a step that throws or whose run rejects ends it.\<close>

definition run_step ::
  "crypto \<Rightarrow> ('r, 'p, 'd, 'e) deps \<Rightarrow> WorkflowPlanStep \<Rightarrow> ('r, 'p, 'd, 'e) world \<Rightarrow>
   PipelineOutcome result \<times> ('r, 'p, 'd, 'e) world" where
  "run_step C D s w =
     (case ps_toRequest s of
        Inl err \<Rightarrow> (Inl err, w)
      | Inr (object, request) \<Rightarrow>
          (case assertIntentIsNotExecutable object of
             Inl err \<Rightarrow> (Inl err, w)
           | Inr _ \<Rightarrow> run C D request w))"

fun run_steps ::
  "crypto \<Rightarrow> ('r, 'p, 'd, 'e) deps \<Rightarrow> WorkflowPlanStep list \<Rightarrow> ('r, 'p, 'd, 'e) world \<Rightarrow>
   OrchestrationStepResult list result \<times> ('r, 'p, 'd, 'e) world" where
  "run_steps C D [] w = (Inr [], w)"
| "run_steps C D (s # ss) w =
     (case run_step C D s w of
        (Inl err, w1) \<Rightarrow> (Inl err, w1)
      | (Inr outcome, w1) \<Rightarrow>
          (case run_steps C D ss w1 of
             (Inl err, w2) \<Rightarrow> (Inl err, w2)
           | (Inr rs, w2) \<Rightarrow> (Inr (\<lparr> os_stepId = ps_stepId s, os_outcome = outcome \<rparr> # rs), w2)))"

definition orchestrate ::
  "crypto \<Rightarrow> ('r, 'p, 'd, 'e) deps \<Rightarrow> (json \<Rightarrow> SecureWorkflowPlan result) \<Rightarrow> json \<Rightarrow> ('r, 'p, 'd, 'e) world \<Rightarrow>
   (string \<times> OrchestrationStepResult list) result \<times> ('r, 'p, 'd, 'e) world" where
  "orchestrate C D planner intent w =
     (if \<not> isIntent intent then (Inl (JsError ''SecureOrchestrator.run requires an Intent.''), w)
      else
        (case planner intent of
           Inl err \<Rightarrow> (Inl err, w)
         | Inr plan \<Rightarrow>
             (case run_steps C D (pl_steps plan) w of
                (Inl err, w1) \<Rightarrow> (Inl err, w1)
              | (Inr rs, w1) \<Rightarrow> (Inr (pl_intentId plan, rs), w1))))"

end
