(* ===== verification/Pipeline_Mediation.thy ===== *)
theory Pipeline_Mediation
  imports Secure_Pipeline
begin

text \<open>
  What each stage of the pipeline changes and guarantees, and from it the main safety statement:
  the executor is called only by a run in which every gate passed (\<open>mediated\<close>). Over a sequence
  of runs with the in-memory stores, no permit and no approval drives two executions.
\<close>

section \<open>What each stage changes and guarantees\<close>

lemma clock_now_frame [simp]:
  "w_calls (snd (clock_now D w)) = w_calls w" "w_replay (snd (clock_now D w)) = w_replay w"
  "w_approvals (snd (clock_now D w)) = w_approvals w" "w_sink (snd (clock_now D w)) = w_sink w"
  "w_authorizations (snd (clock_now D w)) = w_authorizations w" "w_draws (snd (clock_now D w)) = w_draws w"
  "w_iso (snd (clock_now D w)) = w_iso w" "w_executor (snd (clock_now D w)) = w_executor w"
  by (simp_all add: clock_now_def)

lemma appendAudit_frame [simp]:
  "w_calls (snd (appendAudit D q d oc now pr vr w)) = w_calls w"
  "w_replay (snd (appendAudit D q d oc now pr vr w)) = w_replay w"
  "w_approvals (snd (appendAudit D q d oc now pr vr w)) = w_approvals w"
  by (simp_all add: appendAudit_def Let_def case_prod_beta)

lemma finish_frame [simp]:
  "w_calls (snd (finish D q st d oc now pr w)) = w_calls w"
  "w_replay (snd (finish D q st d oc now pr w)) = w_replay w"
  "w_approvals (snd (finish D q st d oc now pr w)) = w_approvals w"
  by (simp_all add: finish_def Let_def case_prod_beta split: sum.splits)

lemma finish_not_executed:
  assumes "finish D q st d oc now pr v = (r, w')"
  shows "w_calls w' = w_calls v \<and> \<not> (\<exists>out. r = Inr out \<and> po_status out = Executed)"
proof -
  have "fst (finish D q st d oc now pr v) = Inr out \<Longrightarrow> po_status out \<noteq> Executed" for out
    by (auto simp: finish_def Let_def case_prod_beta split: sum.splits)
  then show ?thesis using finish_frame(1) [of D q st d oc now pr v] assms by auto
qed

definition production_safe :: "('r, 'p, 'd, 'e) deps \<Rightarrow> bool" where
  "production_safe D \<longleftrightarrow>
     (d_mode D = Production \<longrightarrow> \<not> prs_testOnly (d_replayStore D) \<and> \<not> ais_testOnly (d_auditSink D))"

lemma identity_stages_Inr:
  assumes "identity_stages C D q now n = (Inr i, n')"
  shows "n' = n" "production_safe D"
    "\<exists>e. pq_edgeRequest q = Some e \<and> pq_verifiedIdentity q = Some i \<and> bindings_agree e i (pq_osforgeContext q)"
  using assms
  by (auto simp: identity_stages_def production_safe_def unsafe_halt_def halt_with_def case_prod_beta
      split: if_splits option.splits)

lemma decision_stages_Inr:
  assumes "decision_stages C q i now n = (Inr (ctx, pd, ap), n')"
  shows "createExecutionContext (context_input q i now) = ContextOk ctx"
    "az_decision (authorize (pq_authorization q)) = AuthAllow"
    "pe_decision (evaluatePolicies (pq_policy q)) \<noteq> DENY"
    "ap = evaluateApprovalGate
            (approval_input q ctx (pe_decision (evaluatePolicies (pq_policy q)) = REQUIRE_APPROVAL) now)"
    "ge_status ap = Gate_allow" "dec_status pd = Allow" "n' = Suc n"
  using assms
  by (auto simp: decision_stages_def halt_with_def Let_def case_prod_beta
      split: ExecutionContextResult.splits if_splits ApprovalGateStatus.splits)

lemma final_deny_frame [simp]:
  "w_calls (snd (final_deny C st c m now w)) = w_calls w" "w_sink (snd (final_deny C st c m now w)) = w_sink w"
  "w_replay (snd (final_deny C st c m now w)) = w_replay w"
  "w_approvals (snd (final_deny C st c m now w)) = w_approvals w"
  by (simp_all add: final_deny_def Let_def case_prod_beta)

lemma final_deny_result: "\<exists>g. fst (final_deny C st c m now w) = Inr g \<and> fr_authorization g = None"
  by (simp add: final_deny_def Let_def case_prod_beta)

lemma final_grant_frame [simp]:
  "w_calls (snd (final_grant C i w)) = w_calls w" "w_sink (snd (final_grant C i w)) = w_sink w"
  "w_replay (snd (final_grant C i w)) = w_replay w" "w_approvals (snd (final_grant C i w)) = w_approvals w"
  by (simp_all add: final_grant_def mintExecutionAuthorization_def Let_def case_prod_beta)

lemma final_grant_result:
  "\<exists>g a. fst (final_grant C i w) = Inr g \<and> fr_authorization g = Some a \<and> dec_status (fr_decision g) = Allow \<and>
         w_authorizations (snd (final_grant C i w)) a \<noteq> None"
  by (simp add: final_grant_def mintExecutionAuthorization_def Let_def case_prod_beta)

text \<open>What a final gate that authorizes has done with the two stores.\<close>

definition approval_consumed ::
  "('r, 'p, 'd, 'e) deps \<Rightarrow> FinalGateInput \<Rightarrow> 'p \<Rightarrow> 'p \<Rightarrow> bool" where
  "approval_consumed D i p p' =
     (if fg_approvalRequired i
      then \<exists>a reason. fg_approvalId i = Some a \<and> d_consumeApproval D a (fg_now i) p = (Inr (True, reason), p')
      else p' = p)"

definition permit_claimed ::
  "('r, 'p, 'd, 'e) deps \<Rightarrow> FinalGateInput \<Rightarrow> 'r \<Rightarrow> 'r \<Rightarrow> bool" where
  "permit_claimed D i s s' \<longleftrightarrow>
     (\<exists>claim. prs_claim (d_replayStore D) (claim_key (sp_claims (fg_permit i)))
                (cl_expiresAt (sp_claims (fg_permit i))) (fg_now i) s = (Inr claim, s') \<and>
              rcr_status claim = CLAIMED)"

lemma final_approval_frame [simp]:
  "w_calls (snd (final_approval C D i w)) = w_calls w" "w_sink (snd (final_approval C D i w)) = w_sink w"
  "w_replay (snd (final_approval C D i w)) = w_replay w"
  by (simp_all add: final_approval_def Let_def case_prod_beta split: option.splits sum.splits)

lemma final_approval_authorizes:
  assumes "final_approval C D i w = (Inr g, w')" "fr_authorization g = Some a"
  shows "dec_status (fr_decision g) = Allow \<and> w_authorizations w' a \<noteq> None \<and>
         approval_consumed D i (w_approvals w) (w_approvals w')"
proof (cases "fg_approvalRequired i")
  case False
  then have "final_grant C i w = (Inr g, w')" using assms(1) by (simp add: final_approval_def)
  then show ?thesis
    using final_grant_result [of C i w] final_grant_frame(4) [of C i w] assms(2) False
    by (auto simp: approval_consumed_def)
next
  case True
  show ?thesis
  proof (cases "fg_approvalId i")
    case None
    then have "final_deny C Deny ''approval_reference_missing''
        ''Approval was required but no approval reference was provided.'' (fg_now i) w = (Inr g, w')"
      using assms(1) True by (simp add: final_approval_def)
    then show ?thesis using final_deny_result assms(2) by (metis fst_conv option.distinct(1) sum.inject(2))
  next
    case (Some ap)
    obtain r p where c: "d_consumeApproval D ap (fg_now i) (w_approvals w) = (r, p)" by fastforce
    with assms(1) True Some obtain ok reason where r: "r = Inr (ok, reason)"
      by (cases r) (auto simp: final_approval_def)
    show ?thesis
    proof (cases ok)
      case True
      then have "final_grant C i (w\<lparr> w_approvals := p \<rparr>) = (Inr g, w')"
        using assms(1) c r Some \<open>fg_approvalRequired i\<close> by (simp add: final_approval_def)
      then show ?thesis
        using final_grant_result [of C i "w\<lparr> w_approvals := p \<rparr>"] final_grant_frame(4) [of C i "w\<lparr> w_approvals := p \<rparr>"]
          assms(2) c r Some True \<open>fg_approvalRequired i\<close>
        by (auto simp: approval_consumed_def)
    next
      case False
      then have "final_deny C Deny ''approval_consumption_failed'' reason (fg_now i) (w\<lparr> w_approvals := p \<rparr>) = (Inr g, w')"
        using assms(1) c r Some \<open>fg_approvalRequired i\<close> by (simp add: final_approval_def)
      then show ?thesis using final_deny_result assms(2) by (metis fst_conv option.distinct(1) sum.inject(2))
    qed
  qed
qed

lemma final_gate_frame [simp]:
  "w_calls (snd (evaluateFinalGate C D i w)) = w_calls w" "w_sink (snd (evaluateFinalGate C D i w)) = w_sink w"
  by (simp_all add: evaluateFinalGate_def Let_def case_prod_beta split: PermitVerifyResult.splits sum.splits)

lemma final_gate_authorizes:
  assumes "evaluateFinalGate C D i w = (Inr g, w')" "fr_authorization g = Some a"
  shows "dec_status (fr_decision g) = Allow \<and> w_authorizations w' a \<noteq> None \<and>
         allAllowed (fg_priorDecisions i) \<and> fg_runtimeIsolationAllowed i \<and>
         verifyPermit C (fg_issuer i) (permit_json (fg_permit i)) (fg_bindings i) (fg_now i) = PermitOk \<and>
         permit_claimed D i (w_replay w) (w_replay w') \<and>
         approval_consumed D i (w_approvals w) (w_approvals w')"
proof -
  have nodeny: "final_deny C st c m now v \<noteq> (Inr g, w')" for st c m now v
    using final_deny_result [of C st c m now v] assms(2) by auto
  let ?claims = "sp_claims (fg_permit i)"
  obtain r s where c: "prs_claim (d_replayStore D) (claim_key ?claims) (cl_expiresAt ?claims) (fg_now i) (w_replay w) = (r, s)"
    by fastforce
  have pre: "allAllowed (fg_priorDecisions i)" "fg_runtimeIsolationAllowed i"
    "verifyPermit C (fg_issuer i) (permit_json (fg_permit i)) (fg_bindings i) (fg_now i) = PermitOk"
    using assms(1) nodeny by (auto simp: evaluateFinalGate_def split: if_splits PermitVerifyResult.splits)
  obtain claim where r: "r = Inr claim" "rcr_status claim = CLAIMED"
    and fa: "final_approval C D i (w\<lparr> w_replay := s \<rparr>) = (Inr g, w')"
    using assms(1) nodeny pre c by (cases r) (auto simp: evaluateFinalGate_def Let_def split: if_splits)
  show ?thesis
    using final_approval_authorizes [OF fa assms(2)] final_approval_frame(3) [of C D i "w\<lparr> w_replay := s \<rparr>"]
      pre c r fa by (simp add: permit_claimed_def)
qed


lemma runExecutor_frame [simp]:
  "w_replay (snd (runExecutor D a p c m w)) = w_replay w" "w_approvals (snd (runExecutor D a p c m w)) = w_approvals w"
  "w_sink (snd (runExecutor D a p c m w)) = w_sink w"
  by (simp_all add: runExecutor_def Let_def case_prod_beta split: executor_reply.splits)

definition exec_request ::
  "ref \<Rightarrow> SignedExecutionPermit \<Rightarrow> ExecutionContext \<Rightarrow> int \<Rightarrow> SecureExecutionRequest" where
  "exec_request a p c m =
     \<lparr> xr_authorization = a, xr_permit = p, xr_context = c,
       xr_timeoutMs = max 1 (min m (maxExecutionTimeMs (cl_runtimeConstraints (sp_claims p)))) \<rparr>"

lemma runExecutor_calls:
  "w_authorizations w a \<noteq> None \<Longrightarrow> w_calls (snd (runExecutor D a p c m w)) = w_calls w @ [exec_request a p c m]"
  by (simp add: runExecutor_def Let_def case_prod_beta isExecutionAuthorization_def exec_request_def
      split: executor_reply.splits)

lemma execute_frame [simp]:
  "w_replay (snd (execute_and_verify C D q a p c w)) = w_replay w"
  "w_approvals (snd (execute_and_verify C D q a p c w)) = w_approvals w"
  by (simp_all add: execute_and_verify_def Let_def case_prod_beta split: sum.splits)

lemma execute_calls:
  "w_authorizations w a \<noteq> None \<Longrightarrow>
     w_calls (snd (execute_and_verify C D q a p c w)) =
       w_calls w @ [exec_request a p c (maxExecutionTimeMs (pq_runtimeConstraints q))]"
  by (simp add: execute_and_verify_def Let_def case_prod_beta runExecutor_calls split: sum.splits)

text \<open>The run after the gates: either the executor is not called, or the final gate authorized the call.\<close>

lemma gated_execution_cases:
  assumes "gated_execution C D q ctx pd ap permit now w = (r, w')"
  shows "(w_calls w' = w_calls w \<and> \<not> (\<exists>out. r = Inr out \<and> po_status out = Executed)) \<or>
         (\<exists>priors a. w_calls w' = w_calls w @ [exec_request a permit ctx (maxExecutionTimeMs (pq_runtimeConstraints q))] \<and>
            (let i = final_input C D priors permit ctx ap now in
             verifyPermit C (fg_issuer i) (permit_json permit) (fg_bindings i) now = PermitOk \<and>
             permit_claimed D i (w_replay w) (w_replay w') \<and> approval_consumed D i (w_approvals w) (w_approvals w')))"
proof -
  obtain iso h where s: "isolation_stage q ctx (w_iso w) = (iso, h)" by fastforce
  show ?thesis
  proof (cases "ibd_status iso = Iso_allowed")
    case False
    obtain d n where d: "deny_decision C Runtime_isolation_stage Runtime_rejected ''runtime_isolation_denied''
        (ibd_reason iso) now (w_draws w) = (d, n)" by fastforce
    have "finish D q Runtime_isolation_stage d RUNTIME_REJECTED now None (w\<lparr> w_iso := h, w_draws := n \<rparr>) = (r, w')"
      using assms s d False by (simp add: gated_execution_def)
    from finish_not_executed [OF this] show ?thesis by simp
  next
    case True
    obtain priors n where pr: "prior_decisions C pd (ge_reasonCode ap) now (w_draws w) = (priors, n)" by fastforce
    let ?i = "final_input C D priors permit ctx ap now" and ?w1 = "w\<lparr> w_iso := h, w_draws := n \<rparr>"
    obtain g w2 where fg: "evaluateFinalGate C D ?i ?w1 = (g, w2)" by fastforce
    have c2: "w_calls w2 = w_calls w" using final_gate_frame(1) [of C D ?i ?w1] fg by simp
    show ?thesis
    proof (cases "\<exists>res a. g = Inr res \<and> fr_authorization res = Some a")
      case True
      then obtain res a where res: "g = Inr res" "fr_authorization res = Some a" by blast
      note ok = final_gate_authorizes [OF fg [unfolded res(1)] res(2)]
      then have "execute_and_verify C D q a permit ctx w2 = (r, w')"
        using assms s \<open>ibd_status iso = Iso_allowed\<close> pr fg res by (simp add: gated_execution_def)
      then show ?thesis
        using ok c2 execute_calls [of w2 a C D q permit ctx] execute_frame [of C D q a permit ctx w2]
        by (intro disjI2 exI [of _ priors] exI [of _ a]) (auto simp: Let_def final_input_def)
    next
      case False
      show ?thesis
      proof (cases g)
        case (Inl err)
        then show ?thesis using assms s \<open>ibd_status iso = Iso_allowed\<close> pr fg c2 by (auto simp: gated_execution_def)
      next
        case (Inr res)
        then have "fr_authorization res = None" using False by (cases "fr_authorization res") auto
        with Inr have "finish D q Final_gate (fr_decision res) (gate_outcome (dec_status (fr_decision res))) now
            (Some (permitReference C permit)) w2 = (r, w')"
          using assms s \<open>ibd_status iso = Iso_allowed\<close> pr fg by (simp add: gated_execution_def)
        from finish_not_executed [OF this] c2 show ?thesis by simp
      qed
    qed
  qed
qed


text \<open>
  Everything that has to be true when the executor is called with \<open>x\<close>: the proofs, the context,
  the authorization, the policy, the approval (valid and consumed now), and a permit that is
  bound to the request, signed with the issuer's key, unexpired and claimed for the first time.
\<close>

definition mediated ::
  "crypto \<Rightarrow> ('r, 'p, 'd, 'e) deps \<Rightarrow> PipelineRequest \<Rightarrow> string \<Rightarrow> SecureExecutionRequest \<Rightarrow>
   ('r, 'p, 'd, 'e) world \<Rightarrow> ('r, 'p, 'd, 'e) world \<Rightarrow> bool" where
  "mediated C D q now x w w' \<longleftrightarrow>
     (let ctx = pq_osforgeContext q; c = sp_claims (xr_permit x);
          pol = pe_decision (evaluatePolicies (pq_policy q)) in
      production_safe D \<and>
      (\<exists>e i. pq_edgeRequest q = Some e \<and> pq_verifiedIdentity q = Some i \<and> bindings_agree e i ctx) \<and>
      valid_context ctx \<and> same_boundary (pq_authorization q) \<and> explicit_grant (pq_authorization q) \<and> pol \<noteq> DENY \<and>
      (isCriticalAction (pq_action q) \<or> pol = REQUIRE_APPROVAL \<longrightarrow>
         (\<exists>a m. pq_approval q = Some a \<and>
                approval_valid_for a (approval_input q (xr_context x) (pol = REQUIRE_APPROVAL) now) \<and>
                d_consumeApproval D (apr_approvalId a) now (w_approvals w) = (Inr (True, m), w_approvals w') \<and>
                cl_approvalReference c = Some (apr_approvalId a))) \<and>
      (cl_approvalReference c \<noteq> None \<longrightarrow> isCriticalAction (pq_action q) \<or> pol = REQUIRE_APPROVAL) \<and>
      cl_tenantId c = tenant_id (ctx_tenant ctx) \<and> cl_organizationId c = org_id (ctx_organization ctx) \<and>
      cl_workspaceId c = ws_id (ctx_workspace ctx) \<and> cl_actorId c = actor_id (ctx_actor ctx) \<and>
      cl_action c = pq_action q \<and> cl_resource c = pq_resource q \<and> cl_requestId c = pq_requestId q \<and>
      verifyIntegrity C (d_issuer D) (permit_json (xr_permit x)) \<and> isFuture (cl_expiresAt c) now \<and>
      (\<exists>cl. prs_claim (d_replayStore D) (claim_key c) (cl_expiresAt c) now (w_replay w) = (Inr cl, w_replay w') \<and>
            rcr_status cl = CLAIMED))"

lemma run_halts:
  assumes "run C D q w = (r, w')"
    and "\<not> (\<exists>i n ctx pd ap n1 e. identity_stages C D q (d_clock D (w_reads w)) (w_draws w) = (Inr i, n) \<and>
             decision_stages C q i (d_clock D (w_reads w)) n = (Inr (ctx, pd, ap), n1) \<and>
             permit_expiry D (d_clock D (w_reads w)) = Inr e)"
  shows "w_calls w' = w_calls w \<and> \<not> (\<exists>out. r = Inr out \<and> po_status out = Executed)"
proof -
  define now where "now = d_clock D (w_reads w)"
  define v where "v = w\<lparr> w_reads := Suc (w_reads w) \<rparr>"
  have cn: "clock_now D w = (now, v)" by (simp add: clock_now_def now_def v_def)
  have wv: "w_draws v = w_draws w" "w_calls v = w_calls w" by (simp_all add: v_def)
  obtain i n where isg: "identity_stages C D q now (w_draws w) = (i, n)" by fastforce
  show ?thesis
  proof (cases i)
    case (Inl hlt)
    then have "finish D q (h_stage hlt) (h_decision hlt) (h_outcome hlt) now None (v\<lparr> w_draws := n \<rparr>) = (r, w')"
      using assms(1) isg cn wv by (simp add: run_def)
    from finish_not_executed [OF this] show ?thesis by (simp add: wv)
  next
    case (Inr ident)
    obtain d n1 where ds: "decision_stages C q ident now n = (d, n1)" by fastforce
    show ?thesis
    proof (cases d)
      case (Inl hlt)
      then have "finish D q (h_stage hlt) (h_decision hlt) (h_outcome hlt) now None (v\<lparr> w_draws := n1 \<rparr>) = (r, w')"
        using assms(1) isg Inr ds cn wv by (simp add: run_def)
      from finish_not_executed [OF this] show ?thesis by (simp add: wv)
    next
      case (Inr t)
      obtain ctx pd ap where t: "t = (ctx, pd, ap)" by (cases t) auto
      obtain err where "permit_expiry D now = Inl err"
        using assms(2) isg \<open>i = Inr ident\<close> ds Inr t by (cases "permit_expiry D now") (auto simp: now_def)
      then have "r = Inl err" "w' = v\<lparr> w_draws := n1 \<rparr>"
        using assms(1) isg \<open>i = Inr ident\<close> ds Inr t cn wv by (auto simp: run_def)
      then show ?thesis by (simp add: wv)
    qed
  qed
qed

lemma issued_approvalReference:
  assumes "issue C k (issue_input C q ctx pd ap now e) n = (p, n')"
  shows "cl_approvalReference (sp_claims p) =
           (if isNonEmptyOpt (ge_approvalId ap) then ge_approvalId ap else None)"
proof -
  have "isNonEmptyOpt (truthy v) = isNonEmptyOpt v" "isNonEmptyOpt v \<Longrightarrow> truthy v = v" for v
    by (auto simp: truthy_def isNonEmptyOpt_def split: option.splits)
  then show ?thesis using assms by (auto simp: issue_def Let_def newId_def newNonce_def issue_input_def)
qed

lemma approval_is_consumed:
  assumes "ap = evaluateApprovalGate (approval_input q ctx b now)" "ge_status ap = Gate_allow"
    and "isCriticalAction (pq_action q) \<or> b"
    and "approval_consumed D (final_input C D priors permit ctx ap now) (w_approvals w) (w_approvals w')"
  shows "\<exists>a m. pq_approval q = Some a \<and> approval_valid_for a (approval_input q ctx b now) \<and>
           d_consumeApproval D (apr_approvalId a) now (w_approvals w) = (Inr (True, m), w_approvals w') \<and>
           ge_approvalId ap = Some (apr_approvalId a)"
proof -
  let ?ai = "approval_input q ctx b now"
  have req: "ge_required ap" using assms(1,3) by (simp add: gate_required approval_input_def)
  then obtain a where a: "pq_approval q = Some a" "approval_valid_for a ?ai"
    using gate_allow_iff [of ?ai] assms(1,2) by (auto simp: approval_input_def)
  moreover have "ge_approvalId ap = Some (apr_approvalId a)"
    using gate_allow_approvalId [of ?ai] req assms(1,2) a(1) by (auto simp: approval_input_def)
  ultimately show ?thesis
    using assms(4) req by (auto simp: approval_consumed_def final_input_def truthy_def split: if_splits)
qed

lemma run_mediated:
  assumes "run C D q w = (r, w')"
  shows "(w_calls w' = w_calls w \<and> \<not> (\<exists>out. r = Inr out \<and> po_status out = Executed)) \<or>
         (\<exists>x. w_calls w' = w_calls w @ [x] \<and> mediated C D q (d_clock D (w_reads w)) x w w')"
proof (cases "\<exists>i n ctx pd ap n1 e. identity_stages C D q (d_clock D (w_reads w)) (w_draws w) = (Inr i, n) \<and>
             decision_stages C q i (d_clock D (w_reads w)) n = (Inr (ctx, pd, ap), n1) \<and>
             permit_expiry D (d_clock D (w_reads w)) = Inr e")
  case False
  then show ?thesis using run_halts [OF assms] by blast
next
  case True
  define now where "now = d_clock D (w_reads w)"
  from True obtain i n ctx pd ap n1 e where st: "identity_stages C D q now (w_draws w) = (Inr i, n)"
    "decision_stages C q i now n = (Inr (ctx, pd, ap), n1)" "permit_expiry D now = Inr e"
    unfolding now_def by blast
  let ?in = "issue_input C q ctx pd ap now e"
  obtain permit n2 where iss: "issue C (d_issuer D) ?in n1 = (permit, n2)" by fastforce
  let ?v = "w\<lparr> w_reads := Suc (w_reads w), w_draws := n2 \<rparr>"
  have ge: "gated_execution C D q ctx pd ap permit now ?v = (r, w')"
    using assms st iss by (simp add: run_def clock_now_def now_def)
  note ids = identity_stages_Inr [OF st(1)] and des = decision_stages_Inr [OF st(2)] and f = issue_fields [OF iss]
  note cx = createExecutionContext_Ok [OF des(1)]
  from gated_execution_cases [OF ge] show ?thesis
  proof (elim disjE exE conjE)
    fix priors a
    assume calls: "w_calls w' = w_calls ?v @ [exec_request a permit ctx (maxExecutionTimeMs (pq_runtimeConstraints q))]"
      and gate: "let i = final_input C D priors permit ctx ap now in
             verifyPermit C (fg_issuer i) (permit_json permit) (fg_bindings i) now = PermitOk \<and>
             permit_claimed D i (w_replay ?v) (w_replay w') \<and> approval_consumed D i (w_approvals ?v) (w_approvals w')"
    let ?x = "exec_request a permit ctx (maxExecutionTimeMs (pq_runtimeConstraints q))"
    let ?pol = "pe_decision (evaluatePolicies (pq_policy q))"
    let ?ai = "approval_input q ctx (?pol = REQUIRE_APPROVAL) now"
    have bound: "cl_tenantId (sp_claims permit) = tenant_id (ctx_tenant (pq_osforgeContext q))"
      "cl_organizationId (sp_claims permit) = org_id (ctx_organization (pq_osforgeContext q))"
      "cl_workspaceId (sp_claims permit) = ws_id (ctx_workspace (pq_osforgeContext q))"
      "cl_actorId (sp_claims permit) = actor_id (ctx_actor (pq_osforgeContext q))"
      "cl_action (sp_claims permit) = pq_action q" "cl_resource (sp_claims permit) = pq_resource q"
      "cl_requestId (sp_claims permit) = pq_requestId q"
      using f cx by (simp_all add: issue_input_def context_input_def)
    have perm: "verifyIntegrity C (d_issuer D) (permit_json permit)" "isFuture (cl_expiresAt (sp_claims permit)) now"
      using gate by (auto simp: Let_def final_input_def verifyPermit_ok_iff claim_str_permit)
    have claimed: "\<exists>cl. prs_claim (d_replayStore D) (claim_key (sp_claims permit)) (cl_expiresAt (sp_claims permit)) now
        (w_replay w) = (Inr cl, w_replay w') \<and> rcr_status cl = CLAIMED"
      using gate by (auto simp: Let_def permit_claimed_def final_input_def)
    have appr: "\<exists>a m. pq_approval q = Some a \<and> approval_valid_for a ?ai \<and>
        d_consumeApproval D (apr_approvalId a) now (w_approvals w) = (Inr (True, m), w_approvals w') \<and>
        cl_approvalReference (sp_claims permit) = Some (apr_approvalId a)"
      if "isCriticalAction (pq_action q) \<or> ?pol = REQUIRE_APPROVAL"
      using approval_is_consumed [OF des(4,5) that, of D C priors permit w w'] gate issued_approvalReference [OF iss]
      by (auto simp: Let_def isNonEmptyOpt_def approval_valid_for_def)
    have noappr: "isCriticalAction (pq_action q) \<or> ?pol = REQUIRE_APPROVAL" if "cl_approvalReference (sp_claims permit) \<noteq> None"
    proof (rule ccontr)
      assume "\<not> (isCriticalAction (pq_action q) \<or> ?pol = REQUIRE_APPROVAL)"
      then have "ge_approvalId ap = None" by (simp add: des(4) evaluateApprovalGate_def approval_input_def)
      then show False using that issued_approvalReference [OF iss] by (simp add: isNonEmptyOpt_def)
    qed
    have "mediated C D q now ?x w w'"
      unfolding mediated_def Let_def exec_request_def SecureExecutionRequest.simps
      using ids(2,3) cx(1) des(2,3) authorize_iff [of "pq_authorization q"] appr noappr bound perm claimed
      by (auto simp: context_input_def)
    then show ?thesis using calls by (auto simp: now_def)
  qed auto
qed


section \<open>Sequences of runs\<close>

text \<open>Every run leaves each store alone or calls it once.\<close>

definition one_claim :: "('r, 'p, 'd, 'e) deps \<Rightarrow> 'r \<Rightarrow> 'r \<Rightarrow> bool" where
  "one_claim D s s' \<longleftrightarrow> s' = s \<or> (\<exists>k e now r. prs_claim (d_replayStore D) k e now s = (r, s'))"

definition one_consumption :: "('r, 'p, 'd, 'e) deps \<Rightarrow> 'p \<Rightarrow> 'p \<Rightarrow> bool" where
  "one_consumption D s s' \<longleftrightarrow> s' = s \<or> (\<exists>a now r. d_consumeApproval D a now s = (r, s'))"

lemma one_claim_refl [simp]: "one_claim D s s" "one_consumption D p p"
  by (simp_all add: one_claim_def one_consumption_def)

lemma final_approval_consumes: "one_consumption D (w_approvals w) (w_approvals (snd (final_approval C D i w)))"
proof (cases "fg_approvalId i")
  case (Some a)
  obtain r p where "d_consumeApproval D a (fg_now i) (w_approvals w) = (r, p)" by fastforce
  then have "w_approvals (snd (final_approval C D i w)) \<in> {w_approvals w, p}" and "one_consumption D (w_approvals w) p"
    using Some by (auto simp: final_approval_def one_consumption_def Let_def split: sum.splits prod.splits)
  then show ?thesis by auto
qed (simp add: final_approval_def)

lemma final_gate_stores:
  "one_claim D (w_replay w) (w_replay (snd (evaluateFinalGate C D i w))) \<and>
   one_consumption D (w_approvals w) (w_approvals (snd (evaluateFinalGate C D i w)))"
proof -
  let ?c = "sp_claims (fg_permit i)"
  obtain r s where c: "prs_claim (d_replayStore D) (claim_key ?c) (cl_expiresAt ?c) (fg_now i) (w_replay w) = (r, s)" by fastforce
  then have "w_replay (snd (evaluateFinalGate C D i w)) \<in> {w_replay w, s}" and "one_claim D (w_replay w) s"
    by (auto simp: evaluateFinalGate_def one_claim_def Let_def split: PermitVerifyResult.splits sum.splits)
  moreover have "one_consumption D (w_approvals w) (w_approvals (snd (evaluateFinalGate C D i w)))"
    using c final_approval_consumes [of D "w\<lparr> w_replay := s \<rparr>" C i]
    by (auto simp: evaluateFinalGate_def Let_def split: PermitVerifyResult.splits sum.splits)
  ultimately show ?thesis by auto
qed

lemma gated_stores:
  "one_claim D (w_replay w) (w_replay (snd (gated_execution C D q ctx pd ap permit now w))) \<and>
   one_consumption D (w_approvals w) (w_approvals (snd (gated_execution C D q ctx pd ap permit now w)))"
proof -
  obtain sg h where s: "isolation_stage q ctx (w_iso w) = (sg, h)" by fastforce
  obtain priors n where pr: "prior_decisions C pd (ge_reasonCode ap) now (w_draws w) = (priors, n)" by fastforce
  let ?w1 = "w\<lparr> w_iso := h, w_draws := n \<rparr>"
  obtain g w2 where fg: "evaluateFinalGate C D (final_input C D priors permit ctx ap now) ?w1 = (g, w2)" by fastforce
  have "one_claim D (w_replay w) (w_replay w2) \<and> one_consumption D (w_approvals w) (w_approvals w2)"
    using final_gate_stores [of D ?w1 C "final_input C D priors permit ctx ap now"] fg by simp
  then show ?thesis
    using s pr fg by (simp add: gated_execution_def Let_def case_prod_beta split: sum.splits option.splits)
qed

lemma run_stores:
  "one_claim D (w_replay w) (w_replay (snd (run C D q w))) \<and>
   one_consumption D (w_approvals w) (w_approvals (snd (run C D q w)))"
proof -
  define v where "v = w\<lparr> w_reads := Suc (w_reads w) \<rparr>"
  have cn: "clock_now D w = (d_clock D (w_reads w), v)" by (simp add: clock_now_def v_def)
  have "one_claim D (w_replay v) (w_replay (snd (run C D q w))) \<and>
        one_consumption D (w_approvals v) (w_approvals (snd (run C D q w)))"
    unfolding run_def cn
    using gated_stores [of D "v\<lparr> w_draws := _ \<rparr>" C q]
    by (simp add: case_prod_beta split: sum.splits prod.splits)
  then show ?thesis by (simp add: v_def)
qed

text \<open>New keys, each used once and none used before.\<close>

definition once :: "'k list \<Rightarrow> 'k set \<Rightarrow> 'k set \<Rightarrow> bool" where
  "once ks U U' \<longleftrightarrow> distinct ks \<and> set ks \<inter> U = {} \<and> U \<union> set ks \<subseteq> U'"

lemma once_append: "once xs U V \<Longrightarrow> once ys V W \<Longrightarrow> once (xs @ ys) U W"
  by (auto simp: once_def)

lemma once_Nil: "once [] U V \<longleftrightarrow> U \<subseteq> V"
  by (simp add: once_def)

definition call_permit :: "SecureExecutionRequest \<Rightarrow> string" where
  "call_permit x = cl_permitId (sp_claims (xr_permit x))"

definition call_approvals :: "SecureExecutionRequest list \<Rightarrow> string list" where
  "call_approvals xs = List.map_filter (\<lambda>x. cl_approvalReference (sp_claims (xr_permit x))) xs"

lemma call_approvals_simps [simp]:
  "call_approvals [] = []" "call_approvals (xs @ ys) = call_approvals xs @ call_approvals ys"
  by (simp_all add: call_approvals_def List.map_filter_def)

definition in_memory_stores :: "(replay_claims, approval_store, 'd, 'e) deps \<Rightarrow> bool" where
  "in_memory_stores D \<longleftrightarrow>
     d_replayStore D = InMemoryPermitReplayStore \<and>
     d_consumeApproval D = (\<lambda>a now s. map_prod Inr id (approval_consume a now s))"

definition one_time ::
  "SecureExecutionRequest list \<Rightarrow> (replay_claims, approval_store, 'd, 'e) world \<Rightarrow>
   (replay_claims, approval_store, 'd, 'e) world \<Rightarrow> bool" where
  "one_time xs w w' \<longleftrightarrow>
     w_calls w' = w_calls w @ xs \<and> once (map call_permit xs) (dom (w_replay w)) (dom (w_replay w')) \<and>
     once (call_approvals xs) (as_consumed (w_approvals w)) (as_consumed (w_approvals w'))"

lemma one_time_refl: "one_time [] w w"
  by (simp add: one_time_def once_Nil)

lemma one_time_trans: "one_time xs w v \<Longrightarrow> one_time ys v u \<Longrightarrow> one_time (xs @ ys) w u"
  unfolding one_time_def by (auto intro: once_append)

lemma in_memory_mono:
  assumes "in_memory_stores D"
  shows "one_claim D s s' \<Longrightarrow> dom s \<subseteq> dom s'" "one_consumption D p p' \<Longrightarrow> as_consumed p \<subseteq> as_consumed p'"
proof -
  show "dom s \<subseteq> dom s'" if "one_claim D s s'"
  proof -
    have "dom s \<subseteq> dom (snd (replay_claim k e now s))" for k e now by (auto simp: replay_claim_state)
    moreover have "s' = s \<or> (\<exists>k e now. s' = snd (replay_claim k e now s))"
      using that assms
      by (auto simp: one_claim_def in_memory_stores_def InMemoryPermitReplayStore_def map_prod_def case_prod_beta)
    ultimately show ?thesis by blast
  qed
  show "as_consumed p \<subseteq> as_consumed p'" if "one_consumption D p p'"
  proof -
    have "as_consumed p \<subseteq> as_consumed (snd (approval_consume a now p))" for a now
      by (auto simp: approval_consume_def split: option.splits)
    moreover have "p' = p \<or> (\<exists>a now. p' = snd (approval_consume a now p))"
      using that assms by (auto simp: one_consumption_def in_memory_stores_def map_prod_def case_prod_beta)
    ultimately show ?thesis by blast
  qed
qed

lemma in_memory_claim:
  assumes "in_memory_stores D" "prs_claim (d_replayStore D) k e now s = (Inr cl, s')" "rcr_status cl = CLAIMED"
  shows "once [rk_permitId k] (dom s) (dom s')"
proof -
  have "replay_claim k e now s = (cl, s')"
    using assms(1,2) by (auto simp: in_memory_stores_def InMemoryPermitReplayStore_def map_prod_def case_prod_beta)
  then have "claim_won (k, e, now) s = (True, s')" using assms(3) by (simp add: claim_won_def)
  from imr.exact_wins [OF this] show ?thesis by (auto simp: once_def claim_permit_def)
qed

lemma in_memory_consume:
  assumes "in_memory_stores D" "d_consumeApproval D a now s = (Inr (True, m), s')"
  shows "once [a] (as_consumed s) (as_consumed s')"
proof -
  have "approval_consume a now s = ((True, m), s')"
    using assms by (cases "approval_consume a now s") (auto simp: in_memory_stores_def)
  then have "consume_won (a, now) s = (True, s')" by (simp add: consume_won_def)
  from apr.exact_wins [OF this] show ?thesis by (auto simp: once_def)
qed

lemma run_one_time:
  assumes "in_memory_stores D" "run C D q w = (r, w')"
  shows "\<exists>xs. one_time xs w w'"
proof -
  have mono: "once [] (dom (w_replay w)) (dom (w_replay w'))" "once [] (as_consumed (w_approvals w)) (as_consumed (w_approvals w'))"
    using in_memory_mono [OF assms(1)] run_stores [of D w C q] assms(2) by (auto simp: once_Nil)
  from run_mediated [OF assms(2)] show ?thesis
  proof (elim disjE exE conjE)
    assume "w_calls w' = w_calls w"
    with mono have "one_time [] w w'" by (simp add: one_time_def)
    then show ?thesis by blast
  next
    fix x assume x: "w_calls w' = w_calls w @ [x]" and m: "mediated C D q (d_clock D (w_reads w)) x w w'"
    obtain cl now where "prs_claim (d_replayStore D) (claim_key (sp_claims (xr_permit x))) (cl_expiresAt (sp_claims (xr_permit x))) now (w_replay w)
        = (Inr cl, w_replay w')" "rcr_status cl = CLAIMED"
      using m unfolding mediated_def Let_def by blast
    then have "once [call_permit x] (dom (w_replay w)) (dom (w_replay w'))"
      using in_memory_claim [OF assms(1)] by (fastforce simp: call_permit_def claim_key_def)
    moreover have "once (call_approvals [x]) (as_consumed (w_approvals w)) (as_consumed (w_approvals w'))"
    proof (cases "cl_approvalReference (sp_claims (xr_permit x))")
      case None
      then show ?thesis using mono(2) by (simp add: call_approvals_def List.map_filter_def)
    next
      case (Some a)
      then obtain now' mm where "d_consumeApproval D a now' (w_approvals w) = (Inr (True, mm), w_approvals w')"
        using m unfolding mediated_def Let_def by fastforce
      then show ?thesis using in_memory_consume [OF assms(1)] Some by (fastforce simp: call_approvals_def List.map_filter_def)
    qed
    ultimately show ?thesis using x by (auto simp: one_time_def)
  qed
qed

lemma run_steps_one_time:
  assumes "in_memory_stores D" "run_steps C D ss w = (r, w')"
  shows "\<exists>xs. one_time xs w w'"
  using assms(2)
proof (induction ss arbitrary: w r w')
  case Nil
  then show ?case using one_time_refl by auto
next
  case (Cons s ss)
  obtain o1 w1 where s: "run_step C D s w = (o1, w1)" by fastforce
  have "\<exists>xs. one_time xs w w1"
    using s run_one_time [OF assms(1)] one_time_refl
    by (fastforce simp: run_step_def split: sum.splits prod.splits)
  then obtain xs where xs: "one_time xs w w1" by blast
  show ?case
  proof (cases o1)
    case (Inl err)
    then show ?thesis using Cons.prems s xs by auto
  next
    case (Inr out)
    obtain r2 w2 where r2: "run_steps C D ss w1 = (r2, w2)" by fastforce
    with Cons.prems s Inr have "w' = w2" by (auto split: sum.splits)
    then show ?thesis using Cons.IH [OF r2] one_time_trans [OF xs] by blast
  qed
qed

end
