(* ===== verification/Pipeline_Audit.thy ===== *)
theory Pipeline_Audit
  imports Pipeline_Mediation
begin

text \<open>
  What a run of the pipeline does to the audit sink, stage by stage: every run that returns has
  appended exactly one record, and the record is about the decision that the run returns.
\<close>


section \<open>The audit trail of a run\<close>

text \<open>
  What a run does to the sink. A run that returns has appended exactly one record, for the
  decision it returns; a run that rejects has left the sink alone or its append threw.
\<close>

definition audited ::
  "('r, 'p, 'd, 'e) deps \<Rightarrow> PipelineRequest \<Rightarrow> PipelineOutcome \<Rightarrow> 'd \<Rightarrow> 'd \<Rightarrow> bool" where
  "audited D q out s s' \<longleftrightarrow>
     (\<exists>oc now pr vr n n'.
        ais_append (d_auditSink D) (pipeline_audit_input q (po_decision out) oc now pr vr) n s =
          ((Inr (po_audit out), n'), s') \<and>
        (oc = VERIFIED \<longleftrightarrow> po_status out = Executed) \<and>
        (po_status out = Executed \<longleftrightarrow> dec_status (po_decision out) = Allow))"

definition audit_step ::
  "('r, 'p, 'd, 'e) deps \<Rightarrow> PipelineRequest \<Rightarrow> PipelineOutcome result \<Rightarrow> 'd \<Rightarrow> 'd \<Rightarrow> bool" where
  "audit_step D q r s s' =
     (case r of
        Inr out \<Rightarrow> audited D q out s s'
      | Inl err \<Rightarrow> s' = s \<or> (\<exists>input n n'. ais_append (d_auditSink D) input n s = ((Inl err, n'), s')))"

lemma audit_step_Inl [simp]: "audit_step D q (Inl err) s s"
  by (simp add: audit_step_def)

lemma audit_step_InrI:
  assumes "ais_append (d_auditSink D) (pipeline_audit_input q (po_decision out) oc now pr vr) n s = ((Inr (po_audit out), n'), s')"
    and "oc = VERIFIED \<longleftrightarrow> po_status out = Executed" "po_status out = Executed \<longleftrightarrow> dec_status (po_decision out) = Allow"
  shows "audit_step D q (Inr out) s s'"
  unfolding audit_step_def audited_def sum.case using assms by blast

lemma appendAudit_sink:
  assumes "appendAudit D q d oc now pr vr w = (r, w')"
  obtains n n' where "ais_append (d_auditSink D) (pipeline_audit_input q d oc now pr vr) n (w_sink w) = ((r, n'), w_sink w')"
proof -
  obtain a n' s where "ais_append (d_auditSink D) (pipeline_audit_input q d oc now pr vr) (w_draws w) (w_sink w) = ((a, n'), s)"
    by (metis prod.collapse)
  then show thesis using assms that by (auto simp: appendAudit_def)
qed

lemma finish_audit:
  assumes "finish D q st d oc now pr w = (r, w')" "dec_status d \<noteq> Allow" "oc \<noteq> VERIFIED"
  shows "audit_step D q r (w_sink w) (w_sink w')"
proof -
  obtain a w1 where a: "appendAudit D q d oc now pr None w = (a, w1)" by fastforce
  then obtain n n' where
    s: "ais_append (d_auditSink D) (pipeline_audit_input q d oc now pr None) n (w_sink w) = ((a, n'), w_sink w1)"
    by (rule appendAudit_sink)
  show ?thesis
  proof (cases a)
    case (Inl err)
    then have "r = Inl err" "w' = w1" using assms(1) a by (simp_all add: finish_def)
    then show ?thesis using s Inl by (auto simp: audit_step_def)
  next
    case (Inr env)
    then obtain out where "r = Inr out" "w' = w1" "po_decision out = d" "po_audit out = env" "po_status out = Decided (dec_status d)"
      using assms(1) a by (auto simp: finish_def)
    then show ?thesis using s Inr assms(2,3) audit_step_InrI [of D q out oc now pr None] by fastforce
  qed
qed

lemma execute_audit:
  assumes "execute_and_verify C D q a p c w = (r, w')"
  shows "audit_step D q r (w_sink w) (w_sink w')"
proof -
  obtain execNow w1 where c: "clock_now D w = (execNow, w1)" by fastforce
  obtain res w2 where x: "runExecutor D a p c (maxExecutionTimeMs (pq_runtimeConstraints q)) w1 = (res, w2)" by fastforce
  have sk: "w_sink w2 = w_sink w"
    using x c runExecutor_frame(3) [of D a p c "maxExecutionTimeMs (pq_runtimeConstraints q)" w1] clock_now_frame(4) [of D w]
    by simp
  define v where "v \<longleftrightarrow> xe_status res = SUCCEEDED \<and> xe_permitId res = cl_permitId (sp_claims p) \<and> xe_requestId res = ec_requestId c"
  define di where "di = \<lparr> di_stage = Verification, di_status = (if v then Allow else Deny),
              di_reasonCode = (if v then ''execution_verified'' else ''execution_verification_failed''),
              di_humanReadableReason = (if v then ''Execution completed and verified.''
                                        else ''Execution result failed verification.''),
              di_nextRequiredAction = (if v then ''complete'' else ''investigate''),
              di_timestamp = execNow, di_policyReferences = None, di_evidence = None \<rparr>"
  obtain d n where d: "createDecision C di (w_draws w2) = (d, n)" by fastforce
  then have st: "dec_status d = (if v then Allow else Deny)"
    using createDecision_fields(1) [of C di "w_draws w2"] by (simp add: di_def)
  let ?vr = "Some (if v then ''verified'' else ''verification_failed:'' @ exec_status_text (xe_status res))"
  obtain b w3 where b: "appendAudit D q d (if v then VERIFIED else VERIFICATION_FAILED) execNow
      (Some (permitReference C p)) ?vr (w2\<lparr> w_draws := n \<rparr>) = (b, w3)" by fastforce
  then obtain m m' where s: "ais_append (d_auditSink D) (pipeline_audit_input q d (if v then VERIFIED else VERIFICATION_FAILED)
      execNow (Some (permitReference C p)) ?vr) m (w_sink w) = ((b, m'), w_sink w3)"
    using sk by (elim appendAudit_sink) simp
  have r: "(r, w') = (case b of
            Inl err \<Rightarrow> (Inl err, w3)
          | Inr audit \<Rightarrow>
              (Inr \<lparr> po_status = (if v then Executed else Decided Deny), po_terminalStage = Verification,
                     po_decision = d, po_audit = audit,
                     po_permitReference = Some (permitReference C p), po_result = Some res,
                     po_verified = Some v \<rparr>, w3))"
    using assms c x d b unfolding execute_and_verify_def Let_def v_def di_def by simp
  show ?thesis
  proof (cases b)
    case (Inl err)
    then show ?thesis using r s by (auto simp: audit_step_def)
  next
    case (Inr env)
    then obtain out where "r = Inr out" "w' = w3" "po_decision out = d" "po_audit out = env"
      "po_status out = (if v then Executed else Decided Deny)" using r by simp
    then show ?thesis using s st Inr by (auto intro!: audit_step_InrI split: if_splits)
  qed
qed

lemma final_deny_status: "fst (final_deny C st c m now w) = Inr g \<Longrightarrow> dec_status (fr_decision g) = st"
  by (auto simp: final_deny_def Let_def case_prod_beta)

lemma final_gate_refuses:
  assumes "evaluateFinalGate C D i w = (Inr g, w')" "fr_authorization g = None"
  shows "dec_status (fr_decision g) \<noteq> Allow"
proof -
  have fd: "dec_status (fr_decision g) \<noteq> Allow" if "final_deny C st c m now v = (Inr g, w')" "st \<noteq> Allow" for st c m now v
    using final_deny_status [of C st c m now v g] that by simp
  have fg: "final_grant C i v \<noteq> (Inr g, w')" for v using final_grant_result [of C i v] assms(2) by auto
  have fa: "dec_status (fr_decision g) \<noteq> Allow" if "final_approval C D i v = (Inr g, w')" for v
    using that fg by (auto simp: final_approval_def Let_def split: if_splits option.splits prod.splits sum.splits dest: fd)
  show ?thesis
    using assms(1)
    by (auto simp: evaluateFinalGate_def Let_def split: if_splits PermitVerifyResult.splits prod.splits sum.splits
        dest: fd fa)
qed

lemma identity_stages_Inl:
  assumes "identity_stages C D q now n = (Inl h, n')"
  shows "dec_status (h_decision h) \<noteq> Allow \<and> h_outcome h \<noteq> VERIFIED"
  using assms
  by (auto simp: identity_stages_def unsafe_halt_def halt_with_def deny_decision_def Let_def case_prod_beta
      split: if_splits option.splits)

lemma decision_stages_Inl:
  assumes "decision_stages C q i now n = (Inl h, n')"
  shows "dec_status (h_decision h) \<noteq> Allow \<and> h_outcome h \<noteq> VERIFIED"
  using assms
  by (auto simp: decision_stages_def halt_with_def deny_decision_def Let_def case_prod_beta
      split: ExecutionContextResult.splits if_splits ApprovalGateStatus.splits)

lemma gated_audit:
  assumes "gated_execution C D q ctx pd ap permit now w = (r, w')"
  shows "audit_step D q r (w_sink w) (w_sink w')"
proof -
  obtain sg h where s: "isolation_stage q ctx (w_iso w) = (sg, h)" by fastforce
  show ?thesis
  proof (cases "ibd_status sg = Iso_allowed")
    case False
    obtain d n where d: "deny_decision C Runtime_isolation_stage Runtime_rejected ''runtime_isolation_denied''
        (ibd_reason sg) now (w_draws w) = (d, n)" by fastforce
    have "finish D q Runtime_isolation_stage d RUNTIME_REJECTED now None (w\<lparr> w_iso := h, w_draws := n \<rparr>) = (r, w')"
      using assms s d False by (simp add: gated_execution_def)
    moreover have "dec_status d = Runtime_rejected" using d createDecision_fields(1) by (metis DecisionInput.select_convs(2) deny_decision_def fst_conv)
    ultimately show ?thesis using finish_audit [of D q Runtime_isolation_stage d RUNTIME_REJECTED now None] by fastforce
  next
    case True
    obtain priors n where pr: "prior_decisions C pd (ge_reasonCode ap) now (w_draws w) = (priors, n)" by fastforce
    let ?i = "final_input C D priors permit ctx ap now" and ?w1 = "w\<lparr> w_iso := h, w_draws := n \<rparr>"
    obtain g w2 where fg: "evaluateFinalGate C D ?i ?w1 = (g, w2)" by fastforce
    have sk: "w_sink w2 = w_sink w" using final_gate_frame(2) [of C D ?i ?w1] fg by simp
    have G: "(r, w') = (case g of Inl err \<Rightarrow> (Inl err, w2)
        | Inr gate \<Rightarrow> (case fr_authorization gate of
            None \<Rightarrow> finish D q Final_gate (fr_decision gate) (gate_outcome (dec_status (fr_decision gate))) now
                     (Some (permitReference C permit)) w2
          | Some a \<Rightarrow> if dec_status (fr_decision gate) \<noteq> Allow
              then finish D q Final_gate (fr_decision gate) (gate_outcome (dec_status (fr_decision gate))) now
                     (Some (permitReference C permit)) w2
              else execute_and_verify C D q a permit ctx w2))"
      using assms s True pr fg by (simp add: gated_execution_def)
    have go: "gate_outcome x \<noteq> VERIFIED" for x by (simp add: gate_outcome_def)
    show ?thesis
    proof (cases g)
      case (Inl err)
      then show ?thesis using G sk by simp
    next
      case (Inr gate)
      show ?thesis
      proof (cases "dec_status (fr_decision gate) = Allow")
        case True
        then obtain a where "fr_authorization gate = Some a"
          using final_gate_refuses [OF fg [unfolded Inr]] by (cases "fr_authorization gate") auto
        then have "execute_and_verify C D q a permit ctx w2 = (r, w')" using G Inr True by simp
        from execute_audit [OF this] show ?thesis by (simp add: sk)
      next
        case False
        then have "finish D q Final_gate (fr_decision gate) (gate_outcome (dec_status (fr_decision gate))) now
            (Some (permitReference C permit)) w2 = (r, w')"
          using G Inr by (simp split: option.splits)
        from finish_audit [OF this False go] show ?thesis by (simp add: sk)
      qed
    qed
  qed
qed

lemma run_audit:
  assumes "run C D q w = (r, w')"
  shows "audit_step D q r (w_sink w) (w_sink w')"
proof -
  define now where "now = d_clock D (w_reads w)"
  define v where "v = w\<lparr> w_reads := Suc (w_reads w) \<rparr>"
  have cn: "clock_now D w = (now, v)" by (simp add: clock_now_def now_def v_def)
  have wv: "w_draws v = w_draws w" "w_sink v = w_sink w" by (simp_all add: v_def)
  obtain i n where isg: "identity_stages C D q now (w_draws w) = (i, n)" by fastforce
  show ?thesis
  proof (cases i)
    case (Inl hlt)
    then have "finish D q (h_stage hlt) (h_decision hlt) (h_outcome hlt) now None (v\<lparr> w_draws := n \<rparr>) = (r, w')"
      using assms isg cn wv by (simp add: run_def)
    from finish_audit [OF this] identity_stages_Inl [OF isg [unfolded Inl]] show ?thesis by (simp add: wv)
  next
    case (Inr ident)
    obtain d n1 where ds: "decision_stages C q ident now n = (d, n1)" by fastforce
    show ?thesis
    proof (cases d)
      case (Inl hlt)
      then have "finish D q (h_stage hlt) (h_decision hlt) (h_outcome hlt) now None (v\<lparr> w_draws := n1 \<rparr>) = (r, w')"
        using assms isg Inr ds cn wv by (simp add: run_def)
      from finish_audit [OF this] decision_stages_Inl [OF ds [unfolded Inl]] show ?thesis by (simp add: wv)
    next
      case (Inr t)
      obtain ctx pd ap where t: "t = (ctx, pd, ap)" by (cases t) auto
      show ?thesis
      proof (cases "permit_expiry D now")
        case (Inl err)
        then show ?thesis using assms isg \<open>i = Inr ident\<close> ds Inr t cn wv by (auto simp: run_def)
      next
        case (Inr e)
        obtain permit n2 where iss: "issue C (d_issuer D) (issue_input C q ctx pd ap now e) n1 = (permit, n2)" by fastforce
        have "gated_execution C D q ctx pd ap permit now (v\<lparr> w_draws := n2 \<rparr>) = (r, w')"
          using assms isg \<open>i = Inr ident\<close> ds \<open>d = Inr t\<close> t Inr iss cn wv by (simp add: run_def)
        from gated_audit [OF this] show ?thesis by (simp add: wv)
      qed
    qed
  qed
qed

end
