(* ===== verification/Pipeline_Liveness.thy ===== *)
theory Pipeline_Liveness
  imports Pipeline_Mediation
begin

text \<open>
  The other direction of mediation: with the in-memory stores and an executor that succeeds, a
  request that has all its proofs, an allowing policy and a usable approval is executed.
\<close>


section \<open>Liveness\<close>

lemma isolation_allowed:
  assumes "valid_context (pq_osforgeContext q)" "isNonEmptyString (pq_executionId q)"
    and "createExecutionContext (context_input q i now) = ContextOk ctx"
  shows "ibd_status (fst (isolation_stage q ctx h)) = Iso_allowed"
proof -
  have f: "validateRuntimeFields (runtime_context (pq_osforgeContext q) (pq_executionId q)) = None"
    using assms(1,2)
    by (cases "actor_type (ctx_actor (pq_osforgeContext q))")
      (simp_all add: validateRuntimeFields_def runtime_context_def valid_context_iff isRuntimeActorType_def
        actor_type_text_def isNonEmptyString_Cons is_ws_def)
  note c = createExecutionContext_Ok [OF assms(3)]
  show ?thesis
    using f assms(1) c(6-9)
    by (simp add: isolation_stage_def Let_def createRuntimeIsolationContext_def valid_context_def
        evaluateIsolationBoundary_def validateRuntimeIsolationBoundary_def validateExpectedBinding_def differs_def
        createExecutionIdentity_def brand_decision_def context_input_def runtime_context_def)
qed

lemma allow_decisions_allowed: "list_all isAllow (fst (allow_decisions C xs now n))"
proof (induction xs arbitrary: n)
  case (Cons x xs)
  then show ?case by (cases x) (simp add: Let_def case_prod_beta allow_decision_def isAllow_def)
qed simp

lemma prior_decisions_allowed:
  "dec_status pd = Allow \<Longrightarrow> allAllowed (fst (prior_decisions C pd code now n))"
  using allow_decisions_allowed
  by (simp add: prior_decisions_def allAllowed_def Let_def case_prod_beta isAllow_def del: allow_decisions.simps)

text \<open>A test wiring: the in-memory stores of the package and an executor that succeeds.\<close>

definition in_memory :: "crypto \<Rightarrow> (replay_claims, approval_store, audit_log, 'e) deps \<Rightarrow> bool" where
  "in_memory C D \<longleftrightarrow>
     d_mode D = Test \<and> in_memory_stores D \<and> d_auditSink D = InMemoryAppendOnlyAuditSink C \<and>
     isNonEmptyString (key_id (d_issuer D))"

definition well_behaved :: "(SecureExecutionRequest \<Rightarrow> 'e \<Rightarrow> executor_reply \<times> 'e) \<Rightarrow> bool" where
  "well_behaved x \<longleftrightarrow>
     (\<forall>r e. \<exists>env. fst (x r e) = Returned env \<and> xe_status env = SUCCEEDED \<and>
              xe_permitId env = cl_permitId (sp_claims (xr_permit r)) \<and> xe_requestId env = ec_requestId (xr_context r))"

lemma execute_succeeds:
  assumes "in_memory C D" "well_behaved (d_executor D)" "w_authorizations w a \<noteq> None"
  shows "\<exists>out w'. execute_and_verify C D q a p c w = (Inr out, w') \<and> po_status out = Executed"
proof -
  obtain execNow w1 where cn: "clock_now D w = (execNow, w1)" by fastforce
  have a1: "w_authorizations w1 a \<noteq> None" using cn clock_now_frame(5) [of D w] assms(3) by simp
  let ?m = "maxExecutionTimeMs (pq_runtimeConstraints q)"
  obtain res w2 where x: "runExecutor D a p c ?m w1 = (res, w2)" by fastforce
  have "xe_status res = SUCCEEDED \<and> xe_permitId res = cl_permitId (sp_claims p) \<and> xe_requestId res = ec_requestId c"
  proof -
    obtain env where "fst (d_executor D (exec_request a p c ?m) (w_executor w1)) = Returned env" "xe_status env = SUCCEEDED"
      "xe_permitId env = cl_permitId (sp_claims p)" "xe_requestId env = ec_requestId c"
      using assms(2) unfolding well_behaved_def exec_request_def
      by (metis SecureExecutionRequest.select_convs(2,3))
    then show ?thesis
      using x a1 unfolding runExecutor_def
      by (auto simp: Let_def case_prod_beta isExecutionAuthorization_def exec_request_def clock_now_def)
  qed
  then show ?thesis
    using cn x assms(1)
    by (simp add: execute_and_verify_def Let_def case_prod_beta appendAudit_def in_memory_def in_memory_stores_def
        InMemoryAppendOnlyAuditSink_def audit_append_def newId_def)
qed


lemma toISOString_nonempty: "toISOString t = Inr s \<Longrightarrow> isNonEmptyString s"
  using show_date_nonempty by (auto simp: toISOString_def split: if_splits)

text \<open>What a request needs to be executed by that wiring.\<close>

definition approval_ready :: "PipelineRequest \<Rightarrow> ExecutionContext \<Rightarrow> bool \<Rightarrow> string \<Rightarrow> approval_store \<Rightarrow> bool" where
  "approval_ready q ctx b now s \<longleftrightarrow>
     (isCriticalAction (pq_action q) \<or> b \<longrightarrow>
        (\<exists>a. pq_approval q = Some a \<and> approval_valid_for a (approval_input q ctx b now) \<and>
             (\<exists>r. approval_find (apr_approvalId a) s = Some r \<and> isFuture (apr_expiresAt r) now) \<and>
             apr_approvalId a \<notin> as_consumed s))"

definition request_ready ::
  "('r, approval_store, 'd, 'e) deps \<Rightarrow> PipelineRequest \<Rightarrow> string \<Rightarrow> approval_store \<Rightarrow> bool" where
  "request_ready D q now s \<longleftrightarrow>
     (\<exists>e i ctx t x. let pol = pe_decision (evaluatePolicies (pq_policy q)) in
        pq_edgeRequest q = Some e \<and> pq_verifiedIdentity q = Some i \<and> bindings_agree e i (pq_osforgeContext q) \<and>
        createExecutionContext (context_input q i now) = ContextOk ctx \<and>
        az_decision (authorize (pq_authorization q)) = AuthAllow \<and> pol \<noteq> DENY \<and>
        approval_ready q ctx (pol = REQUIRE_APPROVAL) now s \<and> isNonEmptyString (pq_executionId q) \<and>
        dateParse now = Some t \<and>
        toISOString (t + (case d_permitTtlMs D of Some ttl \<Rightarrow> ttl | None \<Rightarrow> DEFAULT_PERMIT_TTL_MS)) = Inr x \<and>
        0 < (case d_permitTtlMs D of Some ttl \<Rightarrow> ttl | None \<Rightarrow> DEFAULT_PERMIT_TTL_MS))"

lemma approval_ready_gate:
  assumes "approval_ready q ctx b now s"
  shows "ge_status (evaluateApprovalGate (approval_input q ctx b now)) = Gate_allow"
  using assms unfolding gate_allow_iff gate_required approval_ready_def by (auto simp: approval_input_def)

lemma approval_ready_consumes:
  assumes "approval_ready q ctx b now s" "ge_required (evaluateApprovalGate (approval_input q ctx b now))"
  shows "\<exists>a m s'. truthy (ge_approvalId (evaluateApprovalGate (approval_input q ctx b now))) = Some a \<and>
           approval_consume a now s = ((True, m), s')"
proof -
  let ?g = "evaluateApprovalGate (approval_input q ctx b now)"
  have "isCriticalAction (pq_action q) \<or> b" using assms(2) by (simp add: gate_required approval_input_def)
  then obtain a r where a: "pq_approval q = Some a" "isNonEmptyString (apr_approvalId a)"
    "as_approvals s (apr_approvalId a) = Some r" "isFuture (apr_expiresAt r) now" "apr_approvalId a \<notin> as_consumed s"
    using assms(1) by (auto simp: approval_ready_def approval_valid_for_def approval_find_def)
  have "ge_approvalId ?g = Some (apr_approvalId a)"
    using gate_allow_approvalId [OF approval_ready_gate [OF assms(1)] assms(2)] a(1) by (auto simp: approval_input_def)
  moreover have "apr_approvalId a \<noteq> []" using a(2) by blast
  ultimately show ?thesis using a(3-5) by (simp add: truthy_def approval_consume_def)
qed

lemma final_gate_grants:
  assumes "in_memory C D" "allAllowed priors"
    and "verifyPermit C (d_issuer D) (permit_json permit) (fg_bindings (final_input C D priors permit ctx ap now)) now = PermitOk"
    and "isReplayClaimKey (claim_key (sp_claims permit))" "isFuture (cl_expiresAt (sp_claims permit)) now"
    and "w_replay w (cl_permitId (sp_claims permit)) = None"
    and "ge_required ap \<Longrightarrow> \<exists>a m s'. truthy (ge_approvalId ap) = Some a \<and> approval_consume a now (w_approvals w) = ((True, m), s')"
  shows "\<exists>g a w'. evaluateFinalGate C D (final_input C D priors permit ctx ap now) w = (Inr g, w') \<and>
           fr_authorization g = Some a \<and> dec_status (fr_decision g) = Allow \<and> w_authorizations w' a \<noteq> None"
proof -
  let ?i = "final_input C D priors permit ctx ap now"
  obtain claim s where cl: "prs_claim (d_replayStore D) (claim_key (sp_claims permit)) (cl_expiresAt (sp_claims permit)) now (w_replay w)
      = (Inr claim, s)" "rcr_status claim = CLAIMED"
    using assms(1,4,5,6) by (simp add: in_memory_def in_memory_stores_def InMemoryPermitReplayStore_def replay_claim_def claim_key_def)
  have 1: "evaluateFinalGate C D ?i w = final_approval C D ?i (w\<lparr> w_replay := s \<rparr>)"
    using assms(1,2,3) cl by (simp add: evaluateFinalGate_def final_input_def in_memory_def in_memory_stores_def)
  have 2: "\<exists>v. final_approval C D ?i (w\<lparr> w_replay := s \<rparr>) = final_grant C ?i v"
  proof (cases "ge_required ap")
    case True
    then obtain a m s' where "truthy (ge_approvalId ap) = Some a" "approval_consume a now (w_approvals w) = ((True, m), s')"
      using assms(7) by blast
    then show ?thesis using True assms(1) by (auto simp: final_approval_def final_input_def in_memory_def in_memory_stores_def)
  next
    case False
    then show ?thesis by (auto simp: final_approval_def final_input_def)
  qed
  then obtain v where v: "final_approval C D ?i (w\<lparr> w_replay := s \<rparr>) = final_grant C ?i v" by blast
  obtain g a where "fst (final_grant C ?i v) = Inr g" "fr_authorization g = Some a" "dec_status (fr_decision g) = Allow"
    "w_authorizations (snd (final_grant C ?i v)) a \<noteq> None" using final_grant_result by blast
  then show ?thesis unfolding 1 v by (intro exI [of _ g] exI [of _ a] exI [of _ "snd (final_grant C ?i v)"]) (simp add: prod_eq_iff)
qed


lemma decision_stages_passes:
  assumes "createExecutionContext (context_input q i now) = ContextOk ctx"
    and "az_decision (authorize (pq_authorization q)) = AuthAllow" "pe_decision (evaluatePolicies (pq_policy q)) \<noteq> DENY"
    and "ge_status (evaluateApprovalGate (approval_input q ctx
           (pe_decision (evaluatePolicies (pq_policy q)) = REQUIRE_APPROVAL) now)) = Gate_allow"
  shows "\<exists>pd. decision_stages C q i now n = (Inr (ctx, pd, evaluateApprovalGate (approval_input q ctx
           (pe_decision (evaluatePolicies (pq_policy q)) = REQUIRE_APPROVAL) now)), Suc n) \<and> dec_status pd = Allow \<and>
           isNonEmptyString (dec_decisionId pd)"
  using assms
  by (simp add: decision_stages_def Let_def case_prod_beta createDecision_def newId_def isNonEmptyString_Cons is_ws_def)

lemma ready_permit:
  assumes "hex_digests C" "fresh_uuids C" "isNonEmptyString (key_id (d_issuer D))"
    and "createExecutionContext (context_input q i now) = ContextOk ctx" "isNonEmptyString (dec_decisionId pd)"
    and "dateParse now = Some t" "toISOString (t + ttl) = Inr x" "0 < ttl"
    and iss: "issue C (d_issuer D) (issue_input C q ctx pd ap now x) n = (permit, n')"
  shows "verifyPermit C (d_issuer D) (permit_json permit) (fg_bindings (final_input C D priors permit ctx ap now)) now = PermitOk"
    and "isReplayClaimKey (claim_key (sp_claims permit))" "isFuture (cl_expiresAt (sp_claims permit)) now"
    and "cl_permitId (sp_claims permit) = ''permit_'' @ randomUUID C n"
proof -
  note c = createExecutionContext_Ok [OF assms(4)] and f = issue_fields [OF iss]
  have v: "valid_context (pq_osforgeContext q)" using c(1) by (simp add: context_input_def)
  have ne: "isNonEmptyString (ec_requestId ctx)" "isNonEmptyString (ec_correlationId ctx)"
    "isNonEmptyString (ec_requestedAction ctx)" "isNonEmptyString now"
    "isNonEmptyString (rr_id (ec_resource ctx))" "isNonEmptyString (rr_type (ec_resource ctx))"
    "isNonEmptyString (ec_tenantId ctx)" "isNonEmptyString (ec_organizationId ctx)" "isNonEmptyString (ec_workspaceId ctx)"
    "isNonEmptyString (ec_actorId ctx)"
    using c v by (simp_all add: context_input_def missing_field_None_iff isValidResource_def valid_context_iff)
  have at: "isNonEmptyString (ec_actorType ctx)"
    unfolding c(10) by (cases "actor_type (ctx_actor (ei_osforgeContext (context_input q i now)))")
      (simp_all add: actor_type_text_def isNonEmptyString_Cons is_ws_def)
  have hx: "isNonEmptyString (hashExecutionContext C ctx)"
    using assms(1) by (simp add: hashExecutionContext_def hex_digests_def hex_digest_nonempty)
  let ?in = "issue_input C q ctx pd ap now x"
  have "list_all isNonEmptyString (input_strings ?in)"
    using ne at hx assms(5) toISOString_nonempty [OF assms(7)] by (simp add: input_strings_def issue_input_def)
  then have sg: "isSignedExecutionPermit (permit_json permit)" using issued_is_signed [OF iss assms(1-3)] by simp
  have fut: "isFuture x now" using toISOString_future [OF assms(6,7,8)] .
  then have "isFuture (pi_expiresAt ?in) now" by (simp add: issue_input_def)
  from issued_verifies [OF iss sg this]
  show "verifyPermit C (d_issuer D) (permit_json permit) (fg_bindings (final_input C D priors permit ctx ap now)) now = PermitOk"
    by (simp add: issue_bindings_def issue_input_def final_input_def)
  show "isFuture (cl_expiresAt (sp_claims permit)) now" using fut f(11) by (simp add: issue_input_def)
  show "cl_permitId (sp_claims permit) = ''permit_'' @ randomUUID C n" by (rule f(2))
  show "isReplayClaimKey (claim_key (sp_claims permit))"
    using ne f assms(2) by (simp add: isReplayClaimKey_def claim_key_def issue_input_def fresh_uuids_def
        isNonEmptyString_Cons is_ws_def)
qed

lemma ready_executes:
  assumes "hex_digests C" "fresh_uuids C" "in_memory C D" "well_behaved (d_executor D)"
    and "request_ready D q (d_clock D (w_reads w)) (w_approvals w)"
    and "w_replay w (''permit_'' @ randomUUID C (Suc (w_draws w))) = None"
  shows "\<exists>out w'. run C D q w = (Inr out, w') \<and> po_status out = Executed"
proof -
  define now where "now = d_clock D (w_reads w)"
  define ttl where "ttl = (case d_permitTtlMs D of Some ttl \<Rightarrow> ttl | None \<Rightarrow> DEFAULT_PERMIT_TTL_MS)"
  define b where "b = (pe_decision (evaluatePolicies (pq_policy q)) = REQUIRE_APPROVAL)"
  obtain e i ctx t x where r: "pq_edgeRequest q = Some e" "pq_verifiedIdentity q = Some i"
    "bindings_agree e i (pq_osforgeContext q)" "createExecutionContext (context_input q i now) = ContextOk ctx"
    "az_decision (authorize (pq_authorization q)) = AuthAllow" "pe_decision (evaluatePolicies (pq_policy q)) \<noteq> DENY"
    "approval_ready q ctx b now (w_approvals w)" "isNonEmptyString (pq_executionId q)"
    "dateParse now = Some t" "toISOString (t + ttl) = Inr x" "0 < ttl"
    using assms(5) unfolding request_ready_def Let_def now_def ttl_def b_def by blast
  define ap where "ap = evaluateApprovalGate (approval_input q ctx b now)"
  obtain pd where ds: "decision_stages C q i now (w_draws w) = (Inr (ctx, pd, ap), Suc (w_draws w))"
    "dec_status pd = Allow" "isNonEmptyString (dec_decisionId pd)"
    using decision_stages_passes [OF r(4-6)] approval_ready_gate [OF r(7)] unfolding ap_def b_def by blast
  have isg: "identity_stages C D q now (w_draws w) = (Inr i, w_draws w)"
    using r(1-3) assms(3) by (simp add: identity_stages_def in_memory_def in_memory_stores_def)
  have pe: "permit_expiry D now = Inr x" using r(9,10) by (simp add: permit_expiry_def ttl_def)
  obtain permit n2 where iss: "issue C (d_issuer D) (issue_input C q ctx pd ap now x) (Suc (w_draws w)) = (permit, n2)"
    by fastforce
  let ?v = "w\<lparr> w_reads := Suc (w_reads w), w_draws := n2 \<rparr>"
  have run: "run C D q w = gated_execution C D q ctx pd ap permit now ?v"
    using isg ds(1) pe iss by (simp add: run_def clock_now_def now_def)
  obtain sg h where sg: "isolation_stage q ctx (w_iso w) = (sg, h)" by fastforce
  have "valid_context (pq_osforgeContext q)" using createExecutionContext_Ok(1) [OF r(4)] by (simp add: context_input_def)
  then have al: "ibd_status sg = Iso_allowed" using isolation_allowed [OF _ r(8,4)] sg by (metis fst_conv)
  obtain priors n3 where pr: "prior_decisions C pd (ge_reasonCode ap) now n2 = (priors, n3)" by fastforce
  have pa: "allAllowed priors" using prior_decisions_allowed [OF ds(2)] pr by (metis fst_conv)
  have kid: "isNonEmptyString (key_id (d_issuer D))" using assms(3) by (simp add: in_memory_def in_memory_stores_def)
  note rp = ready_permit [OF assms(1,2) kid r(4) ds(3) r(9-11) iss]
  let ?v2 = "w\<lparr> w_reads := Suc (w_reads w), w_iso := h, w_draws := n3 \<rparr>"
  obtain g a w2 where fg: "evaluateFinalGate C D (final_input C D priors permit ctx ap now) ?v2 = (Inr g, w2)"
    "fr_authorization g = Some a" "dec_status (fr_decision g) = Allow" "w_authorizations w2 a \<noteq> None"
    using final_gate_grants [OF assms(3) pa rp(1-3), of ?v2] assms(6) rp(4)
      approval_ready_consumes [OF r(7)] unfolding ap_def by auto
  have "run C D q w = execute_and_verify C D q a permit ctx w2"
    unfolding run using sg al pr fg by (simp add: gated_execution_def)
  then show ?thesis using execute_succeeds [OF assms(3,4) fg(4)] by simp
qed

end
