(* ===== verification/Pipeline_Properties.thy ===== *)
theory Pipeline_Properties
  imports Pipeline_Audit Pipeline_Liveness
begin


text \<open>
  The properties of the pipeline as a whole, with a concrete wiring (a payment that needs an
  approval) on which each of them is applied.
\<close>

section \<open>A concrete wiring\<close>

definition demo_authorization :: AuthorizationRequest where
  "demo_authorization = (gr_authorization demo_gate_request)
     \<lparr> ar_action := ''payment'',
       ar_roles := [\<lparr> role_id = ''reader'', role_name = ''Reader'',
                      role_permissions = [\<lparr> perm_resourceType = ''doc'', perm_action = ''payment'',
                                            perm_tenantId = ''t1'', perm_workspaceId = None \<rparr>],
                      role_assignableTo = [HumanUser] \<rparr>] \<rparr>"

definition demo_request :: PipelineRequest where
  "demo_request =
     \<lparr> pq_edgeRequest = Some \<lparr> ve_contextTenantId = ''t1'', ve_contextWorkspaceId = ''w1'', ve_authenticationTenantId = ''t1'' \<rparr>,
       pq_verifiedIdentity = Some \<lparr> vi_subjectActorId = ''a1'', vi_subjectTenantId = ''t1'', vi_subjectWorkspaceId = Some ''w1'',
                                    vi_assuranceLevel = ''aal2'' \<rparr>,
       pq_osforgeContext = demo_context, pq_authorization = demo_authorization, pq_policy = gr_policy demo_gate_request,
       pq_requestId = ''r1'', pq_correlationId = ''c1'', pq_causationId = None, pq_sessionId = ''s1'',
       pq_action = ''payment'', pq_resource = \<lparr> rr_id = ''doc1'', rr_type = ''doc'' \<rparr>, pq_riskLevel = ''high'',
       pq_requiredStepUp = Aal2, pq_approval = Some demo_approval,
       pq_runtimeConstraints = \<lparr> maxExecutionTimeMs = 1000, allowedCapabilities = [], networkEgress = False \<rparr>,
       pq_executionId = ''x1'', pq_trace = None \<rparr>"

definition demo_executor :: "SecureExecutionRequest \<Rightarrow> unit \<Rightarrow> executor_reply \<times> unit" where
  "demo_executor x u =
     (Returned \<lparr> xe_requestId = ec_requestId (xr_context x), xe_permitId = cl_permitId (sp_claims (xr_permit x)),
                 xe_status = SUCCEEDED, xe_output = None, xe_error = None, xe_startedAt = [], xe_completedAt = [] \<rparr>, u)"

definition demo_deps :: "(replay_claims, approval_store, audit_log, unit) deps" where
  "demo_deps =
     \<lparr> d_mode = Test, d_clock = (\<lambda>n. ''2026-01-01T00:00:00.000Z''), d_issuer = demo_key,
       d_replayStore = InMemoryPermitReplayStore,
       d_consumeApproval = (\<lambda>a now s. map_prod Inr id (approval_consume a now s)),
       d_auditSink = InMemoryAppendOnlyAuditSink demo_crypto, d_executor = demo_executor, d_permitTtlMs = None \<rparr>"

definition demo_world :: "(replay_claims, approval_store, audit_log, unit) world" where
  "demo_world =
     \<lparr> w_replay = Map.empty, w_approvals = approval_register demo_approval empty_approvals,
       w_sink = empty_audit_log, w_executor = (), w_iso = empty_iso_heap, w_authorizations = Map.empty,
       w_nextAuthorization = 0, w_draws = 0, w_reads = 0, w_calls = [] \<rparr>"

lemma demo_ready: "request_ready demo_deps demo_request (d_clock demo_deps (w_reads demo_world)) (w_approvals demo_world)"
proof -
  let ?now = "''2026-01-01T00:00:00.000Z''"
  define i where "i = the (pq_verifiedIdentity demo_request)"
  define e where "e = the (pq_edgeRequest demo_request)"
  obtain ctx where c: "createExecutionContext (context_input demo_request i ?now) = ContextOk ctx"
  proof -
    have "case createExecutionContext (context_input demo_request i ?now) of ContextOk c \<Rightarrow> True | _ \<Rightarrow> False"
      unfolding i_def by code_simp
    then show thesis using that by (auto split: ExecutionContextResult.splits)
  qed
  have ctx: "ec_tenantId ctx = ''t1''" "ec_workspaceId ctx = ''w1''" "ec_actorId ctx = ''a1''" "rr_id (ec_resource ctx) = ''doc1''"
    using createExecutionContext_Ok [OF c] by (simp_all add: context_input_def demo_request_def demo_context_def)
  have az: "az_decision (authorize (pq_authorization demo_request)) = AuthAllow" by code_simp
  have pol: "pe_decision (evaluatePolicies (pq_policy demo_request)) = ALLOW" by code_simp
  have f: "isFuture ''2026-01-01T01:00:00.000Z'' ?now" by code_simp
  have ap: "approval_ready demo_request ctx False ?now (w_approvals demo_world)"
    by (auto simp: approval_ready_def approval_valid_for_def approval_input_def ctx demo_request_def demo_approval_def f
        isNonEmptyString_Cons is_ws_def demo_world_def approval_find_def approval_register_def empty_approvals_def
        meetsAuthenticationLevel_def AUTHENTICATION_LEVEL_RANK_def)
  have dp: "dateParse ?now = Some 1767225600000" by code_simp
  have ex: "toISOString 1767225900000 = Inr ''2026-01-01T00:05:00.000Z''" by code_simp
  have ne: "isNonEmptyString (pq_executionId demo_request)" by code_simp
  have bd: "bindings_agree e i (pq_osforgeContext demo_request)" unfolding e_def i_def by code_simp
  have cl: "d_clock demo_deps (w_reads demo_world) = ?now" "d_permitTtlMs demo_deps = None" by (simp_all add: demo_deps_def)
  have pr: "pq_edgeRequest demo_request = Some e" "pq_verifiedIdentity demo_request = Some i"
    by (simp_all add: e_def i_def demo_request_def)
  have t: "toISOString (1767225600000 + (case d_permitTtlMs demo_deps of Some ttl \<Rightarrow> ttl | None \<Rightarrow> DEFAULT_PERMIT_TTL_MS)) =
      Inr ''2026-01-01T00:05:00.000Z''" "0 < (case d_permitTtlMs demo_deps of Some ttl \<Rightarrow> ttl | None \<Rightarrow> DEFAULT_PERMIT_TTL_MS)"
    using ex by (simp_all add: cl DEFAULT_PERMIT_TTL_MS_def)
  show ?thesis
    unfolding request_ready_def Let_def cl(1)
    by (rule exI [of _ e], rule exI [of _ i], rule exI [of _ ctx], rule exI [of _ 1767225600000],
        rule exI [of _ "''2026-01-01T00:05:00.000Z''"])
      (use t in \<open>simp add: pr bd c az pol ap ne dp\<close>)
qed

lemma demo_wiring: "in_memory demo_crypto demo_deps" "in_memory_stores demo_deps" "well_behaved (d_executor demo_deps)"
  "d_auditSink demo_deps = InMemoryAppendOnlyAuditSink demo_crypto"
  by (simp_all add: in_memory_def in_memory_stores_def demo_deps_def demo_key_def well_behaved_def demo_executor_def
      isNonEmptyString_Cons is_ws_def)

lemma in_memory_append:
  assumes "ais_append (InMemoryAppendOnlyAuditSink C) i n log = ((Inr env, n'), log')"
  shows "al_entries log' = al_entries log @ [env] \<and> env_input env = i"
  using assms by (auto simp: InMemoryAppendOnlyAuditSink_def audit_append_def newId_def Let_def)

lemma demo_run:
  obtains out w' where "run demo_crypto demo_deps demo_request demo_world = (Inr out, w')" "po_status out = Executed"
  using ready_executes [OF demo_hex_digests demo_fresh_uuids demo_wiring(1,3) demo_ready]
  by (auto simp: demo_world_def)

section \<open>Properties\<close>



text \<open>
  C3. A run that returns has appended exactly one record to the audit sink, whatever it decided:
  the record carries the identifier, status and reason of the decision the run returns and the
  request's identity, its outcome is VERIFIED exactly when the run reports EXECUTED, and that
  exactly when the decision is ALLOW. A run that rejects has not touched the sink, or it rejects
  with the error of the sink's own append.
\<close>

theorem every_run_audited:
  assumes "run C D q w = (r, w')"
  shows "case r of
           Inr out \<Rightarrow>
             (\<exists>oc now pr vr n n'.
                ais_append (d_auditSink D) (pipeline_audit_input q (po_decision out) oc now pr vr) n (w_sink w) =
                  ((Inr (po_audit out), n'), w_sink w') \<and>
                (oc = VERIFIED \<longleftrightarrow> po_status out = Executed) \<and>
                (po_status out = Executed \<longleftrightarrow> dec_status (po_decision out) = Allow))
         | Inl err \<Rightarrow>
             w_sink w' = w_sink w \<or>
             (\<exists>input n n'. ais_append (d_auditSink D) input n (w_sink w) = ((Inl err, n'), w_sink w'))"
  using run_audit [OF assms] by (simp add: audit_step_def audited_def split: sum.splits)

theorem every_run_audited_witness:
  "\<exists>env. al_entries (w_sink (snd (run demo_crypto demo_deps demo_request demo_world))) = [env] \<and>
         au_outcome (env_input env) = VERIFIED \<and> au_decision (env_input env) = Allow \<and>
         au_requestId (env_input env) = ''r1''"
proof -
  obtain out w' where r: "run demo_crypto demo_deps demo_request demo_world = (Inr out, w')" "po_status out = Executed"
    by (rule demo_run)
  obtain oc now pr vr n n' where a: "ais_append (InMemoryAppendOnlyAuditSink demo_crypto)
      (pipeline_audit_input demo_request (po_decision out) oc now pr vr) n (w_sink demo_world) = ((Inr (po_audit out), n'), w_sink w')"
    "oc = VERIFIED" "dec_status (po_decision out) = Allow"
    using every_run_audited [OF r(1)] r(2) by (auto simp: demo_wiring(4))
  have "al_entries (w_sink demo_world) = []" by (simp add: demo_world_def empty_audit_log_def)
  then show ?thesis
    unfolding r(1) snd_conv using in_memory_append [OF a(1)] a(2,3)
    by (simp add: pipeline_audit_input_def demo_request_def)
qed

text \<open>
  C13. Liveness. In test mode, with the in-memory stores, an executor that succeeds and node's
  digests and identifiers behaving as documented, every request that carries agreeing proofs, a
  valid context, a grant, a policy that does not deny and, where one is needed, a valid approval
  that is registered and unused, is executed: the run returns and reports EXECUTED.
\<close>

theorem valid_request_executes:
  assumes "hex_digests C" "fresh_uuids C" "in_memory C D" "well_behaved (d_executor D)"
    and "request_ready D q (d_clock D (w_reads w)) (w_approvals w)"
    and "w_replay w (''permit_'' @ randomUUID C (Suc (w_draws w))) = None"
  shows "\<exists>out w'. run C D q w = (Inr out, w') \<and> po_status out = Executed"
  using ready_executes [OF assms] .

theorem valid_request_executes_witness:
  "\<exists>out w'. run demo_crypto demo_deps demo_request demo_world = (Inr out, w') \<and> po_status out = Executed"
  using valid_request_executes [OF demo_hex_digests demo_fresh_uuids demo_wiring(1,3) demo_ready]
  by (simp add: demo_world_def)

text \<open>
  C7. One-time authority across a whole plan. Whatever a planner returns, with the in-memory
  stores the executor calls of an orchestration carry pairwise different permits, none claimed
  before, and pairwise different approvals, none consumed before; an input that is not an intent
  is refused with nothing changed.
\<close>

theorem orchestrated_execution_one_time:
  assumes "in_memory_stores D" "orchestrate C D planner intent w = (r, w')"
  shows "(\<exists>xs. w_calls w' = w_calls w @ xs \<and>
            distinct (map call_permit xs) \<and> call_permit ` set xs \<inter> dom (w_replay w) = {} \<and>
            distinct (call_approvals xs) \<and> set (call_approvals xs) \<inter> as_consumed (w_approvals w) = {}) \<and>
         (\<not> isIntent intent \<longrightarrow> w' = w \<and> (\<exists>err. r = Inl err))"
proof -
  have "\<exists>xs. one_time xs w w'"
  proof (cases "isIntent intent")
    case True
    show ?thesis
    proof (cases "planner intent")
      case (Inl err)
      then show ?thesis using assms(2) True one_time_refl by (auto simp: orchestrate_def)
    next
      case (Inr plan)
      obtain r1 w1 where "run_steps C D (pl_steps plan) w = (r1, w1)" by fastforce
      then show ?thesis
        using assms(2) True Inr run_steps_one_time [OF assms(1)] by (auto simp: orchestrate_def split: sum.splits)
    qed
  next
    case False
    then show ?thesis using assms(2) one_time_refl by (auto simp: orchestrate_def)
  qed
  then show ?thesis using assms(2) by (auto simp: one_time_def once_def orchestrate_def)
qed

definition demo_plan :: SecureWorkflowPlan where
  "demo_plan = \<lparr> pl_intentId = ''i1'', pl_steps = [\<lparr> ps_stepId = ''s1'', ps_toRequest = Inr (JObj [], demo_request) \<rparr>] \<rparr>"

theorem orchestrated_execution_one_time_witness:
  "\<exists>x. w_calls (snd (orchestrate demo_crypto demo_deps (\<lambda>i. Inr demo_plan) (JObj [(''kind'', JStr ''intent'')]) demo_world)) = [x] \<and>
       distinct (call_approvals [x])"
proof -
  let ?i = "JObj [(''kind'', JStr ''intent'')]"
  obtain out w' where r: "run demo_crypto demo_deps demo_request demo_world = (Inr out, w')" "po_status out = Executed"
    by (rule demo_run)
  have "isIntent ?i" "assertIntentIsNotExecutable (JObj []) = Inr ()" by code_simp+
  then have orch: "orchestrate demo_crypto demo_deps (\<lambda>i. Inr demo_plan) ?i demo_world =
      (Inr (''i1'', [\<lparr> os_stepId = ''s1'', os_outcome = out \<rparr>]), w')"
    using r by (simp add: orchestrate_def demo_plan_def run_step_def)
  have "w_calls demo_world = []" by (simp add: demo_world_def)
  then show ?thesis
    using orchestrated_execution_one_time [OF demo_wiring(2) orch] run_mediated [OF r(1)] r(2) by (auto simp: orch)
qed


definition demo_read :: PipelineRequest where
  "demo_read = demo_request\<lparr> pq_action := ''read'', pq_authorization := gr_authorization demo_gate_request, pq_approval := None \<rparr>"

definition broken_clock :: "(replay_claims, approval_store, audit_log, unit) deps" where
  "broken_clock = demo_deps\<lparr> d_clock := (\<lambda>n. ''soon'') \<rparr>"


end
