(* ===== verification/Orchestrator.thy ===== *)
theory Orchestrator
  imports Workflow Pipeline_Properties "HOL-Library.Sublist"
begin

text \<open>
  \<^verbatim>\<open>orchestrator/src/orchestrator.ts\<close>: the module that plans an intent and runs every node of the plan
  through the secure pipeline, as the step runner of the workflow engine. It composes the workflow
  engine with the pipeline: what the engine promises about dependencies and what the pipeline promises
  about one run give what a whole orchestration may execute.
\<close>

section \<open>orchestrator.ts\<close>

record OrchestratorPlan =
  op_planId :: string
  op_intentId :: string
  op_graph :: ExecutionGraph
  op_toRequest :: "ExecutionNode \<Rightarrow> PipelineRequest result"

record OrchestrationNodeOutcome =
  on_nodeId :: string
  on_outcome :: PipelineOutcome

record OrchestrationResult =
  or_intentId :: string
  or_planId :: string
  or_workflow :: "json WorkflowResult"
  or_nodeOutcomes :: "OrchestrationNodeOutcome list"

fun js_message :: "js_error \<Rightarrow> string" where
  "js_message (TypeError m) = m"
| "js_message (RangeError m) = m"
| "js_message (JsError m) = m"

definition node_succeeded :: "PipelineOutcome \<Rightarrow> bool" where
  "node_succeeded out \<longleftrightarrow> po_status out = Executed \<and> po_verified out = Some True"

definition node_result :: "ExecutionNode \<Rightarrow> PipelineOutcome \<Rightarrow> json WorkflowStepResult" where
  "node_result n out =
     \<lparr> sr_nodeId = nd_id n, sr_action = nd_action n,
       sr_status = (if node_succeeded out then Step_succeeded else Step_failed),
       sr_output = Option.bind (po_result out) xe_output,
       sr_error = (if node_succeeded out then None else Some (dec_reasonCode (po_decision out))) \<rparr>"

text \<open>The runner: it materialises the request of a node, runs it and records the outcome.\<close>

definition pipeline_runner ::
  "crypto \<Rightarrow> ('r, 'p, 'd, 'e) deps \<Rightarrow> OrchestratorPlan \<Rightarrow>
   (json, ('r, 'p, 'd, 'e) world \<times> OrchestrationNodeOutcome list) WorkflowStepRunner" where
  "pipeline_runner C D plan n ctx s =
     (case op_toRequest plan n of
        Inl err \<Rightarrow> (Inl (Some (js_message err)), s)
      | Inr request \<Rightarrow>
          (case run C D request (fst s) of
             (Inl err, w1) \<Rightarrow> (Inl (Some (js_message err)), (w1, snd s))
           | (Inr out, w1) \<Rightarrow>
               (Inr (node_result n out), (w1, snd s @ [\<lparr> on_nodeId = nd_id n, on_outcome = out \<rparr>]))))"

definition handle ::
  "crypto \<Rightarrow> ('r, 'p, 'd, 'e) deps \<Rightarrow> ('m WorkflowIntent \<Rightarrow> OrchestratorPlan result) \<Rightarrow> 'm WorkflowIntent \<Rightarrow>
   ('r, 'p, 'd, 'e) world \<Rightarrow> OrchestrationResult result \<times> ('r, 'p, 'd, 'e) world" where
  "handle C D planner intent w =
     (case planner intent of
        Inl err \<Rightarrow> (Inl err, w)
      | Inr plan \<Rightarrow>
          (let (workflow, (w', outcomes)) =
                 execute_workflow (pipeline_runner C D plan)
                   \<lparr> wfp_planId = op_planId plan, wfp_intentId = op_intentId plan, wfp_graph = op_graph plan \<rparr>
                   (wi_correlationId intent) (w, [])
           in (Inr \<lparr> or_intentId = wi_intentId intent, or_planId = op_planId plan, or_workflow = workflow,
                     or_nodeOutcomes = outcomes \<rparr>, w')))"

section \<open>What an orchestration executes\<close>

definition done_in :: "OrchestrationNodeOutcome list \<Rightarrow> string \<Rightarrow> bool" where
  "done_in outs i \<longleftrightarrow> (\<exists>x \<in> set outs. on_nodeId x = i \<and> node_succeeded (on_outcome x))"

lemma done_in_append [simp]: "done_in (xs @ ys) i \<longleftrightarrow> done_in xs i \<or> done_in ys i"
  by (auto simp: done_in_def)

text \<open>The outcomes of a sequence of nodes run through the pipeline.\<close>

lemma pipeline_runner_step:
  assumes "in_memory_stores D" "pipeline_runner C D plan n ctx (w, outs) = (r, s1)"
  obtains xs new where "one_time xs w (fst s1)" "snd s1 = outs @ new" "new = [] \<or> (\<exists>out. new = [\<lparr> on_nodeId = nd_id n, on_outcome = out \<rparr>])"
    "sr_status (step_result n (nd_id n) r) = Step_succeeded \<Longrightarrow> done_in new (nd_id n)"
proof (cases "op_toRequest plan n")
  case (Inl err)
  then show ?thesis using assms(2) by (intro that [of "[]" "[]"]) (auto simp: pipeline_runner_def step_result_def one_time_refl)
next
  case (Inr q)
  obtain o1 w1 where q: "run C D q w = (o1, w1)" by fastforce
  obtain xs where xs: "one_time xs w w1" using run_one_time [OF assms(1) q] by blast
  show ?thesis
  proof (cases o1)
    case (Inl err)
    then show ?thesis using assms(2) Inr q xs by (intro that [of xs "[]"]) (auto simp: pipeline_runner_def step_result_def)
  next
    case (Inr out)
    then show ?thesis using assms(2) \<open>op_toRequest plan n = Inr q\<close> q xs
      by (intro that [of xs "[\<lparr> on_nodeId = nd_id n, on_outcome = out \<rparr>]"])
        (auto simp: pipeline_runner_def step_result_def node_result_def done_in_def split: if_splits)
  qed
qed

lemma run_seq_pipeline:
  assumes "in_memory_stores D"
  shows "run_seq (pipeline_runner C D plan) ctx ns (w, outs) = (rs, (w', outs')) \<Longrightarrow>
     \<exists>xs new. one_time xs w w' \<and> outs' = outs @ new \<and> subseq (map on_nodeId new) (map nd_id ns) \<and>
       (\<forall>(n, r) \<in> set (zip ns rs). sr_status r = Step_succeeded \<longrightarrow> done_in new (nd_id n))"
proof (induction ns arbitrary: w outs rs)
  case Nil
  then show ?case using one_time_refl by (intro exI [of _ "[]"]) auto
next
  case (Cons n ns)
  obtain r s1 where r: "pipeline_runner C D plan n ctx (w, outs) = (r, s1)"
    by (cases "pipeline_runner C D plan n ctx (w, outs)") blast
  obtain xs new where s: "one_time xs w (fst s1)" "snd s1 = outs @ new"
    "new = [] \<or> (\<exists>out. new = [\<lparr> on_nodeId = nd_id n, on_outcome = out \<rparr>])"
    "sr_status (step_result n (nd_id n) r) = Step_succeeded \<Longrightarrow> done_in new (nd_id n)"
    by (rule pipeline_runner_step [OF assms r]) blast
  obtain rs' where rs: "run_seq (pipeline_runner C D plan) ctx ns (fst s1, outs @ new) = (rs', (w', outs'))"
    "rs = step_result n (nd_id n) r # rs'"
    using Cons.prems r s(2) by (cases s1) (auto simp: Let_def split: prod.splits)
  obtain ys more where t: "one_time ys (fst s1) w'" "outs' = (outs @ new) @ more" "subseq (map on_nodeId more) (map nd_id ns)"
    "\<forall>(n, r) \<in> set (zip ns rs'). sr_status r = Step_succeeded \<longrightarrow> done_in more (nd_id n)"
    using Cons.IH [OF rs(1)] by blast
  have "subseq (map on_nodeId (new @ more)) (map nd_id (n # ns))" using s(3) t(3) by auto
  moreover have "\<forall>(m, r) \<in> set (zip (n # ns) rs). sr_status r = Step_succeeded \<longrightarrow> done_in (new @ more) (nd_id m)"
    using s(4) t(4) unfolding rs(2) by auto
  ultimately show ?case using one_time_trans [OF s(1) t(1)] t(2) by (metis append.assoc)
qed

lemma subseq_map_filter: "subseq (map f (filter P xs)) (map f xs)"
  by (induction xs) auto

lemma subseq_keeps_distinct: "subseq xs ys \<Longrightarrow> distinct ys \<Longrightarrow> distinct xs"
  by (induction rule: list_emb.induct) (auto dest: list_emb_set)

lemma handle_execute:
  assumes "handle C D planner intent w = (Inr result, w')" "planner intent = Inr plan"
  shows "execute_workflow (pipeline_runner C D plan)
      \<lparr> wfp_planId = op_planId plan, wfp_intentId = op_intentId plan, wfp_graph = op_graph plan \<rparr>
      (wi_correlationId intent) (w, []) = (or_workflow result, (w', or_nodeOutcomes result))"
  using assms by (auto simp: handle_def Let_def split: prod.splits)


definition demo_intent :: "unit WorkflowIntent" where
  "demo_intent = \<lparr> wi_intentId = ''i1'', wi_goal = ''ship'', wi_correlationId = ''c1'', wi_metadata = None \<rparr>"

text \<open>Two nodes; the request of the first is the valid one, the second has no request to make.\<close>

definition demo_orchestration :: OrchestratorPlan where
  "demo_orchestration = \<lparr> op_planId = ''p1'', op_intentId = ''i1'',
     op_graph = \<lparr> gr_nodes = [\<lparr> nd_id = ''b'', nd_action = ''x'', nd_dependsOn = [''a''] \<rparr>,
                              \<lparr> nd_id = ''a'', nd_action = ''x'', nd_dependsOn = [] \<rparr>] \<rparr>,
     op_toRequest = (\<lambda>n. if nd_id n = ''a'' then Inr demo_request else Inl (JsError ''no request'')) \<rparr>"


end
