(* ===== verification/Sandbox.thy ===== *)
theory Sandbox
  imports Runtime_Isolation Permit
begin

text \<open>
  The sandbox half of the package \<^verbatim>\<open>runtime-isolation\<close>: resource quotas, capability policies,
  provider attestations and providers. The inputs are untrusted objects: JSON values for their
  own data properties, addresses for the branded objects among them. The branded objects live in
  \<open>iso_heap\<close>. Shown: what the heap holds is well formed in every reachable state, so the brand
  checks of the code re-validate what the constructors ensured; policies deny by default; and
  exactly which providers are admitted.
\<close>

section \<open>Reading untrusted values\<close>

definition MAX_SAFE_INTEGER :: int where
  "MAX_SAFE_INTEGER = 9007199254740991"

definition isPositiveInteger :: "json option \<Rightarrow> int option" where
  "isPositiveInteger v =
     (case v of Some (JNum n) \<Rightarrow> if 0 < n \<and> n \<le> MAX_SAFE_INTEGER then Some n else None | _ \<Rightarrow> None)"

definition isSandboxCapability :: "json option \<Rightarrow> SandboxCapability option" where
  "isSandboxCapability v = (case v of Some (JStr s) \<Rightarrow> map_of SANDBOX_CAPABILITIES s | _ \<Rightarrow> None)"

definition isSandboxCapabilityDecision :: "json \<Rightarrow> SandboxCapabilityDecision option" where
  "isSandboxCapabilityDecision v =
     (if v = JStr ''ALLOW'' then Some Cap_allow else if v = JStr ''DENY'' then Some Cap_deny else None)"

definition isSandboxProviderType :: "json option \<Rightarrow> SandboxProviderType option" where
  "isSandboxProviderType v =
     (if v = Some (JStr ''testOnly'') then Some TestOnly
      else if v = Some (JStr ''localDevelopment'') then Some LocalDevelopment
      else if v = Some (JStr ''productionDistributed'') then Some ProductionDistributed else None)"

definition isSandboxProviderAttestationResult :: "json option \<Rightarrow> SandboxProviderAttestationResult option" where
  "isSandboxProviderAttestationResult v =
     (if v = Some (JStr ''TRUSTED'') then Some Trusted else if v = Some (JStr ''UNTRUSTED'') then Some Untrusted
      else if v = Some (JStr ''UNKNOWN'') then Some Unknown else None)"

definition isSandboxEnvironmentMode :: "json option \<Rightarrow> SandboxEnvironmentMode option" where
  "isSandboxEnvironmentMode v =
     (if v = Some (JStr ''test'') then Some Env_test else if v = Some (JStr ''development'') then Some Env_development
      else if v = Some (JStr ''staging'') then Some Env_staging
      else if v = Some (JStr ''production'') then Some Env_production else None)"

definition providerTypeMatchesEnvironment :: "SandboxProviderType \<Rightarrow> SandboxEnvironmentMode \<Rightarrow> bool" where
  "providerTypeMatchesEnvironment t e =
     (case t of TestOnly \<Rightarrow> e = Env_test | LocalDevelopment \<Rightarrow> e = Env_development
      | ProductionDistributed \<Rightarrow> e = Env_staging \<or> e = Env_production)"

text \<open>All elements are capabilities; none if one is not.\<close>

fun read_capabilities :: "json list \<Rightarrow> SandboxCapability list option" where
  "read_capabilities [] = Some []"
| "read_capabilities (v # vs) =
     (case (isSandboxCapability (Some v), read_capabilities vs) of (Some c, Some cs) \<Rightarrow> Some (c # cs) | _ \<Rightarrow> None)"

text \<open>The elements are distinct strings exactly when \<^verbatim>\<open>new Set(value).size\<close> is the length.\<close>

definition normalizeSandboxCapabilities :: "json option \<Rightarrow> SandboxCapability list option" where
  "normalizeSandboxCapabilities v =
     (case v of
        Some (JArr vs) \<Rightarrow> (case read_capabilities vs of Some cs \<Rightarrow> if distinct cs then Some cs else None | None \<Rightarrow> None)
      | _ \<Rightarrow> None)"

definition sameCapabilityList :: "SandboxCapability list \<Rightarrow> SandboxCapability list \<Rightarrow> bool" where
  "sameCapabilityList l r \<longleftrightarrow> length l = length r \<and> list_all (\<lambda>c. c \<in> set r) l"

definition read_timestamp :: "json option \<Rightarrow> string option" where
  "read_timestamp v = (case jstr v of Some s \<Rightarrow> if isValidTimestamp s then Some s else None | None \<Rightarrow> None)"

definition read_nonempty :: "json option \<Rightarrow> string option" where
  "read_nonempty v = (case jstr v of Some s \<Rightarrow> if isNonEmptyString s then Some s else None | None \<Rightarrow> None)"

section \<open>Quotas and policies\<close>

definition createRuntimeResourceQuota :: "json \<Rightarrow> iso_heap \<Rightarrow> ref option \<times> iso_heap" where
  "createRuntimeResourceQuota input h =
     (case (isPositiveInteger (jget ''maxCpuTimeMs'' input), isPositiveInteger (jget ''maxMemoryBytes'' input),
            isPositiveInteger (jget ''maxExecutionTimeMs'' input), isPositiveInteger (jget ''maxProcesses'' input)) of
        (Some a, Some b, Some c, Some d) \<Rightarrow>
          (Some (ih_next h),
           h\<lparr> runtimeResourceQuotas := (runtimeResourceQuotas h)
                (ih_next h \<mapsto> \<lparr> rq_maxCpuTimeMs = a, rq_maxMemoryBytes = b, rq_maxExecutionTimeMs = c, rq_maxProcesses = d \<rparr>),
              ih_next := Suc (ih_next h) \<rparr>)
      | _ \<Rightarrow> (None, h))"

definition positive_safe :: "int \<Rightarrow> bool" where
  "positive_safe n \<longleftrightarrow> 0 < n \<and> n \<le> MAX_SAFE_INTEGER"

definition isRuntimeResourceQuota :: "ref \<Rightarrow> iso_heap \<Rightarrow> bool" where
  "isRuntimeResourceQuota r h =
     (case runtimeResourceQuotas h r of
        None \<Rightarrow> False
      | Some q \<Rightarrow> positive_safe (rq_maxCpuTimeMs q) \<and> positive_safe (rq_maxMemoryBytes q) \<and>
                  positive_safe (rq_maxExecutionTimeMs q) \<and> positive_safe (rq_maxProcesses q))"

record SandboxPolicyInput =
  spi_capabilities :: "json option"
  spi_quota :: "ref option"

definition defaultSandboxCapabilities :: "SandboxCapability \<Rightarrow> SandboxCapabilityDecision" where
  "defaultSandboxCapabilities = (\<lambda>c. Cap_deny)"

text \<open>The loop over the entries; an unknown capability or decision ends it with nothing.\<close>

fun set_capabilities ::
  "(string \<times> json) list \<Rightarrow> (SandboxCapability \<Rightarrow> SandboxCapabilityDecision) \<Rightarrow>
   (SandboxCapability \<Rightarrow> SandboxCapabilityDecision) option" where
  "set_capabilities [] caps = Some caps"
| "set_capabilities ((k, v) # kvs) caps =
     (case (isSandboxCapability (Some (JStr k)), isSandboxCapabilityDecision v) of
        (Some c, Some d) \<Rightarrow> set_capabilities kvs (caps(c := d))
      | _ \<Rightarrow> None)"

definition read_capability_set :: "json option \<Rightarrow> (SandboxCapability \<Rightarrow> SandboxCapabilityDecision) option" where
  "read_capability_set v =
     (case v of
        None \<Rightarrow> Some defaultSandboxCapabilities
      | Some (JObj kvs) \<Rightarrow> set_capabilities kvs defaultSandboxCapabilities
      | Some _ \<Rightarrow> None)"

definition opt_quota_ok :: "ref option \<Rightarrow> iso_heap \<Rightarrow> bool" where
  "opt_quota_ok q h = (case q of None \<Rightarrow> True | Some r \<Rightarrow> isRuntimeResourceQuota r h)"

definition createSandboxPolicy :: "SandboxPolicyInput \<Rightarrow> iso_heap \<Rightarrow> ref option \<times> iso_heap" where
  "createSandboxPolicy input h =
     (if \<not> opt_quota_ok (spi_quota input) h then (None, h)
      else
        (case read_capability_set (spi_capabilities input) of
           None \<Rightarrow> (None, h)
         | Some caps \<Rightarrow>
             (Some (ih_next h),
              h\<lparr> sandboxPolicies := (sandboxPolicies h)
                   (ih_next h \<mapsto> \<lparr> sbp_capabilities = caps, sbp_quota = spi_quota input \<rparr>),
                 ih_next := Suc (ih_next h) \<rparr>)))"

definition createDefaultSandboxPolicy :: "iso_heap \<Rightarrow> ref option \<times> iso_heap" where
  "createDefaultSandboxPolicy h = createSandboxPolicy \<lparr> spi_capabilities = None, spi_quota = None \<rparr> h"

text \<open>The capability set of a policy is total by its type.\<close>

definition isSandboxPolicy :: "ref \<Rightarrow> iso_heap \<Rightarrow> bool" where
  "isSandboxPolicy r h = (case sandboxPolicies h r of None \<Rightarrow> False | Some p \<Rightarrow> opt_quota_ok (sbp_quota p) h)"

record SandboxCapabilityEvaluationRequest =
  sce_policy :: ref
  sce_capability :: "json option"
  sce_identity :: "ref option"
  sce_quota :: "ref option"

definition opt_identity_ok :: "ref option \<Rightarrow> iso_heap \<Rightarrow> bool" where
  "opt_identity_ok i h = (case i of None \<Rightarrow> True | Some r \<Rightarrow> isExecutionIdentity r h)"

definition evaluateSandboxCapability ::
  "SandboxCapabilityEvaluationRequest \<Rightarrow> iso_heap \<Rightarrow> IsolationDecisionStatus \<times> string \<times> SandboxCapability option" where
  "evaluateSandboxCapability q h =
     (case sandboxPolicies h (sce_policy q) of
        None \<Rightarrow> (Iso_denied, ''Sandbox policy is required.'', None)
      | Some p \<Rightarrow>
          if \<not> isSandboxPolicy (sce_policy q) h then (Iso_denied, ''Sandbox policy is required.'', None)
          else
            (case isSandboxCapability (sce_capability q) of
               None \<Rightarrow> (Iso_denied, ''Sandbox capability is missing or unknown.'', None)
             | Some c \<Rightarrow>
                 if \<not> opt_identity_ok (sce_identity q) h then
                   (Iso_denied, ''Sandbox identity binding is invalid.'', None)
                 else if \<not> opt_quota_ok (sce_quota q) h then
                   (Iso_denied, ''Runtime resource quota is malformed.'', None)
                 else if \<not> opt_quota_ok (sbp_quota p) h then
                   (Iso_denied, ''Sandbox policy quota is malformed.'', None)
                 else if sbp_capabilities p c = Cap_allow then
                   (Iso_allowed, ''Sandbox capability is explicitly allowed.'', Some c)
                 else (Iso_denied, ''Sandbox capability is denied by default.'', Some c)))"

section \<open>Attestations and providers\<close>

definition createSandboxProviderAttestation :: "json \<Rightarrow> iso_heap \<Rightarrow> ref option \<times> iso_heap" where
  "createSandboxProviderAttestation input h =
     (case (isSandboxProviderAttestationResult (jget ''result'' input), read_nonempty (jget ''providerId'' input),
            isSandboxProviderType (jget ''providerType'' input),
            isSandboxEnvironmentMode (jget ''environmentMode'' input),
            normalizeSandboxCapabilities (jget ''capabilities'' input), read_timestamp (jget ''attestedAt'' input)) of
        (Some res, Some pid, Some ty, Some env, Some caps, Some at) \<Rightarrow>
          if \<not> providerTypeMatchesEnvironment ty env then (None, h)
          else
            (Some (ih_next h),
             h\<lparr> sandboxProviderAttestations := (sandboxProviderAttestations h)
                  (ih_next h \<mapsto> \<lparr> att_result = res, att_providerId = pid, att_providerType = ty,
                                  att_environmentMode = env, att_capabilities = caps, att_attestedAt = at \<rparr>),
                ih_next := Suc (ih_next h) \<rparr>)
      | _ \<Rightarrow> (None, h))"

definition isSandboxProviderAttestation :: "ref \<Rightarrow> iso_heap \<Rightarrow> bool" where
  "isSandboxProviderAttestation r h =
     (case sandboxProviderAttestations h r of
        None \<Rightarrow> False
      | Some a \<Rightarrow> isNonEmptyString (att_providerId a) \<and>
                  providerTypeMatchesEnvironment (att_providerType a) (att_environmentMode a) \<and>
                  distinct (att_capabilities a) \<and> isValidTimestamp (att_attestedAt a))"

definition sandboxProviderAttestationMatches ::
  "SandboxProviderAttestation \<Rightarrow> string \<Rightarrow> SandboxProviderType \<Rightarrow> SandboxEnvironmentMode \<Rightarrow>
   SandboxCapability list \<Rightarrow> bool" where
  "sandboxProviderAttestationMatches a pid ty env caps \<longleftrightarrow>
     att_providerId a = pid \<and> att_providerType a = ty \<and> att_environmentMode a = env \<and>
     sameCapabilityList caps (att_capabilities a)"

text \<open>The input's own data properties and, separately, the object under \<^verbatim>\<open>attestation\<close>.\<close>

definition createSandboxProvider :: "json \<Rightarrow> ref option \<Rightarrow> iso_heap \<Rightarrow> ref option \<times> iso_heap" where
  "createSandboxProvider input attestation h =
     (case (read_nonempty (jget ''providerId'' input), isSandboxProviderType (jget ''providerType'' input),
            isSandboxEnvironmentMode (jget ''environmentMode'' input), read_timestamp (jget ''createdAt'' input),
            normalizeSandboxCapabilities (jget ''capabilities'' input), attestation) of
        (Some pid, Some ty, Some env, Some at, Some caps, Some ar) \<Rightarrow>
          if \<not> providerTypeMatchesEnvironment ty env then (None, h)
          else
            (case sandboxProviderAttestations h ar of
               None \<Rightarrow> (None, h)
             | Some a \<Rightarrow>
                 if \<not> isSandboxProviderAttestation ar h \<or> \<not> sandboxProviderAttestationMatches a pid ty env caps then
                   (None, h)
                 else
                   (Some (ih_next h),
                    h\<lparr> sandboxProviders := (sandboxProviders h)
                         (ih_next h \<mapsto> \<lparr> sbx_providerId = pid, sbx_providerType = ty, sbx_capabilities = caps,
                                         sbx_attestation = ar, sbx_environmentMode = env, sbx_createdAt = at \<rparr>),
                       ih_next := Suc (ih_next h) \<rparr>))
      | _ \<Rightarrow> (None, h))"

definition isSandboxProvider :: "ref \<Rightarrow> iso_heap \<Rightarrow> bool" where
  "isSandboxProvider r h =
     (case sandboxProviders h r of
        None \<Rightarrow> False
      | Some p \<Rightarrow>
          isNonEmptyString (sbx_providerId p) \<and> isValidTimestamp (sbx_createdAt p) \<and>
          providerTypeMatchesEnvironment (sbx_providerType p) (sbx_environmentMode p) \<and>
          distinct (sbx_capabilities p) \<and> isSandboxProviderAttestation (sbx_attestation p) h \<and>
          (case sandboxProviderAttestations h (sbx_attestation p) of
             None \<Rightarrow> False
           | Some a \<Rightarrow> sandboxProviderAttestationMatches a (sbx_providerId p) (sbx_providerType p)
                         (sbx_environmentMode p) (sbx_capabilities p)))"

record SandboxProviderEvaluationRequest =
  spe_provider :: ref
  spe_policy :: ref
  spe_capability :: "json option"
  spe_environmentMode :: "json option"
  spe_identity :: "ref option"
  spe_quota :: "ref option"

definition denied_provider :: "string \<Rightarrow> IsolationDecisionStatus \<times> string \<times> string option \<times> SandboxCapability option" where
  "denied_provider reason = (Iso_denied, reason, None, None)"

definition evaluateSandboxProvider ::
  "SandboxProviderEvaluationRequest \<Rightarrow> iso_heap \<Rightarrow>
   IsolationDecisionStatus \<times> string \<times> string option \<times> SandboxCapability option" where
  "evaluateSandboxProvider q h =
     (case isSandboxEnvironmentMode (spe_environmentMode q) of
        None \<Rightarrow> denied_provider ''Sandbox environment mode is malformed.''
      | Some env \<Rightarrow>
     (case sandboxProviders h (spe_provider q) of
        None \<Rightarrow> denied_provider ''Sandbox provider is required.''
      | Some p \<Rightarrow>
     (case sandboxProviderAttestations h (sbx_attestation p) of
        None \<Rightarrow> denied_provider ''Sandbox provider is required.''
      | Some a \<Rightarrow>
          if \<not> isSandboxProvider (spe_provider q) h then denied_provider ''Sandbox provider is required.''
          else if sbx_environmentMode p \<noteq> env then denied_provider ''Sandbox provider environment mismatch.''
          else if env = Env_production \<and> sbx_providerType p \<noteq> ProductionDistributed then
            denied_provider ''Production requires distributed sandbox provider.''
          else if att_result a \<noteq> Trusted then denied_provider ''Sandbox provider attestation is not trusted.''
          else
            (case isSandboxCapability (spe_capability q) of
               None \<Rightarrow> denied_provider ''Sandbox capability is missing or unknown.''
             | Some c \<Rightarrow>
                 if c \<notin> set (sbx_capabilities p) \<or> c \<notin> set (att_capabilities a) then
                   denied_provider ''Sandbox provider does not support capability.''
                 else if fst (evaluateSandboxCapability
                           \<lparr> sce_policy = spe_policy q, sce_capability = spe_capability q,
                             sce_identity = spe_identity q, sce_quota = spe_quota q \<rparr> h) \<noteq> Iso_allowed then
                   (Iso_denied, ''Sandbox policy denied provider capability.'', Some (sbx_providerId p), None)
                 else
                   (Iso_allowed, ''Sandbox provider boundary is trusted and policy allowed capability.'',
                    Some (sbx_providerId p), Some c)))))"

section \<open>Reachable heaps\<close>

text \<open>
  The operations of the package that touch the sandbox objects, from any heap that holds none,
  interleaved with steps of the other operations, which may allocate but keep these objects.
\<close>

definition same_sandbox :: "iso_heap \<Rightarrow> iso_heap \<Rightarrow> bool" where
  "same_sandbox h h' \<longleftrightarrow>
     runtimeResourceQuotas h' = runtimeResourceQuotas h \<and> sandboxPolicies h' = sandboxPolicies h \<and>
     sandboxProviderAttestations h' = sandboxProviderAttestations h \<and> sandboxProviders h' = sandboxProviders h \<and>
     ih_next h \<le> ih_next h'"

inductive sandbox_reach :: "iso_heap \<Rightarrow> bool" where
  sb_start: "sandbox_reach empty_iso_heap"
| sb_quota: "sandbox_reach h \<Longrightarrow> sandbox_reach (snd (createRuntimeResourceQuota i h))"
| sb_policy: "sandbox_reach h \<Longrightarrow> sandbox_reach (snd (createSandboxPolicy p h))"
| sb_attestation: "sandbox_reach h \<Longrightarrow> sandbox_reach (snd (createSandboxProviderAttestation i h))"
| sb_provider: "sandbox_reach h \<Longrightarrow> sandbox_reach (snd (createSandboxProvider i a h))"
| sb_other: "sandbox_reach h \<Longrightarrow> same_sandbox h h' \<Longrightarrow> sandbox_reach h'"

lemma other_operations_same_sandbox:
  "same_sandbox h (h\<lparr> ih_gate := g \<rparr>)" "same_sandbox h (snd (createRuntimeIsolationContext c x h))"
  "same_sandbox h (snd (createExecutionIdentity v h))" "same_sandbox h (snd (evaluateIsolationBoundary v e h))"
  "same_sandbox h (snd (createRuntimeExecutionPermit q h))"
  "same_sandbox h (fst (snd (evaluateRuntimeExecutionGate p i now mode prov (h, s))))"
proof -
  show "same_sandbox h (h\<lparr> ih_gate := g \<rparr>)" by (simp add: same_sandbox_def)
  show "same_sandbox h (snd (createRuntimeIsolationContext c x h))"
    by (simp add: same_sandbox_def createRuntimeIsolationContext_def Let_def)
  show "same_sandbox h (snd (createExecutionIdentity v h))"
    by (simp add: same_sandbox_def createExecutionIdentity_def)
  show "same_sandbox h (snd (evaluateIsolationBoundary v e h))"
    by (simp add: same_sandbox_def evaluateIsolationBoundary_def createExecutionIdentity_def brand_decision_def
        split: RuntimeIsolationValidationResult.splits)
  show "same_sandbox h (snd (createRuntimeExecutionPermit q h))"
    by (simp add: same_sandbox_def createRuntimeExecutionPermit_def split: option.splits)
  show "same_sandbox h (fst (snd (evaluateRuntimeExecutionGate p i now mode prov (h, s))))"
    by (simp add: same_sandbox_def evaluateRuntimeExecutionGate_def Let_def case_prod_beta split: option.splits)
qed

definition good_quota :: "RuntimeResourceQuota \<Rightarrow> bool" where
  "good_quota q \<longleftrightarrow> positive_safe (rq_maxCpuTimeMs q) \<and> positive_safe (rq_maxMemoryBytes q) \<and>
     positive_safe (rq_maxExecutionTimeMs q) \<and> positive_safe (rq_maxProcesses q)"

definition good_attestation :: "SandboxProviderAttestation \<Rightarrow> bool" where
  "good_attestation a \<longleftrightarrow> isNonEmptyString (att_providerId a) \<and>
     providerTypeMatchesEnvironment (att_providerType a) (att_environmentMode a) \<and>
     distinct (att_capabilities a) \<and> isValidTimestamp (att_attestedAt a)"

definition good_provider :: "iso_heap \<Rightarrow> SandboxProvider \<Rightarrow> bool" where
  "good_provider h p \<longleftrightarrow> isNonEmptyString (sbx_providerId p) \<and> isValidTimestamp (sbx_createdAt p) \<and>
     providerTypeMatchesEnvironment (sbx_providerType p) (sbx_environmentMode p) \<and> distinct (sbx_capabilities p) \<and>
     (\<exists>a. sandboxProviderAttestations h (sbx_attestation p) = Some a \<and>
          att_providerId a = sbx_providerId p \<and> att_providerType a = sbx_providerType p \<and>
          att_environmentMode a = sbx_environmentMode p \<and> set (att_capabilities a) = set (sbx_capabilities p))"

definition sandbox_inv :: "iso_heap \<Rightarrow> bool" where
  "sandbox_inv h \<longleftrightarrow>
     (\<forall>r q. runtimeResourceQuotas h r = Some q \<longrightarrow> good_quota q \<and> r < ih_next h) \<and>
     (\<forall>r p. sandboxPolicies h r = Some p \<longrightarrow>
        (case sbp_quota p of None \<Rightarrow> True | Some k \<Rightarrow> runtimeResourceQuotas h k \<noteq> None)) \<and>
     (\<forall>r a. sandboxProviderAttestations h r = Some a \<longrightarrow> good_attestation a \<and> r < ih_next h) \<and>
     (\<forall>r p. sandboxProviders h r = Some p \<longrightarrow> good_provider h p)"

lemma isPositiveInteger_Some: "isPositiveInteger v = Some n \<Longrightarrow> positive_safe n"
  by (auto simp: isPositiveInteger_def positive_safe_def split: option.splits json.splits if_splits)

lemma normalize_Some: "normalizeSandboxCapabilities v = Some cs \<Longrightarrow> distinct cs"
  by (auto simp: normalizeSandboxCapabilities_def split: option.splits json.splits if_splits)

lemma read_timestamp_Some: "read_timestamp v = Some s \<Longrightarrow> isValidTimestamp s"
  by (auto simp: read_timestamp_def split: option.splits if_splits)

lemma read_nonempty_Some: "read_nonempty v = Some s \<Longrightarrow> isNonEmptyString s"
  by (auto simp: read_nonempty_def split: option.splits if_splits)

lemmas read_Some = isPositiveInteger_Some normalize_Some read_timestamp_Some read_nonempty_Some

lemma sameCapabilityList_set:
  assumes "distinct l" "distinct r"
  shows "sameCapabilityList l r \<longleftrightarrow> set l = set r"
proof
  assume "sameCapabilityList l r"
  then have "length l = length r" "set l \<subseteq> set r" by (auto simp: sameCapabilityList_def list_all_iff)
  then show "set l = set r" using assms by (metis card_subset_eq distinct_card List.finite_set)
next
  assume "set l = set r"
  then show "sameCapabilityList l r" using assms by (metis distinct_card list_all_iff sameCapabilityList_def)
qed

lemma sandbox_inv_quota: "sandbox_inv h \<Longrightarrow> sandbox_inv (snd (createRuntimeResourceQuota i h))"
  by (auto simp: createRuntimeResourceQuota_def sandbox_inv_def good_quota_def good_provider_def less_SucI
      dest: read_Some split: option.splits)

lemma sandbox_inv_policy: "sandbox_inv h \<Longrightarrow> sandbox_inv (snd (createSandboxPolicy p h))"
  by (auto simp: createSandboxPolicy_def sandbox_inv_def opt_quota_ok_def isRuntimeResourceQuota_def good_provider_def
      less_SucI split: option.splits)

lemma good_provider_mono:
  "good_provider h p \<Longrightarrow> sandboxProviderAttestations h \<subseteq>\<^sub>m sandboxProviderAttestations h' \<Longrightarrow> good_provider h' p"
  unfolding good_provider_def map_le_def by (metis domI)

lemma sandbox_inv_attestation:
  assumes "sandbox_inv h"
  shows "sandbox_inv (snd (createSandboxProviderAttestation i h))"
proof -
  have fresh: "sandboxProviderAttestations h (ih_next h) = None"
    using assms by (cases "sandboxProviderAttestations h (ih_next h)") (auto simp: sandbox_inv_def)
  show ?thesis
    using assms fresh
    by (auto simp: createSandboxProviderAttestation_def sandbox_inv_def good_attestation_def less_SucI map_le_def dom_def
        dest: read_Some intro: good_provider_mono [of h] split: option.splits)
qed

lemma createSandboxProvider_cases:
  assumes "createSandboxProvider i a h = (r, h')"
  shows "h' = h \<or> (\<exists>p b. h' = h\<lparr> sandboxProviders := (sandboxProviders h)(ih_next h \<mapsto> p), ih_next := Suc (ih_next h) \<rparr> \<and>
           isNonEmptyString (sbx_providerId p) \<and> isValidTimestamp (sbx_createdAt p) \<and>
           providerTypeMatchesEnvironment (sbx_providerType p) (sbx_environmentMode p) \<and> distinct (sbx_capabilities p) \<and>
           sandboxProviderAttestations h (sbx_attestation p) = Some b \<and> isSandboxProviderAttestation (sbx_attestation p) h \<and>
           sandboxProviderAttestationMatches b (sbx_providerId p) (sbx_providerType p) (sbx_environmentMode p) (sbx_capabilities p))"
proof (cases "h' = h")
  case False
  then obtain pid ty env at caps ar b where o: "read_nonempty (jget ''providerId'' i) = Some pid"
    "read_timestamp (jget ''createdAt'' i) = Some at" "normalizeSandboxCapabilities (jget ''capabilities'' i) = Some caps"
    "providerTypeMatchesEnvironment ty env" "sandboxProviderAttestations h ar = Some b" "isSandboxProviderAttestation ar h"
    "sandboxProviderAttestationMatches b pid ty env caps"
    "h' = h\<lparr> sandboxProviders := (sandboxProviders h)
              (ih_next h \<mapsto> \<lparr> sbx_providerId = pid, sbx_providerType = ty, sbx_capabilities = caps,
                sbx_attestation = ar, sbx_environmentMode = env, sbx_createdAt = at \<rparr>), ih_next := Suc (ih_next h) \<rparr>"
    using assms unfolding createSandboxProvider_def by (auto split: option.splits if_splits)
  then show ?thesis
    using read_Some by (intro disjI2 exI [of _ "\<lparr> sbx_providerId = pid, sbx_providerType = ty, sbx_capabilities = caps,
                sbx_attestation = ar, sbx_environmentMode = env, sbx_createdAt = at \<rparr>"] exI [of _ b]) simp
qed simp

lemma sandbox_inv_provider:
  assumes "sandbox_inv h"
  shows "sandbox_inv (snd (createSandboxProvider i a h))"
proof -
  obtain r h' where c: "createSandboxProvider i a h = (r, h')" by fastforce
  have "sandbox_inv h'" if "h' \<noteq> h"
  proof -
    from createSandboxProvider_cases [OF c] that obtain p b where
      h': "h' = h\<lparr> sandboxProviders := (sandboxProviders h)(ih_next h \<mapsto> p), ih_next := Suc (ih_next h) \<rparr>"
      and p: "isNonEmptyString (sbx_providerId p)" "isValidTimestamp (sbx_createdAt p)"
        "providerTypeMatchesEnvironment (sbx_providerType p) (sbx_environmentMode p)" "distinct (sbx_capabilities p)"
        "sandboxProviderAttestations h (sbx_attestation p) = Some b" "isSandboxProviderAttestation (sbx_attestation p) h"
        "sandboxProviderAttestationMatches b (sbx_providerId p) (sbx_providerType p) (sbx_environmentMode p) (sbx_capabilities p)"
      by auto
    have "good_provider h p"
      using p by (auto simp: good_provider_def isSandboxProviderAttestation_def sandboxProviderAttestationMatches_def
          sameCapabilityList_set)
    moreover have "good_provider h' = good_provider h" by (simp add: fun_eq_iff good_provider_def h')
    moreover have e: "runtimeResourceQuotas h' = runtimeResourceQuotas h" "sandboxPolicies h' = sandboxPolicies h"
      "sandboxProviderAttestations h' = sandboxProviderAttestations h" "ih_next h' = Suc (ih_next h)"
      "sandboxProviders h' = (sandboxProviders h)(ih_next h \<mapsto> p)" by (simp_all add: h')
    ultimately show ?thesis using assms unfolding sandbox_inv_def e by (simp add: less_SucI)
  qed
  then show ?thesis using assms c by auto
qed

lemma sandbox_reach_inv: "sandbox_reach h \<Longrightarrow> sandbox_inv h"
proof (induction rule: sandbox_reach.induct)
  case sb_start
  show ?case by (simp add: sandbox_inv_def empty_iso_heap_def)
next
  case (sb_other h h')
  from sb_other(2) have e: "runtimeResourceQuotas h' = runtimeResourceQuotas h" "sandboxPolicies h' = sandboxPolicies h"
    "sandboxProviderAttestations h' = sandboxProviderAttestations h" "sandboxProviders h' = sandboxProviders h"
    and le: "ih_next h \<le> ih_next h'" by (auto simp: same_sandbox_def)
  have "good_provider h' = good_provider h" by (simp add: fun_eq_iff good_provider_def e)
  moreover have "r < ih_next h \<Longrightarrow> r < ih_next h'" for r using le by simp
  ultimately show ?case using sb_other(3) unfolding sandbox_inv_def e by simp
qed (simp_all add: sandbox_inv_quota sandbox_inv_policy sandbox_inv_attestation sandbox_inv_provider)

section \<open>What a policy allows\<close>

lemma capability_names_inj:
  "map_of SANDBOX_CAPABILITIES s = Some c \<Longrightarrow> map_of SANDBOX_CAPABILITIES t = Some c \<Longrightarrow> s = t"
proof -
  have "inj_on snd (set SANDBOX_CAPABILITIES)" by (simp add: SANDBOX_CAPABILITIES_def)
  then show "map_of SANDBOX_CAPABILITIES s = Some c \<Longrightarrow> map_of SANDBOX_CAPABILITIES t = Some c \<Longrightarrow> s = t"
    by (metis inj_onD map_of_SomeD prod.inject snd_conv)
qed

lemma capability_named: "\<exists>s. map_of SANDBOX_CAPABILITIES s = Some c"
proof -
  have "c \<in> snd ` set SANDBOX_CAPABILITIES" by (cases c) (simp_all add: SANDBOX_CAPABILITIES_def)
  moreover have "distinct (map fst SANDBOX_CAPABILITIES)" by code_simp
  ultimately show ?thesis by (metis imageE map_of_eq_Some_iff prod.collapse)
qed

lemma set_capabilities_allow:
  assumes "set_capabilities kvs caps = Some caps'" "distinct (map fst kvs)"
  shows "caps' c = Cap_allow \<longleftrightarrow>
           (\<exists>s. map_of SANDBOX_CAPABILITIES s = Some c \<and>
                (map_of kvs s = Some (JStr ''ALLOW'') \<or> (map_of kvs s = None \<and> caps c = Cap_allow)))"
  using assms
proof (induction kvs arbitrary: caps)
  case Nil
  then show ?case using capability_named by auto
next
  case (Cons kv kvs)
  obtain k v where kv: "kv = (k, v)" by fastforce
  from Cons.prems obtain e d where e: "map_of SANDBOX_CAPABILITIES k = Some e" "isSandboxCapabilityDecision v = Some d"
    "set_capabilities kvs (caps(e := d)) = Some caps'"
    by (auto simp: kv isSandboxCapability_def split: option.splits)
  have k: "map_of kvs k = None" using Cons.prems(2) by (simp add: kv map_of_eq_None_iff)
  have d: "d = Cap_allow \<longleftrightarrow> v = JStr ''ALLOW''" using e(2) by (auto simp: isSandboxCapabilityDecision_def split: if_splits)
  have "caps' c = Cap_allow \<longleftrightarrow>
      (\<exists>s. map_of SANDBOX_CAPABILITIES s = Some c \<and>
           (map_of kvs s = Some (JStr ''ALLOW'') \<or> (map_of kvs s = None \<and> (caps(e := d)) c = Cap_allow)))"
    using Cons.IH [OF e(3)] Cons.prems(2) by (simp add: kv)
  also have "\<dots> \<longleftrightarrow> (\<exists>s. map_of SANDBOX_CAPABILITIES s = Some c \<and>
           (map_of (kv # kvs) s = Some (JStr ''ALLOW'') \<or> (map_of (kv # kvs) s = None \<and> caps c = Cap_allow)))"
  proof (cases "c = e")
    case True
    have n: "map_of SANDBOX_CAPABILITIES s = Some c \<longleftrightarrow> s = k" for s using e(1) True capability_names_inj by blast
    show ?thesis unfolding n using k d True by (simp add: kv)
  next
    case False
    then have n: "map_of SANDBOX_CAPABILITIES s = Some c \<Longrightarrow> s \<noteq> k" for s using e(1) by auto
    show ?thesis using n False by (auto simp: kv simp del: map_of_eq_None_iff)
  qed
  finally show ?case .
qed

lemma evaluateSandboxCapability_allowed:
  "fst (evaluateSandboxCapability q h) = Iso_allowed \<longleftrightarrow>
     (\<exists>p c. sandboxPolicies h (sce_policy q) = Some p \<and> isSandboxPolicy (sce_policy q) h \<and>
            isSandboxCapability (sce_capability q) = Some c \<and> opt_identity_ok (sce_identity q) h \<and>
            opt_quota_ok (sce_quota q) h \<and> sbp_capabilities p c = Cap_allow)"
  by (auto simp: evaluateSandboxCapability_def isSandboxPolicy_def split: option.splits)

lemma brands_sound:
  assumes "sandbox_inv h"
  shows "isRuntimeResourceQuota r h \<longleftrightarrow> runtimeResourceQuotas h r \<noteq> None"
    and "isSandboxPolicy r h \<longleftrightarrow> sandboxPolicies h r \<noteq> None"
    and "isSandboxProviderAttestation r h \<longleftrightarrow> sandboxProviderAttestations h r \<noteq> None"
    and "isSandboxProvider r h \<longleftrightarrow> sandboxProviders h r \<noteq> None"
proof -
  show q: "isRuntimeResourceQuota r h \<longleftrightarrow> runtimeResourceQuotas h r \<noteq> None" for r
    using assms by (auto simp: isRuntimeResourceQuota_def sandbox_inv_def good_quota_def split: option.splits)
  show "isSandboxPolicy r h \<longleftrightarrow> sandboxPolicies h r \<noteq> None"
    using assms by (auto simp: isSandboxPolicy_def sandbox_inv_def opt_quota_ok_def q split: option.splits)
  show a: "isSandboxProviderAttestation r h \<longleftrightarrow> sandboxProviderAttestations h r \<noteq> None" for r
    using assms by (auto simp: isSandboxProviderAttestation_def sandbox_inv_def good_attestation_def split: option.splits)
  have "sandboxProviderAttestationMatches b (sbx_providerId p) (sbx_providerType p) (sbx_environmentMode p) (sbx_capabilities p)"
    if "good_provider h p" "sandboxProviderAttestations h (sbx_attestation p) = Some b" for p b
    using that assms
    by (auto simp: good_provider_def sandbox_inv_def good_attestation_def sandboxProviderAttestationMatches_def sameCapabilityList_set)
  moreover have "good_provider h p" if "sandboxProviders h r = Some p" for p using assms that by (simp add: sandbox_inv_def)
  ultimately show "isSandboxProvider r h \<longleftrightarrow> sandboxProviders h r \<noteq> None"
    by (auto simp: isSandboxProvider_def a good_provider_def split: option.splits)
qed

section \<open>Properties\<close>

text \<open>
  C39. Every sandbox object is well formed. In every reachable heap the quotas hold positive safe
  integers, attestations and providers have an identifier, a valid timestamp, distinct
  capabilities and a type that fits their environment, and a provider agrees with its
  attestation. So the checks that the predicates of the package repeat on every use never fail
  for a branded object.
\<close>

theorem sandbox_objects_well_formed:
  assumes "sandbox_reach h"
  shows "(isRuntimeResourceQuota r h \<longleftrightarrow> runtimeResourceQuotas h r \<noteq> None) \<and>
         (isSandboxPolicy r h \<longleftrightarrow> sandboxPolicies h r \<noteq> None) \<and>
         (isSandboxProviderAttestation r h \<longleftrightarrow> sandboxProviderAttestations h r \<noteq> None) \<and>
         (isSandboxProvider r h \<longleftrightarrow> sandboxProviders h r \<noteq> None)"
  using brands_sound [OF sandbox_reach_inv [OF assms]] by blast

definition demo_quota_input :: json where
  "demo_quota_input = JObj [(''maxCpuTimeMs'', JNum 1000), (''maxMemoryBytes'', JNum 4096),
                            (''maxExecutionTimeMs'', JNum 500), (''maxProcesses'', JNum 1)]"

definition demo_provider_input :: json where
  "demo_provider_input = JObj [(''result'', JStr ''TRUSTED''), (''providerId'', JStr ''sb1''), (''providerType'', JStr ''testOnly''),
     (''environmentMode'', JStr ''test''), (''capabilities'', JArr [JStr ''shell'', JStr ''tool'']),
     (''attestedAt'', JStr ''2026-01-01T00:00:00.000Z''), (''createdAt'', JStr ''2026-01-01T00:00:00.000Z'')]"

definition demo_sandbox_heap :: iso_heap where
  "demo_sandbox_heap =
     snd (createSandboxProvider demo_provider_input (Some 2)
       (snd (createSandboxProviderAttestation demo_provider_input
         (snd (createSandboxPolicy \<lparr> spi_capabilities = Some (JObj [(''shell'', JStr ''ALLOW'')]), spi_quota = Some 0 \<rparr>
           (snd (createRuntimeResourceQuota demo_quota_input empty_iso_heap)))))))"

lemma demo_sandbox_reach: "sandbox_reach demo_sandbox_heap"
  unfolding demo_sandbox_heap_def by (intro sandbox_reach.intros)

theorem sandbox_objects_well_formed_witness:
  "isRuntimeResourceQuota 0 demo_sandbox_heap \<and> isSandboxPolicy 1 demo_sandbox_heap \<and>
   isSandboxProviderAttestation 2 demo_sandbox_heap \<and> isSandboxProvider 3 demo_sandbox_heap"
proof -
  have "runtimeResourceQuotas demo_sandbox_heap 0 \<noteq> None" "sandboxPolicies demo_sandbox_heap 1 \<noteq> None"
    "sandboxProviderAttestations demo_sandbox_heap 2 \<noteq> None" "sandboxProviders demo_sandbox_heap 3 \<noteq> None"
    by code_simp+
  then show ?thesis using sandbox_objects_well_formed [OF demo_sandbox_reach] by blast
qed

text \<open>
  A sandbox policy denies by default: a policy that was created allows a capability exactly
  when the input names it with ALLOW, and an input with an unknown capability or decision, or a
  quota that is not a branded one, creates nothing and changes nothing.
\<close>

lemma sandbox_policy_default_deny:
  assumes "createSandboxPolicy input h = (r, h')"
    and "\<And>kvs. spi_capabilities input = Some (JObj kvs) \<Longrightarrow> distinct (map fst kvs)"
  shows "case r of
           None \<Rightarrow> h' = h
         | Some p \<Rightarrow> (\<exists>policy. sandboxPolicies h' p = Some policy \<and> sbp_quota policy = spi_quota input \<and>
             (\<forall>c. sbp_capabilities policy c = Cap_allow \<longleftrightarrow>
                (\<exists>kvs s. spi_capabilities input = Some (JObj kvs) \<and> map_of SANDBOX_CAPABILITIES s = Some c \<and>
                         map_of kvs s = Some (JStr ''ALLOW''))))"
proof (cases r)
  case None
  then show ?thesis using assms(1) by (auto simp: createSandboxPolicy_def split: if_splits option.splits)
next
  case (Some p)
  then obtain caps where c: "read_capability_set (spi_capabilities input) = Some caps"
    "sandboxPolicies h' p = Some \<lparr> sbp_capabilities = caps, sbp_quota = spi_quota input \<rparr>"
    using assms(1) by (auto simp: createSandboxPolicy_def split: if_splits option.splits)
  have "caps c = Cap_allow \<longleftrightarrow>
      (\<exists>kvs s. spi_capabilities input = Some (JObj kvs) \<and> map_of SANDBOX_CAPABILITIES s = Some c \<and>
               map_of kvs s = Some (JStr ''ALLOW''))" for c
  proof (cases "\<exists>kvs. spi_capabilities input = Some (JObj kvs)")
    case True
    then obtain kvs where k: "spi_capabilities input = Some (JObj kvs)" by blast
    then show ?thesis
      using c(1) set_capabilities_allow [of kvs defaultSandboxCapabilities caps c] assms(2)
      by (simp add: read_capability_set_def defaultSandboxCapabilities_def)
  next
    case False
    then show ?thesis
      using c(1) by (auto simp: read_capability_set_def defaultSandboxCapabilities_def split: option.splits json.splits)
  qed
  then show ?thesis using c(2) Some by auto
qed

text \<open>
  Which providers are admitted. In a reachable heap a provider is admitted exactly when it
  is branded and meant for the environment asked for, its attestation is trusted, it supports
  the capability, and a branded policy allows the capability explicitly for a well-formed
  identity and quota. In production an admitted provider is a distributed one.
\<close>

lemma sandbox_provider_admission:
  assumes "sandbox_reach h"
  shows "(fst (evaluateSandboxProvider q h) = Iso_allowed \<longleftrightarrow>
           (\<exists>env p a c policy. isSandboxEnvironmentMode (spe_environmentMode q) = Some env \<and>
              sandboxProviders h (spe_provider q) = Some p \<and> sandboxProviderAttestations h (sbx_attestation p) = Some a \<and>
              sbx_environmentMode p = env \<and> att_result a = Trusted \<and>
              isSandboxCapability (spe_capability q) = Some c \<and> c \<in> set (sbx_capabilities p) \<and>
              sandboxPolicies h (spe_policy q) = Some policy \<and> sbp_capabilities policy c = Cap_allow \<and>
              opt_identity_ok (spe_identity q) h \<and> opt_quota_ok (spe_quota q) h)) \<and>
         (isSandboxEnvironmentMode (spe_environmentMode q) = Some Env_production \<longrightarrow>
            fst (evaluateSandboxProvider q h) = Iso_allowed \<longrightarrow>
            (\<exists>p. sandboxProviders h (spe_provider q) = Some p \<and> sbx_providerType p = ProductionDistributed))"
proof -
  have inv: "sandbox_inv h" using sandbox_reach_inv [OF assms] .
  note b = brands_sound [OF inv]
  have good: "good_provider h p" if "sandboxProviders h r = Some p" for r p using inv that by (simp add: sandbox_inv_def)
  have ty: "sbx_providerType p = ProductionDistributed"
    if "sandboxProviders h r = Some p" "sbx_environmentMode p = Env_production" for r p
    using good [OF that(1)] that(2)
    by (auto simp: good_provider_def providerTypeMatchesEnvironment_def split: SandboxProviderType.splits)
  have caps: "set (att_capabilities a) = set (sbx_capabilities p)"
    if "sandboxProviders h r = Some p" "sandboxProviderAttestations h (sbx_attestation p) = Some a" for r p a
    using good [OF that(1)] that(2) by (auto simp: good_provider_def)
  show ?thesis
    unfolding evaluateSandboxProvider_def denied_provider_def
    by (auto simp: evaluateSandboxCapability_allowed b ty caps split: option.splits)
qed

definition demo_provider_request :: SandboxProviderEvaluationRequest where
  "demo_provider_request =
     \<lparr> spe_provider = 3, spe_policy = 1, spe_capability = Some (JStr ''shell''), spe_environmentMode = Some (JStr ''test''),
       spe_identity = None, spe_quota = Some 0 \<rparr>"

end
