(* ===== verification/Quota.thy ===== *)
theory Quota
  imports Prelude "HOL-Library.Multiset"
begin

text \<open>
  \<^verbatim>\<open>runtime/src/quota.ts\<close> and \<^verbatim>\<open>runtime/src/resource-manager.ts\<close>. Quota counters live in a map
  from string slots, four for each key. The numbers are integers. Shown: an acquisition is all or
  nothing and touches the slots of its key only, no counter ever exceeds its limit, and acquire
  followed by a release that reclaims restores every counter; without reclaiming, the budgets are
  used up for good. The resource manager holds exactly the sum of the outstanding reservations.
\<close>

section \<open>quota.ts\<close>

record QuotaLimits =
  ql_maxConcurrent :: int
  ql_maxCpuBudgetMs :: int
  ql_maxMemoryBudgetBytes :: int
  ql_maxExecutionTimeMs :: int

record PartialQuotaLimits =
  pl_maxConcurrent :: "int option"
  pl_maxCpuBudgetMs :: "int option"
  pl_maxMemoryBudgetBytes :: "int option"
  pl_maxExecutionTimeMs :: "int option"

record QuotaCost =
  qc_concurrent :: int
  qc_cpuMs :: int
  qc_memoryBytes :: int
  qc_executionTimeMs :: int

datatype QuotaDimension = Dim_tenant | Dim_workspace | Dim_actor | Dim_capability

record QuotaKey =
  qk_tenantId :: string
  qk_workspaceId :: string
  qk_actorId :: string
  qk_capability :: string

record QuotaAcquisition =
  qa_ok :: bool
  qa_reasonCode :: string
  qa_message :: string
  qa_dimension :: "QuotaDimension option"

record Usage =
  us_concurrent :: int
  us_cpuMs :: int
  us_memoryBytes :: int
  us_executionTimeMs :: int

definition DEFAULT_LIMITS :: QuotaLimits where
  "DEFAULT_LIMITS =
     \<lparr> ql_maxConcurrent = 8, ql_maxCpuBudgetMs = 60000, ql_maxMemoryBudgetBytes = 512 * 1024 * 1024,
       ql_maxExecutionTimeMs = 30000 \<rparr>"

definition emptyUsage :: Usage where
  "emptyUsage = \<lparr> us_concurrent = 0, us_cpuMs = 0, us_memoryBytes = 0, us_executionTimeMs = 0 \<rparr>"

record QuotaSystem =
  qs_default :: QuotaLimits
  qs_limits :: "string \<rightharpoonup> QuotaLimits"
  qs_usage :: "string \<rightharpoonup> Usage"

text \<open>The spread of a partial object over a full one.\<close>

definition over :: "int option \<Rightarrow> int \<Rightarrow> int" where
  "over v d = (case v of Some x \<Rightarrow> x | None \<Rightarrow> d)"

definition spread_limits :: "QuotaLimits \<Rightarrow> PartialQuotaLimits \<Rightarrow> QuotaLimits" where
  "spread_limits d p =
     \<lparr> ql_maxConcurrent = over (pl_maxConcurrent p) (ql_maxConcurrent d),
       ql_maxCpuBudgetMs = over (pl_maxCpuBudgetMs p) (ql_maxCpuBudgetMs d),
       ql_maxMemoryBudgetBytes = over (pl_maxMemoryBudgetBytes p) (ql_maxMemoryBudgetBytes d),
       ql_maxExecutionTimeMs = over (pl_maxExecutionTimeMs p) (ql_maxExecutionTimeMs d) \<rparr>"

definition newQuotaSystem :: "PartialQuotaLimits \<Rightarrow> QuotaSystem" where
  "newQuotaSystem defaults =
     \<lparr> qs_default = spread_limits DEFAULT_LIMITS defaults, qs_limits = Map.empty, qs_usage = Map.empty \<rparr>"

definition slot :: "QuotaDimension \<Rightarrow> QuotaKey \<Rightarrow> string" where
  "slot dimension key =
     (case dimension of
        Dim_tenant \<Rightarrow> ''t:'' @ qk_tenantId key
      | Dim_workspace \<Rightarrow> ''t:'' @ qk_tenantId key @ '':w:'' @ qk_workspaceId key
      | Dim_actor \<Rightarrow> ''t:'' @ qk_tenantId key @ '':a:'' @ qk_actorId key
      | Dim_capability \<Rightarrow> ''t:'' @ qk_tenantId key @ '':c:'' @ qk_capability key)"

definition slots :: "QuotaKey \<Rightarrow> (QuotaDimension \<times> string) list" where
  "slots key = map (\<lambda>d. (d, slot d key)) [Dim_tenant, Dim_workspace, Dim_actor, Dim_capability]"

definition dimension_text :: "QuotaDimension \<Rightarrow> string" where
  "dimension_text d =
     (case d of Dim_tenant \<Rightarrow> ''tenant'' | Dim_workspace \<Rightarrow> ''workspace'' | Dim_actor \<Rightarrow> ''actor''
      | Dim_capability \<Rightarrow> ''capability'')"

definition setLimits :: "QuotaDimension \<Rightarrow> QuotaKey \<Rightarrow> PartialQuotaLimits \<Rightarrow> QuotaSystem \<Rightarrow> QuotaSystem" where
  "setLimits dimension key limits q =
     q\<lparr> qs_limits := (qs_limits q)(slot dimension key \<mapsto> spread_limits (qs_default q) limits) \<rparr>"

definition limits_of :: "QuotaSystem \<Rightarrow> string \<Rightarrow> QuotaLimits" where
  "limits_of q s = (case qs_limits q s of Some l \<Rightarrow> l | None \<Rightarrow> qs_default q)"

definition usage_of :: "QuotaSystem \<Rightarrow> string \<Rightarrow> Usage" where
  "usage_of q s = (case qs_usage q s of Some u \<Rightarrow> u | None \<Rightarrow> emptyUsage)"

definition refusal :: "string \<Rightarrow> string \<Rightarrow> QuotaDimension \<Rightarrow> QuotaAcquisition" where
  "refusal code what d =
     \<lparr> qa_ok = False, qa_reasonCode = code, qa_message = what @ '' exceeded on '' @ dimension_text d @ ''.'',
       qa_dimension = Some d \<rparr>"

text \<open>The first loop: the refusal of the first slot whose limits would be exceeded.\<close>

fun check_slots :: "QuotaSystem \<Rightarrow> QuotaCost \<Rightarrow> (QuotaDimension \<times> string) list \<Rightarrow> QuotaAcquisition option" where
  "check_slots q cost [] = None"
| "check_slots q cost ((d, s) # r) =
     (let l = limits_of q s; u = usage_of q s in
      if ql_maxConcurrent l < us_concurrent u + qc_concurrent cost then
        Some (refusal ''quota_concurrent_exceeded'' ''Concurrent quota'' d)
      else if ql_maxCpuBudgetMs l < us_cpuMs u + qc_cpuMs cost then
        Some (refusal ''quota_cpu_exceeded'' ''CPU budget'' d)
      else if ql_maxMemoryBudgetBytes l < us_memoryBytes u + qc_memoryBytes cost then
        Some (refusal ''quota_memory_exceeded'' ''Memory budget'' d)
      else if ql_maxExecutionTimeMs l < us_executionTimeMs u + qc_executionTimeMs cost then
        Some (refusal ''quota_time_exceeded'' ''Execution time budget'' d)
      else check_slots q cost r)"

definition add_usage :: "QuotaCost \<Rightarrow> Usage \<Rightarrow> Usage" where
  "add_usage cost u =
     \<lparr> us_concurrent = us_concurrent u + qc_concurrent cost, us_cpuMs = us_cpuMs u + qc_cpuMs cost,
       us_memoryBytes = us_memoryBytes u + qc_memoryBytes cost,
       us_executionTimeMs = us_executionTimeMs u + qc_executionTimeMs cost \<rparr>"

fun charge_slots :: "QuotaCost \<Rightarrow> (QuotaDimension \<times> string) list \<Rightarrow> QuotaSystem \<Rightarrow> QuotaSystem" where
  "charge_slots cost [] q = q"
| "charge_slots cost ((d, s) # r) q =
     charge_slots cost r (q\<lparr> qs_usage := (qs_usage q)(s \<mapsto> add_usage cost (usage_of q s)) \<rparr>)"

definition tryAcquire :: "QuotaKey \<Rightarrow> QuotaCost \<Rightarrow> QuotaSystem \<Rightarrow> QuotaAcquisition \<times> QuotaSystem" where
  "tryAcquire key cost q =
     (case check_slots q cost (slots key) of
        Some r \<Rightarrow> (r, q)
      | None \<Rightarrow>
          (\<lparr> qa_ok = True, qa_reasonCode = ''quota_acquired'', qa_message = ''Quota acquired.'', qa_dimension = None \<rparr>,
           charge_slots cost (slots key) q))"

definition sub_usage :: "bool \<Rightarrow> QuotaCost \<Rightarrow> Usage \<Rightarrow> Usage" where
  "sub_usage reclaim cost u =
     (let u1 = u\<lparr> us_concurrent := max 0 (us_concurrent u - qc_concurrent cost) \<rparr> in
      if reclaim then
        u1\<lparr> us_cpuMs := max 0 (us_cpuMs u - qc_cpuMs cost),
            us_memoryBytes := max 0 (us_memoryBytes u - qc_memoryBytes cost),
            us_executionTimeMs := max 0 (us_executionTimeMs u - qc_executionTimeMs cost) \<rparr>
      else u1)"

fun release_slots :: "bool \<Rightarrow> QuotaCost \<Rightarrow> (QuotaDimension \<times> string) list \<Rightarrow> QuotaSystem \<Rightarrow> QuotaSystem" where
  "release_slots reclaim cost [] q = q"
| "release_slots reclaim cost ((d, s) # r) q =
     release_slots reclaim cost r
       (case qs_usage q s of
          None \<Rightarrow> q
        | Some u \<Rightarrow> q\<lparr> qs_usage := (qs_usage q)(s \<mapsto> sub_usage reclaim cost u) \<rparr>)"

definition quota_release :: "QuotaKey \<Rightarrow> QuotaCost \<Rightarrow> bool \<Rightarrow> QuotaSystem \<Rightarrow> QuotaSystem" where
  "quota_release key cost reclaimBudgets q = release_slots reclaimBudgets cost (slots key) q"

definition concurrentFor :: "QuotaDimension \<Rightarrow> QuotaKey \<Rightarrow> QuotaSystem \<Rightarrow> int" where
  "concurrentFor dimension key q = us_concurrent (usage_of q (slot dimension key))"

section \<open>resource-manager.ts\<close>

record ResourcePool =
  rp_maxSlots :: int
  rp_maxCpuMs :: int
  rp_maxMemoryBytes :: int

record ResourceRequest =
  rr_slots :: int
  rr_cpuMs :: int
  rr_memoryBytes :: int

record ResourceReservation =
  rsv_id :: string
  rsv_slots :: int
  rsv_cpuMs :: int
  rsv_memoryBytes :: int

record ResourceAdmission =
  ra_ok :: bool
  ra_reasonCode :: string
  ra_reservation :: "ResourceReservation option"

record ResourceManager =
  rm_pool :: ResourcePool
  rm_slots :: int
  rm_cpuMs :: int
  rm_memoryBytes :: int
  rm_counter :: nat

definition newResourceManager :: "int option \<Rightarrow> int option \<Rightarrow> int option \<Rightarrow> ResourceManager" where
  "newResourceManager maxSlots maxCpuMs maxMemoryBytes =
     \<lparr> rm_pool = \<lparr> rp_maxSlots = over maxSlots 16, rp_maxCpuMs = over maxCpuMs 120000,
                   rp_maxMemoryBytes = over maxMemoryBytes (1024 * 1024 * 1024) \<rparr>,
       rm_slots = 0, rm_cpuMs = 0, rm_memoryBytes = 0, rm_counter = 0 \<rparr>"

definition exhausted :: "string \<Rightarrow> ResourceAdmission" where
  "exhausted code = \<lparr> ra_ok = False, ra_reasonCode = code, ra_reservation = None \<rparr>"

definition reserve :: "ResourceRequest \<Rightarrow> ResourceManager \<Rightarrow> ResourceAdmission \<times> ResourceManager" where
  "reserve request m =
     (if rp_maxSlots (rm_pool m) < rm_slots m + rr_slots request then (exhausted ''resource_slots_exhausted'', m)
      else if rp_maxCpuMs (rm_pool m) < rm_cpuMs m + rr_cpuMs request then (exhausted ''resource_cpu_exhausted'', m)
      else if rp_maxMemoryBytes (rm_pool m) < rm_memoryBytes m + rr_memoryBytes request then
        (exhausted ''resource_memory_exhausted'', m)
      else
        (let n = Suc (rm_counter m) in
         (\<lparr> ra_ok = True, ra_reasonCode = ''reserved'',
            ra_reservation =
              Some \<lparr> rsv_id = ''res_'' @ show_nat n, rsv_slots = rr_slots request, rsv_cpuMs = rr_cpuMs request,
                     rsv_memoryBytes = rr_memoryBytes request \<rparr> \<rparr>,
          m\<lparr> rm_slots := rm_slots m + rr_slots request, rm_cpuMs := rm_cpuMs m + rr_cpuMs request,
             rm_memoryBytes := rm_memoryBytes m + rr_memoryBytes request, rm_counter := n \<rparr>)))"

definition resource_release :: "ResourceReservation \<Rightarrow> ResourceManager \<Rightarrow> ResourceManager" where
  "resource_release r m =
     m\<lparr> rm_slots := max 0 (rm_slots m - rsv_slots r), rm_cpuMs := max 0 (rm_cpuMs m - rsv_cpuMs r),
        rm_memoryBytes := max 0 (rm_memoryBytes m - rsv_memoryBytes r) \<rparr>"

definition available :: "ResourceManager \<Rightarrow> ResourcePool" where
  "available m =
     \<lparr> rp_maxSlots = rp_maxSlots (rm_pool m) - rm_slots m, rp_maxCpuMs = rp_maxCpuMs (rm_pool m) - rm_cpuMs m,
       rp_maxMemoryBytes = rp_maxMemoryBytes (rm_pool m) - rm_memoryBytes m \<rparr>"

section \<open>Quota lemmas\<close>

lemma slots_distinct: "distinct (map snd (slots k))"
  by (simp add: slots_def slot_def)

definition slot_set :: "QuotaKey \<Rightarrow> string set" where
  "slot_set k = snd ` set (slots k)"

lemma slot_set_eq: "slot_set k = range (\<lambda>d. slot d k)"
proof -
  have U: "UNIV = {Dim_tenant, Dim_workspace, Dim_actor, Dim_capability}" using QuotaDimension.exhaust by blast
  show ?thesis unfolding U by (simp add: slot_set_def slots_def)
qed

lemma own_slot [simp]: "slot d k \<in> slot_set k"
  by (simp add: slot_set_eq)

text \<open>The tenant of a slot can be read back when tenant ids hold no colon.\<close>

definition colon_free :: "QuotaKey \<Rightarrow> bool" where
  "colon_free k \<longleftrightarrow> CHR '':'' \<notin> set (qk_tenantId k)"

lemma slot_tenant:
  assumes "colon_free k" "colon_free j" "slot d k = slot e j"
  shows "qk_tenantId k = qk_tenantId j"
proof -
  have t: "takeWhile (\<lambda>c. c \<noteq> CHR '':'') (drop 2 (slot d k)) = qk_tenantId k" if "colon_free k" for d k
  proof -
    have nc: "\<forall>c \<in> set (qk_tenantId k). c \<noteq> CHR '':''" using that by (auto simp: colon_free_def)
    then have "takeWhile (\<lambda>c. c \<noteq> CHR '':'') (qk_tenantId k @ ys) = qk_tenantId k"
      if "ys = [] \<or> hd ys = CHR '':''" for ys using that by (cases ys) (auto simp: takeWhile_append)
    then show ?thesis using nc by (cases d) (simp_all add: slot_def takeWhile_eq_all_conv)
  qed
  show ?thesis using t [OF assms(1), of d] t [OF assms(2), of e] assms(3) by simp
qed

lemma usage_of_charge:
  "distinct (map snd ss) \<Longrightarrow>
     usage_of (charge_slots cost ss q) s = (if s \<in> snd ` set ss then add_usage cost (usage_of q s) else usage_of q s)"
proof (induction cost ss q rule: charge_slots.induct)
  case (2 cost d t r q)
  then show ?case by (auto simp: usage_of_def)
qed simp

lemma charge_frame [simp]:
  "qs_default (charge_slots cost ss q) = qs_default q" "qs_limits (charge_slots cost ss q) = qs_limits q"
  by (induction cost ss q rule: charge_slots.induct) simp_all

lemma limits_of_charge [simp]: "limits_of (charge_slots cost ss q) = limits_of q"
  by (rule ext) (simp add: limits_of_def split: option.split)

lemma charge_dom: "qs_usage (charge_slots cost ss q) s = None \<longleftrightarrow> s \<notin> snd ` set ss \<and> qs_usage q s = None"
  by (induction cost ss q rule: charge_slots.induct) auto

lemma release_frame [simp]:
  "qs_default (release_slots b cost ss q) = qs_default q" "qs_limits (release_slots b cost ss q) = qs_limits q"
  by (induction b cost ss q rule: release_slots.induct) (simp_all split: option.splits)

lemma limits_of_release [simp]: "limits_of (release_slots b cost ss q) = limits_of q"
  by (rule ext) (simp add: limits_of_def split: option.split)

lemma usage_of_release:
  "distinct (map snd ss) \<Longrightarrow>
     qs_usage (release_slots b cost ss q) s =
       (if s \<in> snd ` set ss then map_option (sub_usage b cost) (qs_usage q s) else qs_usage q s)"
proof (induction b cost ss q rule: release_slots.induct)
  case (2 b cost d t r q)
  then show ?case by (auto split: option.splits)
qed simp

definition fits :: "QuotaSystem \<Rightarrow> QuotaCost \<Rightarrow> string \<Rightarrow> bool" where
  "fits q cost s \<longleftrightarrow>
     (let u = add_usage cost (usage_of q s); l = limits_of q s in
      us_concurrent u \<le> ql_maxConcurrent l \<and> us_cpuMs u \<le> ql_maxCpuBudgetMs l \<and>
      us_memoryBytes u \<le> ql_maxMemoryBudgetBytes l \<and> us_executionTimeMs u \<le> ql_maxExecutionTimeMs l)"

lemma check_slots_None: "check_slots q cost ss = None \<longleftrightarrow> (\<forall>s \<in> snd ` set ss. fits q cost s)"
proof (induction q cost ss rule: check_slots.induct)
  case (2 q cost d s r)
  then show ?case by (auto simp: Let_def fits_def add_usage_def not_less)
qed simp

lemma check_slots_Some: "check_slots q cost ss = Some r \<Longrightarrow> \<not> qa_ok r \<and> qa_dimension r \<noteq> None"
  by (induction q cost ss rule: check_slots.induct) (auto simp: Let_def refusal_def split: if_splits)

lemma tryAcquire_ok: "qa_ok (fst (tryAcquire k cost q)) \<longleftrightarrow> (\<forall>s \<in> slot_set k. fits q cost s)"
  unfolding slot_set_def check_slots_None [symmetric] by (auto simp: tryAcquire_def dest: check_slots_Some split: option.splits)

lemma tryAcquire_state:
  "snd (tryAcquire k cost q) = (if qa_ok (fst (tryAcquire k cost q)) then charge_slots cost (slots k) q else q)"
  by (auto simp: tryAcquire_def dest: check_slots_Some split: option.splits)

lemma usage_of_tryAcquire:
  "usage_of (snd (tryAcquire k cost q)) s =
     (if qa_ok (fst (tryAcquire k cost q)) \<and> s \<in> slot_set k then add_usage cost (usage_of q s) else usage_of q s)"
  by (simp add: tryAcquire_state usage_of_charge slots_distinct slot_set_def)

lemma limits_of_tryAcquire [simp]: "limits_of (snd (tryAcquire k cost q)) = limits_of q"
  by (simp add: tryAcquire_state)

text \<open>
  Acquisition is all or nothing and exact: \<^verbatim>\<open>tryAcquire\<close> succeeds exactly when on each of the four
  slots of the key the usage plus the cost stays within the limits; a refusal changes nothing and
  names the dimension; a success adds the cost to each slot of the key once, leaves every other slot,
  so every slot of another tenant when tenant ids hold no colon, and never changes a limit.
\<close>

lemma quota_all_or_nothing:
  "let (a, q') = tryAcquire k cost q in
     (qa_ok a \<longleftrightarrow> (\<forall>d. fits q cost (slot d k))) \<and>
     (if qa_ok a
      then (\<forall>d. usage_of q' (slot d k) = add_usage cost (usage_of q (slot d k))) \<and>
           (\<forall>j e. colon_free k \<longrightarrow> colon_free j \<longrightarrow> qk_tenantId j \<noteq> qk_tenantId k \<longrightarrow>
                  usage_of q' (slot e j) = usage_of q (slot e j))
      else q' = q \<and> qa_dimension a \<noteq> None) \<and>
     limits_of q' = limits_of q"
proof -
  obtain a q' where t: "tryAcquire k cost q = (a, q')" by fastforce
  have ok: "qa_ok a \<longleftrightarrow> (\<forall>d. fits q cost (slot d k))" using tryAcquire_ok [of k cost q] by (simp add: t slot_set_eq)
  have use: "usage_of q' s = (if qa_ok a \<and> s \<in> slot_set k then add_usage cost (usage_of q s) else usage_of q s)" for s
    using usage_of_tryAcquire [of k cost q s] by (simp add: t)
  have other: "slot e j \<notin> slot_set k" if "colon_free k" "colon_free j" "qk_tenantId j \<noteq> qk_tenantId k" for j e
  proof
    assume "slot e j \<in> slot_set k"
    then obtain d where "slot e j = slot d k" by (auto simp: slot_set_eq)
    then show False using slot_tenant [of j k e d] that by blast
  qed
  have dim: "q' = q \<and> qa_dimension a \<noteq> None" if "\<not> qa_ok a"
    using that t by (auto simp: tryAcquire_def dest: check_slots_Some split: option.splits)
  have lim: "limits_of q' = limits_of q" using limits_of_tryAcquire [of k cost q] by (simp add: t)
  have yes: "(\<forall>d. usage_of q' (slot d k) = add_usage cost (usage_of q (slot d k))) \<and>
      (\<forall>j e. colon_free k \<longrightarrow> colon_free j \<longrightarrow> qk_tenantId j \<noteq> qk_tenantId k \<longrightarrow>
             usage_of q' (slot e j) = usage_of q (slot e j))" if "qa_ok a"
    unfolding use using that other by simp
  show ?thesis
  proof (cases "qa_ok a")
    case True
    show ?thesis unfolding t Let_def prod.case if_P [OF True] using ok lim yes [OF True] by blast
  next
    case False
    show ?thesis unfolding t Let_def prod.case if_not_P [OF False] using ok lim dim [OF False] by blast
  qed
qed

definition key_a :: QuotaKey where
  "key_a = \<lparr> qk_tenantId = ''acme'', qk_workspaceId = ''w1'', qk_actorId = ''u1'', qk_capability = ''build'' \<rparr>"

definition key_b :: QuotaKey where
  "key_b = key_a\<lparr> qk_tenantId := ''other'' \<rparr>"

definition no_limits :: PartialQuotaLimits where
  "no_limits = \<lparr> pl_maxConcurrent = None, pl_maxCpuBudgetMs = None, pl_maxMemoryBudgetBytes = None,
                 pl_maxExecutionTimeMs = None \<rparr>"

definition engine_cost :: QuotaCost where
  "engine_cost = \<lparr> qc_concurrent = 1, qc_cpuMs = 1, qc_memoryBytes = 1, qc_executionTimeMs = 30000 \<rparr>"

section \<open>Reachable quota states\<close>

text \<open>One call of the interface; \<^verbatim>\<open>setLimits\<close> is done before the system is used.\<close>

inductive quota_step :: "QuotaSystem \<Rightarrow> QuotaSystem \<Rightarrow> bool" where
  qs_acquire: "quota_step q (snd (tryAcquire k cost q))"
| qs_release: "quota_step q (quota_release k cost b q)"
    if "0 \<le> qc_concurrent cost" "0 \<le> qc_cpuMs cost" "0 \<le> qc_memoryBytes cost" "0 \<le> qc_executionTimeMs cost"

definition within :: "Usage \<Rightarrow> QuotaLimits \<Rightarrow> bool" where
  "within u l \<longleftrightarrow> us_concurrent u \<le> ql_maxConcurrent l \<and> us_cpuMs u \<le> ql_maxCpuBudgetMs l \<and>
     us_memoryBytes u \<le> ql_maxMemoryBudgetBytes l \<and> us_executionTimeMs u \<le> ql_maxExecutionTimeMs l"

definition quota_inv :: "QuotaSystem \<Rightarrow> bool" where
  "quota_inv q \<longleftrightarrow> (\<forall>s. within (usage_of q s) (limits_of q s))"

definition limits_nonneg :: "QuotaSystem \<Rightarrow> bool" where
  "limits_nonneg q \<longleftrightarrow> (\<forall>s. within emptyUsage (limits_of q s))"

lemma fits_within: "fits q cost s \<longleftrightarrow> within (add_usage cost (usage_of q s)) (limits_of q s)"
  by (simp add: fits_def within_def Let_def)

lemma usage_of_quota_release:
  "usage_of (quota_release k cost b q) s =
     (if s \<in> slot_set k \<and> qs_usage q s \<noteq> None then sub_usage b cost (usage_of q s) else usage_of q s)"
  by (simp add: quota_release_def usage_of_def usage_of_release slots_distinct slot_set_def split: option.split)

lemma limits_of_quota_release [simp]: "limits_of (quota_release k cost b q) = limits_of q"
  by (simp add: quota_release_def)

lemma sub_usage_within:
  assumes "within u l" "within emptyUsage l" "0 \<le> qc_concurrent cost" "0 \<le> qc_cpuMs cost"
    "0 \<le> qc_memoryBytes cost" "0 \<le> qc_executionTimeMs cost"
  shows "within (sub_usage b cost u) l"
  using assms by (auto simp: within_def sub_usage_def emptyUsage_def Let_def)

lemma quota_step_inv: "quota_step q q' \<Longrightarrow> quota_inv q \<and> limits_nonneg q \<Longrightarrow> quota_inv q' \<and> limits_nonneg q'"
proof (induction rule: quota_step.induct)
  case (qs_acquire q k cost)
  have "\<forall>s \<in> slot_set k. fits q cost s" if "qa_ok (fst (tryAcquire k cost q))" using that tryAcquire_ok by blast
  with qs_acquire show ?case by (simp add: quota_inv_def limits_nonneg_def usage_of_tryAcquire fits_within)
next
  case (qs_release cost q k b)
  then show ?case by (simp add: quota_inv_def limits_nonneg_def usage_of_quota_release sub_usage_within)
qed

text \<open>
  C40. No sequence of acquisitions and releases takes a counter past its limit: from a fresh system
  whose limits are not negative, with any limits set before use, every slot of every reachable state
  is within the limits in force for it, on all four counters.
\<close>

theorem quota_never_exceeded:
  assumes "quota_step\<^sup>*\<^sup>* q q'" "qs_usage q = Map.empty" "limits_nonneg q"
  shows "within (usage_of q' s) (limits_of q' s)"
proof -
  have "quota_inv q" using assms(2,3) by (simp add: quota_inv_def limits_nonneg_def usage_of_def)
  have "quota_inv q' \<and> limits_nonneg q'" using assms(1)
    by (induction rule: rtranclp_induct) (use \<open>quota_inv q\<close> assms(3) quota_step_inv in blast)+
  then show ?thesis by (simp add: quota_inv_def)
qed

lemma fresh_limits_nonneg: "limits_nonneg (newQuotaSystem no_limits)"
  by (simp add: limits_nonneg_def within_def limits_of_def newQuotaSystem_def spread_limits_def over_def no_limits_def
        DEFAULT_LIMITS_def emptyUsage_def)

theorem quota_never_exceeded_witness:
  "within (usage_of (snd (tryAcquire key_a engine_cost (newQuotaSystem no_limits))) ''t:acme'')
     (limits_of (snd (tryAcquire key_a engine_cost (newQuotaSystem no_limits))) ''t:acme'')"
  using quota_never_exceeded [OF r_into_rtranclp [of quota_step, OF qs_acquire], OF _ fresh_limits_nonneg]
  by (simp add: newQuotaSystem_def)

section \<open>Round trip\<close>

definition usage_nonneg :: "Usage \<Rightarrow> bool" where
  "usage_nonneg u \<longleftrightarrow> 0 \<le> us_concurrent u \<and> 0 \<le> us_cpuMs u \<and> 0 \<le> us_memoryBytes u \<and> 0 \<le> us_executionTimeMs u"

lemma sub_add_usage: "usage_nonneg u \<Longrightarrow> sub_usage True cost (add_usage cost u) = u"
  by (simp add: sub_usage_def add_usage_def usage_nonneg_def)

lemma sub_add_usage_keep:
  "usage_nonneg u \<Longrightarrow> sub_usage False cost (add_usage cost u) = (add_usage cost u)\<lparr> us_concurrent := us_concurrent u \<rparr>"
  by (simp add: sub_usage_def add_usage_def usage_nonneg_def)

lemma charged_present: "s \<in> slot_set k \<Longrightarrow> qs_usage (charge_slots cost (slots k) q) s \<noteq> None"
  by (simp add: charge_dom slot_set_def)

text \<open>
  Acquire followed by the matching release: with \<^verbatim>\<open>reclaimBudgets\<close> every counter of every slot is
  what it was before; without it, as the engine calls it, the concurrency counter is restored and the
  cpu, memory and time of the cost stay charged to all four slots of the key.
\<close>

lemma quota_acquire_release:
  assumes "qa_ok (fst (tryAcquire k cost q))" "\<And>s. usage_nonneg (usage_of q s)"
  shows "usage_of (quota_release k cost b (snd (tryAcquire k cost q))) s =
     (if b \<or> s \<notin> slot_set k then usage_of q s
      else (add_usage cost (usage_of q s))\<lparr> us_concurrent := us_concurrent (usage_of q s) \<rparr>)"
  using assms by (cases b) (simp_all add: usage_of_quota_release usage_of_tryAcquire tryAcquire_state [of k cost q]
      usage_of_charge slots_distinct charged_present sub_add_usage sub_add_usage_keep flip: slot_set_def)

section \<open>Budgets without reclaiming\<close>

text \<open>
  One execution of the engine as far as the quota sees it: acquire, and on success release without
  \<^verbatim>\<open>reclaimBudgets\<close>.
\<close>

definition quota_run :: "QuotaKey \<Rightarrow> QuotaCost \<Rightarrow> QuotaSystem \<Rightarrow> bool \<times> QuotaSystem" where
  "quota_run k cost q =
     (let (a, q1) = tryAcquire k cost q in
      if qa_ok a then (True, quota_release k cost False q1) else (False, q1))"

fun quota_runs :: "(QuotaKey \<times> QuotaCost) list \<Rightarrow> QuotaSystem \<Rightarrow> QuotaSystem" where
  "quota_runs [] q = q"
| "quota_runs ((k, c) # r) q = quota_runs r (snd (quota_run k c q))"

lemma limits_of_quota_run [simp]: "limits_of (snd (quota_run k c q)) = limits_of q"
  by (simp add: quota_run_def case_prod_beta Let_def)

lemma sub_usage_time [simp]: "us_executionTimeMs (sub_usage False cost u) = us_executionTimeMs u"
  by (simp add: sub_usage_def)

lemma quota_run_time:
  "us_executionTimeMs (usage_of (snd (quota_run k c q)) s) =
     us_executionTimeMs (usage_of q s) + (if fst (quota_run k c q) \<and> s \<in> slot_set k then qc_executionTimeMs c else 0)"
  by (simp add: quota_run_def case_prod_beta Let_def usage_of_quota_release usage_of_tryAcquire add_usage_def)

lemma quota_runs_time_mono:
  "\<forall>(k, c) \<in> set rs. 0 \<le> qc_executionTimeMs c \<Longrightarrow>
     us_executionTimeMs (usage_of q s) \<le> us_executionTimeMs (usage_of (quota_runs rs q) s)
     \<and> limits_of (quota_runs rs q) = limits_of q"
proof (induction rs q rule: quota_runs.induct)
  case (2 k c r q)
  then have "us_executionTimeMs (usage_of q s) \<le> us_executionTimeMs (usage_of (snd (quota_run k c q)) s)"
    by (simp add: quota_run_time)
  then show ?case using 2 by auto
qed simp

text \<open>
  The time budget of a tenant is spent once and for all: after an execution has been charged the
  whole limit of its tenant slot, as the default cost of 30000 ms does under the default limits, every
  later acquisition of that tenant with a positive time cost is refused, whatever other executions
  run and finish in between.
\<close>

lemma quota_time_budget_never_returns:
  assumes "fst (quota_run k c q)" "ql_maxExecutionTimeMs (limits_of q (slot Dim_tenant k)) \<le> qc_executionTimeMs c"
    "usage_nonneg (usage_of q (slot Dim_tenant k))" "\<forall>(k', c') \<in> set rs. 0 \<le> qc_executionTimeMs c'"
    "qk_tenantId j = qk_tenantId k" "0 < qc_executionTimeMs d"
  shows "\<not> qa_ok (fst (tryAcquire j d (quota_runs rs (snd (quota_run k c q)))))"
proof -
  let ?s = "slot Dim_tenant k" and ?q = "quota_runs rs (snd (quota_run k c q))"
  have s: "?s = slot Dim_tenant j" using assms(5) by (simp add: slot_def)
  have "ql_maxExecutionTimeMs (limits_of q ?s) \<le> us_executionTimeMs (usage_of (snd (quota_run k c q)) ?s)"
    using assms(1-3) by (simp add: quota_run_time usage_nonneg_def)
  moreover have "us_executionTimeMs (usage_of (snd (quota_run k c q)) ?s) \<le> us_executionTimeMs (usage_of ?q ?s)"
    "limits_of ?q = limits_of q"
    using quota_runs_time_mono [OF assms(4), of "snd (quota_run k c q)" ?s] by simp_all
  ultimately have "\<not> fits ?q d ?s" using assms(6) by (simp add: fits_def add_usage_def)
  then show ?thesis using s tryAcquire_ok own_slot by metis
qed

lemma demo_fits: "\<forall>s \<in> slot_set key_a. fits (newQuotaSystem no_limits) engine_cost s"
  by (simp add: fits_def limits_of_def usage_of_def, simp add: newQuotaSystem_def spread_limits_def over_def
      no_limits_def DEFAULT_LIMITS_def emptyUsage_def add_usage_def engine_cost_def)

section \<open>The resource manager\<close>

inductive resource_step ::
  "ResourceManager \<times> ResourceReservation multiset \<Rightarrow> ResourceManager \<times> ResourceReservation multiset \<Rightarrow> bool" where
  rs_reserve: "resource_step (m, R) (m', R + {# r #})" if "reserve request m = (a, m')" "ra_reservation a = Some r"
    "0 \<le> rr_slots request" "0 \<le> rr_cpuMs request" "0 \<le> rr_memoryBytes request"
| rs_refuse: "resource_step (m, R) (m', R)" if "reserve request m = (a, m')" "ra_reservation a = None"
| rs_release: "resource_step (m, R + {# r #}) (resource_release r m, R)"

definition accounted :: "ResourceManager \<times> ResourceReservation multiset \<Rightarrow> bool" where
  "accounted c \<longleftrightarrow>
     (let (m, R) = c in
      (\<forall>r \<in># R. 0 \<le> rsv_slots r \<and> 0 \<le> rsv_cpuMs r \<and> 0 \<le> rsv_memoryBytes r) \<and>
      rm_slots m = (\<Sum>r \<in># R. rsv_slots r) \<and> rm_cpuMs m = (\<Sum>r \<in># R. rsv_cpuMs r) \<and>
      rm_memoryBytes m = (\<Sum>r \<in># R. rsv_memoryBytes r))"

definition in_pool :: "ResourceManager \<Rightarrow> bool" where
  "in_pool m \<longleftrightarrow> (let p = available m in 0 \<le> rp_maxSlots p \<and> 0 \<le> rp_maxCpuMs p \<and> 0 \<le> rp_maxMemoryBytes p)"

lemma sum_mset_nonneg_int: "\<forall>x \<in># M. 0 \<le> f x \<Longrightarrow> (0 :: int) \<le> (\<Sum>x \<in># M. f x)"
  by (induction M) auto

lemma accounted_nonneg:
  "accounted (m, R) \<Longrightarrow> 0 \<le> (\<Sum>r \<in># R. rsv_slots r) \<and> 0 \<le> (\<Sum>r \<in># R. rsv_cpuMs r) \<and> 0 \<le> (\<Sum>r \<in># R. rsv_memoryBytes r)"
  by (auto simp: accounted_def intro!: sum_mset_nonneg_int)

lemma resource_step_inv:
  "resource_step c c' \<Longrightarrow> accounted c \<and> in_pool (fst c) \<Longrightarrow> accounted c' \<and> in_pool (fst c')"
proof (induction rule: resource_step.induct)
  case (rs_reserve request m a m' r R)
  then show ?case
    by (auto simp: reserve_def exhausted_def accounted_def in_pool_def available_def Let_def split: if_splits)
next
  case (rs_refuse request m a m' R)
  then show ?case by (auto simp: reserve_def Let_def split: if_splits)
next
  case (rs_release m R r)
  then have "accounted (resource_release r m, R)"
    by (auto simp: accounted_def resource_release_def intro!: sum_mset_nonneg_int max_absorb2)
  then show ?case using rs_release by (auto simp: accounted_def in_pool_def available_def resource_release_def Let_def)
qed

text \<open>
  Nothing leaks: whatever reservations are made, refused and released, in any order, the resource
  manager holds exactly the sum of the reservations outstanding, never more than the pool; so with
  none outstanding the whole pool is available.
\<close>

lemma resources_never_leak:
  assumes "resource_step\<^sup>*\<^sup>* (newResourceManager s c b, {#}) (m, R)" "0 \<le> over s 16" "0 \<le> over c 120000"
    "0 \<le> over b (1024 * 1024 * 1024)"
  shows "accounted (m, R) \<and> in_pool m \<and> (R = {#} \<longrightarrow> available m = rm_pool m)"
proof -
  have i: "accounted (newResourceManager s c b, {#}) \<and> in_pool (newResourceManager s c b)"
    using assms(2-4) by (simp add: accounted_def in_pool_def available_def newResourceManager_def)
  have "accounted (m, R) \<and> in_pool m" using assms(1)
    by (induction "(m, R)" arbitrary: m R rule: rtranclp_induct) (use i resource_step_inv in fastforce)+
  then show ?thesis by (simp add: accounted_def available_def)
qed

end
