(* ===== verification/Runtime_Support.thy ===== *)
theory Runtime_Support
  imports Secure_Pipeline Sandbox Quota
begin

text \<open>
  The small parts of \<^verbatim>\<open>runtime/src\<close> the engine is built from: status and audit types, the retry
  strategies, cooperative cancellation, the capability registry, the execution context derived from a
  permit, the tenant isolation keys, the sandbox bridge and the execution snapshot.
\<close>

section \<open>types.ts, audit.ts\<close>

datatype RuntimeStatus =
  RS_COMPLETED | RS_FAILED | RS_CANCELLED | RS_TIMED_OUT | RS_REJECTED | RS_OVERLOADED

datatype RuntimeAuditOutcome =
  RA_ADMITTED | RA_REJECTED | RA_OVERLOADED | RA_COMPLETED | RA_FAILED | RA_CANCELLED | RA_TIMED_OUT | RA_CRASH
  | RA_RECOVERED | RA_CHECKPOINT_RESTORE_DENIED

record RuntimeAuditRecord =
  rar_requestId :: string
  rar_permitId :: string
  rar_tenantId :: string
  rar_workspaceId :: string
  rar_actorId :: string
  rar_capability :: string
  rar_outcome :: RuntimeAuditOutcome
  rar_reasonCode :: string
  rar_detail :: "string option"
  rar_at :: string

text \<open>A sink may append, throw at once, or return a promise that rejects.\<close>

datatype append_reply = Appended | Append_throws js_error | Append_rejects js_error

record 'a RuntimeAuditSink =
  ras_testOnly :: bool
  ras_append :: "RuntimeAuditRecord \<Rightarrow> 'a \<Rightarrow> append_reply \<times> 'a"

definition InMemoryRuntimeAuditSink :: "RuntimeAuditRecord list RuntimeAuditSink" where
  "InMemoryRuntimeAuditSink = \<lparr> ras_testOnly = True, ras_append = (\<lambda>r rs. (Appended, rs @ [r])) \<rparr>"

section \<open>retry.ts\<close>

record RetryDecision =
  rd_retry :: bool
  rd_attempt :: nat
  rd_delayMs :: int
  rd_reasonCode :: string

type_synonym RetryStrategy = "nat \<Rightarrow> bool \<Rightarrow> string \<Rightarrow> RetryDecision"

record BoundedRetryStrategy =
  br_maxAttempts :: nat
  br_baseDelayMs :: int
  br_maxDelayMs :: int

definition newBoundedRetryStrategy :: "nat option \<Rightarrow> int option \<Rightarrow> int option \<Rightarrow> BoundedRetryStrategy" where
  "newBoundedRetryStrategy maxAttempts baseDelayMs maxDelayMs =
     (let base = max 0 (over baseDelayMs 10) in
      \<lparr> br_maxAttempts = max 1 (case maxAttempts of Some n \<Rightarrow> n | None \<Rightarrow> 3), br_baseDelayMs = base,
        br_maxDelayMs = max base (over maxDelayMs 1000) \<rparr>)"

definition decide :: "BoundedRetryStrategy \<Rightarrow> RetryStrategy" where
  "decide b attempt retrySafe error =
     (if \<not> retrySafe then
        \<lparr> rd_retry = False, rd_attempt = attempt, rd_delayMs = 0, rd_reasonCode = ''not_retry_safe'' \<rparr>
      else if br_maxAttempts b \<le> attempt then
        \<lparr> rd_retry = False, rd_attempt = attempt, rd_delayMs = 0, rd_reasonCode = ''max_attempts_reached'' \<rparr>
      else
        \<lparr> rd_retry = True, rd_attempt = attempt,
          rd_delayMs = min (br_baseDelayMs b * 2 ^ (attempt - 1)) (br_maxDelayMs b),
          rd_reasonCode = ''retry_scheduled'' \<rparr>)"

definition NoRetryStrategy :: RetryStrategy where
  "NoRetryStrategy attempt retrySafe error =
     \<lparr> rd_retry = False, rd_attempt = attempt, rd_delayMs = 0, rd_reasonCode = ''retry_disabled'' \<rparr>"

text \<open>The delay stays within the cap; only a retry-safe capability below the bound is retried.\<close>

lemma decide_delay:
  assumes "b = newBoundedRetryStrategy m base cap" "rd_retry (decide b n safe e)"
  shows "0 \<le> rd_delayMs (decide b n safe e) \<and> rd_delayMs (decide b n safe e) \<le> br_maxDelayMs b \<and> safe \<and> n < br_maxAttempts b"
  using assms(2) by (auto simp: assms(1) decide_def newBoundedRetryStrategy_def Let_def split: if_splits)

section \<open>cancellation.ts\<close>

text \<open>
  The callbacks are opaque; \<open>cancel\<close> gives the ones it calls, in order. A callback that throws is
  caught there, so it has no effect on the source.
\<close>

record 'c CancellationSource =
  cs_cancelled :: bool
  cs_reason :: "string option"
  cs_callbacks :: "'c list"

definition newCancellationSource :: "'c CancellationSource" where
  "newCancellationSource = \<lparr> cs_cancelled = False, cs_reason = None, cs_callbacks = [] \<rparr>"

definition cancel :: "string \<Rightarrow> 'c CancellationSource \<Rightarrow> ('c \<times> string) list \<times> 'c CancellationSource" where
  "cancel reason s =
     (if cs_cancelled s then ([], s)
      else (map (\<lambda>c. (c, reason)) (cs_callbacks s),
            s\<lparr> cs_cancelled := True, cs_reason := Some reason, cs_callbacks := [] \<rparr>))"

definition reason_or_cancelled :: "'c CancellationSource \<Rightarrow> string" where
  "reason_or_cancelled s = (case cs_reason s of Some r \<Rightarrow> r | None \<Rightarrow> ''cancelled'')"

definition throwIfCancelled :: "'c CancellationSource \<Rightarrow> unit result" where
  "throwIfCancelled s =
     (if cs_cancelled s then Inl (JsError (''Execution cancelled: '' @ reason_or_cancelled s)) else Inr ())"

definition onCancel :: "'c \<Rightarrow> 'c CancellationSource \<Rightarrow> ('c \<times> string) list \<times> 'c CancellationSource" where
  "onCancel callback s =
     (if cs_cancelled s then ([(callback, reason_or_cancelled s)], s)
      else ([], s\<lparr> cs_callbacks := cs_callbacks s @ [callback] \<rparr>))"

datatype 'c cancel_op = Op_cancel string | Op_onCancel 'c

fun cancel_run :: "'c cancel_op list \<Rightarrow> 'c CancellationSource \<Rightarrow> ('c \<times> string) list \<times> 'c CancellationSource" where
  "cancel_run [] s = ([], s)"
| "cancel_run (x # xs) s =
     (let (f, s1) = (case x of Op_cancel r \<Rightarrow> cancel r s | Op_onCancel c \<Rightarrow> onCancel c s); (g, s2) = cancel_run xs s1
      in (f @ g, s2))"

fun registered :: "'c cancel_op list \<Rightarrow> 'c list" where
  "registered [] = []"
| "registered (Op_onCancel c # xs) = c # registered xs"
| "registered (Op_cancel r # xs) = registered xs"

fun first_reason :: "'c cancel_op list \<Rightarrow> string option" where
  "first_reason [] = None"
| "first_reason (Op_cancel r # xs) = Some r"
| "first_reason (Op_onCancel c # xs) = first_reason xs"

lemma cancel_run_cancelled:
  "cs_cancelled s \<Longrightarrow> cs_reason s = Some r \<Longrightarrow> cancel_run xs s = (map (\<lambda>c. (c, r)) (registered xs), s)"
  by (induction xs rule: registered.induct) (simp_all add: cancel_def onCancel_def reason_or_cancelled_def)

text \<open>
  Whatever the order of registrations and cancellations, each callback is called exactly once if the
  source is ever cancelled and never otherwise, always with the reason of the first cancellation.
\<close>

lemma cancel_run_once:
  assumes "\<not> cs_cancelled s"
  shows "cancel_run xs s =
    (case first_reason xs of
       None \<Rightarrow> ([], s\<lparr> cs_callbacks := cs_callbacks s @ registered xs \<rparr>)
     | Some r \<Rightarrow> (map (\<lambda>c. (c, r)) (cs_callbacks s @ registered xs),
                  s\<lparr> cs_cancelled := True, cs_reason := Some r, cs_callbacks := [] \<rparr>))"
  using assms
  by (induction xs arbitrary: s rule: registered.induct)
    (simp_all add: cancel_def onCancel_def cancel_run_cancelled split: option.split)

section \<open>capability.ts\<close>

record PartialQuotaCost =
  pc_cpuMs :: "int option"
  pc_memoryBytes :: "int option"
  pc_executionTimeMs :: "int option"

record CapabilityDescriptor =
  cd_name :: string
  cd_requiredSandboxCapabilities :: "string list"
  cd_idempotent :: bool
  cd_retrySafe :: bool
  cd_defaultCost :: "PartialQuotaCost option"
  cd_description :: "string option"

type_synonym CapabilityRegistry = "string \<rightharpoonup> CapabilityDescriptor"

definition register_capability :: "CapabilityDescriptor \<Rightarrow> CapabilityRegistry \<Rightarrow> CapabilityRegistry result" where
  "register_capability descriptor reg =
     (if \<not> isNonEmptyString (cd_name descriptor) then
        Inl (JsError ''CapabilityRegistry.register requires a capability name.'')
      else if reg (cd_name descriptor) \<noteq> None then
        Inl (JsError (''Capability '' @ [CHR 0x27] @ cd_name descriptor @ [CHR 0x27] @ '' is already registered.''))
      else Inr (reg(cd_name descriptor \<mapsto> descriptor)))"

section \<open>context.ts\<close>

record RuntimeExecutionContext =
  rx_requestId :: string
  rx_correlationId :: string
  rx_causationId :: "string option"
  rx_actorId :: string
  rx_actorType :: string
  rx_tenantId :: string
  rx_organizationId :: string
  rx_workspaceId :: string
  rx_permitId :: string
  rx_capability :: string
  rx_resource :: ResourceRef
  rx_deadlineIso :: string
  rx_traceId :: string

record DeriveRuntimeContextInput =
  dr_capability :: string
  dr_traceId :: string
  dr_deadlineIso :: string
  dr_causationId :: "string option"

datatype DeriveRuntimeContextResult = Derived RuntimeExecutionContext | Not_derived string string

fun first_empty :: "(string \<times> string) list \<Rightarrow> string option" where
  "first_empty [] = None"
| "first_empty ((name, v) # r) = (if isNonEmptyString v then first_empty r else Some name)"

definition deriveRuntimeContext ::
  "SignedExecutionPermit option \<Rightarrow> DeriveRuntimeContextInput \<Rightarrow> DeriveRuntimeContextResult" where
  "deriveRuntimeContext permit inp =
     (case permit of
        None \<Rightarrow> Not_derived ''permit_missing'' ''A signed execution permit is required to derive context.''
      | Some p \<Rightarrow>
          (let claims = sp_claims p in
           case first_empty
               [(''tenantId'', cl_tenantId claims), (''organizationId'', cl_organizationId claims),
                (''workspaceId'', cl_workspaceId claims), (''actorId'', cl_actorId claims),
                (''requestId'', cl_requestId claims), (''capability'', dr_capability inp),
                (''traceId'', dr_traceId inp), (''deadlineIso'', dr_deadlineIso inp)] of
             Some name \<Rightarrow>
               Not_derived ''context_field_missing''
                 (''Runtime context field '' @ [CHR 0x27] @ name @ [CHR 0x27] @ '' is required.'')
           | None \<Rightarrow>
               Derived
                 \<lparr> rx_requestId = cl_requestId claims, rx_correlationId = cl_correlationId claims,
                   rx_causationId = (if isNonEmptyOpt (dr_causationId inp) then dr_causationId inp else None),
                   rx_actorId = cl_actorId claims, rx_actorType = cl_actorType claims, rx_tenantId = cl_tenantId claims,
                   rx_organizationId = cl_organizationId claims, rx_workspaceId = cl_workspaceId claims,
                   rx_permitId = cl_permitId claims, rx_capability = dr_capability inp, rx_resource = cl_resource claims,
                   rx_deadlineIso = dr_deadlineIso inp, rx_traceId = dr_traceId inp \<rparr>))"

section \<open>tenant-isolation.ts\<close>

definition runtimeIsolationKey :: "RuntimeExecutionContext \<Rightarrow> string" where
  "runtimeIsolationKey c = join_sep (CHR 0x1F) [rx_tenantId c, rx_organizationId c, rx_workspaceId c, rx_actorId c]"

definition tenantKey :: "RuntimeExecutionContext \<Rightarrow> string" where
  "tenantKey c = ''t:'' @ rx_tenantId c"

definition assertSameTenant :: "RuntimeExecutionContext \<Rightarrow> RuntimeExecutionContext \<Rightarrow> bool" where
  "assertSameTenant a b \<longleftrightarrow>
     rx_tenantId a = rx_tenantId b \<and> rx_organizationId a = rx_organizationId b \<and> rx_workspaceId a = rx_workspaceId b"

definition asActorType :: "string \<Rightarrow> ActorType" where
  "asActorType v =
     (if v = ''human_user'' then HumanUser else if v = ''digital_employee'' then DigitalEmployee
      else if v = ''ai_agent'' then AiAgent else if v = ''external_service'' then ExternalService else System)"

definition osforge_context :: "RuntimeExecutionContext \<Rightarrow> OSForgeContext" where
  "osforge_context c =
     \<lparr> ctx_tenant = \<lparr> tenant_id = rx_tenantId c, tenant_name = rx_tenantId c, tenant_status = Active,
                      tenant_createdAt = rx_deadlineIso c \<rparr>,
       ctx_organization = \<lparr> org_id = rx_organizationId c, org_tenantId = rx_tenantId c, org_name = rx_organizationId c,
                            org_domain = None, org_createdAt = rx_deadlineIso c \<rparr>,
       ctx_workspace = \<lparr> ws_id = rx_workspaceId c, ws_tenantId = rx_tenantId c,
                         ws_organizationId = rx_organizationId c, ws_name = rx_workspaceId c, ws_purpose = None \<rparr>,
       ctx_actor = \<lparr> actor_id = rx_actorId c, actor_type = asActorType (rx_actorType c), actor_displayName = rx_actorId c,
                     actor_tenantId = rx_tenantId c, actor_organizationId = Some (rx_organizationId c),
                     actor_workspaceId = Some (rx_workspaceId c) \<rparr>,
       ctx_correlationId = rx_correlationId c, ctx_locale = None, ctx_timezone = None \<rparr>"

definition deriveExecutionIdentity :: "RuntimeExecutionContext \<Rightarrow> iso_heap \<Rightarrow> ref option \<times> iso_heap" where
  "deriveExecutionIdentity c h =
     (let (r, h1) = createRuntimeIsolationContext (osforge_context c) (rx_permitId c) h in
      case r of None \<Rightarrow> (None, h1) | Some rc \<Rightarrow> createExecutionIdentity rc h1)"

section \<open>sandbox.ts\<close>

record RuntimeSandboxInput =
  rsi_mode :: RuntimeMode
  rsi_environmentMode :: string
  rsi_capability :: string
  rsi_policy :: "ref option"
  rsi_provider :: "ref option"
  rsi_identity :: "ref option"

record RuntimeSandboxDecision =
  rsd_allowed :: bool
  rsd_reasonCode :: string
  rsd_message :: string
  rsd_productionReady :: bool

text \<open>The branch of an attested provider, the same in both modes.\<close>

definition provider_decision :: "RuntimeSandboxInput \<Rightarrow> ref \<Rightarrow> ref \<Rightarrow> iso_heap \<Rightarrow> RuntimeSandboxDecision" where
  "provider_decision i provider policy h =
     (let result = evaluateSandboxProvider
            \<lparr> spe_provider = provider, spe_policy = policy, spe_capability = Some (JStr (rsi_capability i)),
              spe_environmentMode = Some (JStr (rsi_environmentMode i)), spe_identity = rsi_identity i,
              spe_quota = None \<rparr> h;
          allowed = (fst result = Iso_allowed)
      in \<lparr> rsd_allowed = allowed, rsd_reasonCode = (if allowed then ''sandbox_allowed'' else ''sandbox_denied''),
           rsd_message = fst (snd result), rsd_productionReady = allowed \<rparr>)"

definition evaluateRuntimeSandbox :: "RuntimeSandboxInput \<Rightarrow> iso_heap \<Rightarrow> RuntimeSandboxDecision" where
  "evaluateRuntimeSandbox i h =
     (if rsi_mode i = Production then
        (case rsi_provider i of
           None \<Rightarrow>
             \<lparr> rsd_allowed = False, rsd_reasonCode = ''sandbox_provider_required'',
               rsd_message = ''Production execution requires an attested sandbox provider.'', rsd_productionReady = False \<rparr>
         | Some provider \<Rightarrow>
             (case rsi_policy i of
                None \<Rightarrow>
                  \<lparr> rsd_allowed = False, rsd_reasonCode = ''sandbox_policy_required'',
                    rsd_message = ''Production execution requires a sandbox policy.'', rsd_productionReady = False \<rparr>
              | Some policy \<Rightarrow> provider_decision i provider policy h))
      else
        (case (rsi_provider i, rsi_policy i) of
           (Some provider, Some policy) \<Rightarrow> provider_decision i provider policy h
         | (None, Some policy) \<Rightarrow>
             (let result = evaluateSandboxCapability
                    \<lparr> sce_policy = policy, sce_capability = Some (JStr (rsi_capability i)), sce_identity = rsi_identity i,
                      sce_quota = None \<rparr> h;
                  allowed = (fst result = Iso_allowed)
              in \<lparr> rsd_allowed = allowed,
                   rsd_reasonCode = (if allowed then ''sandbox_policy_allowed'' else ''sandbox_policy_denied''),
                   rsd_message = fst (snd result), rsd_productionReady = False \<rparr>)
         | _ \<Rightarrow>
             \<lparr> rsd_allowed = True, rsd_reasonCode = ''test_sandbox_bypass'',
               rsd_message = ''No sandbox configured; foundation/test only.'', rsd_productionReady = False \<rparr>))"

section \<open>snapshot.ts\<close>

record ExecutionSnapshot =
  sn_snapshotId :: string
  sn_requestId :: string
  sn_permitId :: string
  sn_tenantId :: string
  sn_organizationId :: string
  sn_workspaceId :: string
  sn_actorId :: string
  sn_capability :: string
  sn_status :: RuntimeStatus
  sn_reasonCode :: string
  sn_attempts :: nat
  sn_startedAt :: string
  sn_endedAt :: "string option"
  sn_classification :: string

record SnapshotFields =
  sf_status :: RuntimeStatus
  sf_reasonCode :: string
  sf_attempts :: nat
  sf_startedAt :: string
  sf_endedAt :: "string option"

definition createExecutionSnapshot :: "string \<Rightarrow> RuntimeExecutionContext \<Rightarrow> SnapshotFields \<Rightarrow> ExecutionSnapshot" where
  "createExecutionSnapshot snapshotId c f =
     \<lparr> sn_snapshotId = snapshotId, sn_requestId = rx_requestId c, sn_permitId = rx_permitId c,
       sn_tenantId = rx_tenantId c, sn_organizationId = rx_organizationId c, sn_workspaceId = rx_workspaceId c,
       sn_actorId = rx_actorId c, sn_capability = rx_capability c, sn_status = sf_status f,
       sn_reasonCode = sf_reasonCode f, sn_attempts = sf_attempts f, sn_startedAt = sf_startedAt f,
       sn_endedAt = truthy (sf_endedAt f), sn_classification = ''internal'' \<rparr>"

section \<open>Lemmas\<close>

lemma deriveRuntimeContext_binds:
  "deriveRuntimeContext (Some p) inp = Derived c \<Longrightarrow>
     rx_permitId c = cl_permitId (sp_claims p) \<and> rx_requestId c = cl_requestId (sp_claims p) \<and>
     rx_tenantId c = cl_tenantId (sp_claims p) \<and> rx_organizationId c = cl_organizationId (sp_claims p) \<and>
     rx_workspaceId c = cl_workspaceId (sp_claims p) \<and> rx_actorId c = cl_actorId (sp_claims p) \<and>
     rx_resource c = cl_resource (sp_claims p) \<and> rx_capability c = dr_capability inp"
  by (auto simp: deriveRuntimeContext_def Let_def split: option.splits)

text \<open>In production nothing runs without a provider and a policy that both admit the capability.\<close>

lemma evaluateRuntimeSandbox_production:
  assumes "rsi_mode i = Production" "rsd_allowed (evaluateRuntimeSandbox i h)"
  shows "rsd_productionReady (evaluateRuntimeSandbox i h) \<and>
    (\<exists>provider policy. rsi_provider i = Some provider \<and> rsi_policy i = Some policy \<and>
       fst (evaluateSandboxProvider
         \<lparr> spe_provider = provider, spe_policy = policy, spe_capability = Some (JStr (rsi_capability i)),
           spe_environmentMode = Some (JStr (rsi_environmentMode i)), spe_identity = rsi_identity i,
           spe_quota = None \<rparr> h) = Iso_allowed)"
  using assms by (auto simp: evaluateRuntimeSandbox_def provider_decision_def Let_def split: option.splits)

end
