(* ===== verification/Circuit_Breaker.thy ===== *)
theory Circuit_Breaker
  imports Js_Date
begin

text \<open>
  \<^verbatim>\<open>runtime/src/circuit-breaker.ts\<close>. The code keeps one mutable entry per string key in a map.
  The specification is one small state machine per tenant and capability (\<open>circuit\<close>). The
  operations on the map implement the machine of their own key and leave every other one alone,
  as long as the identifiers do not contain the separator U+001F of the string key.
\<close>

datatype CircuitState = Closed_state | Open_state | Half_open_state

record CircuitKey =
  ck_tenantId :: string
  ck_capability :: string

record CircuitEntry =
  ce_state :: CircuitState
  ce_failures :: int
  ce_openedAt :: "string option"
  ce_halfOpenProbes :: int

record DefaultCircuitBreaker =
  cb_failureThreshold :: int
  cb_resetTimeoutMs :: int
  cb_halfOpenMaxProbes :: int
  cb_entries :: "string \<rightharpoonup> CircuitEntry"

definition keyString :: "CircuitKey \<Rightarrow> string" where
  "keyString k = ck_tenantId k @ [CHR 0x1F] @ ck_capability k"

definition or_default :: "int option \<Rightarrow> int \<Rightarrow> int" where
  "or_default v d = (case v of Some x \<Rightarrow> x | None \<Rightarrow> d)"

definition newCircuitBreaker :: "int option \<Rightarrow> int option \<Rightarrow> int option \<Rightarrow> DefaultCircuitBreaker" where
  "newCircuitBreaker failureThreshold resetTimeoutMs halfOpenMaxProbes =
     \<lparr> cb_failureThreshold = max 1 (or_default failureThreshold 5),
       cb_resetTimeoutMs = max 1 (or_default resetTimeoutMs 1000),
       cb_halfOpenMaxProbes = max 1 (or_default halfOpenMaxProbes 1), cb_entries = Map.empty \<rparr>"

text \<open>\<^verbatim>\<open>#entry\<close>: the entry of a key, created when it is missing. The callers store it back.\<close>

definition entry :: "CircuitKey \<Rightarrow> DefaultCircuitBreaker \<Rightarrow> CircuitEntry" where
  "entry key b =
     (case cb_entries b (keyString key) of
        Some e \<Rightarrow> e
      | None \<Rightarrow> \<lparr> ce_state = Closed_state, ce_failures = 0, ce_openedAt = None, ce_halfOpenProbes = 0 \<rparr>)"

definition set_entry :: "CircuitKey \<Rightarrow> CircuitEntry \<Rightarrow> DefaultCircuitBreaker \<Rightarrow> DefaultCircuitBreaker" where
  "set_entry key e b = b\<lparr> cb_entries := (cb_entries b)(keyString key \<mapsto> e) \<rparr>"

definition elapsed :: "string \<Rightarrow> string \<Rightarrow> int" where
  "elapsed fromIso nowIso =
     (case (dateParse fromIso, dateParse nowIso) of (Some f, Some n) \<Rightarrow> n - f | _ \<Rightarrow> 0)"

definition circuit_state :: "CircuitKey \<Rightarrow> string \<Rightarrow> DefaultCircuitBreaker \<Rightarrow> CircuitState \<times> DefaultCircuitBreaker" where
  "circuit_state key now b =
     (let e = entry key b;
          e' = (case ce_openedAt e of
                  Some t \<Rightarrow>
                    if ce_state e = Open_state \<and> t \<noteq> [] \<and> cb_resetTimeoutMs b \<le> elapsed t now
                    then e\<lparr> ce_state := Half_open_state, ce_halfOpenProbes := 0 \<rparr> else e
                | None \<Rightarrow> e)
      in (ce_state e', set_entry key e' b))"

definition canExecute :: "CircuitKey \<Rightarrow> string \<Rightarrow> DefaultCircuitBreaker \<Rightarrow> bool \<times> DefaultCircuitBreaker" where
  "canExecute key now b =
     (let (state, b1) = circuit_state key now b in
      if state = Closed_state then (True, b1)
      else if state = Open_state then (False, b1)
      else (let e = entry key b1 in
            if cb_halfOpenMaxProbes b1 \<le> ce_halfOpenProbes e then (False, b1)
            else (True, set_entry key (e\<lparr> ce_halfOpenProbes := ce_halfOpenProbes e + 1 \<rparr>) b1)))"

definition onSuccess :: "CircuitKey \<Rightarrow> DefaultCircuitBreaker \<Rightarrow> DefaultCircuitBreaker" where
  "onSuccess key b =
     set_entry key ((entry key b)\<lparr> ce_state := Closed_state, ce_failures := 0, ce_halfOpenProbes := 0,
                                   ce_openedAt := None \<rparr>) b"

definition onFailure :: "CircuitKey \<Rightarrow> string \<Rightarrow> DefaultCircuitBreaker \<Rightarrow> DefaultCircuitBreaker" where
  "onFailure key now b =
     (let e = entry key b in
      if ce_state e = Half_open_state then set_entry key (e\<lparr> ce_state := Open_state, ce_openedAt := Some now \<rparr>) b
      else
        (let e1 = e\<lparr> ce_failures := ce_failures e + 1 \<rparr> in
         set_entry key (if cb_failureThreshold b \<le> ce_failures e1
                        then e1\<lparr> ce_state := Open_state, ce_openedAt := Some now \<rparr> else e1) b))"

section \<open>The specification\<close>

text \<open>
  One circuit: closed with the failures in a row so far, open since a time, or half open with
  the probes handed out. Three events drive it.
\<close>

datatype circuit = Closed int | Open string | Half_open int

record circuit_config =
  cc_threshold :: int
  cc_reset :: int
  cc_probes :: int

fun cool_down :: "circuit_config \<Rightarrow> string \<Rightarrow> circuit \<Rightarrow> circuit" where
  "cool_down c now (Open t) = (if cc_reset c \<le> elapsed t now then Half_open 0 else Open t)"
| "cool_down c now x = x"

fun ask :: "circuit_config \<Rightarrow> circuit \<Rightarrow> bool \<times> circuit" where
  "ask c (Closed n) = (True, Closed n)"
| "ask c (Open t) = (False, Open t)"
| "ask c (Half_open p) = (if cc_probes c \<le> p then (False, Half_open p) else (True, Half_open (p + 1)))"

fun fail :: "circuit_config \<Rightarrow> string \<Rightarrow> circuit \<Rightarrow> circuit" where
  "fail c now (Closed n) = (if cc_threshold c \<le> n + 1 then Open now else Closed (n + 1))"
| "fail c now (Open t) = Open now"
| "fail c now (Half_open p) = Open now"

definition abs_entry :: "CircuitEntry \<Rightarrow> circuit" where
  "abs_entry e =
     (case ce_state e of
        Closed_state \<Rightarrow> Closed (ce_failures e)
      | Open_state \<Rightarrow> Open (case ce_openedAt e of Some t \<Rightarrow> t | None \<Rightarrow> [])
      | Half_open_state \<Rightarrow> Half_open (ce_halfOpenProbes e))"

definition circuit_of :: "DefaultCircuitBreaker \<Rightarrow> CircuitKey \<Rightarrow> circuit" where
  "circuit_of b k = abs_entry (entry k b)"

definition config_of :: "DefaultCircuitBreaker \<Rightarrow> circuit_config" where
  "config_of b = \<lparr> cc_threshold = cb_failureThreshold b, cc_reset = cb_resetTimeoutMs b, cc_probes = cb_halfOpenMaxProbes b \<rparr>"

text \<open>What the entries of a breaker satisfy; the times the clock gives are not empty.\<close>

definition entry_ok :: "DefaultCircuitBreaker \<Rightarrow> CircuitEntry \<Rightarrow> bool" where
  "entry_ok b e \<longleftrightarrow>
     (case ce_state e of
        Closed_state \<Rightarrow> 0 \<le> ce_failures e \<and> ce_failures e < cb_failureThreshold b
      | Open_state \<Rightarrow> cb_failureThreshold b \<le> ce_failures e \<and> (\<exists>t. ce_openedAt e = Some t \<and> t \<noteq> [])
      | Half_open_state \<Rightarrow> cb_failureThreshold b \<le> ce_failures e \<and> 0 \<le> ce_halfOpenProbes e \<and>
                           ce_halfOpenProbes e \<le> cb_halfOpenMaxProbes b)"

definition breaker_inv :: "DefaultCircuitBreaker \<Rightarrow> bool" where
  "breaker_inv b \<longleftrightarrow> 1 \<le> cb_failureThreshold b \<and> 1 \<le> cb_resetTimeoutMs b \<and> 1 \<le> cb_halfOpenMaxProbes b \<and>
     (\<forall>k. entry_ok b (entry k b))"

definition unit_free_key :: "CircuitKey \<Rightarrow> bool" where
  "unit_free_key k \<longleftrightarrow> CHR 0x1F \<notin> set (ck_tenantId k)"

section \<open>Lemmas\<close>

lemma keyString_inject: "unit_free_key k \<Longrightarrow> unit_free_key j \<Longrightarrow> keyString k = keyString j \<longleftrightarrow> k = j"
  by (auto simp: keyString_def unit_free_key_def append_sep_inject)

lemma entry_set_entry: "entry j (set_entry k e b) = (if keyString j = keyString k then e else entry j b)"
  by (simp add: entry_def set_entry_def)

lemma set_entry_config [simp]:
  "cb_failureThreshold (set_entry k e b) = cb_failureThreshold b"
  "cb_resetTimeoutMs (set_entry k e b) = cb_resetTimeoutMs b"
  "cb_halfOpenMaxProbes (set_entry k e b) = cb_halfOpenMaxProbes b" "config_of (set_entry k e b) = config_of b"
  by (simp_all add: set_entry_def config_of_def)

lemma set_entry_twice [simp]: "set_entry k e' (set_entry k e b) = set_entry k e' b"
  by (simp add: set_entry_def)

lemma entry_ok_cong [simp]: "entry_ok (set_entry k e b) = entry_ok b"
  by (simp add: fun_eq_iff entry_ok_def split: CircuitState.splits)

lemma set_entry_inv: "breaker_inv b \<Longrightarrow> entry_ok b e \<Longrightarrow> breaker_inv (set_entry k e b)"
  by (simp add: breaker_inv_def entry_set_entry)

lemma circuit_of_set_entry:
  "unit_free_key k \<Longrightarrow> unit_free_key j \<Longrightarrow>
     circuit_of (set_entry k e b) j = (if j = k then abs_entry e else circuit_of b j)"
  by (simp add: circuit_of_def entry_set_entry keyString_inject)

lemma circuit_state_cases:
  assumes "breaker_inv b" "circuit_state k now b = (s, b')"
  obtains e where "b' = set_entry k e b" "s = ce_state e" "entry_ok b e"
    "abs_entry e = cool_down (config_of b) now (circuit_of b k)"
proof -
  have ok: "entry_ok b (entry k b)" using assms(1) by (simp add: breaker_inv_def)
  define e where "e = (case ce_openedAt (entry k b) of
      Some t \<Rightarrow> if ce_state (entry k b) = Open_state \<and> t \<noteq> [] \<and> cb_resetTimeoutMs b \<le> elapsed t now
                then (entry k b)\<lparr> ce_state := Half_open_state, ce_halfOpenProbes := 0 \<rparr> else entry k b
    | None \<Rightarrow> entry k b)"
  have "b' = set_entry k e b" "s = ce_state e"
    using assms(2) by (simp_all add: circuit_state_def Let_def e_def)
  moreover have "entry_ok b e"
    using ok assms(1) by (auto simp: e_def entry_ok_def breaker_inv_def split: option.splits CircuitState.splits)
  moreover have "abs_entry e = cool_down (config_of b) now (circuit_of b k)"
    using ok
    by (auto simp: e_def entry_ok_def circuit_of_def abs_entry_def config_of_def split: option.splits CircuitState.splits)
  ultimately show thesis by (rule that)
qed

lemma canExecute_cases:
  assumes "breaker_inv b" "canExecute k now b = (ok, b')"
  obtains e where "b' = set_entry k e b" "entry_ok b e"
    "(ok, abs_entry e) = ask (config_of b) (cool_down (config_of b) now (circuit_of b k))"
proof -
  obtain s b1 where s: "circuit_state k now b = (s, b1)" by fastforce
  with assms(1) obtain e where e: "b1 = set_entry k e b" "s = ce_state e" "entry_ok b e"
    "abs_entry e = cool_down (config_of b) now (circuit_of b k)" by (rule circuit_state_cases)
  let ?e' = "if s = Half_open_state \<and> ce_halfOpenProbes e < cb_halfOpenMaxProbes b
             then e\<lparr> ce_halfOpenProbes := ce_halfOpenProbes e + 1 \<rparr> else e"
  have "b' = set_entry k ?e' b"
    using assms(2) s e(1,2) by (cases "ce_state e") (auto simp: canExecute_def Let_def entry_set_entry split: if_splits)
  moreover have "entry_ok b ?e'" using e(3) by (auto simp: entry_ok_def split: CircuitState.splits)
  moreover have "(ok, abs_entry ?e') = ask (config_of b) (abs_entry e)"
    using assms(2) s e(1,2)
    by (cases "ce_state e")
      (auto simp: canExecute_def Let_def entry_set_entry abs_entry_def config_of_def split: if_splits)
  ultimately show thesis using that e(4) by simp
qed

lemma onSuccess_entry:
  assumes "breaker_inv b"
  obtains e where "onSuccess k b = set_entry k e b" "entry_ok b e" "abs_entry e = Closed 0"
proof -
  let ?e = "(entry k b)\<lparr> ce_state := Closed_state, ce_failures := 0, ce_halfOpenProbes := 0, ce_openedAt := None \<rparr>"
  show thesis
    using assms by (intro that [of ?e]) (simp_all add: onSuccess_def entry_ok_def abs_entry_def breaker_inv_def)
qed

lemma onFailure_entry:
  assumes "breaker_inv b" "now \<noteq> []"
  obtains e where "onFailure k now b = set_entry k e b" "entry_ok b e" "abs_entry e = fail (config_of b) now (circuit_of b k)"
proof -
  let ?c = "entry k b"
  have ok: "entry_ok b ?c" using assms(1) by (simp add: breaker_inv_def)
  let ?e = "if ce_state ?c = Half_open_state then ?c\<lparr> ce_state := Open_state, ce_openedAt := Some now \<rparr>
            else if cb_failureThreshold b \<le> ce_failures ?c + 1
                 then ?c\<lparr> ce_failures := ce_failures ?c + 1, ce_state := Open_state, ce_openedAt := Some now \<rparr>
                 else ?c\<lparr> ce_failures := ce_failures ?c + 1 \<rparr>"
  have "onFailure k now b = set_entry k ?e b" by (simp add: onFailure_def Let_def)
  moreover have "entry_ok b ?e" using ok assms(2) by (cases "ce_state ?c") (auto simp: entry_ok_def)
  moreover have "abs_entry ?e = fail (config_of b) now (circuit_of b k)"
    using ok by (cases "ce_state ?c") (auto simp: entry_ok_def abs_entry_def circuit_of_def config_of_def)
  ultimately show thesis by (rule that)
qed

text \<open>Asking a circuit that is not closed, over and over: how many probes get through.\<close>

fun asks :: "CircuitKey \<Rightarrow> string list \<Rightarrow> DefaultCircuitBreaker \<Rightarrow> nat \<times> DefaultCircuitBreaker" where
  "asks k [] b = (0, b)"
| "asks k (now # nows) b =
     (let (ok, b1) = canExecute k now b; (n, b2) = asks k nows b1 in ((if ok then Suc n else n), b2))"

definition probes_left :: "circuit_config \<Rightarrow> circuit \<Rightarrow> int" where
  "probes_left c x = (case x of Half_open p \<Rightarrow> cc_probes c - p | _ \<Rightarrow> cc_probes c)"

lemma asks_bounded:
  assumes "breaker_inv b" "\<nexists>n. circuit_of b k = Closed n"
  shows "int (fst (asks k nows b)) \<le> probes_left (config_of b) (circuit_of b k)"
  using assms
proof (induction nows arbitrary: b)
  case Nil
  have ok: "entry_ok b (entry k b)" using Nil(1) by (simp add: breaker_inv_def)
  then have "0 \<le> probes_left (config_of b) (circuit_of b k)"
    using Nil(1) by (cases "ce_state (entry k b)")
      (auto simp: probes_left_def circuit_of_def abs_entry_def entry_ok_def config_of_def breaker_inv_def)
  then show ?case by simp
next
  case (Cons now nows)
  obtain ok b1 where c: "canExecute k now b = (ok, b1)" by fastforce
  with Cons.prems(1) obtain e where e: "b1 = set_entry k e b" "entry_ok b e"
    "(ok, abs_entry e) = ask (config_of b) (cool_down (config_of b) now (circuit_of b k))" by (rule canExecute_cases)
  have inv: "breaker_inv b1" using e Cons.prems(1) by (simp add: set_entry_inv)
  have c1: "circuit_of b1 k = abs_entry e" by (simp add: e circuit_of_def entry_set_entry)
  have step: "\<nexists>n. circuit_of b1 k = Closed n"
    "probes_left (config_of b) (circuit_of b1 k) + (if ok then 1 else 0) \<le> probes_left (config_of b) (circuit_of b k)"
    using e(3) Cons.prems(2) unfolding c1 by (cases "circuit_of b k"; auto simp: probes_left_def split: if_splits)+
  then have "int (fst (asks k nows b1)) \<le> probes_left (config_of b) (circuit_of b1 k)"
    using Cons.IH [OF inv] e(1) by simp
  then show ?case using step(2) c by (auto simp: case_prod_beta)
qed

text \<open>Each operation moves the circuit of its key and no other.\<close>

definition moves :: "DefaultCircuitBreaker \<Rightarrow> CircuitKey \<Rightarrow> circuit \<Rightarrow> DefaultCircuitBreaker \<Rightarrow> bool" where
  "moves b k x b' \<longleftrightarrow>
     breaker_inv b' \<and> circuit_of b' k = x \<and> (\<forall>j. unit_free_key j \<longrightarrow> j \<noteq> k \<longrightarrow> circuit_of b' j = circuit_of b j)"

lemma set_entry_moves:
  "breaker_inv b \<Longrightarrow> unit_free_key k \<Longrightarrow> entry_ok b e \<Longrightarrow> moves b k (abs_entry e) (set_entry k e b)"
  by (simp add: moves_def set_entry_inv circuit_of_set_entry)

lemma canExecute_moves:
  assumes "breaker_inv b" "unit_free_key k"
  shows "moves b k (snd (ask (config_of b) (cool_down (config_of b) now (circuit_of b k)))) (snd (canExecute k now b)) \<and>
         fst (canExecute k now b) = fst (ask (config_of b) (cool_down (config_of b) now (circuit_of b k)))"
proof -
  obtain ok b' where c: "canExecute k now b = (ok, b')" by fastforce
  with assms(1) obtain e where "b' = set_entry k e b" "entry_ok b e"
    "(ok, abs_entry e) = ask (config_of b) (cool_down (config_of b) now (circuit_of b k))" by (rule canExecute_cases)
  then show ?thesis using set_entry_moves [OF assms, of e] by (simp add: c prod_eq_iff)
qed

lemma onSuccess_moves:
  assumes "breaker_inv b" "unit_free_key k"
  shows "moves b k (Closed 0) (onSuccess k b)"
proof -
  obtain e where "onSuccess k b = set_entry k e b" "entry_ok b e" "abs_entry e = Closed 0"
    using assms(1) by (rule onSuccess_entry)
  then show ?thesis using set_entry_moves [OF assms, of e] by simp
qed

lemma onFailure_moves:
  assumes "breaker_inv b" "unit_free_key k" "now \<noteq> []"
  shows "moves b k (fail (config_of b) now (circuit_of b k)) (onFailure k now b)"
proof -
  obtain e where "onFailure k now b = set_entry k e b" "entry_ok b e" "abs_entry e = fail (config_of b) now (circuit_of b k)"
    using assms(1,3) by (rule onFailure_entry)
  then show ?thesis using set_entry_moves [OF assms(1,2), of e] by simp
qed

section \<open>Properties\<close>

text \<open>
  C22. Refinement: the breaker implements one circuit per tenant and capability. From a breaker
  that satisfies its invariant, each operation keeps the invariant, answers and moves the
  circuit of its key as the specification does, and leaves the circuit of every other key as it
  was: neither another tenant nor another capability is affected.
\<close>

theorem circuit_breaker_refines:
  assumes "breaker_inv b" "unit_free_key k" "now \<noteq> []"
  shows "moves b k (snd (ask (config_of b) (cool_down (config_of b) now (circuit_of b k)))) (snd (canExecute k now b)) \<and>
         fst (canExecute k now b) = fst (ask (config_of b) (cool_down (config_of b) now (circuit_of b k))) \<and>
         moves b k (Closed 0) (onSuccess k b) \<and>
         moves b k (fail (config_of b) now (circuit_of b k)) (onFailure k now b)"
  using canExecute_moves [OF assms(1,2)] onSuccess_moves [OF assms(1,2)] onFailure_moves [OF assms] by blast

text \<open>A new breaker satisfies the invariant, with every circuit closed.\<close>

lemma newCircuitBreaker_inv:
  "breaker_inv (newCircuitBreaker f r p) \<and> circuit_of (newCircuitBreaker f r p) k = Closed 0"
  by (simp add: newCircuitBreaker_def breaker_inv_def entry_def entry_ok_def circuit_of_def abs_entry_def)

definition demo_key_a :: CircuitKey where
  "demo_key_a = \<lparr> ck_tenantId = ''t1'', ck_capability = ''mail'' \<rparr>"

definition demo_key_b :: CircuitKey where
  "demo_key_b = \<lparr> ck_tenantId = ''t2'', ck_capability = ''mail'' \<rparr>"

theorem circuit_breaker_refines_witness:
  "let b = newCircuitBreaker (Some 1) None None; b' = onFailure demo_key_a ''2026-01-01T00:00:00.000Z'' b in
   circuit_of b' demo_key_a = Open ''2026-01-01T00:00:00.000Z'' \<and> circuit_of b' demo_key_b = Closed 0"
proof -
  let ?b = "newCircuitBreaker (Some 1) None None" and ?now = "''2026-01-01T00:00:00.000Z''"
  have u: "unit_free_key demo_key_a" "unit_free_key demo_key_b" "demo_key_b \<noteq> demo_key_a"
    by (simp_all add: unit_free_key_def demo_key_a_def demo_key_b_def)
  have "fail (config_of ?b) ?now (circuit_of ?b demo_key_a) = Open ?now"
    using newCircuitBreaker_inv [of "Some 1" None None demo_key_a]
    by (simp add: config_of_def newCircuitBreaker_def or_default_def)
  then show ?thesis
    using circuit_breaker_refines [of ?b demo_key_a ?now] u newCircuitBreaker_inv [of "Some 1" None None]
    by (simp add: Let_def moves_def)
qed

text \<open>
  Bounded probing: from a circuit that is not closed, however often and whenever it is asked,
  at most \<open>halfOpenMaxProbes\<close> calls get through until a success or a failure is reported.
\<close>

lemma half_open_probes_bounded:
  assumes "breaker_inv b" "\<And>n. circuit_of b k \<noteq> Closed n"
  shows "int (fst (asks k nows b)) \<le> cb_halfOpenMaxProbes b"
proof -
  have "entry_ok b (entry k b)" using assms(1) by (simp add: breaker_inv_def)
  then have "probes_left (config_of b) (circuit_of b k) \<le> cb_halfOpenMaxProbes b"
    by (cases "ce_state (entry k b)") (auto simp: probes_left_def circuit_of_def abs_entry_def entry_ok_def config_of_def)
  then show ?thesis using asks_bounded [OF assms(1)] assms(2) by (metis order_trans)
qed

text \<open>
  A probe that is handed out and never reported back leaves the circuit half open for good: with
  all probes out, every later question is refused, at any time.
\<close>

lemma half_open_stuck:
  assumes "breaker_inv b" "circuit_of b k = Half_open (cb_halfOpenMaxProbes b)"
  shows "fst (asks k nows b) = 0"
proof -
  have "int (fst (asks k nows b)) \<le> probes_left (config_of b) (circuit_of b k)"
    using asks_bounded [OF assms(1), of k nows] assms(2) by auto
  then show ?thesis by (simp add: assms(2) probes_left_def config_of_def)
qed

end
