(* ===== verification/Worker_Pool.thy ===== *)
theory Worker_Pool
  imports Prelude "HOL-Library.Multiset"
begin

text \<open>
  \<^verbatim>\<open>runtime/src/worker-pool.ts\<close>, \<^verbatim>\<open>runtime/src/backpressure.ts\<close> and \<^verbatim>\<open>runtime/src/scheduler.ts\<close>.
  A task is its tenant, its priority and an opaque body; the pool keeps a queue in arrival order and
  the counts of running tasks. \<open>pump\<close> starts tasks until no worker is free or no queued task is
  eligible; \<open>task_settled\<close> is the \<^verbatim>\<open>finally\<close> callback of a task that has ended. Shown: the counts agree
  with the running tasks and respect both caps, the task started is the oldest of the highest
  priority among the eligible ones, the pool is never idle while an eligible task waits, and the
  scheduler keeps the queue bounded.
\<close>

section \<open>worker-pool.ts\<close>

record 'r WorkerTask =
  wt_tenantId :: string
  wt_priority :: int
  wt_run :: 'r

record 'r QueueItem =
  qi_task :: "'r WorkerTask"
  qi_seq :: nat

record 'r WorkerPool =
  wp_max :: nat
  wp_maxPerTenant :: nat
  wp_active :: nat
  wp_seq :: nat
  wp_accepting :: bool
  wp_tenantActive :: "string \<rightharpoonup> nat"
  wp_queue :: "'r QueueItem list"

record ShutdownReport =
  sr_accepting :: bool
  sr_pending :: nat
  sr_active :: nat

definition newWorkerPool :: "nat option \<Rightarrow> nat option \<Rightarrow> 'r WorkerPool" where
  "newWorkerPool maxConcurrency maxPerTenant =
     (let m = max 1 (case maxConcurrency of Some n \<Rightarrow> n | None \<Rightarrow> 4) in
      \<lparr> wp_max = m, wp_maxPerTenant = max 1 (case maxPerTenant of Some n \<Rightarrow> n | None \<Rightarrow> m),
        wp_active = 0, wp_seq = 0, wp_accepting = True, wp_tenantActive = Map.empty, wp_queue = [] \<rparr>)"

definition activeCount :: "'r WorkerPool \<Rightarrow> nat" where
  "activeCount p = wp_active p"

definition queuedCount :: "'r WorkerPool \<Rightarrow> nat" where
  "queuedCount p = length (wp_queue p)"

definition tenantActiveCount :: "string \<Rightarrow> 'r WorkerPool \<Rightarrow> nat" where
  "tenantActiveCount tenantId p = (case wp_tenantActive p tenantId of Some n \<Rightarrow> n | None \<Rightarrow> 0)"

text \<open>
  The scan of \<^verbatim>\<open>#pickIndex\<close>: the index, and the best index so far with its priority and sequence
  number. No best yet stands for \<^verbatim>\<open>-1\<close> with the infinite bounds.
\<close>

definition consider_item ::
  "'r WorkerPool \<Rightarrow> nat \<Rightarrow> 'r QueueItem \<Rightarrow> (nat \<times> int \<times> nat) option \<Rightarrow> (nat \<times> int \<times> nat) option" where
  "consider_item p i item best =
     (if wp_maxPerTenant p \<le> tenantActiveCount (wt_tenantId (qi_task item)) p then best
      else
        (case best of
           None \<Rightarrow> Some (i, wt_priority (qi_task item), qi_seq item)
         | Some (b, bp, bs) \<Rightarrow>
             if bp < wt_priority (qi_task item) \<or> (wt_priority (qi_task item) = bp \<and> qi_seq item < bs)
             then Some (i, wt_priority (qi_task item), qi_seq item)
             else best))"

fun pick_scan ::
  "'r WorkerPool \<Rightarrow> nat \<Rightarrow> (nat \<times> int \<times> nat) option \<Rightarrow> 'r QueueItem list \<Rightarrow> (nat \<times> int \<times> nat) option" where
  "pick_scan p i best [] = best"
| "pick_scan p i best (item # r) = pick_scan p (Suc i) (consider_item p i item best) r"

definition pickIndex :: "'r WorkerPool \<Rightarrow> nat option" where
  "pickIndex p = map_option fst (pick_scan p 0 None (wp_queue p))"

text \<open>The body of the loop of \<^verbatim>\<open>#pump\<close>: splice the item out and count it.\<close>

definition start_item :: "nat \<Rightarrow> 'r WorkerPool \<Rightarrow> 'r WorkerPool" where
  "start_item i p =
     (let item = wp_queue p ! i; t = wt_tenantId (qi_task item) in
      p\<lparr> wp_queue := take i (wp_queue p) @ drop (Suc i) (wp_queue p), wp_active := wp_active p + 1,
         wp_tenantActive := (wp_tenantActive p)(t \<mapsto> tenantActiveCount t p + 1) \<rparr>)"

lemma pick_scan_bound:
  "pick_scan p i best xs = Some (j, q, s) \<Longrightarrow> best = Some (j, q, s) \<or> (i \<le> j \<and> j < i + length xs)"
  by (induction p i best xs rule: pick_scan.induct) (auto simp: consider_item_def split: if_splits option.splits)

lemma pickIndex_bound: "pickIndex p = Some i \<Longrightarrow> i < length (wp_queue p)"
  by (auto simp: pickIndex_def dest: pick_scan_bound)

lemma start_item_queue: "i < length (wp_queue p) \<Longrightarrow> length (wp_queue (start_item i p)) < length (wp_queue p)"
  by (simp add: start_item_def Let_def)

text \<open>The whole of \<^verbatim>\<open>#pump\<close>: the items started, in order, and the pool afterwards.\<close>

function pump :: "'r WorkerPool \<Rightarrow> 'r QueueItem list \<times> 'r WorkerPool" where
  "pump p =
     (if wp_active p < wp_max p then
        (case pickIndex p of
           None \<Rightarrow> ([], p)
         | Some i \<Rightarrow> (let (started, p') = pump (start_item i p) in (wp_queue p ! i # started, p')))
      else ([], p))"
  by pat_completeness auto
termination
  by (relation "measure (\<lambda>p. length (wp_queue p))") (auto intro: start_item_queue pickIndex_bound)

declare pump.simps [simp del]

definition pool_run :: "'r WorkerTask \<Rightarrow> 'r WorkerPool \<Rightarrow> (string + 'r QueueItem list) \<times> 'r WorkerPool" where
  "pool_run task p =
     (if \<not> wp_accepting p then (Inl ''worker_pool_shutdown'', p)
      else
        (let n = Suc (wp_seq p);
             (started, p') = pump (p\<lparr> wp_seq := n, wp_queue := wp_queue p @ [\<lparr> qi_task = task, qi_seq = n \<rparr>] \<rparr>) in
         (Inr started, p')))"

definition task_settled :: "string \<Rightarrow> 'r WorkerPool \<Rightarrow> 'r QueueItem list \<times> 'r WorkerPool" where
  "task_settled tenantId p =
     pump (p\<lparr> wp_active := wp_active p - 1,
              wp_tenantActive := (wp_tenantActive p)(tenantId \<mapsto> tenantActiveCount tenantId p - 1) \<rparr>)"

definition pool_shutdown :: "'r WorkerPool \<Rightarrow> ShutdownReport \<times> 'r WorkerPool" where
  "pool_shutdown p =
     (let p' = p\<lparr> wp_accepting := False \<rparr> in
      (\<lparr> sr_accepting = False, sr_pending = length (wp_queue p'), sr_active = wp_active p' \<rparr>, p'))"

section \<open>backpressure.ts\<close>

datatype BackpressureDecision = BP_ACCEPT | BP_OVERLOADED | BP_REJECTED

record BackpressureLimits =
  bl_maxQueueDepth :: nat
  bl_maxTotalInflight :: nat
  bl_maxTenantInflight :: nat

record BackpressureState =
  bs_queueDepth :: nat
  bs_totalInflight :: nat
  bs_tenantInflight :: nat

record BackpressureEvaluation =
  be_decision :: BackpressureDecision
  be_reasonCode :: string
  be_message :: string

definition backpressure_evaluate :: "BackpressureState \<Rightarrow> BackpressureLimits \<Rightarrow> BackpressureEvaluation" where
  "backpressure_evaluate st limits =
     (if bl_maxTenantInflight limits \<le> bs_tenantInflight st then
        \<lparr> be_decision = BP_REJECTED, be_reasonCode = ''tenant_fairness_limit'',
          be_message = ''Tenant inflight limit reached.'' \<rparr>
      else if bl_maxTotalInflight limits \<le> bs_totalInflight st \<and> bl_maxQueueDepth limits \<le> bs_queueDepth st then
        \<lparr> be_decision = BP_OVERLOADED, be_reasonCode = ''runtime_overloaded'',
          be_message = ''Runtime is saturated; shedding load.'' \<rparr>
      else if bl_maxQueueDepth limits \<le> bs_queueDepth st then
        \<lparr> be_decision = BP_REJECTED, be_reasonCode = ''queue_full'', be_message = ''Admission queue is full.'' \<rparr>
      else \<lparr> be_decision = BP_ACCEPT, be_reasonCode = ''accepted'', be_message = ''Within capacity.'' \<rparr>)"

section \<open>scheduler.ts\<close>

text \<open>
  The default policy is the one above; another policy is a parameter. The completion is what
  \<^verbatim>\<open>pool.run\<close> returns: rejected at once when the pool has been shut down.
\<close>

record Scheduler =
  sd_limits :: BackpressureLimits
  sd_policy :: "BackpressureState \<Rightarrow> BackpressureLimits \<Rightarrow> BackpressureEvaluation"

record 'r ScheduleResult =
  sc_admitted :: bool
  sc_evaluation :: BackpressureEvaluation
  sc_completion :: "(string + 'r QueueItem list) option"

definition schedule :: "Scheduler \<Rightarrow> 'r WorkerTask \<Rightarrow> 'r WorkerPool \<Rightarrow> 'r ScheduleResult \<times> 'r WorkerPool" where
  "schedule sd task p =
     (let ev = sd_policy sd
            \<lparr> bs_queueDepth = queuedCount p, bs_totalInflight = activeCount p,
              bs_tenantInflight = tenantActiveCount (wt_tenantId task) p \<rparr> (sd_limits sd) in
      if be_decision ev \<noteq> BP_ACCEPT then (\<lparr> sc_admitted = False, sc_evaluation = ev, sc_completion = None \<rparr>, p)
      else
        (let (c, p') = pool_run task p in
         (\<lparr> sc_admitted = True, sc_evaluation = ev, sc_completion = Some c \<rparr>, p')))"

section \<open>The choice of the next task\<close>

definition eligible :: "'r WorkerPool \<Rightarrow> 'r QueueItem \<Rightarrow> bool" where
  "eligible p item \<longleftrightarrow> tenantActiveCount (wt_tenantId (qi_task item)) p < wp_maxPerTenant p"

definition no_worse :: "int \<times> nat \<Rightarrow> int \<times> nat \<Rightarrow> bool" where
  "no_worse a b \<longleftrightarrow> fst b < fst a \<or> (fst b = fst a \<and> snd a \<le> snd b)"

definition rank :: "'r QueueItem \<Rightarrow> int \<times> nat" where
  "rank item = (wt_priority (qi_task item), qi_seq item)"

lemma no_worse_refl [simp]: "no_worse a a"
  by (simp add: no_worse_def)

lemma no_worse_trans: "no_worse a b \<Longrightarrow> no_worse b c \<Longrightarrow> no_worse a c"
  by (auto simp: no_worse_def)

lemma consider_None: "consider_item p i item best = None \<longleftrightarrow> best = None \<and> \<not> eligible p item"
  by (auto simp: consider_item_def eligible_def split: option.splits)

lemma consider_source:
  "consider_item p i item best = Some x \<Longrightarrow> best = Some x \<or> (x = (i, rank item) \<and> eligible p item)"
  by (auto simp: consider_item_def eligible_def rank_def split: option.splits if_splits)

lemma consider_keeps: "\<exists>b' k'. consider_item p i item (Some (b, k)) = Some (b', k') \<and> no_worse k' k"
  by (cases k) (auto simp: consider_item_def no_worse_def)

lemma consider_beats: "eligible p item \<Longrightarrow> \<exists>b' k'. consider_item p i item best = Some (b', k') \<and> no_worse k' (rank item)"
  by (auto simp: consider_item_def eligible_def rank_def no_worse_def split: option.splits)

lemma pick_scan_better: "pick_scan p i (Some (b, k)) xs = Some (j, l) \<Longrightarrow> no_worse l k"
proof (induction xs arbitrary: i b k)
  case (Cons item r)
  obtain b' k' where "consider_item p i item (Some (b, k)) = Some (b', k')" "no_worse k' k" using consider_keeps by blast
  then show ?case using Cons no_worse_trans by fastforce
qed simp

lemma pick_scan_beats:
  "pick_scan p i best xs = Some (j, l) \<Longrightarrow> x \<in> set xs \<Longrightarrow> eligible p x \<Longrightarrow> no_worse l (rank x)"
proof (induction xs arbitrary: i best)
  case (Cons item r)
  show ?case
  proof (cases "x = item")
    case True
    then obtain b' k' where "consider_item p i item best = Some (b', k')" "no_worse k' (rank x)"
      using consider_beats Cons.prems(3) by blast
    then show ?thesis using Cons.prems(1) no_worse_trans [OF pick_scan_better] by fastforce
  qed (use Cons in auto)
qed simp

lemma pick_scan_source:
  "pick_scan p i best xs = Some (j, l) \<Longrightarrow>
     best = Some (j, l) \<or> (\<exists>n < length xs. j = i + n \<and> eligible p (xs ! n) \<and> rank (xs ! n) = l)"
proof (induction xs arbitrary: i best)
  case (Cons item r)
  have "consider_item p i item best = Some (j, l) \<or>
      (\<exists>n < length r. j = Suc i + n \<and> eligible p (r ! n) \<and> rank (r ! n) = l)"
    using Cons.IH [of "Suc i" "consider_item p i item best"] Cons.prems by (simp del: add_Suc)
  then consider "best = Some (j, l)" | "j = i" "l = rank item" "eligible p item"
    | n where "n < length r" "j = Suc i + n" "eligible p (r ! n)" "rank (r ! n) = l"
    using consider_source [of p i item best "(j, l)"] by blast
  then show ?case
  proof cases
    case 3
    then have "\<exists>m < length (item # r). j = i + m \<and> eligible p ((item # r) ! m) \<and> rank ((item # r) ! m) = l"
      by (intro exI [of _ "Suc n"]) simp
    then show ?thesis by blast
  qed auto
qed simp

lemma pick_scan_None: "pick_scan p i best xs = None \<longleftrightarrow> best = None \<and> (\<forall>x \<in> set xs. \<not> eligible p x)"
  by (induction xs arbitrary: i best) (auto simp: consider_None)

lemma pickIndex_None: "pickIndex p = None \<longleftrightarrow> (\<forall>x \<in> set (wp_queue p). \<not> eligible p x)"
  by (simp add: pickIndex_def pick_scan_None)

lemma pickIndex_Some:
  assumes "pickIndex p = Some i"
  shows "i < length (wp_queue p) \<and> eligible p (wp_queue p ! i) \<and>
     (\<forall>x \<in> set (wp_queue p). eligible p x \<longrightarrow> no_worse (rank (wp_queue p ! i)) (rank x))"
proof -
  obtain l where r: "pick_scan p 0 None (wp_queue p) = Some (i, l)" using assms by (auto simp: pickIndex_def)
  then have "i < length (wp_queue p) \<and> eligible p (wp_queue p ! i) \<and> rank (wp_queue p ! i) = l"
    using pick_scan_source by fastforce
  then show ?thesis using pick_scan_beats [OF r] by auto
qed

section \<open>Running the pool\<close>

text \<open>
  The pool beside the items whose \<^verbatim>\<open>run\<close> has been called and has not settled: every queued item
  waits in \<^verbatim>\<open>#queue\<close>, every started one is in the multiset until its \<^verbatim>\<open>finally\<close> callback.
\<close>

definition of_tenant :: "string \<Rightarrow> 'r QueueItem multiset \<Rightarrow> nat" where
  "of_tenant t R = size {# x \<in># R. wt_tenantId (qi_task x) = t #}"

definition counted :: "'r WorkerPool \<Rightarrow> 'r QueueItem multiset \<Rightarrow> bool" where
  "counted p R \<longleftrightarrow>
     wp_active p = size R \<and> (\<forall>t. tenantActiveCount t p = of_tenant t R) \<and> wp_active p \<le> wp_max p \<and>
     (\<forall>t. tenantActiveCount t p \<le> wp_maxPerTenant p)"

definition same_pool :: "'r WorkerPool \<Rightarrow> 'r WorkerPool \<Rightarrow> bool" where
  "same_pool p p' \<longleftrightarrow> wp_max p' = wp_max p \<and> wp_maxPerTenant p' = wp_maxPerTenant p \<and> wp_seq p' = wp_seq p \<and>
     wp_accepting p' = wp_accepting p"

definition work_conserving :: "'r WorkerPool \<Rightarrow> bool" where
  "work_conserving p \<longleftrightarrow> wp_active p = wp_max p \<or> (\<forall>x \<in> set (wp_queue p). \<not> eligible p x)"

lemma tenantActiveCount_start:
  "tenantActiveCount t (start_item i p) =
     tenantActiveCount t p + (if t = wt_tenantId (qi_task (wp_queue p ! i)) then 1 else 0)"
  by (simp add: tenantActiveCount_def start_item_def Let_def)

lemma of_tenant_add [simp]:
  "of_tenant t (add_mset x R) = of_tenant t R + (if t = wt_tenantId (qi_task x) then 1 else 0)"
  by (auto simp: of_tenant_def)

lemma counted_caps: "counted p R \<Longrightarrow> of_tenant t R \<le> wp_maxPerTenant p \<and> tenantActiveCount t p \<le> wp_maxPerTenant p"
  unfolding counted_def by metis

lemma counted_start:
  assumes "counted p R" "wp_active p < wp_max p" "eligible p (wp_queue p ! i)"
  shows "counted (start_item i p) (add_mset (wp_queue p ! i) R)"
proof -
  have "wp_active (start_item i p) = Suc (wp_active p)" "wp_max (start_item i p) = wp_max p"
    "wp_maxPerTenant (start_item i p) = wp_maxPerTenant p" by (simp_all add: start_item_def Let_def)
  then show ?thesis using assms by (auto simp: counted_def tenantActiveCount_start eligible_def)
qed

lemma mset_remove_nth: "i < length xs \<Longrightarrow> mset xs = add_mset (xs ! i) (mset (take i xs @ drop (Suc i) xs))"
  by (subst id_take_nth_drop [of i xs]) simp_all

lemma queue_start: "i < length (wp_queue p) \<Longrightarrow> mset (wp_queue p) = add_mset (wp_queue p ! i) (mset (wp_queue (start_item i p)))"
  by (simp add: start_item_def Let_def mset_remove_nth)

lemma same_pool_start: "same_pool p (start_item i p)"
  by (simp add: same_pool_def start_item_def Let_def)

lemma same_pool_trans: "same_pool p q \<Longrightarrow> same_pool q r \<Longrightarrow> same_pool p r"
  by (simp add: same_pool_def)

lemma pump_spec:
  "counted p R \<Longrightarrow> pump p = (st, p') \<Longrightarrow>
     counted p' (R + mset st) \<and> work_conserving p' \<and> same_pool p p' \<and> mset (wp_queue p) = mset st + mset (wp_queue p')"
proof (induction p arbitrary: R st p' rule: pump.induct)
  case (1 p)
  show ?case
  proof (cases "\<exists>i. wp_active p < wp_max p \<and> pickIndex p = Some i")
    case True
    then obtain i where i: "wp_active p < wp_max p" "pickIndex p = Some i" by blast
    obtain st2 where st2: "pump (start_item i p) = (st2, p')" "st = wp_queue p ! i # st2"
      using "1.prems"(2) i by (simp add: pump.simps [of p] case_prod_beta prod_eq_iff)
    have e: "i < length (wp_queue p)" "eligible p (wp_queue p ! i)" using pickIndex_Some [OF i(2)] by blast+
    have "counted p' (add_mset (wp_queue p ! i) R + mset st2) \<and> work_conserving p' \<and> same_pool (start_item i p) p' \<and>
        mset (wp_queue (start_item i p)) = mset st2 + mset (wp_queue p')"
      using "1.IH" [OF i counted_start [OF "1.prems"(1) i(1) e(2)] st2(1)] .
    then show ?thesis using queue_start [OF e(1)] same_pool_trans [OF same_pool_start [of p i], of p'] by (simp add: st2(2))
  next
    case False
    then have "st = []" "p' = p" using "1.prems"(2)
      by (auto simp: pump.simps [of p] split: if_splits option.splits)
    then show ?thesis using False "1.prems"(1)
      by (auto simp: same_pool_def work_conserving_def counted_def simp flip: pickIndex_None)
  qed
qed

lemma same_pool_simps:
  "same_pool p p' \<Longrightarrow> wp_max p' = wp_max p" "same_pool p p' \<Longrightarrow> wp_maxPerTenant p' = wp_maxPerTenant p"
  "same_pool p p' \<Longrightarrow> wp_accepting p' = wp_accepting p"
  by (simp_all add: same_pool_def)

inductive pool_step :: "'r WorkerPool \<times> 'r QueueItem multiset \<Rightarrow> 'r WorkerPool \<times> 'r QueueItem multiset \<Rightarrow> bool" where
  ps_run: "pool_step (p, R) (p', R + mset st)" if "pool_run task p = (Inr st, p')"
| ps_refused: "pool_step (p, R) (p', R)" if "pool_run task p = (Inl e, p')"
| ps_finish: "pool_step (p, add_mset x R) (p', R + mset st)" if "task_settled (wt_tenantId (qi_task x)) p = (st, p')"
| ps_shutdown: "pool_step (p, R) (p', R)" if "pool_shutdown p = (rep, p')"

definition pool_inv :: "'r WorkerPool \<times> 'r QueueItem multiset \<Rightarrow> bool" where
  "pool_inv c \<longleftrightarrow> (let (p, R) = c in counted p R \<and> work_conserving p \<and> 1 \<le> wp_max p \<and> 1 \<le> wp_maxPerTenant p)"

lemma counted_enqueue: "counted (p\<lparr> wp_seq := n, wp_queue := q \<rparr>) R \<longleftrightarrow> counted p R"
  by (simp add: counted_def tenantActiveCount_def)

lemma counted_finish:
  assumes "counted p (add_mset x R)" "t = wt_tenantId (qi_task x)"
  shows "counted (p\<lparr> wp_active := wp_active p - 1, wp_tenantActive := (wp_tenantActive p)(t \<mapsto> tenantActiveCount t p - 1) \<rparr>) R"
    (is "counted ?p R")
proof -
  have c: "wp_active p = Suc (size R)" "\<And>u. tenantActiveCount u p = of_tenant u R + (if u = t then 1 else 0)"
    "wp_active p \<le> wp_max p"
    using assms by (simp_all add: counted_def)
  have "tenantActiveCount u ?p = of_tenant u R" for u
    using c(2) [of u] by (auto simp: tenantActiveCount_def)
  moreover have "of_tenant u R \<le> wp_maxPerTenant p" for u
    using counted_caps [OF assms(1), of u] by simp
  ultimately show ?thesis using c(1,3) by (simp add: counted_def)
qed

lemma pool_run_spec:
  assumes "counted p R" "pool_run task p = (Inr st, p')"
  shows "counted p' (R + mset st) \<and> work_conserving p' \<and> wp_max p' = wp_max p \<and> wp_maxPerTenant p' = wp_maxPerTenant p \<and>
    mset (wp_queue p') + mset st = add_mset \<lparr> qi_task = task, qi_seq = Suc (wp_seq p) \<rparr> (mset (wp_queue p))"
proof -
  let ?p = "p\<lparr> wp_seq := Suc (wp_seq p), wp_queue := wp_queue p @ [\<lparr> qi_task = task, qi_seq = Suc (wp_seq p) \<rparr>] \<rparr>"
  have "pump ?p = (st, p')" using assms(2) by (auto simp: pool_run_def Let_def split: if_splits prod.splits)
  then have s: "counted p' (R + mset st) \<and> work_conserving p' \<and> same_pool ?p p' \<and> mset (wp_queue ?p) = mset st + mset (wp_queue p')"
    by (rule pump_spec [rotated]) (simp add: counted_enqueue assms(1))
  then show ?thesis by (simp add: same_pool_def add.commute)
qed

lemma finish_spec:
  assumes "counted p (add_mset x R)" "task_settled (wt_tenantId (qi_task x)) p = (st, p')"
  shows "counted p' (R + mset st) \<and> work_conserving p' \<and> wp_max p' = wp_max p \<and> wp_maxPerTenant p' = wp_maxPerTenant p \<and>
    mset (wp_queue p') + mset st = mset (wp_queue p)"
  using pump_spec [OF counted_finish [OF assms(1) refl] assms(2) [unfolded task_settled_def]]
  by (simp add: same_pool_def add.commute)

lemma pool_step_inv: "pool_step c c' \<Longrightarrow> pool_inv c \<Longrightarrow> pool_inv c'"
proof (induction rule: pool_step.induct)
  case (ps_run task p st p' R)
  then show ?case using pool_run_spec [of p R task st p'] by (simp add: pool_inv_def)
next
  case (ps_refused task p e p' R)
  then show ?case by (auto simp: pool_run_def Let_def split: if_splits prod.splits)
next
  case (ps_finish x p st p' R)
  then show ?case using finish_spec [of p x R st p'] by (simp add: pool_inv_def)
next
  case (ps_shutdown p rep p' R)
  then show ?case
    by (auto simp: pool_shutdown_def pool_inv_def counted_def work_conserving_def eligible_def tenantActiveCount_def Let_def)
qed

lemma pool_inv_new: "pool_inv (newWorkerPool mc mt, {#})"
  by (auto simp: pool_inv_def counted_def work_conserving_def newWorkerPool_def tenantActiveCount_def of_tenant_def Let_def)

lemma pool_reach_inv: "pool_step\<^sup>*\<^sup>* (newWorkerPool mc mt, {#}) c \<Longrightarrow> pool_inv c"
  by (induction rule: rtranclp_induct) (use pool_inv_new pool_step_inv in blast)+

lemma pool_step_max: "pool_step c c' \<Longrightarrow> pool_inv c \<Longrightarrow> wp_max (fst c') = wp_max (fst c) \<and> wp_maxPerTenant (fst c') = wp_maxPerTenant (fst c)"
proof (induction rule: pool_step.induct)
  case (ps_run task p st p' R)
  then show ?case using pool_run_spec [of p R task st p'] by (simp add: pool_inv_def)
next
  case (ps_finish x p st p' R)
  then show ?case using finish_spec [of p x R st p'] by (simp add: pool_inv_def)
qed (auto simp: pool_run_def pool_shutdown_def Let_def split: if_splits prod.splits)

lemma pool_reach_max:
  "pool_step\<^sup>*\<^sup>* (newWorkerPool mc mt, {#}) c \<Longrightarrow>
     wp_max (fst c) = wp_max (newWorkerPool mc mt :: 'r WorkerPool) \<and>
     wp_maxPerTenant (fst c) = wp_maxPerTenant (newWorkerPool mc mt :: 'r WorkerPool)"
  for c :: "'r WorkerPool \<times> 'r QueueItem multiset"
proof (induction rule: rtranclp_induct)
  case (step c d)
  then show ?case using pool_step_max [of c d] pool_reach_inv by metis
qed simp

section \<open>Properties of the pool and the scheduler\<close>

text \<open>
  C12. In every state reached by submissions, completions and a shutdown, in any order, the counters of
  the pool are the numbers of running tasks, overall and of each tenant; both stay within their caps;
  and no worker is idle while a queued task could run: either all workers are busy or the tenant of
  every queued task is at its cap.
\<close>

theorem pool_bounded_and_work_conserving:
  assumes "pool_step\<^sup>*\<^sup>* (newWorkerPool mc mt, {#}) (p, R)"
  shows "activeCount p = size R \<and> activeCount p \<le> wp_max p \<and>
     (\<forall>t. tenantActiveCount t p = of_tenant t R \<and> tenantActiveCount t p \<le> wp_maxPerTenant p) \<and>
     (activeCount p = wp_max p \<or>
      (\<forall>x \<in> set (wp_queue p). tenantActiveCount (wt_tenantId (qi_task x)) p = wp_maxPerTenant p))"
proof -
  have c: "counted p R" "work_conserving p" using pool_reach_inv [OF assms] by (simp_all add: pool_inv_def)
  then have "\<not> eligible p x \<Longrightarrow> tenantActiveCount (wt_tenantId (qi_task x)) p = wp_maxPerTenant p" for x
    using counted_caps [of p R] by (simp add: eligible_def le_antisym)
  then show ?thesis using c unfolding work_conserving_def counted_def activeCount_def by blast
qed

definition demo_task :: "nat WorkerTask" where
  "demo_task = \<lparr> wt_tenantId = ''acme'', wt_priority = 1, wt_run = 0 \<rparr>"

definition demo_pool :: "nat QueueItem list \<times> nat WorkerPool" where
  "demo_pool = pump (newWorkerPool (Some 1) None \<lparr> wp_seq := 1, wp_queue := [\<lparr> qi_task = demo_task, qi_seq = 1 \<rparr>] \<rparr>)"

lemma demo_pool_run: "pool_run demo_task (newWorkerPool (Some 1) None) = (Inr (fst demo_pool), snd demo_pool)"
  by (simp add: pool_run_def demo_pool_def newWorkerPool_def Let_def case_prod_beta)

lemma demo_pool_reach:
  "pool_step\<^sup>*\<^sup>* (newWorkerPool (Some 1) None, {#}) (snd demo_pool, mset (fst demo_pool))"
  using ps_run [OF demo_pool_run, of "{#}"] by (simp add: r_into_rtranclp)

theorem pool_bounded_and_work_conserving_witness: "activeCount (snd demo_pool) = length (fst demo_pool)"
  using pool_bounded_and_work_conserving [OF demo_pool_reach] by simp

text \<open>
  The task started next is the oldest of the highest priority among the queued tasks whose tenant
  is under its cap, and there is none exactly when no queued task is eligible.
\<close>

lemma next_task_is_best:
  "case pickIndex p of
     None \<Rightarrow> \<forall>x \<in> set (wp_queue p). \<not> eligible p x
   | Some i \<Rightarrow> i < length (wp_queue p) \<and> eligible p (wp_queue p ! i) \<and>
       (\<forall>x \<in> set (wp_queue p). eligible p x \<longrightarrow>
          wt_priority (qi_task x) < wt_priority (qi_task (wp_queue p ! i)) \<or>
          (wt_priority (qi_task x) = wt_priority (qi_task (wp_queue p ! i)) \<and> qi_seq (wp_queue p ! i) \<le> qi_seq x))"
  using pickIndex_None [of p] pickIndex_Some [of p] by (auto simp: no_worse_def rank_def split: option.split)

text \<open>The completions alone, and the work left: queued and running tasks.\<close>

inductive finish_step :: "'r WorkerPool \<times> 'r QueueItem multiset \<Rightarrow> 'r WorkerPool \<times> 'r QueueItem multiset \<Rightarrow> bool" where
  fs_finish: "finish_step (p, add_mset x R) (p', R + mset st)" if "task_settled (wt_tenantId (qi_task x)) p = (st, p')"

definition work_left :: "'r WorkerPool \<times> 'r QueueItem multiset \<Rightarrow> nat" where
  "work_left c = queuedCount (fst c) + size (snd c)"

lemma finish_step_pool: "finish_step c c' \<Longrightarrow> pool_step c c'"
  by (induction rule: finish_step.induct) (rule ps_finish)

lemma finish_step_work: "finish_step c c' \<Longrightarrow> pool_inv c \<Longrightarrow> work_left c = Suc (work_left c')"
proof (induction rule: finish_step.induct)
  case (fs_finish x p st p' R)
  then have "mset (wp_queue p') + mset st = mset (wp_queue p)" using finish_spec [of p x R st p'] by (simp add: pool_inv_def)
  then have "size (mset (wp_queue p') + mset st) = size (mset (wp_queue p))" by (rule arg_cong)
  then show ?case by (simp add: work_left_def queuedCount_def)
qed

lemma finish_step_ex: "R \<noteq> {#} \<Longrightarrow> \<exists>c'. finish_step (p, R) c'"
  by (metis fs_finish multiset_nonemptyE insert_DiffM surj_pair)

lemma pool_inv_idle:
  assumes "pool_inv (p, {#})" shows "wp_queue p = []"
proof (rule ccontr)
  assume "wp_queue p \<noteq> []"
  then obtain x where x: "x \<in> set (wp_queue p)" by (cases "wp_queue p") auto
  have "eligible p x" using assms by (simp add: pool_inv_def counted_def eligible_def of_tenant_def)
  moreover have "\<not> eligible p x" using assms x by (auto simp: pool_inv_def counted_def work_conserving_def)
  ultimately show False by blast
qed

lemma finish_steps_work:
  "(finish_step ^^ n) c c' \<Longrightarrow> pool_inv c \<Longrightarrow> pool_inv c' \<and> work_left c = n + work_left c'"
proof (induction n arbitrary: c')
  case (Suc n)
  then obtain d where "(finish_step ^^ n) c d" "finish_step d c'" by auto
  then show ?case using Suc.IH [of d] Suc.prems(2) finish_step_work [of d c'] pool_step_inv [OF finish_step_pool, of d c'] by simp
qed simp

text \<open>
  C35. The pool drains, also after a shutdown: from every reachable state, any run of completions has
  at most as many steps as there are queued and running tasks; a completion is possible as long as
  any task runs; and when none is left running the queue is empty, so every task that was accepted
  has been started and has ended.
\<close>

theorem pool_drains:
  assumes "pool_step\<^sup>*\<^sup>* (newWorkerPool mc mt, {#}) (p, R)" "(finish_step ^^ n) (p, R) (p', R')"
  shows "n \<le> queuedCount p + size R \<and> (R' \<noteq> {#} \<longrightarrow> (\<exists>c. finish_step (p', R') c)) \<and>
     (R' = {#} \<longrightarrow> wp_queue p' = [] \<and> n = queuedCount p + size R)"
proof -
  have w: "pool_inv (p', R')" "queuedCount p + size R = n + (queuedCount p' + size R')"
    using finish_steps_work [OF assms(2) pool_reach_inv [OF assms(1)]] by (simp_all add: work_left_def)
  then show ?thesis using pool_inv_idle [of p'] finish_step_ex [of R' p'] by (auto simp: queuedCount_def)
qed

theorem pool_drains_witness: "\<exists>c. finish_step (snd demo_pool, mset (fst demo_pool)) c"
proof -
  have "fst demo_pool \<noteq> []"
    by (simp add: demo_pool_def newWorkerPool_def Let_def pump.simps pickIndex_def consider_item_def tenantActiveCount_def
        demo_task_def case_prod_beta)
  then show ?thesis using pool_drains [OF demo_pool_reach, of 0] by simp
qed

text \<open>Submissions through the scheduler with the default policy.\<close>

inductive sched_step ::
  "BackpressureLimits \<Rightarrow> 'r WorkerPool \<times> 'r QueueItem multiset \<Rightarrow> 'r WorkerPool \<times> 'r QueueItem multiset \<Rightarrow> bool"
  for limits where
  ss_schedule: "sched_step limits (p, R) (p', R + mset (case sc_completion res of Some (Inr st) \<Rightarrow> st | _ \<Rightarrow> []))"
    if "schedule \<lparr> sd_limits = limits, sd_policy = backpressure_evaluate \<rparr> task p = (res, p')"
| ss_finish: "sched_step limits c c'" if "finish_step c c'"
| ss_shutdown: "sched_step limits (p, R) (snd (pool_shutdown p), R)"

lemma schedule_cases:
  assumes "schedule \<lparr> sd_limits = limits, sd_policy = backpressure_evaluate \<rparr> task p = (res, p')"
  obtains (refused) "\<not> sc_admitted res" "sc_completion res = None" "p' = p"
    | (accepted) c where "sc_admitted res" "sc_completion res = Some c" "pool_run task p = (c, p')"
      "queuedCount p < bl_maxQueueDepth limits"
  using assms by (auto simp: schedule_def Let_def backpressure_evaluate_def split: if_splits prod.splits)

lemma sched_step_pool:
  assumes "sched_step limits c c'" shows "c' = c \<or> pool_step c c'"
  using assms
proof cases
  case (ss_schedule task p res p' R)
  from ss_schedule(3) show ?thesis
  proof (cases rule: schedule_cases)
    case (accepted cm)
    then show ?thesis using ss_schedule(1,2) ps_run [of task p _ p' R] ps_refused [of task p _ p' R] by (cases cm) auto
  qed (use ss_schedule in auto)
next
  case ss_finish
  then show ?thesis using finish_step_pool by blast
next
  case (ss_shutdown p R)
  then show ?thesis using ps_shutdown [of p "fst (pool_shutdown p)" "snd (pool_shutdown p)" R] by simp
qed

lemma sched_reach_pool: "(sched_step limits)\<^sup>*\<^sup>* c c' \<Longrightarrow> pool_step\<^sup>*\<^sup>* c c'"
proof (induction rule: rtranclp_induct)
  case (step d e)
  then show ?case using sched_step_pool [of limits d e] rtranclp.rtrancl_into_rtrancl by metis
qed simp

lemma sched_step_queue:
  assumes "sched_step limits c c'" "pool_inv c" "queuedCount (fst c) \<le> bl_maxQueueDepth limits"
  shows "queuedCount (fst c') \<le> bl_maxQueueDepth limits"
  using assms(1)
proof cases
  case (ss_schedule task p res p' R)
  from ss_schedule(3) show ?thesis
  proof (cases rule: schedule_cases)
    case (accepted cm)
    show ?thesis
    proof (cases cm)
      case (Inr st)
      have "counted p R" using assms(2) ss_schedule(1) by (simp add: pool_inv_def)
      then have "mset (wp_queue p') + mset st = add_mset \<lparr> qi_task = task, qi_seq = Suc (wp_seq p) \<rparr> (mset (wp_queue p))"
        using pool_run_spec accepted(3) Inr by blast
      then have "size (mset (wp_queue p') + mset st) = Suc (queuedCount p)" by (simp add: queuedCount_def)
      then show ?thesis using accepted(4) ss_schedule(2) by (simp add: queuedCount_def)
    qed (use accepted assms ss_schedule in \<open>auto simp: pool_run_def Let_def split: if_splits prod.splits\<close>)
  qed (use ss_schedule assms in auto)
next
  case ss_finish
  then show ?thesis
  proof cases
    case (fs_finish x p st p' R)
    then have "mset (wp_queue p') + mset st = mset (wp_queue p)"
      using assms(2) finish_spec [of p x R st p'] by (simp add: pool_inv_def)
    then have "size (mset (wp_queue p') + mset st) = queuedCount p" by (simp add: queuedCount_def)
    then show ?thesis using assms(3) fs_finish by (simp add: queuedCount_def)
  qed
qed (use assms in \<open>simp add: pool_shutdown_def queuedCount_def Let_def\<close>)

text \<open>
  Work submitted through the scheduler never grows an unbounded queue: in every reachable state
  the queue is within \<^verbatim>\<open>maxQueueDepth\<close>, and the tasks queued and running together are within that plus
  the concurrency of the pool.
\<close>

lemma scheduler_queue_bounded:
  assumes "(sched_step limits)\<^sup>*\<^sup>* (newWorkerPool mc mt, {#}) (p, R)"
  shows "queuedCount p \<le> bl_maxQueueDepth limits \<and> queuedCount p + size R \<le> bl_maxQueueDepth limits + wp_max p"
proof -
  have "queuedCount (fst (p, R)) \<le> bl_maxQueueDepth limits" using assms
  proof (induction rule: rtranclp_induct)
    case base
    then show ?case by (simp add: queuedCount_def newWorkerPool_def Let_def)
  next
    case (step c d)
    then show ?case using sched_step_queue [OF step(2)] pool_reach_inv [OF sched_reach_pool [OF step(1)]] by blast
  qed
  moreover have "counted p R" using pool_reach_inv [OF sched_reach_pool [OF assms]] by (simp add: pool_inv_def)
  ultimately show ?thesis by (auto simp: counted_def)
qed

definition default_limits :: BackpressureLimits where
  "default_limits = \<lparr> bl_maxQueueDepth = 128, bl_maxTotalInflight = 16, bl_maxTenantInflight = 8 \<rparr>"

text \<open>
  With the defaults of the engine, a pool of four workers behind limits of 16 running tasks, 8 for
  one tenant and 128 queued, the load shedding answers are out of reach: in every reachable state the
  scheduler answers neither \<^verbatim>\<open>OVERLOADED\<close> nor \<^verbatim>\<open>tenant_fairness_limit\<close>; a submission is accepted while
  fewer than 128 tasks wait, whosever they are, and is otherwise refused with \<^verbatim>\<open>queue_full\<close>.
\<close>

lemma default_wiring_only_queue_full:
  assumes "(sched_step default_limits)\<^sup>*\<^sup>* (newWorkerPool None None, {#}) (p, R)"
  shows "be_reasonCode (sc_evaluation (fst (schedule \<lparr> sd_limits = default_limits, sd_policy = backpressure_evaluate \<rparr> task p)))
     = (if queuedCount p < 128 then ''accepted'' else ''queue_full'')"
proof -
  have r: "pool_step\<^sup>*\<^sup>* (newWorkerPool None None, {#}) (p, R)" using assms by (rule sched_reach_pool)
  have m: "wp_max p = 4 \<and> wp_maxPerTenant p = 4" using pool_reach_max [OF r] by (simp add: newWorkerPool_def Let_def)
  have c: "counted p R" using pool_reach_inv [OF r] by (simp add: pool_inv_def)
  then have "tenantActiveCount (wt_tenantId task) p \<le> 4" "activeCount p \<le> 4"
    using counted_caps [OF c] m by (simp_all add: counted_def activeCount_def)
  then show ?thesis
    by (simp add: schedule_def Let_def backpressure_evaluate_def default_limits_def case_prod_beta)
qed

end
