(* ===== verification/Runtime_Engine.thy ===== *)
theory Runtime_Engine
  imports Runtime_Support Circuit_Breaker Worker_Pool
begin

text \<open>
  \<^verbatim>\<open>runtime/src/engine.ts\<close>. \<^verbatim>\<open>submit\<close> is cut where it awaits, since other submissions run there:
  \<open>admit\<close> is everything up to the audit record of the admission, \<open>after_attempt\<close> is what follows one
  attempt, \<open>settle\<close> is the \<^verbatim>\<open>finally\<close> block and what comes after it. \<open>attempt_outcome\<close> is how
  \<^verbatim>\<open>#runAttempt\<close> turns the answer of the scheduler and the end of the handler into an outcome. The
  local variables of a submission that has been admitted are an \<open>Execution\<close>.

  The authorizations are those minted by the final gate of the pipeline, a map from the object to its
  permit and request. Metrics and traces are not modelled; ids are those of the default factory. The
  clock readings are arguments.
\<close>

section \<open>Data\<close>

record RuntimeSandboxConfig =
  rsc_environmentMode :: string
  rsc_policy :: "ref option"
  rsc_provider :: "ref option"

record 'a RuntimeEngineDeps =
  ed_mode :: RuntimeMode
  ed_capabilities :: CapabilityRegistry
  ed_retry :: RetryStrategy
  ed_audit :: "'a RuntimeAuditSink"
  ed_sandbox :: "RuntimeSandboxConfig option"

record 'a RuntimeEngine =
  en_quota :: QuotaSystem
  en_resources :: ResourceManager
  en_circuitBreaker :: DefaultCircuitBreaker
  en_consumedPermits :: "string set"
  en_ids :: nat
  en_heap :: iso_heap
  en_sink :: 'a

record RuntimeSubmission =
  rs_authorization :: ref
  rs_permit :: "SignedExecutionPermit option"
  rs_capability :: string
  rs_traceId :: "string option"
  rs_causationId :: "string option"
  rs_cost :: "PartialQuotaCost option"

record RuntimeResult =
  rr_status :: RuntimeStatus
  rr_reasonCode :: string
  rr_message :: string
  rr_attempts :: nat
  rr_output :: "json option"
  rr_snapshot :: "ExecutionSnapshot option"

record AttemptOutcome =
  ao_status :: RuntimeStatus
  ao_reasonCode :: string
  ao_message :: string
  ao_output :: "json option"

record Execution =
  ex_context :: RuntimeExecutionContext
  ex_retrySafe :: bool
  ex_maxMs :: int
  ex_circuitKey :: CircuitKey
  ex_cost :: QuotaCost
  ex_quotaKey :: QuotaKey
  ex_reservation :: ResourceReservation
  ex_startedAt :: string
  ex_attempt :: nat
  ex_outcome :: AttemptOutcome

section \<open>Rejections and audit\<close>

definition rejected_result :: "string \<Rightarrow> string \<Rightarrow> RuntimeResult" where
  "rejected_result code message =
     \<lparr> rr_status = RS_REJECTED, rr_reasonCode = code, rr_message = message, rr_attempts = 0, rr_output = None,
       rr_snapshot = None \<rparr>"

definition sink_append :: "'a RuntimeEngineDeps \<Rightarrow> RuntimeAuditRecord \<Rightarrow> 'a RuntimeEngine \<Rightarrow> append_reply \<times> 'a RuntimeEngine" where
  "sink_append D r s = (let (reply, a) = ras_append (ed_audit D) r (en_sink s) in (reply, s\<lparr> en_sink := a \<rparr>))"

definition context_record ::
  "RuntimeExecutionContext \<Rightarrow> string \<Rightarrow> RuntimeAuditOutcome \<Rightarrow> string \<Rightarrow> string \<Rightarrow> RuntimeAuditRecord" where
  "context_record c time outcome code detail =
     \<lparr> rar_requestId = rx_requestId c, rar_permitId = rx_permitId c, rar_tenantId = rx_tenantId c,
       rar_workspaceId = rx_workspaceId c, rar_actorId = rx_actorId c, rar_capability = rx_capability c,
       rar_outcome = outcome, rar_reasonCode = code, rar_detail = Some detail, rar_at = time \<rparr>"

text \<open>\<^verbatim>\<open>#auditRecord\<close> is awaited: a sink that throws and one that rejects both make it reject.\<close>

definition auditRecord ::
  "'a RuntimeEngineDeps \<Rightarrow> RuntimeExecutionContext \<Rightarrow> string \<Rightarrow> RuntimeAuditOutcome \<Rightarrow> string \<Rightarrow> string \<Rightarrow>
   'a RuntimeEngine \<Rightarrow> unit result \<times> 'a RuntimeEngine" where
  "auditRecord D c time outcome code detail s =
     (let (reply, s') = sink_append D (context_record c time outcome code detail) s in
      (case reply of Appended \<Rightarrow> Inr () | Append_throws e \<Rightarrow> Inl e | Append_rejects e \<Rightarrow> Inl e, s'))"

text \<open>\<^verbatim>\<open>#reject\<close> does not wait for its record, so a failure of the sink is lost.\<close>

definition reject ::
  "'a RuntimeEngineDeps \<Rightarrow> RuntimeExecutionContext \<Rightarrow> string \<Rightarrow> string \<Rightarrow> string \<Rightarrow>
   'a RuntimeEngine \<Rightarrow> RuntimeResult \<times> 'a RuntimeEngine" where
  "reject D c time code message s =
     (rejected_result code message, snd (auditRecord D c time RA_REJECTED code message s))"

text \<open>\<^verbatim>\<open>#rejectRaw\<close> calls the sink itself, so one that throws makes the submission reject.\<close>

definition rejectRaw ::
  "'a RuntimeEngineDeps \<Rightarrow> RuntimeSubmission \<Rightarrow> string \<Rightarrow> string \<Rightarrow> string \<Rightarrow>
   'a RuntimeEngine \<Rightarrow> RuntimeResult result \<times> 'a RuntimeEngine" where
  "rejectRaw D sub time code message s =
     (let claims = map_option sp_claims (rs_permit sub);
          text = (\<lambda>f. case claims of Some c \<Rightarrow> f c | None \<Rightarrow> ''unknown'');
          (reply, s') = sink_append D
            \<lparr> rar_requestId = text cl_requestId, rar_permitId = text cl_permitId, rar_tenantId = text cl_tenantId,
              rar_workspaceId = text cl_workspaceId, rar_actorId = text cl_actorId, rar_capability = rs_capability sub,
              rar_outcome = RA_REJECTED, rar_reasonCode = code, rar_detail = Some message, rar_at = time \<rparr> s
      in (case reply of Append_throws e \<Rightarrow> Inl e | _ \<Rightarrow> Inr (rejected_result code message), s'))"

section \<open>Admission\<close>

text \<open>
  How the first part of \<^verbatim>\<open>submit\<close> ends: it returns a result, throws, or goes on with an execution. A
  throw is given with the reservation the submission holds at that point, if any.
\<close>

datatype admission = Refused RuntimeResult | Raised js_error "ResourceReservation option" | Admitted Execution

definition refuse_raw ::
  "'a RuntimeEngineDeps \<Rightarrow> RuntimeSubmission \<Rightarrow> string \<Rightarrow> string \<Rightarrow> string \<Rightarrow> 'a RuntimeEngine \<Rightarrow> admission \<times> 'a RuntimeEngine" where
  "refuse_raw D sub time code message s =
     (let (r, s') = rejectRaw D sub time code message s in
      (case r of Inl e \<Rightarrow> Raised e None | Inr res \<Rightarrow> Refused res, s'))"

definition refuse ::
  "'a RuntimeEngineDeps \<Rightarrow> RuntimeExecutionContext \<Rightarrow> string \<Rightarrow> string \<Rightarrow> string \<Rightarrow> 'a RuntimeEngine \<Rightarrow> admission \<times> 'a RuntimeEngine" where
  "refuse D c time code message s = (let (r, s') = reject D c time code message s in (Refused r, s'))"

text \<open>Step 6, the loop over the sandbox capabilities: the first refusal.\<close>

definition engine_environment :: "'a RuntimeEngineDeps \<Rightarrow> string" where
  "engine_environment D =
     (case ed_sandbox D of
        Some c \<Rightarrow> rsc_environmentMode c
      | None \<Rightarrow> if ed_mode D = Production then ''production'' else ''test'')"

definition sandbox_input :: "'a RuntimeEngineDeps \<Rightarrow> ref option \<Rightarrow> string \<Rightarrow> RuntimeSandboxInput" where
  "sandbox_input D identity capability =
     \<lparr> rsi_mode = ed_mode D, rsi_environmentMode = engine_environment D, rsi_capability = capability,
       rsi_policy = Option.bind (ed_sandbox D) rsc_policy, rsi_provider = Option.bind (ed_sandbox D) rsc_provider,
       rsi_identity = identity \<rparr>"

fun sandbox_refusal :: "'a RuntimeEngineDeps \<Rightarrow> ref option \<Rightarrow> iso_heap \<Rightarrow> string list \<Rightarrow> (string \<times> string) option" where
  "sandbox_refusal D identity h [] = None"
| "sandbox_refusal D identity h (c # cs) =
     (let d = evaluateRuntimeSandbox (sandbox_input D identity c) h in
      if \<not> rsd_allowed d then Some (rsd_reasonCode d, rsd_message d)
      else if ed_mode D = Production \<and> \<not> rsd_productionReady d then
        Some (''sandbox_not_production_ready'', ''Sandbox is not production-ready for this capability.'')
      else sandbox_refusal D identity h cs)"

text \<open>Step 8: the cost charged, from the submission, else the capability, else the default.\<close>

definition first_of :: "int option list \<Rightarrow> int \<Rightarrow> int" where
  "first_of vs d = (case concat (map (\<lambda>v. case v of Some x \<Rightarrow> [x] | None \<Rightarrow> []) vs) of x # _ \<Rightarrow> x | [] \<Rightarrow> d)"

definition submission_cost :: "RuntimeSubmission \<Rightarrow> CapabilityDescriptor \<Rightarrow> int \<Rightarrow> QuotaCost" where
  "submission_cost sub descriptor maxMs =
     \<lparr> qc_concurrent = 1,
       qc_cpuMs = first_of [Option.bind (rs_cost sub) pc_cpuMs, Option.bind (cd_defaultCost descriptor) pc_cpuMs] 1,
       qc_memoryBytes =
         first_of [Option.bind (rs_cost sub) pc_memoryBytes, Option.bind (cd_defaultCost descriptor) pc_memoryBytes] 1,
       qc_executionTimeMs = first_of [Option.bind (rs_cost sub) pc_executionTimeMs] maxMs \<rparr>"

text \<open>Steps 8 and 9 and the admission record; a failure of that record is raised with everything held.\<close>

definition acquire ::
  "'a RuntimeEngineDeps \<Rightarrow> RuntimeSubmission \<Rightarrow> RuntimeExecutionContext \<Rightarrow> CapabilityDescriptor \<Rightarrow> int \<Rightarrow> string \<Rightarrow>
   'a RuntimeEngine \<Rightarrow> admission \<times> 'a RuntimeEngine" where
  "acquire D sub c descriptor maxMs now s =
     (let cost = submission_cost sub descriptor maxMs;
          key = \<lparr> qk_tenantId = rx_tenantId c, qk_workspaceId = rx_workspaceId c, qk_actorId = rx_actorId c,
                  qk_capability = rs_capability sub \<rparr>;
          (quota, q1) = tryAcquire key cost (en_quota s)
      in if \<not> qa_ok quota then refuse D c now (qa_reasonCode quota) (qa_message quota) (s\<lparr> en_quota := q1 \<rparr>)
         else
           (let (adm, rm) = reserve \<lparr> rr_slots = 1, rr_cpuMs = qc_cpuMs cost, rr_memoryBytes = qc_memoryBytes cost \<rparr>
                  (en_resources s)
            in case ra_reservation adm of
                 None \<Rightarrow>
                   refuse D c now (ra_reasonCode adm) ''Runtime resources are exhausted.''
                     (s\<lparr> en_quota := quota_release key cost False q1, en_resources := rm \<rparr>)
               | Some r \<Rightarrow>
                   (let (a, s') = auditRecord D c now RA_ADMITTED ''admitted'' ''Execution admitted.''
                          (s\<lparr> en_quota := q1, en_resources := rm \<rparr>)
                    in (case a of
                          Inl e \<Rightarrow> Raised e (Some r)
                        | Inr _ \<Rightarrow>
                            Admitted
                              \<lparr> ex_context = c, ex_retrySafe = cd_retrySafe descriptor, ex_maxMs = maxMs,
                                ex_circuitKey = \<lparr> ck_tenantId = rx_tenantId c, ck_capability = rs_capability sub \<rparr>,
                                ex_cost = cost, ex_quotaKey = key, ex_reservation = r, ex_startedAt = now, ex_attempt = 0,
                                ex_outcome = \<lparr> ao_status = RS_FAILED, ao_reasonCode = ''not_started'',
                                               ao_message = ''Not started.'', ao_output = None \<rparr> \<rparr>, s'))))"

text \<open>Steps 5 to 7.\<close>

definition check_capability ::
  "'a RuntimeEngineDeps \<Rightarrow> RuntimeSubmission \<Rightarrow> RuntimeExecutionContext \<Rightarrow> int \<Rightarrow> string \<Rightarrow>
   'a RuntimeEngine \<Rightarrow> admission \<times> 'a RuntimeEngine" where
  "check_capability D sub c maxMs now s =
     (case ed_capabilities D (rs_capability sub) of
        None \<Rightarrow> refuse D c now ''capability_not_registered'' ''Capability is not registered (deny by default).'' s
      | Some descriptor \<Rightarrow>
          (let (identity, h) = deriveExecutionIdentity c (en_heap s); s1 = s\<lparr> en_heap := h \<rparr> in
           case sandbox_refusal D identity h (cd_requiredSandboxCapabilities descriptor) of
             Some (code, message) \<Rightarrow> refuse D c now code message s1
           | None \<Rightarrow>
               (let (ok, b) = canExecute \<lparr> ck_tenantId = rx_tenantId c, ck_capability = rs_capability sub \<rparr> now
                                (en_circuitBreaker s1);
                    s2 = s1\<lparr> en_circuitBreaker := b \<rparr>
                in if \<not> ok then
                     refuse D c now ''circuit_open'' ''Circuit breaker is open for this tenant/capability.'' s2
                   else acquire D sub c descriptor maxMs now s2)))"

definition next_id :: "string \<Rightarrow> 'a RuntimeEngine \<Rightarrow> string \<times> 'a RuntimeEngine" where
  "next_id prefix s = (prefix @ ''_'' @ show_nat (Suc (en_ids s)), s\<lparr> en_ids := Suc (en_ids s) \<rparr>)"

text \<open>Step 4 and what follows it.\<close>

definition derive_and_check ::
  "'a RuntimeEngineDeps \<Rightarrow> RuntimeSubmission \<Rightarrow> ExecutionPermitClaims \<Rightarrow> string \<Rightarrow>
   'a RuntimeEngine \<Rightarrow> admission \<times> 'a RuntimeEngine" where
  "derive_and_check D sub claims now s =
     (let maxMs = max 1 (maxExecutionTimeMs (cl_runtimeConstraints claims)) in
      case (case dateParse now of Some t \<Rightarrow> toISOString (t + maxMs) | None \<Rightarrow> Inl (RangeError ''Invalid time value'')) of
        Inl e \<Rightarrow> (Raised e None, s)
      | Inr deadlineIso \<Rightarrow>
          (let (traceId, s1) = (case rs_traceId sub of Some t \<Rightarrow> (t, s) | None \<Rightarrow> next_id ''trace'' s) in
           case deriveRuntimeContext (rs_permit sub)
               \<lparr> dr_capability = rs_capability sub, dr_traceId = traceId, dr_deadlineIso = deadlineIso,
                 dr_causationId = truthy (rs_causationId sub) \<rparr> of
             Not_derived code message \<Rightarrow> refuse_raw D sub now code message s1
           | Derived c \<Rightarrow> check_capability D sub c maxMs now s1))"

definition admit ::
  "'a RuntimeEngineDeps \<Rightarrow> (ref \<rightharpoonup> string \<times> string) \<Rightarrow> RuntimeSubmission \<Rightarrow> string \<Rightarrow>
   'a RuntimeEngine \<Rightarrow> admission \<times> 'a RuntimeEngine" where
  "admit D authorizations sub now s =
     (if ed_mode D = Production \<and> ras_testOnly (ed_audit D) then
        refuse_raw D sub now ''audit_sink_not_production_safe'' ''Test-only audit sink cannot be used in production.'' s
      else
     (case authorizations (rs_authorization sub) of
        None \<Rightarrow> refuse_raw D sub now ''authorization_required'' ''A valid execution authorization is required.'' s
      | Some (permitId, requestId) \<Rightarrow>
     (case rs_permit sub of
        None \<Rightarrow> refuse_raw D sub now ''permit_required'' ''A signed execution permit is required.'' s
      | Some permit \<Rightarrow>
          (let claims = sp_claims permit in
           if permitId \<noteq> cl_permitId claims \<or> requestId \<noteq> cl_requestId claims then
             refuse_raw D sub now ''authorization_permit_mismatch'' ''Authorization does not match the permit.'' s
           else if \<not> isFuture (cl_expiresAt claims) now then
             refuse_raw D sub now ''permit_expired'' ''Execution permit is expired.'' s
           else if cl_permitId claims \<in> en_consumedPermits s then
             refuse_raw D sub now ''permit_replayed'' ''Execution permit has already been consumed by the runtime.'' s
           else
             derive_and_check D sub claims now
               (s\<lparr> en_consumedPermits := insert (cl_permitId claims) (en_consumedPermits s) \<rparr>)))))"

section \<open>Attempts\<close>

datatype handler_end = Handler_returns "json option" | Handler_throws "string option"

definition cancelledOutcome :: "string option \<Rightarrow> AttemptOutcome" where
  "cancelledOutcome reason =
     (if reason = Some ''timeout'' then
        \<lparr> ao_status = RS_TIMED_OUT, ao_reasonCode = ''timeout'', ao_message = ''Execution timed out.'', ao_output = None \<rparr>
      else
        \<lparr> ao_status = RS_CANCELLED, ao_reasonCode = (case reason of Some r \<Rightarrow> r | None \<Rightarrow> ''cancelled''),
          ao_message = ''Execution cancelled.'', ao_output = None \<rparr>)"

text \<open>
  \<^verbatim>\<open>#runAttempt\<close>: the answer of the scheduler, how the handler ended if its task was started and it
  ended at all, and the state of the cancellation source at that time. No outcome means that the
  promise of the attempt stays pending.
\<close>

definition attempt_outcome ::
  "'r ScheduleResult \<Rightarrow> handler_end option \<Rightarrow> 'c CancellationSource \<Rightarrow> AttemptOutcome option" where
  "attempt_outcome scheduled ended source =
     (if \<not> sc_admitted scheduled then
        Some \<lparr> ao_status = (if be_decision (sc_evaluation scheduled) = BP_OVERLOADED then RS_OVERLOADED else RS_REJECTED),
               ao_reasonCode = be_reasonCode (sc_evaluation scheduled), ao_message = be_message (sc_evaluation scheduled),
               ao_output = None \<rparr>
      else
        (case (sc_completion scheduled, ended) of
           (Some (Inr started), Some (Handler_returns output)) \<Rightarrow>
             Some (if cs_cancelled source then cancelledOutcome (cs_reason source)
                   else \<lparr> ao_status = RS_COMPLETED, ao_reasonCode = ''completed'', ao_message = ''Execution completed.'',
                          ao_output = output \<rparr>)
         | (Some (Inr started), Some (Handler_throws message)) \<Rightarrow>
             Some (if cs_cancelled source then cancelledOutcome (cs_reason source)
                   else \<lparr> ao_status = RS_FAILED, ao_reasonCode = ''handler_failed'',
                          ao_message = (case message of Some m \<Rightarrow> m | None \<Rightarrow> ''handler_failed''), ao_output = None \<rparr>)
         | _ \<Rightarrow> None))"

text \<open>The loop body after the attempt: the breaker is told, and whether another attempt follows.\<close>

definition after_attempt ::
  "'a RuntimeEngineDeps \<Rightarrow> AttemptOutcome \<Rightarrow> string \<Rightarrow> Execution \<Rightarrow> 'a RuntimeEngine \<Rightarrow> bool \<times> Execution \<times> 'a RuntimeEngine" where
  "after_attempt D outcome now x s =
     (let x1 = x\<lparr> ex_attempt := Suc (ex_attempt x), ex_outcome := outcome \<rparr> in
      if ao_status outcome = RS_COMPLETED then
        (False, x1, s\<lparr> en_circuitBreaker := onSuccess (ex_circuitKey x) (en_circuitBreaker s) \<rparr>)
      else
        (let s1 = (if ao_status outcome = RS_FAILED \<or> ao_status outcome = RS_TIMED_OUT
                   then s\<lparr> en_circuitBreaker := onFailure (ex_circuitKey x) now (en_circuitBreaker s) \<rparr> else s)
         in if ao_status outcome \<noteq> RS_FAILED then (False, x1, s1)
            else (rd_retry (ed_retry D (ex_attempt x1) (ex_retrySafe x) (ao_reasonCode outcome)), x1, s1)))"

section \<open>The end of a submission\<close>

definition auditOutcomeFor :: "RuntimeStatus \<Rightarrow> RuntimeAuditOutcome" where
  "auditOutcomeFor st =
     (case st of RS_COMPLETED \<Rightarrow> RA_COMPLETED | RS_FAILED \<Rightarrow> RA_FAILED | RS_CANCELLED \<Rightarrow> RA_CANCELLED
      | RS_TIMED_OUT \<Rightarrow> RA_TIMED_OUT | RS_OVERLOADED \<Rightarrow> RA_OVERLOADED | RS_REJECTED \<Rightarrow> RA_REJECTED)"

definition release_all :: "Execution \<Rightarrow> 'a RuntimeEngine \<Rightarrow> 'a RuntimeEngine" where
  "release_all x s =
     s\<lparr> en_resources := resource_release (ex_reservation x) (en_resources s),
        en_quota := quota_release (ex_quotaKey x) (ex_cost x) False (en_quota s) \<rparr>"

definition settle ::
  "'a RuntimeEngineDeps \<Rightarrow> string \<Rightarrow> Execution \<Rightarrow> 'a RuntimeEngine \<Rightarrow> RuntimeResult result \<times> 'a RuntimeEngine" where
  "settle D endedAt x s =
     (let s1 = release_all x s; out = ex_outcome x; c = ex_context x;
          (snapId, s2) = next_id ''snap'' s1;
          snapshot = createExecutionSnapshot snapId c
            \<lparr> sf_status = ao_status out, sf_reasonCode = ao_reasonCode out, sf_attempts = ex_attempt x,
              sf_startedAt = ex_startedAt x, sf_endedAt = Some endedAt \<rparr>;
          (a, s3) = auditRecord D c endedAt (auditOutcomeFor (ao_status out)) (ao_reasonCode out) (ao_message out) s2
      in (case a of
            Inl e \<Rightarrow> Inl e
          | Inr _ \<Rightarrow>
              Inr \<lparr> rr_status = ao_status out, rr_reasonCode = ao_reasonCode out, rr_message = ao_message out,
                    rr_attempts = ex_attempt x, rr_output = ao_output out, rr_snapshot = Some snapshot \<rparr>, s3))"

definition toEnvelopeStatus :: "RuntimeStatus \<Rightarrow> ExecutionResultStatus" where
  "toEnvelopeStatus st =
     (case st of RS_COMPLETED \<Rightarrow> SUCCEEDED | RS_CANCELLED \<Rightarrow> CANCELLED | RS_TIMED_OUT \<Rightarrow> TIMED_OUT | _ \<Rightarrow> FAILED)"

section \<open>A whole submission\<close>

text \<open>
  The retry loop of one submission when nothing interleaves: attempt \<open>n\<close> ends with the outcome and
  at the time \<open>outcomes n\<close>. The loop has a bound on its rounds as fuel; no value means that the bound was
  reached.
\<close>

fun attempts ::
  "nat \<Rightarrow> 'a RuntimeEngineDeps \<Rightarrow> (nat \<Rightarrow> AttemptOutcome \<times> string) \<Rightarrow> Execution \<Rightarrow> 'a RuntimeEngine \<Rightarrow>
   (Execution \<times> 'a RuntimeEngine) option" where
  "attempts 0 D outcomes x s = None"
| "attempts (Suc n) D outcomes x s =
     (let (outcome, now) = outcomes (ex_attempt x); (again, x1, s1) = after_attempt D outcome now x s in
      if again then attempts n D outcomes x1 s1 else Some (x1, s1))"

definition submit ::
  "nat \<Rightarrow> 'a RuntimeEngineDeps \<Rightarrow> (ref \<rightharpoonup> string \<times> string) \<Rightarrow> RuntimeSubmission \<Rightarrow> string \<Rightarrow> string \<Rightarrow>
   (nat \<Rightarrow> AttemptOutcome \<times> string) \<Rightarrow> 'a RuntimeEngine \<Rightarrow> (RuntimeResult result \<times> 'a RuntimeEngine) option" where
  "submit n D authorizations sub now endedAt outcomes s =
     (case admit D authorizations sub now s of
        (Refused r, s1) \<Rightarrow> Some (Inr r, s1)
      | (Raised e held, s1) \<Rightarrow> Some (Inl e, s1)
      | (Admitted x, s1) \<Rightarrow> map_option (\<lambda>(y, s2). settle D endedAt y s2) (attempts n D outcomes x s1))"

section \<open>What an admission changes\<close>

lemma sink_append_frame [simp]:
  "en_quota (snd (sink_append D r s)) = en_quota s" "en_resources (snd (sink_append D r s)) = en_resources s"
  "en_consumedPermits (snd (sink_append D r s)) = en_consumedPermits s"
  by (simp_all add: sink_append_def case_prod_beta Let_def)

lemma auditRecord_frame [simp]:
  "en_quota (snd (auditRecord D c t oc code d s)) = en_quota s"
  "en_resources (snd (auditRecord D c t oc code d s)) = en_resources s"
  "en_consumedPermits (snd (auditRecord D c t oc code d s)) = en_consumedPermits s"
  by (simp_all add: auditRecord_def case_prod_beta Let_def)

lemma fst_refuse [simp]: "fst (refuse D c t code m s) = Refused (rejected_result code m)"
  by (simp add: refuse_def reject_def)

lemma refuse_frame [simp]:
  "en_quota (snd (refuse D c t code m s)) = en_quota s" "en_resources (snd (refuse D c t code m s)) = en_resources s"
  "en_consumedPermits (snd (refuse D c t code m s)) = en_consumedPermits s"
  by (simp_all add: refuse_def reject_def)

lemma refuse_raw_frame [simp]:
  "en_quota (snd (refuse_raw D sub t code m s)) = en_quota s"
  "en_resources (snd (refuse_raw D sub t code m s)) = en_resources s"
  "en_consumedPermits (snd (refuse_raw D sub t code m s)) = en_consumedPermits s"
  by (simp_all add: refuse_raw_def rejectRaw_def case_prod_beta Let_def)

definition request_of :: "QuotaCost \<Rightarrow> ResourceRequest" where
  "request_of cost = \<lparr> rr_slots = 1, rr_cpuMs = qc_cpuMs cost, rr_memoryBytes = qc_memoryBytes cost \<rparr>"

text \<open>
  The reservation an admission step leaves behind: none when the submission was refused or threw
  before it reserved; otherwise the one that was granted for the cost of the submission.
\<close>

fun held_by :: "admission \<Rightarrow> ResourceReservation option" where
  "held_by (Refused r) = None"
| "held_by (Raised e h) = h"
| "held_by (Admitted x) = Some (ex_reservation x)"

definition reserved_step :: "QuotaCost \<Rightarrow> admission \<Rightarrow> 'a RuntimeEngine \<Rightarrow> 'a RuntimeEngine \<Rightarrow> bool" where
  "reserved_step cost a s s' \<longleftrightarrow>
     (case held_by a of
        None \<Rightarrow> en_resources s' = en_resources s
      | Some r \<Rightarrow> (\<exists>adm. reserve (request_of cost) (en_resources s) = (adm, en_resources s') \<and> ra_reservation adm = Some r))"

lemma reserve_refused: "ra_reservation (fst (reserve q m)) = None \<Longrightarrow> snd (reserve q m) = m"
  by (auto simp: reserve_def Let_def split: if_splits)

lemma acquire_reserves:
  "reserved_step (submission_cost sub d maxMs) (fst (acquire D sub c d maxMs now s)) s (snd (acquire D sub c d maxMs now s))"
proof -
  let ?cost = "submission_cost sub d maxMs"
  let ?key = "\<lparr> qk_tenantId = rx_tenantId c, qk_workspaceId = rx_workspaceId c, qk_actorId = rx_actorId c, qk_capability = rs_capability sub \<rparr>"
  obtain quota q1 where q: "tryAcquire ?key ?cost (en_quota s) = (quota, q1)" by fastforce
  obtain adm rm where r: "reserve (request_of ?cost) (en_resources s) = (adm, rm)" by fastforce
  note acq = acquire_def Let_def q r [unfolded request_of_def] reserved_step_def request_of_def
  show ?thesis
  proof (cases "qa_ok quota")
    case False
    then show ?thesis by (simp add: acq)
  next
    case True
    show ?thesis
    proof (cases "ra_reservation adm")
      case None
      then have "rm = en_resources s" using reserve_refused [of "request_of ?cost" "en_resources s"] r by simp
      then show ?thesis using None True by (simp add: acq)
    next
      case (Some rv)
      then show ?thesis using True by (simp add: acq case_prod_beta split: sum.split)
    qed
  qed
qed

lemma held_by_refuse_raw [simp]: "held_by (fst (refuse_raw D sub t code m s)) = None"
  by (simp add: refuse_raw_def case_prod_beta Let_def split: sum.split)

lemma acquire_consumed [simp]: "en_consumedPermits (snd (acquire D sub c d maxMs now s)) = en_consumedPermits s"
  by (simp add: acquire_def Let_def case_prod_beta split: option.split)

lemma check_capability_consumed [simp]:
  "en_consumedPermits (snd (check_capability D sub c maxMs now s)) = en_consumedPermits s"
  by (simp add: check_capability_def Let_def case_prod_beta split: option.split)

lemma next_id_frame [simp]:
  "en_consumedPermits (snd (next_id p s)) = en_consumedPermits s" "en_resources (snd (next_id p s)) = en_resources s"
  "en_quota (snd (next_id p s)) = en_quota s" "en_circuitBreaker (snd (next_id p s)) = en_circuitBreaker s"
  "en_heap (snd (next_id p s)) = en_heap s"
  by (simp_all add: next_id_def)

lemma derive_and_check_consumed [simp]:
  "en_consumedPermits (snd (derive_and_check D sub cl now s)) = en_consumedPermits s"
  by (simp add: derive_and_check_def Let_def case_prod_beta split: option.split sum.split DeriveRuntimeContextResult.split)

text \<open>Every admission step reserves for a cost that a registered capability and the submission determine, or not at all.\<close>

definition reserves :: "'a RuntimeEngineDeps \<Rightarrow> RuntimeSubmission \<Rightarrow> admission \<Rightarrow> 'a RuntimeEngine \<Rightarrow> 'a RuntimeEngine \<Rightarrow> bool" where
  "reserves D sub a s s' \<longleftrightarrow>
     (case held_by a of
        None \<Rightarrow> en_resources s' = en_resources s
      | Some r \<Rightarrow>
          (\<exists>d maxMs adm. ed_capabilities D (rs_capability sub) = Some d \<and>
             reserve (request_of (submission_cost sub d maxMs)) (en_resources s) = (adm, en_resources s') \<and>
             ra_reservation adm = Some r))"

lemma reserves_cong: "en_resources s = en_resources t \<Longrightarrow> reserves D sub a s u \<longleftrightarrow> reserves D sub a t u"
  by (simp add: reserves_def split: option.split)

lemma check_capability_reserves:
  "reserves D sub (fst (check_capability D sub c maxMs now s)) s (snd (check_capability D sub c maxMs now s))"
proof (cases "ed_capabilities D (rs_capability sub)")
  case None
  then show ?thesis by (simp add: check_capability_def reserves_def)
next
  case (Some d)
  have "en_resources t = en_resources s \<Longrightarrow>
      reserves D sub (fst (acquire D sub c d maxMs now t)) s (snd (acquire D sub c d maxMs now t))" for t
    using acquire_reserves [of sub d maxMs D c now t] Some by (auto simp: reserves_def reserved_step_def split: option.splits)
  then show ?thesis using Some
    by (auto simp: check_capability_def Let_def case_prod_beta reserves_def [of D sub "fst (refuse D c now _ _ _)"]
        simp: reserves_def [of D sub "Refused _"] split: option.split)
qed

lemma derive_and_check_reserves:
  "reserves D sub (fst (derive_and_check D sub cl now s)) s (snd (derive_and_check D sub cl now s))"
proof -
  have chk: "en_resources t = en_resources s \<Longrightarrow>
      reserves D sub (fst (check_capability D sub c m now t)) s (snd (check_capability D sub c m now t))" for t c m
    using check_capability_reserves [of D sub c m now t] reserves_cong [of t s] by blast
  have tr: "en_resources (snd (case rs_traceId sub of Some t \<Rightarrow> (t, s) | None \<Rightarrow> next_id ''trace'' s)) = en_resources s"
    by (simp split: option.split)
  have raw: "en_resources t = en_resources s \<Longrightarrow>
      reserves D sub (fst (refuse_raw D sub now code m t)) s (snd (refuse_raw D sub now code m t))" for t code m
    by (simp add: reserves_def)
  have err: "reserves D sub (Raised e None) s s" for e by (simp add: reserves_def)
  show ?thesis
    unfolding derive_and_check_def Let_def
    by (auto simp: case_prod_beta tr intro!: chk raw err split: sum.split DeriveRuntimeContextResult.split)
qed

lemma admit_reserves:
  "reserves D sub (fst (admit D auths sub now s)) s (snd (admit D auths sub now s))"
proof -
  have raw: "reserves D sub (fst (refuse_raw D sub now code m s)) s (snd (refuse_raw D sub now code m s))" for code m
    by (simp add: reserves_def)
  have der: "reserves D sub (fst (derive_and_check D sub cl now (s\<lparr> en_consumedPermits := P \<rparr>))) s
      (snd (derive_and_check D sub cl now (s\<lparr> en_consumedPermits := P \<rparr>)))" for cl P
    using derive_and_check_reserves [of D sub cl now "s\<lparr> en_consumedPermits := P \<rparr>"]
      reserves_cong [of "s\<lparr> en_consumedPermits := P \<rparr>" s] by simp
  show ?thesis unfolding admit_def Let_def by (auto intro!: raw der split: option.split)
qed

section \<open>What an admission checked\<close>

lemma auditRecord_ok:
  "fst (auditRecord D c t oc code d s) = Inr u \<Longrightarrow>
     fst (ras_append (ed_audit D) (context_record c t oc code d) (en_sink s)) = Appended"
  by (auto simp: auditRecord_def sink_append_def case_prod_beta Let_def split: append_reply.splits)

definition granted :: "'a RuntimeEngineDeps \<Rightarrow> RuntimeSubmission \<Rightarrow> CapabilityDescriptor \<Rightarrow> string \<Rightarrow> Execution \<Rightarrow> 'a RuntimeEngine \<Rightarrow> bool" where
  "granted D sub d now x s \<longleftrightarrow>
     ex_retrySafe x = cd_retrySafe d \<and> ex_attempt x = 0 \<and> ex_cost x = submission_cost sub d (ex_maxMs x) \<and>
     ex_circuitKey x = \<lparr> ck_tenantId = rx_tenantId (ex_context x), ck_capability = rs_capability sub \<rparr> \<and>
     ex_quotaKey x =
       \<lparr> qk_tenantId = rx_tenantId (ex_context x), qk_workspaceId = rx_workspaceId (ex_context x),
         qk_actorId = rx_actorId (ex_context x), qk_capability = rs_capability sub \<rparr> \<and>
     (\<forall>dim. fits (en_quota s) (ex_cost x) (slot dim (ex_quotaKey x))) \<and>
     ra_reservation (fst (reserve (request_of (ex_cost x)) (en_resources s))) = Some (ex_reservation x) \<and>
     (\<exists>a. fst (ras_append (ed_audit D)
        (context_record (ex_context x) now RA_ADMITTED ''admitted'' ''Execution admitted.'') a) = Appended)"

lemma granted_cong:
  "en_quota s = en_quota t \<Longrightarrow> en_resources s = en_resources t \<Longrightarrow> granted D sub d now x s \<longleftrightarrow> granted D sub d now x t"
  by (simp add: granted_def)

lemma acquire_grants:
  assumes "fst (acquire D sub c d maxMs now s) = Admitted x"
  shows "ex_context x = c \<and> granted D sub d now x s"
proof -
  let ?cost = "submission_cost sub d maxMs"
  let ?key = "\<lparr> qk_tenantId = rx_tenantId c, qk_workspaceId = rx_workspaceId c, qk_actorId = rx_actorId c, qk_capability = rs_capability sub \<rparr>"
  obtain quota q1 where q: "tryAcquire ?key ?cost (en_quota s) = (quota, q1)" by fastforce
  obtain adm rm where r: "reserve (request_of ?cost) (en_resources s) = (adm, rm)" by fastforce
  note acq = acquire_def Let_def q r [unfolded request_of_def]
  have ok: "qa_ok quota" using assms by (cases "qa_ok quota") (simp_all add: acq)
  have f: "\<forall>dim. fits (en_quota s) ?cost (slot dim ?key)"
    using ok tryAcquire_ok [of ?key ?cost "en_quota s"] by (simp add: q slot_set_eq)
  obtain rv where rv: "ra_reservation adm = Some rv" using assms ok by (cases "ra_reservation adm") (simp_all add: acq)
  obtain u s' where a: "auditRecord D c now RA_ADMITTED ''admitted'' ''Execution admitted.''
      (s\<lparr> en_quota := q1, en_resources := rm \<rparr>) = (u, s')" by fastforce
  obtain v where v: "u = Inr v" using assms ok rv a by (cases u) (simp_all add: acq)
  have "fst (ras_append (ed_audit D) (context_record c now RA_ADMITTED ''admitted'' ''Execution admitted.'') (en_sink s)) = Appended"
    using auditRecord_ok [of D c now RA_ADMITTED "''admitted''" "''Execution admitted.''" "s\<lparr> en_quota := q1, en_resources := rm \<rparr>" v] a v
    by simp
  then show ?thesis using assms ok rv a v f r by (auto simp: acq granted_def)
qed

definition sandboxed :: "'a RuntimeEngineDeps \<Rightarrow> CapabilityDescriptor \<Rightarrow> RuntimeExecutionContext \<Rightarrow> iso_heap \<Rightarrow> bool" where
  "sandboxed D d c h \<longleftrightarrow>
     (let (identity, h') = deriveExecutionIdentity c h in
      \<forall>cap \<in> set (cd_requiredSandboxCapabilities d).
        rsd_allowed (evaluateRuntimeSandbox (sandbox_input D identity cap) h') \<and>
        (ed_mode D = Production \<longrightarrow>
           (\<exists>cfg provider policy. ed_sandbox D = Some cfg \<and> rsc_provider cfg = Some provider \<and> rsc_policy cfg = Some policy \<and>
              fst (evaluateSandboxProvider
                \<lparr> spe_provider = provider, spe_policy = policy, spe_capability = Some (JStr cap),
                  spe_environmentMode = Some (JStr (rsc_environmentMode cfg)), spe_identity = identity,
                  spe_quota = None \<rparr> h') = Iso_allowed)))"

lemma sandbox_refusal_None:
  "sandbox_refusal D i h cs = None \<Longrightarrow> cap \<in> set cs \<Longrightarrow> rsd_allowed (evaluateRuntimeSandbox (sandbox_input D i cap) h)"
  by (induction cs) (auto simp: Let_def split: if_splits)

lemma sandbox_refusal_sandboxed:
  assumes "deriveExecutionIdentity c h = (i, h')" "sandbox_refusal D i h' (cd_requiredSandboxCapabilities d) = None"
  shows "sandboxed D d c h"
proof -
  have "rsd_allowed (evaluateRuntimeSandbox (sandbox_input D i cap) h') \<and>
      (ed_mode D = Production \<longrightarrow>
         (\<exists>cfg provider policy. ed_sandbox D = Some cfg \<and> rsc_provider cfg = Some provider \<and> rsc_policy cfg = Some policy \<and>
            fst (evaluateSandboxProvider
              \<lparr> spe_provider = provider, spe_policy = policy, spe_capability = Some (JStr cap),
                spe_environmentMode = Some (JStr (rsc_environmentMode cfg)), spe_identity = i,
                spe_quota = None \<rparr> h') = Iso_allowed))"
    if "cap \<in> set (cd_requiredSandboxCapabilities d)" for cap
    using sandbox_refusal_None [OF assms(2) that] evaluateRuntimeSandbox_production [of "sandbox_input D i cap" h']
    by (cases "ed_sandbox D") (auto simp: sandbox_input_def engine_environment_def)
  then show ?thesis by (simp add: sandboxed_def assms(1))
qed

lemma check_capability_grants:
  assumes "fst (check_capability D sub c maxMs now s) = Admitted x"
  shows "\<exists>d. ed_capabilities D (rs_capability sub) = Some d \<and> ex_context x = c \<and> sandboxed D d c (en_heap s) \<and>
    fst (canExecute (ex_circuitKey x) now (en_circuitBreaker s)) \<and> granted D sub d now x s"
proof -
  obtain d where d: "ed_capabilities D (rs_capability sub) = Some d"
    using assms by (cases "ed_capabilities D (rs_capability sub)") (simp_all add: check_capability_def)
  obtain i h where i: "deriveExecutionIdentity c (en_heap s) = (i, h)" by fastforce
  have n: "sandbox_refusal D i h (cd_requiredSandboxCapabilities d) = None"
    using assms by (cases "sandbox_refusal D i h (cd_requiredSandboxCapabilities d)") (auto simp: check_capability_def d i Let_def)
  obtain ok b where b: "canExecute \<lparr> ck_tenantId = rx_tenantId c, ck_capability = rs_capability sub \<rparr> now (en_circuitBreaker s) = (ok, b)"
    by fastforce
  have o: "ok" using assms by (cases ok) (simp_all add: check_capability_def d i n b Let_def)
  have "fst (acquire D sub c d maxMs now (s\<lparr> en_heap := h, en_circuitBreaker := b \<rparr>)) = Admitted x"
    using assms by (simp add: check_capability_def d i n b o Let_def)
  then have "ex_context x = c \<and> granted D sub d now x (s\<lparr> en_heap := h, en_circuitBreaker := b \<rparr>)" by (rule acquire_grants)
  then have g: "ex_context x = c" "granted D sub d now x s"
    using granted_cong [of "s\<lparr> en_heap := h, en_circuitBreaker := b \<rparr>" s] by simp_all
  then have "ex_circuitKey x = \<lparr> ck_tenantId = rx_tenantId c, ck_capability = rs_capability sub \<rparr>" by (simp add: granted_def)
  then show ?thesis using d g b o sandbox_refusal_sandboxed [OF i n] by simp
qed

definition bound_to :: "RuntimeExecutionContext \<Rightarrow> ExecutionPermitClaims \<Rightarrow> bool" where
  "bound_to c cl \<longleftrightarrow>
     rx_permitId c = cl_permitId cl \<and> rx_requestId c = cl_requestId cl \<and> rx_tenantId c = cl_tenantId cl \<and>
     rx_organizationId c = cl_organizationId cl \<and> rx_workspaceId c = cl_workspaceId cl \<and> rx_actorId c = cl_actorId cl \<and>
     rx_resource c = cl_resource cl"

lemma derive_and_check_grants:
  assumes "fst (derive_and_check D sub cl now s) = Admitted x" "rs_permit sub = Some permit" "cl = sp_claims permit"
  shows "\<exists>d. ed_capabilities D (rs_capability sub) = Some d \<and> bound_to (ex_context x) cl \<and>
    sandboxed D d (ex_context x) (en_heap s) \<and> fst (canExecute (ex_circuitKey x) now (en_circuitBreaker s)) \<and>
    granted D sub d now x s"
proof -
  let ?m = "max 1 (maxExecutionTimeMs (cl_runtimeConstraints cl))"
  let ?dl = "case dateParse now of Some t \<Rightarrow> toISOString (t + ?m) | None \<Rightarrow> Inl (RangeError ''Invalid time value'')"
  let ?tr = "case rs_traceId sub of Some t \<Rightarrow> (t, s) | None \<Rightarrow> next_id ''trace'' s"
  obtain dl where dl: "?dl = Inr dl" using assms(1) by (cases ?dl) (simp_all add: derive_and_check_def Let_def)
  obtain tr t where tr: "?tr = (tr, t)" by fastforce
  have t: "en_quota t = en_quota s" "en_resources t = en_resources s" "en_heap t = en_heap s"
    "en_circuitBreaker t = en_circuitBreaker s"
    using tr by (auto simp: next_id_def split: option.splits)
  let ?inp = "\<lparr> dr_capability = rs_capability sub, dr_traceId = tr, dr_deadlineIso = dl, dr_causationId = truthy (rs_causationId sub) \<rparr>"
  obtain c where c: "deriveRuntimeContext (rs_permit sub) ?inp = Derived c"
    using assms(1) dl tr
    by (cases "deriveRuntimeContext (rs_permit sub) ?inp")
      (auto simp: derive_and_check_def Let_def refuse_raw_def case_prod_beta split: sum.splits)
  have "fst (check_capability D sub c ?m now t) = Admitted x"
    using assms(1) dl tr c by (simp add: derive_and_check_def Let_def)
  then obtain d where d: "ed_capabilities D (rs_capability sub) = Some d" "ex_context x = c" "sandboxed D d c (en_heap t)"
    "fst (canExecute (ex_circuitKey x) now (en_circuitBreaker t))" "granted D sub d now x t"
    using check_capability_grants by blast
  have "bound_to c cl" using deriveRuntimeContext_binds [of permit ?inp c] c assms(2,3) by (simp add: bound_to_def)
  then show ?thesis using d granted_cong [OF t(1,2)] unfolding t by auto
qed

lemma refuse_raw_not_admitted [simp]: "fst (refuse_raw D sub now code m s) \<noteq> Admitted x"
  by (simp add: refuse_raw_def case_prod_beta Let_def split: sum.split)

lemma admit_admitted:
  assumes "fst (admit D auths sub now s) = Admitted x"
  obtains permit where "rs_permit sub = Some permit"
    "auths (rs_authorization sub) = Some (cl_permitId (sp_claims permit), cl_requestId (sp_claims permit))"
    "isFuture (cl_expiresAt (sp_claims permit)) now" "cl_permitId (sp_claims permit) \<notin> en_consumedPermits s"
    "\<not> (ed_mode D = Production \<and> ras_testOnly (ed_audit D))"
    "admit D auths sub now s = derive_and_check D sub (sp_claims permit) now
       (s\<lparr> en_consumedPermits := insert (cl_permitId (sp_claims permit)) (en_consumedPermits s) \<rparr>)"
proof -
  have a: "\<not> (ed_mode D = Production \<and> ras_testOnly (ed_audit D))"
    using assms by (cases "ed_mode D = Production \<and> ras_testOnly (ed_audit D)") (simp_all add: admit_def)
  obtain pid rid where b: "auths (rs_authorization sub) = Some (pid, rid)"
    using assms a by (cases "auths (rs_authorization sub)") (auto simp: admit_def)
  obtain permit where c: "rs_permit sub = Some permit" using assms a b by (cases "rs_permit sub") (auto simp: admit_def)
  have "pid = cl_permitId (sp_claims permit)" "rid = cl_requestId (sp_claims permit)"
    "isFuture (cl_expiresAt (sp_claims permit)) now" "cl_permitId (sp_claims permit) \<notin> en_consumedPermits s"
    using assms a b c by (auto simp: admit_def Let_def split: if_splits)
  then show ?thesis using a b c by (intro that [of permit]) (auto simp: admit_def Let_def)
qed

text \<open>
  C2. Nothing is executed behind the back of the pipeline: a submission is admitted only when it carries
  an authorization the final gate minted for the very permit and request it presents; the permit has
  not expired, has not been used before and is used from now on; the execution is bound to the
  tenant, organization, workspace, actor and resource of that permit; the capability is registered
  and each sandbox capability it requires is allowed, in production by an attested provider; the
  breaker lets it pass, its cost fits the quota of all four dimensions, its resources are reserved,
  and the admission is in the audit sink, which in production is not a test one.
\<close>

theorem runtime_admission_mediated:
  assumes "admit D auths sub now s = (Admitted x, s')"
  shows "\<exists>permit d. rs_permit sub = Some permit \<and>
    auths (rs_authorization sub) = Some (cl_permitId (sp_claims permit), cl_requestId (sp_claims permit)) \<and>
    isFuture (cl_expiresAt (sp_claims permit)) now \<and>
    cl_permitId (sp_claims permit) \<notin> en_consumedPermits s \<and> cl_permitId (sp_claims permit) \<in> en_consumedPermits s' \<and>
    bound_to (ex_context x) (sp_claims permit) \<and>
    ed_capabilities D (rs_capability sub) = Some d \<and> sandboxed D d (ex_context x) (en_heap s) \<and>
    fst (canExecute (ex_circuitKey x) now (en_circuitBreaker s)) \<and> granted D sub d now x s \<and>
    (ed_mode D = Production \<longrightarrow> \<not> ras_testOnly (ed_audit D))"
proof -
  have a: "fst (admit D auths sub now s) = Admitted x" using assms by simp
  from a obtain permit where p: "rs_permit sub = Some permit"
    "auths (rs_authorization sub) = Some (cl_permitId (sp_claims permit), cl_requestId (sp_claims permit))"
    "isFuture (cl_expiresAt (sp_claims permit)) now" "cl_permitId (sp_claims permit) \<notin> en_consumedPermits s"
    "\<not> (ed_mode D = Production \<and> ras_testOnly (ed_audit D))"
    "admit D auths sub now s = derive_and_check D sub (sp_claims permit) now
       (s\<lparr> en_consumedPermits := insert (cl_permitId (sp_claims permit)) (en_consumedPermits s) \<rparr>)"
    by (rule admit_admitted)
  let ?s = "s\<lparr> en_consumedPermits := insert (cl_permitId (sp_claims permit)) (en_consumedPermits s) \<rparr>"
  have "fst (derive_and_check D sub (sp_claims permit) now ?s) = Admitted x" using a p(6) by simp
  then obtain d where d: "ed_capabilities D (rs_capability sub) = Some d" "bound_to (ex_context x) (sp_claims permit)"
    "sandboxed D d (ex_context x) (en_heap ?s)" "fst (canExecute (ex_circuitKey x) now (en_circuitBreaker ?s))"
    "granted D sub d now x ?s" using derive_and_check_grants p(1) by blast
  have "granted D sub d now x s" using d(5) granted_cong [of ?s s] by simp
  moreover have "s' = snd (derive_and_check D sub (sp_claims permit) now ?s)" using assms p(6) by simp
  then have "cl_permitId (sp_claims permit) \<in> en_consumedPermits s'" by simp
  ultimately show ?thesis using p d by auto
qed

section \<open>A concrete engine\<close>

definition demo_claims :: ExecutionPermitClaims where
  "demo_claims =
     \<lparr> cl_permitId = ''p1'', cl_requestId = ''r1'', cl_correlationId = ''c1'', cl_actorId = ''u1'', cl_actorType = ''human_user'',
       cl_tenantId = ''acme'', cl_organizationId = ''org'', cl_workspaceId = ''w1'', cl_action = ''run'',
       cl_resource = \<lparr> rr_id = ''doc'', rr_type = ''file'' \<rparr>, cl_issuedAt = ''2025-01-01T00:00:00.000Z'',
       cl_expiresAt = ''2025-01-01T00:05:00.000Z'', cl_nonce = ''n1'', cl_keyId = ''k1'', cl_policyDecisionId = ''d1'',
       cl_approvalReference = None,
       cl_runtimeConstraints = \<lparr> maxExecutionTimeMs = 1000, allowedCapabilities = [], networkEgress = False \<rparr>,
       cl_contextHash = ''h'' \<rparr>"

definition demo_now :: string where
  "demo_now = ''2025-01-01T00:01:00.000Z''"

definition demo_submission :: RuntimeSubmission where
  "demo_submission =
     \<lparr> rs_authorization = 0, rs_permit = Some \<lparr> sp_claims = demo_claims, sp_integrity = ''00'' \<rparr>, rs_capability = ''build'',
       rs_traceId = None, rs_causationId = None, rs_cost = None \<rparr>"

definition demo_descriptor :: CapabilityDescriptor where
  "demo_descriptor =
     \<lparr> cd_name = ''build'', cd_requiredSandboxCapabilities = [''tool''], cd_idempotent = True, cd_retrySafe = True,
       cd_defaultCost = None, cd_description = None \<rparr>"

definition demo_engine_deps :: "RuntimeAuditRecord list RuntimeEngineDeps" where
  "demo_engine_deps =
     \<lparr> ed_mode = Test, ed_capabilities = [''build'' \<mapsto> demo_descriptor],
       ed_retry = decide (newBoundedRetryStrategy None None None), ed_audit = InMemoryRuntimeAuditSink, ed_sandbox = None \<rparr>"

definition demo_engine :: "RuntimeAuditRecord list RuntimeEngine" where
  "demo_engine =
     \<lparr> en_quota = newQuotaSystem no_limits, en_resources = newResourceManager None None None,
       en_circuitBreaker = newCircuitBreaker None None None, en_consumedPermits = {}, en_ids = 0,
       en_heap = empty_iso_heap, en_sink = [] \<rparr>"

definition demo_auths :: "ref \<rightharpoonup> string \<times> string" where
  "demo_auths = [0 \<mapsto> (''p1'', ''r1'')]"

definition is_admitted :: "admission \<Rightarrow> bool" where
  "is_admitted a = (case a of Admitted x \<Rightarrow> True | _ \<Rightarrow> False)"

lemma demo_admitted: "is_admitted (fst (admit demo_engine_deps demo_auths demo_submission demo_now demo_engine))"
  by code_simp

lemma demo_admits:
  obtains x s' where "admit demo_engine_deps demo_auths demo_submission demo_now demo_engine = (Admitted x, s')"
  using demo_admitted
  by (cases "admit demo_engine_deps demo_auths demo_submission demo_now demo_engine") (auto simp: is_admitted_def split: admission.splits)

theorem runtime_admission_mediated_witness:
  "\<exists>x s' d. admit demo_engine_deps demo_auths demo_submission demo_now demo_engine = (Admitted x, s') \<and>
     bound_to (ex_context x) demo_claims \<and> granted demo_engine_deps demo_submission d demo_now x demo_engine"
proof -
  obtain x s' where a: "admit demo_engine_deps demo_auths demo_submission demo_now demo_engine = (Admitted x, s')" by (rule demo_admits)
  show ?thesis using runtime_admission_mediated [OF a] a by (auto simp: demo_submission_def)
qed

section \<open>One use of a permit\<close>

text \<open>The calls on an engine, in the order in which its synchronous parts run.\<close>

datatype engine_call =
  Call_admit "ref \<rightharpoonup> string \<times> string" RuntimeSubmission string
| Call_after AttemptOutcome string Execution
| Call_settle string Execution

definition engine_claim :: "'a RuntimeEngineDeps \<Rightarrow> engine_call \<Rightarrow> 'a RuntimeEngine \<Rightarrow> bool \<times> 'a RuntimeEngine" where
  "engine_claim D q s =
     (case q of
        Call_admit auths sub now \<Rightarrow> (let (a, s') = admit D auths sub now s in (is_admitted a, s'))
      | Call_after out now x \<Rightarrow> (False, snd (snd (after_attempt D out now x s)))
      | Call_settle endedAt x \<Rightarrow> (False, snd (settle D endedAt x s)))"

fun engine_call_permit :: "engine_call \<Rightarrow> string option" where
  "engine_call_permit (Call_admit auths sub now) = map_option (\<lambda>p. cl_permitId (sp_claims p)) (rs_permit sub)"
| "engine_call_permit _ = None"

definition consumed_permits :: "'a RuntimeEngine \<Rightarrow> string option set" where
  "consumed_permits s = Some ` en_consumedPermits s"

lemma after_attempt_frame [simp]:
  "en_consumedPermits (snd (snd (after_attempt D out now x s))) = en_consumedPermits s"
  "en_resources (snd (snd (after_attempt D out now x s))) = en_resources s"
  "en_quota (snd (snd (after_attempt D out now x s))) = en_quota s"
  by (simp_all add: after_attempt_def Let_def)

lemma after_attempt_execution:
  "fst (snd (after_attempt D out now x s)) = x\<lparr> ex_attempt := Suc (ex_attempt x), ex_outcome := out \<rparr>"
  by (simp add: after_attempt_def Let_def)

lemma settle_frame [simp]:
  "en_consumedPermits (snd (settle D t x s)) = en_consumedPermits s"
  "en_resources (snd (settle D t x s)) = resource_release (ex_reservation x) (en_resources s)"
  "en_quota (snd (settle D t x s)) = quota_release (ex_quotaKey x) (ex_cost x) False (en_quota s)"
  by (simp_all add: settle_def release_all_def Let_def case_prod_beta)

lemma admit_consumed_mono: "en_consumedPermits s \<subseteq> en_consumedPermits (snd (admit D auths sub now s))"
  by (auto simp: admit_def Let_def split: option.splits)

lemma admit_consumes:
  assumes "is_admitted (fst (admit D auths sub now s))"
  shows "engine_call_permit (Call_admit auths sub now) \<notin> consumed_permits s \<and>
    engine_call_permit (Call_admit auths sub now) \<in> consumed_permits (snd (admit D auths sub now s))"
proof -
  obtain x where "fst (admit D auths sub now s) = Admitted x" using assms by (auto simp: is_admitted_def split: admission.splits)
  then show ?thesis by (rule admit_admitted) (auto simp: consumed_permits_def)
qed

interpretation engine_permits: one_shot "engine_claim D" engine_call_permit consumed_permits
proof
  fix q :: engine_call and s s' :: "'a RuntimeEngine"
  show "engine_call_permit q \<notin> consumed_permits s \<and> engine_call_permit q \<in> consumed_permits s'" if "engine_claim D q s = (True, s')"
    using that admit_consumes [of D _ _ _ s] by (cases q) (auto simp: engine_claim_def case_prod_beta Let_def)
  show "consumed_permits s \<subseteq> consumed_permits s'" if "engine_claim D q s = (ok, s')" for ok
    using that
    by (cases q) (auto simp: engine_claim_def case_prod_beta Let_def consumed_permits_def
        intro!: imageI subsetD [OF admit_consumed_mono])
qed

text \<open>
  C36. Whatever submissions, attempts and completions interleave on one engine, each permit is admitted
  at most once, and one that was consumed before is never admitted.
\<close>

theorem runtime_permit_admitted_once:
  assumes "claim_run (engine_claim D) calls s = (won, s')"
  shows "distinct (map engine_call_permit won) \<and> (\<forall>p \<in> en_consumedPermits s. Some p \<notin> engine_call_permit ` set won)"
  using engine_permits.claim_run_inv [OF assms] by (auto simp: consumed_permits_def)

theorem runtime_permit_admitted_once_witness:
  "\<exists>won s'. claim_run (engine_claim demo_engine_deps)
     [Call_admit demo_auths demo_submission demo_now, Call_admit demo_auths demo_submission demo_now] demo_engine = (won, s') \<and>
     distinct (map engine_call_permit won)"
proof -
  let ?c = "Call_admit demo_auths demo_submission demo_now"
  obtain won s' where w: "claim_run (engine_claim demo_engine_deps) [?c, ?c] demo_engine = (won, s')" by fastforce
  show ?thesis using runtime_permit_admitted_once [OF w] w by blast
qed

section \<open>Resources of the executions in flight\<close>

text \<open>
  The engine beside the executions that were admitted and have not settled, and the reservations of
  submissions that threw while they held one.
\<close>

type_synonym 'a engine_conf = "'a RuntimeEngine \<times> Execution multiset \<times> ResourceReservation multiset"

definition costs_nonneg :: "'a RuntimeEngineDeps \<Rightarrow> RuntimeSubmission \<Rightarrow> bool" where
  "costs_nonneg D sub \<longleftrightarrow>
     (\<forall>d maxMs. ed_capabilities D (rs_capability sub) = Some d \<longrightarrow>
        0 \<le> qc_cpuMs (submission_cost sub d maxMs) \<and> 0 \<le> qc_memoryBytes (submission_cost sub d maxMs))"

inductive engine_step :: "'a RuntimeEngineDeps \<Rightarrow> 'a engine_conf \<Rightarrow> 'a engine_conf \<Rightarrow> bool" for D where
  eg_refused: "engine_step D (s, X, L) (s', X, L)" if "admit D auths sub now s = (Refused r, s')"
| eg_raised: "engine_step D (s, X, L) (s', X, L + (case held of None \<Rightarrow> {#} | Some r \<Rightarrow> {# r #}))"
    if "admit D auths sub now s = (Raised e held, s')" "costs_nonneg D sub"
| eg_admitted: "engine_step D (s, X, L) (s', add_mset x X, L)"
    if "admit D auths sub now s = (Admitted x, s')" "costs_nonneg D sub"
| eg_attempt: "engine_step D (s, add_mset x X, L) (s', add_mset x' X, L)" if "after_attempt D out now x s = (again, x', s')"
| eg_settle: "engine_step D (s, add_mset x X, L) (s', X, L)" if "settle D endedAt x s = (res, s')"

definition engine_reservations :: "'a engine_conf \<Rightarrow> ResourceManager \<times> ResourceReservation multiset" where
  "engine_reservations c = (case c of (s, X, L) \<Rightarrow> (en_resources s, image_mset ex_reservation X + L))"

lemma reserves_resource_step:
  assumes "reserves D sub a s s'" "costs_nonneg D sub" "held_by a = Some r"
  shows "resource_step (en_resources s, R) (en_resources s', R + {# r #})"
proof -
  obtain d m adm where d: "ed_capabilities D (rs_capability sub) = Some d"
    "reserve (request_of (submission_cost sub d m)) (en_resources s) = (adm, en_resources s')" "ra_reservation adm = Some r"
    using assms(1,3) by (auto simp: reserves_def)
  show ?thesis by (rule rs_reserve [OF d(2,3)]) (use assms(2) d(1) in \<open>auto simp: request_of_def costs_nonneg_def\<close>)
qed

lemma engine_step_resources:
  assumes "engine_step D c c'"
  shows "engine_reservations c' = engine_reservations c \<or> resource_step (engine_reservations c) (engine_reservations c')"
  using assms
proof (cases rule: engine_step.cases)
  case (eg_refused auths sub now s r s' X L)
  then show ?thesis using admit_reserves [of D sub auths now s] by (simp add: reserves_def engine_reservations_def)
next
  case (eg_raised auths sub now s e held s' X L)
  show ?thesis
  proof (cases held)
    case None
    then show ?thesis using eg_raised admit_reserves [of D sub auths now s] by (simp add: reserves_def engine_reservations_def)
  next
    case (Some r)
    then show ?thesis using eg_raised reserves_resource_step [OF admit_reserves [of D sub auths now s], of r] 
      by (simp add: engine_reservations_def)
  qed
next
  case (eg_admitted auths sub now s x s' X L)
  then show ?thesis using reserves_resource_step [OF admit_reserves [of D sub auths now s], of "ex_reservation x"]
    by (simp add: engine_reservations_def)
next
  case (eg_attempt out now x s again x' s' X L)
  then have "en_resources s' = en_resources s" "ex_reservation x' = ex_reservation x"
    using after_attempt_frame(2) [of D out now x s] after_attempt_execution [of D out now x s] by simp_all
  then show ?thesis using eg_attempt by (simp add: engine_reservations_def)
next
  case (eg_settle endedAt x s res s' X L)
  then have "en_resources s' = resource_release (ex_reservation x) (en_resources s)"
    using settle_frame(2) [of D endedAt x s] by simp
  then show ?thesis
    using eg_settle rs_release [of "en_resources s" "image_mset ex_reservation X + L" "ex_reservation x"]
    by (simp add: engine_reservations_def)
qed

lemma engine_reach_resources:
  "(engine_step D)\<^sup>*\<^sup>* c c' \<Longrightarrow> resource_step\<^sup>*\<^sup>* (engine_reservations c) (engine_reservations c')"
proof (induction rule: rtranclp_induct)
  case (step d e)
  then show ?case using engine_step_resources [of D d e] rtranclp.rtrancl_into_rtrancl by metis
qed simp

lemma resource_reach_inv:
  "resource_step\<^sup>*\<^sup>* c c' \<Longrightarrow> accounted c \<and> in_pool (fst c) \<Longrightarrow> accounted c' \<and> in_pool (fst c')"
  by (induction rule: rtranclp_induct) (use resource_step_inv in blast)+

text \<open>A sink that takes every record.\<close>

definition reliable :: "'a RuntimeAuditSink \<Rightarrow> bool" where
  "reliable k \<longleftrightarrow> (\<forall>r a. fst (ras_append k r a) = Appended)"

lemma reliable_auditRecord: "reliable (ed_audit D) \<Longrightarrow> fst (auditRecord D c t oc code d s) = Inr ()"
  by (simp add: reliable_def auditRecord_def sink_append_def case_prod_beta Let_def)

lemma reliable_acquire: "reliable (ed_audit D) \<Longrightarrow> fst (acquire D sub c d m now s) \<noteq> Raised e (Some r)"
  by (auto simp: acquire_def Let_def case_prod_beta reliable_auditRecord split: option.split sum.split)

lemma reliable_admit:
  assumes "reliable (ed_audit D)"
  shows "fst (admit D auths sub now s) \<noteq> Raised e (Some r)"
proof -
  have raw: "fst (refuse_raw D sub now code m t) \<noteq> Raised e (Some r)" for code m t
    using held_by_refuse_raw [of D sub now code m t] by (auto simp del: held_by_refuse_raw)
  have chk: "fst (check_capability D sub c m now t) \<noteq> Raised e (Some r)" for c m t
    using reliable_acquire [OF assms]
    by (auto simp: check_capability_def Let_def case_prod_beta split: option.split)
  have "fst (derive_and_check D sub cl now t) \<noteq> Raised e (Some r)" for cl t
    using raw chk by (auto simp: derive_and_check_def Let_def case_prod_beta split: sum.split DeriveRuntimeContextResult.split)
  then show ?thesis using raw by (auto simp: admit_def Let_def split: option.split)
qed

lemma reliable_step:
  assumes "engine_step D c c'" "reliable (ed_audit D)" "snd (snd c) = {#}"
  shows "snd (snd c') = {#}"
  using assms(1)
proof (cases rule: engine_step.cases)
  case (eg_raised auths sub now s e held s' X L)
  then show ?thesis using reliable_admit [OF assms(2), of auths sub now s e] assms(3) by (cases held) auto
qed (use assms(3) in auto)

text \<open>
  C11. The resources the engine holds are those of the executions in flight, whatever submissions,
  attempts and completions interleave, plus those of submissions that threw because the sink failed
  to take the record of their admission: these are never released. With a sink that takes every
  record there are none, and with nothing in flight the whole pool is available.
\<close>

theorem runtime_resources_accounted:
  assumes "(engine_step D)\<^sup>*\<^sup>* (s, {#}, {#}) (s', X, L)" "en_resources s = newResourceManager None None None"
  shows "accounted (en_resources s', image_mset ex_reservation X + L) \<and> in_pool (en_resources s') \<and>
     (reliable (ed_audit D) \<longrightarrow> L = {#}) \<and>
     (X = {#} \<and> L = {#} \<longrightarrow> available (en_resources s') = rm_pool (en_resources s'))"
proof -
  have i: "accounted (engine_reservations (s, {#}, {#})) \<and> in_pool (fst (engine_reservations (s, {#}, {#})))"
    by (simp add: engine_reservations_def assms(2) accounted_def in_pool_def available_def newResourceManager_def over_def)
  have "accounted (engine_reservations (s', X, L)) \<and> in_pool (fst (engine_reservations (s', X, L)))"
    using resource_reach_inv [OF engine_reach_resources [OF assms(1)] i] .
  then have a: "accounted (en_resources s', image_mset ex_reservation X + L)" "in_pool (en_resources s')"
    by (simp_all add: engine_reservations_def)
  have "snd (snd (s', X, L)) = {#}" if "reliable (ed_audit D)" using assms(1)
  proof (induction rule: rtranclp_induct)
    case (step c d)
    then show ?case using reliable_step [OF step(2) that] by simp
  qed simp
  then show ?thesis using a by (auto simp: accounted_def available_def)
qed

lemma demo_costs: "costs_nonneg demo_engine_deps demo_submission"
  by (simp add: costs_nonneg_def demo_engine_deps_def demo_submission_def demo_descriptor_def submission_cost_def first_of_def)

theorem runtime_resources_accounted_witness:
  "\<exists>x s'. admit demo_engine_deps demo_auths demo_submission demo_now demo_engine = (Admitted x, s') \<and>
     rm_slots (en_resources s') = rsv_slots (ex_reservation x) \<and>
     available (en_resources (snd (settle demo_engine_deps demo_now x s'))) = rm_pool (en_resources (snd (settle demo_engine_deps demo_now x s')))"
proof -
  obtain x s' where a: "admit demo_engine_deps demo_auths demo_submission demo_now demo_engine = (Admitted x, s')" by (rule demo_admits)
  have s1: "engine_step demo_engine_deps (demo_engine, {#}, {#}) (s', {# x #}, {#})" by (rule eg_admitted [OF a demo_costs])
  have s2: "engine_step demo_engine_deps (s', {# x #}, {#}) (snd (settle demo_engine_deps demo_now x s'), {#}, {#})"
    by (rule eg_settle [where res = "fst (settle demo_engine_deps demo_now x s')"]) simp
  have n: "en_resources demo_engine = newResourceManager None None None" by (simp add: demo_engine_def)
  have "accounted (en_resources s', {# ex_reservation x #})"
    using runtime_resources_accounted [OF r_into_rtranclp [of "engine_step demo_engine_deps", OF s1] n] by simp
  moreover have "available (en_resources (snd (settle demo_engine_deps demo_now x s'))) = rm_pool (en_resources (snd (settle demo_engine_deps demo_now x s')))"
    using runtime_resources_accounted [OF rtranclp.rtrancl_into_rtrancl [OF r_into_rtranclp [of "engine_step demo_engine_deps", OF s1] s2] n]
    by simp
  ultimately show ?thesis using a by (auto simp: accounted_def)
qed

section \<open>The retry loop ends\<close>

lemma attempts_bounded:
  assumes "ed_retry D = decide b"
  shows "br_maxAttempts b < ex_attempt x + n \<Longrightarrow> 0 < n \<Longrightarrow>
    \<exists>y s'. attempts n D outcomes x s = Some (y, s') \<and> ex_attempt x < ex_attempt y \<and>
      (ex_attempt y = Suc (ex_attempt x) \<or> ex_retrySafe x \<and> ex_attempt y \<le> br_maxAttempts b) \<and>
      ex_retrySafe y = ex_retrySafe x \<and> ex_outcome y = fst (outcomes (ex_attempt y - 1)) \<and>
      (\<forall>k. ex_attempt x \<le> k \<longrightarrow> Suc k < ex_attempt y \<longrightarrow> ao_status (fst (outcomes k)) = RS_FAILED)"
proof (induction n arbitrary: x s)
  case (Suc n)
  obtain out now where o: "outcomes (ex_attempt x) = (out, now)" by fastforce
  obtain again x1 s1 where a: "after_attempt D out now x s = (again, x1, s1)" by (metis prod_cases3)
  have x1: "x1 = x\<lparr> ex_attempt := Suc (ex_attempt x), ex_outcome := out \<rparr>"
    using after_attempt_execution [of D out now x s] a by simp
  show ?case
  proof (cases again)
    case False
    then show ?thesis using o a x1 by (auto simp: less_Suc_eq_le)
  next
    case True
    then have r: "rd_retry (decide b (Suc (ex_attempt x)) (ex_retrySafe x) (ao_reasonCode out))" "ao_status out = RS_FAILED"
      using a x1 assms by (auto simp: after_attempt_def Let_def split: if_splits)
    then have k: "ex_retrySafe x" "Suc (ex_attempt x) < br_maxAttempts b" by (auto simp: decide_def split: if_splits)
    then obtain y s' where y: "attempts n D outcomes x1 s1 = Some (y, s')" "ex_attempt x1 < ex_attempt y"
      "ex_attempt y = Suc (ex_attempt x1) \<or> ex_retrySafe x1 \<and> ex_attempt y \<le> br_maxAttempts b"
      "ex_retrySafe y = ex_retrySafe x1" "ex_outcome y = fst (outcomes (ex_attempt y - 1))"
      "\<forall>k. ex_attempt x1 \<le> k \<longrightarrow> Suc k < ex_attempt y \<longrightarrow> ao_status (fst (outcomes k)) = RS_FAILED"
      using Suc.IH [of x1 s1] Suc.prems x1 by auto
    have "ao_status (fst (outcomes k)) = RS_FAILED" if "ex_attempt x \<le> k" "Suc k < ex_attempt y" for k
      using that y(6) r(2) o x1 by (cases "k = ex_attempt x") auto
    then show ?thesis using o a True y x1 k by auto
  qed
qed simp

lemma refuse_raw_attempts: "fst (refuse_raw D sub now code m s) = Refused r \<Longrightarrow> rr_attempts r = 0"
  by (auto simp: refuse_raw_def rejectRaw_def rejected_result_def case_prod_beta Let_def split: sum.splits append_reply.splits)

lemma acquire_attempts: "fst (acquire D sub c d m now s) = Refused r \<Longrightarrow> rr_attempts r = 0"
  by (auto simp: acquire_def rejected_result_def Let_def case_prod_beta split: option.splits sum.splits if_splits)

lemma check_capability_attempts: "fst (check_capability D sub c m now s) = Refused r \<Longrightarrow> rr_attempts r = 0"
  by (auto simp: check_capability_def rejected_result_def Let_def case_prod_beta split: option.splits if_splits
      dest: acquire_attempts)

lemma derive_and_check_attempts: "fst (derive_and_check D sub cl now s) = Refused r \<Longrightarrow> rr_attempts r = 0"
  by (auto simp: derive_and_check_def Let_def case_prod_beta split: sum.splits DeriveRuntimeContextResult.splits
      dest: check_capability_attempts refuse_raw_attempts)

lemma admit_refused_attempts: "admit D auths sub now s = (Refused r, s') \<Longrightarrow> rr_attempts r = 0"
proof -
  assume "admit D auths sub now s = (Refused r, s')"
  then have "fst (admit D auths sub now s) = Refused r" by simp
  then show ?thesis
    by (auto simp: admit_def Let_def split: option.splits if_splits dest: derive_and_check_attempts refuse_raw_attempts)
qed

lemma admit_execution:
  assumes "fst (admit D auths sub now s) = Admitted x"
  shows "\<exists>d. ed_capabilities D (rs_capability sub) = Some d \<and> ex_attempt x = 0 \<and> ex_retrySafe x = cd_retrySafe d"
  using assms
proof (rule admit_admitted)
  fix permit :: SignedExecutionPermit
  let ?s = "s\<lparr> en_consumedPermits := insert (cl_permitId (sp_claims permit)) (en_consumedPermits s) \<rparr>"
  assume "rs_permit sub = Some permit" "admit D auths sub now s = derive_and_check D sub (sp_claims permit) now ?s"
  then show ?thesis using derive_and_check_grants [of D sub "sp_claims permit" now ?s x permit] assms
    by (auto simp: granted_def)
qed



section \<open>A scheduler that answers for a closed pool\<close>

text \<open>
  After \<^verbatim>\<open>shutdown\<close> the scheduler still accepts while the queue has room, but the pool takes nothing:
  the attempt has no outcome, however the handler and the timeout behave, so its submission never
  settles.
\<close>

lemma attempt_pending_after_shutdown:
  assumes "\<not> wp_accepting p" "sc_admitted (fst (schedule sd task p))"
  shows "attempt_outcome (fst (schedule sd task p)) ended source = None"
  using assms by (auto simp: schedule_def pool_run_def attempt_outcome_def Let_def split: if_splits)

end
