(* ===== verification/Runtime_Checkpoint.thy ===== *)
theory Runtime_Checkpoint
  imports Runtime_Support
begin

text \<open>
  \<^verbatim>\<open>runtime/src/classification.ts\<close> and \<^verbatim>\<open>runtime/src/checkpoint.ts\<close>: the redaction of what leaves the runtime,
  and the checkpoints that are made of it and restored under an authorization. The patterns of the
  redactor are matched on the code units of the model; a case-insensitive match compares in lower case.
\<close>

section \<open>classification.ts\<close>

datatype DataClassification = Cls_public | Cls_internal | Cls_confidential | Cls_secret

definition REDACTED :: json where
  "REDACTED = JStr ''[REDACTED]''"

definition ascii_lower :: "char \<Rightarrow> char" where
  "ascii_lower c = (let n = of_char c :: nat in if n \<in> {65..90} then char_of (n + 32) else c)"

fun contains :: "string \<Rightarrow> string \<Rightarrow> bool" where
  "contains p [] = (p = [])"
| "contains p (c # cs) = (take (length p) (c # cs) = p \<or> contains p cs)"

text \<open>The words of \<^verbatim>\<open>SENSITIVE_KEY_PATTERN\<close>; a word with an optional separator stands there in its three forms.\<close>

definition optional_separator :: "string \<Rightarrow> string \<Rightarrow> string list" where
  "optional_separator a b = [a @ b, a @ ''_'' @ b, a @ ''-'' @ b]"

definition sensitive_words :: "string list" where
  "sensitive_words =
     [''secret'', ''token'', ''password'', ''passwd''] @ optional_separator ''api'' ''key'' @ [''authorization''] @
     optional_separator ''access'' ''token'' @ optional_separator ''refresh'' ''token'' @ optional_separator ''private'' ''key'' @
     [''credential'', ''ssn''] @ optional_separator ''card'' ''number'' @ [''cvv'', ''pin'']"

definition sensitive_key :: "string \<Rightarrow> bool" where
  "sensitive_key key = list_ex (\<lambda>w. contains w (map ascii_lower key)) sensitive_words"

definition is_alpha :: "char \<Rightarrow> bool" where
  "is_alpha c \<longleftrightarrow> (of_char c :: nat) \<in> {65..90} \<union> {97..122}"

definition segment_char :: "char \<Rightarrow> bool" where
  "segment_char c \<longleftrightarrow> is_alpha c \<or> is_digit c \<or> c \<in> set ''_-''"

definition token_char :: "char \<Rightarrow> bool" where
  "token_char c \<longleftrightarrow> is_alpha c \<or> is_digit c \<or> c \<in> set ''._-+/=''"

text \<open>Segments of at least eight characters joined by dots: the dot is not a character of a segment.\<close>

fun segments :: "nat \<Rightarrow> string \<Rightarrow> bool" where
  "segments 0 s \<longleftrightarrow> False"
| "segments (Suc n) s \<longleftrightarrow>
     (let seg = takeWhile segment_char s; rest = dropWhile segment_char s in
      8 \<le> length seg \<and> (if n = 0 then rest = [] else rest \<noteq> [] \<and> hd rest = CHR ''.'' \<and> segments n (tl rest)))"

definition looksSensitiveValue :: "string \<Rightarrow> bool" where
  "looksSensitiveValue v \<longleftrightarrow> (40 \<le> length v \<and> list_all token_char v) \<or> segments 3 v"

definition redactValue :: "json \<Rightarrow> DataClassification \<Rightarrow> json" where
  "redactValue v classification = (if classification = Cls_secret \<or> classification = Cls_confidential then REDACTED else v)"

text \<open>
  The entries are assigned to a fresh object: a property named \<^verbatim>\<open>__proto__\<close> sets the prototype and
  leaves no entry. Arrays are copied as they are.
\<close>

fun redactRecord :: "(string \<times> json) list \<Rightarrow> (string \<times> json) list"
  and redact_entry :: "string \<Rightarrow> json \<Rightarrow> json" where
  "redactRecord [] = []"
| "redactRecord ((k, v) # r) = (if k = ''__proto__'' then redactRecord r else (k, redact_entry k v) # redactRecord r)"
| "redact_entry k v =
     (if sensitive_key k then REDACTED
      else
        (case v of
           JStr s \<Rightarrow> if looksSensitiveValue s then REDACTED else v
         | JObj kvs \<Rightarrow> JObj (redactRecord kvs)
         | _ \<Rightarrow> v))"

definition redactForObservability :: "(string \<times> json) list \<Rightarrow> (string \<times> json) list" where
  "redactForObservability record = redactRecord record"

section \<open>checkpoint.ts\<close>

record CheckpointState =
  cs_progress :: "(string \<times> json) list"
  cs_classification :: DataClassification

record Checkpoint =
  ck_checkpointId :: string
  ck_permitId :: string
  ck_tenantId :: string
  ck_workspaceId :: string
  ck_actorId :: string
  ck_capability :: string
  ck_createdAt :: string
  ck_state :: CheckpointState

type_synonym checkpoint_store = "string \<rightharpoonup> Checkpoint"

definition checkpoint_save :: "Checkpoint \<Rightarrow> checkpoint_store \<Rightarrow> checkpoint_store" where
  "checkpoint_save c s = s(ck_checkpointId c \<mapsto> c)"

definition checkpoint_load :: "string \<Rightarrow> checkpoint_store \<Rightarrow> Checkpoint option" where
  "checkpoint_load checkpointId s = s checkpointId"

definition buildCheckpoint :: "string \<Rightarrow> RuntimeExecutionContext \<Rightarrow> CheckpointState \<Rightarrow> string \<Rightarrow> Checkpoint" where
  "buildCheckpoint checkpointId context st createdAt =
     \<lparr> ck_checkpointId = checkpointId, ck_permitId = rx_permitId context, ck_tenantId = rx_tenantId context,
       ck_workspaceId = rx_workspaceId context, ck_actorId = rx_actorId context, ck_capability = rx_capability context,
       ck_createdAt = createdAt,
       ck_state = \<lparr> cs_progress = redactRecord (cs_progress st), cs_classification = cs_classification st \<rparr> \<rparr>"

record CheckpointRestoreRequest =
  crr_checkpointId :: string
  crr_authorization :: ref
  crr_permit :: "SignedExecutionPermit option"
  crr_nowIso :: string

datatype CheckpointRestoreResult = Restored Checkpoint | Not_restored string string

text \<open>As in the engine, the authorizations map the objects the final gate minted to their permit and request.\<close>

definition restoreCheckpoint ::
  "checkpoint_store \<Rightarrow> (ref \<rightharpoonup> string \<times> string) \<Rightarrow> CheckpointRestoreRequest \<Rightarrow> CheckpointRestoreResult" where
  "restoreCheckpoint store authorizations req =
     (case checkpoint_load (crr_checkpointId req) store of
        None \<Rightarrow> Not_restored ''checkpoint_not_found'' ''Checkpoint does not exist.''
      | Some checkpoint \<Rightarrow>
     (case authorizations (crr_authorization req) of
        None \<Rightarrow> Not_restored ''checkpoint_authorization_invalid'' ''Restore requires a valid execution authorization.''
      | Some (permitId, requestId) \<Rightarrow>
     (case crr_permit req of
        None \<Rightarrow> Not_restored ''checkpoint_permit_missing'' ''Restore requires a signed permit.''
      | Some permit \<Rightarrow>
          (let claims = sp_claims permit in
           if permitId \<noteq> cl_permitId claims then
             Not_restored ''checkpoint_authorization_mismatch'' ''Authorization does not match the restore permit.''
           else if \<not> isFuture (cl_expiresAt claims) (crr_nowIso req) then
             Not_restored ''checkpoint_permit_expired'' ''Restore permit is expired.''
           else if cl_tenantId claims \<noteq> ck_tenantId checkpoint \<or> cl_workspaceId claims \<noteq> ck_workspaceId checkpoint then
             Not_restored ''checkpoint_tenant_mismatch'' ''Restore context does not match the checkpoint tenant/workspace.''
           else Restored checkpoint))))"

section \<open>Redaction\<close>

text \<open>What a redacted record promises, down through nested objects: no sensitive key and no string like a token keeps its value.\<close>

fun clean :: "(string \<times> json) list \<Rightarrow> bool" and clean_entry :: "string \<Rightarrow> json \<Rightarrow> bool" where
  "clean [] = True"
| "clean ((k, v) # r) = (clean_entry k v \<and> clean r)"
| "clean_entry k v =
     (v = REDACTED \<or> (\<not> sensitive_key k \<and>
        (case v of JStr s \<Rightarrow> \<not> looksSensitiveValue s | JObj kvs \<Rightarrow> clean kvs | _ \<Rightarrow> True)))"

lemma redaction_clean: "clean (redactRecord kvs)" "clean_entry k (redact_entry k v)"
  by (induction kvs and k v rule: redactRecord_redact_entry.induct) (auto split: json.splits simp: REDACTED_def)

text \<open>Redacting twice is redacting once, and no key but \<^verbatim>\<open>__proto__\<close> is lost.\<close>

lemma redaction_text: "\<not> looksSensitiveValue ''[REDACTED]''"
  by code_simp

lemma redaction_idem: "redactRecord (redactRecord kvs) = redactRecord kvs" "redact_entry k (redact_entry k v) = redact_entry k v"
  by (induction kvs and k v rule: redactRecord_redact_entry.induct) (auto split: json.splits simp: REDACTED_def redaction_text)

lemma redaction_keys: "map fst (redactRecord kvs) = filter (\<lambda>k. k \<noteq> ''__proto__'') (map fst kvs)"
  by (induction kvs rule: list.induct) auto

text \<open>Arrays are not searched: a password in an object in an array passes.\<close>

lemma arrays_not_redacted: "redactRecord [(''users'', JArr [JObj [(''password'', v)]])] = [(''users'', JArr [JObj [(''password'', v)]])]"
  by code_simp

section \<open>Restoring\<close>

lemma checkpoint_restored_iff:
  "restoreCheckpoint store authorizations req = Restored c \<longleftrightarrow>
     store (crr_checkpointId req) = Some c \<and>
     (\<exists>permit requestId. crr_permit req = Some permit \<and> authorizations (crr_authorization req) = Some (cl_permitId (sp_claims permit), requestId) \<and>
        isFuture (cl_expiresAt (sp_claims permit)) (crr_nowIso req) \<and>
        cl_tenantId (sp_claims permit) = ck_tenantId c \<and> cl_workspaceId (sp_claims permit) = ck_workspaceId c)"
  by (auto simp: restoreCheckpoint_def checkpoint_load_def Let_def split: option.splits)

text \<open>What is restored from a store of built checkpoints is redacted.\<close>

lemma restored_is_clean:
  assumes "\<And>c. c \<in> ran store \<Longrightarrow> \<exists>i ctx st t. c = buildCheckpoint i ctx st t" and "restoreCheckpoint store authorizations req = Restored c"
  shows "clean (cs_progress (ck_state c))"
proof -
  have "c \<in> ran store" using assms(2) by (auto simp: checkpoint_restored_iff ran_def)
  then show ?thesis using assms(1) redaction_clean(1) by (fastforce simp: buildCheckpoint_def)
qed

text \<open>
  The signature of the permit is not checked here: with any authorization at all, a permit object that
  repeats its permit id and names the tenant and workspace of the checkpoint restores it.
\<close>

lemma restore_accepts_forged_claims:
  assumes "store (crr_checkpointId req) = Some c" "authorizations (crr_authorization req) = Some (permitId, requestId)"
    "isFuture later (crr_nowIso req)"
  shows "restoreCheckpoint store authorizations
    (req\<lparr> crr_permit := Some (permit\<lparr> sp_claims := (sp_claims permit)\<lparr> cl_permitId := permitId, cl_expiresAt := later,
       cl_tenantId := ck_tenantId c, cl_workspaceId := ck_workspaceId c \<rparr> \<rparr>) \<rparr>) = Restored c"
  using assms by (simp add: checkpoint_restored_iff)

end
