(* ===== verification/Boot_Order.thy ===== *)
theory Boot_Order
  imports Topological_Sort
begin

text \<open>
  \<^verbatim>\<open>kernel/src/module.ts\<close> (metadata), \<^verbatim>\<open>kernel/src/registry.ts\<close> and \<^verbatim>\<open>kernel/src/dependency-graph.ts\<close>.
  The boot order is Kahn's algorithm: in-degrees, a list of ready modules kept sorted by kind and id,
  and a loop that takes the first ready module and relaxes its dependents. \<^verbatim>\<open>localeCompare\<close> depends on
  the locale of the host and is a parameter; nothing below assumes more of it than its type. Shown:
  the loop ends; an order it gives is a permutation of the modules in which every module follows all
  its dependencies; a cycle it reports is one, so it succeeds exactly on the acyclic graphs without
  unknown dependencies.
\<close>

section \<open>module.ts\<close>

datatype ModuleKind =
  Kind_configuration | Kind_observability | Kind_event_bus | Kind_identity | Kind_policy | Kind_approval | Kind_audit
  | Kind_pipeline | Kind_runtime | Kind_model_gateway | Kind_connector | Kind_memory | Kind_executor
  | Kind_digital_workforce | Kind_ai | Kind_application | Kind_generic

definition KIND_BOOT_PRIORITY :: "ModuleKind \<Rightarrow> int" where
  "KIND_BOOT_PRIORITY k =
     (case k of Kind_configuration \<Rightarrow> 0 | Kind_observability \<Rightarrow> 1 | Kind_event_bus \<Rightarrow> 2 | Kind_identity \<Rightarrow> 3
      | Kind_policy \<Rightarrow> 4 | Kind_approval \<Rightarrow> 5 | Kind_audit \<Rightarrow> 6 | Kind_pipeline \<Rightarrow> 7 | Kind_runtime \<Rightarrow> 8
      | Kind_model_gateway \<Rightarrow> 9 | Kind_connector \<Rightarrow> 10 | Kind_memory \<Rightarrow> 11 | Kind_executor \<Rightarrow> 12
      | Kind_digital_workforce \<Rightarrow> 13 | Kind_ai \<Rightarrow> 14 | Kind_application \<Rightarrow> 15 | Kind_generic \<Rightarrow> 16)"

record ModuleMetadata =
  mm_id :: string
  mm_name :: string
  mm_version :: string
  mm_kind :: ModuleKind
  mm_provides :: "string list"
  mm_dependsOn :: "string list"
  mm_description :: "string option"

section \<open>dependency-graph.ts\<close>

datatype DependencyResolution =
  Boot_ok "string list" | Boot_cycle string "string list" | Boot_missing string "string list"

definition byId :: "ModuleMetadata list \<Rightarrow> string \<Rightarrow> ModuleMetadata option" where
  "byId ms i = map_of (rev (map (\<lambda>m. (mm_id m, m)) ms)) i"

definition missing_dependencies :: "ModuleMetadata list \<Rightarrow> string list" where
  "missing_dependencies ms = concat (map (\<lambda>m. filter (\<lambda>d. byId ms d = None) (mm_dependsOn m)) ms)"

definition inDegree :: "ModuleMetadata list \<Rightarrow> string \<Rightarrow> int" where
  "inDegree ms i = (case byId ms i of Some m \<Rightarrow> int (length (mm_dependsOn m)) | None \<Rightarrow> 0)"

definition dependents :: "ModuleMetadata list \<Rightarrow> string \<Rightarrow> string list" where
  "dependents ms i = concat (map (\<lambda>m. map (\<lambda>d. mm_id m) (filter (\<lambda>d. d = i) (mm_dependsOn m))) ms)"

definition bootRank :: "ModuleMetadata option \<Rightarrow> int" where
  "bootRank v = (case v of None \<Rightarrow> KIND_BOOT_PRIORITY Kind_generic | Some m \<Rightarrow> KIND_BOOT_PRIORITY (mm_kind m))"

definition ready_compare :: "(string \<Rightarrow> string \<Rightarrow> int) \<Rightarrow> ModuleMetadata list \<Rightarrow> string \<Rightarrow> string \<Rightarrow> int" where
  "ready_compare localeCompare ms a b =
     (let d = bootRank (byId ms a) - bootRank (byId ms b) in if d \<noteq> 0 then d else localeCompare a b)"

text \<open>The graph of the modules, as the shared theory of the two topological sorts sees it.\<close>

definition graph_of :: "ModuleMetadata list \<Rightarrow> graph" where
  "graph_of ms = map (\<lambda>m. (mm_id m, mm_dependsOn m)) ms"

definition ids :: "ModuleMetadata list \<Rightarrow> string set" where
  "ids ms = mm_id ` set ms"

lemma dependents_graph: "dependents ms i = dependents_of (graph_of ms) i"
  by (simp add: dependents_def dependents_of_def graph_of_def comp_def)

lemma graph_ids: "node_ids (graph_of ms) = ids ms"
  by (simp add: node_ids_def graph_of_def ids_def image_image)

lemma dependents_ids: "set (dependents ms i) \<subseteq> ids ms"
  using dependents_of_ids by (simp add: dependents_graph graph_ids [symmetric])

lemma ids_finite [simp]: "finite (ids ms)"
  by (simp add: ids_def)

function boot_loop ::
  "(string \<Rightarrow> string \<Rightarrow> int) \<Rightarrow> ModuleMetadata list \<Rightarrow> (string \<Rightarrow> int) \<Rightarrow> string list \<Rightarrow> string list \<Rightarrow> string list" where
  "boot_loop cmp ms deg [] order = order"
| "boot_loop cmp ms deg (next # ready) order =
     (let (deg', ready') = relax (dependents ms next) deg ready in
      boot_loop cmp ms deg' (js_sort cmp ready') (order @ [next]))"
  by pat_completeness auto
termination
proof (relation "measure (\<lambda>(cmp, ms, deg, ready, order). length ready + card (waiting (ids ms) deg))")
  fix cmp ms deg "next" ready order x deg' ready'
  assume "x = relax (dependents ms next) deg ready" "(deg', ready') = x"
  then have "length ready' + card (waiting (ids ms) deg') \<le> length ready + card (waiting (ids ms) deg)"
    using relax_measure [OF ids_finite dependents_ids, of ms "next" deg ready deg' ready'] by simp
  then show "((cmp, ms, deg', js_sort cmp ready', order @ [next]), cmp, ms, deg, next # ready, order)
      \<in> measure (\<lambda>(cmp, ms, deg, ready, order). length ready + card (waiting (ids ms) deg))"
    by simp
qed simp

definition resolveBootOrder :: "(string \<Rightarrow> string \<Rightarrow> int) \<Rightarrow> ModuleMetadata list \<Rightarrow> DependencyResolution" where
  "resolveBootOrder localeCompare ms =
     (let missing = missing_dependencies ms in
      if missing \<noteq> [] then
        Boot_missing (''Unknown dependencies: '' @ join_ids (js_unique [] missing) @ ''.'') (js_unique [] missing)
      else
        (let cmp = ready_compare localeCompare ms; deg = inDegree ms;
             ready = map mm_id (filter (\<lambda>m. deg (mm_id m) = 0) ms);
             order = boot_loop cmp ms deg (js_sort cmp ready) []
         in if length order \<noteq> length ms then
              (let cycle = filter (\<lambda>i. i \<notin> set order) (map mm_id ms) in
               Boot_cycle (''Dependency cycle detected among: '' @ join_ids cycle @ ''.'') cycle)
            else Boot_ok order))"

definition resolveShutdownOrder :: "ModuleMetadata list \<Rightarrow> string list \<Rightarrow> string list" where
  "resolveShutdownOrder ms bootOrder =
     (let reversed = rev bootOrder; audit = (\<lambda>i. map_option mm_kind (byId ms i) = Some Kind_audit) in
      filter (\<lambda>i. \<not> audit i) reversed @ filter audit reversed)"

section \<open>The graph\<close>

text \<open>What the registry guarantees: no id twice. Then a lookup finds the module itself.\<close>

definition unique_ids :: "ModuleMetadata list \<Rightarrow> bool" where
  "unique_ids ms \<longleftrightarrow> distinct (map mm_id ms)"

lemma byId_Some:
  assumes "unique_ids ms" "m \<in> set ms"
  shows "byId ms (mm_id m) = Some m"
proof -
  have "map fst (rev (map (\<lambda>m. (mm_id m, m)) ms)) = rev (map mm_id ms)" by (simp add: rev_map comp_def)
  then have "distinct (map fst (rev (map (\<lambda>m. (mm_id m, m)) ms)))" using assms(1) by (simp only: distinct_rev unique_ids_def)
  then show ?thesis using assms(2) by (auto simp: byId_def intro!: map_of_is_SomeI)
qed

lemma byId_None: "byId ms i = None \<longleftrightarrow> i \<notin> ids ms"
  by (simp add: byId_def ids_def map_of_eq_None_iff image_image)

lemma missing_Nil: "missing_dependencies ms = [] \<longleftrightarrow> (\<forall>m \<in> set ms. set (mm_dependsOn m) \<subseteq> ids ms)"
  by (auto simp: missing_dependencies_def byId_None filter_empty_conv)

definition topological :: "ModuleMetadata list \<Rightarrow> string list \<Rightarrow> bool" where
  "topological ms order \<longleftrightarrow>
     (\<forall>xs i ys. order = xs @ i # ys \<longrightarrow> (\<forall>m \<in> set ms. mm_id m = i \<longrightarrow> set (mm_dependsOn m) \<subseteq> set xs))"

lemma topological_graph: "topological ms order \<longleftrightarrow> topological_order (graph_of ms) order"
  by (auto simp: topological_def topological_order_def graph_of_def)

lemma unique_graph: "unique_nodes (graph_of ms) \<longleftrightarrow> unique_ids ms"
  by (simp add: unique_nodes_def unique_ids_def graph_of_def comp_def)

interpretation boot_sort: kahn "graph_of ms" "boot_loop cmp ms" for ms cmp
proof
  fix n deg ready deg' ready' order assume "relax (dependents_of (graph_of ms) n) deg ready = (deg', ready')"
  then show "\<exists>ready''. mset ready'' = mset ready' \<and> boot_loop cmp ms deg (n # ready) order = boot_loop cmp ms deg' ready'' (order @ [n])"
    by (intro exI [of _ "js_sort cmp ready'"]) (simp add: dependents_graph)
qed simp

text \<open>What the shared theory says of the loop of \<^verbatim>\<open>resolveBootOrder\<close>.\<close>

lemma boot_in_degrees: "unique_ids ms \<Longrightarrow> in_degrees (graph_of ms) (inDegree ms)"
  using byId_Some by (auto simp: in_degrees_def graph_of_def inDegree_def)

lemma boot_ready:
  "mset (js_sort cmp (map mm_id (filter (\<lambda>m. deg (mm_id m) = 0) ms))) = mset (map fst (filter (\<lambda>n. deg (fst n) = 0) (graph_of ms)))"
  by (simp add: graph_of_def filter_map comp_def)

lemma boot_deps: "missing_dependencies ms = [] \<Longrightarrow> closed_graph (graph_of ms)"
  unfolding closed_graph_def graph_ids by (auto simp: graph_of_def missing_Nil)

lemma boot_length: "length (graph_of ms) = length ms"
  by (simp add: graph_of_def)

lemma boot_result:
  fixes cmp :: "string \<Rightarrow> string \<Rightarrow> int"
  assumes "unique_ids ms" "missing_dependencies ms = []"
  defines "order \<equiv> boot_loop cmp ms (inDegree ms) (js_sort cmp (map mm_id (filter (\<lambda>m. inDegree ms (mm_id m) = 0) ms))) []"
  shows "distinct order" "set order \<subseteq> ids ms" "topological ms order"
    "length order = length ms \<longleftrightarrow> set order = ids ms"
    "\<And>m. m \<in> set ms \<Longrightarrow> mm_id m \<notin> set order \<Longrightarrow> \<exists>d \<in> set (mm_dependsOn m). d \<in> ids ms - set order"
    "length order \<noteq> length ms \<Longrightarrow> set ord = ids ms \<Longrightarrow> \<not> topological ms ord"
proof -
  note r = boot_sort.loop_result [where cmp = cmp, OF iffD2 [OF unique_graph assms(1)] boot_in_degrees [OF assms(1)]
      boot_ready [where cmp = cmp] boot_deps [OF assms(2)], unfolded graph_ids boot_length topological_graph [symmetric], folded order_def]
  show "distinct order" "set order \<subseteq> ids ms" "topological ms order"
    "length order = length ms \<longleftrightarrow> set order = ids ms"
    "length order \<noteq> length ms \<Longrightarrow> set ord = ids ms \<Longrightarrow> \<not> topological ms ord"
    using r(1-4) r(6) by blast+
  show "\<exists>d \<in> set (mm_dependsOn m). d \<in> ids ms - set order" if "m \<in> set ms" "mm_id m \<notin> set order" for m
    using r(5) [of "mm_id m" "mm_dependsOn m"] that by (auto simp: graph_of_def)
qed

lemma boot_final:
  assumes "missing_dependencies ms = []"
  defines "cmp \<equiv> \<lambda>lc. ready_compare lc ms"
  shows "resolveBootOrder lc ms =
     (let order = boot_loop (cmp lc) ms (inDegree ms) (js_sort (cmp lc) (map mm_id (filter (\<lambda>m. inDegree ms (mm_id m) = 0) ms))) [] in
      if length order \<noteq> length ms
      then Boot_cycle (''Dependency cycle detected among: '' @ join_ids (filter (\<lambda>i. i \<notin> set order) (map mm_id ms)) @ ''.'')
             (filter (\<lambda>i. i \<notin> set order) (map mm_id ms))
      else Boot_ok order)"
  unfolding resolveBootOrder_def Let_def assms by (simp only: simp_thms if_False)

lemma boot_order_facts:
  assumes "unique_ids ms" "resolveBootOrder lc ms = Boot_ok order"
  shows "distinct order \<and> set order = ids ms \<and> topological ms order"
proof -
  have m: "missing_dependencies ms = []" using assms(2) by (auto simp: resolveBootOrder_def Let_def split: if_splits)
  show ?thesis using assms(2) boot_result [OF assms(1) m, where cmp = "ready_compare lc ms"]
    unfolding boot_final [OF m] Let_def by (auto split: if_splits)
qed

section \<open>Correctness\<close>

text \<open>
  C5. \<^verbatim>\<open>resolveBootOrder\<close> on modules with distinct ids, whatever the locale: an order it returns has
  every module once, each after all its dependencies; the missing dependencies it reports are exactly
  the ids that are depended on and not registered; the cycle it reports is a non-empty set of modules
  each of which depends on another member, so it holds a cycle; and it returns an order exactly when
  one exists.
\<close>

theorem boot_order_correct:
  assumes "unique_ids ms"
  shows "(case resolveBootOrder localeCompare ms of
       Boot_ok order \<Rightarrow> distinct order \<and> set order = ids ms \<and> topological ms order
     | Boot_missing detail missing \<Rightarrow>
         missing \<noteq> [] \<and> set missing = {d. \<exists>m \<in> set ms. d \<in> set (mm_dependsOn m) \<and> d \<notin> ids ms}
     | Boot_cycle detail cycle \<Rightarrow>
         cycle \<noteq> [] \<and> set cycle \<subseteq> ids ms \<and>
         (\<forall>m \<in> set ms. mm_id m \<in> set cycle \<longrightarrow> (\<exists>d \<in> set (mm_dependsOn m). d \<in> set cycle))) \<and>
     ((\<exists>order. resolveBootOrder localeCompare ms = Boot_ok order) \<longleftrightarrow> (\<exists>order. set order = ids ms \<and> topological ms order))"
proof (cases "missing_dependencies ms = []")
  case False
  then obtain m d where d: "m \<in> set ms" "d \<in> set (mm_dependsOn m)" "d \<notin> ids ms" by (auto simp: missing_Nil)
  have "\<not> topological ms order" if "set order = ids ms" for order
  proof
    assume t: "topological ms order"
    have "mm_id m \<in> set order" using that d(1) by (auto simp: ids_def)
    then obtain xs ys where "order = xs @ mm_id m # ys" by (auto simp: in_set_conv_decomp)
    then show False using t d that unfolding topological_def by (metis Un_iff set_append subsetD)
  qed
  moreover have "set (js_unique [] (missing_dependencies ms)) = {d. \<exists>m \<in> set ms. d \<in> set (mm_dependsOn m) \<and> d \<notin> ids ms}"
    by (auto simp: js_unique_set missing_dependencies_def byId_None)
  moreover from this have "js_unique [] (missing_dependencies ms) \<noteq> []" using d by auto
  ultimately show ?thesis using False by (simp add: resolveBootOrder_def Let_def)
next
  case True
  let ?o = "boot_loop (ready_compare localeCompare ms) ms (inDegree ms)
    (js_sort (ready_compare localeCompare ms) (map mm_id (filter (\<lambda>m. inDegree ms (mm_id m) = 0) ms))) []"
  let ?C = "filter (\<lambda>i. i \<notin> set ?o) (map mm_id ms)"
  note o = boot_result [OF assms True, where cmp = "ready_compare localeCompare ms"]
  have stuck: "\<exists>d \<in> set (mm_dependsOn m). d \<in> ids ms - set ?o" if "m \<in> set ms" "mm_id m \<notin> set ?o" for m
    using o(5) that by blast
  have C: "set ?C = ids ms - set ?o" by (auto simp: ids_def)
  show ?thesis
  proof (cases "length ?o = length ms")
    case full: True
    then have "resolveBootOrder localeCompare ms = Boot_ok ?o" by (simp add: boot_final [OF True] Let_def)
    then show ?thesis using o(1,3,4) full by auto
  next
    case False
    then have r: "resolveBootOrder localeCompare ms = Boot_cycle (''Dependency cycle detected among: '' @ join_ids ?C @ ''.'') ?C"
      by (simp only: boot_final [OF True] Let_def simp_thms if_True)
    have "set ?C \<noteq> {}" using o(2,4) False unfolding C by blast
    then have "?C \<noteq> []" by (metis set_empty)
    then show ?thesis using stuck o(6) [OF False] unfolding r DependencyResolution.case C by (auto simp: ids_def)
  qed
qed

definition demo_modules :: "ModuleMetadata list" where
  "demo_modules =
     [\<lparr> mm_id = ''runtime'', mm_name = ''r'', mm_version = ''1'', mm_kind = Kind_runtime, mm_provides = [],
        mm_dependsOn = [''audit''], mm_description = None \<rparr>,
      \<lparr> mm_id = ''audit'', mm_name = ''a'', mm_version = ''1'', mm_kind = Kind_audit, mm_provides = [],
        mm_dependsOn = [], mm_description = None \<rparr>]"

theorem boot_order_correct_witness:
  "\<exists>order. set order = ids demo_modules \<and> topological demo_modules order \<and>
     resolveBootOrder (\<lambda>a b. 0) demo_modules = Boot_ok order"
proof -
  have u: "unique_ids demo_modules" by (simp add: unique_ids_def demo_modules_def)
  have "resolveBootOrder (\<lambda>a b. 0) demo_modules = Boot_ok [''audit'', ''runtime'']" by code_simp
  then show ?thesis using boot_order_correct [OF u, of "\<lambda>a b. 0"] by auto
qed

text \<open>
  The shutdown order is a permutation of the boot order with the audit modules last; apart from
  them it stops every module before anything that module depends on.
\<close>

lemma shutdown_order_correct:
  assumes "unique_ids ms" "resolveBootOrder localeCompare ms = Boot_ok order"
  shows "let down = resolveShutdownOrder ms order; audit = (\<lambda>i. \<exists>m \<in> set ms. mm_id m = i \<and> mm_kind m = Kind_audit) in
     distinct down \<and> set down = ids ms \<and>
     (\<exists>rest last. down = rest @ last \<and> (\<forall>i \<in> set last. audit i) \<and> (\<forall>i \<in> set rest. \<not> audit i)) \<and>
     (\<forall>m \<in> set ms. \<forall>d \<in> set (mm_dependsOn m). \<not> audit (mm_id m) \<longrightarrow> (\<exists>xs ys. down = xs @ ys \<and> mm_id m \<in> set xs \<and> d \<in> set ys))"
proof -
  have o: "distinct order" "set order = ids ms" "topological ms order"
    using boot_order_facts [OF assms] by blast+
  let ?a = "\<lambda>i. \<exists>m \<in> set ms. mm_id m = i \<and> mm_kind m = Kind_audit"
  have a: "map_option mm_kind (byId ms i) = Some Kind_audit \<longleftrightarrow> ?a i" for i
    using byId_Some [OF assms(1)] byId_None [of ms i] by (cases "byId ms i") (force simp: ids_def)+
  let ?rest = "filter (\<lambda>i. \<not> ?a i) (rev order)" and ?last = "filter ?a (rev order)"
  have down: "resolveShutdownOrder ms order = ?rest @ ?last" by (simp only: resolveShutdownOrder_def Let_def a)
  have dep: "\<exists>xs ys. ?rest @ ?last = xs @ ys \<and> mm_id m \<in> set xs \<and> d \<in> set ys"
    if m: "m \<in> set ms" "d \<in> set (mm_dependsOn m)" "\<not> ?a (mm_id m)" for m d
  proof -
    have "mm_id m \<in> set order" using m(1) o(2) by (auto simp: ids_def)
    then obtain xs ys where x: "order = xs @ mm_id m # ys" by (auto simp: in_set_conv_decomp)
    then have "d \<in> set xs" using o(3) m(1,2) unfolding topological_def by blast
    then show ?thesis using m(3) x
      by (cases "?a d")
        (rule exI [of _ ?rest], rule exI [of _ ?last], force,
         rule exI [of _ "filter (\<lambda>i. \<not> ?a i) (rev ys @ [mm_id m])"],
         rule exI [of _ "filter (\<lambda>i. \<not> ?a i) (rev xs) @ ?last"], force)
  qed
  have "distinct (?rest @ ?last)" "set (?rest @ ?last) = ids ms" using o(1,2) by auto
  moreover have "\<exists>rest last. ?rest @ ?last = rest @ last \<and> (\<forall>i \<in> set last. ?a i) \<and> (\<forall>i \<in> set rest. \<not> ?a i)"
    by (rule exI [of _ ?rest], rule exI [of _ ?last]) simp
  ultimately show ?thesis unfolding Let_def down using dep by blast
qed

end
