(* ===== verification/Kernel.thy ===== *)
theory Kernel
  imports Boot_Order
begin

text \<open>
  \<^verbatim>\<open>kernel/src/kernel.ts\<close> with \<^verbatim>\<open>registry.ts\<close>, \<^verbatim>\<open>crash-recovery.ts\<close> and \<^verbatim>\<open>health.ts\<close>. The code of the
  modules is the record \<open>hooks\<close>: what each of their methods does to the rest of the world and whether
  it throws. The kernel keeps the list of the calls it made, in order; events are published to a bus
  that never affects the kernel and are not modelled. Calls do not overlap.

  Shown: modules are initialised only after everything they depend on has started; a boot ends with
  every module ready or with everything that was started shut down again, except when \<^verbatim>\<open>attach\<close>
  throws; a module is restarted at most as often as its policy allows.
\<close>

section \<open>health.ts, crash-recovery.ts\<close>

datatype HealthStatus = UNKNOWN | INITIALIZING | READY | DEGRADED | FAILED_health | STOPPED

definition aggregateHealth :: "HealthStatus list \<Rightarrow> HealthStatus" where
  "aggregateHealth reports =
     (if reports = [] then UNKNOWN
      else if FAILED_health \<in> set reports then FAILED_health
      else if DEGRADED \<in> set reports then DEGRADED
      else if (\<forall>r \<in> set reports. r = STOPPED) then STOPPED
      else if INITIALIZING \<in> set reports \<or> UNKNOWN \<in> set reports then INITIALIZING
      else READY)"

datatype RestartDecision = Restart | Leave_failed | Stop_kernel

record BoundedRestartPolicy =
  rp_maxRestarts :: nat
  rp_stopKernelOnExhaustion :: bool

definition newBoundedRestartPolicy :: "nat option \<Rightarrow> bool option \<Rightarrow> BoundedRestartPolicy" where
  "newBoundedRestartPolicy maxRestarts stop =
     \<lparr> rp_maxRestarts = (case maxRestarts of Some n \<Rightarrow> n | None \<Rightarrow> 1),
       rp_stopKernelOnExhaustion = (case stop of Some b \<Rightarrow> b | None \<Rightarrow> False) \<rparr>"

definition restart_decide :: "BoundedRestartPolicy \<Rightarrow> nat \<Rightarrow> RestartDecision" where
  "restart_decide p failureCount =
     (if failureCount \<le> rp_maxRestarts p then Restart
      else if rp_stopKernelOnExhaustion p then Stop_kernel else Leave_failed)"

section \<open>The kernel\<close>

datatype KernelState = Created | Booting | Running | Paused | Shutting_down | Stopped | Boot_failed

datatype hook = Attach | Initialize | Start | Healthy | Pause | Resume | Shutdown

text \<open>A hook of a module: the error it throws, if any, and the world after it.\<close>

record 'w hooks =
  hk_call :: "hook \<Rightarrow> string \<Rightarrow> 'w \<Rightarrow> string option \<times> 'w"
  hk_healthy :: "string \<Rightarrow> 'w \<Rightarrow> HealthStatus option \<times> 'w"

record KernelAuditRecord =
  ka_action :: string
  ka_moduleId :: "string option"
  ka_success :: bool
  ka_detail :: string

record 'w Kernel =
  k_registry :: "ModuleMetadata list"
  k_state :: KernelState
  k_bootOrder :: "string list"
  k_status :: "string \<rightharpoonup> HealthStatus"
  k_failureCounts :: "string \<Rightarrow> nat"
  k_audit :: "KernelAuditRecord list"
  k_calls :: "(hook \<times> string) list"
  k_world :: 'w

definition newKernel :: "'w \<Rightarrow> 'w Kernel" where
  "newKernel w =
     \<lparr> k_registry = [], k_state = Created, k_bootOrder = [], k_status = Map.empty, k_failureCounts = (\<lambda>_. 0), k_audit = [],
       k_calls = [], k_world = w \<rparr>"

definition registered_module :: "string \<Rightarrow> 'w Kernel \<Rightarrow> bool" where
  "registered_module i k \<longleftrightarrow> i \<in> mm_id ` set (k_registry k)"

definition register_module :: "ModuleMetadata \<Rightarrow> 'w Kernel \<Rightarrow> 'w Kernel result" where
  "register_module m k =
     (if k_state k \<noteq> Created then Inl (JsError ''Modules can only be registered before boot.'')
      else if registered_module (mm_id m) k then
        Inl (JsError (''Module '' @ [CHR 0x27] @ mm_id m @ [CHR 0x27] @ '' is already registered.''))
      else Inr (k\<lparr> k_registry := k_registry k @ [m], k_status := (k_status k)(mm_id m \<mapsto> UNKNOWN) \<rparr>))"

definition moduleHealth :: "string \<Rightarrow> 'w Kernel \<Rightarrow> HealthStatus" where
  "moduleHealth i k = (case k_status k i of Some s \<Rightarrow> s | None \<Rightarrow> UNKNOWN)"

definition call :: "'w hooks \<Rightarrow> hook \<Rightarrow> string \<Rightarrow> 'w Kernel \<Rightarrow> string option \<times> 'w Kernel" where
  "call H h i k =
     (let (e, w) = hk_call H h i (k_world k) in (e, k\<lparr> k_world := w, k_calls := k_calls k @ [(h, i)] \<rparr>))"

definition set_status :: "string \<Rightarrow> HealthStatus \<Rightarrow> 'w Kernel \<Rightarrow> 'w Kernel" where
  "set_status i s k = k\<lparr> k_status := (k_status k)(i \<mapsto> s) \<rparr>"

definition audit_entry :: "string \<Rightarrow> string option \<Rightarrow> bool \<Rightarrow> string \<Rightarrow> 'w Kernel \<Rightarrow> 'w Kernel" where
  "audit_entry action i ok detail k =
     k\<lparr> k_audit := k_audit k @ [\<lparr> ka_action = action, ka_moduleId = i, ka_success = ok, ka_detail = detail \<rparr>] \<rparr>"

text \<open>\<^verbatim>\<open>initialize\<close> then \<^verbatim>\<open>start\<close>, as boot and restart both do.\<close>

definition init_start :: "'w hooks \<Rightarrow> string \<Rightarrow> 'w Kernel \<Rightarrow> string option \<times> 'w Kernel" where
  "init_start H i k =
     (let (e, k1) = call H Initialize i k in case e of Some x \<Rightarrow> (Some x, k1) | None \<Rightarrow> call H Start i k1)"

definition unwind :: "'w hooks \<Rightarrow> string list \<Rightarrow> 'w Kernel \<Rightarrow> 'w Kernel" where
  "unwind H started k =
     fold (\<lambda>i k. set_status i STOPPED (if registered_module i k then snd (call H Shutdown i k) else k)) (rev started) k"

record BootResult =
  bt_ok :: bool
  bt_state :: KernelState
  bt_order :: "string list"
  bt_failedModule :: "string option"
  bt_reason :: "string option"

datatype boot_end = All_started | Attach_threw string | Start_failed string string

text \<open>The loop over the boot order, with the modules started so far.\<close>

fun boot_modules :: "'w hooks \<Rightarrow> string list \<Rightarrow> string list \<Rightarrow> 'w Kernel \<Rightarrow> boot_end \<times> string list \<times> 'w Kernel" where
  "boot_modules H [] started k = (All_started, started, k)"
| "boot_modules H (i # order) started k =
     (if \<not> registered_module i k then boot_modules H order started k
      else
        (let (a, k1) = call H Attach i k in
         case a of
           Some e \<Rightarrow> (Attach_threw e, started, k1)
         | None \<Rightarrow>
             (let (e, k2) = init_start H i (set_status i INITIALIZING k1) in
              case e of
                None \<Rightarrow> boot_modules H order (started @ [i]) (set_status i READY k2)
              | Some x \<Rightarrow> (Start_failed i x, started, k2))))"

definition boot :: "'w hooks \<Rightarrow> (string \<Rightarrow> string \<Rightarrow> int) \<Rightarrow> 'w Kernel \<Rightarrow> BootResult result \<times> 'w Kernel" where
  "boot H localeCompare k =
     (if k_state k \<noteq> Created then
        (Inr \<lparr> bt_ok = False, bt_state = k_state k, bt_order = [], bt_failedModule = None,
               bt_reason = Some ''Kernel already booted.'' \<rparr>, k)
      else
        (let k1 = k\<lparr> k_state := Booting \<rparr>;
             unresolved = (\<lambda>detail. (Inr \<lparr> bt_ok = False, bt_state = Boot_failed, bt_order = [], bt_failedModule = None,
                                           bt_reason = Some detail \<rparr>,
                                     audit_entry ''kernel.boot'' None False detail (k1\<lparr> k_state := Boot_failed \<rparr>)))
         in case resolveBootOrder localeCompare (k_registry k) of
              Boot_missing detail m \<Rightarrow> unresolved detail
            | Boot_cycle detail c \<Rightarrow> unresolved detail
            | Boot_ok order \<Rightarrow>
                (let (ending, started, k2) = boot_modules H order [] (k1\<lparr> k_bootOrder := order \<rparr>) in
                 case ending of
                   Attach_threw e \<Rightarrow> (Inl (JsError e), k2)
                 | Start_failed i e \<Rightarrow>
                     (let k3 = set_status i FAILED_health k2;
                          k4 = k3\<lparr> k_failureCounts := (k_failureCounts k3)(i := k_failureCounts k3 i + 1) \<rparr>;
                          k5 = unwind H started (audit_entry ''kernel.boot'' (Some i) False e k4)
                      in (Inr \<lparr> bt_ok = False, bt_state = Boot_failed, bt_order = order, bt_failedModule = Some i,
                                bt_reason = Some e \<rparr>, k5\<lparr> k_state := Boot_failed \<rparr>))
                 | All_started \<Rightarrow>
                     (Inr \<lparr> bt_ok = True, bt_state = Running, bt_order = order, bt_failedModule = None, bt_reason = None \<rparr>,
                      audit_entry ''kernel.boot'' None True (''Booted '' @ show_nat (length started) @ '' modules.'')
                        (k2\<lparr> k_state := Running \<rparr>)))))"

fun shutdown_modules :: "'w hooks \<Rightarrow> string list \<Rightarrow> 'w Kernel \<Rightarrow> 'w Kernel" where
  "shutdown_modules H [] k = k"
| "shutdown_modules H (i # order) k =
     (if \<not> registered_module i k \<or> k_status k i = Some STOPPED then shutdown_modules H order k
      else
        (let (e, k1) = call H Shutdown i k;
             k2 = (case e of None \<Rightarrow> k1 | Some x \<Rightarrow> audit_entry ''kernel.shutdown'' (Some i) False x k1)
         in shutdown_modules H order (set_status i STOPPED k2)))"

definition kernel_shutdown :: "'w hooks \<Rightarrow> 'w Kernel \<Rightarrow> (bool \<times> KernelState \<times> string list) \<times> 'w Kernel" where
  "kernel_shutdown H k =
     (if k_state k \<notin> {Running, Paused, Boot_failed} then ((False, k_state k, []), k)
      else
        (let order = resolveShutdownOrder (k_registry k) (k_bootOrder k);
             k1 = shutdown_modules H order (k\<lparr> k_state := Shutting_down \<rparr>);
             k2 = audit_entry ''kernel.shutdown'' None True ''Kernel stopped.'' k1
         in ((True, Stopped, order), k2\<lparr> k_state := Stopped \<rparr>)))"

text \<open>\<^verbatim>\<open>pause\<close> and \<^verbatim>\<open>resume\<close>: a module that throws makes the call reject there.\<close>

fun call_all :: "'w hooks \<Rightarrow> hook \<Rightarrow> string list \<Rightarrow> 'w Kernel \<Rightarrow> unit result \<times> 'w Kernel" where
  "call_all H h [] k = (Inr (), k)"
| "call_all H h (i # r) k =
     (if \<not> registered_module i k then call_all H h r k
      else (let (e, k1) = call H h i k in case e of Some x \<Rightarrow> (Inl (JsError x), k1) | None \<Rightarrow> call_all H h r k1))"

definition pause :: "'w hooks \<Rightarrow> 'w Kernel \<Rightarrow> unit result \<times> 'w Kernel" where
  "pause H k =
     (if k_state k \<noteq> Running then (Inr (), k)
      else (let (r, k1) = call_all H Pause (rev (k_bootOrder k)) k in
            case r of Inl e \<Rightarrow> (Inl e, k1) | Inr _ \<Rightarrow> (Inr (), k1\<lparr> k_state := Paused \<rparr>)))"

definition resume :: "'w hooks \<Rightarrow> 'w Kernel \<Rightarrow> unit result \<times> 'w Kernel" where
  "resume H k =
     (if k_state k \<noteq> Paused then (Inr (), k)
      else (let (r, k1) = call_all H Resume (k_bootOrder k) k in
            case r of Inl e \<Rightarrow> (Inl e, k1) | Inr _ \<Rightarrow> (Inr (), k1\<lparr> k_state := Running \<rparr>)))"

definition reportCrash :: "'w hooks \<Rightarrow> BoundedRestartPolicy \<Rightarrow> string \<Rightarrow> 'w Kernel \<Rightarrow> RestartDecision \<times> 'w Kernel" where
  "reportCrash H policy i k =
     (if \<not> registered_module i k then (Leave_failed, k)
      else
        (let n = k_failureCounts k i + 1;
             k1 = (set_status i FAILED_health k)\<lparr> k_failureCounts := (k_failureCounts k)(i := n) \<rparr>;
             decision = restart_decide policy n
         in case decision of
              Restart \<Rightarrow>
                (let (e, k2) = init_start H i k1 in
                 (Restart, set_status i (if e = None then READY else FAILED_health) k2))
            | Stop_kernel \<Rightarrow> (Stop_kernel, snd (kernel_shutdown H k1))
            | Leave_failed \<Rightarrow> (Leave_failed, k1)))"

text \<open>\<^verbatim>\<open>health\<close>: started modules are polled, one that throws counts as failed.\<close>

fun poll :: "'w hooks \<Rightarrow> string list \<Rightarrow> 'w Kernel \<Rightarrow> (string \<times> HealthStatus) list \<times> 'w Kernel" where
  "poll H [] k = ([], k)"
| "poll H (i # r) k =
     (if moduleHealth i k \<in> {READY, DEGRADED} then
        (let (h, w) = hk_healthy H i (k_world k);
             s = (case h of Some x \<Rightarrow> x | None \<Rightarrow> FAILED_health);
             (reports, k1) = poll H r (set_status i s (k\<lparr> k_world := w, k_calls := k_calls k @ [(Healthy, i)] \<rparr>))
         in ((i, s) # reports, k1))
      else (let (reports, k1) = poll H r k in ((i, moduleHealth i k) # reports, k1)))"

definition kernel_health :: "'w hooks \<Rightarrow> 'w Kernel \<Rightarrow> (HealthStatus \<times> (string \<times> HealthStatus) list) \<times> 'w Kernel" where
  "kernel_health H k =
     (let (reports, k1) = poll H (map mm_id (k_registry k)) k in ((aggregateHealth (map snd reports), reports), k1))"

section \<open>Registration\<close>

fun register_all :: "ModuleMetadata list \<Rightarrow> 'w Kernel \<Rightarrow> 'w Kernel result" where
  "register_all [] k = Inr k"
| "register_all (m # ms) k = (case register_module m k of Inl e \<Rightarrow> Inl e | Inr k1 \<Rightarrow> register_all ms k1)"

definition fresh_kernel :: "'w Kernel \<Rightarrow> bool" where
  "fresh_kernel k \<longleftrightarrow> unique_ids (k_registry k) \<and> k_state k = Created \<and> k_calls k = [] \<and> (\<forall>i. k_status k i \<noteq> Some READY)"

lemma register_all_fresh: "register_all ms k = Inr k' \<Longrightarrow> fresh_kernel k \<Longrightarrow> fresh_kernel k' \<and> k_registry k' = k_registry k @ ms"
proof (induction ms k rule: register_all.induct)
  case (2 m ms k)
  then obtain k1 where k1: "register_module m k = Inr k1" "register_all ms k1 = Inr k'" by (auto split: sum.splits)
  then have "k1 = k\<lparr> k_registry := k_registry k @ [m], k_status := (k_status k)(mm_id m \<mapsto> UNKNOWN) \<rparr>"
    "mm_id m \<notin> mm_id ` set (k_registry k)"
    by (auto simp: register_module_def registered_module_def split: if_splits)
  then have "fresh_kernel k1" "k_registry k1 = k_registry k @ [m]" using 2(3) by (auto simp: fresh_kernel_def unique_ids_def)
  then show ?case using 2(1) [OF k1] by simp
qed simp

section \<open>Boot\<close>

text \<open>Every module is initialised after all its dependencies have started.\<close>

definition ordered_calls :: "ModuleMetadata list \<Rightarrow> (hook \<times> string) list \<Rightarrow> bool" where
  "ordered_calls ms cs \<longleftrightarrow>
     (\<forall>xs m ys. m \<in> set ms \<longrightarrow> cs = xs @ (Initialize, mm_id m) # ys \<longrightarrow> (\<forall>d \<in> set (mm_dependsOn m). (Start, d) \<in> set xs))"

lemma ordered_calls_snoc:
  assumes "ordered_calls ms cs"
    "\<And>m d. h = Initialize \<Longrightarrow> m \<in> set ms \<Longrightarrow> mm_id m = i \<Longrightarrow> d \<in> set (mm_dependsOn m) \<Longrightarrow> (Start, d) \<in> set cs"
  shows "ordered_calls ms (cs @ [(h, i)])"
  unfolding ordered_calls_def
proof (intro allI impI)
  fix xs m ys assume m: "m \<in> set ms" "cs @ [(h, i)] = xs @ (Initialize, mm_id m) # ys"
  then consider "ys = []" "xs = cs" "h = Initialize" "i = mm_id m" | zs where "cs = xs @ (Initialize, mm_id m) # zs"
    by (cases ys rule: rev_cases) auto
  then show "\<forall>d \<in> set (mm_dependsOn m). (Start, d) \<in> set xs"
  proof cases
    case 1
    then show ?thesis using assms(2) m(1) by blast
  next
    case 2
    then show ?thesis using assms(1) m(1) unfolding ordered_calls_def by blast
  qed
qed

lemma ordered_calls_other: "ordered_calls ms cs \<Longrightarrow> h \<noteq> Initialize \<Longrightarrow> ordered_calls ms (cs @ [(h, i)])"
  by (rule ordered_calls_snoc) auto

lemma call_frame [simp]:
  "k_registry (snd (call H h i k)) = k_registry k" "k_status (snd (call H h i k)) = k_status k"
  "k_state (snd (call H h i k)) = k_state k" "k_calls (snd (call H h i k)) = k_calls k @ [(h, i)]"
  by (simp_all add: call_def case_prod_beta Let_def)

lemma set_status_frame [simp]:
  "k_registry (set_status i s k) = k_registry k" "k_calls (set_status i s k) = k_calls k"
  "k_state (set_status i s k) = k_state k" "k_status (set_status i s k) = (k_status k)(i \<mapsto> s)"
  by (simp_all add: set_status_def)

lemma audit_entry_frame [simp]:
  "k_registry (audit_entry a i ok d k) = k_registry k" "k_calls (audit_entry a i ok d k) = k_calls k"
  "k_state (audit_entry a i ok d k) = k_state k" "k_status (audit_entry a i ok d k) = k_status k"
  by (simp_all add: audit_entry_def)

lemma init_start_calls:
  assumes "init_start H i k = (e, k')"
  shows "k_registry k' = k_registry k \<and> k_status k' = k_status k \<and> k_state k' = k_state k \<and>
    (k_calls k' = k_calls k @ [(Initialize, i)] \<and> e \<noteq> None \<or> k_calls k' = k_calls k @ [(Initialize, i), (Start, i)])"
proof -
  obtain e1 k1 where c: "call H Initialize i k = (e1, k1)" by fastforce
  have f: "k_registry k1 = k_registry k" "k_status k1 = k_status k" "k_state k1 = k_state k" "k_calls k1 = k_calls k @ [(Initialize, i)]"
    using call_frame [of H Initialize i k] c by simp_all
  show ?thesis
  proof (cases e1)
    case None
    then have "call H Start i k1 = (e, k')" using assms c by (simp add: init_start_def)
    then show ?thesis using f call_frame [of H Start i k1] by simp
  qed (use assms c f in \<open>auto simp: init_start_def\<close>)
qed

text \<open>
  The state of the loop: the modules started are exactly the ready ones, their starts and at
  most that of the failed module are among the calls, and the calls are in order.
\<close>

definition boot_ok :: "ModuleMetadata list \<Rightarrow> string option \<Rightarrow> string list \<Rightarrow> 'w Kernel \<Rightarrow> bool" where
  "boot_ok ms failed started k \<longleftrightarrow>
     k_registry k = ms \<and> k_state k = Booting \<and> (\<forall>i. k_status k i = Some READY \<longleftrightarrow> i \<in> set started) \<and>
     (\<forall>i \<in> set started. (Start, i) \<in> set (k_calls k)) \<and>
     (\<forall>i. (Start, i) \<in> set (k_calls k) \<longrightarrow> i \<in> set started \<or> failed = Some i) \<and> ordered_calls ms (k_calls k)"

lemma boot_modules_ok:
  "boot_modules H order pre k = (e, started, k') \<Longrightarrow> boot_ok ms None pre k \<Longrightarrow> set order \<subseteq> ids ms \<Longrightarrow>
   topological ms (pre @ order) \<Longrightarrow> distinct (pre @ order) \<Longrightarrow>
     boot_ok ms (case e of Start_failed i x \<Rightarrow> Some i | _ \<Rightarrow> None) started k' \<and>
     (e = All_started \<longrightarrow> started = pre @ order) \<and> set started \<subseteq> set (pre @ order)"
proof (induction H order pre k rule: boot_modules.induct)
  case (2 H i order pre k)
  have reg: "registered_module i k" using 2(4,5) by (auto simp: registered_module_def boot_ok_def ids_def)
  obtain a k1 where a: "call H Attach i k = (a, k1)" by fastforce
  have f1: "k_registry k1 = ms" "k_state k1 = Booting" "k_status k1 = k_status k" "k_calls k1 = k_calls k @ [(Attach, i)]"
    using call_frame [of H Attach i k] a 2(4) by (simp_all add: boot_ok_def)
  have oc: "ordered_calls ms (k_calls k1)" using f1(4) 2(4) by (simp add: boot_ok_def ordered_calls_other)
  have ok1: "boot_ok ms None pre k1" using f1 oc 2(4) by (auto simp: boot_ok_def)
  show ?case
  proof (cases a)
    case (Some x)
    then show ?thesis using 2(3) reg a ok1 by (auto simp: boot_ok_def)
  next
    case None
    obtain e2 k2 where k2: "init_start H i (set_status i INITIALIZING k1) = (e2, k2)" by fastforce
    note isc = init_start_calls [OF k2]
    have "\<And>m. m \<in> set ms \<Longrightarrow> mm_id m = i \<Longrightarrow> set (mm_dependsOn m) \<subseteq> set pre"
      using 2(6) unfolding topological_def by blast
    then have "ordered_calls ms (k_calls k1 @ [(Initialize, i)])"
      using ok1 by (intro ordered_calls_snoc [OF oc]) (auto simp: boot_ok_def)
    then have oc2: "ordered_calls ms (k_calls k2)"
      using isc ordered_calls_other [of ms "k_calls k1 @ [(Initialize, i)]" Start i] by auto
    have st: "i \<notin> set pre" using 2(7) by auto
    show ?thesis
    proof (cases e2)
      case e2: None
      have "boot_ok ms None (pre @ [i]) (set_status i READY k2)"
        using isc e2 oc2 ok1 f1 st by (auto simp: boot_ok_def)
      moreover have "boot_modules H order (pre @ [i]) (set_status i READY k2) = (e, started, k')"
        using 2(3) reg a None k2 e2 by simp
      ultimately show ?thesis
        using "2.IH"(2) [of "(a, k1)" a k1 "(e2, k2)" e2 k2] reg a None k2 e2 2(5-7) by simp
    next
      case e2: (Some x)
      have "boot_ok ms (Some i) pre k2" using isc oc2 ok1 f1 st by (auto simp: boot_ok_def)
      then show ?thesis using 2(3) reg a None k2 e2 by auto
    qed
  qed
qed auto

lemma ordered_calls_append: "ordered_calls ms cs \<Longrightarrow> \<forall>c \<in> set ds. fst c \<noteq> Initialize \<Longrightarrow> ordered_calls ms (cs @ ds)"
proof (induction ds rule: rev_induct)
  case (snoc d ds)
  then show ?case using ordered_calls_other [of ms "cs @ ds" "fst d" "snd d"] by simp
qed simp

lemma unwind_spec:
  assumes "set started \<subseteq> ids (k_registry k)"
  shows "k_registry (unwind H started k) = k_registry k \<and> k_calls (unwind H started k) = k_calls k @ map (Pair Shutdown) (rev started) \<and>
    k_status (unwind H started k) = (\<lambda>i. if i \<in> set started then Some STOPPED else k_status k i)"
proof -
  let ?f = "\<lambda>i k. set_status i STOPPED (if registered_module i k then snd (call H Shutdown i k) else k)"
  have "set xs \<subseteq> ids (k_registry k) \<Longrightarrow>
      k_registry (fold ?f xs k) = k_registry k \<and> k_calls (fold ?f xs k) = k_calls k @ map (Pair Shutdown) xs \<and>
      k_status (fold ?f xs k) = (\<lambda>i. if i \<in> set xs then Some STOPPED else k_status k i)" for xs and k :: "'a Kernel"
    by (induction xs arbitrary: k) (auto simp: registered_module_def ids_def fun_eq_iff)
  from this [of "rev started" k] show ?thesis using assms by (simp add: unwind_def)
qed

text \<open>
  C26. Boot, from the registrations alone and whatever the modules do: a module is initialised only after
  everything it depends on has started. If boot reports success the kernel runs and every module is
  ready. If it reports a failure no module is left ready, and each one whose start completed has
  been shut down. If \<^verbatim>\<open>attach\<close> of a module throws, boot rejects and the kernel stays in the state
  \<^verbatim>\<open>booting\<close>.
\<close>

theorem kernel_boot_safe:
  assumes "register_all ms (newKernel w) = Inr k" "boot H localeCompare k = (res, k')"
  shows "ordered_calls ms (k_calls k') \<and>
    (case res of
       Inl e \<Rightarrow> k_state k' = Booting
     | Inr r \<Rightarrow>
         if bt_ok r then k_state k' = Running \<and> (\<forall>m \<in> set ms. k_status k' (mm_id m) = Some READY)
         else k_state k' = Boot_failed \<and> (\<forall>i. k_status k' i \<noteq> Some READY) \<and>
           (\<forall>i. (Start, i) \<in> set (k_calls k') \<longrightarrow> (Shutdown, i) \<in> set (k_calls k') \<or> bt_failedModule r = Some i))"
proof -
  have "fresh_kernel (newKernel w)" by (simp add: fresh_kernel_def newKernel_def unique_ids_def)
  then have fk: "fresh_kernel k" "k_registry k = ms"
    using register_all_fresh [OF assms(1)] by (simp_all add: newKernel_def)
  then have f: "unique_ids ms" "k_state k = Created" "k_calls k = []" "\<And>i. k_status k i \<noteq> Some READY"
    by (auto simp: fresh_kernel_def)
  show ?thesis
  proof (cases "resolveBootOrder localeCompare ms")
    case (Boot_ok order)
    have o: "distinct order" "set order = ids ms" "topological ms order" using boot_order_facts [OF f(1) Boot_ok] by blast+
    let ?k = "k\<lparr> k_state := Booting, k_bootOrder := order \<rparr>"
    obtain e started k2 where b: "boot_modules H order [] ?k = (e, started, k2)" by (metis prod_cases3)
    have "boot_ok ms None [] ?k" using f fk(2) by (simp add: boot_ok_def ordered_calls_def)
    then have ok: "boot_ok ms (case e of Start_failed i x \<Rightarrow> Some i | _ \<Rightarrow> None) started k2" "e = All_started \<longrightarrow> started = order"
      "set started \<subseteq> set order"
      using boot_modules_ok [OF b] o by simp_all
    have bt: "boot H localeCompare k = (res, k')" by (rule assms(2))
    show ?thesis
    proof (cases e)
      case All_started
      then show ?thesis using bt b ok o(2) f(2) fk(2) Boot_ok
        by (auto simp: boot_def Let_def boot_ok_def ids_def)
    next
      case (Attach_threw x)
      then show ?thesis using bt b ok f(2) fk(2) Boot_ok by (auto simp: boot_def Let_def boot_ok_def)
    next
      case (Start_failed i x)
      let ?k3 = "(set_status i FAILED_health k2)\<lparr> k_failureCounts := (k_failureCounts (set_status i FAILED_health k2))(i := k_failureCounts (set_status i FAILED_health k2) i + 1) \<rparr>"
      let ?k4 = "audit_entry ''kernel.boot'' (Some i) False x ?k3"
      have r: "res = Inr \<lparr> bt_ok = False, bt_state = Boot_failed, bt_order = order, bt_failedModule = Some i, bt_reason = Some x \<rparr>"
        "k' = (unwind H started ?k4)\<lparr> k_state := Boot_failed \<rparr>"
        using bt b f(2) fk(2) Boot_ok Start_failed by (auto simp: boot_def Let_def)
      have "set started \<subseteq> ids (k_registry ?k4)"
        using ok(1,3) o(2) by (simp add: boot_ok_def)
      note u = unwind_spec [OF this, of H]
      have "ordered_calls ms (k_calls k')"
        using u ok(1) by (auto simp: r(2) boot_ok_def intro!: ordered_calls_append)
      moreover have "k_status k' j \<noteq> Some READY" for j using u ok(1) by (simp add: r(2) boot_ok_def)
      moreover have "(Shutdown, j) \<in> set (k_calls k') \<or> Some i = Some j" if "(Start, j) \<in> set (k_calls k')" for j
        using that u ok(1) Start_failed by (auto simp: r(2) boot_ok_def)
      ultimately show ?thesis by (simp add: r)
    qed
  qed (use assms(2) f fk(2) in \<open>auto simp: boot_def Let_def ordered_calls_def\<close>)
qed

text \<open>A world that counts the calls; every hook succeeds but the start of one module.\<close>

definition demo_hooks :: "nat hooks" where
  "demo_hooks = \<lparr> hk_call = (\<lambda>h i w. (if h = Start \<and> i = ''runtime'' then Some ''no sandbox'' else None, Suc w)),
                  hk_healthy = (\<lambda>i w. (Some READY, w)) \<rparr>"

theorem kernel_boot_safe_witness:
  "\<exists>k res k'. register_all demo_modules (newKernel (0 :: nat)) = Inr k \<and> boot demo_hooks (\<lambda>a b. 0) k = (res, k') \<and>
     ordered_calls demo_modules (k_calls k')"
proof -
  obtain k where k: "register_all demo_modules (newKernel (0 :: nat)) = Inr k"
    by (simp add: demo_modules_def register_module_def registered_module_def newKernel_def)
  obtain res k' where b: "boot demo_hooks (\<lambda>a b. 0) k = (res, k')" by fastforce
  show ?thesis using kernel_boot_safe [OF k b] k b by blast
qed

section \<open>Restarts are bounded\<close>

fun crashes :: "'w hooks \<Rightarrow> BoundedRestartPolicy \<Rightarrow> string list \<Rightarrow> 'w Kernel \<Rightarrow> (string \<times> RestartDecision) list" where
  "crashes H p [] k = []"
| "crashes H p (i # r) k = (let (d, k1) = reportCrash H p i k in (i, d) # crashes H p r k1)"

lemma shutdown_modules_counts [simp]: "k_failureCounts (shutdown_modules H order k) = k_failureCounts k"
  by (induction H order k rule: shutdown_modules.induct)
    (auto simp: call_def set_status_def audit_entry_def case_prod_beta Let_def split: option.split)

lemma init_start_counts: "k_failureCounts (snd (init_start H i k)) = k_failureCounts k"
  by (simp add: init_start_def call_def case_prod_beta Let_def split: option.split)

lemma reportCrash_counts:
  assumes "reportCrash H p i k = (d, k')"
  shows "(d = Restart \<longrightarrow> k_failureCounts k i < rp_maxRestarts p \<and> k_failureCounts k' i = Suc (k_failureCounts k i)) \<and>
    (\<forall>j. k_failureCounts k j \<le> k_failureCounts k' j)"
proof -
  have "k_failureCounts (snd (kernel_shutdown H k1)) = k_failureCounts k1" for k1 :: "'a Kernel"
    by (simp add: kernel_shutdown_def audit_entry_def Let_def)
  then show ?thesis using assms
    by (auto simp: reportCrash_def restart_decide_def set_status_def init_start_counts case_prod_beta Let_def
        split: if_splits RestartDecision.splits)
qed

text \<open>However often a module crashes, it is restarted at most \<^verbatim>\<open>maxRestarts\<close> times.\<close>

lemma restarts_bounded: "length (filter (\<lambda>x. x = (i, Restart)) (crashes H p cs k)) \<le> rp_maxRestarts p - k_failureCounts k i"
proof (induction H p cs k rule: crashes.induct)
  case (2 H p j r k)
  obtain d k1 where c: "reportCrash H p j k = (d, k1)" by fastforce
  note rc = reportCrash_counts [OF c]
  have ih: "length (filter (\<lambda>x. x = (i, Restart)) (crashes H p r k1)) \<le> rp_maxRestarts p - k_failureCounts k1 i"
    using 2 c by simp
  show ?case
  proof (cases "j = i \<and> d = Restart")
    case True
    then show ?thesis using ih rc c by (simp, linarith)
  next
    case False
    then show ?thesis using ih rc c by (auto intro: le_trans diff_le_mono2)
  qed
qed simp

end
