(* ===== verification/Event_Bus.thy ===== *)
theory Event_Bus
  imports Prelude
begin

text \<open>
  \<^verbatim>\<open>kernel/src/event-bus.ts\<close>: the bus of the kernel. A handler is known by a number, since the code compares
  handlers by identity, and does what the environment says: it may change the bus, as a handler that
  subscribes or publishes does, and a state of its own, and it may throw. Clock and ids are functions of
  how often they were asked.
\<close>

section \<open>The bus\<close>

record 'p BusEvent =
  be_eventId :: string
  be_type :: string
  be_payload :: 'p
  be_correlationId :: string
  be_causationId :: "string option"
  be_traceId :: string
  be_priority :: int
  be_publishedAt :: string

record 'p PublishInput =
  pi_type :: string
  pi_payload :: 'p
  pi_correlationId :: string
  pi_causationId :: "string option"
  pi_traceId :: string
  pi_priority :: "int option"

record 'p DeadLetter =
  dl_event :: "'p BusEvent"
  dl_error :: string
  dl_failedAt :: string

record Registration =
  rg_handler :: nat
  rg_priority :: int
  rg_once :: bool

record 'p InMemoryEventBus =
  eb_handlers :: "string \<Rightarrow> Registration list"
  eb_deadLetters :: "'p DeadLetter list"
  eb_ticks :: nat
  eb_draws :: nat

text \<open>
  What is around a bus: the clock, the id factory, and the handlers. A handler that throws gives the
  message of the error, or \<^term>\<open>None\<close> when what it throws is not an error.
\<close>

record ('p, 's) bus_env =
  bx_clock :: "nat \<Rightarrow> string"
  bx_ids :: "string \<Rightarrow> nat \<Rightarrow> string"
  bx_run :: "nat \<Rightarrow> 'p BusEvent \<Rightarrow> 'p InMemoryEventBus \<times> 's \<Rightarrow> string option option \<times> 'p InMemoryEventBus \<times> 's"

definition bus_detach :: "string \<Rightarrow> nat \<Rightarrow> 'p InMemoryEventBus \<Rightarrow> 'p InMemoryEventBus" where
  "bus_detach type handler b = b\<lparr> eb_handlers := (eb_handlers b)(type := filter (\<lambda>r. rg_handler r \<noteq> handler) (eb_handlers b type)) \<rparr>"

definition bus_add :: "string \<Rightarrow> nat \<Rightarrow> int \<Rightarrow> bool \<Rightarrow> 'p InMemoryEventBus \<Rightarrow> 'p InMemoryEventBus" where
  "bus_add type handler priority once b =
     b\<lparr> eb_handlers := (eb_handlers b)(type := eb_handlers b type @ [\<lparr> rg_handler = handler, rg_priority = priority, rg_once = once \<rparr>]) \<rparr>"

definition bus_subscribe :: "string \<Rightarrow> nat \<Rightarrow> int option \<Rightarrow> 'p InMemoryEventBus \<Rightarrow> 'p InMemoryEventBus" where
  "bus_subscribe type handler priority = bus_add type handler (case priority of Some p \<Rightarrow> p | None \<Rightarrow> 0) False"

definition bus_once :: "string \<Rightarrow> nat \<Rightarrow> int option \<Rightarrow> 'p InMemoryEventBus \<Rightarrow> 'p InMemoryEventBus" where
  "bus_once type handler priority = bus_add type handler (case priority of Some p \<Rightarrow> p | None \<Rightarrow> 0) True"

definition bus_unsubscribe :: "string \<Rightarrow> nat \<Rightarrow> 'p InMemoryEventBus \<Rightarrow> 'p InMemoryEventBus" where
  "bus_unsubscribe type handler = bus_detach type handler"

text \<open>The catch of the delivery loop.\<close>

definition bury :: "('p, 's) bus_env \<Rightarrow> 'p BusEvent \<Rightarrow> string option \<Rightarrow> 'p InMemoryEventBus \<Rightarrow> 'p InMemoryEventBus" where
  "bury E event error b =
     b\<lparr> eb_deadLetters := eb_deadLetters b @
          [\<lparr> dl_event = event, dl_error = (case error of Some m \<Rightarrow> m | None \<Rightarrow> ''handler_failed''), dl_failedAt = bx_clock E (eb_ticks b) \<rparr>],
        eb_ticks := Suc (eb_ticks b) \<rparr>"

fun deliver :: "('p, 's) bus_env \<Rightarrow> 'p BusEvent \<Rightarrow> Registration list \<Rightarrow> 'p InMemoryEventBus \<times> 's \<Rightarrow> 'p InMemoryEventBus \<times> 's" where
  "deliver E event [] w = w"
| "deliver E event (r # rs) (b, s) =
     (let b1 = (if rg_once r then bus_detach (be_type event) (rg_handler r) b else b);
          (outcome, b2, s2) = bx_run E (rg_handler r) event (b1, s)
      in deliver E event rs (case outcome of None \<Rightarrow> (b2, s2) | Some error \<Rightarrow> (bury E event error b2, s2)))"

definition bus_event :: "('p, 's) bus_env \<Rightarrow> 'p PublishInput \<Rightarrow> 'p InMemoryEventBus \<Rightarrow> 'p BusEvent" where
  "bus_event E i b =
     \<lparr> be_eventId = bx_ids E ''evt'' (eb_draws b), be_type = pi_type i, be_payload = pi_payload i, be_correlationId = pi_correlationId i,
       be_causationId = (if isNonEmptyOpt (pi_causationId i) then pi_causationId i else None), be_traceId = pi_traceId i,
       be_priority = (case pi_priority i of Some p \<Rightarrow> p | None \<Rightarrow> 0), be_publishedAt = bx_clock E (eb_ticks b) \<rparr>"

definition bus_publish ::
  "('p, 's) bus_env \<Rightarrow> 'p PublishInput \<Rightarrow> 'p InMemoryEventBus \<times> 's \<Rightarrow> unit result \<times> 'p InMemoryEventBus \<times> 's" where
  "bus_publish E i w =
     (let (b, s) = w in
      if \<not> isNonEmptyString (pi_type i) \<or> \<not> isNonEmptyString (pi_correlationId i) \<or> \<not> isNonEmptyString (pi_traceId i) then
        (Inl (JsError ''EventBus.publish requires type, correlationId and traceId.''), w)
      else
        (let b1 = b\<lparr> eb_draws := Suc (eb_draws b), eb_ticks := Suc (eb_ticks b) \<rparr>;
             registrations = sort_key (\<lambda>r. - rg_priority r) (eb_handlers b1 (pi_type i))
         in (Inr (), deliver E (bus_event E i b) registrations (b1, s))))"

section \<open>A publication\<close>

text \<open>
  Handlers that leave the bus alone: what they do is a function of their own state. Then a publication
  calls every handler registered for its type once per registration, the higher priorities first and
  equal ones in the order of their subscription, also after one has thrown; each failure leaves one dead
  letter; and the handlers registered with \<^verbatim>\<open>once\<close> are gone.
\<close>

definition neutral :: "('p, 's) bus_env \<Rightarrow> (nat \<Rightarrow> 'p BusEvent \<Rightarrow> 's \<Rightarrow> string option option \<times> 's) \<Rightarrow> bool" where
  "neutral E f \<longleftrightarrow> (\<forall>h event b s. bx_run E h event (b, s) = (fst (f h event s), b, snd (f h event s)))"

fun call_all_handlers :: "(nat \<Rightarrow> 'e \<Rightarrow> 's \<Rightarrow> string option option \<times> 's) \<Rightarrow> 'e \<Rightarrow> nat list \<Rightarrow> 's \<Rightarrow> string option list \<times> 's" where
  "call_all_handlers f event [] s = ([], s)"
| "call_all_handlers f event (h # hs) s =
     (let (outcome, s1) = f h event s; (errors, s2) = call_all_handlers f event hs s1
      in (case outcome of None \<Rightarrow> errors | Some error \<Rightarrow> error # errors, s2))"

lemma deliver_neutral:
  assumes "neutral E f" "deliver E event rs (b, s) = (b', s')"
  shows "s' = snd (call_all_handlers f event (map rg_handler rs) s) \<and>
    (\<exists>letters. eb_deadLetters b' = eb_deadLetters b @ letters \<and> (\<forall>l \<in> set letters. dl_event l = event) \<and>
       map dl_error letters = map (\<lambda>e. case e of Some m \<Rightarrow> m | None \<Rightarrow> ''handler_failed'') (fst (call_all_handlers f event (map rg_handler rs) s))) \<and>
    eb_handlers b' = (eb_handlers b)(be_type event :=
       filter (\<lambda>r. rg_handler r \<notin> rg_handler ` {q \<in> set rs. rg_once q}) (eb_handlers b (be_type event)))"
  using assms(2)
proof (induction rs arbitrary: b s)
  case (Cons r rs)
  let ?b1 = "if rg_once r then bus_detach (be_type event) (rg_handler r) b else b"
  obtain outcome s1 where o: "f (rg_handler r) event s = (outcome, s1)" by fastforce
  let ?b2 = "case outcome of None \<Rightarrow> ?b1 | Some error \<Rightarrow> bury E event error ?b1"
  have d: "deliver E event rs (?b2, s1) = (b', s')"
    using Cons.prems assms(1) o by (cases outcome) (simp_all add: neutral_def Let_def)
  have h: "eb_handlers ?b2 = (eb_handlers b)(be_type event := filter (\<lambda>q. rg_once r \<longrightarrow> rg_handler q \<noteq> rg_handler r) (eb_handlers b (be_type event)))"
    by (cases outcome) (auto simp: bury_def bus_detach_def)
  have l: "eb_deadLetters ?b2 = eb_deadLetters b @
      (case outcome of None \<Rightarrow> [] | Some error \<Rightarrow> [\<lparr> dl_event = event, dl_error = (case error of Some m \<Rightarrow> m | None \<Rightarrow> ''handler_failed''),
        dl_failedAt = bx_clock E (eb_ticks b) \<rparr>])"
    by (cases outcome) (auto simp: bury_def bus_detach_def)
  note IH = Cons.IH [OF d]
  have "s' = snd (call_all_handlers f event (map rg_handler (r # rs)) s)" using IH o by (simp add: Let_def split: prod.split)
  moreover from IH obtain letters where lt: "eb_deadLetters b' = eb_deadLetters ?b2 @ letters" "\<forall>l \<in> set letters. dl_event l = event"
      "map dl_error letters = map (\<lambda>e. case e of Some m \<Rightarrow> m | None \<Rightarrow> ''handler_failed'') (fst (call_all_handlers f event (map rg_handler rs) s1))"
    by blast
  have "\<exists>letters. eb_deadLetters b' = eb_deadLetters b @ letters \<and> (\<forall>l \<in> set letters. dl_event l = event) \<and>
       map dl_error letters = map (\<lambda>e. case e of Some m \<Rightarrow> m | None \<Rightarrow> ''handler_failed'') (fst (call_all_handlers f event (map rg_handler (r # rs)) s))"
    using lt o unfolding l by (cases outcome) (auto simp: Let_def split: prod.split intro!: exI [of _ "_ # letters"])
  moreover have "eb_handlers b' = (eb_handlers b)(be_type event :=
       filter (\<lambda>q. rg_handler q \<notin> rg_handler ` {q \<in> set (r # rs). rg_once q}) (eb_handlers b (be_type event)))"
    using IH unfolding h by (auto intro!: ext filter_cong)
  ultimately show ?case by blast
qed simp

lemma bus_publish_delivers:
  assumes "neutral E f" "isNonEmptyString (pi_type i)" "isNonEmptyString (pi_correlationId i)" "isNonEmptyString (pi_traceId i)"
    and "bus_publish E i (b, s) = (r, b', s')"
  shows "let regs = sort_key (\<lambda>r. - rg_priority r) (eb_handlers b (pi_type i)); event = bus_event E i b;
             (errors, s1) = call_all_handlers f event (map rg_handler regs) s in
    r = Inr () \<and> s' = s1 \<and> length (eb_deadLetters b') = length (eb_deadLetters b) + length errors \<and>
    (\<forall>l \<in> set (drop (length (eb_deadLetters b)) (eb_deadLetters b')). dl_event l = event) \<and>
    eb_handlers b' (pi_type i) = filter (\<lambda>r. rg_handler r \<notin> rg_handler ` {q \<in> set regs. rg_once q}) (eb_handlers b (pi_type i))"
proof -
  let ?regs = "sort_key (\<lambda>r. - rg_priority r) (eb_handlers b (pi_type i))" and ?event = "bus_event E i b"
  let ?b1 = "b\<lparr> eb_draws := Suc (eb_draws b), eb_ticks := Suc (eb_ticks b) \<rparr>"
  have d: "r = Inr ()" "deliver E ?event ?regs (?b1, s) = (b', s')" "be_type ?event = pi_type i"
    using assms(2-5) by (simp_all add: bus_publish_def bus_event_def Let_def)
  obtain letters where "eb_deadLetters b' = eb_deadLetters b @ letters" "\<forall>l \<in> set letters. dl_event l = ?event"
    "length letters = length (fst (call_all_handlers f ?event (map rg_handler ?regs) s))"
    using deliver_neutral [OF assms(1) d(2)] by (auto dest: map_eq_imp_length_eq)
  then show ?thesis using deliver_neutral [OF assms(1) d(2)] d by (simp add: Let_def split: prod.split)
qed

text \<open>A publication that lacks its type or an id throws, and nothing happens.\<close>

lemma bus_publish_refuses:
  "fst (bus_publish E i w) \<noteq> Inr () \<longleftrightarrow> \<not> (isNonEmptyString (pi_type i) \<and> isNonEmptyString (pi_correlationId i) \<and> isNonEmptyString (pi_traceId i))"
  "fst (bus_publish E i w) \<noteq> Inr () \<Longrightarrow> snd (bus_publish E i w) = w"
  by (auto simp: bus_publish_def Let_def split: prod.splits)

text \<open>
  With \<^verbatim>\<open>unsubscribe\<close>, and with \<^verbatim>\<open>once\<close> when it fires, every registration of the handler for the type goes,
  not only the one concerned.
\<close>

lemma once_drops_subscription:
  "eb_handlers (bus_detach type h (bus_once type h q (bus_subscribe type h p b))) type = filter (\<lambda>r. rg_handler r \<noteq> h) (eb_handlers b type)"
  by (simp add: bus_detach_def bus_once_def bus_subscribe_def bus_add_def)

section \<open>A handler that publishes\<close>

text \<open>
  The list of handlers is fixed when a publication starts, and a handler registered with \<^verbatim>\<open>once\<close> is
  detached only when its turn comes. Handler 1 answers the first event of its type by publishing another
  one; the inner publication calls handler 2, registered with \<^verbatim>\<open>once\<close>, and the outer one calls it again.
  The state says whether handler 1 has answered, and which handlers were called. In the inner publication
  it has, so there the handlers only note that they were called.
\<close>

definition bus_input :: "unit PublishInput" where
  "bus_input = \<lparr> pi_type = ''ready'', pi_payload = (), pi_correlationId = ''c1'', pi_causationId = None, pi_traceId = ''t1'', pi_priority = None \<rparr>"

definition noting_env :: "(unit, bool \<times> nat list) bus_env" where
  "noting_env = \<lparr> bx_clock = (\<lambda>n. []), bx_ids = (\<lambda>p n. p), bx_run = (\<lambda>h event (b, answered, called). (None, b, answered, called @ [h])) \<rparr>"

definition answering_env :: "(unit, bool \<times> nat list) bus_env" where
  "answering_env = noting_env\<lparr> bx_run := (\<lambda>h event (b, answered, called).
     if h = 1 \<and> \<not> answered then (None, snd (bus_publish noting_env bus_input (b, True, called @ [h])))
     else bx_run noting_env h event (b, answered, called)) \<rparr>"

definition demo_bus :: "unit InMemoryEventBus" where
  "demo_bus = bus_once ''ready'' 2 None (bus_subscribe ''ready'' 1 (Some 1)
     \<lparr> eb_handlers = (\<lambda>t. []), eb_deadLetters = [], eb_ticks = 0, eb_draws = 0 \<rparr>)"

lemma once_delivered_twice:
  "snd (snd (snd (bus_publish answering_env bus_input (demo_bus, False, [])))) = [1, 1, 2, 2]"
  by code_simp

end
