(* ===== verification/Memory.thy ===== *)
theory Memory
  imports Hash_Chain Decision Js_Date "HOL-Library.AList" "HOL-Library.Sublist"
begin

text \<open>
  \<^verbatim>\<open>memory/src\<close>: the memory of the system. Access control (\<^verbatim>\<open>access.ts\<close>), records and their content
  hash (\<^verbatim>\<open>record.ts\<close>), policies, the lifecycle, snapshots, the audit sink, and the append-only store
  (\<^verbatim>\<open>immutable-store.ts\<close>) that versions every key per tenant and workspace. A \<^verbatim>\<open>Map\<close> whose order is
  observed is an association list in insertion order. An access context may be missing, as the code
  allows. The audit sink of the store is a parameter, an operation that may throw; \<^verbatim>\<open>Memory_Log\<close> models the
  in-memory one with the timeline.
\<close>

section \<open>types.ts\<close>

datatype MemoryTier =
  Tier_working | Tier_short_term | Tier_long_term | Tier_semantic | Tier_episodic | Tier_immutable | Tier_audit
  | Tier_approval | Tier_execution

fun tier_text :: "MemoryTier \<Rightarrow> string" where
  "tier_text Tier_working = ''working''"
| "tier_text Tier_short_term = ''short_term''"
| "tier_text Tier_long_term = ''long_term''"
| "tier_text Tier_semantic = ''semantic''"
| "tier_text Tier_episodic = ''episodic''"
| "tier_text Tier_immutable = ''immutable''"
| "tier_text Tier_audit = ''audit''"
| "tier_text Tier_approval = ''approval''"
| "tier_text Tier_execution = ''execution''"

datatype MemoryClassification = Mem_public | Mem_internal | Mem_confidential | Mem_secret

record MemoryScope =
  msc_tenantId :: string
  msc_workspaceId :: string
  msc_actorId :: "string option"

record MemoryDecision =
  md_ok :: bool
  md_reasonCode :: string
  md_message :: string

definition mem_allow :: "string \<Rightarrow> string \<Rightarrow> MemoryDecision" where
  "mem_allow reasonCode message = \<lparr> md_ok = True, md_reasonCode = reasonCode, md_message = message \<rparr>"

definition mem_deny :: "string \<Rightarrow> string \<Rightarrow> MemoryDecision" where
  "mem_deny reasonCode message = \<lparr> md_ok = False, md_reasonCode = reasonCode, md_message = message \<rparr>"

definition mem_sameScope :: "MemoryScope \<Rightarrow> MemoryScope \<Rightarrow> bool" where
  "mem_sameScope a b \<longleftrightarrow> msc_tenantId a = msc_tenantId b \<and> msc_workspaceId a = msc_workspaceId b"

section \<open>access.ts\<close>

record MemoryAccessContext =
  ma_tenantId :: string
  ma_workspaceId :: string
  ma_actorId :: string
  ma_permissions :: "string list"
  ma_sessionExpiresAt :: string

definition authorizeMemoryAccess :: "MemoryAccessContext option \<Rightarrow> MemoryScope \<Rightarrow> string \<Rightarrow> string \<Rightarrow> MemoryDecision" where
  "authorizeMemoryAccess access scope required now =
     (case access of
        None \<Rightarrow> mem_deny ''unknown_tenant'' ''Memory access requires a known tenant and workspace.''
      | Some a \<Rightarrow>
          if \<not> isNonEmptyString (ma_tenantId a) \<or> \<not> isNonEmptyString (ma_workspaceId a) then
            mem_deny ''unknown_tenant'' ''Memory access requires a known tenant and workspace.''
          else if \<not> isNonEmptyString (ma_sessionExpiresAt a) \<or> \<not> isFuture (ma_sessionExpiresAt a) now then
            mem_deny ''session_expired'' ''Memory access session is missing or expired.''
          else if ma_tenantId a \<noteq> msc_tenantId scope \<or> ma_workspaceId a \<noteq> msc_workspaceId scope then
            mem_deny ''cross_tenant_denied'' ''Cross-tenant/workspace memory access is denied.''
          else if required \<notin> set (ma_permissions a) then
            mem_deny ''permission_denied'' (''Missing required memory permission: '' @ required @ ''.'')
          else mem_allow ''memory_access_authorized'' ''Memory access authorized.'')"

section \<open>record.ts\<close>

datatype MemoryProvenanceSource = From_user | From_system | From_agent | From_tool_output | From_derived | From_import

record MemoryProvenance =
  mp_source :: MemoryProvenanceSource
  mp_trusted :: bool
  mp_actorId :: string

record MemoryRecord =
  mr_id :: string
  mr_scope :: MemoryScope
  mr_tier :: MemoryTier
  mr_classification :: MemoryClassification
  mr_provenance :: MemoryProvenance
  mr_key :: string
  mr_value :: json
  mr_version :: nat
  mr_createdAt :: string
  mr_expiresAt :: "string option"
  mr_previousVersionId :: "string option"
  mr_contentHash :: string

record MemoryRecordInput =
  mri_scope :: MemoryScope
  mri_tier :: MemoryTier
  mri_classification :: MemoryClassification
  mri_provenance :: MemoryProvenance
  mri_key :: string
  mri_value :: json
  mri_createdAt :: string
  mri_expiresAt :: "string option"
  mri_version :: "nat option"
  mri_previousVersionId :: "string option"

definition scope_json :: "MemoryScope \<Rightarrow> json" where
  "scope_json s = JObj ([(''tenantId'', JStr (msc_tenantId s)), (''workspaceId'', JStr (msc_workspaceId s))] @
     opt_member ''actorId'' (msc_actorId s))"

definition memory_content :: "MemoryScope \<Rightarrow> MemoryTier \<Rightarrow> string \<Rightarrow> json \<Rightarrow> nat \<Rightarrow> string \<Rightarrow> json" where
  "memory_content scope tier key val version createdAt =
     JObj [(''scope'', scope_json scope), (''tier'', JStr (tier_text tier)), (''key'', JStr key), (''value'', val),
           (''version'', JNum (int version)), (''createdAt'', JStr createdAt)]"

definition memoryContentHash :: "crypto \<Rightarrow> MemoryScope \<Rightarrow> MemoryTier \<Rightarrow> string \<Rightarrow> json \<Rightarrow> nat \<Rightarrow> string \<Rightarrow> string" where
  "memoryContentHash C scope tier key val version createdAt =
     sha256Hex C (canonicalJson (memory_content scope tier key val version createdAt))"

definition createMemoryRecord :: "crypto \<Rightarrow> MemoryRecordInput \<Rightarrow> nat \<Rightarrow> MemoryRecord \<times> nat" where
  "createMemoryRecord C i n =
     (let version = (case mri_version i of Some v \<Rightarrow> v | None \<Rightarrow> 1);
          contentHash = memoryContentHash C (mri_scope i) (mri_tier i) (mri_key i) (mri_value i) version (mri_createdAt i);
          (recordId, n') = newId C ''mem'' n
      in (\<lparr> mr_id = recordId, mr_scope = mri_scope i, mr_tier = mri_tier i, mr_classification = mri_classification i,
            mr_provenance = mri_provenance i, mr_key = mri_key i, mr_value = mri_value i, mr_version = version,
            mr_createdAt = mri_createdAt i, mr_expiresAt = truthy_opt (mri_expiresAt i),
            mr_previousVersionId = truthy_opt (mri_previousVersionId i), mr_contentHash = contentHash \<rparr>, n'))"

definition verifyRecordIntegrity :: "crypto \<Rightarrow> MemoryRecord \<Rightarrow> bool" where
  "verifyRecordIntegrity C r \<longleftrightarrow>
     mr_contentHash r = memoryContentHash C (mr_scope r) (mr_tier r) (mr_key r) (mr_value r) (mr_version r) (mr_createdAt r)"

section \<open>policy.ts\<close>

record LegalHold =
  lh_active :: bool
  lh_reason :: "string option"

record MemoryPolicy =
  mpl_ttlMs :: "int option"
  mpl_maxVersions :: "int option"
  mpl_retainMs :: "int option"
  mpl_legalHold :: "LegalHold option"
  mpl_archiveAfterMs :: "int option"

record DeleteApproval =
  da_approvalId :: string
  da_approverId :: string
  da_approverIsHuman :: bool
  da_reason :: string

record RestoreApproval =
  ra_approvalId :: string
  ra_approverId :: string
  ra_approverIsHuman :: bool

definition isRecordExpired :: "MemoryRecord \<Rightarrow> string \<Rightarrow> bool" where
  "isRecordExpired r now =
     (case mr_expiresAt r of None \<Rightarrow> False | Some e \<Rightarrow> isNonEmptyString e \<and> isAtOrBefore e now)"

definition shouldArchive :: "MemoryRecord \<Rightarrow> MemoryPolicy option \<Rightarrow> string \<Rightarrow> bool" where
  "shouldArchive r policy now =
     (case Option.bind policy mpl_archiveAfterMs of
        None \<Rightarrow> False
      | Some after \<Rightarrow>
          if after = 0 then False
          else (case (dateParse (mr_createdAt r), dateParse now) of
                  (Some created, Some nowMs) \<Rightarrow> nowMs - created \<ge> after
                | _ \<Rightarrow> False))"

definition evaluateDelete :: "MemoryPolicy option \<Rightarrow> DeleteApproval option \<Rightarrow> MemoryDecision" where
  "evaluateDelete policy approval =
     (if map_option lh_active (Option.bind policy mpl_legalHold) = Some True then
        mem_deny ''legal_hold_active'' ''A legal hold blocks deletion.''
      else
        (case approval of
           None \<Rightarrow> mem_deny ''delete_requires_human_approval'' ''Memory deletion requires a human approval with a reason.''
         | Some a \<Rightarrow>
             if \<not> da_approverIsHuman a \<or> \<not> isNonEmptyString (da_approvalId a) \<or> \<not> isNonEmptyString (da_reason a) then
               mem_deny ''delete_requires_human_approval'' ''Memory deletion requires a human approval with a reason.''
             else mem_allow ''delete_authorized'' ''Deletion authorized.''))"

definition evaluateRestore :: "RestoreApproval option \<Rightarrow> MemoryDecision" where
  "evaluateRestore approval =
     (case approval of
        None \<Rightarrow> mem_deny ''restore_requires_human_approval'' ''Memory restore requires a human approval.''
      | Some a \<Rightarrow>
          if \<not> ra_approverIsHuman a \<or> \<not> isNonEmptyString (ra_approvalId a) then
            mem_deny ''restore_requires_human_approval'' ''Memory restore requires a human approval.''
          else mem_allow ''restore_authorized'' ''Restore authorized.'')"

section \<open>lifecycle.ts\<close>

datatype MemoryLifecycleState = Life_created | Life_active | Life_expired | Life_archived | Life_deleted | Life_restored

fun lifecycle_allowed :: "MemoryLifecycleState \<Rightarrow> MemoryLifecycleState list" where
  "lifecycle_allowed Life_created = [Life_active]"
| "lifecycle_allowed Life_active = [Life_expired, Life_archived, Life_deleted]"
| "lifecycle_allowed Life_expired = [Life_archived, Life_deleted, Life_restored]"
| "lifecycle_allowed Life_archived = [Life_deleted, Life_restored]"
| "lifecycle_allowed Life_deleted = [Life_restored]"
| "lifecycle_allowed Life_restored = [Life_active]"

definition canTransition :: "MemoryLifecycleState \<Rightarrow> MemoryLifecycleState \<Rightarrow> bool" where
  "canTransition from_state to_state \<longleftrightarrow> to_state \<in> set (lifecycle_allowed from_state)"

text \<open>The decision of \<^verbatim>\<open>transition\<close> with its reason code; the message names the two states.\<close>

definition lifecycle_transition :: "MemoryLifecycleState \<Rightarrow> MemoryLifecycleState \<Rightarrow> bool \<times> string" where
  "lifecycle_transition from_state to_state =
     (if \<not> canTransition from_state to_state then (False, ''illegal_lifecycle_transition'')
      else (True, ''lifecycle_transition_allowed''))"

section \<open>snapshot.ts\<close>

datatype SnapshotKind = Snap_execution | Snap_memory | Snap_tenant

fun snapshot_kind_text :: "SnapshotKind \<Rightarrow> string" where
  "snapshot_kind_text Snap_execution = ''execution''"
| "snapshot_kind_text Snap_memory = ''memory''"
| "snapshot_kind_text Snap_tenant = ''tenant''"

record MemorySnapshot =
  sn_snapshotId :: string
  sn_scope :: MemoryScope
  sn_kind :: SnapshotKind
  sn_createdAt :: string
  sn_recordCount :: nat
  sn_contentDigest :: string
  sn_integrityHash :: string

definition snapshotMeta :: "MemorySnapshot \<Rightarrow> json" where
  "snapshotMeta s =
     JObj [(''snapshotId'', JStr (sn_snapshotId s)), (''scope'', scope_json (sn_scope s)),
           (''kind'', JStr (snapshot_kind_text (sn_kind s))), (''createdAt'', JStr (sn_createdAt s)),
           (''recordCount'', JNum (int (sn_recordCount s))), (''contentDigest'', JStr (sn_contentDigest s))]"

definition createMemorySnapshot ::
  "crypto \<Rightarrow> MemoryScope \<Rightarrow> MemoryRecord list \<Rightarrow> SnapshotKind \<Rightarrow> string \<Rightarrow> string \<Rightarrow> MemorySnapshot" where
  "createMemorySnapshot C scope records kind now snapshotId =
     (let contentDigest = sha256Hex C (canonicalJson (JArr (map JStr (sort (map mr_contentHash records)))));
          base = \<lparr> sn_snapshotId = snapshotId, sn_scope = scope, sn_kind = kind, sn_createdAt = now,
                   sn_recordCount = length records, sn_contentDigest = contentDigest, sn_integrityHash = [] \<rparr>
      in base\<lparr> sn_integrityHash := sha256Hex C (canonicalJson (snapshotMeta base)) \<rparr>)"

definition verifySnapshotIntegrity :: "crypto \<Rightarrow> MemorySnapshot \<Rightarrow> bool" where
  "verifySnapshotIntegrity C s \<longleftrightarrow> sha256Hex C (canonicalJson (snapshotMeta s)) = sn_integrityHash s"

definition evaluateSnapshotRestore :: "crypto \<Rightarrow> MemorySnapshot \<Rightarrow> RestoreApproval option \<Rightarrow> MemoryScope \<Rightarrow> MemoryDecision" where
  "evaluateSnapshotRestore C snapshot approval target =
     (if \<not> verifySnapshotIntegrity C snapshot then
        mem_deny ''snapshot_integrity_failed'' ''Snapshot integrity check failed.''
      else
        (let decision = evaluateRestore approval in
         if \<not> md_ok decision then decision
         else if msc_tenantId (sn_scope snapshot) \<noteq> msc_tenantId target \<or>
                 msc_workspaceId (sn_scope snapshot) \<noteq> msc_workspaceId target then
           mem_deny ''cross_tenant_restore'' ''A snapshot cannot be restored into a different tenant/workspace.''
         else mem_allow ''restore_authorized'' ''Snapshot restore authorized.''))"

section \<open>audit.ts, the interface\<close>

datatype MemoryOperation = Op_write | Op_read | Op_delete | Op_restore | Op_snapshot | Op_replay | Op_expire | Op_archive

datatype MemoryAuditOutcome = Mem_ALLOWED | Mem_DENIED

record MemoryAuditInput =
  mai_scope :: MemoryScope
  mai_operation :: MemoryOperation
  mai_recordId :: "string option"
  mai_actorId :: string
  mai_outcome :: MemoryAuditOutcome
  mai_reasonCode :: string
  mai_at :: string

text \<open>A sink: an append may throw.\<close>

record 's MemoryAuditSink =
  mas_testOnly :: bool
  mas_append :: "MemoryAuditInput \<Rightarrow> 's \<Rightarrow> unit result \<times> 's"

section \<open>immutable-store.ts\<close>

record MemoryWriteInput =
  mw_tier :: MemoryTier
  mw_classification :: MemoryClassification
  mw_provenance :: MemoryProvenance
  mw_key :: string
  mw_value :: json
  mw_ttlMs :: "int option"

datatype 'a MemoryResult = Mem_ok 'a | Mem_refused string string

record KeyEntry =
  ke_versions :: "MemoryRecord list"
  ke_tombstone :: "(DeleteApproval \<times> string) option"

type_synonym partition = "(string \<times> KeyEntry) list"

record 's ImmutableMemoryStoreDeps =
  mds_mode :: RuntimeMode
  mds_audit :: "'s MemoryAuditSink"

record 's ImmutableMemoryStore =
  im_partitions :: "string \<rightharpoonup> partition"
  im_sink :: 's
  im_draws :: nat

definition scopeOf :: "MemoryAccessContext option \<Rightarrow> MemoryScope" where
  "scopeOf access =
     (case access of
        None \<Rightarrow> \<lparr> msc_tenantId = [], msc_workspaceId = [], msc_actorId = None \<rparr>
      | Some a \<Rightarrow> \<lparr> msc_tenantId = ma_tenantId a, msc_workspaceId = ma_workspaceId a,
                    msc_actorId = truthy_opt (Some (ma_actorId a)) \<rparr>)"

definition safeScope :: "MemoryAccessContext option \<Rightarrow> MemoryScope \<Rightarrow> MemoryScope" where
  "safeScope access scope =
     (case access of
        Some a \<Rightarrow> if ma_tenantId a \<noteq> [] then scope
                  else \<lparr> msc_tenantId = ''unknown'', msc_workspaceId = ''unknown'', msc_actorId = None \<rparr>
      | None \<Rightarrow> \<lparr> msc_tenantId = ''unknown'', msc_workspaceId = ''unknown'', msc_actorId = None \<rparr>)"

definition actor_of :: "MemoryAccessContext option \<Rightarrow> string \<Rightarrow> string" where
  "actor_of access otherwise = (case access of Some a \<Rightarrow> ma_actorId a | None \<Rightarrow> otherwise)"

definition partition_key :: "MemoryScope \<Rightarrow> string" where
  "partition_key s = msc_tenantId s @ CHR 0x1F # msc_workspaceId s"

text \<open>
  \<^verbatim>\<open>#partition\<close>: the partition of a scope. The code creates an empty one when there is none, which no
  operation can tell from its absence.
\<close>

definition partition_of :: "MemoryScope \<Rightarrow> 's ImmutableMemoryStore \<Rightarrow> partition" where
  "partition_of s st = (case im_partitions st (partition_key s) of Some p \<Rightarrow> p | None \<Rightarrow> [])"

definition store_entry :: "MemoryScope \<Rightarrow> string \<Rightarrow> KeyEntry \<Rightarrow> 's ImmutableMemoryStore \<Rightarrow> 's ImmutableMemoryStore" where
  "store_entry s key e st = st\<lparr> im_partitions := (im_partitions st)(partition_key s \<mapsto> AList.update key e (partition_of s st)) \<rparr>"

definition mem_audit ::
  "'s ImmutableMemoryStoreDeps \<Rightarrow> MemoryAuditInput \<Rightarrow> 's ImmutableMemoryStore \<Rightarrow> unit result \<times> 's ImmutableMemoryStore" where
  "mem_audit D i st = (let (r, s) = mas_append (mds_audit D) i (im_sink st) in (r, st\<lparr> im_sink := s \<rparr>))"

text \<open>An operation that ends with an audit record and then returns.\<close>

definition audited_return ::
  "'s ImmutableMemoryStoreDeps \<Rightarrow> MemoryAuditInput \<Rightarrow> 'a MemoryResult \<Rightarrow> 's ImmutableMemoryStore \<Rightarrow>
   'a MemoryResult result \<times> 's ImmutableMemoryStore" where
  "audited_return D i result st =
     (case mem_audit D i st of (Inl err, st') \<Rightarrow> (Inl err, st') | (Inr _, st') \<Rightarrow> (Inr result, st'))"

definition memory_audit_entry ::
  "MemoryScope \<Rightarrow> MemoryOperation \<Rightarrow> string option \<Rightarrow> string \<Rightarrow> MemoryAuditOutcome \<Rightarrow> string \<Rightarrow> string \<Rightarrow> MemoryAuditInput" where
  "memory_audit_entry scope operation recordId actorId outcome reasonCode now =
     \<lparr> mai_scope = scope, mai_operation = operation, mai_recordId = recordId, mai_actorId = actorId, mai_outcome = outcome,
       mai_reasonCode = reasonCode, mai_at = now \<rparr>"

text \<open>\<^verbatim>\<open>#guard\<close>: \<open>Mem_ok ()\<close> lets the operation go on.\<close>

definition guard_access ::
  "'s ImmutableMemoryStoreDeps \<Rightarrow> MemoryAccessContext option \<Rightarrow> MemoryScope \<Rightarrow> string \<Rightarrow> MemoryOperation \<Rightarrow> string \<Rightarrow>
   's ImmutableMemoryStore \<Rightarrow> unit MemoryResult result \<times> 's ImmutableMemoryStore" where
  "guard_access D access scope permission operation now st =
     (if mds_mode D = Production \<and> mas_testOnly (mds_audit D) then
        (Inr (Mem_refused ''audit_not_production_safe'' ''Test-only audit sink cannot be used in production.''), st)
      else
        (let authz = authorizeMemoryAccess access scope permission now in
         if \<not> md_ok authz then
           audited_return D
             (memory_audit_entry (safeScope access scope) operation None (actor_of access ''unknown'') Mem_DENIED (md_reasonCode authz) now)
             (Mem_refused (md_reasonCode authz) (md_message authz)) st
         else (Inr (Mem_ok ()), st)))"

definition expiry_of :: "MemoryWriteInput \<Rightarrow> string \<Rightarrow> string option result" where
  "expiry_of input now =
     (case mw_ttlMs input of
        None \<Rightarrow> Inr None
      | Some ttl \<Rightarrow>
          if ttl > 0 then
            (case dateParse now of
               None \<Rightarrow> Inl (RangeError ''Invalid time value'')
             | Some n \<Rightarrow> (case toISOString (n + ttl) of Inl err \<Rightarrow> Inl err | Inr e \<Rightarrow> Inr (Some e)))
          else Inr None)"

definition mem_write ::
  "crypto \<Rightarrow> 's ImmutableMemoryStoreDeps \<Rightarrow> MemoryAccessContext option \<Rightarrow> MemoryWriteInput \<Rightarrow> string \<Rightarrow>
   's ImmutableMemoryStore \<Rightarrow> MemoryRecord MemoryResult result \<times> 's ImmutableMemoryStore" where
  "mem_write C D access input now st =
     (let scope = scopeOf access in
      case guard_access D access scope ''memory.write'' Op_write now st of
        (Inl err, st1) \<Rightarrow> (Inl err, st1)
      | (Inr (Mem_refused code msg), st1) \<Rightarrow> (Inr (Mem_refused code msg), st1)
      | (Inr (Mem_ok _), st1) \<Rightarrow>
          (let entry = (case map_of (partition_of scope st1) (mw_key input) of
                          Some e \<Rightarrow> e | None \<Rightarrow> \<lparr> ke_versions = [], ke_tombstone = None \<rparr>);
               latest = (if ke_versions entry = [] then None else Some (last (ke_versions entry)));
               version = (case latest of Some r \<Rightarrow> mr_version r + 1 | None \<Rightarrow> 1)
           in case expiry_of input now of
                Inl err \<Rightarrow> (Inl err, st1)
              | Inr expiresAt \<Rightarrow>
                  (let (rec, n) = createMemoryRecord C
                         \<lparr> mri_scope = scope, mri_tier = mw_tier input, mri_classification = mw_classification input,
                           mri_provenance = mw_provenance input, mri_key = mw_key input, mri_value = mw_value input,
                           mri_createdAt = now, mri_expiresAt = expiresAt, mri_version = Some version,
                           mri_previousVersionId = map_option mr_id latest \<rparr> (im_draws st1);
                       st2 = store_entry scope (mw_key input)
                               \<lparr> ke_versions = ke_versions entry @ [rec], ke_tombstone = None \<rparr> (st1\<lparr> im_draws := n \<rparr>)
                   in audited_return D
                        (memory_audit_entry scope Op_write (Some (mr_id rec)) (actor_of access []) Mem_ALLOWED ''written'' now)
                        (Mem_ok rec) st2)))"

definition mem_read ::
  "'s ImmutableMemoryStoreDeps \<Rightarrow> MemoryAccessContext option \<Rightarrow> string \<Rightarrow> string \<Rightarrow> 's ImmutableMemoryStore \<Rightarrow>
   MemoryRecord MemoryResult result \<times> 's ImmutableMemoryStore" where
  "mem_read D access key now st =
     (let scope = scopeOf access; actor = actor_of access [] in
      case guard_access D access scope ''memory.read'' Op_read now st of
        (Inl err, st1) \<Rightarrow> (Inl err, st1)
      | (Inr (Mem_refused code msg), st1) \<Rightarrow> (Inr (Mem_refused code msg), st1)
      | (Inr (Mem_ok _), st1) \<Rightarrow>
          (let missing = audited_return D (memory_audit_entry scope Op_read None actor Mem_DENIED ''not_found'' now)
                           (Mem_refused ''not_found'' ''Memory record not found.'') st1
           in case map_of (partition_of scope st1) key of
                None \<Rightarrow> missing
              | Some e \<Rightarrow>
                  if ke_tombstone e \<noteq> None \<or> ke_versions e = [] then missing
                  else
                    (let latest = last (ke_versions e) in
                     if isRecordExpired latest now then
                       audited_return D (memory_audit_entry scope Op_expire (Some (mr_id latest)) actor Mem_DENIED ''expired'' now)
                         (Mem_refused ''expired'' ''Memory record is expired.'') st1
                     else
                       audited_return D (memory_audit_entry scope Op_read (Some (mr_id latest)) actor Mem_ALLOWED ''read'' now)
                         (Mem_ok latest) st1)))"

definition mem_history ::
  "'s ImmutableMemoryStoreDeps \<Rightarrow> MemoryAccessContext option \<Rightarrow> string \<Rightarrow> string \<Rightarrow> 's ImmutableMemoryStore \<Rightarrow>
   MemoryRecord list MemoryResult result \<times> 's ImmutableMemoryStore" where
  "mem_history D access key now st =
     (let scope = scopeOf access in
      case guard_access D access scope ''memory.read'' Op_read now st of
        (Inl err, st1) \<Rightarrow> (Inl err, st1)
      | (Inr (Mem_refused code msg), st1) \<Rightarrow> (Inr (Mem_refused code msg), st1)
      | (Inr (Mem_ok _), st1) \<Rightarrow>
          (Inr (Mem_ok (case map_of (partition_of scope st1) key of Some e \<Rightarrow> ke_versions e | None \<Rightarrow> [])), st1))"

definition mem_delete ::
  "'s ImmutableMemoryStoreDeps \<Rightarrow> MemoryAccessContext option \<Rightarrow> string \<Rightarrow> DeleteApproval option \<Rightarrow> MemoryPolicy option \<Rightarrow>
   string \<Rightarrow> 's ImmutableMemoryStore \<Rightarrow> unit MemoryResult result \<times> 's ImmutableMemoryStore" where
  "mem_delete D access key approval policy now st =
     (let scope = scopeOf access; actor = actor_of access [] in
      case guard_access D access scope ''memory.delete'' Op_delete now st of
        (Inl err, st1) \<Rightarrow> (Inl err, st1)
      | (Inr (Mem_refused code msg), st1) \<Rightarrow> (Inr (Mem_refused code msg), st1)
      | (Inr (Mem_ok _), st1) \<Rightarrow>
          (case map_of (partition_of scope st1) key of
             None \<Rightarrow> (Inr (Mem_refused ''not_found'' ''Memory record not found.''), st1)
           | Some e \<Rightarrow>
               if ke_versions e = [] then (Inr (Mem_refused ''not_found'' ''Memory record not found.''), st1)
               else
                 (let decision = evaluateDelete policy approval in
                  if \<not> md_ok decision then
                    audited_return D (memory_audit_entry scope Op_delete None actor Mem_DENIED (md_reasonCode decision) now)
                      (Mem_refused (md_reasonCode decision) (md_message decision)) st1
                  else
                    audited_return D (memory_audit_entry scope Op_delete None actor Mem_ALLOWED ''deleted'' now) (Mem_ok ())
                      (store_entry scope key (e\<lparr> ke_tombstone := Some (the approval, now) \<rparr>) st1))))"

definition live_entry :: "KeyEntry \<Rightarrow> bool" where
  "live_entry e \<longleftrightarrow> ke_tombstone e = None \<and> ke_versions e \<noteq> []"

definition mem_search ::
  "'s ImmutableMemoryStoreDeps \<Rightarrow> MemoryAccessContext option \<Rightarrow> (MemoryRecord \<Rightarrow> bool) \<Rightarrow> string \<Rightarrow> 's ImmutableMemoryStore \<Rightarrow>
   MemoryRecord list MemoryResult result \<times> 's ImmutableMemoryStore" where
  "mem_search D access predicate now st =
     (let scope = scopeOf access in
      case guard_access D access scope ''memory.read'' Op_read now st of
        (Inl err, st1) \<Rightarrow> (Inl err, st1)
      | (Inr (Mem_refused code msg), st1) \<Rightarrow> (Inr (Mem_refused code msg), st1)
      | (Inr (Mem_ok _), st1) \<Rightarrow>
          (let results = filter (\<lambda>r. \<not> isRecordExpired r now \<and> predicate r)
                 (map (\<lambda>(k, e). last (ke_versions e)) (filter (\<lambda>(k, e). live_entry e) (partition_of scope st1)))
           in audited_return D (memory_audit_entry scope Op_read None (actor_of access []) Mem_ALLOWED ''search'' now) (Mem_ok results) st1))"

section \<open>What an operation does to the partitions\<close>

definition memory_authorized :: "'s ImmutableMemoryStoreDeps \<Rightarrow> MemoryAccessContext option \<Rightarrow> string \<Rightarrow> string \<Rightarrow> bool" where
  "memory_authorized D access permission now \<longleftrightarrow>
     \<not> (mds_mode D = Production \<and> mas_testOnly (mds_audit D)) \<and>
     (\<exists>a. access = Some a \<and> isNonEmptyString (ma_tenantId a) \<and> isNonEmptyString (ma_workspaceId a) \<and>
        isNonEmptyString (ma_sessionExpiresAt a) \<and> isFuture (ma_sessionExpiresAt a) now \<and> permission \<in> set (ma_permissions a))"

lemma audited_returnE:
  assumes "audited_return D i res st = (r, st')"
  obtains sink where "st' = st\<lparr> im_sink := sink \<rparr>" "r = Inr res \<or> (\<exists>err. r = Inl err)"
  using assms by (cases "mas_append (mds_audit D) i (im_sink st)"; cases "fst (mas_append (mds_audit D) i (im_sink st))")
    (auto simp: audited_return_def mem_audit_def)

lemma audited_return_state: "\<exists>sink. snd (audited_return D i res st) = st\<lparr> im_sink := sink \<rparr>"
  by (metis audited_returnE prod.collapse)

lemma guard_cases:
  obtains (go) "memory_authorized D access permission now"
      "guard_access D access (scopeOf access) permission operation now st = (Inr (Mem_ok ()), st)"
  | (thrown) err sink where "guard_access D access (scopeOf access) permission operation now st = (Inl err, st\<lparr> im_sink := sink \<rparr>)"
      "\<not> memory_authorized D access permission now"
  | (refused) code msg sink where "guard_access D access (scopeOf access) permission operation now st = (Inr (Mem_refused code msg), st\<lparr> im_sink := sink \<rparr>)"
      "\<not> memory_authorized D access permission now"
proof (cases "mds_mode D = Production \<and> mas_testOnly (mds_audit D)")
  case True
  then show ?thesis using refused [of _ _ "im_sink st"] by (simp add: guard_access_def memory_authorized_def)
next
  case mode: False
  let ?d = "authorizeMemoryAccess access (scopeOf access) permission now"
  have ok: "md_ok ?d \<longleftrightarrow> memory_authorized D access permission now"
    using mode by (auto simp: memory_authorized_def authorizeMemoryAccess_def scopeOf_def mem_deny_def mem_allow_def split: option.splits)
  show ?thesis
  proof (cases "md_ok ?d")
    case True
    then show ?thesis using go mode ok by (simp add: guard_access_def)
  next
    case False
    let ?g = "audited_return D
        (memory_audit_entry (safeScope access (scopeOf access)) operation None (actor_of access ''unknown'') Mem_DENIED (md_reasonCode ?d) now)
        (Mem_refused (md_reasonCode ?d) (md_message ?d) :: unit MemoryResult) st"
    obtain r st' where g: "?g = (r, st')" by (cases ?g) blast
    then have "guard_access D access (scopeOf access) permission operation now st = (r, st')"
      unfolding guard_access_def Let_def using mode False by auto
    then show ?thesis using audited_returnE [OF g] refused thrown ok False by metis
  qed
qed

text \<open>The versions of a key of a scope, and whether the last operation on it was a delete.\<close>

definition entry_of :: "MemoryScope \<Rightarrow> string \<Rightarrow> 's ImmutableMemoryStore \<Rightarrow> KeyEntry" where
  "entry_of s key st =
     (case map_of (partition_of s st) key of Some e \<Rightarrow> e | None \<Rightarrow> \<lparr> ke_versions = [], ke_tombstone = None \<rparr>)"

definition versions_of :: "MemoryScope \<Rightarrow> string \<Rightarrow> 's ImmutableMemoryStore \<Rightarrow> MemoryRecord list" where
  "versions_of s key st = ke_versions (entry_of s key st)"

lemma partition_of_sink [simp]: "partition_of s (st\<lparr> im_sink := x \<rparr>) = partition_of s st"
  "partition_of s (st\<lparr> im_draws := n \<rparr>) = partition_of s st"
  by (simp_all add: partition_of_def)

lemma entry_of_sink [simp]: "entry_of s key (st\<lparr> im_sink := x \<rparr>) = entry_of s key st"
  "entry_of s key (st\<lparr> im_draws := n \<rparr>) = entry_of s key st"
  by (simp_all add: entry_of_def)

lemma entry_of_store [simp]:
  "entry_of s key (store_entry s' key' e st) = (if partition_key s = partition_key s' \<and> key = key' then e else entry_of s key st)"
  by (auto simp: entry_of_def partition_of_def store_entry_def update_conv' split: option.split)

lemma entry_of_cong: "partition_key s = partition_key s' \<Longrightarrow> entry_of s key st = entry_of s' key st"
  by (simp add: entry_of_def partition_of_def)

text \<open>
  The record that a write appends: the next version of its key, in the scope of the access.
\<close>

definition next_record ::
  "crypto \<Rightarrow> MemoryAccessContext option \<Rightarrow> MemoryWriteInput \<Rightarrow> string \<Rightarrow> string option \<Rightarrow> 's ImmutableMemoryStore \<Rightarrow> MemoryRecord \<times> nat" where
  "next_record C access input now expiresAt st =
     (let vs = versions_of (scopeOf access) (mw_key input) st in
      createMemoryRecord C
        \<lparr> mri_scope = scopeOf access, mri_tier = mw_tier input, mri_classification = mw_classification input,
          mri_provenance = mw_provenance input, mri_key = mw_key input, mri_value = mw_value input,
          mri_createdAt = now, mri_expiresAt = expiresAt,
          mri_version = Some (if vs = [] then 1 else mr_version (last vs) + 1),
          mri_previousVersionId = (if vs = [] then None else Some (mr_id (last vs))) \<rparr> (im_draws st))"

lemma guard_go:
  "memory_authorized D access permission now \<Longrightarrow>
     guard_access D access (scopeOf access) permission operation now st = (Inr (Mem_ok ()), st)"
  by (rule guard_cases [of D access permission now operation st]) auto

lemma mem_write_eq:
  assumes "memory_authorized D access ''memory.write'' now" "expiry_of input now = Inr expiresAt"
    and "next_record C access input now expiresAt st = (rec, n)"
  shows "mem_write C D access input now st =
    audited_return D (memory_audit_entry (scopeOf access) Op_write (Some (mr_id rec)) (actor_of access []) Mem_ALLOWED ''written'' now)
      (Mem_ok rec)
      (store_entry (scopeOf access) (mw_key input)
        \<lparr> ke_versions = versions_of (scopeOf access) (mw_key input) st @ [rec], ke_tombstone = None \<rparr> (st\<lparr> im_draws := n \<rparr>))"
  using assms(3) unfolding mem_write_def Let_def guard_go [OF assms(1)] prod.case sum.case MemoryResult.case assms(2) entry_of_def [symmetric]
  by (cases "ke_versions (entry_of (scopeOf access) (mw_key input) st) = []")
    (simp_all add: next_record_def versions_of_def Let_def)

lemma mem_write_adds_version:
  assumes "memory_authorized D access ''memory.write'' now" "expiry_of input now = Inr expiresAt"
  obtains rec where "versions_of (scopeOf access) (mw_key input) (snd (mem_write C D access input now st)) =
    versions_of (scopeOf access) (mw_key input) st @ [rec]"
proof -
  obtain rec n where n: "next_record C access input now expiresAt st = (rec, n)" by fastforce
  let ?st = "store_entry (scopeOf access) (mw_key input)
    \<lparr> ke_versions = versions_of (scopeOf access) (mw_key input) st @ [rec], ke_tombstone = None \<rparr> (st\<lparr> im_draws := n \<rparr>)"
  have "\<exists>sink. snd (mem_write C D access input now st) = ?st\<lparr> im_sink := sink \<rparr>"
    unfolding mem_write_eq [OF assms n] by (rule audited_return_state)
  then obtain sink where "snd (mem_write C D access input now st) = ?st\<lparr> im_sink := sink \<rparr>" ..
  then show ?thesis by (intro that [of rec]) (simp add: versions_of_def)
qed

lemma mem_write_cases:
  assumes "mem_write C D access input now st = (r, st')"
  obtains (same) sink where "st' = st\<lparr> im_sink := sink \<rparr>" "\<And>rec. r \<noteq> Inr (Mem_ok rec)"
  | (new) rec n expiresAt sink where "memory_authorized D access ''memory.write'' now" "expiry_of input now = Inr expiresAt"
      "next_record C access input now expiresAt st = (rec, n)"
      "st' = (store_entry (scopeOf access) (mw_key input)
                \<lparr> ke_versions = versions_of (scopeOf access) (mw_key input) st @ [rec], ke_tombstone = None \<rparr>
                (st\<lparr> im_draws := n \<rparr>))\<lparr> im_sink := sink \<rparr>"
      "r = Inr (Mem_ok rec) \<or> (\<exists>err. r = Inl err)"
proof (rule guard_cases [of D access "''memory.write''" now Op_write st])
  assume g: "memory_authorized D access ''memory.write'' now"
    "guard_access D access (scopeOf access) ''memory.write'' Op_write now st = (Inr (Mem_ok ()), st)"
  show ?thesis
  proof (cases "expiry_of input now")
    case (Inl err)
    then show ?thesis using assms g(2) by (intro same [of "im_sink st"]) (auto simp: mem_write_def Let_def)
  next
    case (Inr expiresAt)
    obtain rec n where n: "next_record C access input now expiresAt st = (rec, n)" by fastforce
    show ?thesis using assms unfolding mem_write_eq [OF g(1) Inr n]
      by (rule audited_returnE) (rule new [OF g(1) Inr n])
  qed
qed (use assms same in \<open>auto simp: mem_write_def Let_def\<close>)

lemma mem_delete_cases:
  assumes "mem_delete D access key approval policy now st = (r, st')"
  obtains (same) sink where "st' = st\<lparr> im_sink := sink \<rparr>" "r \<noteq> Inr (Mem_ok ())"
  | (deleted) a sink where "memory_authorized D access ''memory.delete'' now" "versions_of (scopeOf access) key st \<noteq> []"
      "approval = Some a" "md_ok (evaluateDelete policy approval)"
      "st' = (store_entry (scopeOf access) key ((entry_of (scopeOf access) key st)\<lparr> ke_tombstone := Some (a, now) \<rparr>) st)\<lparr> im_sink := sink \<rparr>"
      "r = Inr (Mem_ok ()) \<or> (\<exists>err. r = Inl err)"
proof (rule guard_cases [of D access "''memory.delete''" now Op_delete st])
  assume g: "memory_authorized D access ''memory.delete'' now"
    "guard_access D access (scopeOf access) ''memory.delete'' Op_delete now st = (Inr (Mem_ok ()), st)"
  note d = assms [unfolded mem_delete_def Let_def g(2) prod.case sum.case MemoryResult.case]
  show ?thesis
  proof (cases "map_of (partition_of (scopeOf access) st) key")
    case None
    then show ?thesis using d by (intro same [of "im_sink st"]) auto
  next
    case (Some e)
    have e: "entry_of (scopeOf access) key st = e" by (simp add: entry_of_def Some)
    show ?thesis
    proof (cases "ke_versions e = []")
      case True
      then show ?thesis using d Some by (intro same [of "im_sink st"]) auto
    next
      case v: False
      show ?thesis
      proof (cases "md_ok (evaluateDelete policy approval)")
        case False
        let ?m = "Mem_refused (md_reasonCode (evaluateDelete policy approval)) (md_message (evaluateDelete policy approval)) :: unit MemoryResult"
        have "audited_return D (memory_audit_entry (scopeOf access) Op_delete None (actor_of access []) Mem_DENIED
            (md_reasonCode (evaluateDelete policy approval)) now) ?m st = (r, st')"
          using d Some v False by simp
        then show ?thesis by (rule audited_returnE) (rule same, auto)
      next
        case True
        then obtain a where a: "approval = Some a" by (auto simp: evaluateDelete_def mem_deny_def split: option.splits if_splits)
        let ?st = "store_entry (scopeOf access) key (e\<lparr> ke_tombstone := Some (a, now) \<rparr>) st"
        have "audited_return D (memory_audit_entry (scopeOf access) Op_delete None (actor_of access []) Mem_ALLOWED ''deleted'' now) (Mem_ok ()) ?st = (r, st')"
          using d Some v True a by simp
        then show ?thesis by (rule audited_returnE) (rule deleted [OF g(1) _ a True], use v e in \<open>auto simp: versions_of_def\<close>)
      qed
    qed
  qed
qed (use assms same in \<open>auto simp: mem_delete_def Let_def\<close>)

text \<open>The operations that only look: nothing but the sink changes.\<close>

lemma mem_read_state: "\<exists>sink. snd (mem_read D access key now st) = st\<lparr> im_sink := sink \<rparr>"
proof (rule guard_cases [of D access "''memory.read''" now Op_read st])
  assume g: "guard_access D access (scopeOf access) ''memory.read'' Op_read now st = (Inr (Mem_ok ()), st)"
  show ?thesis unfolding mem_read_def Let_def g prod.case sum.case MemoryResult.case
    by (simp add: audited_return_state split: option.split)
qed (auto simp: mem_read_def Let_def)

lemma mem_history_state: "\<exists>sink. snd (mem_history D access key now st) = st\<lparr> im_sink := sink \<rparr>"
proof (rule guard_cases [of D access "''memory.read''" now Op_read st])
  assume g: "guard_access D access (scopeOf access) ''memory.read'' Op_read now st = (Inr (Mem_ok ()), st)"
  show ?thesis unfolding mem_history_def Let_def g prod.case sum.case MemoryResult.case by (intro exI [of _ "im_sink st"]) simp
qed (auto simp: mem_history_def Let_def)

lemma mem_search_state: "\<exists>sink. snd (mem_search D access predicate now st) = st\<lparr> im_sink := sink \<rparr>"
proof (rule guard_cases [of D access "''memory.read''" now Op_read st])
  assume g: "guard_access D access (scopeOf access) ''memory.read'' Op_read now st = (Inr (Mem_ok ()), st)"
  show ?thesis unfolding mem_search_def Let_def g prod.case sum.case MemoryResult.case
    by (rule audited_return_state)
qed (auto simp: mem_search_def Let_def)

section \<open>Policies, lifecycle and snapshots\<close>

text \<open>A deleted record comes back only by a restore, and every state leads to the active one.\<close>

lemma lifecycle_no_dead_end: "canTransition\<^sup>+\<^sup>+ s Life_active"
proof -
  have a: "canTransition\<^sup>+\<^sup>+ Life_restored Life_active" by (rule tranclp.r_into_trancl) (simp add: canTransition_def)
  have "canTransition\<^sup>+\<^sup>+ t Life_active" if "canTransition t Life_restored" for t
    using that a by (rule tranclp_into_tranclp2)
  then have d: "canTransition\<^sup>+\<^sup>+ Life_deleted Life_active" "canTransition\<^sup>+\<^sup>+ Life_expired Life_active" "canTransition\<^sup>+\<^sup>+ Life_archived Life_active"
    by (simp_all add: canTransition_def)
  then have "canTransition\<^sup>+\<^sup>+ Life_active Life_active"
    using tranclp_into_tranclp2 [of canTransition Life_active Life_deleted] by (simp add: canTransition_def)
  then show ?thesis using a d by (cases s) (auto intro: tranclp.r_into_trancl simp: canTransition_def)
qed

lemma lifecycle_from_deleted: "fst (lifecycle_transition Life_deleted t) \<longleftrightarrow> t = Life_restored"
  by (cases t) (simp_all add: lifecycle_transition_def canTransition_def)

text \<open>A snapshot verifies when it is made, and does not depend on the order of the records.\<close>

lemma snapshot_verifies: "verifySnapshotIntegrity C (createMemorySnapshot C scope records kind now snapshotId)"
  by (simp add: verifySnapshotIntegrity_def createMemorySnapshot_def snapshotMeta_def Let_def)

lemma snapshot_of_multiset:
  assumes "mset (map mr_contentHash rs) = mset (map mr_contentHash rs')"
  shows "createMemorySnapshot C scope rs kind now sid = createMemorySnapshot C scope rs' kind now sid"
proof -
  have "sort (map mr_contentHash rs) = sort (map mr_contentHash rs')" using assms by (intro properties_for_sort) simp_all
  moreover have "length rs = length rs'" using assms by (metis length_map size_mset)
  ultimately show ?thesis by (simp add: createMemorySnapshot_def)
qed

text \<open>A snapshot is restored only intact, into its own scope, and with the approval of a human.\<close>

lemma snapshot_restore_iff:
  "md_ok (evaluateSnapshotRestore C s approval target) \<longleftrightarrow>
     verifySnapshotIntegrity C s \<and> mem_sameScope (sn_scope s) target \<and>
     (\<exists>a. approval = Some a \<and> ra_approverIsHuman a \<and> isNonEmptyString (ra_approvalId a))"
  by (auto simp: evaluateSnapshotRestore_def evaluateRestore_def mem_allow_def mem_deny_def mem_sameScope_def Let_def split: option.split)

text \<open>What the sink keeps on every append, every operation of the store keeps.\<close>

lemma audited_return_sink: "im_sink (snd (audited_return D i r st)) = snd (mas_append (mds_audit D) i (im_sink st))"
  by (auto simp: audited_return_def mem_audit_def split: prod.split sum.split)

lemma store_entry_sink [simp]: "im_sink (store_entry s key e st) = im_sink st"
  by (simp add: store_entry_def)

lemma guard_sink:
  assumes "guard_access D access scope permission operation now st = (r, st1)"
  shows "im_sink st1 = im_sink st \<or> (\<exists>i. im_sink st1 = snd (mas_append (mds_audit D) i (im_sink st)))"
proof -
  have s: "st1 = snd (guard_access D access scope permission operation now st)" using assms by simp
  show ?thesis unfolding s guard_access_def Let_def by (auto simp: audited_return_sink)
qed

section \<open>Reachable stores\<close>

inductive mem_step :: "crypto \<Rightarrow> 's ImmutableMemoryStoreDeps \<Rightarrow> 's ImmutableMemoryStore \<Rightarrow> 's ImmutableMemoryStore \<Rightarrow> bool"
  for C D where
  step_write: "mem_write C D access input now st = (r, st') \<Longrightarrow> mem_step C D st st'"
| step_read: "mem_step C D st (snd (mem_read D access key now st))"
| step_history: "mem_step C D st (snd (mem_history D access key now st))"
| step_delete: "mem_delete D access key approval policy now st = (r, st') \<Longrightarrow> mem_step C D st st'"
| step_search: "mem_step C D st (snd (mem_search D access predicate now st))"

inductive mem_reach :: "crypto \<Rightarrow> 's ImmutableMemoryStoreDeps \<Rightarrow> 's ImmutableMemoryStore \<Rightarrow> bool" for C D where
  reach_empty: "im_partitions st = Map.empty \<Longrightarrow> mem_reach C D st"
| reach_step: "mem_reach C D st \<Longrightarrow> mem_step C D st st' \<Longrightarrow> mem_reach C D st'"

lemma mem_step_sink:
  assumes p: "\<And>i s. P s \<Longrightarrow> P (snd (mas_append (mds_audit D) i s))" and "mem_step C D st st'" and "P (im_sink st)"
  shows "P (im_sink st')"
proof -
  have g: "P (im_sink st1)" if "guard_access D access scope permission operation now st = (r, st1)" for access scope permission operation now r st1
    using guard_sink [OF that] p assms(3) by auto
  have a: "P (im_sink (snd (audited_return D i r st1)))" if "P (im_sink st1)" for i r and st1 :: "'a ImmutableMemoryStore"
    using p [OF that] by (simp add: audited_return_sink)
  from assms(2) show ?thesis
  proof cases
    case (step_write access input now r)
    then have s: "st' = snd (mem_write C D access input now st)" by simp
    show ?thesis unfolding s mem_write_def by (auto simp: Let_def split: prod.split sum.split MemoryResult.split dest!: g intro!: a)
  next
    case (step_read access key now)
    show ?thesis unfolding step_read mem_read_def by (auto simp: Let_def split: prod.split sum.split MemoryResult.split option.split dest!: g intro!: a)
  next
    case (step_history access key now)
    show ?thesis unfolding step_history mem_history_def by (auto simp: Let_def split: prod.split sum.split MemoryResult.split dest!: g)
  next
    case (step_delete access key approval policy now r)
    then have s: "st' = snd (mem_delete D access key approval policy now st)" by simp
    show ?thesis unfolding s mem_delete_def by (auto simp: Let_def split: prod.split sum.split MemoryResult.split option.split dest!: g intro!: a)
  next
    case (step_search access predicate now)
    show ?thesis unfolding step_search mem_search_def by (auto simp: Let_def split: prod.split sum.split MemoryResult.split dest!: g intro!: a)
  qed
qed

text \<open>
  A sound entry of a key: the versions are numbered from 1, each carries the key, the partition and the
  hash of its content and names its predecessor; a tombstone holds the approval of a human with a reason.
\<close>

definition version_ok :: "crypto \<Rightarrow> string \<Rightarrow> string \<Rightarrow> MemoryRecord list \<Rightarrow> nat \<Rightarrow> bool" where
  "version_ok C pk key vs i \<longleftrightarrow>
     mr_version (vs ! i) = Suc i \<and> mr_key (vs ! i) = key \<and> partition_key (mr_scope (vs ! i)) = pk \<and>
     verifyRecordIntegrity C (vs ! i) \<and>
     mr_previousVersionId (vs ! i) = (if i = 0 then None else Some (mr_id (vs ! (i - 1))))"

definition memory_entry_ok :: "crypto \<Rightarrow> string \<Rightarrow> string \<Rightarrow> KeyEntry \<Rightarrow> bool" where
  "memory_entry_ok C pk key e \<longleftrightarrow>
     (\<forall>i < length (ke_versions e). version_ok C pk key (ke_versions e) i \<and> mr_id (ke_versions e ! i) \<noteq> []) \<and>
     (\<forall>a at. ke_tombstone e = Some (a, at) \<longrightarrow>
        da_approverIsHuman a \<and> isNonEmptyString (da_approvalId a) \<and> isNonEmptyString (da_reason a))"

definition store_ok :: "crypto \<Rightarrow> 's ImmutableMemoryStore \<Rightarrow> bool" where
  "store_ok C st \<longleftrightarrow> (\<forall>s key. memory_entry_ok C (partition_key s) key (entry_of s key st))"

lemma store_ok_sink [simp]: "store_ok C (st\<lparr> im_sink := x \<rparr>) \<longleftrightarrow> store_ok C st"
  "store_ok C (st\<lparr> im_draws := n \<rparr>) \<longleftrightarrow> store_ok C st"
  by (simp_all add: store_ok_def)

lemma store_ok_entry: "store_ok C st \<Longrightarrow> memory_entry_ok C (partition_key s) key e \<Longrightarrow> store_ok C (store_entry s key e st)"
  by (auto simp: store_ok_def)

lemma version_ok_append: "i < length vs \<Longrightarrow> version_ok C pk key (vs @ ws) i \<longleftrightarrow> version_ok C pk key vs i"
  by (auto simp: version_ok_def nth_append)

lemma next_record_fields:
  assumes "next_record C access input now expiresAt st = (rec, n)"
  defines "vs \<equiv> versions_of (scopeOf access) (mw_key input) st"
  shows "mr_id rec \<noteq> []" "mr_scope rec = scopeOf access" "mr_key rec = mw_key input" "mr_value rec = mw_value input"
    "mr_version rec = (if vs = [] then 1 else Suc (mr_version (last vs)))" "verifyRecordIntegrity C rec"
    "mr_previousVersionId rec = (if vs = [] then None else truthy_opt (Some (mr_id (last vs))))"
    "mr_expiresAt rec = truthy_opt expiresAt" "mr_createdAt rec = now"
  using assms by (auto simp: next_record_def createMemoryRecord_def Let_def newId_def verifyRecordIntegrity_def truthy_opt_def)

lemma next_record_ok:
  assumes "store_ok C st" "next_record C access input now expiresAt st = (rec, n)"
  shows "memory_entry_ok C (partition_key (scopeOf access)) (mw_key input)
    \<lparr> ke_versions = versions_of (scopeOf access) (mw_key input) st @ [rec], ke_tombstone = None \<rparr>"
proof -
  let ?vs = "versions_of (scopeOf access) (mw_key input) st"
  note f = next_record_fields [OF assms(2)]
  have old: "version_ok C (partition_key (scopeOf access)) (mw_key input) ?vs i \<and> mr_id (?vs ! i) \<noteq> []" if "i < length ?vs" for i
    using assms(1) that by (auto simp: store_ok_def memory_entry_ok_def versions_of_def)
  have "version_ok C (partition_key (scopeOf access)) (mw_key input) (?vs @ [rec]) (length ?vs)"
  proof (cases "?vs = []")
    case True
    then show ?thesis using f by (simp add: version_ok_def)
  next
    case False
    then have "mr_version (last ?vs) = length ?vs" "mr_id (last ?vs) \<noteq> []"
      using old [of "length ?vs - 1"] by (simp_all add: version_ok_def last_conv_nth)
    then show ?thesis using f False by (simp add: version_ok_def nth_append truthy_opt_def last_conv_nth)
  qed
  then show ?thesis using old f(1) by (auto simp: memory_entry_ok_def version_ok_append less_Suc_eq nth_append)
qed

lemma evaluateDelete_ok:
  "md_ok (evaluateDelete policy (Some a)) \<longleftrightarrow>
     map_option lh_active (Option.bind policy mpl_legalHold) \<noteq> Some True \<and>
     da_approverIsHuman a \<and> isNonEmptyString (da_approvalId a) \<and> isNonEmptyString (da_reason a)"
  by (auto simp: evaluateDelete_def mem_deny_def mem_allow_def)

text \<open>One step keeps every version of every key, and the store sound.\<close>

lemma mem_step_keeps:
  assumes "mem_step C D st st'"
  shows "prefix (versions_of s key st) (versions_of s key st') \<and> (store_ok C st \<longrightarrow> store_ok C st')"
  using assms
proof cases
  case (step_write access input now r)
  then show ?thesis
  proof (cases rule: mem_write_cases)
    case (new rec n expiresAt sink)
    have "prefix (versions_of s key st) (versions_of s key st')"
      using entry_of_cong [of s "scopeOf access" key st] by (auto simp: new(4) versions_of_def)
    then show ?thesis using next_record_ok [OF _ new(3)] by (simp add: new(4) store_ok_entry)
  qed (auto simp: versions_of_def)
next
  case (step_delete access key' approval policy now r)
  then show ?thesis
  proof (cases rule: mem_delete_cases)
    case (deleted a sink)
    have "memory_entry_ok C (partition_key (scopeOf access)) key' ((entry_of (scopeOf access) key' st)\<lparr> ke_tombstone := Some (a, now) \<rparr>)" if "store_ok C st"
      using that deleted(3,4) by (auto simp: store_ok_def memory_entry_ok_def evaluateDelete_ok)
    moreover have "prefix (versions_of s key st) (versions_of s key st')"
      using entry_of_cong [of s "scopeOf access" key st] by (auto simp: deleted(5) versions_of_def)
    ultimately show ?thesis by (simp add: deleted(5) store_ok_entry)
  qed (auto simp: versions_of_def)
next
  case (step_read access key now)
  then show ?thesis using mem_read_state [of D access key now st] by (auto simp: versions_of_def)
next
  case (step_history access key now)
  then show ?thesis using mem_history_state [of D access key now st] by (auto simp: versions_of_def)
next
  case (step_search access predicate now)
  then show ?thesis using mem_search_state [of D access predicate now st] by (auto simp: versions_of_def)
qed

lemma mem_reach_ok: "mem_reach C D st \<Longrightarrow> store_ok C st"
proof (induction rule: mem_reach.induct)
  case (reach_empty st)
  then show ?case by (simp add: store_ok_def entry_of_def partition_of_def memory_entry_ok_def)
next
  case (reach_step st st')
  then show ?case using mem_step_keeps by blast
qed

section \<open>Properties\<close>


definition demo_memory_deps :: "MemoryAuditInput list ImmutableMemoryStoreDeps" where
  "demo_memory_deps = \<lparr> mds_mode = Test, mds_audit = \<lparr> mas_testOnly = True, mas_append = (\<lambda>i s. (Inr (), s @ [i])) \<rparr> \<rparr>"

definition demo_access :: MemoryAccessContext where
  "demo_access = \<lparr> ma_tenantId = ''t1'', ma_workspaceId = ''w1'', ma_actorId = ''u1'',
     ma_permissions = [''memory.write'', ''memory.read'', ''memory.delete''], ma_sessionExpiresAt = ''2026-01-02T00:00:00.000Z'' \<rparr>"

definition demo_note :: MemoryWriteInput where
  "demo_note = \<lparr> mw_tier = Tier_long_term, mw_classification = Mem_internal,
     mw_provenance = \<lparr> mp_source = From_user, mp_trusted = True, mp_actorId = ''u1'' \<rparr>,
     mw_key = ''plan'', mw_value = JStr ''draft'', mw_ttlMs = None \<rparr>"

definition demo_memory :: "MemoryAuditInput list ImmutableMemoryStore" where
  "demo_memory = \<lparr> im_partitions = Map.empty, im_sink = [], im_draws = 0 \<rparr>"

definition demo_scope :: MemoryScope where
  "demo_scope = \<lparr> msc_tenantId = ''t1'', msc_workspaceId = ''w1'', msc_actorId = Some ''u1'' \<rparr>"


text \<open>
  The memory as a map from tenant, workspace and key to the versions and a mark of deletion. Tenants
  whose id has no unit separator have partitions of their own.
\<close>

definition memory_view :: "'s ImmutableMemoryStore \<Rightarrow> string \<times> string \<times> string \<Rightarrow> MemoryRecord list \<times> bool" where
  "memory_view st = (\<lambda>(t, w, key).
     if CHR 0x1F \<in> set t then ([], False)
     else (let e = entry_of \<lparr> msc_tenantId = t, msc_workspaceId = w, msc_actorId = None \<rparr> key st
           in (ke_versions e, ke_tombstone e \<noteq> None)))"

lemma memory_view_sink [simp]: "memory_view (st\<lparr> im_sink := x \<rparr>) = memory_view st" "memory_view (st\<lparr> im_draws := n \<rparr>) = memory_view st"
  by (simp_all add: memory_view_def fun_eq_iff)

lemma partition_key_inject:
  "CHR 0x1F \<notin> set (msc_tenantId s) \<Longrightarrow> CHR 0x1F \<notin> set (msc_tenantId s') \<Longrightarrow> partition_key s = partition_key s' \<longleftrightarrow> mem_sameScope s s'"
  by (simp add: partition_key_def append_sep_inject mem_sameScope_def)

lemma scope_of_access:
  "partition_key (scopeOf (Some a)) = partition_key \<lparr> msc_tenantId = ma_tenantId a, msc_workspaceId = ma_workspaceId a, msc_actorId = None \<rparr>"
  by (simp add: scopeOf_def partition_key_def)

lemma memory_view_own:
  assumes "CHR 0x1F \<notin> set (ma_tenantId a)"
  shows "memory_view st (ma_tenantId a, ma_workspaceId a, key) =
    (versions_of (scopeOf (Some a)) key st, ke_tombstone (entry_of (scopeOf (Some a)) key st) \<noteq> None)"
  using assms entry_of_cong [OF scope_of_access [of a], of key st] by (simp add: memory_view_def versions_of_def Let_def)

lemma memory_view_store:
  assumes "CHR 0x1F \<notin> set (ma_tenantId a)"
  shows "memory_view (store_entry (scopeOf (Some a)) key e st) =
    (memory_view st)((ma_tenantId a, ma_workspaceId a, key) := (ke_versions e, ke_tombstone e \<noteq> None))"
  using assms by (auto simp: memory_view_def fun_eq_iff Let_def scope_of_access partition_key_inject mem_sameScope_def)

lemma mem_read_result:
  assumes "mem_read D access key now st = (Inr res, st')"
  defines "e \<equiv> entry_of (scopeOf access) key st"
  shows "((\<exists>rec. res = Mem_ok rec) \<longleftrightarrow>
      memory_authorized D access ''memory.read'' now \<and> live_entry e \<and> \<not> isRecordExpired (last (ke_versions e)) now) \<and>
    (\<forall>rec. res = Mem_ok rec \<longrightarrow> rec = last (ke_versions e))"
proof (rule guard_cases [of D access "''memory.read''" now Op_read st])
  assume g: "memory_authorized D access ''memory.read'' now"
    "guard_access D access (scopeOf access) ''memory.read'' Op_read now st = (Inr (Mem_ok ()), st)"
  note r = assms(1) [unfolded mem_read_def Let_def g(2) prod.case sum.case MemoryResult.case]
  show ?thesis
  proof (cases "live_entry e")
    case False
    then have "audited_return D (memory_audit_entry (scopeOf access) Op_read None (actor_of access []) Mem_DENIED ''not_found'' now)
        (Mem_refused ''not_found'' ''Memory record not found.'') st = (Inr res, st')"
      using r by (auto simp: e_def entry_of_def live_entry_def split: option.splits if_splits)
    then show ?thesis using False by (auto elim: audited_returnE)
  next
    case True
    then have m: "map_of (partition_of (scopeOf access) st) key = Some e" "ke_tombstone e = None" "ke_versions e \<noteq> []"
      by (auto simp: e_def entry_of_def live_entry_def split: option.splits)
    show ?thesis
    proof (cases "isRecordExpired (last (ke_versions e)) now")
      case True
      then have "audited_return D (memory_audit_entry (scopeOf access) Op_expire (Some (mr_id (last (ke_versions e)))) (actor_of access []) Mem_DENIED ''expired'' now)
          (Mem_refused ''expired'' ''Memory record is expired.'') st = (Inr res, st')" using r m by simp
      then show ?thesis using True by (auto elim: audited_returnE)
    next
      case False
      then have "audited_return D (memory_audit_entry (scopeOf access) Op_read (Some (mr_id (last (ke_versions e)))) (actor_of access []) Mem_ALLOWED ''read'' now)
          (Mem_ok (last (ke_versions e))) st = (Inr res, st')" using r m by simp
      then show ?thesis using False g(1) \<open>live_entry e\<close> by (auto elim: audited_returnE)
    qed
  qed
qed (use assms(1) in \<open>auto simp: mem_read_def Let_def\<close>)

text \<open>
  C23. The store implements a versioned map. For a caller whose tenant id has no unit separator, and in
  any store: a write that succeeds appends one version to the caller's key, clears its mark of deletion
  and changes nothing for any other tenant, workspace or key; a delete that succeeds had a human
  approval and no legal hold, and only sets the mark; a refused operation changes nothing; a read
  changes nothing and gives the last version exactly when the caller is authorized and the key is
  there, not deleted and not expired.
\<close>

theorem memory_refines_versioned_map:
  assumes "CHR 0x1F \<notin> set (ma_tenantId a)"
  shows "(case mem_write C D (Some a) input now st of
            (Inr (Mem_ok rec), st') \<Rightarrow>
              memory_authorized D (Some a) ''memory.write'' now \<and> mr_value rec = mw_value input \<and>
              (let own = (ma_tenantId a, ma_workspaceId a, mw_key input) in
               memory_view st' = (memory_view st)(own := (fst (memory_view st own) @ [rec], False)))
          | (Inr (Mem_refused _ _), st') \<Rightarrow> memory_view st' = memory_view st
          | (Inl _, _) \<Rightarrow> True) \<and>
         (case mem_delete D (Some a) key approval policy now st of
            (Inr (Mem_ok _), st') \<Rightarrow>
              memory_authorized D (Some a) ''memory.delete'' now \<and>
              (\<exists>p. approval = Some p \<and> da_approverIsHuman p \<and> isNonEmptyString (da_reason p)) \<and>
              map_option lh_active (Option.bind policy mpl_legalHold) \<noteq> Some True \<and>
              (let own = (ma_tenantId a, ma_workspaceId a, key) in
               memory_view st' = (memory_view st)(own := (fst (memory_view st own), True)))
          | (Inr (Mem_refused _ _), st') \<Rightarrow> memory_view st' = memory_view st
          | (Inl _, _) \<Rightarrow> True) \<and>
         (case mem_read D (Some a) key now st of
            (Inr res, st') \<Rightarrow>
              memory_view st' = memory_view st \<and>
              (let (versions, deleted) = memory_view st (ma_tenantId a, ma_workspaceId a, key) in
               ((\<exists>rec. res = Mem_ok rec) \<longleftrightarrow>
                  memory_authorized D (Some a) ''memory.read'' now \<and> \<not> deleted \<and> versions \<noteq> [] \<and> \<not> isRecordExpired (last versions) now) \<and>
               (\<forall>rec. res = Mem_ok rec \<longrightarrow> rec = last versions))
          | (Inl _, _) \<Rightarrow> True)"
proof (intro conjI)
  note own = memory_view_own [OF assms] and upd = memory_view_store [OF assms]
  obtain r st' where w: "mem_write C D (Some a) input now st = (r, st')" by fastforce
  then show "case mem_write C D (Some a) input now st of
            (Inr (Mem_ok rec), st') \<Rightarrow>
              memory_authorized D (Some a) ''memory.write'' now \<and> mr_value rec = mw_value input \<and>
              (let own = (ma_tenantId a, ma_workspaceId a, mw_key input) in
               memory_view st' = (memory_view st)(own := (fst (memory_view st own) @ [rec], False)))
          | (Inr (Mem_refused _ _), st') \<Rightarrow> memory_view st' = memory_view st
          | (Inl _, _) \<Rightarrow> True"
  proof (cases rule: mem_write_cases)
    case (same sink)
    then show ?thesis by (auto simp: w split: sum.split MemoryResult.split)
  next
    case (new rec n expiresAt sink)
    then show ?thesis using next_record_fields(4) [OF new(3)] by (auto simp: w own upd Let_def)
  qed
next
  note own = memory_view_own [OF assms] and upd = memory_view_store [OF assms]
  obtain r st' where w: "mem_delete D (Some a) key approval policy now st = (r, st')" by fastforce
  then show "case mem_delete D (Some a) key approval policy now st of
            (Inr (Mem_ok _), st') \<Rightarrow>
              memory_authorized D (Some a) ''memory.delete'' now \<and>
              (\<exists>p. approval = Some p \<and> da_approverIsHuman p \<and> isNonEmptyString (da_reason p)) \<and>
              map_option lh_active (Option.bind policy mpl_legalHold) \<noteq> Some True \<and>
              (let own = (ma_tenantId a, ma_workspaceId a, key) in
               memory_view st' = (memory_view st)(own := (fst (memory_view st own), True)))
          | (Inr (Mem_refused _ _), st') \<Rightarrow> memory_view st' = memory_view st
          | (Inl _, _) \<Rightarrow> True"
  proof (cases rule: mem_delete_cases)
    case (same sink)
    then show ?thesis by (auto simp: w split: sum.split MemoryResult.split)
  next
    case (deleted p sink)
    then show ?thesis unfolding w prod.case by (auto simp: own upd Let_def evaluateDelete_ok versions_of_def)
  qed
next
  obtain r st' where w: "mem_read D (Some a) key now st = (r, st')" by fastforce
  moreover obtain sink where "st' = st\<lparr> im_sink := sink \<rparr>" using mem_read_state [of D "Some a" key now st] w by auto
  ultimately show "case mem_read D (Some a) key now st of
            (Inr res, st') \<Rightarrow>
              memory_view st' = memory_view st \<and>
              (let (versions, deleted) = memory_view st (ma_tenantId a, ma_workspaceId a, key) in
               ((\<exists>rec. res = Mem_ok rec) \<longleftrightarrow>
                  memory_authorized D (Some a) ''memory.read'' now \<and> \<not> deleted \<and> versions \<noteq> [] \<and> \<not> isRecordExpired (last versions) now) \<and>
               (\<forall>rec. res = Mem_ok rec \<longrightarrow> rec = last versions))
          | (Inl _, _) \<Rightarrow> True"
    using mem_read_result [of D "Some a" key now st]
    by (auto simp: memory_view_own [OF assms] versions_of_def live_entry_def split: sum.split)
qed

theorem memory_refines_versioned_map_witness:
  "\<exists>rec. fst (mem_write demo_crypto demo_memory_deps (Some demo_access) demo_note ''2026-01-01T00:00:00.000Z'' demo_memory) = Inr (Mem_ok rec) \<and>
     memory_view (snd (mem_write demo_crypto demo_memory_deps (Some demo_access) demo_note ''2026-01-01T00:00:00.000Z'' demo_memory))
       (''t1'', ''w1'', ''plan'') = ([rec], False)"
proof -
  let ?w = "mem_write demo_crypto demo_memory_deps (Some demo_access) demo_note ''2026-01-01T00:00:00.000Z'' demo_memory"
  have "case fst ?w of Inr (Mem_ok rec) \<Rightarrow> True | _ \<Rightarrow> False" by code_simp
  then obtain rec where w: "?w = (Inr (Mem_ok rec), snd ?w)" by (cases ?w) (auto split: sum.splits MemoryResult.splits)
  have "memory_view demo_memory (''t1'', ''w1'', ''plan'') = ([], False)" by code_simp
  moreover have a: "CHR 0x1F \<notin> set (ma_tenantId demo_access)" "ma_tenantId demo_access = ''t1''" "ma_workspaceId demo_access = ''w1''"
    "mw_key demo_note = ''plan''" by (simp_all add: demo_access_def demo_note_def)
  moreover have "memory_view (snd ?w) = (memory_view demo_memory)((''t1'', ''w1'', ''plan'') := (fst (memory_view demo_memory (''t1'', ''w1'', ''plan'')) @ [rec], False))"
    using memory_refines_versioned_map [OF a(1), where C = demo_crypto and D = demo_memory_deps and input = demo_note
        and now = "''2026-01-01T00:00:00.000Z''" and st = demo_memory, THEN conjunct1, unfolded a(2-4) Let_def] by (subst (asm) w) simp
  ultimately show ?thesis using w by (metis append_Nil fst_conv fun_upd_same)
qed

text \<open>
  Not every operation leaves an audit record, although the module documents that: a successful
  \<^verbatim>\<open>history\<close>, and a delete of a key that is not there, leave the sink untouched.
\<close>

lemma history_not_audited:
  assumes "mem_history D access key now st = (Inr (Mem_ok vs), st')"
  shows "st' = st"
proof (rule guard_cases [of D access "''memory.read''" now Op_read st])
qed (use assms in \<open>auto simp: mem_history_def Let_def\<close>)

text \<open>
  A sink that throws: the write is refused to the caller with the error, but its version is stored.
\<close>

lemma failed_audit_keeps_write:
  assumes "memory_authorized D access ''memory.write'' now" "expiry_of input now = Inr e"
    and "\<And>i s. fst (mas_append (mds_audit D) i s) = Inl err"
  shows "fst (mem_write C D access input now st) = Inl err \<and>
    length (versions_of (scopeOf access) (mw_key input) (snd (mem_write C D access input now st))) =
      Suc (length (versions_of (scopeOf access) (mw_key input) st))"
proof -
  obtain rec n where n: "next_record C access input now e st = (rec, n)" by fastforce
  show ?thesis unfolding mem_write_eq [OF assms(1,2) n]
    using assms(3) by (auto simp: audited_return_def mem_audit_def versions_of_def split: prod.split sum.split)
      (metis fst_conv sum.inject(1) Inl_Inr_False)+
qed

end
