(* ===== verification/Memory_Log.thy ===== *)
theory Memory_Log
  imports Memory
begin

text \<open>
  The hash-chained logs of \<^verbatim>\<open>memory/src\<close>: the audit sink (\<^verbatim>\<open>audit.ts\<close>) and the timeline of events with
  its replay (\<^verbatim>\<open>episodic.ts\<close>, \<^verbatim>\<open>replay.ts\<close>), both partitioned by tenant and workspace, and the working
  memory with its expiring slots (\<^verbatim>\<open>working-memory.ts\<close>). Both logs are instances of the shared theory of
  hash chains.
\<close>

section \<open>audit.ts, the in-memory sink\<close>

fun operation_text :: "MemoryOperation \<Rightarrow> string" where
  "operation_text Op_write = ''write''"
| "operation_text Op_read = ''read''"
| "operation_text Op_delete = ''delete''"
| "operation_text Op_restore = ''restore''"
| "operation_text Op_snapshot = ''snapshot''"
| "operation_text Op_replay = ''replay''"
| "operation_text Op_expire = ''expire''"
| "operation_text Op_archive = ''archive''"

fun memory_outcome_text :: "MemoryAuditOutcome \<Rightarrow> string" where
  "memory_outcome_text Mem_ALLOWED = ''ALLOWED''"
| "memory_outcome_text Mem_DENIED = ''DENIED''"

record MemoryAuditRecord =
  mar_auditId :: string
  mar_input :: MemoryAuditInput
  mar_sequence :: nat
  mar_partitionKey :: string
  mar_previousHash :: string
  mar_currentHash :: string

definition MEMORY_AUDIT_GENESIS :: string where
  "MEMORY_AUDIT_GENESIS = replicate 64 (CHR ''0'')"

definition memory_partitionKey :: "MemoryScope \<Rightarrow> string" where
  "memory_partitionKey s = msc_tenantId s @ ''::'' @ msc_workspaceId s"

text \<open>The part of a record that \<^verbatim>\<open>bodyOf\<close> covers, besides the previous hash.\<close>

type_synonym audit_body = "(string \<times> nat) \<times> (MemoryOperation \<times> string option \<times> string) \<times> MemoryAuditOutcome \<times> string \<times> string"

definition memory_body :: "string \<Rightarrow> nat \<Rightarrow> MemoryAuditInput \<Rightarrow> audit_body" where
  "memory_body pk sequence i =
     ((pk, sequence), (mai_operation i, mai_recordId i, mai_actorId i), mai_outcome i, mai_reasonCode i, mai_at i)"

definition memory_bodyOf :: "string \<Rightarrow> audit_body \<Rightarrow> json" where
  "memory_bodyOf previousHash = (\<lambda>((pk, sequence), (operation, recordId, actorId), outcome, reasonCode, time).
     JObj ([(''partitionKey'', JStr pk), (''sequence'', JNum (int sequence)), (''operation'', JStr (operation_text operation))] @
           opt_member ''recordId'' recordId @
           [(''actorId'', JStr actorId), (''outcome'', JStr (memory_outcome_text outcome)), (''reasonCode'', JStr reasonCode),
            (''at'', JStr time), (''previousHash'', JStr previousHash)]))"

definition memory_audit_text :: "string \<Rightarrow> audit_body \<Rightarrow> string" where
  "memory_audit_text previousHash body =
     canonicalJson (JObj [(''previousHash'', JStr previousHash), (''auditBody'', memory_bodyOf previousHash body)])"

record memory_audit_log =
  mal_partitions :: "string \<Rightarrow> MemoryAuditRecord list"
  mal_draws :: nat

definition memory_audit_append :: "crypto \<Rightarrow> MemoryAuditInput \<Rightarrow> memory_audit_log \<Rightarrow> MemoryAuditRecord \<times> memory_audit_log" where
  "memory_audit_append C i log =
     (let key = memory_partitionKey (mai_scope i); records = mal_partitions log key;
          previous = (if records = [] then None else Some (last records));
          sequence = (case previous of Some r \<Rightarrow> mar_sequence r | None \<Rightarrow> 0) + 1;
          previousHash = (case previous of Some r \<Rightarrow> mar_currentHash r | None \<Rightarrow> MEMORY_AUDIT_GENESIS);
          currentHash = sha256Hex C (memory_audit_text previousHash (memory_body key sequence i));
          (auditId, n) = newId C ''maudit'' (mal_draws log);
          entry = \<lparr> mar_auditId = auditId, mar_input = i, mar_sequence = sequence, mar_partitionKey = key,
                    mar_previousHash = previousHash, mar_currentHash = currentHash \<rparr>
      in (entry, \<lparr> mal_partitions = (mal_partitions log)(key := records @ [entry]), mal_draws = n \<rparr>))"

definition memory_audit_entries :: "MemoryScope \<Rightarrow> memory_audit_log \<Rightarrow> MemoryAuditRecord list" where
  "memory_audit_entries scope log = mal_partitions log (memory_partitionKey scope)"

fun memory_verify_from :: "crypto \<Rightarrow> string \<Rightarrow> nat \<Rightarrow> MemoryAuditRecord list \<Rightarrow> bool" where
  "memory_verify_from C previous expected [] = True"
| "memory_verify_from C previous expected (r # rs) =
     (if mar_previousHash r \<noteq> previous \<or> mar_sequence r \<noteq> expected then False
      else if sha256Hex C (memory_audit_text previous (memory_body (mar_partitionKey r) (mar_sequence r) (mar_input r))) \<noteq> mar_currentHash r
      then False
      else memory_verify_from C (mar_currentHash r) (expected + 1) rs)"

definition memory_verifyChain :: "crypto \<Rightarrow> MemoryScope \<Rightarrow> memory_audit_log \<Rightarrow> bool" where
  "memory_verifyChain C scope log = memory_verify_from C MEMORY_AUDIT_GENESIS 1 (memory_audit_entries scope log)"

definition InMemoryMemoryAuditSink :: "crypto \<Rightarrow> memory_audit_log MemoryAuditSink" where
  "InMemoryMemoryAuditSink C =
     \<lparr> mas_testOnly = True, mas_append = (\<lambda>i log. (Inr (), snd (memory_audit_append C i log))) \<rparr>"

section \<open>replay.ts\<close>

record 'b ChainLink =
  cl_sequence :: nat
  cl_previousHash :: string
  cl_currentHash :: string
  cl_body :: 'b

definition REPLAY_GENESIS :: string where
  "REPLAY_GENESIS = replicate 64 (CHR ''0'')"

record ReplayVerification =
  rv_verified :: bool
  rv_reasonCode :: string
  rv_verifiedCount :: nat

definition computeLinkHash :: "crypto \<Rightarrow> string \<Rightarrow> nat \<Rightarrow> json \<Rightarrow> string" where
  "computeLinkHash C previousHash sequence body =
     sha256Hex C (canonicalJson (JObj [(''previousHash'', JStr previousHash), (''sequence'', JNum (int sequence)), (''body'', body)]))"

fun replay_loop :: "crypto \<Rightarrow> string \<Rightarrow> nat \<Rightarrow> nat \<Rightarrow> json ChainLink list \<Rightarrow> ReplayVerification" where
  "replay_loop C previous expected verifiedCount [] = \<lparr> rv_verified = True, rv_reasonCode = ''verified'', rv_verifiedCount = verifiedCount \<rparr>"
| "replay_loop C previous expected verifiedCount (l # ls) =
     (if cl_previousHash l \<noteq> previous \<or> cl_sequence l \<noteq> expected then
        \<lparr> rv_verified = False, rv_reasonCode = ''chain_broken'', rv_verifiedCount = verifiedCount \<rparr>
      else if computeLinkHash C previous (cl_sequence l) (cl_body l) \<noteq> cl_currentHash l then
        \<lparr> rv_verified = False, rv_reasonCode = ''hash_mismatch'', rv_verifiedCount = verifiedCount \<rparr>
      else replay_loop C (cl_currentHash l) (expected + 1) (verifiedCount + 1) ls)"

definition replay_verifyChain :: "crypto \<Rightarrow> json ChainLink list \<Rightarrow> ReplayVerification" where
  "replay_verifyChain C links = replay_loop C REPLAY_GENESIS 1 0 links"

section \<open>episodic.ts\<close>

record EpisodicEvent =
  ee_eventId :: string
  ee_scope :: MemoryScope
  ee_type :: string
  ee_payloadDigest :: string
  ee_occurredAt :: string
  ee_sequence :: nat
  ee_previousHash :: string
  ee_currentHash :: string

record EpisodicMemory =
  em_partitions :: "string \<Rightarrow> EpisodicEvent list"
  em_draws :: nat

definition episode_json :: "string \<times> string \<times> string \<Rightarrow> json" where
  "episode_json = (\<lambda>(type, payloadDigest, occurredAt).
     JObj [(''type'', JStr type), (''payloadDigest'', JStr payloadDigest), (''occurredAt'', JStr occurredAt)])"

definition episodic_append ::
  "crypto \<Rightarrow> MemoryAccessContext option \<Rightarrow> string \<Rightarrow> json option \<Rightarrow> string \<Rightarrow> EpisodicMemory \<Rightarrow>
   EpisodicEvent MemoryResult \<times> EpisodicMemory" where
  "episodic_append C access type payload now st =
     (let scope = scopeOf access; authz = authorizeMemoryAccess access scope ''memory.write'' now in
      if \<not> md_ok authz then (Mem_refused (md_reasonCode authz) (md_message authz), st)
      else
        (let key = memory_partitionKey scope; events = em_partitions st key;
             previous = (if events = [] then None else Some (last events));
             sequence = (case previous of Some e \<Rightarrow> ee_sequence e | None \<Rightarrow> 0) + 1;
             previousHash = (case previous of Some e \<Rightarrow> ee_currentHash e | None \<Rightarrow> REPLAY_GENESIS);
             payloadDigest = sha256Hex C (canonicalJson (case payload of Some v \<Rightarrow> v | None \<Rightarrow> JNull));
             currentHash = computeLinkHash C previousHash sequence (episode_json (type, payloadDigest, now));
             (eventId, n) = newId C ''epi'' (em_draws st);
             event = \<lparr> ee_eventId = eventId, ee_scope = scope, ee_type = type, ee_payloadDigest = payloadDigest,
                       ee_occurredAt = now, ee_sequence = sequence, ee_previousHash = previousHash, ee_currentHash = currentHash \<rparr>
         in (Mem_ok event, \<lparr> em_partitions = (em_partitions st)(key := events @ [event]), em_draws = n \<rparr>)))"

definition episodic_timeline :: "MemoryAccessContext option \<Rightarrow> string \<Rightarrow> EpisodicMemory \<Rightarrow> EpisodicEvent list MemoryResult" where
  "episodic_timeline access now st =
     (let scope = scopeOf access; authz = authorizeMemoryAccess access scope ''memory.read'' now in
      if \<not> md_ok authz then Mem_refused (md_reasonCode authz) (md_message authz)
      else Mem_ok (em_partitions st (memory_partitionKey scope)))"

definition event_link :: "EpisodicEvent \<Rightarrow> json ChainLink" where
  "event_link e = \<lparr> cl_sequence = ee_sequence e, cl_previousHash = ee_previousHash e, cl_currentHash = ee_currentHash e,
     cl_body = episode_json (ee_type e, ee_payloadDigest e, ee_occurredAt e) \<rparr>"

definition episodic_replay ::
  "crypto \<Rightarrow> MemoryAccessContext option \<Rightarrow> string \<Rightarrow> EpisodicMemory \<Rightarrow> (EpisodicEvent list \<times> ReplayVerification) MemoryResult" where
  "episodic_replay C access now st =
     (let scope = scopeOf access; authz = authorizeMemoryAccess access scope ''memory.replay'' now in
      if \<not> md_ok authz then Mem_refused (md_reasonCode authz) (md_message authz)
      else (let events = em_partitions st (memory_partitionKey scope)
            in Mem_ok (events, replay_verifyChain C (map event_link events))))"

section \<open>working-memory.ts\<close>

record memory_slot =
  sl_value :: json
  sl_expiresAt :: "string option"

text \<open>The key of a partition joins tenant and workspace with nothing between them.\<close>

definition working_partition :: "MemoryScope \<Rightarrow> string" where
  "working_partition s = msc_tenantId s @ msc_workspaceId s"

type_synonym working_memory = "string \<Rightarrow> (string \<times> memory_slot) list"

definition slot_expired :: "memory_slot \<Rightarrow> string \<Rightarrow> bool" where
  "slot_expired s now = (case sl_expiresAt s of None \<Rightarrow> False | Some e \<Rightarrow> e \<noteq> [] \<and> isAtOrBefore e now)"

definition slot_expiry :: "int option \<Rightarrow> string \<Rightarrow> string option result" where
  "slot_expiry ttlMs now =
     (case ttlMs of
        None \<Rightarrow> Inr None
      | Some ttl \<Rightarrow>
          if ttl > 0 then
            (case dateParse now of
               None \<Rightarrow> Inl (RangeError ''Invalid time value'')
             | Some n \<Rightarrow> (case toISOString (n + ttl) of Inl err \<Rightarrow> Inl err | Inr e \<Rightarrow> Inr (Some e)))
          else Inr None)"

definition working_set ::
  "MemoryAccessContext option \<Rightarrow> string \<Rightarrow> json \<Rightarrow> int option \<Rightarrow> string \<Rightarrow> working_memory \<Rightarrow>
   string MemoryResult result \<times> working_memory" where
  "working_set access key val ttlMs now m =
     (let scope = scopeOf access; authz = authorizeMemoryAccess access scope ''memory.write'' now in
      if \<not> md_ok authz then (Inr (Mem_refused (md_reasonCode authz) (md_message authz)), m)
      else (case slot_expiry ttlMs now of
              Inl err \<Rightarrow> (Inl err, m)
            | Inr e \<Rightarrow>
                (Inr (Mem_ok key),
                 m(working_partition scope := AList.update key \<lparr> sl_value = val, sl_expiresAt = e \<rparr> (m (working_partition scope))))))"

definition working_get ::
  "MemoryAccessContext option \<Rightarrow> string \<Rightarrow> string \<Rightarrow> working_memory \<Rightarrow> json MemoryResult \<times> working_memory" where
  "working_get access key now m =
     (let scope = scopeOf access; authz = authorizeMemoryAccess access scope ''memory.read'' now in
      if \<not> md_ok authz then (Mem_refused (md_reasonCode authz) (md_message authz), m)
      else (case map_of (m (working_partition scope)) key of
              None \<Rightarrow> (Mem_refused ''not_found'' ''Working memory key not found.'', m)
            | Some s \<Rightarrow>
                if slot_expired s now then
                  (Mem_refused ''expired'' ''Working memory value expired.'',
                   m(working_partition scope := AList.delete key (m (working_partition scope))))
                else (Mem_ok (sl_value s), m)))"

definition working_delete ::
  "MemoryAccessContext option \<Rightarrow> string \<Rightarrow> string \<Rightarrow> working_memory \<Rightarrow> bool MemoryResult \<times> working_memory" where
  "working_delete access key now m =
     (let scope = scopeOf access; authz = authorizeMemoryAccess access scope ''memory.write'' now in
      if \<not> md_ok authz then (Mem_refused (md_reasonCode authz) (md_message authz), m)
      else (Mem_ok (map_of (m (working_partition scope)) key \<noteq> None),
            m(working_partition scope := AList.delete key (m (working_partition scope)))))"

definition working_prune :: "MemoryAccessContext option \<Rightarrow> string \<Rightarrow> working_memory \<Rightarrow> nat \<times> working_memory" where
  "working_prune access now m =
     (let key = working_partition (scopeOf access); kept = filter (\<lambda>(k, s). \<not> slot_expired s now) (m key)
      in (length (m key) - length kept, m(key := kept)))"

section \<open>The chains\<close>

lemma operation_text_inject [simp]: "operation_text a = operation_text b \<longleftrightarrow> a = b"
  by (cases a; cases b) simp_all

lemma memory_outcome_text_inject [simp]: "memory_outcome_text a = memory_outcome_text b \<longleftrightarrow> a = b"
  by (cases a; cases b) simp_all

lemma js_value_memory_body [simp]: "js_value (memory_bodyOf p b)"
proof -
  obtain pk sq op rid ac oc rc ti where b: "b = ((pk, sq), (op, rid, ac), oc, rc, ti)" by (metis prod.collapse)
  show ?thesis unfolding b memory_bodyOf_def prod.case opt_member_def
    by (rule js_value_JObjI; cases rid; simp add: not_index_Cons is_digit_def)
qed

lemma memory_body_eq: "json_eq (memory_bodyOf p b) (memory_bodyOf q c) \<Longrightarrow> b = c"
proof -
  obtain pk sq op rid ac oc rc ti where b: "b = ((pk, sq), (op, rid, ac), oc, rc, ti)" by (metis prod.collapse)
  obtain pk' sq' op' rid' ac' oc' rc' ti' where c: "c = ((pk', sq'), (op', rid', ac'), oc', rc', ti')" by (metis prod.collapse)
  assume "json_eq (memory_bodyOf p b) (memory_bodyOf q c)"
  then show "b = c" unfolding b c memory_bodyOf_def prod.case opt_member_def
    by (cases rid; cases rid') simp_all
qed

interpretation memory_links: hash_chain memory_audit_text
proof
  fix p q b c assume a: "memory_audit_text p b = memory_audit_text q c"
  let ?v = "\<lambda>p b. JObj [(''previousHash'', JStr p), (''auditBody'', memory_bodyOf p b)]"
  have js: "js_value (?v p b)" for p b by (rule js_value_JObjI) (simp_all add: not_index_Cons is_digit_def)
  have "json_eq (?v p b) (?v q c)" using a unfolding memory_audit_text_def canonical_text_iff [OF js js] .
  then have "p = q" "json_eq (memory_bodyOf p b) (memory_bodyOf q c)" by auto
  then show "p = q \<and> b = c" using memory_body_eq by blast
qed

text \<open>A record as a link, and the check of the sink as the check of the shared theory.\<close>

definition memory_link :: "MemoryAuditRecord \<Rightarrow> audit_body link" where
  "memory_link r = \<lparr> lk_previous = mar_previousHash r, lk_body = memory_body (mar_partitionKey r) (mar_sequence r) (mar_input r),
     lk_current = mar_currentHash r \<rparr>"

abbreviation body_sequence :: "audit_body \<Rightarrow> nat" where
  "body_sequence b \<equiv> snd (fst b)"

lemma memory_verify_linked:
  "memory_verify_from C p n rs \<longleftrightarrow> linked C memory_audit_text p (map memory_link rs) \<and> numbered body_sequence n (map memory_link rs)"
  by (induction rs arbitrary: p n) (auto simp: memory_link_def memory_body_def)

lemma link_head_last: "link_head p (map f rs) = (if rs = [] then p else lk_current (f (last rs)))"
  by (induction rs arbitrary: p) auto

inductive memory_log_reach :: "crypto \<Rightarrow> memory_audit_log \<Rightarrow> bool" for C where
  memory_log_empty: "mal_partitions log = (\<lambda>k. []) \<Longrightarrow> memory_log_reach C log"
| memory_log_append: "memory_log_reach C log \<Longrightarrow> memory_log_reach C (snd (memory_audit_append C i log))"

lemma memory_append_partition:
  "mal_partitions (snd (memory_audit_append C i log)) =
     (mal_partitions log)(memory_partitionKey (mai_scope i) :=
        mal_partitions log (memory_partitionKey (mai_scope i)) @ [fst (memory_audit_append C i log)])"
  by (simp add: memory_audit_append_def Let_def split: prod.split)

lemma memory_append_link:
  fixes C i log
  defines "rs \<equiv> mal_partitions log (memory_partitionKey (mai_scope i))"
  assumes "memory_verify_from C MEMORY_AUDIT_GENESIS 1 rs"
  shows "memory_verify_from C MEMORY_AUDIT_GENESIS 1 (rs @ [fst (memory_audit_append C i log)])"
proof -
  let ?h = "link_head MEMORY_AUDIT_GENESIS (map memory_link rs)"
  let ?r = "fst (memory_audit_append C i log)"
  have n: "rs \<noteq> [] \<Longrightarrow> mar_sequence (last rs) = length rs"
    using assms(2) by (cases rs rule: rev_cases) (auto simp: memory_verify_linked numbered_snoc memory_link_def memory_body_def)
  have h: "?h = (if rs = [] then MEMORY_AUDIT_GENESIS else mar_currentHash (last rs))"
    by (simp add: link_head_last memory_link_def)
  have f: "mar_previousHash ?r = ?h" "mar_sequence ?r = Suc (length rs)" "mar_input ?r = i" "mar_partitionKey ?r = memory_partitionKey (mai_scope i)"
    "mar_currentHash ?r = sha256Hex C (memory_audit_text ?h (memory_body (memory_partitionKey (mai_scope i)) (Suc (length rs)) i))"
    unfolding h using n by (auto simp: memory_audit_append_def Let_def rs_def [symmetric] split: prod.split)
  show ?thesis using assms(2) f by (simp add: memory_verify_linked linked_snoc numbered_snoc memory_link_def memory_body_def)
qed

lemma memory_log_verifies: "memory_log_reach C log \<Longrightarrow> memory_verify_from C MEMORY_AUDIT_GENESIS 1 (mal_partitions log key)"
proof (induction rule: memory_log_reach.induct)
  case (memory_log_append log i)
  then show ?case
    using memory_append_link by (auto simp: memory_append_partition memory_log_reach.induct)
qed simp

text \<open>So the audit of a store over this sink verifies in every partition, whatever operations were called.\<close>

lemma memory_store_log_verifies:
  assumes "(mem_step C D)\<^sup>*\<^sup>* st st'" and "mds_audit D = InMemoryMemoryAuditSink C" and "memory_log_reach C (im_sink st)"
  shows "memory_verifyChain C scope (im_sink st')"
proof -
  have "memory_log_reach C (im_sink st')" using assms(1)
  proof (induction rule: rtranclp_induct)
    case (step y z)
    show ?case by (rule mem_step_sink [where P = "memory_log_reach C", OF _ step(2,3)]) (simp add: assms(2) InMemoryMemoryAuditSink_def memory_log_append)
  qed (rule assms(3))
  then show ?thesis using memory_log_verifies by (simp add: memory_verifyChain_def memory_audit_entries_def)
qed

section \<open>Properties\<close>

text \<open>
  C28. The audit of the memory. However it was filled, the sink verifies in every partition; and a list
  of records that verifies and ends with the same hash as the partition of a scope agrees with it in
  the number of records and in everything that is hashed: partition, sequence, operation, record,
  actor, outcome, reason and time. The hypothesis is that SHA-256 does not collide on the texts hashed
  and that none of them has the genesis value as its digest.
\<close>

theorem memory_audit_tamper_evident:
  assumes "memory_log_reach C log" and "memory_verify_from C MEMORY_AUDIT_GENESIS 1 rs"
    and "link_head MEMORY_AUDIT_GENESIS (map memory_link rs) =
         link_head MEMORY_AUDIT_GENESIS (map memory_link (memory_audit_entries scope log))"
    and "collision_free C MEMORY_AUDIT_GENESIS
           (link_texts memory_audit_text MEMORY_AUDIT_GENESIS (map memory_link rs) \<union>
            link_texts memory_audit_text MEMORY_AUDIT_GENESIS (map memory_link (memory_audit_entries scope log)))"
  shows "memory_verifyChain C scope log \<and> length rs = length (memory_audit_entries scope log) \<and>
    (\<forall>k < length rs. memory_link (rs ! k) = memory_link (memory_audit_entries scope log ! k))"
proof -
  have v: "memory_verifyChain C scope log"
    using memory_log_verifies [OF assms(1)] by (simp add: memory_verifyChain_def memory_audit_entries_def)
  then have "map memory_link rs = map memory_link (memory_audit_entries scope log)"
    using assms(2-4) memory_links.same_head_same_chain unfolding memory_verifyChain_def memory_verify_linked by blast
  then show ?thesis using v by (metis length_map nth_map)
qed

definition demo_memory_event :: MemoryAuditInput where
  "demo_memory_event = \<lparr> mai_scope = demo_scope, mai_operation = Op_write, mai_recordId = Some ''mem_0'', mai_actorId = ''u1'',
     mai_outcome = Mem_ALLOWED, mai_reasonCode = ''written'', mai_at = ''2026-01-01T00:00:00.000Z'' \<rparr>"

definition demo_memory_log :: memory_audit_log where
  "demo_memory_log = snd (memory_audit_append demo_crypto demo_memory_event \<lparr> mal_partitions = (\<lambda>k. []), mal_draws = 0 \<rparr>)"

theorem memory_audit_tamper_evident_witness:
  "memory_verifyChain demo_crypto demo_scope demo_memory_log \<and> length (memory_audit_entries demo_scope demo_memory_log) = 1"
proof -
  have r: "memory_log_reach demo_crypto demo_memory_log"
    unfolding demo_memory_log_def by (rule memory_log_append [OF memory_log_empty]) simp
  have t: "link_texts memory_audit_text MEMORY_AUDIT_GENESIS (map memory_link (memory_audit_entries demo_scope demo_memory_log)) =
      {memory_audit_text MEMORY_AUDIT_GENESIS (memory_body ''t1::w1'' 1 demo_memory_event)}"
    and l: "length (memory_audit_entries demo_scope demo_memory_log) = 1"
    by (simp_all add: demo_memory_log_def memory_audit_append_def memory_audit_entries_def demo_memory_event_def demo_scope_def
        memory_partitionKey_def memory_link_def newId_def Let_def)
  have "sha256Hex demo_crypto (memory_audit_text MEMORY_AUDIT_GENESIS (memory_body ''t1::w1'' 1 demo_memory_event)) \<noteq> MEMORY_AUDIT_GENESIS"
    by code_simp
  moreover have "memory_verify_from demo_crypto MEMORY_AUDIT_GENESIS 1 (memory_audit_entries demo_scope demo_memory_log)"
    unfolding memory_audit_entries_def by (rule memory_log_verifies [OF r])
  ultimately show ?thesis
    using memory_audit_tamper_evident [OF r _ refl, of demo_scope, unfolded t] l by (simp add: collision_free_def)
qed

text \<open>The id of an audit record is not among the fields the hash covers.\<close>

lemma memory_audit_id_not_covered:
  "memory_verify_from C p n (rs @ [r\<lparr> mar_auditId := other \<rparr>]) \<longleftrightarrow> memory_verify_from C p n (rs @ [r])"
  by (simp add: memory_verify_linked memory_link_def)

section \<open>The timeline\<close>

text \<open>The loop of \<^verbatim>\<open>verifyChain\<close> accepts a list of links exactly when it is chained and numbered, and counts them.\<close>

definition replay_text :: "string \<Rightarrow> nat \<times> json \<Rightarrow> string" where
  "replay_text previousHash = (\<lambda>(sequence, body).
     canonicalJson (JObj [(''previousHash'', JStr previousHash), (''sequence'', JNum (int sequence)), (''body'', body)]))"

definition replay_link :: "json ChainLink \<Rightarrow> (nat \<times> json) link" where
  "replay_link l = \<lparr> lk_previous = cl_previousHash l, lk_body = (cl_sequence l, cl_body l), lk_current = cl_currentHash l \<rparr>"

lemma replay_loop_verified:
  "rv_verified (replay_loop C p n k ls) \<longleftrightarrow> linked C replay_text p (map replay_link ls) \<and> numbered fst n (map replay_link ls)"
  by (induction ls arbitrary: p n k) (auto simp: replay_link_def replay_text_def computeLinkHash_def)

lemma replay_loop_count: "rv_verified (replay_loop C p n k ls) \<Longrightarrow> rv_verifiedCount (replay_loop C p n k ls) = k + length ls"
  by (induction ls arbitrary: p n k) (auto split: if_splits)

inductive episodic_reach :: "crypto \<Rightarrow> EpisodicMemory \<Rightarrow> bool" for C where
  episodic_empty: "em_partitions st = (\<lambda>k. []) \<Longrightarrow> episodic_reach C st"
| episodic_step: "episodic_reach C st \<Longrightarrow> episodic_reach C (snd (episodic_append C access type payload now st))"

definition timeline_ok :: "crypto \<Rightarrow> EpisodicEvent list \<Rightarrow> bool" where
  "timeline_ok C es \<longleftrightarrow> linked C replay_text REPLAY_GENESIS (map (replay_link \<circ> event_link) es) \<and>
     numbered fst 1 (map (replay_link \<circ> event_link) es)"

lemma timeline_snoc:
  "timeline_ok C (es @ [e]) \<longleftrightarrow> timeline_ok C es \<and> ee_sequence e = Suc (length es) \<and>
     ee_previousHash e = (if es = [] then REPLAY_GENESIS else ee_currentHash (last es)) \<and>
     ee_currentHash e = computeLinkHash C (ee_previousHash e) (ee_sequence e) (episode_json (ee_type e, ee_payloadDigest e, ee_occurredAt e))"
  by (auto simp: timeline_ok_def linked_snoc numbered_snoc link_head_last replay_link_def event_link_def replay_text_def computeLinkHash_def)

lemma timeline_last: "timeline_ok C es \<Longrightarrow> es \<noteq> [] \<Longrightarrow> ee_sequence (last es) = length es"
  by (cases es rule: rev_cases) (auto simp: timeline_snoc)

lemma episodic_append_ok:
  assumes "timeline_ok C (em_partitions st key)"
  shows "timeline_ok C (em_partitions (snd (episodic_append C access type payload now st)) key)"
  using assms timeline_last [OF assms] timeline_snoc [of C "[]", simplified]
  by (auto simp: episodic_append_def Let_def timeline_snoc split: prod.split)

lemma episodic_reach_ok: "episodic_reach C st \<Longrightarrow> timeline_ok C (em_partitions st key)"
proof (induction rule: episodic_reach.induct)
  case (episodic_empty st)
  then show ?case by (simp add: timeline_ok_def)
qed (rule episodic_append_ok)

text \<open>The replay of a timeline that only appends have filled verifies, and counts every event of it.\<close>

lemma episodic_replay_verifies:
  assumes "episodic_reach C st" and "episodic_replay C access now st = Mem_ok (events, v)"
  shows "events = em_partitions st (memory_partitionKey (scopeOf access)) \<and> rv_verified v \<and> rv_verifiedCount v = length events"
proof -
  have e: "events = em_partitions st (memory_partitionKey (scopeOf access))" "v = replay_loop C REPLAY_GENESIS 1 0 (map event_link events)"
    using assms(2) by (auto simp: episodic_replay_def Let_def replay_verifyChain_def split: if_splits)
  then have "rv_verified v"
    using episodic_reach_ok [OF assms(1), of "memory_partitionKey (scopeOf access)"] by (simp add: replay_loop_verified timeline_ok_def)
  then show ?thesis using e replay_loop_count [of C REPLAY_GENESIS 1 0 "map event_link events"] by simp
qed

section \<open>Working memory\<close>

text \<open>
  What a read of the working memory sees after a write: the value written, until its expiry, when
  both use the same key in the same partition, and otherwise what it would have seen before. Two
  scopes share a partition exactly when tenant followed by workspace is the same text, which is weaker
  than being the same tenant and workspace: the code joins the two with no separator.
\<close>

lemma working_memory_read_after_write:
  assumes "md_ok (authorizeMemoryAccess a (scopeOf a) ''memory.write'' now)"
    and "md_ok (authorizeMemoryAccess b (scopeOf b) ''memory.read'' later)"
    and "slot_expiry ttlMs now = Inr expiresAt"
  shows "fst (working_get b key' later (snd (working_set a key val ttlMs now m))) =
    (if working_partition (scopeOf a) = working_partition (scopeOf b) \<and> key = key' then
       (if slot_expired \<lparr> sl_value = val, sl_expiresAt = expiresAt \<rparr> later
        then Mem_refused ''expired'' ''Working memory value expired.'' else Mem_ok val)
     else fst (working_get b key' later m))"
  using assms by (auto simp: working_get_def working_set_def Let_def update_conv' split: option.split)

text \<open>
  The witness is a leak: the access of tenant \<^verbatim>\<open>t1\<close> in workspace \<^verbatim>\<open>1w\<close> writes, and an access of tenant
  \<^verbatim>\<open>t11\<close> in workspace \<^verbatim>\<open>w\<close> reads the value, although each is authorized in its own scope only.
\<close>

text \<open>A value that was deleted is not found.\<close>

lemma working_get_deleted:
  assumes "md_ok (authorizeMemoryAccess a (scopeOf a) ''memory.write'' now)" "md_ok (authorizeMemoryAccess a (scopeOf a) ''memory.read'' later)"
  shows "fst (working_get a key later (snd (working_delete a key now m))) = Mem_refused ''not_found'' ''Working memory key not found.''"
  using assms by (simp add: working_get_def working_delete_def Let_def delete_conv')

text \<open>A prune removes what has expired and nothing else, and needs no permission.\<close>

lemma working_prune_exact:
  "working_prune access now m = (n, m') \<Longrightarrow>
     m' = m(working_partition (scopeOf access) := filter (\<lambda>(k, s). \<not> slot_expired s now) (m (working_partition (scopeOf access)))) \<and>
     n = length (filter (\<lambda>(k, s). slot_expired s now) (m (working_partition (scopeOf access))))"
  using sum_length_filter_compl [of "\<lambda>(k, s). slot_expired s now" "m (working_partition (scopeOf access))"]
  by (auto simp: working_prune_def Let_def case_prod_unfold)

end
