(* ===== verification/Event_Store.thy ===== *)
theory Event_Store
  imports Hash_Chain Js_Date
begin

text \<open>
  \<^verbatim>\<open>event-foundation/src\<close>, the parts with state: the append-only store with its version check
  (\<^verbatim>\<open>store.ts\<close>), the audit of the events with the lineage check (\<^verbatim>\<open>audit.ts\<close>), and the claims of
  idempotency keys (\<^verbatim>\<open>idempotency.ts\<close>). A decision keeps its status, its reason code, its time and the
  audit reference; the two texts it carries for people are constants of the reason and no code reads
  them, so they are left out, as is \<^verbatim>\<open>expiresAt\<close>, which no caller sets. A \<^verbatim>\<open>Map\<close> from keys to lists is a
  function that is empty at the keys without an entry.
\<close>

section \<open>types.ts\<close>

record EventScope =
  esc_tenantId :: string
  esc_workspaceId :: string
  esc_organizationId :: "string option"

definition event_sameScope :: "EventScope \<Rightarrow> EventScope \<Rightarrow> bool" where
  "event_sameScope a b \<longleftrightarrow> esc_tenantId a = esc_tenantId b \<and> esc_workspaceId a = esc_workspaceId b"

record 'st EventDecision =
  ed_decision :: 'st
  ed_reasonCode :: string
  ed_evaluatedAt :: string
  ed_auditReference :: "string option"

definition event_decide :: "string \<Rightarrow> 'st \<Rightarrow> string \<Rightarrow> 'st EventDecision" where
  "event_decide now decision reasonCode =
     \<lparr> ed_decision = decision, ed_reasonCode = reasonCode, ed_evaluatedAt = now, ed_auditReference = None \<rparr>"

lemma event_decide_sel [simp]: "ed_decision (event_decide now d r) = d" "ed_reasonCode (event_decide now d r) = r"
  by (simp_all add: event_decide_def)

definition digestOf :: "crypto \<Rightarrow> json \<Rightarrow> string" where
  "digestOf C v = sha256Hex C (canonicalJson v)"

section \<open>store.ts\<close>

record StoredEventRef =
  ser_eventId :: string
  ser_streamId :: string
  ser_streamVersion :: nat
  ser_payloadDigest :: string
  ser_previousHash :: string
  ser_currentHash :: string

datatype AppendStatus =
  Append_appended | Append_version_conflict | Append_version_rollback | Append_tenant_mismatch | Append_partial_failure
  | Append_mutation_denied | Append_store_unavailable

record AppendRequest =
  arq_streamId :: string
  arq_tenantId :: string
  arq_expectedVersion :: int
  arq_events :: "(string \<times> string) list"
  arq_now :: string

record AppendResult =
  ars_decision :: "AppendStatus EventDecision"
  ars_appended :: "StoredEventRef list option"
  ars_newVersion :: "nat option"

definition EVENT_STORE_GENESIS :: string where
  "EVENT_STORE_GENESIS = replicate 64 (CHR ''0'')"

definition streamKey :: "string \<Rightarrow> string \<Rightarrow> string" where
  "streamKey streamId tenantId = tenantId @ ''::'' @ streamId"

text \<open>The text that is hashed: the previous hash, the event with its digest, and the version.\<close>

definition stored_text :: "string \<Rightarrow> (string \<times> string) \<times> nat \<Rightarrow> string" where
  "stored_text previousHash = (\<lambda>((eventId, payloadDigest), version).
     canonicalJson (JObj [(''previousHash'', JStr previousHash), (''eventId'', JStr eventId), (''payloadDigest'', JStr payloadDigest),
       (''streamVersion'', JNum (int version))]))"

type_synonym event_streams = "string \<Rightarrow> StoredEventRef list"

fun append_refs :: "crypto \<Rightarrow> string \<Rightarrow> string \<Rightarrow> nat \<Rightarrow> (string \<times> string) list \<Rightarrow> StoredEventRef list" where
  "append_refs C streamId previousHash version [] = []"
| "append_refs C streamId previousHash version (e # es) =
     (let currentHash = sha256Hex C (stored_text previousHash (e, version + 1));
          ref = \<lparr> ser_eventId = fst e, ser_streamId = streamId, ser_streamVersion = version + 1, ser_payloadDigest = snd e,
                  ser_previousHash = previousHash, ser_currentHash = currentHash \<rparr>
      in ref # append_refs C streamId currentHash (version + 1) es)"

definition malformed_event :: "string \<times> string \<Rightarrow> bool" where
  "malformed_event e \<longleftrightarrow> \<not> isNonEmptyString (fst e) \<or> \<not> isNonEmptyString (snd e)"

definition store_append :: "crypto \<Rightarrow> AppendRequest \<Rightarrow> event_streams \<Rightarrow> AppendResult \<times> event_streams" where
  "store_append C req st =
     (let key = streamKey (arq_streamId req) (arq_tenantId req); refs = st key; currentVersion = length refs;
          refuse = (\<lambda>status code. (\<lparr> ars_decision = event_decide (arq_now req) status code, ars_appended = None, ars_newVersion = None \<rparr>, st))
      in if arq_expectedVersion req < int currentVersion then refuse Append_version_rollback ''stream_version_rollback''
         else if arq_expectedVersion req \<noteq> int currentVersion then refuse Append_version_conflict ''expected_version_mismatch''
         else if list_ex malformed_event (arq_events req) then refuse Append_partial_failure ''partial_append_rejected''
         else
           (let previousHash = (if refs = [] then EVENT_STORE_GENESIS else ser_currentHash (last refs));
                appended = append_refs C (arq_streamId req) previousHash currentVersion (arq_events req)
            in (\<lparr> ars_decision = event_decide (arq_now req) Append_appended ''appended'', ars_appended = Some appended,
                  ars_newVersion = Some (currentVersion + length (arq_events req)) \<rparr>,
                st(key := refs @ appended))))"

definition store_read :: "string \<Rightarrow> string \<Rightarrow> event_streams \<Rightarrow> StoredEventRef list" where
  "store_read streamId tenantId st = st (streamKey streamId tenantId)"

definition store_currentVersion :: "string \<Rightarrow> string \<Rightarrow> event_streams \<Rightarrow> nat" where
  "store_currentVersion streamId tenantId st = length (st (streamKey streamId tenantId))"

fun stream_verify_from :: "crypto \<Rightarrow> string \<Rightarrow> nat \<Rightarrow> StoredEventRef list \<Rightarrow> bool" where
  "stream_verify_from C previousHash version [] = True"
| "stream_verify_from C previousHash version (r # rs) =
     (let version = version + 1 in
      if ser_previousHash r \<noteq> previousHash \<or> ser_streamVersion r \<noteq> version then False
      else if sha256Hex C (stored_text previousHash ((ser_eventId r, ser_payloadDigest r), version)) \<noteq> ser_currentHash r then False
      else stream_verify_from C (ser_currentHash r) version rs)"

definition store_verifyIntegrity :: "crypto \<Rightarrow> string \<Rightarrow> string \<Rightarrow> event_streams \<Rightarrow> bool" where
  "store_verifyIntegrity C streamId tenantId st = stream_verify_from C EVENT_STORE_GENESIS 0 (st (streamKey streamId tenantId))"

text \<open>The refusals that are exceptions: a change of the log, and the in-memory store in production.\<close>

datatype StoreOperation = Store_append | Store_update | Store_delete

definition assertAppendOnly :: "StoreOperation \<Rightarrow> unit result" where
  "assertAppendOnly operation =
     (if operation = Store_update \<or> operation = Store_delete
      then Inl (JsError ''The event store is append-only; update/delete are not permitted.'') else Inr ())"

definition assertDurableEventStoreInProduction :: "bool \<Rightarrow> bool \<Rightarrow> bool \<Rightarrow> unit result" where
  "assertDurableEventStoreInProduction testOnly productionReady production =
     (if production \<and> (testOnly \<or> \<not> productionReady)
      then Inl (JsError ''A durable event store is required in production; an in-memory store cannot be used.'') else Inr ())"

definition assertAggregateSingleTenant :: "string \<Rightarrow> string \<Rightarrow> unit result" where
  "assertAggregateSingleTenant tenantId expected =
     (if tenantId \<noteq> expected then Inl (JsError ''An aggregate cannot contain cross-tenant events.'') else Inr ())"

section \<open>The chain of a stream\<close>

lemma js_value_stored [simp]: "js_value (JObj [(''previousHash'', JStr p), (''eventId'', JStr e), (''payloadDigest'', JStr d), (''streamVersion'', JNum n)])"
  by (rule js_value_JObjI) (simp_all add: not_index_Cons is_digit_def)

interpretation stream_links: hash_chain stored_text
proof
  fix p q b c assume a: "stored_text p b = stored_text q c"
  obtain e d v e' d' v' where b: "b = ((e, d), v)" "c = ((e', d'), v')" by (metis prod.collapse)
  show "p = q \<and> b = c"
    using iffD1 [OF canonical_text_iff [OF js_value_stored js_value_stored] a [unfolded b stored_text_def prod.case]] by (simp add: b)
qed

definition stored_link :: "StoredEventRef \<Rightarrow> ((string \<times> string) \<times> nat) link" where
  "stored_link r = \<lparr> lk_previous = ser_previousHash r, lk_body = ((ser_eventId r, ser_payloadDigest r), ser_streamVersion r),
     lk_current = ser_currentHash r \<rparr>"

lemma stream_verify_linked:
  "stream_verify_from C p n rs \<longleftrightarrow> linked C stored_text p (map stored_link rs) \<and> numbered snd (Suc n) (map stored_link rs)"
  by (induction rs arbitrary: p n) (auto simp: stored_link_def Let_def)

lemma stream_verify_append:
  "stream_verify_from C p n (rs @ ss) \<longleftrightarrow>
     stream_verify_from C p n rs \<and> stream_verify_from C (if rs = [] then p else ser_currentHash (last rs)) (n + length rs) ss"
  by (induction rs arbitrary: p n) (auto simp: Let_def)

lemma append_refs_verify: "stream_verify_from C p n (append_refs C sid p n es)"
  by (induction es arbitrary: p n) (simp_all add: Let_def)

lemma append_refs_events: "map (\<lambda>r. (ser_eventId r, ser_payloadDigest r)) (append_refs C sid p n es) = es"
  by (induction es arbitrary: p n) (simp_all add: Let_def)

lemma append_refs_Nil [simp]: "append_refs C sid p n es = [] \<longleftrightarrow> es = []"
  by (cases es) (simp_all add: Let_def)

lemma append_refs_versions: "map ser_streamVersion (append_refs C sid p n es) = map (\<lambda>i. n + Suc i) [0 ..< length es]"
proof (induction es arbitrary: p n)
  case (Cons e es)
  have "[0 ..< Suc (length es)] = 0 # map Suc [0 ..< length es]" by (metis map_Suc_upt upt_conv_Cons zero_less_Suc)
  then show ?case by (simp add: Let_def Cons.IH o_def)
qed simp

inductive streams_reach :: "crypto \<Rightarrow> event_streams \<Rightarrow> bool" for C where
  streams_empty: "streams_reach C (\<lambda>k. [])"
| streams_append: "streams_reach C st \<Longrightarrow> streams_reach C (snd (store_append C req st))"

lemma store_append_verify:
  assumes "stream_verify_from C EVENT_STORE_GENESIS 0 (st key)"
  shows "stream_verify_from C EVENT_STORE_GENESIS 0 (snd (store_append C req st) key)"
  using assms append_refs_verify [of C EVENT_STORE_GENESIS 0]
  by (auto simp: store_append_def Let_def stream_verify_append append_refs_verify)

lemma streams_verify: "streams_reach C st \<Longrightarrow> stream_verify_from C EVENT_STORE_GENESIS 0 (st key)"
  by (induction rule: streams_reach.induct) (simp_all add: store_append_verify)

lemma append_refs_length [simp]: "length (append_refs C sid p n es) = length es"
  using append_refs_events [of C sid p n es] by (metis length_map)

section \<open>Properties of the store\<close>

text \<open>
  C25. The event store is an append-only log with optimistic concurrency. An append succeeds exactly
  when it expects the current version and every event of the batch is well-formed; then the stream is
  extended by exactly the batch, in order, with the next versions, and no other stream changes;
  otherwise nothing changes at all. So of two appends that expect the same version, at most one
  succeeds, unless its batch is empty. In every reachable store every stream verifies.
\<close>

theorem event_store_optimistic_append:
  assumes "streams_reach C st" and "store_append C req st = (res, st')"
  shows "let key = streamKey (arq_streamId req) (arq_tenantId req); ok = ed_decision (ars_decision res) = Append_appended in
    (ok \<longleftrightarrow> arq_expectedVersion req = int (length (st key)) \<and> \<not> list_ex malformed_event (arq_events req)) \<and>
    (\<not> ok \<longrightarrow> st' = st \<and> ars_appended res = None) \<and>
    (ok \<longrightarrow> (\<exists>refs. ars_appended res = Some refs \<and> st' = st(key := st key @ refs) \<and>
       map (\<lambda>r. (ser_eventId r, ser_payloadDigest r)) refs = arq_events req \<and>
       map ser_streamVersion refs = map (\<lambda>i. length (st key) + Suc i) [0 ..< length refs] \<and>
       ars_newVersion res = Some (length (st' key)))) \<and>
    (ok \<and> arq_events req \<noteq> [] \<longrightarrow>
       (\<forall>other. streamKey (arq_streamId other) (arq_tenantId other) = key \<and> arq_expectedVersion other = arq_expectedVersion req \<longrightarrow>
          ed_decision (ars_decision (fst (store_append C other st'))) = Append_version_rollback)) \<and>
    (\<forall>streamId tenantId. store_verifyIntegrity C streamId tenantId st')"
proof -
  have v: "\<forall>streamId tenantId. store_verifyIntegrity C streamId tenantId st'"
    using streams_verify [OF streams_append [OF assms(1)]] assms(2) by (metis snd_conv store_verifyIntegrity_def)
  show ?thesis
    using assms(2) v
    by (auto simp: store_append_def Let_def append_refs_events append_refs_versions split: if_splits)
qed

definition demo_append :: AppendRequest where
  "demo_append = \<lparr> arq_streamId = ''orders'', arq_tenantId = ''t1'', arq_expectedVersion = 0,
     arq_events = [(''e1'', ''d1''), (''e2'', ''d2'')], arq_now = ''2026-01-01T00:00:00.000Z'' \<rparr>"

theorem event_store_optimistic_append_witness:
  "let st = snd (store_append demo_crypto demo_append (\<lambda>k. [])) in
     length (store_read ''orders'' ''t1'' st) = 2 \<and> store_verifyIntegrity demo_crypto ''orders'' ''t1'' st \<and>
     ed_decision (ars_decision (fst (store_append demo_crypto demo_append st))) = Append_version_rollback"
proof -
  let ?a = "store_append demo_crypto demo_append (\<lambda>k. [])"
  have k: "streamKey (arq_streamId demo_append) (arq_tenantId demo_append) = streamKey ''orders'' ''t1''" by (simp add: demo_append_def)
  have w: "\<not> list_ex malformed_event (arq_events demo_append)" by code_simp
  have e: "arq_expectedVersion demo_append = 0" "length (arq_events demo_append) = 2" "arq_events demo_append \<noteq> []" by (simp_all add: demo_append_def)
  note p = event_store_optimistic_append [OF streams_empty surjective_pairing, where C = demo_crypto and req = demo_append, unfolded Let_def k]
  obtain refs where "snd ?a = (\<lambda>k. [])(streamKey ''orders'' ''t1'' := [] @ refs)"
    "map (\<lambda>r. (ser_eventId r, ser_payloadDigest r)) refs = arq_events demo_append"
    using p w e by auto
  then have "length (store_read ''orders'' ''t1'' (snd ?a)) = 2" using e by (simp add: store_read_def) (metis length_map)
  then show ?thesis using p w e k unfolding Let_def by simp
qed

text \<open>Whoever keeps the last hash of a stream detects every change of its events; the stream id is not hashed.\<close>

lemma event_stream_tamper_evident:
  assumes "stream_verify_from C EVENT_STORE_GENESIS 0 rs" "stream_verify_from C EVENT_STORE_GENESIS 0 ss"
    and "link_head EVENT_STORE_GENESIS (map stored_link rs) = link_head EVENT_STORE_GENESIS (map stored_link ss)"
    and "collision_free C EVENT_STORE_GENESIS (link_texts stored_text EVENT_STORE_GENESIS (map stored_link rs) \<union>
           link_texts stored_text EVENT_STORE_GENESIS (map stored_link ss))"
  shows "map stored_link rs = map stored_link ss"
  using assms stream_links.same_head_same_chain unfolding stream_verify_linked by blast

lemma stream_id_not_covered:
  "stream_verify_from C p n (map (\<lambda>r. r\<lparr> ser_streamId := other \<rparr>) rs) \<longleftrightarrow> stream_verify_from C p n rs"
  by (induction rs arbitrary: p n) (simp_all add: Let_def)

text \<open>Two tenants have one stream when the ids contain the separator.\<close>

lemma stream_keys_collide: "streamKey ''c'' ''a::b'' = streamKey ''b::c'' ''a''"
  by (simp add: streamKey_def)

end
