(* ===== verification/Event_Publish.thy ===== *)
theory Event_Publish
  imports Event_Store Decision
begin

text \<open>
  \<^verbatim>\<open>event-foundation/src\<close>, what happens before an event is accepted: the kinds of events (\<^verbatim>\<open>taxonomy.ts\<close>),
  the envelope (\<^verbatim>\<open>envelope.ts\<close>), schemas with the in-memory registry (\<^verbatim>\<open>schema.ts\<close>, \<^verbatim>\<open>reference.ts\<close>), producers
  (\<^verbatim>\<open>producer.ts\<close>), sequences (\<^verbatim>\<open>ordering.ts\<close>), the claims of idempotency keys (\<^verbatim>\<open>idempotency.ts\<close>) and the
  decision on a publication (\<^verbatim>\<open>publish.ts\<close>). The type of an event is a string, since the code checks that it
  is a known one. Statuses are datatypes; where the code builds a reason code from one, its text in lower
  case is a function.
\<close>

section \<open>taxonomy.ts\<close>

type_synonym EventType = string

definition KNOWN_EVENT_TYPES :: "EventType list" where
  "KNOWN_EVENT_TYPES =
     [''DOMAIN_EVENT'', ''INTEGRATION_EVENT'', ''SYSTEM_EVENT'', ''SECURITY_EVENT'', ''AUDIT_EVENT'', ''WORKFLOW_EVENT'',
      ''COMMAND_RESULT_EVENT'', ''LIFECYCLE_EVENT'', ''HEALTH_EVENT'', ''TELEMETRY_EVENT'', ''DEAD_LETTER_EVENT'',
      ''COMPENSATION_EVENT'', ''APPROVAL_EVENT'', ''IDENTITY_EVENT'', ''MEMORY_EVENT'', ''CAPABILITY_EVENT'', ''AGENT_EVENT'']"

definition isKnownEventType :: "string \<Rightarrow> bool" where
  "isKnownEventType v \<longleftrightarrow> v \<in> set KNOWN_EVENT_TYPES"

datatype EventCategory = Cat_business | Cat_system | Cat_security | Cat_audit | Cat_observability | Cat_operational

definition TYPE_CATEGORY :: "EventType \<rightharpoonup> EventCategory" where
  "TYPE_CATEGORY = map_of
     [(''DOMAIN_EVENT'', Cat_business), (''INTEGRATION_EVENT'', Cat_business), (''COMMAND_RESULT_EVENT'', Cat_business),
      (''APPROVAL_EVENT'', Cat_business), (''MEMORY_EVENT'', Cat_business), (''CAPABILITY_EVENT'', Cat_business),
      (''AGENT_EVENT'', Cat_business), (''WORKFLOW_EVENT'', Cat_business), (''COMPENSATION_EVENT'', Cat_business),
      (''SYSTEM_EVENT'', Cat_system), (''LIFECYCLE_EVENT'', Cat_system), (''DEAD_LETTER_EVENT'', Cat_operational),
      (''IDENTITY_EVENT'', Cat_security), (''SECURITY_EVENT'', Cat_security), (''AUDIT_EVENT'', Cat_audit),
      (''HEALTH_EVENT'', Cat_observability), (''TELEMETRY_EVENT'', Cat_observability)]"

definition categoryOf :: "EventType \<Rightarrow> EventCategory option" where
  "categoryOf type = TYPE_CATEGORY type"

definition isCriticalEventType :: "EventType \<Rightarrow> bool" where
  "isCriticalEventType type \<longleftrightarrow>
     type \<in> {''SECURITY_EVENT'', ''AUDIT_EVENT'', ''IDENTITY_EVENT'', ''APPROVAL_EVENT'', ''COMPENSATION_EVENT''}"

definition canReclassify :: "EventType \<Rightarrow> EventType \<Rightarrow> bool" where
  "canReclassify source target \<longleftrightarrow> source = target"

definition reclassifyDenialReason :: "EventType \<Rightarrow> EventType \<Rightarrow> string" where
  "reclassifyDenialReason source target =
     (if source = ''AUDIT_EVENT'' \<or> target = ''AUDIT_EVENT'' then ''audit_event_inviolable''
      else if source = ''SECURITY_EVENT'' \<and> target = ''TELEMETRY_EVENT'' then ''security_cannot_become_telemetry''
      else if source = ''TELEMETRY_EVENT'' then ''telemetry_cannot_be_promoted''
      else ''cross_type_reclassification_denied'')"

definition is_upper :: "char \<Rightarrow> bool" where
  "is_upper c \<longleftrightarrow> (of_char c :: nat) \<in> {65..90}"

text \<open>The pattern of a command: a verb at the start, followed by a capital letter.\<close>

definition isCommandName :: "string \<Rightarrow> bool" where
  "isCommandName name =
     list_ex (\<lambda>verb. take (length verb) name = verb \<and> (case drop (length verb) name of [] \<Rightarrow> False | c # cs \<Rightarrow> is_upper c))
       [''create'', ''update'', ''delete'', ''do'', ''execute'', ''run'', ''start'', ''stop'', ''issue'', ''revoke'', ''approve'', ''reject'']"

section \<open>envelope.ts\<close>

datatype EventSensitivity = Sens_PUBLIC | Sens_INTERNAL | Sens_CONFIDENTIAL | Sens_RESTRICTED | Sens_SECRET

datatype EventDataClassification = Data_NONE | Data_PII | Data_SENSITIVE_PII | Data_FINANCIAL | Data_HEALTH | Data_CREDENTIAL_METADATA

datatype EventRetentionClass = Ret_EPHEMERAL | Ret_SHORT | Ret_STANDARD | Ret_LONG | Ret_LEGAL_HOLD | Ret_PERMANENT_AUDIT

record EventProvenance =
  ep_producerPrincipalId :: string
  ep_producerIdentityId :: string
  ep_producerId :: string
  ep_source :: string
  ep_producedInMode :: RuntimeMode

record EventSecurityContext =
  esx_producerTrustLevel :: string
  esx_authorizationReference :: "string option"
  esx_assuranceReference :: "string option"

record EventPayloadReference =
  epr_ref :: string
  epr_contentType :: string
  epr_byteSize :: int

record EventEnvelope =
  evn_eventId :: string
  evn_eventName :: string
  evn_eventType :: EventType
  evn_schemaName :: string
  evn_schemaVersion :: string
  evn_occurredAt :: string
  evn_recordedAt :: string
  evn_tenantId :: string
  evn_workspaceId :: string
  evn_organizationId :: "string option"
  evn_producerPrincipalId :: string
  evn_producerIdentityId :: string
  evn_correlationId :: string
  evn_causationId :: "string option"
  evn_traceId :: string
  evn_idempotencyKey :: string
  evn_payloadDigest :: string
  evn_metadataDigest :: string
  evn_payloadReference :: EventPayloadReference
  evn_provenance :: EventProvenance
  evn_securityContext :: EventSecurityContext
  evn_sensitivity :: EventSensitivity
  evn_dataClassification :: EventDataClassification
  evn_retentionClass :: EventRetentionClass
  evn_expiresAt :: "string option"
  evn_sequence :: "int option"
  evn_partitionKey :: string
  evn_headers :: "(string \<times> string) list"
  evn_isReplay :: bool

record BuildEnvelopeInput =
  bei_eventId :: string
  bei_eventName :: string
  bei_eventType :: EventType
  bei_schemaName :: string
  bei_schemaVersion :: string
  bei_occurredAt :: string
  bei_recordedAt :: string
  bei_scope :: EventScope
  bei_provenance :: EventProvenance
  bei_securityContext :: EventSecurityContext
  bei_correlationId :: string
  bei_causationId :: "string option"
  bei_traceId :: string
  bei_idempotencyKey :: string
  bei_payload :: json
  bei_payloadReference :: EventPayloadReference
  bei_metadata :: json
  bei_headers :: "(string \<times> string) list option"
  bei_sensitivity :: EventSensitivity
  bei_dataClassification :: EventDataClassification
  bei_retentionClass :: EventRetentionClass
  bei_partitionKey :: string
  bei_expiresAt :: "string option"
  bei_sequence :: "int option"
  bei_isReplay :: "bool option"

definition buildEnvelope :: "crypto \<Rightarrow> BuildEnvelopeInput \<Rightarrow> EventEnvelope" where
  "buildEnvelope C i =
     \<lparr> evn_eventId = bei_eventId i, evn_eventName = bei_eventName i, evn_eventType = bei_eventType i,
       evn_schemaName = bei_schemaName i, evn_schemaVersion = bei_schemaVersion i, evn_occurredAt = bei_occurredAt i,
       evn_recordedAt = bei_recordedAt i, evn_tenantId = esc_tenantId (bei_scope i), evn_workspaceId = esc_workspaceId (bei_scope i),
       evn_organizationId = truthy_opt (esc_organizationId (bei_scope i)),
       evn_producerPrincipalId = ep_producerPrincipalId (bei_provenance i),
       evn_producerIdentityId = ep_producerIdentityId (bei_provenance i), evn_correlationId = bei_correlationId i,
       evn_causationId = truthy_opt (bei_causationId i), evn_traceId = bei_traceId i, evn_idempotencyKey = bei_idempotencyKey i,
       evn_payloadDigest = digestOf C (bei_payload i), evn_metadataDigest = digestOf C (bei_metadata i),
       evn_payloadReference = bei_payloadReference i, evn_provenance = bei_provenance i, evn_securityContext = bei_securityContext i,
       evn_sensitivity = bei_sensitivity i, evn_dataClassification = bei_dataClassification i,
       evn_retentionClass = bei_retentionClass i, evn_expiresAt = truthy_opt (bei_expiresAt i), evn_sequence = bei_sequence i,
       evn_partitionKey = bei_partitionKey i, evn_headers = (case bei_headers i of Some h \<Rightarrow> h | None \<Rightarrow> []),
       evn_isReplay = (bei_isReplay i = Some True) \<rparr>"

datatype EnvelopeValidationStatus =
  Env_valid | Env_malformed | Env_unknown_type | Env_tenant_missing | Env_producer_missing | Env_payload_digest_missing
  | Env_occurred_after_recorded

fun envelope_status_text :: "EnvelopeValidationStatus \<Rightarrow> string" where
  "envelope_status_text Env_valid = ''valid''"
| "envelope_status_text Env_malformed = ''malformed''"
| "envelope_status_text Env_unknown_type = ''unknown_type''"
| "envelope_status_text Env_tenant_missing = ''tenant_missing''"
| "envelope_status_text Env_producer_missing = ''producer_missing''"
| "envelope_status_text Env_payload_digest_missing = ''payload_digest_missing''"
| "envelope_status_text Env_occurred_after_recorded = ''occurred_after_recorded''"

definition validateEnvelopeShape :: "EventEnvelope \<Rightarrow> EnvelopeValidationStatus \<times> string list" where
  "validateEnvelopeShape env =
     (if \<not> isNonEmptyString (evn_eventId env) \<or> \<not> isNonEmptyString (evn_eventName env) then (Env_malformed, [''event_id_or_name_missing''])
      else if \<not> isKnownEventType (evn_eventType env) then (Env_unknown_type, [''unknown_event_type''])
      else if \<not> isNonEmptyString (evn_tenantId env) \<and> evn_eventType env \<noteq> ''SYSTEM_EVENT'' then
        (Env_tenant_missing, [''tenant_required_for_non_system_event''])
      else if \<not> isNonEmptyString (evn_producerPrincipalId env) \<or> \<not> isNonEmptyString (evn_producerIdentityId env) then
        (Env_producer_missing, [''producer_identity_required''])
      else if \<not> isNonEmptyString (evn_payloadDigest env) then (Env_payload_digest_missing, [''payload_digest_required''])
      else if isFuture (evn_occurredAt env) (evn_recordedAt env) then (Env_occurred_after_recorded, [''occurred_at_after_recorded_at''])
      else (Env_valid, []))"

definition verifyEnvelopeIntegrity :: "crypto \<Rightarrow> EventEnvelope \<Rightarrow> json \<Rightarrow> json \<Rightarrow> bool" where
  "verifyEnvelopeIntegrity C env payload metadata \<longleftrightarrow>
     digestOf C payload = evn_payloadDigest env \<and> digestOf C metadata = evn_metadataDigest env"

section \<open>schema.ts and the registry of reference.ts\<close>

datatype EventSchemaCompatibility = Compat_NONE | Compat_BACKWARD | Compat_FORWARD | Compat_FULL | Compat_BREAKING | Compat_REVOKED

datatype SchemaStatus = Schema_active | Schema_deprecated | Schema_revoked

record EventSchema =
  sch_schemaId :: string
  sch_schemaName :: string
  sch_schemaVersion :: string
  sch_major :: int
  sch_minor :: int
  sch_compatibility :: EventSchemaCompatibility
  sch_status :: SchemaStatus
  sch_definitionDigest :: string
  sch_provenanceRef :: string
  sch_registeredAt :: string
  sch_tenantScope :: "string option"

datatype SchemaValidationStatus =
  Sv_valid | Sv_schema_missing | Sv_schema_unknown | Sv_schema_revoked | Sv_schema_deprecated_blocked | Sv_version_unsupported
  | Sv_breaking_without_major | Sv_definition_digest_mismatch | Sv_registry_spoofed

fun schema_status_text :: "SchemaValidationStatus \<Rightarrow> string" where
  "schema_status_text Sv_valid = ''valid''"
| "schema_status_text Sv_schema_missing = ''schema_missing''"
| "schema_status_text Sv_schema_unknown = ''schema_unknown''"
| "schema_status_text Sv_schema_revoked = ''schema_revoked''"
| "schema_status_text Sv_schema_deprecated_blocked = ''schema_deprecated_blocked''"
| "schema_status_text Sv_version_unsupported = ''version_unsupported''"
| "schema_status_text Sv_breaking_without_major = ''breaking_without_major''"
| "schema_status_text Sv_definition_digest_mismatch = ''definition_digest_mismatch''"
| "schema_status_text Sv_registry_spoofed = ''registry_spoofed''"

text \<open>What the validation asks of a registry.\<close>

record EventSchemaRegistry =
  reg_get :: "string \<Rightarrow> string \<Rightarrow> EventSchema option"
  reg_isRevoked :: "string \<Rightarrow> string \<Rightarrow> bool"

record ValidateSchemaInput =
  vsi_registry :: EventSchemaRegistry
  vsi_schemaName :: string
  vsi_schemaVersion :: string
  vsi_declaredDefinitionDigest :: "string option"
  vsi_supportedMajors :: "int list option"
  vsi_now :: string

definition validateEventSchema :: "ValidateSchemaInput \<Rightarrow> SchemaValidationStatus EventDecision \<times> EventSchema option" where
  "validateEventSchema i =
     (let refuse = (\<lambda>status code. (event_decide (vsi_now i) status code, None)) in
      if \<not> isNonEmptyString (vsi_schemaName i) \<or> \<not> isNonEmptyString (vsi_schemaVersion i) then refuse Sv_schema_missing ''schema_missing''
      else if reg_isRevoked (vsi_registry i) (vsi_schemaName i) (vsi_schemaVersion i) then refuse Sv_schema_revoked ''schema_revoked''
      else
        (case reg_get (vsi_registry i) (vsi_schemaName i) (vsi_schemaVersion i) of
           None \<Rightarrow> refuse Sv_schema_unknown ''schema_unknown''
         | Some schema \<Rightarrow>
             if sch_status schema = Schema_revoked \<or> sch_compatibility schema = Compat_REVOKED then refuse Sv_schema_revoked ''schema_revoked''
             else if vsi_declaredDefinitionDigest i \<noteq> None \<and> vsi_declaredDefinitionDigest i \<noteq> Some (sch_definitionDigest schema) then
               refuse Sv_definition_digest_mismatch ''definition_digest_mismatch''
             else if sch_compatibility schema = Compat_BREAKING \<and> sch_minor schema \<noteq> 0 then
               refuse Sv_breaking_without_major ''breaking_without_major''
             else if (case vsi_supportedMajors i of None \<Rightarrow> False | Some majors \<Rightarrow> majors \<noteq> [] \<and> sch_major schema \<notin> set majors) then
               refuse Sv_version_unsupported ''version_unsupported''
             else (event_decide (vsi_now i) Sv_valid ''schema_valid'', Some schema)))"

text \<open>The in-memory registry. The key joins name and version with a separator.\<close>

record InMemorySchemaRegistry =
  isr_byKey :: "string \<rightharpoonup> EventSchema"
  isr_revoked :: "string set"

definition schema_key :: "string \<Rightarrow> string \<Rightarrow> string" where
  "schema_key name version = name @ ''@'' @ version"

definition schema_register :: "EventSchema \<Rightarrow> InMemorySchemaRegistry \<Rightarrow> bool EventDecision \<times> InMemorySchemaRegistry" where
  "schema_register schema r =
     (let key = schema_key (sch_schemaName schema) (sch_schemaVersion schema); existing = isr_byKey r key in
      if (case existing of None \<Rightarrow> False | Some e \<Rightarrow> sch_definitionDigest e \<noteq> sch_definitionDigest schema) then
        (event_decide (sch_registeredAt schema) False ''schema_version_immutable'', r)
      else (event_decide (sch_registeredAt schema) True ''schema_registered'', r\<lparr> isr_byKey := (isr_byKey r)(key \<mapsto> schema) \<rparr>))"

definition schema_revoke :: "string \<Rightarrow> string \<Rightarrow> InMemorySchemaRegistry \<Rightarrow> InMemorySchemaRegistry" where
  "schema_revoke name version r = r\<lparr> isr_revoked := insert (schema_key name version) (isr_revoked r) \<rparr>"

definition schema_registry :: "InMemorySchemaRegistry \<Rightarrow> EventSchemaRegistry" where
  "schema_registry r =
     \<lparr> reg_get = (\<lambda>name version. isr_byKey r (schema_key name version)),
       reg_isRevoked = (\<lambda>name version. schema_key name version \<in> isr_revoked r) \<rparr>"

section \<open>producer.ts\<close>

datatype ProducerKind =
  Prod_HUMAN | Prod_AGENT | Prod_DIGITAL_EMPLOYEE | Prod_SERVICE | Prod_RUNTIME | Prod_PLUGIN | Prod_MCP_SERVER | Prod_SYSTEM
  | Prod_DEVICE | Prod_EDGE_NODE

datatype TrustLevel = Trust_UNTRUSTED | Trust_UNKNOWN | Trust_LOW | Trust_MEDIUM | Trust_HIGH | Trust_ATTESTED | Trust_HUMAN_VERIFIED

datatype ProducerStatus = Producer_active | Producer_suspended | Producer_revoked

record EventProducer =
  prd_producerId :: string
  prd_kind :: ProducerKind
  prd_scope :: EventScope
  prd_allowedEventTypes :: "EventType list"
  prd_allowedEventNames :: "string list option"
  prd_trustLevel :: TrustLevel
  prd_trustExpiresAt :: "string option"
  prd_status :: ProducerStatus
  prd_maxSequenceClaimed :: "int option"

datatype ProducerDecisionStatus =
  Pd_allowed | Pd_unregistered | Pd_revoked | Pd_suspended | Pd_trust_expired | Pd_tenant_mismatch | Pd_workspace_mismatch
  | Pd_event_type_not_allowed | Pd_event_name_not_allowed | Pd_human_masquerade | Pd_untrusted_plugin | Pd_sequence_forgery

fun producer_status_text :: "ProducerDecisionStatus \<Rightarrow> string" where
  "producer_status_text Pd_allowed = ''allowed''"
| "producer_status_text Pd_unregistered = ''unregistered''"
| "producer_status_text Pd_revoked = ''revoked''"
| "producer_status_text Pd_suspended = ''suspended''"
| "producer_status_text Pd_trust_expired = ''trust_expired''"
| "producer_status_text Pd_tenant_mismatch = ''tenant_mismatch''"
| "producer_status_text Pd_workspace_mismatch = ''workspace_mismatch''"
| "producer_status_text Pd_event_type_not_allowed = ''event_type_not_allowed''"
| "producer_status_text Pd_event_name_not_allowed = ''event_name_not_allowed''"
| "producer_status_text Pd_human_masquerade = ''human_masquerade''"
| "producer_status_text Pd_untrusted_plugin = ''untrusted_plugin''"
| "producer_status_text Pd_sequence_forgery = ''sequence_forgery''"

record EvaluateProducerInput =
  epi_producer :: "EventProducer option"
  epi_contextScope :: EventScope
  epi_eventType :: EventType
  epi_eventName :: string
  epi_claimsHuman :: bool
  epi_declaredSequence :: "int option"
  epi_now :: string

definition evaluateProducer :: "EvaluateProducerInput \<Rightarrow> ProducerDecisionStatus EventDecision" where
  "evaluateProducer i =
     (let result = event_decide (epi_now i) in
      case epi_producer i of
        None \<Rightarrow> result Pd_unregistered ''producer_unregistered''
      | Some p \<Rightarrow>
          if prd_status p = Producer_revoked then result Pd_revoked ''producer_revoked''
          else if prd_status p = Producer_suspended then result Pd_suspended ''producer_suspended''
          else if (case truthy_opt (prd_trustExpiresAt p) of None \<Rightarrow> False | Some e \<Rightarrow> \<not> isFuture e (epi_now i)) then
            result Pd_trust_expired ''producer_trust_expired''
          else if esc_tenantId (prd_scope p) \<noteq> esc_tenantId (epi_contextScope i) then result Pd_tenant_mismatch ''producer_tenant_mismatch''
          else if esc_workspaceId (prd_scope p) \<noteq> esc_workspaceId (epi_contextScope i) then
            result Pd_workspace_mismatch ''producer_workspace_mismatch''
          else if epi_claimsHuman i \<and> prd_kind p \<in> {Prod_AGENT, Prod_DIGITAL_EMPLOYEE, Prod_MCP_SERVER, Prod_PLUGIN} then
            result Pd_human_masquerade ''human_masquerade''
          else if prd_kind p \<in> {Prod_PLUGIN, Prod_MCP_SERVER} \<and> prd_trustLevel p \<in> {Trust_UNKNOWN, Trust_UNTRUSTED} then
            result Pd_untrusted_plugin ''untrusted_plugin_producer''
          else if epi_eventType i \<notin> set (prd_allowedEventTypes p) then result Pd_event_type_not_allowed ''event_type_not_allowed''
          else if (case prd_allowedEventNames p of None \<Rightarrow> False | Some names \<Rightarrow> names \<noteq> [] \<and> epi_eventName i \<notin> set names) then
            result Pd_event_name_not_allowed ''event_name_not_allowed''
          else if (case (epi_declaredSequence i, prd_maxSequenceClaimed p) of (Some d, Some m) \<Rightarrow> d \<le> m | _ \<Rightarrow> False) then
            result Pd_sequence_forgery ''producer_sequence_forgery''
          else result Pd_allowed ''producer_allowed'')"

section \<open>ordering.ts\<close>

datatype SequenceScope = Seq_GLOBAL | Seq_TENANT | Seq_WORKSPACE | Seq_AGGREGATE | Seq_STREAM | Seq_PARTITION | Seq_PRODUCER

datatype OrderingStatus =
  Or_in_order | Or_unspecified | Or_sequence_rollback | Or_duplicate_sequence_conflict | Or_duplicate_sequence_idempotent
  | Or_gap_detected | Or_global_order_unsupported | Or_tenant_scope_mixed

fun ordering_status_text :: "OrderingStatus \<Rightarrow> string" where
  "ordering_status_text Or_in_order = ''in_order''"
| "ordering_status_text Or_unspecified = ''unspecified''"
| "ordering_status_text Or_sequence_rollback = ''sequence_rollback''"
| "ordering_status_text Or_duplicate_sequence_conflict = ''duplicate_sequence_conflict''"
| "ordering_status_text Or_duplicate_sequence_idempotent = ''duplicate_sequence_idempotent''"
| "ordering_status_text Or_gap_detected = ''gap_detected''"
| "ordering_status_text Or_global_order_unsupported = ''global_order_unsupported''"
| "ordering_status_text Or_tenant_scope_mixed = ''tenant_scope_mixed''"

record EvaluateOrderingInput =
  eoi_scope :: SequenceScope
  eoi_scopeTenant :: string
  eoi_lastTenant :: "string option"
  eoi_lastSequence :: "int option"
  eoi_lastPayloadDigest :: "string option"
  eoi_received :: int
  eoi_receivedPayloadDigest :: string
  eoi_distributedBackend :: bool
  eoi_orderingRequired :: bool
  eoi_now :: string

definition evaluateOrdering :: "EvaluateOrderingInput \<Rightarrow> OrderingStatus EventDecision" where
  "evaluateOrdering i =
     (let result = event_decide (eoi_now i) in
      if eoi_scope i = Seq_GLOBAL \<and> \<not> eoi_distributedBackend i then result Or_global_order_unsupported ''global_order_unsupported''
      else if eoi_lastTenant i \<noteq> None \<and> eoi_lastTenant i \<noteq> Some (eoi_scopeTenant i) then result Or_tenant_scope_mixed ''tenant_sequence_mixed''
      else if \<not> eoi_orderingRequired i then result Or_unspecified ''ordering_unspecified''
      else
        (case eoi_lastSequence i of
           None \<Rightarrow> result Or_in_order ''first_in_sequence''
         | Some lastSequence \<Rightarrow>
             if eoi_received i < lastSequence then result Or_sequence_rollback ''sequence_rollback''
             else if eoi_received i = lastSequence then
               (if eoi_lastPayloadDigest i \<noteq> None \<and> eoi_lastPayloadDigest i \<noteq> Some (eoi_receivedPayloadDigest i)
                then result Or_duplicate_sequence_conflict ''duplicate_sequence_conflict''
                else result Or_duplicate_sequence_idempotent ''duplicate_sequence_idempotent'')
             else if eoi_received i > lastSequence + 1 then result Or_gap_detected ''sequence_gap''
             else result Or_in_order ''in_order''))"

section \<open>idempotency.ts\<close>

datatype IdempotencyDecisionStatus = Idem_CLAIMED | Idem_DUPLICATE | Idem_REPLAYED | Idem_EXPIRED | Idem_CONFLICT | Idem_REJECTED

record IdempotencyRecord =
  idr_key :: string
  idr_tenantId :: string
  idr_eventId :: string
  idr_payloadDigest :: string
  idr_claimedAt :: string
  idr_expiresAt :: "string option"

record IdempotencyClaimInput =
  ici_key :: string
  ici_tenantId :: string
  ici_eventId :: string
  ici_payloadDigest :: string
  ici_now :: string
  ici_expiresAt :: "string option"

record IdempotencyDecision =
  idd_status :: IdempotencyDecisionStatus
  idd_reasonCode :: string
  idd_existing :: "IdempotencyRecord option"

definition idempotencyPartition :: "string \<Rightarrow> string \<Rightarrow> string" where
  "idempotencyPartition key tenantId = tenantId @ ''::'' @ key"

type_synonym idempotency_records = "string \<rightharpoonup> IdempotencyRecord"

text \<open>An optional time that is present and at or before now; an unreadable time counts as not passed.\<close>

definition window_passed :: "string option \<Rightarrow> string \<Rightarrow> bool" where
  "window_passed expiresAt now = (case truthy_opt expiresAt of None \<Rightarrow> False | Some e \<Rightarrow> isAtOrBefore e now)"

definition idem_claim :: "IdempotencyClaimInput \<Rightarrow> idempotency_records \<Rightarrow> IdempotencyDecision \<times> idempotency_records" where
  "idem_claim i s =
     (if \<not> isNonEmptyString (ici_key i) \<or> \<not> isNonEmptyString (ici_eventId i) then
        (\<lparr> idd_status = Idem_REJECTED, idd_reasonCode = ''idempotency_key_or_event_missing'', idd_existing = None \<rparr>, s)
      else
        (let pk = idempotencyPartition (ici_key i) (ici_tenantId i) in
         case s pk of
           None \<Rightarrow>
             (\<lparr> idd_status = Idem_CLAIMED, idd_reasonCode = ''idempotency_claimed'', idd_existing = None \<rparr>,
              s(pk \<mapsto> \<lparr> idr_key = ici_key i, idr_tenantId = ici_tenantId i, idr_eventId = ici_eventId i,
                        idr_payloadDigest = ici_payloadDigest i, idr_claimedAt = ici_now i, idr_expiresAt = truthy_opt (ici_expiresAt i) \<rparr>))
         | Some existing \<Rightarrow>
             (if window_passed (idr_expiresAt existing) (ici_now i) then
                \<lparr> idd_status = Idem_EXPIRED, idd_reasonCode = ''idempotency_window_expired'', idd_existing = Some existing \<rparr>
              else if idr_eventId existing = ici_eventId i \<and> idr_payloadDigest existing = ici_payloadDigest i then
                \<lparr> idd_status = Idem_DUPLICATE, idd_reasonCode = ''duplicate_event'', idd_existing = Some existing \<rparr>
              else
                \<lparr> idd_status = Idem_CONFLICT, idd_reasonCode = ''idempotency_conflict_payload_differs'', idd_existing = Some existing \<rparr>, s)))"

definition idem_seen :: "string \<Rightarrow> string \<Rightarrow> idempotency_records \<Rightarrow> bool" where
  "idem_seen key tenantId s \<longleftrightarrow> s (idempotencyPartition key tenantId) \<noteq> None"

datatype DeduplicationResult = Dedup_UNIQUE | Dedup_DUPLICATE | Dedup_CONFLICT

definition evaluateDeduplication :: "string \<Rightarrow> string \<Rightarrow> (string \<rightharpoonup> string) \<Rightarrow> DeduplicationResult \<times> (string \<rightharpoonup> string)" where
  "evaluateDeduplication eventId payloadDigest seen =
     (case seen eventId of
        None \<Rightarrow> (Dedup_UNIQUE, seen(eventId \<mapsto> payloadDigest))
      | Some prior \<Rightarrow> (if prior = payloadDigest then Dedup_DUPLICATE else Dedup_CONFLICT, seen))"

definition assertDurableIdempotencyInProduction :: "bool \<Rightarrow> bool \<Rightarrow> RuntimeMode \<Rightarrow> unit result" where
  "assertDurableIdempotencyInProduction testOnly productionReady mode =
     (if mode = Production \<and> (testOnly \<or> \<not> productionReady)
      then Inl (JsError ''A durable idempotency store is required in production; an in-memory store cannot be used.'') else Inr ())"

section \<open>publish.ts\<close>

datatype PublishDecisionStatus =
  Pub_ACCEPTED | Pub_REJECTED | Pub_DUPLICATE | Pub_SCHEMA_INVALID | Pub_PRODUCER_UNTRUSTED | Pub_TENANT_MISMATCH
  | Pub_WORKSPACE_MISMATCH | Pub_PAYLOAD_INVALID | Pub_INTEGRITY_FAILED | Pub_RATE_LIMITED | Pub_EXPIRED | Pub_REVOKED
  | Pub_POLICY_REFERENCE_MISSING | Pub_STORAGE_UNAVAILABLE | Pub_AUDIT_UNAVAILABLE | Pub_SEQUENCE_INVALID | Pub_SENSITIVITY_INVALID

record PublishContext =
  pc_mode :: RuntimeMode
  pc_scope :: EventScope
  pc_now :: string
  pc_storageAvailable :: bool
  pc_auditAvailable :: bool
  pc_requiresPolicyReference :: bool
  pc_policyReferencePresent :: bool
  pc_rateLimited :: bool
  pc_critical :: bool

record PublishRequest =
  pbr_envelope :: EventEnvelope
  pbr_producerDecision :: "ProducerDecisionStatus EventDecision"
  pbr_schemaDecision :: "SchemaValidationStatus EventDecision"
  pbr_integrityValid :: bool
  pbr_sensitivityValid :: bool
  pbr_idempotency :: IdempotencyDecisionStatus
  pbr_ordering :: "OrderingStatus EventDecision option"
  pbr_context :: PublishContext

record PublishReceipt =
  rcp_receiptId :: string
  rcp_eventId :: string
  rcp_acceptedAt :: string
  rcp_sequence :: "int option"
  rcp_partitionKey :: string

record PublishResult =
  pbs_decision :: "PublishDecisionStatus EventDecision"
  pbs_receipt :: "PublishReceipt option"

definition ORDER_FAILURES :: "OrderingStatus set" where
  "ORDER_FAILURES = {Or_sequence_rollback, Or_duplicate_sequence_conflict, Or_global_order_unsupported, Or_tenant_scope_mixed}"

definition publish_producer :: "ProducerDecisionStatus \<Rightarrow> PublishDecisionStatus \<times> string" where
  "publish_producer pd =
     (if pd = Pd_tenant_mismatch then (Pub_TENANT_MISMATCH, ''producer_tenant_mismatch'')
      else if pd = Pd_workspace_mismatch then (Pub_WORKSPACE_MISMATCH, ''producer_workspace_mismatch'')
      else if pd = Pd_revoked then (Pub_REVOKED, ''producer_revoked'')
      else (Pub_PRODUCER_UNTRUSTED, ''producer_'' @ producer_status_text pd))"

definition publish_shape :: "EnvelopeValidationStatus \<Rightarrow> PublishDecisionStatus \<times> string" where
  "publish_shape status =
     (if status = Env_unknown_type then (Pub_REJECTED, ''unknown_event_type'')
      else if status = Env_tenant_missing then (Pub_TENANT_MISMATCH, ''tenant_missing'')
      else (Pub_PAYLOAD_INVALID, ''envelope_'' @ envelope_status_text status))"

text \<open>The gates in the order of the code: the first that refuses gives the status and the reason.\<close>

definition publish_refusal :: "PublishRequest \<Rightarrow> (PublishDecisionStatus \<times> string) option" where
  "publish_refusal req =
     (let ctx = pbr_context req; env = pbr_envelope req; shape = fst (validateEnvelopeShape env);
          producer = ed_decision (pbr_producerDecision req); schema = ed_decision (pbr_schemaDecision req) in
      if producer \<noteq> Pd_allowed then Some (publish_producer producer)
      else if shape \<noteq> Env_valid then Some (publish_shape shape)
      else if window_passed (evn_expiresAt env) (pc_now ctx) then Some (Pub_EXPIRED, ''event_expired'')
      else if schema \<noteq> Sv_valid then Some (Pub_SCHEMA_INVALID, ''schema_'' @ schema_status_text schema)
      else if \<not> pbr_integrityValid req then Some (Pub_INTEGRITY_FAILED, ''payload_integrity_failed'')
      else if \<not> pbr_sensitivityValid req then Some (Pub_SENSITIVITY_INVALID, ''sensitivity_invalid'')
      else if pbr_idempotency req = Idem_DUPLICATE \<or> pbr_idempotency req = Idem_REPLAYED then Some (Pub_DUPLICATE, ''duplicate_event'')
      else if pbr_idempotency req = Idem_CONFLICT then Some (Pub_REJECTED, ''idempotency_conflict'')
      else if pbr_idempotency req = Idem_EXPIRED then Some (Pub_EXPIRED, ''idempotency_expired'')
      else if pbr_idempotency req = Idem_REJECTED then Some (Pub_REJECTED, ''idempotency_rejected'')
      else if pc_requiresPolicyReference ctx \<and> \<not> pc_policyReferencePresent ctx then
        Some (Pub_POLICY_REFERENCE_MISSING, ''policy_reference_missing'')
      else if (case pbr_ordering req of None \<Rightarrow> False | Some d \<Rightarrow> ed_decision d \<in> ORDER_FAILURES) then
        Some (Pub_SEQUENCE_INVALID, ''ordering_'' @ ordering_status_text (ed_decision (the (pbr_ordering req))))
      else if pc_rateLimited ctx \<and> \<not> pc_critical ctx then Some (Pub_RATE_LIMITED, ''rate_limited'')
      else if \<not> pc_storageAvailable ctx then Some (Pub_STORAGE_UNAVAILABLE, ''storage_unavailable'')
      else if \<not> pc_auditAvailable ctx then Some (Pub_AUDIT_UNAVAILABLE, ''audit_unavailable'')
      else None)"

definition evaluatePublish :: "crypto \<Rightarrow> PublishRequest \<Rightarrow> nat \<Rightarrow> PublishResult \<times> nat" where
  "evaluatePublish C req n =
     (let now = pc_now (pbr_context req); env = pbr_envelope req in
      case publish_refusal req of
        Some (status, code) \<Rightarrow> (\<lparr> pbs_decision = event_decide now status code, pbs_receipt = None \<rparr>, n)
      | None \<Rightarrow>
          (let (receiptId, n') = newId C ''rcpt'' n in
           (\<lparr> pbs_decision = (event_decide now Pub_ACCEPTED ''event_accepted'')\<lparr> ed_auditReference := truthy_opt (Some receiptId) \<rparr>,
              pbs_receipt = Some \<lparr> rcp_receiptId = receiptId, rcp_eventId = evn_eventId env, rcp_acceptedAt = now,
                                   rcp_sequence = evn_sequence env, rcp_partitionKey = evn_partitionKey env \<rparr> \<rparr>, n')))"

section \<open>Envelopes, schemas and producers\<close>

lemma built_envelope_intact: "verifyEnvelopeIntegrity C (buildEnvelope C i) (bei_payload i) (bei_metadata i)"
  by (simp add: verifyEnvelopeIntegrity_def buildEnvelope_def)

text \<open>Another payload or other metadata pass the check only with the same canonical text or a collision.\<close>

lemma envelope_integrity_iff:
  assumes "inj_on (sha256Hex C) {canonicalJson (bei_payload i), canonicalJson (bei_metadata i), canonicalJson payload, canonicalJson metadata}"
  shows "verifyEnvelopeIntegrity C (buildEnvelope C i) payload metadata \<longleftrightarrow>
    canonicalJson payload = canonicalJson (bei_payload i) \<and> canonicalJson metadata = canonicalJson (bei_metadata i)"
  using inj_on_eq_iff [OF assms, of "canonicalJson payload" "canonicalJson (bei_payload i)"]
    inj_on_eq_iff [OF assms, of "canonicalJson metadata" "canonicalJson (bei_metadata i)"]
  by (simp add: verifyEnvelopeIntegrity_def buildEnvelope_def digestOf_def)

lemma categories_total: "isKnownEventType t \<longleftrightarrow> categoryOf t \<noteq> None"
  by (auto simp: isKnownEventType_def KNOWN_EVENT_TYPES_def categoryOf_def TYPE_CATEGORY_def)

text \<open>
  The registry: over any registrations and revocations, the definition of a registered version never
  changes, and a revoked version stays refused. But what is fixed is the digest of the definition only:
  a schema whose status is revoked becomes valid again when it is registered anew as active.
\<close>

inductive registry_step :: "InMemorySchemaRegistry \<Rightarrow> InMemorySchemaRegistry \<Rightarrow> bool" where
  registry_register: "registry_step r (snd (schema_register schema r))"
| registry_revoke: "registry_step r (schema_revoke name version r)"

lemma registry_digest_fixed:
  assumes "registry_step\<^sup>*\<^sup>* r r'" and "isr_byKey r key = Some schema"
  shows "(\<exists>schema'. isr_byKey r' key = Some schema' \<and> sch_definitionDigest schema' = sch_definitionDigest schema) \<and>
    isr_revoked r \<subseteq> isr_revoked r'"
  using assms(1)
proof (induction rule: rtranclp_induct)
  case (step y z)
  then show ?case
    by (auto elim!: registry_step.cases simp: schema_register_def schema_revoke_def Let_def split: if_splits option.splits)
qed (simp add: assms(2))

lemma schema_revival:
  assumes "isr_byKey r (schema_key (sch_schemaName schema) (sch_schemaVersion schema)) = Some (schema\<lparr> sch_status := Schema_revoked \<rparr>)"
  shows "isr_byKey (snd (schema_register schema r)) (schema_key (sch_schemaName schema) (sch_schemaVersion schema)) = Some schema"
  using assms by (simp add: schema_register_def Let_def)

text \<open>A schema is valid exactly when it is registered, not revoked, and as declared; a deprecated one passes.\<close>

lemma schema_valid_iff:
  "ed_decision (fst (validateEventSchema i)) = Sv_valid \<longleftrightarrow>
     isNonEmptyString (vsi_schemaName i) \<and> isNonEmptyString (vsi_schemaVersion i) \<and>
     \<not> reg_isRevoked (vsi_registry i) (vsi_schemaName i) (vsi_schemaVersion i) \<and>
     (\<exists>schema. reg_get (vsi_registry i) (vsi_schemaName i) (vsi_schemaVersion i) = Some schema \<and>
        sch_status schema \<noteq> Schema_revoked \<and> sch_compatibility schema \<noteq> Compat_REVOKED \<and>
        vsi_declaredDefinitionDigest i \<in> {None, Some (sch_definitionDigest schema)} \<and>
        (sch_compatibility schema = Compat_BREAKING \<longrightarrow> sch_minor schema = 0) \<and>
        (\<forall>majors. vsi_supportedMajors i = Some majors \<longrightarrow> majors = [] \<or> sch_major schema \<in> set majors))"
  by (auto simp: validateEventSchema_def Let_def split: option.splits)

lemma schema_statuses_unused: "ed_decision (fst (validateEventSchema i)) \<notin> {Sv_schema_deprecated_blocked, Sv_registry_spoofed}"
  by (auto simp: validateEventSchema_def Let_def split: option.splits)

lemma producer_allowed_iff:
  "ed_decision (evaluateProducer i) = Pd_allowed \<longleftrightarrow>
     (\<exists>p. epi_producer i = Some p \<and> prd_status p = Producer_active \<and>
        (\<forall>e. truthy_opt (prd_trustExpiresAt p) = Some e \<longrightarrow> isFuture e (epi_now i)) \<and>
        event_sameScope (prd_scope p) (epi_contextScope i) \<and>
        (epi_claimsHuman i \<longrightarrow> prd_kind p \<notin> {Prod_AGENT, Prod_DIGITAL_EMPLOYEE, Prod_MCP_SERVER, Prod_PLUGIN}) \<and>
        (prd_kind p \<in> {Prod_PLUGIN, Prod_MCP_SERVER} \<longrightarrow> prd_trustLevel p \<notin> {Trust_UNKNOWN, Trust_UNTRUSTED}) \<and>
        epi_eventType i \<in> set (prd_allowedEventTypes p) \<and>
        (\<forall>names. prd_allowedEventNames p = Some names \<longrightarrow> names = [] \<or> epi_eventName i \<in> set names) \<and>
        (\<forall>d m. epi_declaredSequence i = Some d \<and> prd_maxSequenceClaimed p = Some m \<longrightarrow> m < d))"
proof (cases "epi_producer i")
  case (Some p)
  have "prd_status p = Producer_active \<longleftrightarrow> prd_status p \<noteq> Producer_revoked \<and> prd_status p \<noteq> Producer_suspended"
    by (cases "prd_status p") simp_all
  then show ?thesis
    unfolding evaluateProducer_def Let_def event_sameScope_def
    by (simp add: Some not_le split: option.splits)
qed (simp add: evaluateProducer_def)

text \<open>In order means the first of a sequence or the successor of the last.\<close>

lemma in_order_successor:
  assumes "eoi_orderingRequired i" "eoi_lastSequence i = Some k"
  shows "ed_decision (evaluateOrdering i) = Or_in_order \<longleftrightarrow>
    eoi_received i = k + 1 \<and> (eoi_scope i = Seq_GLOBAL \<longrightarrow> eoi_distributedBackend i) \<and> eoi_lastTenant i \<in> {None, Some (eoi_scopeTenant i)}"
  using assms by (auto simp: evaluateOrdering_def Let_def)

section \<open>Idempotency\<close>

definition claim_partition :: "IdempotencyClaimInput \<Rightarrow> string" where
  "claim_partition i = idempotencyPartition (ici_key i) (ici_tenantId i)"

definition idem_won :: "IdempotencyClaimInput \<Rightarrow> idempotency_records \<Rightarrow> bool \<times> idempotency_records" where
  "idem_won i s = (idd_status (fst (idem_claim i s)) = Idem_CLAIMED, snd (idem_claim i s))"

interpretation idem: exact_one_shot idem_won claim_partition dom
proof
  show "claim_partition q \<notin> dom s \<and> dom s' = insert (claim_partition q) (dom s)" if "idem_won q s = (True, s')" for q s s'
    using that by (auto simp: idem_won_def idem_claim_def claim_partition_def Let_def split: if_splits option.splits)
  show "dom s' = dom s" if "idem_won q s = (False, s')" for q s s'
    using that by (auto simp: idem_won_def idem_claim_def Let_def split: if_splits option.splits)
qed

text \<open>A claim after the first one fails, whatever the time: also when the window has passed.\<close>

lemma claim_never_reopens:
  "idd_status (fst (idem_claim i s)) = Idem_CLAIMED \<Longrightarrow> claim_partition j = claim_partition i \<Longrightarrow>
     idd_status (fst (idem_claim j (snd (idem_claim i s)))) \<noteq> Idem_CLAIMED"
  by (auto simp: idem_claim_def claim_partition_def Let_def split: if_splits option.splits)

text \<open>Two tenants share a record when the ids contain the separator.\<close>

lemma partitions_collide: "idempotencyPartition ''c'' ''a::b'' = idempotencyPartition ''b::c'' ''a''"
  by (simp add: idempotencyPartition_def)

section \<open>Properties\<close>

lemma accepted_iff_no_refusal: "ed_decision (pbs_decision (fst (evaluatePublish C req n))) = Pub_ACCEPTED \<longleftrightarrow> publish_refusal req = None"
proof -
  have "Some (Pub_ACCEPTED, code) \<noteq> publish_refusal req" for code
    unfolding publish_refusal_def publish_producer_def publish_shape_def Let_def by simp
  then show ?thesis
    by (cases "publish_refusal req") (auto simp: evaluatePublish_def Let_def split: prod.splits)
qed

lemma no_refusal_iff:
  "publish_refusal req = None \<longleftrightarrow>
      ed_decision (pbr_producerDecision req) = Pd_allowed \<and> fst (validateEnvelopeShape (pbr_envelope req)) = Env_valid \<and>
      \<not> window_passed (evn_expiresAt (pbr_envelope req)) (pc_now (pbr_context req)) \<and> ed_decision (pbr_schemaDecision req) = Sv_valid \<and>
      pbr_integrityValid req \<and> pbr_sensitivityValid req \<and> pbr_idempotency req = Idem_CLAIMED \<and>
      \<not> (pc_requiresPolicyReference (pbr_context req) \<and> \<not> pc_policyReferencePresent (pbr_context req)) \<and>
      (case pbr_ordering req of None \<Rightarrow> True | Some d \<Rightarrow> ed_decision d \<notin> ORDER_FAILURES) \<and>
      \<not> (pc_rateLimited (pbr_context req) \<and> \<not> pc_critical (pbr_context req)) \<and>
      pc_storageAvailable (pbr_context req) \<and> pc_auditAvailable (pbr_context req)"
proof -
  have i: "pbr_idempotency req = Idem_CLAIMED \<longleftrightarrow>
      pbr_idempotency req \<notin> {Idem_DUPLICATE, Idem_REPLAYED, Idem_CONFLICT, Idem_EXPIRED, Idem_REJECTED}"
    by (cases "pbr_idempotency req") simp_all
  show ?thesis unfolding i by (cases "pbr_ordering req") (auto simp: publish_refusal_def Let_def)
qed


text \<open>A publication: the key is claimed, and the status of the claim goes into the decision.\<close>

definition publish_attempt ::
  "crypto \<Rightarrow> IdempotencyClaimInput \<times> PublishRequest \<times> nat \<Rightarrow> idempotency_records \<Rightarrow> bool \<times> idempotency_records" where
  "publish_attempt C q s =
     (let (i, req, n) = q; (d, s') = idem_claim i s
      in (ed_decision (pbs_decision (fst (evaluatePublish C (req\<lparr> pbr_idempotency := idd_status d \<rparr>) n))) = Pub_ACCEPTED, s'))"

lemma publish_attempt_wins: "publish_attempt C q s = (True, s') \<Longrightarrow> idem_won (fst q) s = (True, s')"
proof -
  assume "publish_attempt C q s = (True, s')"
  moreover obtain i req n where q: "q = (i, req, n)" by (metis prod.collapse)
  ultimately have "publish_refusal (req\<lparr> pbr_idempotency := idd_status (fst (idem_claim i s)) \<rparr>) = None" "s' = snd (idem_claim i s)"
    by (auto simp: publish_attempt_def accepted_iff_no_refusal split: prod.splits)
  then show ?thesis by (simp add: no_refusal_iff idem_won_def q)
qed

interpretation publish_once: one_shot "publish_attempt C" "claim_partition \<circ> fst" dom
proof
  show "(claim_partition \<circ> fst) q \<notin> dom s \<and> (claim_partition \<circ> fst) q \<in> dom s'" if "publish_attempt C q s = (True, s')" for q s s'
    using idem.exact_wins [OF publish_attempt_wins [OF that]] by simp
  show "dom s \<subseteq> dom s'" if "publish_attempt C q s = (ok, s')" for q s ok s'
    using that by (auto simp: publish_attempt_def idem_claim_def Let_def split: prod.splits if_splits option.splits)
qed

text \<open>
  C21. Accepted at most once: however publications follow each other, each with a claim of its key and the
  decision on what the claim said, no tenant has two of them accepted under the same idempotency key, and
  none under a key that was claimed before.
\<close>

theorem event_accepted_once:
  assumes "claim_run (publish_attempt C) qs s = (accepted, s')"
  shows "distinct (map (\<lambda>(i, req, n). (ici_tenantId i, ici_key i)) accepted) \<and>
    (\<forall>(i, req, n) \<in> set accepted. \<not> idem_seen (ici_key i) (ici_tenantId i) s \<and> idem_seen (ici_key i) (ici_tenantId i) s')"
proof -
  note r = publish_once.claim_run_inv [OF assms]
  then have "distinct (map (\<lambda>(t, k). idempotencyPartition k t) (map (\<lambda>(i, req, n). (ici_tenantId i, ici_key i)) accepted))"
    by (simp add: o_def claim_partition_def case_prod_unfold)
  then have "distinct (map (\<lambda>(i, req, n). (ici_tenantId i, ici_key i)) accepted)" unfolding distinct_map by (rule conjunct1)
  moreover have "idem_seen (ici_key i) (ici_tenantId i) s' \<and> \<not> idem_seen (ici_key i) (ici_tenantId i) s" if "(i, req, n) \<in> set accepted" for i req n
    using r that by (force simp: idem_seen_def claim_partition_def dom_def)
  ultimately show ?thesis by blast
qed

definition demo_event :: BuildEnvelopeInput where
  "demo_event =
     \<lparr> bei_eventId = ''e1'', bei_eventName = ''orderPlaced'', bei_eventType = ''DOMAIN_EVENT'', bei_schemaName = ''order'',
       bei_schemaVersion = ''1.0'', bei_occurredAt = ''2026-01-01T00:00:00.000Z'', bei_recordedAt = ''2026-01-01T00:00:00.000Z'',
       bei_scope = \<lparr> esc_tenantId = ''t1'', esc_workspaceId = ''w1'', esc_organizationId = None \<rparr>,
       bei_provenance = \<lparr> ep_producerPrincipalId = ''p1'', ep_producerIdentityId = ''i1'', ep_producerId = ''svc'', ep_source = ''shop'',
                          ep_producedInMode = Test \<rparr>,
       bei_securityContext = \<lparr> esx_producerTrustLevel = ''HIGH'', esx_authorizationReference = None, esx_assuranceReference = None \<rparr>,
       bei_correlationId = ''c1'', bei_causationId = None, bei_traceId = ''tr1'', bei_idempotencyKey = ''k1'', bei_payload = JNum 1,
       bei_payloadReference = \<lparr> epr_ref = ''ref'', epr_contentType = ''json'', epr_byteSize = 1 \<rparr>, bei_metadata = JNull,
       bei_headers = None, bei_sensitivity = Sens_INTERNAL, bei_dataClassification = Data_NONE, bei_retentionClass = Ret_STANDARD,
       bei_partitionKey = ''t1'', bei_expiresAt = None, bei_sequence = None, bei_isReplay = None \<rparr>"

definition demo_publish :: PublishRequest where
  "demo_publish =
     \<lparr> pbr_envelope = buildEnvelope demo_crypto demo_event, pbr_producerDecision = event_decide [] Pd_allowed ''producer_allowed'',
       pbr_schemaDecision = event_decide [] Sv_valid ''schema_valid'', pbr_integrityValid = True, pbr_sensitivityValid = True,
       pbr_idempotency = Idem_CLAIMED, pbr_ordering = None,
       pbr_context = \<lparr> pc_mode = Test, pc_scope = bei_scope demo_event, pc_now = ''2026-01-01T00:00:00.000Z'', pc_storageAvailable = True,
                       pc_auditAvailable = True, pc_requiresPolicyReference = False, pc_policyReferencePresent = False,
                       pc_rateLimited = False, pc_critical = False \<rparr> \<rparr>"

definition demo_claim :: IdempotencyClaimInput where
  "demo_claim = \<lparr> ici_key = ''k1'', ici_tenantId = ''t1'', ici_eventId = ''e1'', ici_payloadDigest = ''d1'',
     ici_now = ''2026-01-01T00:00:00.000Z'', ici_expiresAt = None \<rparr>"

theorem event_accepted_once_witness:
  "let q = (demo_claim, demo_publish, 0) in
   fst (claim_run (publish_attempt demo_crypto) [q, q] Map.empty) = [q] \<and>
   idem_seen ''k1'' ''t1'' (snd (claim_run (publish_attempt demo_crypto) [q, q] Map.empty))"
proof -
  let ?q = "(demo_claim, demo_publish, 0 :: nat)"
  let ?r = "claim_run (publish_attempt demo_crypto) [?q, ?q] Map.empty"
  have a: "fst (publish_attempt demo_crypto ?q Map.empty)" by code_simp
  note p = event_accepted_once [of demo_crypto "[?q, ?q]" Map.empty "fst ?r" "snd ?r", OF surjective_pairing]
  then have "distinct (map (\<lambda>(i, req, n). (ici_tenantId i, ici_key i)) (fst ?r))" by (rule conjunct1)
  moreover have "fst ?r = [?q] \<or> fst ?r = [?q, ?q]" using a by (auto split: prod.splits)
  ultimately have "fst ?r = [?q]" by auto
  moreover have "ici_key demo_claim = ''k1''" "ici_tenantId demo_claim = ''t1''" by (simp_all add: demo_claim_def)
  ultimately show ?thesis using p unfolding Let_def by simp
qed

text \<open>
  The other side of it: the claim is taken before the later gates, and nothing gives it back. A
  publication that is refused after its claim, say because the storage is down, can never be accepted.
\<close>

lemma refused_publish_is_lost:
  assumes "publish_attempt C (i, req, n) s = (False, s')" and "idd_status (fst (idem_claim i s)) = Idem_CLAIMED"
    and "claim_partition j = claim_partition i"
  shows "\<not> fst (publish_attempt C (j, req', m) s')"
proof
  assume "fst (publish_attempt C (j, req', m) s')"
  then have "claim_partition j \<notin> dom s'"
    using idem.exact_wins [OF publish_attempt_wins] by (metis (mono_tags) fst_conv prod.collapse)
  moreover have "s' = snd (idem_won i s)" "fst (idem_won i s)"
    using assms(1,2) by (auto simp: publish_attempt_def idem_won_def split: prod.splits)
  then have "claim_partition i \<in> dom s'" using idem.exact_wins by (metis (full_types) insertI1 prod.collapse)
  ultimately show False using assms(3) by simp
qed

text \<open>An event of one tenant is accepted in the context of another.\<close>

lemma publish_across_tenants:
  "let req = demo_publish\<lparr> pbr_context := (pbr_context demo_publish)\<lparr> pc_scope := \<lparr> esc_tenantId = ''t2'', esc_workspaceId = ''w2'', esc_organizationId = None \<rparr> \<rparr> \<rparr>
   in ed_decision (pbs_decision (fst (evaluatePublish demo_crypto req 0))) = Pub_ACCEPTED \<and> evn_tenantId (pbr_envelope req) = ''t1''"
  by code_simp

end
