(* ===== verification/Event_Delivery.thy ===== *)
theory Event_Delivery
  imports Event_Publish Complex_Main
begin

text \<open>
  \<^verbatim>\<open>event-foundation/src\<close>, what happens after an event was accepted: consumers and their checkpoints
  (\<^verbatim>\<open>consumer.ts\<close>), deliveries and acknowledgements (\<^verbatim>\<open>delivery.ts\<close>), retries (\<^verbatim>\<open>retry.ts\<close>), dead letters
  (\<^verbatim>\<open>deadletter.ts\<close>), replays (\<^verbatim>\<open>replay.ts\<close>), outbox and inbox (\<^verbatim>\<open>outbox.ts\<close>), admission (\<^verbatim>\<open>ratelimit.ts\<close>) and
  privacy (\<^verbatim>\<open>privacy.ts\<close>), with the in-memory stores of \<^verbatim>\<open>reference.ts\<close>. Shares of capacity are rationals.
\<close>

section \<open>consumer.ts\<close>

record ConsumerFilter =
  cf_eventTypes :: "EventType list"
  cf_eventNames :: "string list option"
  cf_wildcard :: "bool option"

datatype ConsumerStatus = Consumer_active | Consumer_paused | Consumer_revoked

record EventConsumer =
  ecn_consumerId :: string
  ecn_scope :: EventScope
  ecn_filter :: ConsumerFilter
  ecn_registeredEventTypes :: "EventType list"
  ecn_status :: ConsumerStatus
  ecn_offset :: int
  ecn_capabilities :: "string list"

datatype ConsumerDecisionStatus =
  Cd_allowed | Cd_unregistered | Cd_revoked | Cd_paused | Cd_tenant_mismatch | Cd_workspace_mismatch | Cd_event_type_not_registered
  | Cd_wildcard_denied | Cd_sensitive_assurance_missing | Cd_checkpoint_rollback_denied | Cd_capability_escalation

record EvaluateConsumerReadInput =
  ecr_consumer :: "EventConsumer option"
  ecr_eventScope :: EventScope
  ecr_eventType :: EventType
  ecr_sensitive :: bool
  ecr_hasSensitiveAssurance :: bool
  ecr_mode :: RuntimeMode
  ecr_now :: string

definition evaluateConsumerRead :: "EvaluateConsumerReadInput \<Rightarrow> ConsumerDecisionStatus EventDecision" where
  "evaluateConsumerRead i =
     (let result = event_decide (ecr_now i) in
      case ecr_consumer i of
        None \<Rightarrow> result Cd_unregistered ''consumer_unregistered''
      | Some c \<Rightarrow>
          if ecn_status c = Consumer_revoked then result Cd_revoked ''consumer_revoked''
          else if ecn_status c = Consumer_paused then result Cd_paused ''consumer_paused''
          else if esc_tenantId (ecn_scope c) \<noteq> esc_tenantId (ecr_eventScope i) then result Cd_tenant_mismatch ''consumer_tenant_mismatch''
          else if esc_workspaceId (ecn_scope c) \<noteq> esc_workspaceId (ecr_eventScope i) then
            result Cd_workspace_mismatch ''consumer_workspace_mismatch''
          else if ecr_mode i = Production \<and> cf_wildcard (ecn_filter c) = Some True then
            result Cd_wildcard_denied ''wildcard_subscription_denied''
          else if ecr_eventType i \<notin> set (ecn_registeredEventTypes c) \<or> ecr_eventType i \<notin> set (cf_eventTypes (ecn_filter c)) then
            result Cd_event_type_not_registered ''event_type_not_registered''
          else if ecr_sensitive i \<and> \<not> ecr_hasSensitiveAssurance i then
            result Cd_sensitive_assurance_missing ''sensitive_assurance_missing''
          else result Cd_allowed ''consumer_allowed'')"

definition evaluateCheckpointChange :: "EventConsumer \<Rightarrow> int \<Rightarrow> bool option \<Rightarrow> string \<Rightarrow> bool EventDecision" where
  "evaluateCheckpointChange consumer requestedOffset replayApproved now =
     (if requestedOffset < ecn_offset consumer \<and> replayApproved \<noteq> Some True
      then event_decide now False ''checkpoint_rollback_denied''
      else event_decide now True ''checkpoint_advanced'')"

fun assertNoConsumerCapabilityEscalation :: "EventConsumer \<Rightarrow> string list \<Rightarrow> unit result" where
  "assertNoConsumerCapabilityEscalation current [] = Inr ()"
| "assertNoConsumerCapabilityEscalation current (cap # caps) =
     (if cap \<notin> set (ecn_capabilities current) then Inl (JsError (''Consumer capability escalation denied: '' @ [CHR 0x27] @ cap @ [CHR 0x27] @ ''.''))
      else assertNoConsumerCapabilityEscalation current caps)"

text \<open>The in-memory checkpoints of \<^verbatim>\<open>reference.ts\<close>.\<close>

type_synonym checkpoints = "string \<rightharpoonup> int"

definition checkpoint_key :: "string \<Rightarrow> string \<Rightarrow> string" where
  "checkpoint_key tenantId consumerId = tenantId @ ''::'' @ consumerId"

definition checkpoint_get :: "string \<Rightarrow> string \<Rightarrow> checkpoints \<Rightarrow> int" where
  "checkpoint_get tenantId consumerId s = (case s (checkpoint_key tenantId consumerId) of Some n \<Rightarrow> n | None \<Rightarrow> 0)"

definition checkpoint_advance :: "string \<Rightarrow> string \<Rightarrow> int \<Rightarrow> checkpoints \<Rightarrow> bool \<times> checkpoints" where
  "checkpoint_advance tenantId consumerId offset s =
     (if offset < checkpoint_get tenantId consumerId s then (False, s)
      else (True, s(checkpoint_key tenantId consumerId \<mapsto> offset)))"

section \<open>delivery.ts\<close>

datatype SubscriptionState = Sub_CREATED | Sub_ACTIVE | Sub_PAUSED | Sub_DEGRADED | Sub_REVOKED | Sub_EXPIRED | Sub_TERMINATED

record Subscription =
  sub_subscriptionId :: string
  sub_consumerId :: string
  sub_tenantId :: string
  sub_state :: SubscriptionState
  sub_maxDeliveryAttempts :: int

record DeliveryAttempt =
  dla_eventId :: string
  dla_subscriptionId :: string
  dla_attempt :: int
  dla_deliveredAt :: string
  dla_expiresAt :: "string option"

record DeliveryAcknowledgement =
  ack_eventId :: string
  ack_subscriptionId :: string
  ack_consumerId :: string
  ack_tenantId :: string
  ack_ackToken :: string
  ack_ackedAt :: string

datatype DeliveryResultStatus =
  Dr_ACKNOWLEDGED | Dr_NACK | Dr_ACK_FORGED | Dr_ACK_WRONG_CONSUMER | Dr_ACK_WRONG_TENANT | Dr_ACK_EXPIRED | Dr_ATTEMPTS_EXHAUSTED
  | Dr_SUBSCRIPTION_INACTIVE | Dr_HANDLER_FAILED

record EffectivelyOnceControls =
  eoc_idempotency :: bool
  eoc_deduplication :: bool
  eoc_atomicClaim :: bool
  eoc_checkpoint :: bool
  eoc_audit :: bool

definition assertNoExactlyOnceClaim :: "string \<Rightarrow> unit result" where
  "assertNoExactlyOnceClaim guarantee =
     (if guarantee = ''EXACTLY_ONCE'' then Inl (JsError ''Exactly-once delivery cannot be guaranteed by the event core.'') else Inr ())"

definition isEffectivelyOnceValid :: "EffectivelyOnceControls \<Rightarrow> bool" where
  "isEffectivelyOnceValid c \<longleftrightarrow> eoc_idempotency c \<and> eoc_deduplication c \<and> eoc_atomicClaim c \<and> eoc_checkpoint c \<and> eoc_audit c"

definition evaluateAcknowledgement ::
  "DeliveryAttempt \<Rightarrow> Subscription \<Rightarrow> DeliveryAcknowledgement \<Rightarrow> string \<Rightarrow> string \<Rightarrow> DeliveryResultStatus EventDecision" where
  "evaluateAcknowledgement attempt sub ack expectedAckToken now =
     (let result = event_decide now in
      if sub_state sub \<noteq> Sub_ACTIVE then result Dr_SUBSCRIPTION_INACTIVE ''subscription_inactive''
      else if ack_tenantId ack \<noteq> sub_tenantId sub then result Dr_ACK_WRONG_TENANT ''ack_wrong_tenant''
      else if ack_consumerId ack \<noteq> sub_consumerId sub then result Dr_ACK_WRONG_CONSUMER ''ack_wrong_consumer''
      else if ack_ackToken ack \<noteq> expectedAckToken \<or> ack_eventId ack \<noteq> dla_eventId attempt then result Dr_ACK_FORGED ''ack_forged''
      else if window_passed (dla_expiresAt attempt) now then result Dr_ACK_EXPIRED ''ack_expired''
      else result Dr_ACKNOWLEDGED ''acknowledged'')"

definition evaluateDeliveryAttempt :: "Subscription \<Rightarrow> int \<Rightarrow> bool \<Rightarrow> string \<Rightarrow> DeliveryResultStatus EventDecision" where
  "evaluateDeliveryAttempt sub attempt handlerThrew now =
     (let result = event_decide now in
      if attempt > sub_maxDeliveryAttempts sub then result Dr_ATTEMPTS_EXHAUSTED ''delivery_attempts_exhausted''
      else if handlerThrew then result Dr_HANDLER_FAILED ''handler_failed_isolated''
      else result Dr_NACK ''awaiting_ack'')"

section \<open>retry.ts\<close>

datatype RetryClassification = Class_RETRYABLE | Class_NON_RETRYABLE | Class_EXPIRED | Class_REVOKED

record EventRetryPolicy =
  erp_maxAttempts :: int
  erp_baseDelayMs :: int
  erp_maxDelayMs :: int
  erp_jitter :: bool

record RetryBudget =
  rb_tenantId :: string
  rb_remaining :: int
  rb_maxShareOfCapacity :: rat

datatype RetryDecisionStatus =
  Rt_RETRY | Rt_EXHAUSTED | Rt_NON_RETRYABLE | Rt_EXPIRED | Rt_REVOKED | Rt_BUDGET_EXCEEDED | Rt_STORM_SUPPRESSED

record EvaluateRetryInput =
  eri_policy :: EventRetryPolicy
  eri_attempt :: int
  eri_classification :: RetryClassification
  eri_budget :: RetryBudget
  eri_currentRetryShare :: rat
  eri_now :: string

definition computeBackoffMs :: "EventRetryPolicy \<Rightarrow> int \<Rightarrow> int" where
  "computeBackoffMs policy attempt = min (erp_maxDelayMs policy) (erp_baseDelayMs policy * 2 ^ nat (max 0 (attempt - 1)))"

definition evaluateRetry :: "EvaluateRetryInput \<Rightarrow> RetryDecisionStatus EventDecision \<times> int option" where
  "evaluateRetry i =
     (let result = (\<lambda>status code. (event_decide (eri_now i) status code, None)) in
      if eri_classification i = Class_NON_RETRYABLE then result Rt_NON_RETRYABLE ''non_retryable''
      else if eri_classification i = Class_EXPIRED then result Rt_EXPIRED ''expired_not_retried''
      else if eri_classification i = Class_REVOKED then result Rt_REVOKED ''revoked_not_retried''
      else if eri_attempt i \<ge> erp_maxAttempts (eri_policy i) then result Rt_EXHAUSTED ''retry_exhausted''
      else if rb_remaining (eri_budget i) \<le> 0 then result Rt_BUDGET_EXCEEDED ''tenant_retry_budget_exhausted''
      else if eri_currentRetryShare i \<ge> rb_maxShareOfCapacity (eri_budget i) then result Rt_STORM_SUPPRESSED ''retry_storm_suppressed''
      else (event_decide (eri_now i) Rt_RETRY ''retry_scheduled'', Some (computeBackoffMs (eri_policy i) (eri_attempt i + 1))))"

section \<open>deadletter.ts, with the store of reference.ts\<close>

datatype DeadLetterReason =
  Dl_DELIVERY_EXHAUSTED | Dl_SCHEMA_REJECTED | Dl_HANDLER_FAILED | Dl_CONSUMER_REVOKED | Dl_TENANT_MISMATCH | Dl_INTEGRITY_FAILED
  | Dl_EXPIRED | Dl_POLICY_REJECTED | Dl_UNKNOWN_EVENT | Dl_POISON_EVENT | Dl_AUDIT_FAILURE | Dl_STORAGE_FAILURE

datatype DeadLetterResolution = Res_OPEN | Res_REPLAYED | Res_DISCARDED | Res_QUARANTINED

record DeadLetterEnvelope =
  dle_deadLetterId :: string
  dle_originalEventId :: string
  dle_tenantId :: string
  dle_reason :: DeadLetterReason
  dle_failureCount :: int
  dle_firstFailedAt :: string
  dle_lastFailedAt :: string
  dle_payloadDigest :: string
  dle_resolution :: DeadLetterResolution

definition POISON_QUARANTINE_THRESHOLD :: int where
  "POISON_QUARANTINE_THRESHOLD = 5"

datatype DeadLetterReplayStatus =
  Dlr_REPLAY_ALLOWED | Dlr_APPROVAL_REQUIRED | Dlr_AI_SELF_REPLAY_DENIED | Dlr_CROSS_TENANT_DENIED | Dlr_POISON_QUARANTINED | Dlr_NOT_FOUND

datatype RequesterKind = Req_HUMAN | Req_AGENT | Req_SERVICE | Req_SYSTEM

record DeadLetterReplayRequest =
  dlq_requestTenantId :: string
  dlq_entry :: "DeadLetterEnvelope option"
  dlq_requesterKind :: RequesterKind
  dlq_approvalRef :: "string option"
  dlq_requesterIsOriginalProducer :: bool
  dlq_critical :: bool
  dlq_now :: string

record DeadLetterReplayResult =
  dls_decision :: "DeadLetterReplayStatus EventDecision"
  dls_replayEventId :: "string option"
  dls_replayReference :: "string option"

definition evaluateDeadLetterReplay :: "crypto \<Rightarrow> DeadLetterReplayRequest \<Rightarrow> nat \<Rightarrow> DeadLetterReplayResult \<times> nat" where
  "evaluateDeadLetterReplay C req n =
     (let result = (\<lambda>status code. (\<lparr> dls_decision = event_decide (dlq_now req) status code, dls_replayEventId = None, dls_replayReference = None \<rparr>, n));
          approved = truthy_opt (dlq_approvalRef req) \<noteq> None in
      case dlq_entry req of
        None \<Rightarrow> result Dlr_NOT_FOUND ''dead_letter_not_found''
      | Some entry \<Rightarrow>
          if dle_tenantId entry \<noteq> dlq_requestTenantId req then result Dlr_CROSS_TENANT_DENIED ''dead_letter_cross_tenant_denied''
          else if dle_resolution entry = Res_QUARANTINED \<or> dle_failureCount entry \<ge> POISON_QUARANTINE_THRESHOLD then
            result Dlr_POISON_QUARANTINED ''poison_event_quarantined''
          else if dlq_requesterKind req = Req_AGENT \<and> dlq_requesterIsOriginalProducer req \<and> \<not> approved then
            result Dlr_AI_SELF_REPLAY_DENIED ''ai_self_replay_denied''
          else if (dlq_critical req \<or> dlq_requesterKind req = Req_AGENT) \<and> \<not> approved then
            result Dlr_APPROVAL_REQUIRED ''dead_letter_replay_approval_required''
          else
            (let (replayEventId, n') = newId C ''evt'' n in
             (\<lparr> dls_decision = event_decide (dlq_now req) Dlr_REPLAY_ALLOWED ''dead_letter_replay_allowed'',
                dls_replayEventId = Some replayEventId, dls_replayReference = Some (''replay_of:'' @ dle_originalEventId entry) \<rparr>, n')))"

type_synonym dead_letters = "string \<Rightarrow> DeadLetterEnvelope list"

definition dead_letter_put :: "DeadLetterEnvelope \<Rightarrow> dead_letters \<Rightarrow> dead_letters" where
  "dead_letter_put entry s = s(dle_tenantId entry := s (dle_tenantId entry) @ [entry])"

definition dead_letter_get :: "string \<Rightarrow> string \<Rightarrow> dead_letters \<Rightarrow> DeadLetterEnvelope option" where
  "dead_letter_get deadLetterId tenantId s = find (\<lambda>e. dle_deadLetterId e = deadLetterId) (s tenantId)"

definition dead_letter_list :: "string \<Rightarrow> dead_letters \<Rightarrow> DeadLetterEnvelope list" where
  "dead_letter_list tenantId s = s tenantId"

section \<open>replay.ts\<close>

datatype EventReplayScopeKind = Replay_STREAM | Replay_AGGREGATE | Replay_TENANT | Replay_WORKSPACE | Replay_TIME_RANGE | Replay_CORRELATION

fun replay_kind_text :: "EventReplayScopeKind \<Rightarrow> string" where
  "replay_kind_text Replay_STREAM = ''STREAM''"
| "replay_kind_text Replay_AGGREGATE = ''AGGREGATE''"
| "replay_kind_text Replay_TENANT = ''TENANT''"
| "replay_kind_text Replay_WORKSPACE = ''WORKSPACE''"
| "replay_kind_text Replay_TIME_RANGE = ''TIME_RANGE''"
| "replay_kind_text Replay_CORRELATION = ''CORRELATION''"

record EventReplayScope =
  ers_kind :: EventReplayScopeKind
  ers_scope :: EventScope
  ers_scopeKey :: "string option"
  ers_maxEvents :: int

datatype ReplayMode = Mode_DRY_RUN | Mode_SIMULATION | Mode_LIVE_SUPPRESSED_SIDE_EFFECTS | Mode_LIVE_WITH_APPROVAL

datatype ReplayDecisionStatus =
  Rp_REPLAY_ALLOWED | Rp_REPLAY_DISABLED | Rp_SCOPE_MISSING | Rp_CROSS_TENANT_DENIED | Rp_CROSS_WORKSPACE_DENIED
  | Rp_SIDE_EFFECTS_DENIED | Rp_STALE_AUTHORIZATION_DENIED | Rp_BOUND_EXCEEDED | Rp_APPROVAL_REQUIRED

record EventReplayRequest =
  erq_enabled :: bool
  erq_scope :: "EventReplayScope option"
  erq_requestTenantId :: string
  erq_mode :: ReplayMode
  erq_triggersSideEffects :: bool
  erq_sideEffectSuppression :: bool
  erq_approvalRef :: "string option"
  erq_reauthorizedNow :: bool
  erq_requestedEventCount :: int
  erq_now :: string

record EventReplayPlan =
  erl_scope :: EventReplayScope
  erl_mode :: ReplayMode
  erl_markedAsReplay :: bool
  erl_causationRoot :: string

definition evaluateReplay :: "EventReplayRequest \<Rightarrow> ReplayDecisionStatus EventDecision \<times> EventReplayPlan option" where
  "evaluateReplay req =
     (let result = (\<lambda>status code. (event_decide (erq_now req) status code, None));
          live = (erq_mode req = Mode_LIVE_SUPPRESSED_SIDE_EFFECTS \<or> erq_mode req = Mode_LIVE_WITH_APPROVAL);
          approved = truthy_opt (erq_approvalRef req) \<noteq> None in
      if \<not> erq_enabled req then result Rp_REPLAY_DISABLED ''replay_disabled_by_default''
      else
        (case erq_scope req of
           None \<Rightarrow> result Rp_SCOPE_MISSING ''replay_scope_missing''
         | Some scope \<Rightarrow>
             if esc_tenantId (ers_scope scope) \<noteq> erq_requestTenantId req then result Rp_CROSS_TENANT_DENIED ''replay_cross_tenant_denied''
             else if erq_requestedEventCount req > ers_maxEvents scope then result Rp_BOUND_EXCEEDED ''replay_bound_exceeded''
             else if live \<and> erq_triggersSideEffects req \<and> \<not> erq_sideEffectSuppression req \<and> \<not> approved then
               result Rp_SIDE_EFFECTS_DENIED ''replay_side_effects_denied''
             else if live \<and> \<not> erq_reauthorizedNow req then result Rp_STALE_AUTHORIZATION_DENIED ''replay_stale_authorization_denied''
             else if erq_mode req = Mode_LIVE_WITH_APPROVAL \<and> \<not> approved then result Rp_APPROVAL_REQUIRED ''replay_approval_required''
             else
               (event_decide (erq_now req) Rp_REPLAY_ALLOWED ''replay_allowed'',
                Some \<lparr> erl_scope = scope, erl_mode = erq_mode req, erl_markedAsReplay = True,
                       erl_causationRoot = ''replay_scope:'' @ replay_kind_text (ers_kind scope) \<rparr>)))"

section \<open>outbox.ts\<close>

datatype OutboxState = Outbox_PENDING | Outbox_PUBLISHED | Outbox_FAILED | Outbox_DEAD_LETTERED

record OutboxEntry =
  obx_outboxId :: string
  obx_eventId :: string
  obx_tenantId :: string
  obx_state :: OutboxState
  obx_attempts :: int

definition OUTBOX_MAX_ATTEMPTS :: int where
  "OUTBOX_MAX_ATTEMPTS = 5"

datatype OutboxPublishStatus = Ob_PUBLISH | Ob_ALREADY_PUBLISHED | Ob_DEAD_LETTER | Ob_TENANT_MISMATCH

definition evaluateOutboxPublish :: "OutboxEntry \<Rightarrow> string \<Rightarrow> string \<Rightarrow> OutboxPublishStatus EventDecision" where
  "evaluateOutboxPublish entry contextTenantId now =
     (let result = event_decide now in
      if obx_tenantId entry \<noteq> contextTenantId then result Ob_TENANT_MISMATCH ''outbox_tenant_mismatch''
      else if obx_state entry = Outbox_PUBLISHED then result Ob_ALREADY_PUBLISHED ''outbox_already_published''
      else if obx_attempts entry \<ge> OUTBOX_MAX_ATTEMPTS then result Ob_DEAD_LETTER ''outbox_poison_dead_letter''
      else result Ob_PUBLISH ''outbox_publish'')"

record InboxEntry =
  ibx_inboxId :: string
  ibx_eventId :: string
  ibx_tenantId :: string
  ibx_processedAt :: "string option"

datatype InboxDeduplicationStatus = Ib_PROCESS | Ib_DUPLICATE_SKIP | Ib_TENANT_MISMATCH

text \<open>The inbox store is code outside the repository; the decision asks it one question.\<close>

definition evaluateInboxDeduplication :: "(string \<Rightarrow> string \<Rightarrow> bool) \<Rightarrow> InboxEntry \<Rightarrow> string \<Rightarrow> string \<Rightarrow> InboxDeduplicationStatus EventDecision" where
  "evaluateInboxDeduplication seen entry contextTenantId now =
     (let result = event_decide now in
      if ibx_tenantId entry \<noteq> contextTenantId then result Ib_TENANT_MISMATCH ''inbox_tenant_mismatch''
      else if seen (ibx_eventId entry) contextTenantId then result Ib_DUPLICATE_SKIP ''inbox_duplicate_skip''
      else result Ib_PROCESS ''inbox_process'')"

definition assertInboxNotSilentlyDeleted :: "int \<Rightarrow> int \<Rightarrow> unit result" where
  "assertInboxNotSilentlyDeleted before after =
     (if after < before then Inl (JsError ''A processed inbox entry cannot be silently deleted.'') else Inr ())"

section \<open>ratelimit.ts\<close>

datatype EventOverloadState = Load_NORMAL | Load_ELEVATED | Load_OVERLOADED

datatype AdmissionStatus = Adm_ADMITTED | Adm_RATE_LIMITED | Adm_QUOTA_EXCEEDED | Adm_BACKPRESSURE | Adm_CRITICAL_BYPASS

record EvaluateAdmissionInput =
  eam_eventType :: EventType
  eam_tenantWindowCount :: int
  eam_limitPerWindow :: int
  eam_quotaUsed :: int
  eam_quotaMax :: int
  eam_overload :: EventOverloadState
  eam_now :: string

definition evaluateAdmission :: "EvaluateAdmissionInput \<Rightarrow> AdmissionStatus EventDecision" where
  "evaluateAdmission i =
     (let result = event_decide (eam_now i) in
      if isCriticalEventType (eam_eventType i) then result Adm_CRITICAL_BYPASS ''critical_event_admitted''
      else if eam_quotaUsed i \<ge> eam_quotaMax i then result Adm_QUOTA_EXCEEDED ''tenant_quota_exceeded''
      else if eam_tenantWindowCount i \<ge> eam_limitPerWindow i then result Adm_RATE_LIMITED ''rate_limited''
      else if eam_overload i = Load_OVERLOADED then result Adm_BACKPRESSURE ''backpressure_applied''
      else result Adm_ADMITTED ''admitted'')"

definition assertNoSilentDrop :: "bool \<Rightarrow> unit result" where
  "assertNoSilentDrop decisionMade =
     (if \<not> decisionMade then Inl (JsError ''Silent event drop is forbidden; an explicit admission decision is required.'') else Inr ())"

section \<open>privacy.ts\<close>

text \<open>
  The four patterns of secrets. A word boundary is a place where exactly one neighbour is a word
  character. A pattern is tried at every position; \<open>before\<close> is the character to the left of it.
\<close>

definition is_lower :: "char \<Rightarrow> bool" where
  "is_lower c \<longleftrightarrow> (of_char c :: nat) \<in> {97..122}"

definition is_alnum :: "char \<Rightarrow> bool" where
  "is_alnum c \<longleftrightarrow> is_upper c \<or> is_lower c \<or> is_digit c"

definition is_word :: "char option \<Rightarrow> bool" where
  "is_word c = (case c of None \<Rightarrow> False | Some d \<Rightarrow> is_alnum d \<or> d = CHR ''_'')"

definition head_opt :: "string \<Rightarrow> char option" where
  "head_opt s = (case s of [] \<Rightarrow> None | c # cs \<Rightarrow> Some c)"

definition boundary :: "char option \<Rightarrow> char option \<Rightarrow> bool" where
  "boundary a b \<longleftrightarrow> is_word a \<noteq> is_word b"

definition starts_with :: "string \<Rightarrow> string \<Rightarrow> bool" where
  "starts_with p s \<longleftrightarrow> take (length p) s = p"

fun key_tail :: "string \<Rightarrow> bool" where
  "key_tail s = (starts_with ''PRIVATE KEY-----'' s \<or>
     (case s of [] \<Rightarrow> False | c # cs \<Rightarrow> (is_upper c \<or> c = CHR '' '') \<and> key_tail cs))"

definition secret_at :: "char option \<Rightarrow> string \<Rightarrow> bool" where
  "secret_at before s \<longleftrightarrow>
     (starts_with ''-----BEGIN '' s \<and> key_tail (drop 11 s)) \<or>
     (boundary before (head_opt s) \<and> starts_with ''AKIA'' s \<and> length (drop 4 s) \<ge> 16 \<and>
        list_all (\<lambda>c. is_digit c \<or> is_upper c) (take 16 (drop 4 s)) \<and> boundary (Some (last (take 20 s))) (head_opt (drop 20 s))) \<or>
     (boundary before (head_opt s) \<and> starts_with ''xox'' s \<and> head_opt (drop 3 s) \<in> Some ` set ''baprs'' \<and> head_opt (drop 4 s) = Some (CHR ''-'')) \<or>
     (boundary before (head_opt s) \<and> starts_with ''gh'' s \<and> head_opt (drop 2 s) \<in> Some ` set ''pousr'' \<and> head_opt (drop 3 s) = Some (CHR ''_'') \<and>
        length (takeWhile is_alnum (drop 4 s)) \<ge> 20 \<and> \<not> is_word (head_opt (dropWhile is_alnum (drop 4 s))))"

fun has_secret :: "char option \<Rightarrow> string \<Rightarrow> bool" where
  "has_secret before [] = secret_at before []"
| "has_secret before (c # cs) = (secret_at before (c # cs) \<or> has_secret (Some c) cs)"

datatype PrivacyValidationStatus =
  Pv_VALID | Pv_SECRET_IN_PAYLOAD | Pv_PII_UNCLASSIFIED | Pv_INVALID_RETENTION | Pv_REDACTION_BREAKS_INTEGRITY | Pv_LEGAL_HOLD_TAMPER

text \<open>A retention class may be an unknown text when it comes from outside: \<^term>\<open>None\<close>.\<close>

record ValidatePrivacyInput =
  vpi_dataClassification :: EventDataClassification
  vpi_retentionClass :: "EventRetentionClass option"
  vpi_payloadHasPersonalData :: bool
  vpi_payloadShapePreview :: "string option"
  vpi_redactionPreservesIntegrity :: "bool option"
  vpi_legalHoldCleared :: bool
  vpi_now :: string

definition validatePrivacy :: "ValidatePrivacyInput \<Rightarrow> PrivacyValidationStatus EventDecision" where
  "validatePrivacy i =
     (let result = event_decide (vpi_now i) in
      if (case truthy_opt (vpi_payloadShapePreview i) of None \<Rightarrow> False | Some preview \<Rightarrow> has_secret None preview) then
        result Pv_SECRET_IN_PAYLOAD ''secret_in_payload''
      else if vpi_payloadHasPersonalData i \<and> vpi_dataClassification i = Data_NONE then result Pv_PII_UNCLASSIFIED ''pii_unclassified''
      else if vpi_retentionClass i = None then result Pv_INVALID_RETENTION ''invalid_retention_class''
      else if vpi_redactionPreservesIntegrity i = Some False then result Pv_REDACTION_BREAKS_INTEGRITY ''redaction_breaks_integrity''
      else if vpi_legalHoldCleared i then result Pv_LEGAL_HOLD_TAMPER ''legal_hold_tamper''
      else result Pv_VALID ''privacy_valid'')"

section \<open>What the decisions say\<close>

lemma consumer_allowed_iff:
  "ed_decision (evaluateConsumerRead i) = Cd_allowed \<longleftrightarrow>
     (\<exists>c. ecr_consumer i = Some c \<and> ecn_status c = Consumer_active \<and> event_sameScope (ecn_scope c) (ecr_eventScope i) \<and>
        (ecr_mode i = Production \<longrightarrow> cf_wildcard (ecn_filter c) \<noteq> Some True) \<and>
        ecr_eventType i \<in> set (ecn_registeredEventTypes c) \<inter> set (cf_eventTypes (ecn_filter c)) \<and>
        (ecr_sensitive i \<longrightarrow> ecr_hasSensitiveAssurance i))"
proof (cases "ecr_consumer i")
  case (Some c)
  have "ecn_status c = Consumer_active \<longleftrightarrow> ecn_status c \<noteq> Consumer_revoked \<and> ecn_status c \<noteq> Consumer_paused"
    by (cases "ecn_status c") simp_all
  then show ?thesis unfolding evaluateConsumerRead_def Let_def event_sameScope_def by (auto simp: Some)
qed (simp add: evaluateConsumerRead_def)

lemma escalation_denied_iff:
  "assertNoConsumerCapabilityEscalation current requested = Inr () \<longleftrightarrow> set requested \<subseteq> set (ecn_capabilities current)"
  by (induction requested) auto

text \<open>Checkpoints only move forward, whatever is asked of the store.\<close>

inductive checkpoint_step :: "checkpoints \<Rightarrow> checkpoints \<Rightarrow> bool" where
  "checkpoint_step s (snd (checkpoint_advance tenantId consumerId offset s))"

lemma checkpoints_monotone:
  "checkpoint_step\<^sup>*\<^sup>* s s' \<Longrightarrow> checkpoint_get tenantId consumerId s \<le> checkpoint_get tenantId consumerId s'"
proof (induction rule: rtranclp_induct)
  case (step y z)
  then show ?case by (auto elim!: checkpoint_step.cases simp: checkpoint_advance_def checkpoint_get_def split: if_splits option.splits)
qed simp

lemma acknowledged_iff:
  "ed_decision (evaluateAcknowledgement attempt sub ack token now) = Dr_ACKNOWLEDGED \<longleftrightarrow>
     sub_state sub = Sub_ACTIVE \<and> ack_tenantId ack = sub_tenantId sub \<and> ack_consumerId ack = sub_consumerId sub \<and>
     ack_ackToken ack = token \<and> ack_eventId ack = dla_eventId attempt \<and> \<not> window_passed (dla_expiresAt attempt) now"
  by (auto simp: evaluateAcknowledgement_def Let_def)

text \<open>
  The subscription named by an acknowledgement is not compared: with the token of the attempt, an
  acknowledgement that names another subscription counts.
\<close>

lemma ack_subscription_ignored:
  "evaluateAcknowledgement attempt sub (ack\<lparr> ack_subscriptionId := other \<rparr>) token now = evaluateAcknowledgement attempt sub ack token now"
  by (simp add: evaluateAcknowledgement_def Let_def)

text \<open>Retries: bounded in number, by policy, and in their delay, which grows with the attempts; the jitter flag is never read.\<close>

lemma retry_iff:
  "ed_decision (fst (evaluateRetry i)) = Rt_RETRY \<longleftrightarrow>
     eri_classification i = Class_RETRYABLE \<and> eri_attempt i < erp_maxAttempts (eri_policy i) \<and> 0 < rb_remaining (eri_budget i) \<and>
     eri_currentRetryShare i < rb_maxShareOfCapacity (eri_budget i)"
  by (cases "eri_classification i") (auto simp: evaluateRetry_def Let_def)

lemma retry_delay:
  "snd (evaluateRetry i) = Some d \<Longrightarrow> d \<le> erp_maxDelayMs (eri_policy i)"
  by (auto simp: evaluateRetry_def computeBackoffMs_def Let_def split: if_splits)

lemma backoff_mono:
  assumes "0 \<le> erp_baseDelayMs policy" "a \<le> b"
  shows "computeBackoffMs policy a \<le> computeBackoffMs policy b"
proof -
  have "(2 :: int) ^ nat (max 0 (a - 1)) \<le> 2 ^ nat (max 0 (b - 1))" using assms(2) by (intro power_increasing) auto
  then show ?thesis using assms(1) unfolding computeBackoffMs_def by (meson min.mono mult_left_mono order_refl)
qed

lemma retry_ignores_jitter:
  "evaluateRetry (i\<lparr> eri_policy := (eri_policy i)\<lparr> erp_jitter := b \<rparr> \<rparr>) = evaluateRetry i"
  by (simp add: evaluateRetry_def computeBackoffMs_def Let_def)

text \<open>Dead letters: a replay needs the tenant of the entry, no poison, and an approval for agents and critical events.\<close>

lemma dead_letter_replay_iff:
  "ed_decision (dls_decision (fst (evaluateDeadLetterReplay C req n))) = Dlr_REPLAY_ALLOWED \<longleftrightarrow>
     (\<exists>e. dlq_entry req = Some e \<and> dle_tenantId e = dlq_requestTenantId req \<and> dle_resolution e \<noteq> Res_QUARANTINED \<and>
        dle_failureCount e < 5 \<and> (dlq_critical req \<or> dlq_requesterKind req = Req_AGENT \<longrightarrow> truthy_opt (dlq_approvalRef req) \<noteq> None))"
  by (auto simp: evaluateDeadLetterReplay_def POISON_QUARANTINE_THRESHOLD_def Let_def split: option.splits prod.splits)

lemma dead_letter_found:
  "dead_letter_get d t (dead_letter_put e s) =
     (if t = dle_tenantId e then (case dead_letter_get d t s of None \<Rightarrow> if dle_deadLetterId e = d then Some e else None | Some x \<Rightarrow> Some x)
      else dead_letter_get d t s)"
proof -
  have "find P (xs @ ys) = (case find P xs of None \<Rightarrow> find P ys | Some x \<Rightarrow> Some x)" for P and xs ys :: "DeadLetterEnvelope list"
    by (induction xs) simp_all
  then show ?thesis by (auto simp: dead_letter_get_def dead_letter_put_def split: option.splits)
qed

text \<open>A replay is allowed across workspaces: the scope is compared by its tenant only.\<close>

lemma replay_allowed_iff:
  "ed_decision (fst (evaluateReplay req)) = Rp_REPLAY_ALLOWED \<longleftrightarrow>
     erq_enabled req \<and>
     (\<exists>s. erq_scope req = Some s \<and> esc_tenantId (ers_scope s) = erq_requestTenantId req \<and> erq_requestedEventCount req \<le> ers_maxEvents s) \<and>
     (erq_mode req \<in> {Mode_LIVE_SUPPRESSED_SIDE_EFFECTS, Mode_LIVE_WITH_APPROVAL} \<longrightarrow>
        erq_reauthorizedNow req \<and>
        (erq_triggersSideEffects req \<longrightarrow> erq_sideEffectSuppression req \<or> truthy_opt (erq_approvalRef req) \<noteq> None)) \<and>
     (erq_mode req = Mode_LIVE_WITH_APPROVAL \<longrightarrow> truthy_opt (erq_approvalRef req) \<noteq> None)"
  by (cases "erq_scope req"; cases "erq_mode req") (auto simp: evaluateReplay_def Let_def)

lemma replay_never_checks_workspace: "ed_decision (fst (evaluateReplay req)) \<noteq> Rp_CROSS_WORKSPACE_DENIED"
  by (auto simp: evaluateReplay_def Let_def split: option.splits)

lemma outbox_publish_iff:
  "ed_decision (evaluateOutboxPublish e t now) = Ob_PUBLISH \<longleftrightarrow> obx_tenantId e = t \<and> obx_state e \<noteq> Outbox_PUBLISHED \<and> obx_attempts e < 5"
  by (auto simp: evaluateOutboxPublish_def OUTBOX_MAX_ATTEMPTS_def Let_def)

lemma critical_always_admitted:
  "isCriticalEventType (eam_eventType i) \<Longrightarrow> ed_decision (evaluateAdmission i) = Adm_CRITICAL_BYPASS"
  by (simp add: evaluateAdmission_def Let_def)

text \<open>The search for secrets is the search for a position where a pattern matches.\<close>

lemma has_secret_iff:
  "has_secret before s \<longleftrightarrow> (\<exists>k \<le> length s. secret_at (if k = 0 then before else Some (s ! (k - 1))) (drop k s))"
proof (induction s arbitrary: before)
  case (Cons c cs)
  have "(\<exists>k \<le> length (c # cs). P k) \<longleftrightarrow> P 0 \<or> (\<exists>k \<le> length cs. P (Suc k))" for P
    by (metis length_Cons not0_implies_Suc Suc_le_mono le0)
  then show ?case by (simp add: Cons.IH nth_Cons')
qed simp

end
