(* ===== verification/Event_Health.thy ===== *)
theory Event_Health
  imports Event_Store Decision
begin

text \<open>
  \<^verbatim>\<open>event-foundation/src\<close>, the rest of the package: security events (\<^verbatim>\<open>security-events.ts\<close>), readiness
  (\<^verbatim>\<open>health.ts\<close>), and the small in-memory references of \<^verbatim>\<open>reference.ts\<close> with the refusals of test components.
\<close>

section \<open>security-events.ts\<close>

datatype SecurityEventType =
  Sec_credential_revoked | Sec_trust_degraded | Sec_identity_rejected | Sec_policy_bypass_attempt | Sec_replay_attack
  | Sec_tenant_boundary_violation | Sec_plugin_signature_failure | Sec_event_integrity_failure | Sec_audit_tamper_detected
  | Sec_emergency_lockdown | Sec_break_glass_activation | Sec_suspicious_event_storm | Sec_schema_spoofing | Sec_producer_impersonation

datatype SecuritySeverity = Sev_INFO | Sev_LOW | Sev_MEDIUM | Sev_HIGH | Sev_CRITICAL

fun SEVERITY_RANK :: "SecuritySeverity \<Rightarrow> nat" where
  "SEVERITY_RANK Sev_INFO = 0"
| "SEVERITY_RANK Sev_LOW = 1"
| "SEVERITY_RANK Sev_MEDIUM = 2"
| "SEVERITY_RANK Sev_HIGH = 3"
| "SEVERITY_RANK Sev_CRITICAL = 4"

record SecurityEvent =
  sev_securityEventType :: SecurityEventType
  sev_severity :: SecuritySeverity
  sev_scope :: EventScope
  sev_detectedAt :: string

definition isCriticalSecurityEvent :: "SecurityEvent \<Rightarrow> bool" where
  "isCriticalSecurityEvent e \<longleftrightarrow>
     sev_securityEventType e \<in> {Sec_audit_tamper_detected, Sec_emergency_lockdown, Sec_break_glass_activation,
       Sec_tenant_boundary_violation, Sec_event_integrity_failure, Sec_producer_impersonation} \<or>
     sev_severity e = Sev_CRITICAL"

datatype SecurityEventDecisionStatus = Sd_RECORD | Sd_RECORD_FAIL_CLOSED | Sd_SEVERITY_DOWNGRADE_DENIED

definition evaluateSecurityEvent ::
  "SecurityEvent \<Rightarrow> bool \<Rightarrow> bool \<Rightarrow> SecuritySeverity option \<Rightarrow> string \<Rightarrow> SecurityEventDecisionStatus EventDecision" where
  "evaluateSecurityEvent event auditAvailable persistenceAvailable priorSeverity now =
     (if (case priorSeverity of None \<Rightarrow> False | Some prior \<Rightarrow> SEVERITY_RANK (sev_severity event) < SEVERITY_RANK prior) then
        event_decide now Sd_SEVERITY_DOWNGRADE_DENIED ''security_severity_downgrade_denied''
      else if isCriticalSecurityEvent event \<and> (\<not> auditAvailable \<or> \<not> persistenceAvailable) then
        event_decide now Sd_RECORD_FAIL_CLOSED ''critical_security_event_fail_closed''
      else event_decide now Sd_RECORD ''security_event_recorded'')"

section \<open>health.ts\<close>

datatype EventHealthStatus = Eh_UNKNOWN | Eh_INITIALIZING | Eh_READY | Eh_DEGRADED | Eh_FAILED | Eh_REVOKED | Eh_STOPPED

datatype EventDependency =
  Dep_event_store | Dep_idempotency_store | Dep_schema_registry | Dep_producer_registry | Dep_consumer_registry
  | Dep_dead_letter_store | Dep_checkpoint_store | Dep_audit_sink | Dep_trusted_clock | Dep_identity_trust | Dep_integrity_verifier

definition CRITICAL_EVENT_DEPENDENCIES :: "EventDependency list" where
  "CRITICAL_EVENT_DEPENDENCIES =
     [Dep_event_store, Dep_idempotency_store, Dep_schema_registry, Dep_producer_registry, Dep_consumer_registry,
      Dep_dead_letter_store, Dep_checkpoint_store, Dep_audit_sink, Dep_trusted_clock, Dep_identity_trust, Dep_integrity_verifier]"

datatype EventReadinessDecision = Ready | Event_startup_rejected | Event_readiness_revoked

record EventReadinessResult =
  erd_decision :: EventReadinessDecision
  erd_missing :: "EventDependency list"
  erd_unhealthy :: "EventDependency list"
  erd_reasons :: "string list"

text \<open>The map of the reports: the last report of a dependency counts.\<close>

definition dependency_status :: "(EventDependency \<times> EventHealthStatus) list \<Rightarrow> EventDependency \<Rightarrow> EventHealthStatus option" where
  "dependency_status reports = map_of (rev reports)"

definition evaluateEventReadiness :: "(EventDependency \<times> EventHealthStatus) list \<Rightarrow> bool \<Rightarrow> bool \<Rightarrow> EventReadinessResult" where
  "evaluateEventReadiness reports running trustedProduction =
     (let byDep = dependency_status reports;
          missing = filter (\<lambda>d. byDep d = None) CRITICAL_EVENT_DEPENDENCIES;
          unhealthy = filter (\<lambda>d. byDep d \<noteq> None \<and> byDep d \<noteq> Some Eh_READY) CRITICAL_EVENT_DEPENDENCIES;
          ready = (missing = [] \<and> unhealthy = []);
          result = (\<lambda>decision reason. \<lparr> erd_decision = decision, erd_missing = missing, erd_unhealthy = unhealthy, erd_reasons = [reason] \<rparr>)
      in if \<not> trustedProduction then
           (if ready then result Ready ''non_production_ready'' else result Event_startup_rejected ''dev_start_missing_deps'')
         else if ready then result Ready ''all_critical_dependencies_ready''
         else if running then result Event_readiness_revoked ''running_event_readiness_revoked''
         else result Event_startup_rejected ''event_startup_rejected'')"

datatype ClaimSource = Env_only | Attested_registry

definition assertNotEnvOnlyProductionClaim :: "ClaimSource \<Rightarrow> unit result" where
  "assertNotEnvOnlyProductionClaim source =
     (if source = Env_only then Inl (JsError ''A production readiness claim cannot rest on NODE_ENV alone; attestation is required.'') else Inr ())"

section \<open>reference.ts\<close>

text \<open>The clock of the tests: milliseconds, starting at 0 when the start is not a time.\<close>

definition newDeterministicEventClock :: "string \<Rightarrow> int" where
  "newDeterministicEventClock nowIso = (case dateParse nowIso of Some t \<Rightarrow> t | None \<Rightarrow> 0)"

definition event_clock_now :: "int \<Rightarrow> string result" where
  "event_clock_now nowMs = toISOString nowMs"

definition event_clock_advance :: "int \<Rightarrow> int \<Rightarrow> int" where
  "event_clock_advance ms nowMs = nowMs + ms"

definition reference_verify :: "string \<Rightarrow> string \<Rightarrow> bool \<times> string" where
  "reference_verify expectedDigest actualDigest =
     (if expectedDigest = actualDigest then (True, ''integrity_ok'') else (False, ''integrity_mismatch''))"

record ReferenceBusRecord =
  rbr_eventId :: string
  rbr_tenantId :: string
  rbr_payloadDigest :: string

definition reference_bus_append :: "ReferenceBusRecord \<Rightarrow> ReferenceBusRecord list \<Rightarrow> ReferenceBusRecord list" where
  "reference_bus_append r log = log @ [r]"

definition reference_bus_read :: "string \<Rightarrow> ReferenceBusRecord list \<Rightarrow> ReferenceBusRecord list" where
  "reference_bus_read tenantId log = filter (\<lambda>r. rbr_tenantId r = tenantId) log"

definition assertNotTestReferenceInProduction :: "bool \<Rightarrow> RuntimeMode \<Rightarrow> unit result" where
  "assertNotTestReferenceInProduction testOnly mode =
     (if mode = Production \<and> testOnly then Inl (JsError ''A test-only reference component cannot be used in production.'') else Inr ())"

section \<open>Lemmas\<close>

lemma critical_dependencies_all: "set CRITICAL_EVENT_DEPENDENCIES = UNIV"
proof -
  have "d \<in> set CRITICAL_EVENT_DEPENDENCIES" for d by (cases d) (simp_all add: CRITICAL_EVENT_DEPENDENCIES_def)
  then show ?thesis by blast
qed

text \<open>
  The event layer is ready exactly when every dependency was last reported as ready, in production or
  not; in the other case the result names every dependency that is missing or unhealthy.
\<close>

lemma event_readiness:
  "erd_decision (evaluateEventReadiness reports running trusted) = Ready \<longleftrightarrow> (\<forall>d. dependency_status reports d = Some Eh_READY)"
  "set (erd_missing (evaluateEventReadiness reports running trusted)) \<union> set (erd_unhealthy (evaluateEventReadiness reports running trusted)) =
     {d. dependency_status reports d \<noteq> Some Eh_READY}"
proof -
  let ?s = "dependency_status reports"
  have "filter (\<lambda>d. ?s d = None) CRITICAL_EVENT_DEPENDENCIES = [] \<and>
      filter (\<lambda>d. ?s d \<noteq> None \<and> ?s d \<noteq> Some Eh_READY) CRITICAL_EVENT_DEPENDENCIES = [] \<longleftrightarrow> (\<forall>d. ?s d = Some Eh_READY)"
    unfolding filter_empty_conv critical_dependencies_all by (metis UNIV_I option.distinct(1))
  then show "erd_decision (evaluateEventReadiness reports running trusted) = Ready \<longleftrightarrow> (\<forall>d. ?s d = Some Eh_READY)"
    unfolding evaluateEventReadiness_def Let_def by simp
  have "erd_missing (evaluateEventReadiness reports running trusted) = filter (\<lambda>d. ?s d = None) CRITICAL_EVENT_DEPENDENCIES"
    "erd_unhealthy (evaluateEventReadiness reports running trusted) = filter (\<lambda>d. ?s d \<noteq> None \<and> ?s d \<noteq> Some Eh_READY) CRITICAL_EVENT_DEPENDENCIES"
    unfolding evaluateEventReadiness_def Let_def by (simp_all only: EventReadinessResult.select_convs simp_thms split: if_split)
  then show "set (erd_missing (evaluateEventReadiness reports running trusted)) \<union> set (erd_unhealthy (evaluateEventReadiness reports running trusted)) =
     {d. ?s d \<noteq> Some Eh_READY}"
    by (auto simp: critical_dependencies_all)
qed

text \<open>A recorded severity never falls, and a critical event is recorded only when it can be kept and audited.\<close>

lemma security_event_recorded:
  assumes "ed_decision (evaluateSecurityEvent e audit persistence prior now) = Sd_RECORD"
  shows "(\<forall>p. prior = Some p \<longrightarrow> SEVERITY_RANK p \<le> SEVERITY_RANK (sev_severity e)) \<and>
    (isCriticalSecurityEvent e \<longrightarrow> audit \<and> persistence)"
  using assms by (auto simp: evaluateSecurityEvent_def split: if_splits option.splits)

lemma reference_bus_isolation:
  "reference_bus_read t (reference_bus_append r log) = reference_bus_read t log @ (if rbr_tenantId r = t then [r] else [])"
  by (simp add: reference_bus_read_def reference_bus_append_def)

lemma event_clock_roundtrip:
  assumes "toISOString t = Inr s" shows "event_clock_now (newDeterministicEventClock s) = Inr s"
  using assms by (simp add: newDeterministicEventClock_def event_clock_now_def dateParse_toISOString)

end
