(* ===== verification/Edge_Security.thy ===== *)
theory Edge_Security
  imports Protocol Json
begin

text \<open>
  \<^verbatim>\<open>edge-security/src/index.ts\<close>: the boundary in front of the core. A raw request is normalized
  (method, path, body size, headers, query), limited, rate limited, screened for abuse and bound to an
  authentication and a tenant context; the result is a branded \<open>ValidatedEdgeRequest\<close> or a rejection with
  one security event. The fields the source declares \<^verbatim>\<open>unknown\<close> are values of \<^typ>\<open>json\<close> (\<^term>\<open>None\<close> for
  \<^verbatim>\<open>undefined\<close>); the symbol properties that brand an object are booleans. The body size is given as the
  number that \<^verbatim>\<open>Number(...)\<close> makes of it. The three adapters are parameters: operations on a state that may
  throw. The main result says which requests are admitted and what the core may rely on about them.
\<close>

section \<open>Strings\<close>

text \<open>
  \<^verbatim>\<open>toUpperCase\<close> and \<^verbatim>\<open>toLowerCase\<close> on the code units 0..255. The sharp s becomes SS; the capitals of the
  micro sign and of y with diaeresis lie outside the range and are left as they are.
\<close>

definition upper_char :: "char \<Rightarrow> string" where
  "upper_char c =
     (let n = (of_char c :: nat) in
      if 97 \<le> n \<and> n \<le> 122 \<or> 224 \<le> n \<and> n \<le> 254 \<and> n \<noteq> 247 then [char_of (n - 32)]
      else if n = 223 then ''SS'' else [c])"

definition toUpperCase :: "string \<Rightarrow> string" where
  "toUpperCase s = concat (map upper_char s)"

definition lower_char :: "char \<Rightarrow> char" where
  "lower_char c =
     (let n = (of_char c :: nat) in
      if 65 \<le> n \<and> n \<le> 90 \<or> 192 \<le> n \<and> n \<le> 222 \<and> n \<noteq> 215 then char_of (n + 32) else c)"

definition toLowerCase :: "string \<Rightarrow> string" where
  "toLowerCase s = map lower_char s"

fun js_includes :: "string \<Rightarrow> string \<Rightarrow> bool" where
  "js_includes pat [] = (pat = [])"
| "js_includes pat (c # cs) = (take (length pat) (c # cs) = pat \<or> js_includes pat cs)"

definition byteLength :: "string \<Rightarrow> int" where
  "byteLength s = int (sum_list (map (\<lambda>c. if (of_char c :: nat) < 128 then 1 else 2) s))"

text \<open>
  \<^verbatim>\<open>decodeURIComponent\<close> on UTF-16 code units: an escape of a lead octet takes the escapes of the
  continuation octets with it, octets that are no UTF-8 make it throw (\<^term>\<open>None\<close>).
\<close>

definition read_octet :: "string \<Rightarrow> (nat \<times> string) option" where
  "read_octet s =
     (case s of
        p # a # b # r \<Rightarrow>
          if p = CHR ''%'' then
            (case (hex_val a, hex_val b) of (Some x, Some y) \<Rightarrow> Some (16 * x + y, r) | _ \<Rightarrow> None)
          else None
      | _ \<Rightarrow> None)"

fun read_continuation :: "nat \<Rightarrow> nat \<Rightarrow> string \<Rightarrow> (nat \<times> string) option" where
  "read_continuation 0 acc s = Some (acc, s)"
| "read_continuation (Suc n) acc s =
     (case read_octet s of
        Some (b, r) \<Rightarrow> if 128 \<le> b \<and> b < 192 then read_continuation n (64 * acc + (b - 128)) r else None
      | None \<Rightarrow> None)"

definition utf16 :: "nat \<Rightarrow> nat list" where
  "utf16 v = (if v < 65536 then [v] else [55296 + (v - 65536) div 1024, 56320 + (v - 65536) mod 1024])"

definition multi_octet :: "nat \<Rightarrow> nat \<Rightarrow> (nat \<Rightarrow> bool) \<Rightarrow> string \<Rightarrow> (nat list \<times> string) option" where
  "multi_octet n lead allowed r =
     (case read_continuation n lead r of
        Some (v, r1) \<Rightarrow> if allowed v then Some (utf16 v, r1) else None
      | None \<Rightarrow> None)"

definition read_escape :: "string \<Rightarrow> (nat list \<times> string) option" where
  "read_escape s =
     (case read_octet s of
        None \<Rightarrow> None
      | Some (b, r) \<Rightarrow>
          if b < 128 then Some ([b], r)
          else if 192 \<le> b \<and> b < 224 then multi_octet 1 (b - 192) (\<lambda>v. 128 \<le> v) r
          else if 224 \<le> b \<and> b < 240 then
            multi_octet 2 (b - 224) (\<lambda>v. 2048 \<le> v \<and> \<not> (55296 \<le> v \<and> v < 57344)) r
          else if 240 \<le> b \<and> b < 248 then multi_octet 3 (b - 240) (\<lambda>v. 65536 \<le> v \<and> v < 1114112) r
          else None)"

lemma read_octet_shorter: "read_octet s = Some (b, r) \<Longrightarrow> length s = length r + 3"
  by (auto simp: read_octet_def split: list.splits if_splits option.splits)

lemma read_continuation_shorter: "read_continuation n acc s = Some (v, r) \<Longrightarrow> length s = length r + 3 * n"
  by (induction n acc s rule: read_continuation.induct) (auto split: option.splits if_splits dest: read_octet_shorter)

lemma utf16_length: "length (utf16 v) \<le> 2"
  by (simp add: utf16_def)

lemma multi_octet_shorter:
  assumes "multi_octet n lead P r = Some (u, r1)"
  shows "length u + length r1 \<le> length r + 2"
proof -
  obtain v where "read_continuation n lead r = Some (v, r1)" "u = utf16 v"
    using assms by (auto simp: multi_octet_def split: option.splits if_splits)
  then show ?thesis using read_continuation_shorter [of n lead r v r1] utf16_length [of v] by simp
qed

lemma read_escape_shorter: "read_escape s = Some (u, r) \<Longrightarrow> length u + length r < length s"
  by (auto simp: read_escape_def split: option.splits if_splits dest!: read_octet_shorter multi_octet_shorter)

function decodeURIComponent :: "string \<Rightarrow> nat list option" where
  "decodeURIComponent [] = Some []"
| "decodeURIComponent (c # cs) =
     (if c = CHR ''%'' then
        (case read_escape (c # cs) of
           Some (u, r) \<Rightarrow> map_option (\<lambda>d. u @ d) (decodeURIComponent r)
         | None \<Rightarrow> None)
      else map_option (\<lambda>d. of_char c # d) (decodeURIComponent cs))"
  by pat_completeness auto
termination
  by (relation "measure length") (auto dest: read_escape_shorter)

section \<open>Data\<close>

datatype HttpMethod = Http_DELETE | Http_GET | Http_PATCH | Http_POST | Http_PUT

datatype EndpointActionClass =
  Endpoint_standard | Endpoint_authentication | Endpoint_admin | Endpoint_recovery | Endpoint_payment
  | Endpoint_secret_management | Endpoint_tool_execution | Endpoint_workflow_execution

datatype EdgeDecision = Edge_ALLOW | Edge_CHALLENGE | Edge_DENY

datatype EdgeRejectionReason =
  Edge_malformed_request | Edge_payload_exceeded | Edge_rate_limited | Edge_abuse_detected
  | Edge_authentication_missing | Edge_context_mismatch | Edge_gate_failure

text \<open>A number of the language, as far as the checks tell numbers apart.\<close>

datatype js_num = Num_integer int | Num_other

record RawEdgeRequest =
  re_brand :: bool
  re_method :: "json option"
  re_path :: "json option"
  re_headers :: "json option"
  re_query :: "json option"
  re_bodySizeBytes :: "js_num option"
  re_authentication :: "json option"
  re_context :: "OSForgeContext option"
  re_actionClass :: string

record AuthenticationContext =
  auth_subjectId :: string
  auth_tenantId :: string
  auth_actorId :: "string option"
  auth_mfaSatisfied :: bool
  auth_authenticatedAt :: string

record NormalizedEdgeRequest =
  ne_method :: HttpMethod
  ne_path :: string
  ne_headers :: "(string \<times> string) list"
  ne_query :: "(string \<times> string) list"
  ne_bodySizeBytes :: int
  ne_actionClass :: EndpointActionClass

record ValidatedEdgeRequest =
  ve_brand :: bool
  ve_request :: NormalizedEdgeRequest
  ve_authentication :: AuthenticationContext
  ve_context :: OSForgeContext

record CoreIngressRequest =
  ci_brand :: bool
  ci_edgeRequest :: ValidatedEdgeRequest

record PayloadLimitPolicy =
  pl_maxBodyBytes :: int
  pl_maxHeaderCount :: int
  pl_maxHeaderBytes :: int
  pl_maxQueryParams :: int
  pl_maxPathLength :: int

record RateLimitSubject =
  rl_tenantId :: string
  rl_actorId :: "string option"
  rl_workspaceId :: "string option"
  rl_networkFingerprint :: string
  rl_actionClass :: EndpointActionClass

text \<open>The decisions of the adapters are texts: an adapter is code from outside.\<close>

record adapter_result =
  ar_decision :: string
  ar_reason :: string

record AbuseDetectionRequest =
  ab_request :: NormalizedEdgeRequest
  ab_authentication :: "json option"
  ab_networkFingerprint :: string

record EdgeSecurityPolicy =
  ep_payloadLimits :: PayloadLimitPolicy
  ep_criticalActionClasses :: "EndpointActionClass list"

record 's EdgeSecurityGateRequest =
  eg_rawRequest :: RawEdgeRequest
  eg_policy :: EdgeSecurityPolicy
  eg_rateLimit :: "RateLimitSubject \<Rightarrow> 's \<Rightarrow> (js_error + adapter_result) \<times> 's"
  eg_abuseDetection :: "AbuseDetectionRequest \<Rightarrow> 's \<Rightarrow> (js_error + adapter_result) \<times> 's"
  eg_networkFingerprint :: "NormalizedEdgeRequest \<Rightarrow> 's \<Rightarrow> (js_error + string) \<times> 's"

datatype EdgeSecurityEventName =
  Edge_event_request_rejected | Edge_event_rate_limited | Edge_event_abuse_detected | Edge_event_malformed_request
  | Edge_event_payload_exceeded | Edge_event_context_mismatch | Edge_event_gate_failure

record EdgeSecurityEvent =
  ee_name :: EdgeSecurityEventName
  ee_reason :: string
  ee_actionClass :: "string option"

record EdgeSecurityGateResult =
  er_decision :: EdgeDecision
  er_validatedRequest :: "ValidatedEdgeRequest option"
  er_rejectionReason :: "EdgeRejectionReason option"
  er_securityEvents :: "EdgeSecurityEvent list"

section \<open>Checks of single values\<close>

definition endpoint_text :: "EndpointActionClass \<Rightarrow> string" where
  "endpoint_text a =
     (case a of
        Endpoint_standard \<Rightarrow> ''standard'' | Endpoint_authentication \<Rightarrow> ''authentication'' | Endpoint_admin \<Rightarrow> ''admin''
      | Endpoint_recovery \<Rightarrow> ''recovery'' | Endpoint_payment \<Rightarrow> ''payment''
      | Endpoint_secret_management \<Rightarrow> ''secret_management'' | Endpoint_tool_execution \<Rightarrow> ''tool_execution''
      | Endpoint_workflow_execution \<Rightarrow> ''workflow_execution'')"

text \<open>The type guards return the value of the type they establish.\<close>

definition isHttpMethod :: "string \<Rightarrow> HttpMethod option" where
  "isHttpMethod m =
     map_of [(''DELETE'', Http_DELETE), (''GET'', Http_GET), (''PATCH'', Http_PATCH), (''POST'', Http_POST),
             (''PUT'', Http_PUT)] m"

definition isEndpointActionClass :: "string \<Rightarrow> EndpointActionClass option" where
  "isEndpointActionClass s =
     map_of (map (\<lambda>a. (endpoint_text a, a))
       [Endpoint_standard, Endpoint_authentication, Endpoint_admin, Endpoint_recovery, Endpoint_payment,
        Endpoint_secret_management, Endpoint_tool_execution, Endpoint_workflow_execution]) s"

definition nonEmptyText :: "json option \<Rightarrow> string option" where
  "nonEmptyText v = (case v of Some (JStr s) \<Rightarrow> if isNonEmptyString s then Some s else None | _ \<Rightarrow> None)"

text \<open>An array is an object too, without the named properties.\<close>

definition isAuthenticationContext :: "json option \<Rightarrow> AuthenticationContext option" where
  "isAuthenticationContext v =
     (case v of
        Some (JObj ps) \<Rightarrow>
          (case (nonEmptyText (map_of ps ''subjectId''), nonEmptyText (map_of ps ''tenantId''),
                 map_of ps ''mfaSatisfied'', nonEmptyText (map_of ps ''authenticatedAt'')) of
             (Some s, Some t, Some (JBool m), Some d) \<Rightarrow>
               if map_of ps ''actorId'' = None \<or> nonEmptyText (map_of ps ''actorId'') \<noteq> None then
                 Some \<lparr> auth_subjectId = s, auth_tenantId = t, auth_actorId = nonEmptyText (map_of ps ''actorId''),
                        auth_mfaSatisfied = m, auth_authenticatedAt = d \<rparr>
               else None
           | _ \<Rightarrow> None)
      | _ \<Rightarrow> None)"

definition auth_prop :: "string \<Rightarrow> json option \<Rightarrow> string option" where
  "auth_prop k authentication = nonEmptyText (Option.bind authentication (jget k))"

definition safeAuthenticationTenantId :: "json option \<Rightarrow> string" where
  "safeAuthenticationTenantId authentication =
     (case auth_prop ''tenantId'' authentication of Some t \<Rightarrow> t | None \<Rightarrow> ''anonymous'')"

definition safeAuthenticationActorId :: "json option \<Rightarrow> string option" where
  "safeAuthenticationActorId authentication = auth_prop ''actorId'' authentication"

definition safeWorkspaceId :: "OSForgeContext option \<Rightarrow> string option" where
  "safeWorkspaceId c = map_option (\<lambda>c. ws_id (ctx_workspace c)) c"

section \<open>Normalization\<close>

type_synonym 'a normalized = "(EdgeRejectionReason \<times> string) + 'a"

definition stripTrailingSlashes :: "string \<Rightarrow> string" where
  "stripTrailingSlashes s = rev (dropWhile (\<lambda>c. c = CHR ''/'') (rev s))"

definition normalizePath :: "string \<Rightarrow> string option" where
  "normalizePath path =
     (let trimmed = js_trim path in
      if take 1 trimmed \<noteq> ''/'' \<or> CHR 0x5C \<in> set trimmed then None
      else
        (case decodeURIComponent trimmed of
           None \<Rightarrow> None
         | Some decoded \<Rightarrow>
             if decoded \<noteq> map of_char trimmed \<or> js_includes ''//'' trimmed \<or> js_includes ''..'' trimmed then None
             else (let p = stripTrailingSlashes trimmed in Some (if p = [] then ''/'' else p))))"

text \<open>The loop over the entries; \<open>seen\<close> and \<open>map\<close> of the source are the keys and the pairs gathered so far.\<close>

fun normalize_entries :: "int \<Rightarrow> json list \<Rightarrow> (string \<times> string) list \<Rightarrow> (string \<times> string) list normalized" where
  "normalize_entries maxValueBytes [] acc = Inr acc"
| "normalize_entries maxValueBytes (e # es) acc =
     (case e of
        JArr [rawKey, rawValue] \<Rightarrow>
          (case (nonEmptyText (Some rawKey), rawValue) of
             (Some k, JStr v) \<Rightarrow>
               (let key = toLowerCase (js_trim k) in
                if key \<in> fst ` set acc then Inl (Edge_malformed_request, ''Duplicate ambiguous input.'')
                else if byteLength v > maxValueBytes then Inl (Edge_payload_exceeded, ''Entry value too large.'')
                else normalize_entries maxValueBytes es (acc @ [(key, js_trim v)]))
           | _ \<Rightarrow> Inl (Edge_malformed_request, ''Malformed key or value.''))
      | _ \<Rightarrow> Inl (Edge_malformed_request, ''Malformed entry.''))"

definition normalizeStringMap :: "json option \<Rightarrow> int \<Rightarrow> int \<Rightarrow> (string \<times> string) list normalized" where
  "normalizeStringMap input maxEntries maxValueBytes =
     (case (case input of
              Some (JArr es) \<Rightarrow> Some es
            | Some (JObj ps) \<Rightarrow> Some (map (\<lambda>(k, v). JArr [JStr k, v]) ps)
            | _ \<Rightarrow> None) of
        None \<Rightarrow> Inl (Edge_malformed_request, ''Expected object or entries.'')
      | Some entries \<Rightarrow>
          if int (length entries) > maxEntries then Inl (Edge_payload_exceeded, ''Too many entries.'')
          else normalize_entries maxValueBytes entries [])"

definition safe_body_size :: "js_num option \<Rightarrow> int \<Rightarrow> int option" where
  "safe_body_size raw maxBytes =
     (case (case raw of None \<Rightarrow> Num_integer 0 | Some n \<Rightarrow> n) of
        Num_integer n \<Rightarrow> if \<bar>n\<bar> \<le> 2 ^ 53 - 1 \<and> 0 \<le> n \<and> n \<le> maxBytes then Some n else None
      | Num_other \<Rightarrow> None)"

definition query_or_empty :: "json option \<Rightarrow> json option" where
  "query_or_empty q = (case q of None \<Rightarrow> Some (JObj []) | Some JNull \<Rightarrow> Some (JObj []) | Some v \<Rightarrow> Some v)"

definition normalizeRequest :: "RawEdgeRequest \<Rightarrow> PayloadLimitPolicy \<Rightarrow> NormalizedEdgeRequest normalized" where
  "normalizeRequest raw limits =
     (case (nonEmptyText (re_method raw), nonEmptyText (re_path raw)) of
        (Some rawMethod, Some rawPath) \<Rightarrow>
          (case isHttpMethod (toUpperCase (js_trim rawMethod)) of
             None \<Rightarrow> Inl (Edge_malformed_request, ''Unsupported HTTP method.'')
           | Some meth \<Rightarrow>
          (case isEndpointActionClass (re_actionClass raw) of
             None \<Rightarrow> Inl (Edge_malformed_request, ''Unsupported endpoint action class.'')
           | Some action \<Rightarrow>
          (case normalizePath rawPath of
             None \<Rightarrow> Inl (Edge_payload_exceeded, ''Path length exceeded.'')
           | Some path \<Rightarrow>
               if int (length path) > pl_maxPathLength limits then Inl (Edge_payload_exceeded, ''Path length exceeded.'')
               else
          (case safe_body_size (re_bodySizeBytes raw) (pl_maxBodyBytes limits) of
             None \<Rightarrow> Inl (Edge_payload_exceeded, ''Body size exceeded.'')
           | Some bytes \<Rightarrow>
          (case normalizeStringMap (re_headers raw) (pl_maxHeaderCount limits) (pl_maxHeaderBytes limits) of
             Inl e \<Rightarrow> Inl e
           | Inr headers \<Rightarrow>
          (case normalizeStringMap (query_or_empty (re_query raw)) (pl_maxQueryParams limits) (pl_maxHeaderBytes limits) of
             Inl e \<Rightarrow> Inl e
           | Inr query \<Rightarrow>
               Inr \<lparr> ne_method = meth, ne_path = path, ne_headers = headers, ne_query = query,
                     ne_bodySizeBytes = bytes, ne_actionClass = action \<rparr>))))))
      | _ \<Rightarrow> Inl (Edge_malformed_request, ''Method and path are required.''))"

section \<open>The gate\<close>

definition eventNameFor :: "EdgeRejectionReason \<Rightarrow> EdgeSecurityEventName" where
  "eventNameFor r =
     (case r of
        Edge_payload_exceeded \<Rightarrow> Edge_event_payload_exceeded
      | Edge_rate_limited \<Rightarrow> Edge_event_rate_limited
      | Edge_abuse_detected \<Rightarrow> Edge_event_abuse_detected
      | Edge_malformed_request \<Rightarrow> Edge_event_malformed_request
      | Edge_context_mismatch \<Rightarrow> Edge_event_context_mismatch
      | Edge_gate_failure \<Rightarrow> Edge_event_gate_failure
      | Edge_authentication_missing \<Rightarrow> Edge_event_request_rejected)"

definition edge_reject :: "EdgeRejectionReason \<Rightarrow> string \<Rightarrow> string option \<Rightarrow> EdgeSecurityGateResult" where
  "edge_reject reason message action =
     \<lparr> er_decision = Edge_DENY, er_validatedRequest = None, er_rejectionReason = Some reason,
       er_securityEvents = [\<lparr> ee_name = eventNameFor reason, ee_reason = message, ee_actionClass = action \<rparr>] \<rparr>"

definition createRawEdgeRequest :: "RawEdgeRequest \<Rightarrow> RawEdgeRequest" where
  "createRawEdgeRequest input = input\<lparr> re_brand := True \<rparr>"

text \<open>From the authentication on, the gate calls no adapter.\<close>

definition edge_binding :: "RawEdgeRequest \<Rightarrow> NormalizedEdgeRequest \<Rightarrow> EdgeSecurityGateResult" where
  "edge_binding raw request =
     (let action = Some (endpoint_text (ne_actionClass request)) in
      case isAuthenticationContext (re_authentication raw) of
        None \<Rightarrow> edge_reject Edge_authentication_missing ''Authentication context is required.'' action
      | Some authentication \<Rightarrow>
          if validateOSForgeContext (map_option raw_of (re_context raw)) \<noteq> Valid then
            edge_reject Edge_context_mismatch ''Tenant/workspace context validation failed.'' action
          else
            (case re_context raw of
               None \<Rightarrow> edge_reject Edge_context_mismatch ''Tenant/workspace context is required.'' action
             | Some context \<Rightarrow>
                 if auth_tenantId authentication \<noteq> tenant_id (ctx_tenant context) then
                   edge_reject Edge_context_mismatch ''Authentication tenant does not match request context.'' action
                 else
                   \<lparr> er_decision = Edge_ALLOW,
                     er_validatedRequest =
                       Some \<lparr> ve_brand = True, ve_request = request, ve_authentication = authentication,
                              ve_context = context \<rparr>,
                     er_rejectionReason = None, er_securityEvents = [] \<rparr>))"

definition evaluateEdgeSecurityGate :: "'s EdgeSecurityGateRequest \<Rightarrow> 's \<Rightarrow> EdgeSecurityGateResult \<times> 's" where
  "evaluateEdgeSecurityGate req s =
     (let raw = eg_rawRequest req in
      if \<not> re_brand raw then (edge_reject Edge_malformed_request ''Raw request is not trusted edge input.'' None, s)
      else
        (case normalizeRequest raw (ep_payloadLimits (eg_policy req)) of
           Inl (reason, message) \<Rightarrow> (edge_reject reason message (Some (re_actionClass raw)), s)
         | Inr request \<Rightarrow>
             (let action = Some (endpoint_text (ne_actionClass request)) in
              case eg_networkFingerprint req request s of
                (Inl _, s1) \<Rightarrow> (edge_reject Edge_gate_failure ''Network fingerprint adapter failed.'' action, s1)
              | (Inr fingerprint, s1) \<Rightarrow>
                  if \<not> isNonEmptyString fingerprint then
                    (edge_reject Edge_gate_failure ''Network fingerprint adapter returned an invalid value.'' action, s1)
                  else
                    (case eg_rateLimit req
                            \<lparr> rl_tenantId = safeAuthenticationTenantId (re_authentication raw),
                              rl_actorId = safeAuthenticationActorId (re_authentication raw),
                              rl_workspaceId = safeWorkspaceId (re_context raw),
                              rl_networkFingerprint = fingerprint, rl_actionClass = ne_actionClass request \<rparr> s1 of
                       (Inl _, s2) \<Rightarrow> (edge_reject Edge_gate_failure ''Rate-limit adapter failed.'' action, s2)
                     | (Inr rate, s2) \<Rightarrow>
                         if ar_decision rate \<noteq> ''ALLOW'' then (edge_reject Edge_rate_limited (ar_reason rate) action, s2)
                         else
                           (case eg_abuseDetection req
                                   \<lparr> ab_request = request, ab_authentication = re_authentication raw,
                                     ab_networkFingerprint = fingerprint \<rparr> s2 of
                              (Inl _, s3) \<Rightarrow>
                                (edge_reject Edge_abuse_detected ''Abuse detection adapter failed.'' action, s3)
                            | (Inr abuse, s3) \<Rightarrow>
                                if ar_decision abuse = ''DENY'' then
                                  (edge_reject Edge_abuse_detected (ar_reason abuse) action, s3)
                                else if ar_decision abuse = ''CHALLENGE'' then
                                  (\<lparr> er_decision = Edge_CHALLENGE, er_validatedRequest = None,
                                     er_rejectionReason = Some Edge_abuse_detected,
                                     er_securityEvents =
                                       [\<lparr> ee_name = Edge_event_abuse_detected, ee_reason = ar_reason abuse,
                                          ee_actionClass = action \<rparr>] \<rparr>, s3)
                                else if ar_decision abuse = ''UNKNOWN'' then
                                  (edge_reject Edge_abuse_detected ''Abuse detection was ambiguous.'' action, s3)
                                else (edge_binding raw request, s3))))))"

definition isValidatedEdgeRequest :: "ValidatedEdgeRequest \<Rightarrow> bool" where
  "isValidatedEdgeRequest v = ve_brand v"

definition createCoreIngressRequest :: "ValidatedEdgeRequest \<Rightarrow> CoreIngressRequest option" where
  "createCoreIngressRequest v =
     (if \<not> isValidatedEdgeRequest v then None else Some \<lparr> ci_brand = True, ci_edgeRequest = v \<rparr>)"

section \<open>Texts\<close>

lemma decode_length: "decodeURIComponent s = Some d \<Longrightarrow> length d + (if CHR ''%'' \<in> set s then 1 else 0) \<le> length s"
proof (induction s arbitrary: d rule: decodeURIComponent.induct)
  case (2 c cs)
  show ?case
  proof (cases "c = CHR ''%''")
    case True
    with 2 obtain u r e where "read_escape (c # cs) = Some (u, r)" "decodeURIComponent r = Some e" "d = u @ e"
      by (auto split: option.splits)
    then show ?thesis using read_escape_shorter [of "c # cs" u r] 2(1) [OF True, of "(u, r)" u r e] by (auto split: if_splits)
  next
    case False
    then show ?thesis using 2 by auto
  qed
qed simp

lemma decode_unescaped: "CHR ''%'' \<notin> set s \<Longrightarrow> decodeURIComponent s = Some (map of_char s)"
  by (induction s) auto

text \<open>The comparison with the decoded text refuses exactly the texts with a percent sign.\<close>

lemma decode_unchanged_iff: "decodeURIComponent s = Some (map of_char s) \<longleftrightarrow> CHR ''%'' \<notin> set s"
  using decode_length [of s "map of_char s"] decode_unescaped [of s] by (auto split: if_splits)

lemma take_eq_prefix: "take (length p) s = p \<longleftrightarrow> (\<exists>v. s = p @ v)"
  by (metis append_eq_conv_conj append_take_drop_id)

lemma js_includes_iff: "js_includes p s \<longleftrightarrow> (\<exists>u v. s = u @ p @ v)"
proof (induction s)
  case (Cons c cs)
  have "js_includes p (c # cs) \<longleftrightarrow> (\<exists>v. c # cs = p @ v) \<or> (\<exists>u v. cs = u @ p @ v)"
    by (simp only: js_includes.simps take_eq_prefix Cons)
  also have "\<dots> \<longleftrightarrow> (\<exists>u v. c # cs = u @ p @ v)" by (metis append_Cons append_Nil list.inject neq_Nil_conv)
  finally show ?case .
qed auto

lemma includes_prefix: "js_includes p s \<Longrightarrow> js_includes p (s @ t)"
  unfolding js_includes_iff by (metis append.assoc)

lemma lower_char_code:
  "(of_char (lower_char c) :: nat) =
     (let n = (of_char c :: nat) in if 65 \<le> n \<and> n \<le> 90 \<or> 192 \<le> n \<and> n \<le> 222 \<and> n \<noteq> 215 then n + 32 else n)"
  by (auto simp: lower_char_def Let_def)

lemma lower_char_idem [simp]: "lower_char (lower_char c) = lower_char c"
  by (rule char_eqI) (simp add: lower_char_code Let_def)

lemma is_ws_lower [simp]: "is_ws (lower_char c) \<longleftrightarrow> is_ws c"
  by (auto simp: is_ws_def lower_char_code Let_def)

lemma toLowerCase_idem [simp]: "toLowerCase (toLowerCase s) = toLowerCase s"
  by (simp add: toLowerCase_def)

lemma js_trim_lower: "js_trim (toLowerCase s) = toLowerCase (js_trim s)"
  by (simp add: js_trim_def toLowerCase_def dropWhile_map rev_map o_def)

lemma js_trim_idem [simp]: "js_trim (js_trim s) = js_trim s"
proof -
  have idem: "dropWhile is_ws (rev (dropWhile is_ws (rev (dropWhile is_ws xs)))) = rev (dropWhile is_ws (rev (dropWhile is_ws xs)))" for xs
  proof (cases "dropWhile is_ws xs")
    case Nil
    show ?thesis unfolding Nil by simp
  next
    case (Cons y ys)
    then have y: "\<not> is_ws y" by (metis hd_dropWhile list.distinct(1) list.sel(1))
    have "dropWhile is_ws (rev ys @ [y]) = dropWhile is_ws (rev ys) @ [y]"
      using y by (induction "rev ys" arbitrary: ys) (auto simp: dropWhile_append)
    then show ?thesis using y Cons by simp
  qed
  show ?thesis unfolding js_trim_def idem by simp
qed

lemma js_trim_bytes: "byteLength (js_trim s) \<le> byteLength s"
proof -
  have drop: "byteLength (dropWhile P xs) \<le> byteLength xs" for P xs
    by (induction xs) (auto simp: byteLength_def)
  have "byteLength (rev xs) = byteLength xs" for xs by (simp add: byteLength_def rev_map [symmetric])
  then show ?thesis unfolding js_trim_def using drop by (metis order_trans)
qed

section \<open>Paths\<close>

definition clean_path :: "string \<Rightarrow> bool" where
  "clean_path p \<longleftrightarrow>
     take 1 p = ''/'' \<and> CHR ''%'' \<notin> set p \<and> CHR 0x5C \<notin> set p \<and> \<not> js_includes ''//'' p \<and> \<not> js_includes ''..'' p \<and>
     (p = ''/'' \<or> last p \<noteq> CHR ''/'')"

lemma normalizePath_cases:
  "normalizePath path = Some q \<longleftrightarrow>
     (let p = js_trim path; s = stripTrailingSlashes p in
      take 1 p = ''/'' \<and> CHR 0x5C \<notin> set p \<and> CHR ''%'' \<notin> set p \<and> \<not> js_includes ''//'' p \<and> \<not> js_includes ''..'' p \<and>
      q = (if s = [] then ''/'' else s))"
  using decode_unchanged_iff [of "js_trim path"]
  by (auto simp: normalizePath_def Let_def decode_unescaped split: option.splits)

lemma strip_prefix: "\<exists>n. s = stripTrailingSlashes s @ replicate n CHR ''/''"
proof -
  have "\<exists>n. takeWhile (\<lambda>c. c = CHR ''/'') xs = replicate n CHR ''/''" for xs
    by (induction xs) (auto intro: exI [of _ 0] exI [of _ "Suc _"])
  then obtain n where "takeWhile (\<lambda>c. c = CHR ''/'') (rev s) = replicate n CHR ''/''" by blast
  then have "rev s = replicate n CHR ''/'' @ dropWhile (\<lambda>c. c = CHR ''/'') (rev s)"
    by (metis takeWhile_dropWhile_id)
  then have "s = stripTrailingSlashes s @ replicate n CHR ''/''"
    unfolding stripTrailingSlashes_def by (metis rev_append rev_replicate rev_rev_ident)
  then show ?thesis ..
qed

lemma strip_last: "stripTrailingSlashes s \<noteq> [] \<Longrightarrow> last (stripTrailingSlashes s) \<noteq> CHR ''/''"
  unfolding stripTrailingSlashes_def by (metis (mono_tags) hd_dropWhile last_rev rev_is_Nil_conv)

lemma strip_id: "s \<noteq> [] \<Longrightarrow> last s \<noteq> CHR ''/'' \<Longrightarrow> stripTrailingSlashes s = s"
  unfolding stripTrailingSlashes_def by (cases s rule: rev_cases) auto

lemma normalized_path_clean:
  assumes "normalizePath path = Some q"
  shows "clean_path q"
proof -
  define p where "p = js_trim path"
  have p: "take 1 p = ''/''" "CHR 0x5C \<notin> set p" "CHR ''%'' \<notin> set p" "\<not> js_includes ''//'' p" "\<not> js_includes ''..'' p"
    and q: "q = (if stripTrailingSlashes p = [] then ''/'' else stripTrailingSlashes p)"
    using assms unfolding normalizePath_cases p_def [symmetric] by (auto simp: Let_def)
  show ?thesis
  proof (cases "stripTrailingSlashes p = []")
    case True
    then show ?thesis using q by (simp add: clean_path_def)
  next
    case False
    obtain n where n: "p = stripTrailingSlashes p @ replicate n CHR ''/''" using strip_prefix by blast
    have "take 1 (stripTrailingSlashes p) = ''/''" using p(1) False n by (metis One_nat_def hd_append2 list.sel(1) take_eq_Nil take_hd_drop take_0 take_Suc)
    moreover have "set (stripTrailingSlashes p) \<subseteq> set p" using n by (metis Un_upper1 set_append)
    moreover have "\<not> js_includes w p \<Longrightarrow> \<not> js_includes w (stripTrailingSlashes p)" for w using n includes_prefix by metis
    ultimately show ?thesis using p q False strip_last [OF False] unfolding clean_path_def by auto
  qed
qed

text \<open>White space before trailing slashes survives: the normal form is then no fixed point.\<close>

lemma normal_form_changes_again:
  "normalizePath ''/a /'' = Some ''/a '' \<and> normalizePath ''/a '' = Some ''/a''"
  by (simp add: normalizePath_def js_trim_def is_ws_def Let_def stripTrailingSlashes_def)

lemma clean_path_fixed: "clean_path p \<Longrightarrow> js_trim p = p \<Longrightarrow> normalizePath p = Some p"
  unfolding normalizePath_cases clean_path_def Let_def using strip_id [of p]
  by (cases "p = ''/''"; cases "p = []") (simp_all add: stripTrailingSlashes_def)

section \<open>Headers and query\<close>

text \<open>What a normalized map satisfies: distinct keys in lower case without outer white space, small values.\<close>

definition clean_map :: "int \<Rightarrow> (string \<times> string) list \<Rightarrow> bool" where
  "clean_map maxValueBytes kvs \<longleftrightarrow>
     distinct (map fst kvs) \<and>
     list_all (\<lambda>(k, v). isNonEmptyString k \<and> toLowerCase k = k \<and> js_trim k = k \<and> byteLength v \<le> maxValueBytes) kvs"

lemma isNonEmptyString_lower: "isNonEmptyString s \<Longrightarrow> isNonEmptyString (toLowerCase (js_trim s))"
  unfolding isNonEmptyString_def js_trim_lower js_trim_idem by (simp add: toLowerCase_def)

lemma normalize_entries_clean:
  "normalize_entries m es acc = Inr kvs \<Longrightarrow> clean_map m acc \<Longrightarrow>
     clean_map m kvs \<and> length kvs = length acc + length es"
proof (induction m es acc rule: normalize_entries.induct)
  case (2 m e es acc)
  obtain rk v k where e: "e = JArr [JStr rk, JStr v]" and k: "k = toLowerCase (js_trim rk)" and ne: "isNonEmptyString rk"
    and fresh: "k \<notin> fst ` set acc" and small: "byteLength v \<le> m"
    and rest: "normalize_entries m es (acc @ [(k, js_trim v)]) = Inr kvs"
    using 2(2) by (auto simp: nonEmptyText_def Let_def split: json.splits list.splits option.splits if_splits)
  have "clean_map m (acc @ [(k, js_trim v)])"
    using 2(3) fresh small js_trim_bytes [of v] isNonEmptyString_lower [OF ne]
    unfolding clean_map_def k by (auto simp: js_trim_lower)
  then show ?case using 2(1) e k ne fresh small rest by (auto simp: nonEmptyText_def Let_def)
qed simp

lemma normalizeStringMap_clean:
  "normalizeStringMap input n m = Inr kvs \<Longrightarrow> clean_map m kvs \<and> int (length kvs) \<le> n"
  unfolding normalizeStringMap_def
  by (auto split: option.splits json.splits if_splits dest!: normalize_entries_clean simp: clean_map_def)

section \<open>What the gate admits\<close>

definition clean_request :: "PayloadLimitPolicy \<Rightarrow> NormalizedEdgeRequest \<Rightarrow> bool" where
  "clean_request limits r \<longleftrightarrow>
     clean_path (ne_path r) \<and> int (length (ne_path r)) \<le> pl_maxPathLength limits \<and>
     0 \<le> ne_bodySizeBytes r \<and> ne_bodySizeBytes r \<le> pl_maxBodyBytes limits \<and>
     clean_map (pl_maxHeaderBytes limits) (ne_headers r) \<and> int (length (ne_headers r)) \<le> pl_maxHeaderCount limits \<and>
     clean_map (pl_maxHeaderBytes limits) (ne_query r) \<and> int (length (ne_query r)) \<le> pl_maxQueryParams limits"

lemma normalizeRequest_clean: "normalizeRequest raw limits = Inr r \<Longrightarrow> clean_request limits r"
  unfolding normalizeRequest_def clean_request_def safe_body_size_def
  by (auto split: option.splits if_splits sum.splits js_num.splits dest: normalized_path_clean normalizeStringMap_clean)

lemma edge_reject_simps [simp]:
  "er_decision (edge_reject r m a) = Edge_DENY" "er_validatedRequest (edge_reject r m a) = None"
  "er_rejectionReason (edge_reject r m a) = Some r" "map ee_name (er_securityEvents (edge_reject r m a)) = [eventNameFor r]"
  by (simp_all add: edge_reject_def)

lemma edge_binding_allow:
  "er_decision (edge_binding raw request) = Edge_ALLOW \<longleftrightarrow>
     (\<exists>a c. isAuthenticationContext (re_authentication raw) = Some a \<and> re_context raw = Some c \<and> valid_context c \<and>
            auth_tenantId a = tenant_id (ctx_tenant c) \<and>
            er_validatedRequest (edge_binding raw request) =
              Some \<lparr> ve_brand = True, ve_request = request, ve_authentication = a, ve_context = c \<rparr>)"
  by (auto simp: edge_binding_def Let_def valid_context_def split: option.splits if_splits)

lemma edge_binding_outcome:
  "let r = edge_binding raw request in
   (er_decision r = Edge_ALLOW \<and> er_rejectionReason r = None \<and> er_securityEvents r = [] \<or>
    er_decision r = Edge_DENY \<and> er_validatedRequest r = None \<and>
    (\<exists>x. er_rejectionReason r = Some x \<and> map ee_name (er_securityEvents r) = [eventNameFor x]))"
  by (auto simp: edge_binding_def Let_def split: option.splits)

text \<open>The adapters agree: a fingerprint, a rate below the limit and no objection to the request.\<close>

definition adapters_agree :: "'s EdgeSecurityGateRequest \<Rightarrow> NormalizedEdgeRequest \<Rightarrow> 's \<Rightarrow> 's \<Rightarrow> bool" where
  "adapters_agree req request s s' \<longleftrightarrow>
     (\<exists>fp s1 rate s2 abuse.
        eg_networkFingerprint req request s = (Inr fp, s1) \<and> isNonEmptyString fp \<and>
        eg_rateLimit req
          \<lparr> rl_tenantId = safeAuthenticationTenantId (re_authentication (eg_rawRequest req)),
            rl_actorId = safeAuthenticationActorId (re_authentication (eg_rawRequest req)),
            rl_workspaceId = safeWorkspaceId (re_context (eg_rawRequest req)),
            rl_networkFingerprint = fp, rl_actionClass = ne_actionClass request \<rparr> s1 = (Inr rate, s2) \<and>
        ar_decision rate = ''ALLOW'' \<and>
        eg_abuseDetection req
          \<lparr> ab_request = request, ab_authentication = re_authentication (eg_rawRequest req),
            ab_networkFingerprint = fp \<rparr> s2 = (Inr abuse, s') \<and>
        ar_decision abuse \<notin> {''DENY'', ''CHALLENGE'', ''UNKNOWN''})"

lemma edge_gate_cases:
  assumes "evaluateEdgeSecurityGate req s = (r, s')"
  obtains request where "re_brand (eg_rawRequest req)"
      "normalizeRequest (eg_rawRequest req) (ep_payloadLimits (eg_policy req)) = Inr request"
      "adapters_agree req request s s'" "r = edge_binding (eg_rawRequest req) request"
  | "er_decision r \<noteq> Edge_ALLOW" "er_validatedRequest r = None"
      "\<exists>x. er_rejectionReason r = Some x \<and> map ee_name (er_securityEvents r) = [eventNameFor x]"
      "\<nexists>request. re_brand (eg_rawRequest req) \<and>
         normalizeRequest (eg_rawRequest req) (ep_payloadLimits (eg_policy req)) = Inr request \<and>
         adapters_agree req request s s'"
  using assms unfolding evaluateEdgeSecurityGate_def Let_def adapters_agree_def
  by (auto split: if_splits sum.splits prod.splits simp: eventNameFor_def)


definition demo_limits :: PayloadLimitPolicy where
  "demo_limits = \<lparr> pl_maxBodyBytes = 1000, pl_maxHeaderCount = 4, pl_maxHeaderBytes = 100, pl_maxQueryParams = 4,
                   pl_maxPathLength = 50 \<rparr>"

definition demo_raw :: RawEdgeRequest where
  "demo_raw = createRawEdgeRequest
     \<lparr> re_brand = False, re_method = Some (JStr ''get''), re_path = Some (JStr ''/a/b/''),
       re_headers = Some (JObj [(''Accept'', JStr ''x'')]), re_query = None, re_bodySizeBytes = None,
       re_authentication = Some (JObj [(''subjectId'', JStr ''s1''), (''tenantId'', JStr ''t1''), (''actorId'', JStr ''a1''),
                                       (''mfaSatisfied'', JBool True), (''authenticatedAt'', JStr ''now'')]),
       re_context = Some demo_context, re_actionClass = ''admin'' \<rparr>"

definition demo_gate :: "string \<Rightarrow> unit EdgeSecurityGateRequest" where
  "demo_gate verdict =
     \<lparr> eg_rawRequest = demo_raw, eg_policy = \<lparr> ep_payloadLimits = demo_limits, ep_criticalActionClasses = [] \<rparr>,
       eg_rateLimit = (\<lambda>_ u. (Inr \<lparr> ar_decision = ''ALLOW'', ar_reason = [] \<rparr>, u)),
       eg_abuseDetection = (\<lambda>_ u. (Inr \<lparr> ar_decision = verdict, ar_reason = [] \<rparr>, u)),
       eg_networkFingerprint = (\<lambda>_ u. (Inr ''fp'', u)) \<rparr>"

lemma demo_method: "toUpperCase ''get'' = ''GET''"
  by code_simp

lemma demo_header: "toLowerCase ''Accept'' = ''accept''"
  by code_simp

lemma demo_gate_allows:
  "verdict \<notin> {''DENY'', ''CHALLENGE'', ''UNKNOWN''} \<Longrightarrow> er_decision (fst (evaluateEdgeSecurityGate (demo_gate verdict) ())) = Edge_ALLOW"
  by (simp add: evaluateEdgeSecurityGate_def demo_gate_def demo_raw_def createRawEdgeRequest_def normalizeRequest_def
      demo_limits_def nonEmptyText_def isNonEmptyString_def js_trim_def is_ws_def demo_method Let_def
      isHttpMethod_def isEndpointActionClass_def endpoint_text_def normalizePath_def stripTrailingSlashes_def
      safe_body_size_def normalizeStringMap_def demo_header byteLength_def query_or_empty_def
      edge_binding_def isAuthenticationContext_def validateOSForgeContext_def demo_context_def raw_of_def
      field_violations_def boundary_violations_def push_if_def isNonEmptyOpt_def)


text \<open>
  The verdict of the abuse detection is compared with the three refusals only: a verdict outside the four the
  type lists is taken for consent.
\<close>

lemma unlisted_abuse_verdict_admitted:
  "er_decision (fst (evaluateEdgeSecurityGate (demo_gate ''ERROR'') ())) = Edge_ALLOW"
  by (rule demo_gate_allows) simp

text \<open>A path refused for its form is reported as too long.\<close>

lemma traversal_reported_as_length:
  "normalizePath p = None \<Longrightarrow> normalizeRequest raw limits = Inl (reason, m) \<Longrightarrow> nonEmptyText (re_path raw) = Some p \<Longrightarrow>
   reason = Edge_payload_exceeded \<or> m \<in> {''Method and path are required.'', ''Unsupported HTTP method.'', ''Unsupported endpoint action class.''}"
  by (auto simp: normalizeRequest_def split: option.splits)

lemma ingress_needs_brand: "createCoreIngressRequest v \<noteq> None \<longleftrightarrow> isValidatedEdgeRequest v"
  by (simp add: createCoreIngressRequest_def)

end
