(* ===== verification/Identity.thy ===== *)
theory Identity
  imports Edge_Security Js_Date
begin

text \<open>
  \<^verbatim>\<open>identity/src/index.ts\<close>: the identity gate between the edge and the pipeline, the results of MFA
  challenges and of step-up authentication it relies on, and the contract of break-glass recovery. A branded
  object carries a boolean for its symbol property. The gate admits exactly the requests of an active identity
  with a live session bound to it, the factors its action class needs and one tenant, workspace and actor
  everywhere; the check list it returns is the path it took.
\<close>

section \<open>Data\<close>

datatype IdentityProviderType =
  Provider_internal | Provider_oidc | Provider_saml | Provider_oauth | Provider_passkey | Provider_external

datatype IdentityStatus = Identity_active | Identity_suspended | Identity_disabled

datatype SessionState = Session_active | Session_expired | Session_revoked

datatype AuthenticatorAssuranceLevel = Aal_1 | Aal_2 | Aal_3

datatype IdentityRiskLevel = Irisk_low | Irisk_medium | Irisk_high | Irisk_critical

datatype MFAFactorMethod = Factor_totp | Factor_passkey | Factor_hardware_key | Factor_recovery_code

datatype MFAChallengeStatus = Challenge_pending | Challenge_succeeded | Challenge_failed | Challenge_expired

datatype IdentityActionClass =
  Action_standard | Action_admin | Action_recovery | Action_payment | Action_secret_management
  | Action_permission_change | Action_bulk_messaging | Action_public_publishing | Action_api_key_management
  | Action_plugin_installation | Action_mcp_tool_connection

datatype factor_status = Factor_success | Factor_failure

record IdentitySubject =
  is_id :: string
  is_actorId :: string
  is_actorType :: ActorType
  is_tenantId :: string
  is_organizationId :: "string option"
  is_workspaceId :: "string option"

record Identity =
  idn_id :: string
  idn_providerId :: string
  idn_subject :: IdentitySubject
  idn_status :: IdentityStatus
  idn_riskLevel :: IdentityRiskLevel
  idn_createdAt :: string

record Session =
  ss_id :: string
  ss_subjectId :: string
  ss_actorId :: string
  ss_tenantId :: string
  ss_organizationId :: "string option"
  ss_workspaceId :: string
  ss_state :: SessionState
  ss_authenticatedAt :: string
  ss_expiresAt :: string
  ss_revokedAt :: "string option"
  ss_assuranceLevel :: AuthenticatorAssuranceLevel
  ss_riskLevel :: IdentityRiskLevel
  ss_hijackSuspected :: "bool option"

record MFAFactor =
  mf_id :: string
  mf_subjectId :: string
  mf_method :: MFAFactorMethod
  mf_phishingResistant :: bool
  mf_assuranceLevel :: AuthenticatorAssuranceLevel
  mf_enabled :: bool

record MFAChallenge =
  mc_id :: string
  mc_subjectId :: string
  mc_sessionId :: string
  mc_actionClass :: IdentityActionClass
  mc_factorId :: string
  mc_status :: MFAChallengeStatus
  mc_issuedAt :: string
  mc_expiresAt :: string

record MFAChallengeResult =
  mfr_brand :: bool
  mfr_challengeId :: string
  mfr_subjectId :: string
  mfr_sessionId :: string
  mfr_factorId :: string
  mfr_actionClass :: IdentityActionClass
  mfr_status :: factor_status
  mfr_assuranceLevel :: AuthenticatorAssuranceLevel
  mfr_phishingResistant :: bool
  mfr_completedAt :: string
  mfr_expiresAt :: string

record StepUpAuthenticationRequest =
  sur_subjectId :: string
  sur_sessionId :: string
  sur_actionClass :: IdentityActionClass
  sur_requestedAt :: string
  sur_requiredAssuranceLevel :: AuthenticatorAssuranceLevel

record StepUpAuthenticationResult =
  sup_brand :: bool
  sup_subjectId :: string
  sup_sessionId :: string
  sup_actionClass :: IdentityActionClass
  sup_status :: factor_status
  sup_assuranceLevel :: AuthenticatorAssuranceLevel
  sup_completedAt :: string
  sup_expiresAt :: string

record IdentityGateAction =
  iga_class :: IdentityActionClass
  iga_name :: string

datatype IdentityGateCheckName =
  Check_authentication | Check_session_validation | Check_mfa_requirement | Check_step_up | Check_identity_risk
  | Check_context_binding | Check_security_event

datatype IdentityGateDecision = Identity_ALLOW | Identity_DENY

datatype IdentityGateRejectionReason =
  Rej_authentication_failed | Rej_unknown_session | Rej_session_expired | Rej_session_revoked | Rej_session_invalid
  | Rej_session_hijack_suspected | Rej_mfa_required | Rej_step_up_required | Rej_identity_risk_denied
  | Rej_context_binding_failed

record IdentityGateCheck =
  igc_name :: IdentityGateCheckName
  igc_passed :: bool
  igc_decision :: IdentityGateDecision
  igc_reason :: string

record IdentitySecurityEvent =
  ise_name :: string
  ise_reason :: string
  ise_actionClass :: IdentityActionClass
  ise_subjectId :: "string option"
  ise_sessionId :: "string option"

record VerifiedIdentityContext =
  vic_brand :: bool
  vic_identity :: Identity
  vic_subject :: IdentitySubject
  vic_session :: Session
  vic_context :: OSForgeContext
  vic_action :: IdentityGateAction
  vic_assuranceLevel :: AuthenticatorAssuranceLevel
  vic_riskLevel :: IdentityRiskLevel
  vic_securityEvents :: "IdentitySecurityEvent list"

record IdentityGateRequest =
  igr_edgeRequest :: ValidatedEdgeRequest
  igr_context :: OSForgeContext
  igr_identity :: Identity
  igr_session :: "Session option"
  igr_action :: IdentityGateAction
  igr_mfaChallengeResult :: "MFAChallengeResult option"
  igr_stepUpAuthenticationResult :: "StepUpAuthenticationResult option"
  igr_now :: string

record IdentityGateResult =
  igs_decision :: IdentityGateDecision
  igs_verifiedIdentityContext :: "VerifiedIdentityContext option"
  igs_rejectionReason :: "IdentityGateRejectionReason option"
  igs_checks :: "IdentityGateCheck list"
  igs_securityEvents :: "IdentitySecurityEvent list"

record MFAChallengeResultInput =
  mfi_challenge :: MFAChallenge
  mfi_factor :: MFAFactor
  mfi_status :: factor_status
  mfi_completedAt :: string
  mfi_expiresAt :: string

record StepUpAuthenticationResultInput =
  sui_request :: StepUpAuthenticationRequest
  sui_mfaChallengeResult :: MFAChallengeResult
  sui_completedAt :: string
  sui_expiresAt :: string

record RecoveryApproval =
  rap_approverSubjectId :: string
  rap_approvedAt :: string

datatype customer_data_access = Data_none | Data_limited_case_bound | Data_unbounded

record RecoveryAccessScope =
  ras_tenantId :: string
  ras_workspaceIds :: "string list"
  ras_customerDataAccess :: customer_data_access
  ras_persistentAccess :: bool

datatype recovery_role = Founder_recovery | Admin_recovery

record BreakGlassRecoveryRequest =
  bgr_id :: string
  bgr_recoveryIdentityId :: string
  bgr_normalIdentityId :: string
  bgr_requestedBy :: IdentitySubject
  bgr_recoveryRole :: recovery_role
  bgr_reason :: string
  bgr_ticketId :: string
  bgr_requestedAt :: string
  bgr_expiresAt :: string
  bgr_immutableAuditRequired :: bool
  bgr_mfaChallengeResult :: MFAChallengeResult
  bgr_accessScope :: RecoveryAccessScope
  bgr_minimumApprovals :: "int option"
  bgr_approvals :: "RecoveryApproval list option"

datatype recovery_decision = Recovery_ALLOW | Recovery_DENY | Recovery_REQUIRES_APPROVAL

record BreakGlassRecoveryResult =
  bgs_decision :: recovery_decision
  bgs_reason :: string

section \<open>Ranks and guards\<close>

definition assuranceRank :: "AuthenticatorAssuranceLevel \<Rightarrow> nat" where
  "assuranceRank l = (case l of Aal_1 \<Rightarrow> 1 | Aal_2 \<Rightarrow> 2 | Aal_3 \<Rightarrow> 3)"

definition assuranceMeets :: "AuthenticatorAssuranceLevel \<Rightarrow> AuthenticatorAssuranceLevel \<Rightarrow> bool" where
  "assuranceMeets actual required \<longleftrightarrow> assuranceRank actual \<ge> assuranceRank required"

definition riskRank :: "IdentityRiskLevel \<Rightarrow> nat" where
  "riskRank l = (case l of Irisk_low \<Rightarrow> 1 | Irisk_medium \<Rightarrow> 2 | Irisk_high \<Rightarrow> 3 | Irisk_critical \<Rightarrow> 4)"

definition higherRisk :: "IdentityRiskLevel \<Rightarrow> IdentityRiskLevel \<Rightarrow> IdentityRiskLevel" where
  "higherRisk left right = (if riskRank left \<ge> riskRank right then left else right)"

definition isShortLived :: "string \<Rightarrow> string \<Rightarrow> bool" where
  "isShortLived start till =
     (case (dateParse start, dateParse till) of
        (Some s, Some e) \<Rightarrow> e > s \<and> e - s \<le> 60 * 60 * 1000 | _ \<Rightarrow> False)"

definition MFA_REQUIRED_ACTIONS :: "IdentityActionClass list" where
  "MFA_REQUIRED_ACTIONS =
     [Action_admin, Action_recovery, Action_payment, Action_secret_management, Action_permission_change,
      Action_bulk_messaging, Action_public_publishing, Action_api_key_management, Action_plugin_installation,
      Action_mcp_tool_connection]"

definition STEP_UP_REQUIRED_ACTIONS :: "IdentityActionClass list" where
  "STEP_UP_REQUIRED_ACTIONS = [Action_permission_change, Action_recovery]"

definition requiresMFA :: "IdentityActionClass \<Rightarrow> bool" where
  "requiresMFA a \<longleftrightarrow> a \<in> set MFA_REQUIRED_ACTIONS"

definition requiresStepUp :: "IdentityActionClass \<Rightarrow> bool" where
  "requiresStepUp a \<longleftrightarrow> a \<in> set STEP_UP_REQUIRED_ACTIONS"

definition isVerifiedIdentityContext :: "VerifiedIdentityContext \<Rightarrow> bool" where
  "isVerifiedIdentityContext v = vic_brand v"

definition isMFAChallengeResult :: "MFAChallengeResult option \<Rightarrow> bool" where
  "isMFAChallengeResult v = (case v of None \<Rightarrow> False | Some m \<Rightarrow> mfr_brand m)"

definition isStepUpAuthenticationResult :: "StepUpAuthenticationResult option \<Rightarrow> bool" where
  "isStepUpAuthenticationResult v = (case v of None \<Rightarrow> False | Some m \<Rightarrow> sup_brand m)"

section \<open>Results of factors\<close>

definition createMFAChallengeResult :: "MFAChallengeResultInput \<Rightarrow> MFAChallengeResult option" where
  "createMFAChallengeResult i =
     (let c = mfi_challenge i; f = mfi_factor i in
      if mc_status c \<noteq> Challenge_succeeded \<or> \<not> mf_enabled f \<or> mc_subjectId c \<noteq> mf_subjectId f \<or>
         mc_factorId c \<noteq> mf_id f \<or> \<not> isFuture (mc_expiresAt c) (mfi_completedAt i) then None
      else if \<not> isFuture (mfi_expiresAt i) (mfi_completedAt i) then None
      else Some \<lparr> mfr_brand = True, mfr_challengeId = mc_id c, mfr_subjectId = mc_subjectId c,
                  mfr_sessionId = mc_sessionId c, mfr_factorId = mf_id f, mfr_actionClass = mc_actionClass c,
                  mfr_status = mfi_status i, mfr_assuranceLevel = mf_assuranceLevel f,
                  mfr_phishingResistant = mf_phishingResistant f, mfr_completedAt = mfi_completedAt i,
                  mfr_expiresAt = mfi_expiresAt i \<rparr>)"

definition createStepUpAuthenticationResult :: "StepUpAuthenticationResultInput \<Rightarrow> StepUpAuthenticationResult option" where
  "createStepUpAuthenticationResult i =
     (let mfa = sui_mfaChallengeResult i; r = sui_request i in
      if \<not> isMFAChallengeResult (Some mfa) \<or> mfr_status mfa \<noteq> Factor_success \<or> mfr_subjectId mfa \<noteq> sur_subjectId r \<or>
         mfr_sessionId mfa \<noteq> sur_sessionId r \<or> mfr_actionClass mfa \<noteq> sur_actionClass r \<or>
         \<not> assuranceMeets (mfr_assuranceLevel mfa) (sur_requiredAssuranceLevel r) \<or>
         \<not> isFuture (mfr_expiresAt mfa) (sui_completedAt i) \<or> \<not> isFuture (sui_expiresAt i) (sui_completedAt i) then None
      else Some \<lparr> sup_brand = True, sup_subjectId = sur_subjectId r, sup_sessionId = sur_sessionId r,
                  sup_actionClass = sur_actionClass r, sup_status = Factor_success,
                  sup_assuranceLevel = mfr_assuranceLevel mfa, sup_completedAt = sui_completedAt i,
                  sup_expiresAt = sui_expiresAt i \<rparr>)"

section \<open>The gate\<close>

definition checkNameFor :: "IdentityGateRejectionReason \<Rightarrow> IdentityGateCheckName" where
  "checkNameFor r =
     (case r of
        Rej_authentication_failed \<Rightarrow> Check_authentication
      | Rej_unknown_session \<Rightarrow> Check_session_validation | Rej_session_expired \<Rightarrow> Check_session_validation
      | Rej_session_revoked \<Rightarrow> Check_session_validation | Rej_session_invalid \<Rightarrow> Check_session_validation
      | Rej_session_hijack_suspected \<Rightarrow> Check_session_validation
      | Rej_mfa_required \<Rightarrow> Check_mfa_requirement | Rej_step_up_required \<Rightarrow> Check_step_up
      | Rej_identity_risk_denied \<Rightarrow> Check_identity_risk | Rej_context_binding_failed \<Rightarrow> Check_context_binding)"

definition allowCheck :: "IdentityGateCheckName \<Rightarrow> string \<Rightarrow> IdentityGateCheck" where
  "allowCheck name reason = \<lparr> igc_name = name, igc_passed = True, igc_decision = Identity_ALLOW, igc_reason = reason \<rparr>"

definition identity_deny ::
  "IdentityGateRequest \<Rightarrow> IdentityGateCheck list \<Rightarrow> IdentityGateRejectionReason \<Rightarrow> string \<Rightarrow> IdentityGateResult" where
  "identity_deny request checks rejectionReason reason =
     \<lparr> igs_decision = Identity_DENY, igs_verifiedIdentityContext = None, igs_rejectionReason = Some rejectionReason,
       igs_checks = checks @
         [\<lparr> igc_name = checkNameFor rejectionReason, igc_passed = False, igc_decision = Identity_DENY, igc_reason = reason \<rparr>,
          \<lparr> igc_name = Check_security_event, igc_passed = True, igc_decision = Identity_DENY,
            igc_reason = ''Security event emitted.'' \<rparr>],
       igs_securityEvents =
         [\<lparr> ise_name = ''identity.access_denied'', ise_reason = reason, ise_actionClass = iga_class (igr_action request),
            ise_subjectId = Some (is_id (idn_subject (igr_identity request))),
            ise_sessionId = map_option ss_id (igr_session request) \<rparr>] \<rparr>"

definition isValidMFAForRequest :: "MFAChallengeResult option \<Rightarrow> IdentityGateRequest \<Rightarrow> bool" where
  "isValidMFAForRequest v request =
     (case v of
        None \<Rightarrow> False
      | Some m \<Rightarrow>
          isMFAChallengeResult v \<and> mfr_status m = Factor_success \<and>
          mfr_subjectId m = is_id (idn_subject (igr_identity request)) \<and>
          Some (mfr_sessionId m) = map_option ss_id (igr_session request) \<and>
          mfr_actionClass m = iga_class (igr_action request) \<and>
          isFuture (mfr_expiresAt m) (igr_now request) \<and> assuranceMeets (mfr_assuranceLevel m) Aal_2)"

definition isValidStepUpForRequest :: "StepUpAuthenticationResult option \<Rightarrow> IdentityGateRequest \<Rightarrow> bool" where
  "isValidStepUpForRequest v request =
     (case v of
        None \<Rightarrow> False
      | Some m \<Rightarrow>
          isStepUpAuthenticationResult v \<and> sup_status m = Factor_success \<and>
          sup_subjectId m = is_id (idn_subject (igr_identity request)) \<and>
          Some (sup_sessionId m) = map_option ss_id (igr_session request) \<and>
          sup_actionClass m = iga_class (igr_action request) \<and>
          isFuture (sup_expiresAt m) (igr_now request) \<and> assuranceMeets (sup_assuranceLevel m) Aal_2)"

definition contextBindingsMatch :: "IdentityGateRequest \<Rightarrow> bool" where
  "contextBindingsMatch request =
     (let edge = ve_context (igr_edgeRequest request); c = igr_context request; subject = idn_subject (igr_identity request) in
      case igr_session request of
        None \<Rightarrow> False
      | Some s \<Rightarrow>
          tenant_id (ctx_tenant edge) = tenant_id (ctx_tenant c) \<and>
          ws_id (ctx_workspace edge) = ws_id (ctx_workspace c) \<and>
          actor_id (ctx_actor edge) = actor_id (ctx_actor c) \<and>
          auth_tenantId (ve_authentication (igr_edgeRequest request)) = tenant_id (ctx_tenant c) \<and>
          is_tenantId subject = tenant_id (ctx_tenant c) \<and>
          is_workspaceId subject = Some (ws_id (ctx_workspace c)) \<and>
          is_actorId subject = actor_id (ctx_actor c) \<and>
          ss_tenantId s = tenant_id (ctx_tenant c) \<and> ss_workspaceId s = ws_id (ctx_workspace c) \<and>
          ss_actorId s = actor_id (ctx_actor c))"

text \<open>The session checks, in their order: the reason and the message of the first that fails.\<close>

definition session_failure :: "IdentityGateRequest \<Rightarrow> (IdentityGateRejectionReason \<times> string) option" where
  "session_failure request =
     (case igr_session request of
        None \<Rightarrow> Some (Rej_unknown_session, ''Session is unknown.'')
      | Some s \<Rightarrow>
          if \<not> isNonEmptyString (ss_id s) then Some (Rej_unknown_session, ''Session is unknown.'')
          else if ss_state s = Session_revoked \<or> isNonEmptyOpt (ss_revokedAt s) then
            Some (Rej_session_revoked, ''Session is revoked.'')
          else if ss_state s = Session_expired \<or> \<not> isFuture (ss_expiresAt s) (igr_now request) then
            Some (Rej_session_expired, ''Session is expired.'')
          else if ss_state s \<noteq> Session_active then Some (Rej_session_invalid, ''Session state is invalid.'')
          else if ss_hijackSuspected s = Some True then
            Some (Rej_session_hijack_suspected, ''Session hijack is suspected.'')
          else if ss_subjectId s \<noteq> is_id (idn_subject (igr_identity request)) \<or>
                  ss_actorId s \<noteq> is_actorId (idn_subject (igr_identity request)) then
            Some (Rej_session_invalid, ''Session subject binding is invalid.'')
          else None)"

definition risk_failure :: "IdentityGateRequest \<Rightarrow> Session \<Rightarrow> (IdentityGateRejectionReason \<times> string) option" where
  "risk_failure request s =
     (if idn_riskLevel (igr_identity request) \<in> {Irisk_high, Irisk_critical} then
        Some (Rej_identity_risk_denied, ''Identity risk is too high.'')
      else if ss_riskLevel s \<in> {Irisk_high, Irisk_critical} then
        Some (Rej_identity_risk_denied, ''Session risk is too high.'')
      else None)"

definition identity_verified :: "IdentityGateRequest \<Rightarrow> Session \<Rightarrow> IdentityGateCheck list \<Rightarrow> IdentityGateResult" where
  "identity_verified request s checks =
     (let event = \<lparr> ise_name = ''identity.access_verified'', ise_reason = ''Identity context verified.'',
                    ise_actionClass = iga_class (igr_action request),
                    ise_subjectId = Some (is_id (idn_subject (igr_identity request))), ise_sessionId = Some (ss_id s) \<rparr>
      in \<lparr> igs_decision = Identity_ALLOW,
           igs_verifiedIdentityContext =
             Some \<lparr> vic_brand = True, vic_identity = igr_identity request, vic_subject = idn_subject (igr_identity request),
                    vic_session = s, vic_context = igr_context request, vic_action = igr_action request,
                    vic_assuranceLevel = ss_assuranceLevel s,
                    vic_riskLevel = higherRisk (idn_riskLevel (igr_identity request)) (ss_riskLevel s),
                    vic_securityEvents = [event] \<rparr>,
           igs_rejectionReason = None,
           igs_checks = checks @ [allowCheck Check_security_event ''Security event emitted.''],
           igs_securityEvents = [event] \<rparr>)"

definition authentication_bound :: "IdentityGateRequest \<Rightarrow> bool" where
  "authentication_bound request \<longleftrightarrow>
     isValidatedEdgeRequest (igr_edgeRequest request) \<and> idn_status (igr_identity request) = Identity_active \<and>
     auth_subjectId (ve_authentication (igr_edgeRequest request)) = is_id (idn_subject (igr_identity request)) \<and>
     auth_actorId (ve_authentication (igr_edgeRequest request)) = Some (is_actorId (idn_subject (igr_identity request)))"

definition evaluateIdentityGate :: "IdentityGateRequest \<Rightarrow> IdentityGateResult" where
  "evaluateIdentityGate request =
     (if \<not> authentication_bound request then
        identity_deny request [] Rej_authentication_failed ''Authentication boundary failed.''
      else
        (let c1 = [allowCheck Check_authentication ''Identity is bound to a validated edge request.''] in
         case (session_failure request, igr_session request) of
           (Some (reason, message), _) \<Rightarrow> identity_deny request c1 reason message
         | (None, None) \<Rightarrow> identity_deny request c1 Rej_unknown_session ''Session is unknown.''
         | (None, Some s) \<Rightarrow>
             (let c2 = c1 @ [allowCheck Check_session_validation ''Session is active and bound to the subject.''] in
              if requiresMFA (iga_class (igr_action request)) \<and>
                 \<not> isValidMFAForRequest (igr_mfaChallengeResult request) request then
                identity_deny request c2 Rej_mfa_required ''MFA is required for this action.''
              else
                (let c3 = c2 @ [allowCheck Check_mfa_requirement ''MFA policy did not deny the action.''] in
                 if requiresStepUp (iga_class (igr_action request)) \<and>
                    \<not> isValidStepUpForRequest (igr_stepUpAuthenticationResult request) request then
                   identity_deny request c3 Rej_step_up_required ''Step-up authentication is required.''
                 else
                   (let c4 = c3 @ [allowCheck Check_step_up ''Step-up policy did not deny the action.''] in
                    case risk_failure request s of
                      Some (reason, message) \<Rightarrow> identity_deny request c4 reason message
                    | None \<Rightarrow>
                        (let c5 = c4 @ [allowCheck Check_identity_risk ''Identity risk is within policy.''] in
                         if validateOSForgeContext (Some (raw_of (igr_context request))) \<noteq> Valid \<or>
                            \<not> contextBindingsMatch request then
                           identity_deny request c5 Rej_context_binding_failed ''Identity context binding failed.''
                         else
                           identity_verified request s
                             (c5 @ [allowCheck Check_context_binding ''Tenant, workspace and actor bindings match.''])))))))"

section \<open>Break-glass recovery\<close>

definition recovery_refusal :: "BreakGlassRecoveryRequest \<Rightarrow> string \<Rightarrow> string option" where
  "recovery_refusal r now =
     (let m = bgr_mfaChallengeResult r in
      if is_actorType (bgr_requestedBy r) \<noteq> HumanUser then Some ''Only human recovery identities may hold recovery roles.''
      else if \<not> isNonEmptyString (bgr_recoveryIdentityId r) \<or> bgr_recoveryIdentityId r = bgr_normalIdentityId r then
        Some ''Recovery identity must be separate from the normal account.''
      else if \<not> isNonEmptyString (bgr_reason r) then Some ''Recovery reason is required.''
      else if \<not> isNonEmptyString (bgr_ticketId r) then Some ''Recovery ticket or case id is required.''
      else if \<not> isFuture (bgr_expiresAt r) now then Some ''Recovery elevation must have automatic expiry.''
      else if \<not> isShortLived (bgr_requestedAt r) (bgr_expiresAt r) then Some ''Recovery elevation must be short-lived.''
      else if \<not> bgr_immutableAuditRequired r then Some ''Immutable audit is required for recovery.''
      else if \<not> isMFAChallengeResult (Some m) \<or> mfr_status m \<noteq> Factor_success \<or>
              mfr_subjectId m \<noteq> is_id (bgr_requestedBy r) \<or> mfr_assuranceLevel m \<noteq> Aal_3 \<or>
              \<not> mfr_phishingResistant m \<or> \<not> isFuture (mfr_expiresAt m) now then
        Some ''Phishing-resistant MFA is required for recovery.''
      else if ras_customerDataAccess (bgr_accessScope r) = Data_unbounded \<or> ras_persistentAccess (bgr_accessScope r) then
        Some ''Recovery cannot grant unbounded persistent customer data access.''
      else None)"

definition approval_count :: "RecoveryApproval list option \<Rightarrow> int" where
  "approval_count approvals =
     (case approvals of None \<Rightarrow> 0 | Some xs \<Rightarrow> int (length (filter (\<lambda>a. isNonEmptyString (rap_approverSubjectId a)) xs)))"

definition evaluateBreakGlassRecoveryRequest :: "BreakGlassRecoveryRequest \<Rightarrow> string \<Rightarrow> BreakGlassRecoveryResult" where
  "evaluateBreakGlassRecoveryRequest r now =
     (case recovery_refusal r now of
        Some reason \<Rightarrow> \<lparr> bgs_decision = Recovery_DENY, bgs_reason = reason \<rparr>
      | None \<Rightarrow>
          (let minimum = (case bgr_minimumApprovals r of None \<Rightarrow> 0 | Some n \<Rightarrow> n) in
           if approval_count (bgr_approvals r) < minimum then
             \<lparr> bgs_decision = Recovery_REQUIRES_APPROVAL, bgs_reason = ''Additional recovery approval is required.'' \<rparr>
           else \<lparr> bgs_decision = Recovery_ALLOW, bgs_reason = ''Recovery contract requirements are satisfied.'' \<rparr>))"

section \<open>What the gate admits\<close>

definition live_session :: "IdentityGateRequest \<Rightarrow> Session \<Rightarrow> bool" where
  "live_session q s \<longleftrightarrow>
     isNonEmptyString (ss_id s) \<and> ss_state s = Session_active \<and> \<not> isNonEmptyOpt (ss_revokedAt s) \<and>
     isFuture (ss_expiresAt s) (igr_now q) \<and> ss_hijackSuspected s \<noteq> Some True \<and>
     ss_subjectId s = is_id (idn_subject (igr_identity q)) \<and> ss_actorId s = is_actorId (idn_subject (igr_identity q))"

definition factors_presented :: "IdentityGateRequest \<Rightarrow> bool" where
  "factors_presented q \<longleftrightarrow>
     (requiresMFA (iga_class (igr_action q)) \<longrightarrow> isValidMFAForRequest (igr_mfaChallengeResult q) q) \<and>
     (requiresStepUp (iga_class (igr_action q)) \<longrightarrow> isValidStepUpForRequest (igr_stepUpAuthenticationResult q) q)"

definition risk_acceptable :: "IdentityGateRequest \<Rightarrow> Session \<Rightarrow> bool" where
  "risk_acceptable q s \<longleftrightarrow> riskRank (higherRisk (idn_riskLevel (igr_identity q)) (ss_riskLevel s)) \<le> 2"

text \<open>The order of the checks.\<close>

definition check_order :: "IdentityGateCheckName list" where
  "check_order =
     [Check_authentication, Check_session_validation, Check_mfa_requirement, Check_step_up, Check_identity_risk,
      Check_context_binding, Check_security_event]"

lemma session_failure_None:
  "session_failure q = None \<longleftrightarrow> (\<exists>s. igr_session q = Some s \<and> live_session q s)"
  by (cases "igr_session q") (auto simp: session_failure_def live_session_def)

lemma session_failure_session: "session_failure q = None \<Longrightarrow> igr_session q \<noteq> None"
  by (auto simp: session_failure_None)

lemma risk_failure_None: "risk_failure q s = None \<longleftrightarrow> risk_acceptable q s"
  by (cases "idn_riskLevel (igr_identity q)"; cases "ss_riskLevel s") (simp_all add: risk_failure_def risk_acceptable_def higherRisk_def riskRank_def)

lemma session_failure_check: "session_failure q = Some (x, m) \<Longrightarrow> checkNameFor x = Check_session_validation"
  by (auto simp: session_failure_def checkNameFor_def split: option.splits if_splits)

lemma risk_failure_check: "risk_failure q s = Some (x, m) \<Longrightarrow> checkNameFor x = Check_identity_risk"
  by (auto simp: risk_failure_def checkNameFor_def split: if_splits)

lemma checkNameFor_simps [simp]:
  "checkNameFor Rej_authentication_failed = Check_authentication" "checkNameFor Rej_mfa_required = Check_mfa_requirement"
  "checkNameFor Rej_step_up_required = Check_step_up" "checkNameFor Rej_context_binding_failed = Check_context_binding"
  by (simp_all add: checkNameFor_def)

lemma allowCheck_name [simp]: "igc_name (allowCheck n r) = n"
  by (simp add: allowCheck_def)

lemma identity_deny_simps [simp]:
  "igs_decision (identity_deny q cs x m) = Identity_DENY" "igs_verifiedIdentityContext (identity_deny q cs x m) = None"
  "igs_rejectionReason (identity_deny q cs x m) = Some x" "length (igs_securityEvents (identity_deny q cs x m)) = Suc 0"
  "map igc_name (igs_checks (identity_deny q cs x m)) = map igc_name cs @ [checkNameFor x, Check_security_event]"
  by (simp_all add: identity_deny_def)

definition denied_in_order :: "IdentityGateRequest \<Rightarrow> IdentityGateResult \<Rightarrow> bool" where
  "denied_in_order q r \<longleftrightarrow>
     (\<exists>cs x m. r = identity_deny q cs x m \<and> map igc_name cs @ [checkNameFor x] = take (Suc (length cs)) check_order)"

lemma denied_in_orderI:
  "map igc_name cs @ [checkNameFor x] = take (Suc (length cs)) check_order \<Longrightarrow> denied_in_order q (identity_deny q cs x m)"
  by (auto simp: denied_in_order_def)

lemma identity_gate_cases:
  obtains s where "igr_session q = Some s" "authentication_bound q" "live_session q s" "factors_presented q"
      "risk_acceptable q s" "valid_context (igr_context q)" "contextBindingsMatch q"
      "igs_decision (evaluateIdentityGate q) = Identity_ALLOW" "map igc_name (igs_checks (evaluateIdentityGate q)) = check_order"
      "\<exists>cs. evaluateIdentityGate q = identity_verified q s cs"
  | cs x m where "evaluateIdentityGate q = identity_deny q cs x m"
      "map igc_name cs @ [checkNameFor x] = take (Suc (length cs)) check_order"
      "\<not> (\<exists>s. igr_session q = Some s \<and> authentication_bound q \<and> live_session q s \<and> factors_presented q \<and>
             risk_acceptable q s \<and> valid_context (igr_context q) \<and> contextBindingsMatch q)"
proof -
  note defs = evaluateIdentityGate_def Let_def
  consider "\<not> authentication_bound q" | x m where "authentication_bound q" "session_failure q = Some (x, m)"
    | s where "authentication_bound q" "session_failure q = None" "igr_session q = Some s"
    using session_failure_session [of q] by (cases "session_failure q") auto
  then show ?thesis
  proof cases
    case 1
    then show ?thesis by (intro that(2) [of "[]" Rej_authentication_failed]) (auto simp: defs check_order_def)
  next
    case (2 x m)
    then show ?thesis using session_failure_None [of q]
      by (intro that(2) [of "[allowCheck Check_authentication ''Identity is bound to a validated edge request.'']" x m])
        (auto simp: defs check_order_def session_failure_check)
  next
    case (3 s)
    then have live: "live_session q s" using session_failure_None [of q] by auto
    show ?thesis
    proof (cases "factors_presented q \<and> risk_acceptable q s \<and> valid_context (igr_context q) \<and> contextBindingsMatch q")
      case True
      then have "risk_failure q s = None" by (simp add: risk_failure_None)
      then show ?thesis using 3 True live
        by (intro that(1) [of s]) (auto simp: defs factors_presented_def valid_context_def identity_verified_def check_order_def)
    next
      case False
      have no: "\<not> (\<exists>s. igr_session q = Some s \<and> authentication_bound q \<and> live_session q s \<and> factors_presented q \<and>
             risk_acceptable q s \<and> valid_context (igr_context q) \<and> contextBindingsMatch q)"
        using False 3 by auto
      have "denied_in_order q (evaluateIdentityGate q)"
      proof (cases "risk_failure q s")
        case None
        then have "risk_acceptable q s" by (simp add: risk_failure_None)
        then show ?thesis using None False 3
          by (auto simp: defs factors_presented_def valid_context_def check_order_def intro!: denied_in_orderI)
      next
        case (Some a)
        then show ?thesis using 3 risk_failure_check [of q s "fst a" "snd a"]
          by (cases a) (auto simp: defs check_order_def intro!: denied_in_orderI)
      qed
      then show ?thesis using no that(2) unfolding denied_in_order_def by blast
    qed
  qed
qed


text \<open>
  The chain of factors: a step-up result can only be built from a branded MFA result of the same subject, session
  and action class that is at least as strong as required and still valid, and an MFA result only from a
  succeeded, unexpired challenge and the enabled factor of its subject that it names. The status of the result
  is the caller's: a succeeded challenge may carry a failure.
\<close>

lemma step_up_from_mfa:
  "createStepUpAuthenticationResult i = Some r \<Longrightarrow>
     (let m = sui_mfaChallengeResult i in
      mfr_brand m \<and> mfr_status m = Factor_success \<and> sup_subjectId r = mfr_subjectId m \<and> sup_sessionId r = mfr_sessionId m \<and>
      sup_actionClass r = mfr_actionClass m \<and> sup_assuranceLevel r = mfr_assuranceLevel m \<and>
      isFuture (mfr_expiresAt m) (sup_completedAt r))"
  by (auto simp: createStepUpAuthenticationResult_def isMFAChallengeResult_def Let_def split: if_splits)

text \<open>A step-up result outlives the factor it was made from: its own expiry is not bounded by the factor's.\<close>

lemma step_up_outlives_factor:
  "createStepUpAuthenticationResult i = Some r \<Longrightarrow> isFuture late (sui_completedAt i) \<Longrightarrow>
   map_option sup_expiresAt (createStepUpAuthenticationResult (i\<lparr> sui_expiresAt := late \<rparr>)) = Some late"
  by (auto simp: createStepUpAuthenticationResult_def Let_def split: if_splits)

lemma mfa_from_challenge:
  "createMFAChallengeResult i = Some r \<longleftrightarrow>
     mc_status (mfi_challenge i) = Challenge_succeeded \<and> mf_enabled (mfi_factor i) \<and>
     mc_subjectId (mfi_challenge i) = mf_subjectId (mfi_factor i) \<and> mc_factorId (mfi_challenge i) = mf_id (mfi_factor i) \<and>
     isFuture (mc_expiresAt (mfi_challenge i)) (mfi_completedAt i) \<and> isFuture (mfi_expiresAt i) (mfi_completedAt i) \<and>
     r = \<lparr> mfr_brand = True, mfr_challengeId = mc_id (mfi_challenge i), mfr_subjectId = mc_subjectId (mfi_challenge i),
           mfr_sessionId = mc_sessionId (mfi_challenge i), mfr_factorId = mf_id (mfi_factor i),
           mfr_actionClass = mc_actionClass (mfi_challenge i), mfr_status = mfi_status i,
           mfr_assuranceLevel = mf_assuranceLevel (mfi_factor i), mfr_phishingResistant = mf_phishingResistant (mfi_factor i),
           mfr_completedAt = mfi_completedAt i, mfr_expiresAt = mfi_expiresAt i \<rparr>"
  by (auto simp: createMFAChallengeResult_def Let_def)

section \<open>What recovery grants\<close>

lemma recovery_refusal_None:
  "recovery_refusal r now = None \<longleftrightarrow>
     is_actorType (bgr_requestedBy r) = HumanUser \<and> isNonEmptyString (bgr_recoveryIdentityId r) \<and>
     bgr_recoveryIdentityId r \<noteq> bgr_normalIdentityId r \<and> isNonEmptyString (bgr_reason r) \<and> isNonEmptyString (bgr_ticketId r) \<and>
     isFuture (bgr_expiresAt r) now \<and> isShortLived (bgr_requestedAt r) (bgr_expiresAt r) \<and> bgr_immutableAuditRequired r \<and>
     mfr_brand (bgr_mfaChallengeResult r) \<and> mfr_status (bgr_mfaChallengeResult r) = Factor_success \<and>
     mfr_subjectId (bgr_mfaChallengeResult r) = is_id (bgr_requestedBy r) \<and>
     mfr_assuranceLevel (bgr_mfaChallengeResult r) = Aal_3 \<and> mfr_phishingResistant (bgr_mfaChallengeResult r) \<and>
     isFuture (mfr_expiresAt (bgr_mfaChallengeResult r)) now \<and>
     ras_customerDataAccess (bgr_accessScope r) \<noteq> Data_unbounded \<and> \<not> ras_persistentAccess (bgr_accessScope r)"
  by (auto simp: recovery_refusal_def isMFAChallengeResult_def Let_def)

lemma recovery_allow_iff:
  "bgs_decision (evaluateBreakGlassRecoveryRequest r now) = Recovery_ALLOW \<longleftrightarrow>
     recovery_refusal r now = None \<and> (case bgr_minimumApprovals r of None \<Rightarrow> 0 | Some n \<Rightarrow> n) \<le> approval_count (bgr_approvals r)"
  by (auto simp: evaluateBreakGlassRecoveryRequest_def Let_def split: option.splits)

text \<open>
  The elevation is bounded: at most an hour after it was requested, so the time of the request bounds it. The
  request time is not compared with the clock: it may lie in the future.
\<close>

lemma recovery_bounded:
  "bgs_decision (evaluateBreakGlassRecoveryRequest r now) = Recovery_ALLOW \<Longrightarrow>
   \<exists>s e n. dateParse (bgr_requestedAt r) = Some s \<and> dateParse (bgr_expiresAt r) = Some e \<and> dateParse now = Some n \<and>
           n < e \<and> s < e \<and> e \<le> s + 3600000"
  by (auto simp: recovery_allow_iff recovery_refusal_None isShortLived_def isFuture_def split: option.splits)

text \<open>
  Approvals are counted, not compared: the requester may approve their own request, and twice. The MFA result is
  not compared with the action class either: one made for another action serves.
\<close>

lemma recovery_self_approval:
  "recovery_refusal r now = None \<Longrightarrow> isNonEmptyString (is_id (bgr_requestedBy r)) \<Longrightarrow>
   bgs_decision (evaluateBreakGlassRecoveryRequest
     (r\<lparr> bgr_minimumApprovals := Some (int n),
         bgr_approvals := Some (replicate n \<lparr> rap_approverSubjectId = is_id (bgr_requestedBy r), rap_approvedAt = at \<rparr>),
         bgr_mfaChallengeResult := (bgr_mfaChallengeResult r)\<lparr> mfr_actionClass := Action_standard \<rparr> \<rparr>) now) = Recovery_ALLOW"
  unfolding recovery_allow_iff recovery_refusal_None by (simp add: approval_count_def)

end
