(* ===== verification/Ingress.thy ===== *)
theory Ingress
  imports Identity Pipeline_Properties
begin

text \<open>
  The way of a request into the core: the edge gate, the identity gate on its result, and the first two stages
  of the pipeline on both results. The proofs a pipeline request carries (\<open>edge_proof\<close>, \<open>identity_proof\<close>) are the
  fields it reads of the branded objects.
\<close>

definition edge_proof_of :: "Edge_Security.ValidatedEdgeRequest \<Rightarrow> edge_proof option" where
  "edge_proof_of v =
     (if isValidatedEdgeRequest v then
        Some \<lparr> ve_contextTenantId = tenant_id (ctx_tenant (ve_context v)),
               ve_contextWorkspaceId = ws_id (ctx_workspace (ve_context v)),
               ve_authenticationTenantId = auth_tenantId (ve_authentication v) \<rparr>
      else None)"

definition assurance_text :: "AuthenticatorAssuranceLevel \<Rightarrow> string" where
  "assurance_text l = (case l of Aal_1 \<Rightarrow> ''aal1'' | Aal_2 \<Rightarrow> ''aal2'' | Aal_3 \<Rightarrow> ''aal3'')"

definition identity_proof_of :: "Identity.VerifiedIdentityContext \<Rightarrow> identity_proof option" where
  "identity_proof_of v =
     (if isVerifiedIdentityContext v then
        Some \<lparr> vi_subjectActorId = is_actorId (vic_subject v), vi_subjectTenantId = is_tenantId (vic_subject v),
               vi_subjectWorkspaceId = is_workspaceId (vic_subject v),
               vi_assuranceLevel = assurance_text (vic_assuranceLevel v) \<rparr>
      else None)"

lemma identity_context_bound:
  assumes "igs_verifiedIdentityContext (evaluateIdentityGate q) = Some v"
  shows "isValidatedEdgeRequest (igr_edgeRequest q) \<and> isVerifiedIdentityContext v \<and> vic_context v = igr_context q \<and>
         vic_subject v = idn_subject (igr_identity q) \<and> contextBindingsMatch q"
proof (cases q rule: identity_gate_cases)
  case (1 s)
  then show ?thesis using assms by (auto simp: identity_verified_def isVerifiedIdentityContext_def authentication_bound_def Let_def)
next
  case (2 cs x m)
  then show ?thesis using assms by simp
qed

text \<open>The bindings the pipeline compares again are those the identity gate has established.\<close>

lemma bindings_agree_after_gates:
  assumes "igs_verifiedIdentityContext (evaluateIdentityGate q) = Some v"
  shows "\<exists>e i. edge_proof_of (igr_edgeRequest q) = Some e \<and> identity_proof_of v = Some i \<and>
               bindings_agree e i (vic_context v)"
  using identity_context_bound [OF assms]
  by (auto simp: edge_proof_of_def identity_proof_of_def bindings_agree_def contextBindingsMatch_def Let_def split: option.splits)

text \<open>
  C14. The three boundaries fit together: when the identity gate admits a request on the result of the edge gate,
  a pipeline request that carries the two results and the verified context passes the edge and the identity
  stage, without a decision being drawn, wherever the pipeline's stores are fit for its mode; a request
  that names another context of a different tenant, workspace or actor is halted there.
\<close>

theorem admitted_ingress_passes_identity_stages:
  assumes "igs_verifiedIdentityContext (evaluateIdentityGate q) = Some v"
    and "pq_edgeRequest p = edge_proof_of (igr_edgeRequest q)" "pq_verifiedIdentity p = identity_proof_of v"
    and "\<not> (d_mode D = Production \<and> (prs_testOnly (d_replayStore D) \<or> ais_testOnly (d_auditSink D)))"
  shows "(\<exists>i. identity_stages C D p now n = (Inr i, n) \<and> identity_proof_of v = Some i) \<longleftrightarrow>
           tenant_id (ctx_tenant (pq_osforgeContext p)) = tenant_id (ctx_tenant (vic_context v)) \<and>
           ws_id (ctx_workspace (pq_osforgeContext p)) = ws_id (ctx_workspace (vic_context v)) \<and>
           actor_id (ctx_actor (pq_osforgeContext p)) = actor_id (ctx_actor (vic_context v))"
proof -
  obtain e i where ei: "edge_proof_of (igr_edgeRequest q) = Some e" "identity_proof_of v = Some i" "bindings_agree e i (vic_context v)"
    using bindings_agree_after_gates [OF assms(1)] by blast
  have "(\<exists>i. identity_stages C D p now n = (Inr i, n) \<and> identity_proof_of v = Some i) \<longleftrightarrow> bindings_agree e i (pq_osforgeContext p)"
    using assms ei by (auto simp: identity_stages_def halt_with_def Let_def split: prod.splits)
  then show ?thesis using ei(3) unfolding bindings_agree_def by auto
qed

definition demo_edge :: Edge_Security.ValidatedEdgeRequest where
  "demo_edge = \<lparr> ve_brand = True,
     ve_request = \<lparr> ne_method = Http_GET, ne_path = ''/a/b'', ne_headers = [(''accept'', ''x'')], ne_query = [],
                    ne_bodySizeBytes = 0, ne_actionClass = Endpoint_admin \<rparr>,
     ve_authentication = \<lparr> auth_subjectId = ''s1'', auth_tenantId = ''t1'', auth_actorId = Some ''a1'',
                           auth_mfaSatisfied = True, auth_authenticatedAt = ''now'' \<rparr>,
     ve_context = demo_context \<rparr>"

definition demo_subject :: IdentitySubject where
  "demo_subject = \<lparr> is_id = ''s1'', is_actorId = ''a1'', is_actorType = HumanUser, is_tenantId = ''t1'',
                    is_organizationId = None, is_workspaceId = Some ''w1'' \<rparr>"

definition demo_session :: Session where
  "demo_session = \<lparr> ss_id = ''ses1'', ss_subjectId = ''s1'', ss_actorId = ''a1'', ss_tenantId = ''t1'', ss_organizationId = None,
                    ss_workspaceId = ''w1'', ss_state = Session_active, ss_authenticatedAt = ''2026-01-01T00:00:00.000Z'',
                    ss_expiresAt = ''2026-01-01T01:00:00.000Z'', ss_revokedAt = None, ss_assuranceLevel = Aal_2,
                    ss_riskLevel = Irisk_low, ss_hijackSuspected = None \<rparr>"

definition demo_identity_request :: IdentityGateRequest where
  "demo_identity_request =
     \<lparr> igr_edgeRequest = demo_edge, igr_context = demo_context,
       igr_identity = \<lparr> idn_id = ''i1'', idn_providerId = ''p1'', idn_subject = demo_subject, idn_status = Identity_active,
                        idn_riskLevel = Irisk_low, idn_createdAt = ''2026-01-01T00:00:00.000Z'' \<rparr>,
       igr_session = Some demo_session, igr_action = \<lparr> iga_class = Action_standard, iga_name = ''read'' \<rparr>,
       igr_mfaChallengeResult = None, igr_stepUpAuthenticationResult = None, igr_now = ''2026-01-01T00:30:00.000Z'' \<rparr>"

text \<open>The edge gate really yields this request, and the identity gate admits it.\<close>

lemma demo_edge_admitted: "er_validatedRequest (fst (evaluateEdgeSecurityGate (demo_gate ''ALLOW'') ())) = Some demo_edge"
  by (simp add: evaluateEdgeSecurityGate_def demo_gate_def demo_raw_def createRawEdgeRequest_def normalizeRequest_def
      demo_limits_def nonEmptyText_def isNonEmptyString_def js_trim_def is_ws_def demo_method Let_def demo_edge_def
      isHttpMethod_def isEndpointActionClass_def endpoint_text_def normalizePath_def stripTrailingSlashes_def
      safe_body_size_def normalizeStringMap_def demo_header byteLength_def query_or_empty_def
      edge_binding_def isAuthenticationContext_def validateOSForgeContext_def demo_context_def raw_of_def
      field_violations_def boundary_violations_def push_if_def isNonEmptyOpt_def)

lemma demo_identity_admitted:
  "\<exists>v. igs_verifiedIdentityContext (evaluateIdentityGate demo_identity_request) = Some v"
proof -
  have f: "isFuture ''2026-01-01T01:00:00.000Z'' ''2026-01-01T00:30:00.000Z''" by code_simp
  have c: "valid_context demo_context"
    by (simp add: valid_context_iff demo_context_def isNonEmptyString_def js_trim_def is_ws_def)
  show ?thesis using f c
    by (simp add: evaluateIdentityGate_def demo_identity_request_def authentication_bound_def isValidatedEdgeRequest_def demo_edge_def
        demo_subject_def session_failure_def demo_session_def isNonEmptyString_def js_trim_def is_ws_def isNonEmptyOpt_def
        requiresMFA_def MFA_REQUIRED_ACTIONS_def requiresStepUp_def STEP_UP_REQUIRED_ACTIONS_def risk_failure_def
        contextBindingsMatch_def demo_context_def valid_context_def identity_verified_def Let_def)
qed

theorem admitted_ingress_passes_identity_stages_witness:
  "\<exists>v i. igs_verifiedIdentityContext (evaluateIdentityGate demo_identity_request) = Some v \<and>
     identity_stages demo_crypto demo_deps
       (demo_request\<lparr> pq_edgeRequest := edge_proof_of demo_edge, pq_verifiedIdentity := identity_proof_of v,
                      pq_osforgeContext := vic_context v \<rparr>) ''now'' 7 = (Inr i, 7)"
proof -
  obtain v where v: "igs_verifiedIdentityContext (evaluateIdentityGate demo_identity_request) = Some v"
    using demo_identity_admitted by blast
  show ?thesis
    using v admitted_ingress_passes_identity_stages [of demo_identity_request v
        "demo_request\<lparr> pq_edgeRequest := edge_proof_of demo_edge, pq_verifiedIdentity := identity_proof_of v,
                      pq_osforgeContext := vic_context v \<rparr>" demo_deps demo_crypto "''now''" 7]
    by (auto simp: demo_identity_request_def demo_deps_def)
qed

end
