(* ===== verification/Trust_Principals.thy ===== *)
theory Trust_Principals
  imports Prelude Js_Date
begin

text \<open>
  \<^verbatim>\<open>identity-trust/src\<close>, first part: scopes, assurance, decisions (\<^verbatim>\<open>types.ts\<close>), principals, identities,
  evidence, trust, delegation, impersonation and the identities of agents, workloads and devices. Every
  decision is a record of a status with its reason; the texts for people are left out. For each decision the
  theory states when it is granted, and what its caller gains from the grant.
\<close>

section \<open>types.ts, internal/crypto.ts\<close>

record IdentityScope =
  isc_tenantId :: string
  isc_workspaceId :: string
  isc_organizationId :: "string option"

definition identity_sameScope :: "IdentityScope \<Rightarrow> IdentityScope \<Rightarrow> bool" where
  "identity_sameScope a b \<longleftrightarrow> isc_tenantId a = isc_tenantId b \<and> isc_workspaceId a = isc_workspaceId b"

datatype AssuranceLevel = A0_UNVERIFIED | A1_BASIC | A2_VERIFIED | A3_STRONG | A4_HARDWARE_BOUND

definition ASSURANCE_RANK :: "AssuranceLevel \<Rightarrow> nat" where
  "ASSURANCE_RANK l = (case l of A0_UNVERIFIED \<Rightarrow> 0 | A1_BASIC \<Rightarrow> 1 | A2_VERIFIED \<Rightarrow> 2 | A3_STRONG \<Rightarrow> 3 | A4_HARDWARE_BOUND \<Rightarrow> 4)"

definition assurance_meets :: "AssuranceLevel \<Rightarrow> AssuranceLevel \<Rightarrow> bool" where
  "assurance_meets actual required \<longleftrightarrow> ASSURANCE_RANK actual \<ge> ASSURANCE_RANK required"

datatype IdentityTrustLevel =
  Itrust_UNTRUSTED | Itrust_UNKNOWN | Itrust_LOW | Itrust_MEDIUM | Itrust_HIGH | Itrust_HARDWARE_ATTESTED | Itrust_HUMAN_VERIFIED

record 'st IdentityDecision =
  itd_decision :: 'st
  itd_reasonCode :: string
  itd_evaluatedAt :: string
  itd_expiresAt :: "string option"
  itd_nextRequiredAction :: string
  itd_evidenceReferences :: "string list"
  itd_issuerReferences :: "string list"

text \<open>\<^verbatim>\<open>decide\<close>: an empty expiry is no expiry.\<close>

definition identity_decide ::
  "string \<Rightarrow> string list \<Rightarrow> string list \<Rightarrow> 'st \<Rightarrow> string \<Rightarrow> string \<Rightarrow> string option \<Rightarrow> 'st IdentityDecision" where
  "identity_decide now evidence issuers decision reasonCode nextAction expiresAt =
     \<lparr> itd_decision = decision, itd_reasonCode = reasonCode, itd_evaluatedAt = now,
       itd_expiresAt = (if expiresAt = Some [] then None else expiresAt), itd_nextRequiredAction = nextAction,
       itd_evidenceReferences = evidence, itd_issuerReferences = issuers \<rparr>"

text \<open>The time between two instants; \<^term>\<open>None\<close> is infinity, for a text that is no date.\<close>

definition elapsedMs :: "string \<Rightarrow> string \<Rightarrow> int option" where
  "elapsedMs fromIso nowIso =
     (case (dateParse fromIso, dateParse nowIso) of (Some f, Some n) \<Rightarrow> Some (n - f) | _ \<Rightarrow> None)"

definition elapsed_exceeds :: "string \<Rightarrow> string \<Rightarrow> int \<Rightarrow> bool" where
  "elapsed_exceeds fromIso nowIso limit = (case elapsedMs fromIso nowIso of None \<Rightarrow> True | Some d \<Rightarrow> d > limit)"

lemma identity_decide_simps [simp]:
  "itd_decision (identity_decide now ev iss d r a e) = d" "itd_reasonCode (identity_decide now ev iss d r a e) = r"
  "itd_nextRequiredAction (identity_decide now ev iss d r a e) = a" "itd_evaluatedAt (identity_decide now ev iss d r a e) = now"
  by (simp_all add: identity_decide_def)

section \<open>principal.ts\<close>

datatype PrincipalType =
  Principal_HUMAN | Principal_AGENT | Principal_DIGITAL_EMPLOYEE | Principal_SERVICE | Principal_DEVICE | Principal_RUNTIME
  | Principal_ORGANIZATION | Principal_TENANT | Principal_WORKSPACE | Principal_PLUGIN | Principal_MCP_SERVER
  | Principal_CONNECTOR | Principal_CAPABILITY | Principal_EDGE_NODE | Principal_ROBOT | Principal_SYSTEM

datatype PrincipalStatus = Pstat_active | Pstat_suspended | Pstat_revoked | Pstat_deleted

record PrincipalBase =
  pb_principalId :: string
  pb_principalType :: string
  pb_scope :: IdentityScope
  pb_displayName :: string
  pb_status :: PrincipalStatus
  pb_assuranceLevel :: AssuranceLevel
  pb_createdAt :: string
  pb_expiresAt :: "string option"
  pb_metadataDigest :: string
  pb_provenance :: string
  pb_version :: nat

definition PRINCIPAL_TYPES :: "(string \<times> PrincipalType) list" where
  "PRINCIPAL_TYPES =
     [(''HUMAN'', Principal_HUMAN), (''AGENT'', Principal_AGENT), (''DIGITAL_EMPLOYEE'', Principal_DIGITAL_EMPLOYEE),
      (''SERVICE'', Principal_SERVICE), (''DEVICE'', Principal_DEVICE), (''RUNTIME'', Principal_RUNTIME),
      (''ORGANIZATION'', Principal_ORGANIZATION), (''TENANT'', Principal_TENANT), (''WORKSPACE'', Principal_WORKSPACE),
      (''PLUGIN'', Principal_PLUGIN), (''MCP_SERVER'', Principal_MCP_SERVER), (''CONNECTOR'', Principal_CONNECTOR),
      (''CAPABILITY'', Principal_CAPABILITY), (''EDGE_NODE'', Principal_EDGE_NODE), (''ROBOT'', Principal_ROBOT),
      (''SYSTEM'', Principal_SYSTEM)]"

definition isKnownPrincipalType :: "string \<Rightarrow> PrincipalType option" where
  "isKnownPrincipalType v = map_of PRINCIPAL_TYPES v"

definition AI_TYPES :: "PrincipalType list" where
  "AI_TYPES = [Principal_AGENT, Principal_DIGITAL_EMPLOYEE, Principal_ROBOT]"

definition isHumanMasquerade :: "PrincipalType \<Rightarrow> bool option \<Rightarrow> bool" where
  "isHumanMasquerade t claimsHuman \<longleftrightarrow> claimsHuman = Some True \<and> t \<in> set AI_TYPES"

datatype PrincipalResolutionStatus =
  Pres_RESOLVED | Pres_UNKNOWN_PRINCIPAL | Pres_UNKNOWN_TYPE | Pres_REVOKED | Pres_DELETED | Pres_EXPIRED
  | Pres_TENANT_MISMATCH | Pres_STATUS_INVALID | Pres_HUMAN_MASQUERADE

record VerifiedPrincipal =
  vp_principal :: PrincipalBase
  vp_resolvedAt :: string

record ResolvePrincipalInput =
  rpi_principal :: "PrincipalBase option"
  rpi_contextScope :: IdentityScope
  rpi_now :: string
  rpi_claimsHuman :: "bool option"

definition resolvePrincipal ::
  "ResolvePrincipalInput \<Rightarrow> PrincipalResolutionStatus IdentityDecision \<times> VerifiedPrincipal option" where
  "resolvePrincipal i =
     (let reject = (\<lambda>d code. (identity_decide (rpi_now i) [] [] d code ''halt'' None, None)) in
      case rpi_principal i of
        None \<Rightarrow> reject Pres_UNKNOWN_PRINCIPAL ''unknown_principal''
      | Some p \<Rightarrow>
          if \<not> isNonEmptyString (pb_principalId p) then reject Pres_UNKNOWN_PRINCIPAL ''unknown_principal''
          else
            (case isKnownPrincipalType (pb_principalType p) of
               None \<Rightarrow> reject Pres_UNKNOWN_TYPE ''unknown_principal_type''
             | Some t \<Rightarrow>
                 if pb_status p = Pstat_deleted then reject Pres_DELETED ''principal_deleted''
                 else if pb_status p = Pstat_revoked then reject Pres_REVOKED ''principal_revoked''
                 else if pb_status p \<noteq> Pstat_active then reject Pres_STATUS_INVALID ''principal_status_invalid''
                 else if isNonEmptyOpt (pb_expiresAt p) \<and> \<not> isFuture (the (pb_expiresAt p)) (rpi_now i) then
                   reject Pres_EXPIRED ''principal_expired''
                 else if \<not> identity_sameScope (pb_scope p) (rpi_contextScope i) then
                   reject Pres_TENANT_MISMATCH ''principal_tenant_mismatch''
                 else if isHumanMasquerade t (rpi_claimsHuman i) then
                   reject Pres_HUMAN_MASQUERADE ''ai_cannot_present_as_human''
                 else
                   (identity_decide (rpi_now i) [] [] Pres_RESOLVED ''resolved'' ''continue'' None,
                    Some \<lparr> vp_principal = p, vp_resolvedAt = rpi_now i \<rparr>)))"

definition assertImmutableTenantBinding :: "PrincipalBase \<Rightarrow> PrincipalBase \<Rightarrow> unit result" where
  "assertImmutableTenantBinding original updated =
     (if \<not> identity_sameScope (pb_scope original) (pb_scope updated) then
        Inl (JsError ''Principal tenant/workspace binding is immutable.'')
      else if pb_principalType original \<noteq> pb_principalType updated then Inl (JsError ''Principal type is immutable.'')
      else Inr ())"

section \<open>identity.ts\<close>

datatype IdentityType =
  Idt_human | Idt_machine | Idt_service | Idt_device | Idt_agent | Idt_organization | Idt_external | Idt_federated
  | Idt_ephemeral | Idt_workload

datatype TrustIdentityStatus = Idstat_unverified | Idstat_verified | Idstat_suspended | Idstat_revoked | Idstat_deleted

datatype IdentityVerificationState = Verif_NONE | Verif_PENDING | Verif_VERIFIED | Verif_FAILED

record TrustIdentity =
  tid_identityId :: string
  tid_type :: IdentityType
  tid_scope :: IdentityScope
  tid_status :: TrustIdentityStatus
  tid_displayName :: string
  tid_attributesDigest :: string
  tid_verificationState :: IdentityVerificationState
  tid_version :: nat
  tid_createdAt :: string

record IdentityAlias =
  ial_alias :: string
  ial_identityId :: string
  ial_scope :: IdentityScope

datatype IdentityLifecycleState =
  Ilife_created | Ilife_verified | Ilife_active | Ilife_suspended | Ilife_revoked | Ilife_deleted

definition IDENTITY_TRANSITIONS :: "IdentityLifecycleState \<Rightarrow> IdentityLifecycleState list" where
  "IDENTITY_TRANSITIONS s =
     (case s of
        Ilife_created \<Rightarrow> [Ilife_verified, Ilife_revoked, Ilife_deleted]
      | Ilife_verified \<Rightarrow> [Ilife_active, Ilife_suspended, Ilife_revoked]
      | Ilife_active \<Rightarrow> [Ilife_suspended, Ilife_revoked, Ilife_deleted]
      | Ilife_suspended \<Rightarrow> [Ilife_active, Ilife_revoked, Ilife_deleted]
      | Ilife_revoked \<Rightarrow> [Ilife_deleted]
      | Ilife_deleted \<Rightarrow> [])"

definition canIdentityTransition :: "IdentityLifecycleState \<Rightarrow> IdentityLifecycleState \<Rightarrow> bool" where
  "canIdentityTransition s t \<longleftrightarrow> t \<in> set (IDENTITY_TRANSITIONS s)"

definition registerAlias :: "IdentityAlias list \<Rightarrow> IdentityAlias \<Rightarrow> bool" where
  "registerAlias existing a =
     (\<not> list_ex (\<lambda>b. ial_alias b = ial_alias a \<and> identity_sameScope (ial_scope b) (ial_scope a) \<and>
                     ial_identityId b \<noteq> ial_identityId a) existing)"

record HumanApproval =
  hap_approvalId :: string
  hap_approverIsHuman :: bool

text \<open>The check of an approval that several decisions repeat.\<close>

definition human_approved :: "HumanApproval option \<Rightarrow> bool" where
  "human_approved a = (case a of None \<Rightarrow> False | Some h \<Rightarrow> hap_approverIsHuman h \<and> isNonEmptyString (hap_approvalId h))"

datatype IdentityMergeStatus = Merge_MERGED | Merge_REJECTED

definition evaluateIdentityMerge ::
  "TrustIdentity \<Rightarrow> TrustIdentity \<Rightarrow> HumanApproval option \<Rightarrow> string \<Rightarrow> IdentityMergeStatus IdentityDecision" where
  "evaluateIdentityMerge source target approval now =
     (let d = identity_decide now [tid_identityId source, tid_identityId target] [] in
      if \<not> identity_sameScope (tid_scope source) (tid_scope target) then d Merge_REJECTED ''cross_tenant_merge'' ''halt'' None
      else if tid_type target = Idt_human \<and> tid_type source = Idt_agent then
        d Merge_REJECTED ''human_replaced_by_agent'' ''halt'' None
      else if \<not> human_approved approval then d Merge_REJECTED ''merge_requires_human_approval'' ''obtain_approval'' None
      else d Merge_MERGED ''merged'' ''continue'' None)"

section \<open>evidence.ts\<close>

record IdentityEvidence =
  iev_evidenceId :: string
  iev_type :: string
  iev_issuerId :: string
  iev_subjectRef :: string
  iev_subjectScope :: IdentityScope
  iev_digest :: string
  iev_notBefore :: string
  iev_notAfter :: string
  iev_revoked :: bool

datatype EvidenceDecisionStatus =
  Evid_VERIFIED | Evid_EXPIRED | Evid_REVOKED | Evid_ISSUER_UNTRUSTED | Evid_MALFORMED | Evid_TENANT_MISMATCH

record VerifyEvidenceInput =
  vei_evidence :: "IdentityEvidence option"
  vei_trustedIssuers :: "string set"
  vei_contextScope :: IdentityScope
  vei_now :: string

definition verifyEvidence ::
  "VerifyEvidenceInput \<Rightarrow> EvidenceDecisionStatus IdentityDecision \<times> (IdentityEvidence \<times> string) option" where
  "verifyEvidence i =
     (case vei_evidence i of
        None \<Rightarrow> (identity_decide (vei_now i) [] [] Evid_MALFORMED ''evidence_malformed'' ''halt'' None, None)
      | Some e \<Rightarrow>
          (let d = identity_decide (vei_now i) [iev_evidenceId e] [iev_issuerId e];
               reject = (\<lambda>s code. (d s code ''halt'' None, None)) in
           if \<not> isNonEmptyString (iev_evidenceId e) \<or> \<not> isNonEmptyString (iev_digest e) then
             reject Evid_MALFORMED ''evidence_malformed''
           else if iev_issuerId e \<notin> vei_trustedIssuers i then reject Evid_ISSUER_UNTRUSTED ''issuer_untrusted''
           else if iev_revoked e then reject Evid_REVOKED ''evidence_revoked''
           else if \<not> isFuture (iev_notAfter e) (vei_now i) \<or> isFuture (iev_notBefore e) (vei_now i) then
             reject Evid_EXPIRED ''evidence_expired''
           else if \<not> identity_sameScope (iev_subjectScope e) (vei_contextScope i) then
             reject Evid_TENANT_MISMATCH ''evidence_tenant_mismatch''
           else (d Evid_VERIFIED ''verified'' ''continue'' (Some (iev_notAfter e)), Some (e, vei_now i))))"

section \<open>trust.ts\<close>

record TrustAnchor =
  tra_anchorId :: string
  tra_issuerId :: string
  tra_revoked :: bool

record TrustEvidenceRef =
  ter_evidenceId :: string
  ter_verified :: bool
  ter_issuerId :: string

record TrustChainLink =
  tcl_issuerId :: string
  tcl_anchorId :: string

record TrustContext =
  tcx_scope :: IdentityScope
  tcx_principalId :: string
  tcx_assuranceLevel :: AssuranceLevel
  tcx_region :: "string option"

datatype TrustDecisionStatus =
  Trd_TRUSTED | Trd_STEP_UP_REQUIRED | Trd_REJECTED | Trd_REVOKED | Trd_EVIDENCE_MISSING | Trd_ISSUER_UNTRUSTED
  | Trd_TENANT_MISMATCH | Trd_CONTEXT_MISMATCH

record TrustEvaluationInput =
  tei_context :: TrustContext
  tei_evidence :: "TrustEvidenceRef list"
  tei_chain :: "TrustChainLink list"
  tei_anchors :: "TrustAnchor list"
  tei_expectedScope :: IdentityScope
  tei_expectedRegion :: "string option"
  tei_requiredAssurance :: AssuranceLevel
  tei_evidenceIssuedAt :: "string option"
  tei_maxEvidenceAgeMs :: "int option"
  tei_now :: string

text \<open>The map of anchors: a later one replaces an earlier one of the same id.\<close>

definition anchorById :: "TrustAnchor list \<Rightarrow> string \<Rightarrow> TrustAnchor option" where
  "anchorById anchors k = map_of (rev (map (\<lambda>a. (tra_anchorId a, a)) anchors)) k"

fun chain_failure :: "TrustAnchor list \<Rightarrow> TrustChainLink list \<Rightarrow> TrustDecisionStatus option" where
  "chain_failure anchors [] = None"
| "chain_failure anchors (l # ls) =
     (case anchorById anchors (tcl_anchorId l) of
        None \<Rightarrow> Some Trd_ISSUER_UNTRUSTED
      | Some a \<Rightarrow>
          if tra_issuerId a \<noteq> tcl_issuerId l then Some Trd_ISSUER_UNTRUSTED
          else if tra_revoked a then Some Trd_REVOKED
          else chain_failure anchors ls)"

fun chain_cycle :: "string set \<Rightarrow> TrustChainLink list \<Rightarrow> bool" where
  "chain_cycle seen [] = False"
| "chain_cycle seen (l # ls) = (tcl_issuerId l \<in> seen \<or> chain_cycle (insert (tcl_issuerId l) seen) ls)"

definition evaluateTrust :: "TrustEvaluationInput \<Rightarrow> TrustDecisionStatus IdentityDecision" where
  "evaluateTrust i =
     (let d = identity_decide (tei_now i) (map ter_evidenceId (tei_evidence i)) (map tcl_issuerId (tei_chain i)) in
      if filter ter_verified (tei_evidence i) = [] then d Trd_EVIDENCE_MISSING ''trust_evidence_missing'' ''halt'' None
      else
        (case chain_failure (tei_anchors i) (tei_chain i) of
           Some s \<Rightarrow>
             d s (if s = Trd_REVOKED then ''trust_anchor_revoked'' else ''trust_issuer_untrusted'') ''halt'' None
         | None \<Rightarrow>
             if chain_cycle {} (tei_chain i) then d Trd_REJECTED ''trust_chain_cycle'' ''halt'' None
             else if \<not> identity_sameScope (tcx_scope (tei_context i)) (tei_expectedScope i) then
               d Trd_TENANT_MISMATCH ''trust_tenant_mismatch'' ''halt'' None
             else if isNonEmptyOpt (tei_expectedRegion i) \<and> tcx_region (tei_context i) \<noteq> None \<and>
                     tcx_region (tei_context i) \<noteq> tei_expectedRegion i then
               d Trd_CONTEXT_MISMATCH ''trust_region_mismatch'' ''halt'' None
             else if isNonEmptyOpt (tei_evidenceIssuedAt i) \<and> tei_maxEvidenceAgeMs i \<noteq> None \<and>
                     elapsed_exceeds (the (tei_evidenceIssuedAt i)) (tei_now i) (the (tei_maxEvidenceAgeMs i)) then
               d Trd_STEP_UP_REQUIRED ''trust_evidence_stale'' ''step_up'' None
             else if \<not> assurance_meets (tcx_assuranceLevel (tei_context i)) (tei_requiredAssurance i) then
               d Trd_STEP_UP_REQUIRED ''assurance_below_required'' ''step_up'' None
             else d Trd_TRUSTED ''trusted'' ''continue'' None))"

definition assurance_order :: "AssuranceLevel list" where
  "assurance_order = [A0_UNVERIFIED, A1_BASIC, A2_VERIFIED, A3_STRONG, A4_HARDWARE_BOUND]"

definition decayAssurance :: "AssuranceLevel \<Rightarrow> int \<Rightarrow> int \<Rightarrow> AssuranceLevel" where
  "decayAssurance level ageMs halfLifeMs =
     (if halfLifeMs \<le> 0 \<or> ageMs < halfLifeMs then level
      else assurance_order ! nat (max 0 (int (ASSURANCE_RANK level) - ageMs div halfLifeMs)))"

definition assertNoAssuranceSelfEscalation :: "AssuranceLevel \<Rightarrow> AssuranceLevel \<Rightarrow> unit result" where
  "assertNoAssuranceSelfEscalation current requested =
     (if \<not> assurance_meets current requested \<and> requested \<noteq> current then
        Inl (JsError ''Assurance self-escalation is denied; a fresh verification is required.'')
      else Inr ())"

definition trustLevelFor :: "AssuranceLevel \<Rightarrow> IdentityTrustLevel" where
  "trustLevelFor a =
     (case a of A4_HARDWARE_BOUND \<Rightarrow> Itrust_HARDWARE_ATTESTED | A3_STRONG \<Rightarrow> Itrust_HIGH | A2_VERIFIED \<Rightarrow> Itrust_MEDIUM
      | A1_BASIC \<Rightarrow> Itrust_LOW | A0_UNVERIFIED \<Rightarrow> Itrust_UNKNOWN)"

section \<open>delegation.ts\<close>

record Delegation =
  del_delegationId :: string
  del_delegatorPrincipalId :: string
  del_delegatePrincipalId :: string
  del_scope :: IdentityScope
  del_delegatorScopeClaims :: "string list"
  del_requestedScopeClaims :: "string list"
  del_chain :: "string list"
  del_maxDepth :: int
  del_critical :: bool
  del_expiresAt :: string
  del_revoked :: bool
  del_delegatorIsAI :: bool

datatype DelegationDecisionStatus =
  Del_GRANTED | Del_SCOPE_ESCALATION | Del_CROSS_TENANT | Del_DEPTH_EXCEEDED | Del_CYCLE | Del_EXPIRED
  | Del_APPROVAL_REQUIRED | Del_REVOKED | Del_AGENT_UNLIMITED_DENIED

definition evaluateDelegation ::
  "Delegation \<Rightarrow> IdentityScope \<Rightarrow> HumanApproval option \<Rightarrow> string \<Rightarrow> DelegationDecisionStatus IdentityDecision" where
  "evaluateDelegation d contextScope approval now =
     (let out = identity_decide now [del_delegationId d] [] in
      if del_revoked d then out Del_REVOKED ''delegation_revoked'' ''halt'' None
      else if \<not> identity_sameScope (del_scope d) contextScope then out Del_CROSS_TENANT ''delegation_cross_tenant'' ''halt'' None
      else if int (length (del_chain d)) > max 1 (del_maxDepth d) then
        out Del_DEPTH_EXCEEDED ''delegation_depth_exceeded'' ''halt'' None
      else if card (set (del_chain d)) \<noteq> length (del_chain d) \<or> del_delegatePrincipalId d \<in> set (del_chain d) then
        out Del_CYCLE ''delegation_cycle'' ''halt'' None
      else if list_ex (\<lambda>c. c \<notin> set (del_delegatorScopeClaims d)) (del_requestedScopeClaims d) then
        out Del_SCOPE_ESCALATION ''delegation_scope_escalation'' ''halt'' None
      else if del_delegatorIsAI d \<and> del_requestedScopeClaims d = [] then
        out Del_AGENT_UNLIMITED_DENIED ''agent_unbounded_delegation_denied'' ''halt'' None
      else if \<not> isFuture (del_expiresAt d) now then out Del_EXPIRED ''delegation_expired'' ''halt'' None
      else if del_critical d \<and> \<not> human_approved approval then
        out Del_APPROVAL_REQUIRED ''critical_delegation_requires_approval'' ''obtain_approval'' None
      else out Del_GRANTED ''granted'' ''continue'' (Some (del_expiresAt d)))"

record ImpersonationRequest =
  imp_requestId :: string
  imp_actorPrincipalId :: string
  imp_targetPrincipalId :: string
  imp_scope :: IdentityScope
  imp_targetScope :: IdentityScope
  imp_scopeClaims :: "string list"
  imp_visible :: bool
  imp_actorIsAI :: bool
  imp_sensitiveDataAccess :: bool
  imp_expiresAt :: string

record ImpersonationApproval = HumanApproval +
  iap_sensitiveDataApproved :: "bool option"

datatype ImpersonationDecisionStatus =
  Imp_APPROVED | Imp_AI_DENIED | Imp_HIDDEN_DENIED | Imp_APPROVAL_REQUIRED | Imp_CROSS_TENANT | Imp_SCOPE_TOO_BROAD
  | Imp_SENSITIVE_APPROVAL_REQUIRED | Imp_EXPIRED

definition evaluateImpersonation ::
  "ImpersonationRequest \<Rightarrow> ImpersonationApproval option \<Rightarrow> string \<Rightarrow> ImpersonationDecisionStatus IdentityDecision" where
  "evaluateImpersonation r approval now =
     (let out = identity_decide now [imp_requestId r] [] in
      if imp_actorIsAI r then out Imp_AI_DENIED ''ai_cannot_impersonate'' ''halt'' None
      else if \<not> imp_visible r then out Imp_HIDDEN_DENIED ''hidden_impersonation_denied'' ''halt'' None
      else if \<not> identity_sameScope (imp_targetScope r) (imp_scope r) then
        out Imp_CROSS_TENANT ''impersonation_cross_tenant'' ''halt'' None
      else if imp_scopeClaims r = [] then out Imp_SCOPE_TOO_BROAD ''impersonation_scope_too_broad'' ''halt'' None
      else if \<not> human_approved (map_option HumanApproval.truncate approval) then
        out Imp_APPROVAL_REQUIRED ''impersonation_requires_human_approval'' ''obtain_approval'' None
      else if imp_sensitiveDataAccess r \<and> iap_sensitiveDataApproved (the approval) \<noteq> Some True then
        out Imp_SENSITIVE_APPROVAL_REQUIRED ''sensitive_data_needs_separate_approval'' ''obtain_approval'' None
      else if \<not> isFuture (imp_expiresAt r) now then out Imp_EXPIRED ''impersonation_expired'' ''halt'' None
      else out Imp_APPROVED ''approved'' ''continue'' (Some (imp_expiresAt r)))"

section \<open>actors.ts\<close>

record AgentIdentity =
  agi_agentPrincipalId :: string
  agi_ownerPrincipalId :: string
  agi_supervisorPrincipalId :: "string option"
  agi_scope :: IdentityScope
  agi_purpose :: string
  agi_scopeClaims :: "string list"
  agi_assuranceLevel :: AssuranceLevel
  agi_modelIdentityRef :: "string option"
  agi_privileged :: bool
  agi_revoked :: bool

datatype AgentDecisionStatus =
  Agd_VALID | Agd_OWNERLESS | Agd_NO_PURPOSE | Agd_PRIVILEGED_DENIED | Agd_CROSS_TENANT | Agd_REVOKED

definition evaluateAgentIdentity :: "AgentIdentity \<Rightarrow> IdentityScope \<Rightarrow> string \<Rightarrow> AgentDecisionStatus IdentityDecision" where
  "evaluateAgentIdentity a contextScope now =
     (let out = (\<lambda>s code. identity_decide now [agi_agentPrincipalId a] [] s code ''halt'' None) in
      if agi_revoked a then out Agd_REVOKED ''agent_revoked''
      else if \<not> isNonEmptyString (agi_ownerPrincipalId a) then out Agd_OWNERLESS ''ownerless_agent_denied''
      else if \<not> isNonEmptyString (agi_purpose a) then out Agd_NO_PURPOSE ''agent_purpose_required''
      else if agi_privileged a then out Agd_PRIVILEGED_DENIED ''digital_employee_not_privileged''
      else if \<not> identity_sameScope (agi_scope a) contextScope then out Agd_CROSS_TENANT ''agent_cross_tenant''
      else identity_decide now [agi_agentPrincipalId a] [] Agd_VALID ''valid'' ''continue'' None)"

record agent_change =
  agc_ownerPrincipalId :: "string option"
  agc_scopeClaims :: "string list option"
  agc_assuranceLevel :: "AssuranceLevel option"
  agc_privileged :: "bool option"

definition assertAgentNoSelfEscalation :: "AgentIdentity \<Rightarrow> agent_change \<Rightarrow> unit result" where
  "assertAgentNoSelfEscalation current requested =
     (if agc_ownerPrincipalId requested \<noteq> None \<and> agc_ownerPrincipalId requested \<noteq> Some (agi_ownerPrincipalId current) then
        Inl (JsError ''An agent cannot change its owner.'')
      else if agc_privileged requested = Some True \<and> \<not> agi_privileged current then
        Inl (JsError ''An agent cannot escalate to a privileged role.'')
      else
        (case agc_scopeClaims requested of
           Some cs \<Rightarrow>
             if list_ex (\<lambda>c. c \<notin> set (agi_scopeClaims current)) cs then Inl (JsError ''An agent cannot widen its own scope.'')
             else Inr ()
         | None \<Rightarrow> Inr ()))"

record WorkloadIdentity =
  wid_workloadPrincipalId :: string
  wid_scope :: IdentityScope
  wid_instanceId :: string
  wid_attested :: bool
  wid_artifactProvenanceRef :: "string option"
  wid_alive :: bool

datatype WorkloadDecisionStatus =
  Wld_VALID | Wld_NOT_INSTANCE_BOUND | Wld_ATTESTATION_MISSING | Wld_TERMINATED | Wld_CROSS_TENANT

definition evaluateWorkloadIdentity ::
  "WorkloadIdentity \<Rightarrow> IdentityScope \<Rightarrow> bool \<Rightarrow> string \<Rightarrow> WorkloadDecisionStatus IdentityDecision" where
  "evaluateWorkloadIdentity w contextScope requireAttestation now =
     (let out = (\<lambda>s code. identity_decide now [wid_workloadPrincipalId w] [] s code ''halt'' None) in
      if \<not> isNonEmptyString (wid_instanceId w) then out Wld_NOT_INSTANCE_BOUND ''workload_not_instance_bound''
      else if \<not> wid_alive w then out Wld_TERMINATED ''workload_terminated''
      else if requireAttestation \<and> \<not> wid_attested w then out Wld_ATTESTATION_MISSING ''workload_attestation_missing''
      else if \<not> identity_sameScope (wid_scope w) contextScope then out Wld_CROSS_TENANT ''workload_cross_tenant''
      else identity_decide now [wid_workloadPrincipalId w] [] Wld_VALID ''valid'' ''continue'' None)"

datatype DeviceTrustState = Device_trusted | Device_unknown | Device_compromised | Device_rooted | Device_revoked

record DeviceIdentity =
  dvi_devicePrincipalId :: string
  dvi_ownerPrincipalId :: string
  dvi_scope :: IdentityScope
  dvi_trustState :: DeviceTrustState
  dvi_attested :: bool

datatype DeviceDecisionStatus = Dvd_TRUSTED | Dvd_STEP_UP_REQUIRED | Dvd_COMPROMISED | Dvd_REVOKED | Dvd_CROSS_TENANT

definition evaluateDeviceIdentity :: "DeviceIdentity \<Rightarrow> IdentityScope \<Rightarrow> string \<Rightarrow> DeviceDecisionStatus IdentityDecision" where
  "evaluateDeviceIdentity d contextScope now =
     (let out = identity_decide now [dvi_devicePrincipalId d] [] in
      if \<not> identity_sameScope (dvi_scope d) contextScope then out Dvd_CROSS_TENANT ''device_cross_tenant'' ''halt'' None
      else if dvi_trustState d = Device_revoked then out Dvd_REVOKED ''device_revoked'' ''halt'' None
      else if dvi_trustState d = Device_compromised \<or> dvi_trustState d = Device_rooted then
        out Dvd_COMPROMISED ''device_compromised'' ''halt'' None
      else if dvi_trustState d = Device_unknown \<or> \<not> dvi_attested d then
        out Dvd_STEP_UP_REQUIRED ''device_step_up'' ''step_up'' None
      else out Dvd_TRUSTED ''trusted'' ''continue'' None)"

section \<open>When a decision is granted\<close>

lemma human_approved_iff:
  "human_approved a \<longleftrightarrow> (\<exists>h. a = Some h \<and> hap_approverIsHuman h \<and> isNonEmptyString (hap_approvalId h))"
  by (auto simp: human_approved_def split: option.splits)

lemma principal_resolved_iff:
  "snd (resolvePrincipal i) = Some v \<longleftrightarrow>
     (\<exists>p t. rpi_principal i = Some p \<and> isNonEmptyString (pb_principalId p) \<and> isKnownPrincipalType (pb_principalType p) = Some t \<and>
        pb_status p = Pstat_active \<and> (isNonEmptyOpt (pb_expiresAt p) \<longrightarrow> isFuture (the (pb_expiresAt p)) (rpi_now i)) \<and>
        identity_sameScope (pb_scope p) (rpi_contextScope i) \<and> \<not> isHumanMasquerade t (rpi_claimsHuman i) \<and>
        v = \<lparr> vp_principal = p, vp_resolvedAt = rpi_now i \<rparr>)"
  by (auto simp: resolvePrincipal_def Let_def split: option.splits if_splits)

lemma principal_verified_iff_resolved: "itd_decision (fst (resolvePrincipal i)) = Pres_RESOLVED \<longleftrightarrow> snd (resolvePrincipal i) \<noteq> None"
  by (auto simp: resolvePrincipal_def Let_def split: option.split if_split)

text \<open>Only agents, digital employees and robots are barred from claiming to be human: a service or a system may.\<close>

lemma service_may_claim_human: "\<not> isHumanMasquerade Principal_SERVICE (Some True) \<and> \<not> isHumanMasquerade Principal_SYSTEM (Some True)"
  by (simp add: isHumanMasquerade_def AI_TYPES_def)

text \<open>The life of an identity: nothing leaves deletion, and revocation leads to deletion only.\<close>

inductive identity_life :: "IdentityLifecycleState \<Rightarrow> IdentityLifecycleState \<Rightarrow> bool" where
  life_here: "identity_life s s"
| life_step: "identity_life s t \<Longrightarrow> canIdentityTransition t u \<Longrightarrow> identity_life s u"

lemma revocation_final: "identity_life Ilife_revoked s \<Longrightarrow> s \<in> {Ilife_revoked, Ilife_deleted}"
  by (induction Ilife_revoked s rule: identity_life.induct) (auto simp: canIdentityTransition_def IDENTITY_TRANSITIONS_def)

lemma deletion_final: "identity_life Ilife_deleted s \<Longrightarrow> s = Ilife_deleted"
  by (induction Ilife_deleted s rule: identity_life.induct) (auto simp: canIdentityTransition_def IDENTITY_TRANSITIONS_def)

text \<open>Registering only what \<^verbatim>\<open>registerAlias\<close> admits keeps an alias of a scope with one identity.\<close>

definition aliases_unique :: "IdentityAlias list \<Rightarrow> bool" where
  "aliases_unique xs \<longleftrightarrow>
     (\<forall>a \<in> set xs. \<forall>b \<in> set xs. ial_alias a = ial_alias b \<and> identity_sameScope (ial_scope a) (ial_scope b) \<longrightarrow>
        ial_identityId a = ial_identityId b)"

lemma registerAlias_keeps_unique:
  assumes u: "aliases_unique xs" and r: "registerAlias xs a"
  shows "aliases_unique (xs @ [a])"
  unfolding aliases_unique_def
proof (intro ballI impI)
  fix x y
  assume xy: "x \<in> set (xs @ [a])" "y \<in> set (xs @ [a])"
    and same: "ial_alias x = ial_alias y \<and> identity_sameScope (ial_scope x) (ial_scope y)"
  have new: "b \<in> set xs \<Longrightarrow> ial_alias b = ial_alias a \<Longrightarrow> identity_sameScope (ial_scope b) (ial_scope a) \<Longrightarrow>
      ial_identityId b = ial_identityId a" for b
    using r unfolding registerAlias_def list_ex_iff by blast
  have flip: "identity_sameScope (ial_scope y) (ial_scope x)" using same by (simp add: identity_sameScope_def)
  consider "x \<in> set xs" "y \<in> set xs" | "x \<in> set xs" "y = a" | "x = a" "y \<in> set xs" | "x = a" "y = a" using xy by auto
  then show "ial_identityId x = ial_identityId y"
  proof cases
    case 1
    then show ?thesis using u same unfolding aliases_unique_def by blast
  next
    case 2
    then show ?thesis using new same by blast
  next
    case 3
    then show ?thesis using new [of y] same flip by simp
  qed simp
qed

lemma merge_granted_iff:
  "itd_decision (evaluateIdentityMerge s t a now) = Merge_MERGED \<longleftrightarrow>
     identity_sameScope (tid_scope s) (tid_scope t) \<and> \<not> (tid_type t = Idt_human \<and> tid_type s = Idt_agent) \<and> human_approved a"
  by (simp add: evaluateIdentityMerge_def Let_def)

lemma evidence_verified_iff:
  "snd (verifyEvidence i) = Some (e, at) \<longleftrightarrow>
     vei_evidence i = Some e \<and> at = vei_now i \<and> isNonEmptyString (iev_evidenceId e) \<and> isNonEmptyString (iev_digest e) \<and>
     iev_issuerId e \<in> vei_trustedIssuers i \<and> \<not> iev_revoked e \<and> isFuture (iev_notAfter e) (vei_now i) \<and>
     \<not> isFuture (iev_notBefore e) (vei_now i) \<and> identity_sameScope (iev_subjectScope e) (vei_contextScope i)"
  by (auto simp: verifyEvidence_def Let_def split: option.splits if_splits)

text \<open>The start of the validity is not read as a date that must exist: a text that is no date passes.\<close>

lemma evidence_without_start_accepted:
  "snd (verifyEvidence i) = Some (e, at) \<Longrightarrow> dateParse bad = None \<Longrightarrow>
   snd (verifyEvidence (i\<lparr> vei_evidence := Some (e\<lparr> iev_notBefore := bad \<rparr>) \<rparr>)) = Some (e\<lparr> iev_notBefore := bad \<rparr>, at)"
  unfolding evidence_verified_iff by (simp add: isFuture_def)

lemma chain_failure_None:
  "chain_failure anchors ls = None \<longleftrightarrow>
     (\<forall>l \<in> set ls. \<exists>a. anchorById anchors (tcl_anchorId l) = Some a \<and> tra_issuerId a = tcl_issuerId l \<and> \<not> tra_revoked a)"
  by (induction ls) (auto split: option.splits)

lemma chain_cycle_iff: "chain_cycle seen ls \<longleftrightarrow> \<not> distinct (map tcl_issuerId ls) \<or> tcl_issuerId ` set ls \<inter> seen \<noteq> {}"
  by (induction ls arbitrary: seen) auto

lemma chain_failure_status: "chain_failure anchors ls = Some s \<Longrightarrow> s \<in> {Trd_ISSUER_UNTRUSTED, Trd_REVOKED}"
  by (induction ls) (auto split: option.splits if_splits)

lemma trust_granted_iff:
  "itd_decision (evaluateTrust i) = Trd_TRUSTED \<longleftrightarrow>
     (\<exists>e \<in> set (tei_evidence i). ter_verified e) \<and> distinct (map tcl_issuerId (tei_chain i)) \<and>
     (\<forall>l \<in> set (tei_chain i). \<exists>a. anchorById (tei_anchors i) (tcl_anchorId l) = Some a \<and>
        tra_issuerId a = tcl_issuerId l \<and> \<not> tra_revoked a) \<and>
     identity_sameScope (tcx_scope (tei_context i)) (tei_expectedScope i) \<and>
     \<not> (isNonEmptyOpt (tei_expectedRegion i) \<and> tcx_region (tei_context i) \<noteq> None \<and> tcx_region (tei_context i) \<noteq> tei_expectedRegion i) \<and>
     \<not> (isNonEmptyOpt (tei_evidenceIssuedAt i) \<and> tei_maxEvidenceAgeMs i \<noteq> None \<and>
        elapsed_exceeds (the (tei_evidenceIssuedAt i)) (tei_now i) (the (tei_maxEvidenceAgeMs i))) \<and>
     assurance_meets (tcx_assuranceLevel (tei_context i)) (tei_requiredAssurance i)"
proof (cases "chain_failure (tei_anchors i) (tei_chain i)")
  case None
  then show ?thesis
    unfolding chain_failure_None [symmetric] evaluateTrust_def Let_def
    by (auto simp: filter_empty_conv chain_cycle_iff None)
next
  case (Some s)
  then show ?thesis using chain_failure_status [OF Some]
    unfolding chain_failure_None [symmetric] evaluateTrust_def Let_def by auto
qed

text \<open>A chain without links passes: verified evidence alone is trusted, whoever issued it, without any anchor.\<close>

lemma trusted_without_anchor:
  "ter_verified e \<Longrightarrow> identity_sameScope (tcx_scope c) sc \<Longrightarrow> assurance_meets (tcx_assuranceLevel c) req \<Longrightarrow>
   itd_decision (evaluateTrust \<lparr> tei_context = c, tei_evidence = [e], tei_chain = [], tei_anchors = [], tei_expectedScope = sc,
     tei_expectedRegion = None, tei_requiredAssurance = req, tei_evidenceIssuedAt = None, tei_maxEvidenceAgeMs = None,
     tei_now = now \<rparr>) = Trd_TRUSTED"
  by (simp add: trust_granted_iff isNonEmptyOpt_def)

section \<open>Assurance decays\<close>

lemma rank_order: "n < 5 \<Longrightarrow> ASSURANCE_RANK (assurance_order ! n) = n"
  by (cases n; (cases "n - 1")?; auto simp: assurance_order_def ASSURANCE_RANK_def nth_Cons' less_Suc_eq numeral_eq_Suc)

lemma rank_bound: "ASSURANCE_RANK l < 5"
  by (cases l) (simp_all add: ASSURANCE_RANK_def)

lemma decay_rank:
  "0 < h \<Longrightarrow> 0 \<le> age \<Longrightarrow> int (ASSURANCE_RANK (decayAssurance l age h)) = max 0 (int (ASSURANCE_RANK l) - age div h)"
proof -
  assume h: "0 < h" and age: "0 \<le> age"
  show ?thesis
  proof (cases "age < h")
    case True
    then show ?thesis using h age by (simp add: decayAssurance_def div_pos_pos_trivial)
  next
    case False
    have "nat (max 0 (int (ASSURANCE_RANK l) - age div h)) < 5"
      using rank_bound [of l] age h pos_imp_zdiv_nonneg_iff [OF h, of age] by linarith
    from rank_order [OF this] show ?thesis using False h by (simp add: decayAssurance_def)
  qed
qed

text \<open>Decay never raises the level, goes on with age, and reaches the bottom after four half-lives.\<close>

lemma decay_antitone:
  assumes "0 < h" "0 \<le> a" "a \<le> b"
  shows "assurance_meets (decayAssurance l a h) (decayAssurance l b h) \<and> assurance_meets l (decayAssurance l b h) \<and>
         (4 * h \<le> b \<longrightarrow> decayAssurance l b h = A0_UNVERIFIED)"
proof -
  have d: "0 \<le> a div h" "a div h \<le> b div h" using assms pos_imp_zdiv_nonneg_iff [of h a] by (auto intro: zdiv_mono1)
  have zero: "ASSURANCE_RANK x = 0 \<longleftrightarrow> x = A0_UNVERIFIED" for x by (cases x) (simp_all add: ASSURANCE_RANK_def)
  have "4 * h \<le> b \<Longrightarrow> 4 \<le> b div h" using assms(1) zdiv_mono1 [of "4 * h" b h] by simp
  then show ?thesis
    using d decay_rank [of h a l] decay_rank [of h b l] rank_bound [of l] assms zero [of "decayAssurance l b h"]
    unfolding assurance_meets_def by fastforce
qed

section \<open>Delegation\<close>

lemma delegation_granted_iff:
  "itd_decision (evaluateDelegation d sc a now) = Del_GRANTED \<longleftrightarrow>
     \<not> del_revoked d \<and> identity_sameScope (del_scope d) sc \<and> int (length (del_chain d)) \<le> max 1 (del_maxDepth d) \<and>
     distinct (del_chain d) \<and> del_delegatePrincipalId d \<notin> set (del_chain d) \<and>
     set (del_requestedScopeClaims d) \<subseteq> set (del_delegatorScopeClaims d) \<and>
     \<not> (del_delegatorIsAI d \<and> del_requestedScopeClaims d = []) \<and> isFuture (del_expiresAt d) now \<and>
     \<not> (del_critical d \<and> \<not> human_approved a)"
  by (auto simp: evaluateDelegation_def Let_def list_ex_iff card_distinct distinct_card)

text \<open>
  A sequence of delegations, each granted in its turn to hand on what the one before gave: the claims held at the
  end.
\<close>

fun delegate_along ::
  "IdentityScope \<Rightarrow> string list \<Rightarrow> (Delegation \<times> HumanApproval option \<times> string) list \<Rightarrow> string list option" where
  "delegate_along sc claims [] = Some claims"
| "delegate_along sc claims ((d, a, now) # ds) =
     (if itd_decision (evaluateDelegation d sc a now) = Del_GRANTED \<and> del_delegatorScopeClaims d = claims then
        delegate_along sc (del_requestedScopeClaims d) ds
      else None)"

definition sound_delegation :: "IdentityScope \<Rightarrow> string set \<Rightarrow> Delegation \<times> HumanApproval option \<times> string \<Rightarrow> bool" where
  "sound_delegation sc claims =
     (\<lambda>(d, a, now). identity_sameScope (del_scope d) sc \<and> \<not> del_revoked d \<and> isFuture (del_expiresAt d) now \<and>
        \<not> (del_critical d \<and> \<not> human_approved a) \<and> del_delegatePrincipalId d \<notin> set (del_chain d) \<and>
        set (del_requestedScopeClaims d) \<subseteq> claims)"

lemma sound_delegation_mono: "sound_delegation sc A x \<Longrightarrow> A \<subseteq> B \<Longrightarrow> sound_delegation sc B x"
  by (auto simp: sound_delegation_def)


definition demo_delegation :: Delegation where
  "demo_delegation = \<lparr> del_delegationId = ''d1'', del_delegatorPrincipalId = ''p1'', del_delegatePrincipalId = ''p2'',
     del_scope = \<lparr> isc_tenantId = ''t'', isc_workspaceId = ''w'', isc_organizationId = None \<rparr>,
     del_delegatorScopeClaims = [''read'', ''write''], del_requestedScopeClaims = [''read''], del_chain = [''p1''],
     del_maxDepth = 2, del_critical = False, del_expiresAt = ''2026-01-01T01:00:00.000Z'', del_revoked = False,
     del_delegatorIsAI = False \<rparr>"


text \<open>A critical delegation of an agent may be approved, but an agent that requests no claims is refused.\<close>

lemma impersonation_approved_iff:
  "itd_decision (evaluateImpersonation r a now) = Imp_APPROVED \<longleftrightarrow>
     \<not> imp_actorIsAI r \<and> imp_visible r \<and> identity_sameScope (imp_targetScope r) (imp_scope r) \<and> imp_scopeClaims r \<noteq> [] \<and>
     (\<exists>h. a = Some h \<and> hap_approverIsHuman h \<and> isNonEmptyString (hap_approvalId h) \<and>
          (imp_sensitiveDataAccess r \<longrightarrow> iap_sensitiveDataApproved h = Some True)) \<and>
     isFuture (imp_expiresAt r) now"
  by (cases a) (auto simp: evaluateImpersonation_def Let_def human_approved_def HumanApproval.truncate_def)

section \<open>Agents, workloads, devices\<close>

lemma agent_valid_iff:
  "itd_decision (evaluateAgentIdentity a sc now) = Agd_VALID \<longleftrightarrow>
     \<not> agi_revoked a \<and> isNonEmptyString (agi_ownerPrincipalId a) \<and> isNonEmptyString (agi_purpose a) \<and> \<not> agi_privileged a \<and>
     identity_sameScope (agi_scope a) sc"
  by (simp add: evaluateAgentIdentity_def Let_def)

lemma agent_change_allowed_iff:
  "assertAgentNoSelfEscalation c r = Inr () \<longleftrightarrow>
     agc_ownerPrincipalId r \<in> {None, Some (agi_ownerPrincipalId c)} \<and> (agc_privileged r = Some True \<longrightarrow> agi_privileged c) \<and>
     (\<forall>cs. agc_scopeClaims r = Some cs \<longrightarrow> set cs \<subseteq> set (agi_scopeClaims c))"
  by (auto simp: assertAgentNoSelfEscalation_def list_ex_iff split: option.splits)

text \<open>The requested assurance plays no part: an agent may raise it.\<close>

lemma agent_may_raise_assurance:
  "assertAgentNoSelfEscalation c (r\<lparr> agc_assuranceLevel := Some A4_HARDWARE_BOUND \<rparr>) = assertAgentNoSelfEscalation c r"
  by (simp add: assertAgentNoSelfEscalation_def)

lemma workload_valid_iff:
  "itd_decision (evaluateWorkloadIdentity w sc req now) = Wld_VALID \<longleftrightarrow>
     isNonEmptyString (wid_instanceId w) \<and> wid_alive w \<and> (req \<longrightarrow> wid_attested w) \<and> identity_sameScope (wid_scope w) sc"
  by (simp add: evaluateWorkloadIdentity_def Let_def)

lemma device_trusted_iff:
  "itd_decision (evaluateDeviceIdentity d sc now) = Dvd_TRUSTED \<longleftrightarrow>
     identity_sameScope (dvi_scope d) sc \<and> dvi_trustState d = Device_trusted \<and> dvi_attested d"
  by (cases "dvi_trustState d") (simp_all add: evaluateDeviceIdentity_def Let_def)

end
