(* ===== verification/Scoped_Audit.thy ===== *)
theory Scoped_Audit
  imports Hash_Chain
begin

text \<open>
  The in-memory audit that the packages repeat: a list of rows per tenant and workspace, each row hashed together
  with the hash of its predecessor. Two forms occur. A \<^emph>\<open>sink\<close> numbers from 1, draws an id and hashes the body
  beside the previous hash; a \<^emph>\<open>ledger\<close> numbers from 0, hashes the body with the previous hash in it and may refuse
  a text that looks like a secret. A package supplies the cells of the body (\<open>body\<close>) for its own input; the
  locale \<^verbatim>\<open>audit_format\<close> is what its format must satisfy, and gives that every log verifies, only grows, keeps
  its partitions apart, and shows every change to a row below a known head.
\<close>

section \<open>Cells\<close>

datatype cell = Text string | Maybe "string option" | Texts "string list" | Count nat

fun cell_json :: "cell \<Rightarrow> json option" where
  "cell_json (Text s) = Some (JStr s)"
| "cell_json (Maybe s) = map_option JStr s"
| "cell_json (Texts ss) = Some (JArr (map JStr ss))"
| "cell_json (Count n) = Some (JNum (int n))"

fun same_kind :: "cell \<Rightarrow> cell \<Rightarrow> bool" where
  "same_kind (Text _) (Text _) = True"
| "same_kind (Maybe _) (Maybe _) = True"
| "same_kind (Texts _) (Texts _) = True"
| "same_kind (Count _) (Count _) = True"
| "same_kind _ _ = False"

text \<open>A property that is undefined is not printed.\<close>

fun cells_members :: "(string \<times> cell) list \<Rightarrow> (string \<times> json) list" where
  "cells_members [] = []"
| "cells_members ((k, c) # cs) = (case cell_json c of None \<Rightarrow> cells_members cs | Some v \<Rightarrow> (k, v) # cells_members cs)"

definition sink_text :: "string \<Rightarrow> (string \<times> cell) list \<Rightarrow> string" where
  "sink_text previousHash cs =
     canonicalJson (JObj [(''previousHash'', JStr previousHash),
                          (''body'', JObj (cells_members (cs @ [(''previousHash'', Text previousHash)])))])"

definition ledger_text :: "string \<Rightarrow> (string \<times> cell) list \<Rightarrow> string" where
  "ledger_text previousHash cs = canonicalJson (JObj (cells_members (cs @ [(''previousHash'', Text previousHash)])))"

section \<open>Logs\<close>

record 'i audit_row =
  row_auditId :: string
  row_input :: 'i
  row_sequence :: nat
  row_partition :: string
  row_previousHash :: string
  row_currentHash :: string

record 'i audit_rows =
  rows_partitions :: "string \<Rightarrow> 'i audit_row list"
  rows_draws :: nat

definition empty_rows :: "'i audit_rows" where
  "empty_rows = \<lparr> rows_partitions = (\<lambda>_. []), rows_draws = 0 \<rparr>"

definition AUDIT_GENESIS :: string where
  "AUDIT_GENESIS = replicate 64 (CHR ''0'')"

definition last_hash :: "'i audit_row list \<Rightarrow> string" where
  "last_hash rows = (if rows = [] then AUDIT_GENESIS else row_currentHash (last rows))"

definition rows_append ::
  "crypto \<Rightarrow> string \<Rightarrow> (string \<Rightarrow> nat \<Rightarrow> 'i \<Rightarrow> (string \<times> cell) list) \<Rightarrow> string \<Rightarrow> 'i \<Rightarrow> 'i audit_rows \<Rightarrow> 'i audit_row \<times> 'i audit_rows" where
  "rows_append C prefix body key i log =
     (let rows = rows_partitions log key;
          sequence = (if rows = [] then 0 else row_sequence (last rows)) + 1;
          previousHash = last_hash rows;
          currentHash = sha256Hex C (sink_text previousHash (body key sequence i));
          (auditId, n) = newId C prefix (rows_draws log);
          row = \<lparr> row_auditId = auditId, row_input = i, row_sequence = sequence, row_partition = key,
                  row_previousHash = previousHash, row_currentHash = currentHash \<rparr>
      in (row, \<lparr> rows_partitions = (rows_partitions log)(key := rows @ [row]), rows_draws = n \<rparr>))"

fun sink_verify_from ::
  "crypto \<Rightarrow> (string \<Rightarrow> nat \<Rightarrow> 'i \<Rightarrow> (string \<times> cell) list) \<Rightarrow> string \<Rightarrow> nat \<Rightarrow> 'i audit_row list \<Rightarrow> bool" where
  "sink_verify_from C body previous expected [] = True"
| "sink_verify_from C body previous expected (r # rs) =
     (if row_previousHash r \<noteq> previous \<or> row_sequence r \<noteq> expected then False
      else if sha256Hex C (sink_text previous (body (row_partition r) (row_sequence r) (row_input r))) \<noteq> row_currentHash r then False
      else sink_verify_from C body (row_currentHash r) (expected + 1) rs)"

definition ledger_append ::
  "crypto \<Rightarrow> (string \<Rightarrow> bool) \<Rightarrow> string \<Rightarrow> (string \<Rightarrow> nat \<Rightarrow> 'i \<Rightarrow> (string \<times> cell) list) \<Rightarrow> string \<Rightarrow> 'i \<Rightarrow> 'i audit_rows \<Rightarrow>
   (js_error + 'i audit_row) \<times> 'i audit_rows" where
  "ledger_append C secret message body key i log =
     (let rows = rows_partitions log key; previousHash = last_hash rows; sequence = length rows;
          serialized = ledger_text previousHash (body key sequence i)
      in if secret serialized then (Inl (JsError message), log)
         else (let row = \<lparr> row_auditId = [], row_input = i, row_sequence = sequence, row_partition = key,
                           row_previousHash = previousHash, row_currentHash = sha256Hex C serialized \<rparr>
               in (Inr row, log\<lparr> rows_partitions := (rows_partitions log)(key := rows @ [row]) \<rparr>)))"

fun ledger_verify_from ::
  "crypto \<Rightarrow> (string \<Rightarrow> nat \<Rightarrow> 'i \<Rightarrow> (string \<times> cell) list) \<Rightarrow> string \<Rightarrow> nat \<Rightarrow> 'i audit_row list \<Rightarrow> bool" where
  "ledger_verify_from C body previous i [] = True"
| "ledger_verify_from C body previous i (r # rs) =
     (if row_sequence r \<noteq> i \<or> row_previousHash r \<noteq> previous then False
      else if sha256Hex C (ledger_text (row_previousHash r) (body (row_partition r) (row_sequence r) (row_input r))) \<noteq> row_currentHash r then False
      else ledger_verify_from C body (row_currentHash r) (i + 1) rs)"

section \<open>Texts of cells determine the cells\<close>

lemma cells_members_keys: "k \<in> fst ` set (cells_members cs) \<Longrightarrow> k \<in> fst ` set cs"
  by (induction cs rule: cells_members.induct) (auto split: option.splits)

lemma cells_members_distinct: "distinct (map fst cs) \<Longrightarrow> distinct (map fst (cells_members cs))"
proof (induction cs rule: cells_members.induct)
  case (2 k c cs)
  then show ?case using cells_members_keys [of k cs] by (auto simp del: in_set_conv_decomp split: option.splits)
qed simp

lemma cell_json_value: "cell_json c = Some v \<Longrightarrow> js_value v"
  by (cases c) (auto simp: list_all_iff)

lemma cells_members_values: "(k, v) \<in> set (cells_members cs) \<Longrightarrow> js_value v"
  by (induction cs rule: cells_members.induct) (auto split: option.splits dest: cell_json_value)

lemma cells_members_lookup: "distinct (map fst cs) \<Longrightarrow> map_of (cells_members cs) k = Option.bind (map_of cs k) cell_json"
proof (induction cs rule: cells_members.induct)
  case (2 k' c cs)
  have "k' \<notin> fst ` set (cells_members cs)" using 2(3) cells_members_keys [of k' cs] by auto
  then have "map_of (cells_members cs) k' = None" by (simp only: map_of_eq_None_iff not_False_eq_True)
  then show ?case using 2 by (auto split: option.splits)
qed simp

lemma cell_json_inject:
  "same_kind c d \<Longrightarrow> rel_option json_eq (cell_json c) (cell_json d) \<Longrightarrow> c = d"
  by (cases c; cases d) (auto simp: option_rel_Some1 list_all2_map1 list_all2_map2 list.rel_eq map_option_case split: option.splits)

lemma cells_equal:
  assumes d: "distinct (map fst cs)" and k: "map fst cs = map fst ds" and kinds: "list_all2 same_kind (map snd cs) (map snd ds)"
    and proto: "''__proto__'' \<notin> fst ` set cs" and eq: "json_eq (JObj (cells_members cs)) (JObj (cells_members ds))"
  shows "cs = ds"
proof (rule nth_equalityI)
  show len: "length cs = length ds" using k by (metis length_map)
  fix j assume j: "j < length cs"
  define key where "key = fst (cs ! j)"
  have d': "distinct (map fst ds)" using d k by simp
  have look: "map_of cs key = Some (snd (cs ! j))" "map_of ds key = Some (snd (ds ! j))"
    using d d' k j len unfolding key_def by (metis map_of_eq_Some_iff nth_map nth_mem prod.collapse)+
  have key: "key \<in> fst ` set cs" using j unfolding key_def by simp
  then have np: "key \<noteq> ''__proto__''" using proto by metis
  let ?a = "map_of (cells_members cs) key" and ?b = "map_of (cells_members ds) key"
  have fwd: "\<exists>u. ?b = Some u \<and> json_eq v u" if "?a = Some v" for v
    using eq that np map_of_SomeD [OF that] by (auto split: option.splits)
  have bwd: "?a \<noteq> None" if "?b = Some u" for u
  proof -
    have "key \<in> fst ` set (cells_members cs)" using eq np map_of_SomeD [OF that] by auto
    then show ?thesis by (simp add: map_of_eq_None_iff)
  qed
  have "rel_option json_eq ?a ?b" using fwd bwd by (cases ?a; cases ?b) auto
  then have "rel_option json_eq (cell_json (snd (cs ! j))) (cell_json (snd (ds ! j)))"
    unfolding cells_members_lookup [OF d] cells_members_lookup [OF d'] look by simp
  moreover have "same_kind (snd (cs ! j)) (snd (ds ! j))" using kinds j len by (simp add: list_all2_conv_all_nth)
  ultimately have "snd (cs ! j) = snd (ds ! j)" by (rule cell_json_inject [rotated])
  moreover have "fst (cs ! j) = fst (ds ! j)" using k j len by (metis nth_map)
  ultimately show "cs ! j = ds ! j" by (simp add: prod_eq_iff)
qed

section \<open>The contract of a format\<close>

locale audit_format =
  fixes body :: "string \<Rightarrow> nat \<Rightarrow> 'i \<Rightarrow> (string \<times> cell) list" and keys :: "string list"
  assumes body_keys: "map fst (body pk n i) = keys"
    and body_kinds: "list_all2 same_kind (map snd (body pk n i)) (map snd (body pk' n' j))"
    and body_number: "map_of (body pk n i) ''sequence'' = Some (Count n)"
    and keys_plain: "distinct (keys @ [''previousHash''])" "list_all (\<lambda>k. \<not> is_index k \<and> k \<noteq> ''__proto__'') keys"
begin

definition is_body :: "(string \<times> cell) list \<Rightarrow> bool" where
  "is_body cs \<longleftrightarrow> (\<exists>pk n i. cs = body pk n i)"

definition with_previous :: "string \<Rightarrow> (string \<times> cell) list \<Rightarrow> (string \<times> cell) list" where
  "with_previous p cs = cs @ [(''previousHash'', Text p)]"

lemma with_previous_keys: "is_body cs \<Longrightarrow> map fst (with_previous p cs) = keys @ [''previousHash'']"
  by (auto simp: is_body_def with_previous_def body_keys)

lemma with_previous_distinct: "is_body cs \<Longrightarrow> distinct (map fst (with_previous p cs))"
  using keys_plain(1) by (simp only: with_previous_keys)

lemma with_previous_value:
  assumes "is_body cs"
  shows "js_value (JObj (cells_members (with_previous p cs)))"
proof (rule js_value_JObjI)
  show "distinct (map fst (cells_members (with_previous p cs)))"
    using with_previous_distinct [OF assms] by (rule cells_members_distinct)
  have "\<not> is_index k" if "k \<in> fst ` set (cells_members (with_previous p cs))" for k
  proof -
    have "fst ` set cs = set keys" using assms body_keys unfolding is_body_def by (metis set_map)
    then have "k \<in> set keys \<or> k = ''previousHash''"
      using cells_members_keys [OF that] unfolding with_previous_def by auto
    then show ?thesis using keys_plain(2) by (auto simp: list_all_iff not_index_Cons is_digit_def)
  qed
  then show "\<forall>kv \<in> set (cells_members (with_previous p cs)). \<not> is_index (fst kv) \<and> js_value (snd kv)"
    using cells_members_values by (metis imageI prod.collapse)
qed

lemma with_previous_inject:
  assumes b: "is_body cs" "is_body ds"
    and eq: "json_eq (JObj (cells_members (with_previous p cs))) (JObj (cells_members (with_previous q ds)))"
  shows "p = q \<and> cs = ds"
proof -
  obtain pk n i pk' n' j where cd: "cs = body pk n i" "ds = body pk' n' j" using b by (auto simp: is_body_def)
  have "map fst (with_previous p cs) = map fst (with_previous q ds)" using b by (simp only: with_previous_keys)
  moreover have "list_all2 same_kind (map snd (with_previous p cs)) (map snd (with_previous q ds))"
    using body_kinds by (simp add: with_previous_def cd list_all2_appendI)
  moreover have "''__proto__'' \<notin> fst ` set (with_previous p cs)"
    using keys_plain(2) unfolding set_map [symmetric] with_previous_keys [OF b(1)] by (auto simp: list_all_iff)
  ultimately have "with_previous p cs = with_previous q ds"
    using cells_equal [OF with_previous_distinct [OF b(1)]] eq by blast
  then show ?thesis by (simp add: with_previous_def)
qed

lemma sink_text_inject: "is_body cs \<Longrightarrow> is_body ds \<Longrightarrow> sink_text p cs = sink_text q ds \<Longrightarrow> p = q \<and> cs = ds"
proof -
  assume b: "is_body cs" "is_body ds" and t: "sink_text p cs = sink_text q ds"
  let ?v = "\<lambda>p cs. JObj [(''previousHash'', JStr p), (''body'', JObj (cells_members (with_previous p cs)))]"
  have js: "js_value (?v p cs)" if "is_body cs" for p cs
    using with_previous_value [OF that] by (intro js_value_JObjI) (simp_all add: not_index_Cons is_digit_def del: js_value.simps(2))
  have "json_eq (?v p cs) (?v q ds)"
    using t unfolding sink_text_def with_previous_def [symmetric] canonical_text_iff [OF js [OF b(1)] js [OF b(2)]] .
  then have "json_eq (JObj (cells_members (with_previous p cs))) (JObj (cells_members (with_previous q ds)))"
    by (simp del: json_eq.simps(2) add: json_eq.simps(2) [of "[(''previousHash'', JStr p), (''body'', JObj (cells_members (with_previous p cs)))]"]) blast
  then show "p = q \<and> cs = ds" using with_previous_inject [OF b] by blast
qed

lemma ledger_text_inject: "is_body cs \<Longrightarrow> is_body ds \<Longrightarrow> ledger_text p cs = ledger_text q ds \<Longrightarrow> p = q \<and> cs = ds"
  using with_previous_inject canonical_text_iff [OF with_previous_value with_previous_value]
  unfolding ledger_text_def with_previous_def [symmetric] by blast

lemma is_body_body [simp]: "is_body (body pk n i)"
  by (auto simp: is_body_def)

end

sublocale audit_format \<subseteq> sink: hash_chain_on sink_text is_body
  by unfold_locales (rule sink_text_inject)

sublocale audit_format \<subseteq> ledger: hash_chain_on ledger_text is_body
  by unfold_locales (rule ledger_text_inject)

context audit_format
begin

definition row_link :: "'i audit_row \<Rightarrow> (string \<times> cell) list link" where
  "row_link r = \<lparr> lk_previous = row_previousHash r, lk_body = body (row_partition r) (row_sequence r) (row_input r),
                  lk_current = row_currentHash r \<rparr>"

lemma row_link_bodies: "list_all (\<lambda>l. is_body (lk_body l)) (map row_link rs)"
  by (simp add: list_all_iff row_link_def)

lemma sink_verify_linked: "sink_verify_from C body p n rs \<Longrightarrow> linked C sink_text p (map row_link rs)"
  by (induction rs arbitrary: p n) (auto simp: row_link_def split: if_splits)

lemma ledger_verify_linked: "ledger_verify_from C body p n rs \<Longrightarrow> linked C ledger_text p (map row_link rs)"
  by (induction rs arbitrary: p n) (auto simp: row_link_def split: if_splits)

lemma sink_verify_snoc:
  "sink_verify_from C body p n (rs @ [r]) \<longleftrightarrow> sink_verify_from C body p n rs \<and> row_sequence r = n + length rs \<and>
     row_previousHash r = (if rs = [] then p else row_currentHash (last rs)) \<and>
     row_currentHash r = sha256Hex C (sink_text (row_previousHash r) (body (row_partition r) (row_sequence r) (row_input r)))"
  by (induction rs arbitrary: p n) auto

lemma ledger_verify_snoc:
  "ledger_verify_from C body p n (rs @ [r]) \<longleftrightarrow> ledger_verify_from C body p n rs \<and> row_sequence r = n + length rs \<and>
     row_previousHash r = (if rs = [] then p else row_currentHash (last rs)) \<and>
     row_currentHash r = sha256Hex C (ledger_text (row_previousHash r) (body (row_partition r) (row_sequence r) (row_input r)))"
  by (induction rs arbitrary: p n) auto

text \<open>An append keeps what a partition holds, extends its own by one row, and the partition still verifies.\<close>

lemma rows_append_verifies:
  assumes "sink_verify_from C body AUDIT_GENESIS 1 (rows_partitions log k)"
  shows "sink_verify_from C body AUDIT_GENESIS 1 (rows_partitions (snd (rows_append C pre body key i log)) k)"
proof -
  have n: "row_sequence (last rs) = length rs" if "sink_verify_from C body AUDIT_GENESIS 1 rs" "rs \<noteq> []" for rs
    using that by (cases rs rule: rev_cases) (auto simp: sink_verify_snoc)
  show ?thesis
    using assms n [OF assms] sink_verify_snoc [of C AUDIT_GENESIS 1 "[]"]
    by (auto simp: rows_append_def Let_def last_hash_def sink_verify_snoc split: prod.split)
qed

lemma ledger_append_verifies:
  assumes "ledger_verify_from C body AUDIT_GENESIS 0 (rows_partitions log k)"
  shows "ledger_verify_from C body AUDIT_GENESIS 0 (rows_partitions (snd (ledger_append C sec msg body key i log)) k)"
  using assms ledger_verify_snoc [of C AUDIT_GENESIS 0 "[]"]
  by (auto simp: ledger_append_def Let_def last_hash_def ledger_verify_snoc)

lemma rows_append_extends:
  "rows_partitions (snd (rows_append C pre body key i log)) k =
     (if k = key then rows_partitions log k @ [fst (rows_append C pre body key i log)] else rows_partitions log k)"
  by (auto simp: rows_append_def Let_def split: prod.split)

lemma ledger_append_extends:
  "rows_partitions (snd (ledger_append C sec msg body key i log)) k =
     (case fst (ledger_append C sec msg body key i log) of
        Inl _ \<Rightarrow> rows_partitions log k
      | Inr r \<Rightarrow> if k = key then rows_partitions log k @ [r] else rows_partitions log k)"
  by (auto simp: ledger_append_def Let_def)

text \<open>Two verified lists of rows with one head have the same rows, as far as the hashes cover them.\<close>

lemma sink_tamper_evident:
  assumes "sink_verify_from C body AUDIT_GENESIS 1 rs" "sink_verify_from C body AUDIT_GENESIS 1 ts"
    and "link_head AUDIT_GENESIS (map row_link rs) = link_head AUDIT_GENESIS (map row_link ts)"
    and "collision_free C AUDIT_GENESIS
           (link_texts sink_text AUDIT_GENESIS (map row_link rs) \<union> link_texts sink_text AUDIT_GENESIS (map row_link ts))"
  shows "map row_link rs = map row_link ts"
  using sink.same_head_on [OF sink_verify_linked [OF assms(1)] sink_verify_linked [OF assms(2)] assms(3,4)] row_link_bodies by blast

lemma ledger_tamper_evident:
  assumes "ledger_verify_from C body AUDIT_GENESIS 0 rs" "ledger_verify_from C body AUDIT_GENESIS 0 ts"
    and "link_head AUDIT_GENESIS (map row_link rs) = link_head AUDIT_GENESIS (map row_link ts)"
    and "collision_free C AUDIT_GENESIS
           (link_texts ledger_text AUDIT_GENESIS (map row_link rs) \<union> link_texts ledger_text AUDIT_GENESIS (map row_link ts))"
  shows "map row_link rs = map row_link ts"
  using ledger.same_head_on [OF ledger_verify_linked [OF assms(1)] ledger_verify_linked [OF assms(2)] assms(3,4)] row_link_bodies by blast

end

text \<open>The keys of the partitions join their parts without escaping.\<close>

definition scope_partition :: "string \<Rightarrow> string \<Rightarrow> string" where
  "scope_partition tenant workspace = tenant @ ''::'' @ workspace"

lemma scope_partitions_collide: "scope_partition ''a::b'' ''c'' = scope_partition ''a'' ''b::c''"
  by (simp add: scope_partition_def)

end
