(* ===== verification/Trust_Sessions.thy ===== *)
theory Trust_Sessions
  imports Trust_Principals Edge_Security Scoped_Audit
begin

text \<open>
  \<^verbatim>\<open>identity-trust/src\<close>, second part: credentials and tokens, sessions and their store, federation, recovery and
  break-glass, the in-memory references, the audit of identities and the readiness of the layer. A token is used at
  most once for any set of identifiers seen; a session store never lets a session id be taken twice, and what a
  revocation in it really ends is stated beside it.
\<close>

section \<open>credential.ts\<close>

datatype CredentialType =
  Cred_PASSWORD_REFERENCE | Cred_PASSKEY | Cred_HARDWARE_KEY | Cred_CERTIFICATE | Cred_API_KEY_REFERENCE | Cred_SERVICE_TOKEN
  | Cred_DEVICE_TOKEN | Cred_AGENT_TOKEN | Cred_RUNTIME_TOKEN | Cred_SESSION_TOKEN | Cred_RECOVERY_CREDENTIAL
  | Cred_FEDERATED_ASSERTION

datatype CredentialStatus = Cstat_active | Cstat_rotated | Cstat_revoked | Cstat_expired

record Credential =
  crd_credentialId :: string
  crd_type :: CredentialType
  crd_subjectPrincipalId :: string
  crd_boundPrincipalId :: string
  crd_scope :: IdentityScope
  crd_issuerId :: string
  crd_status :: CredentialStatus
  crd_scopeClaims :: "string list"
  crd_issuedAt :: string
  crd_expiresAt :: string
  crd_wildcard :: "bool option"

definition HUMAN_CREDENTIAL_TYPES :: "CredentialType list" where
  "HUMAN_CREDENTIAL_TYPES = [Cred_PASSWORD_REFERENCE, Cred_PASSKEY, Cred_HARDWARE_KEY, Cred_CERTIFICATE, Cred_SESSION_TOKEN]"

datatype CredentialDecisionStatus =
  Cd_VERIFIED | Cd_MALFORMED | Cd_NO_EXPIRY | Cd_EXPIRED | Cd_REVOKED | Cd_TENANT_MISMATCH | Cd_PRINCIPAL_MISMATCH
  | Cd_WILDCARD_DENIED | Cd_TYPE_MISUSE

datatype IdentityRuntimeMode = Idmode_test | Idmode_production

record VerifyCredentialInput =
  vci_credential :: "Credential option"
  vci_principalId :: string
  vci_contextScope :: IdentityScope
  vci_mode :: IdentityRuntimeMode
  vci_revoked :: bool
  vci_now :: string
  vci_requireHumanCredential :: "bool option"

definition verifyCredential :: "VerifyCredentialInput \<Rightarrow> CredentialDecisionStatus IdentityDecision" where
  "verifyCredential i =
     (case vci_credential i of
        None \<Rightarrow> identity_decide (vci_now i) [] [] Cd_MALFORMED ''credential_malformed'' ''halt'' None
      | Some c \<Rightarrow>
          (let reject = (\<lambda>s code. identity_decide (vci_now i) [crd_credentialId c] [crd_issuerId c] s code ''halt'' None) in
           if \<not> isNonEmptyString (crd_credentialId c) then reject Cd_MALFORMED ''credential_malformed''
           else if \<not> isNonEmptyString (crd_expiresAt c) then reject Cd_NO_EXPIRY ''credential_no_expiry''
           else if crd_status c = Cstat_revoked \<or> vci_revoked i then reject Cd_REVOKED ''credential_revoked''
           else if \<not> isFuture (crd_expiresAt c) (vci_now i) \<or> crd_status c = Cstat_expired then
             reject Cd_EXPIRED ''credential_expired''
           else if \<not> identity_sameScope (crd_scope c) (vci_contextScope i) then
             reject Cd_TENANT_MISMATCH ''credential_tenant_mismatch''
           else if crd_boundPrincipalId c \<noteq> vci_principalId i then
             reject Cd_PRINCIPAL_MISMATCH ''credential_principal_mismatch''
           else if crd_wildcard c = Some True \<and> vci_mode i = Idmode_production then
             reject Cd_WILDCARD_DENIED ''wildcard_credential_denied''
           else if vci_requireHumanCredential i = Some True \<and> crd_type c \<notin> set HUMAN_CREDENTIAL_TYPES then
             reject Cd_TYPE_MISUSE ''non_human_credential_as_human''
           else identity_decide (vci_now i) [crd_credentialId c] [crd_issuerId c] Cd_VERIFIED ''verified'' ''continue''
                  (Some (crd_expiresAt c))))"

definition assertNoScopeEscalation :: "Credential \<Rightarrow> string list \<Rightarrow> string list result" where
  "assertNoScopeEscalation c requested =
     (let escalated = filter (\<lambda>x. x \<notin> set (crd_scopeClaims c)) requested in
      if escalated \<noteq> [] then Inl (JsError ''Credential scope escalation denied'') else Inr requested)"

datatype TokenType =
  Tok_SERVICE_TOKEN | Tok_HUMAN_SESSION_TOKEN | Tok_AGENT_TOKEN | Tok_DEVICE_TOKEN | Tok_RUNTIME_TOKEN | Tok_FEDERATED_TOKEN
  | Tok_RECOVERY_TOKEN

record TokenReferenceBase =
  tok_tokenId :: string
  tok_type :: TokenType
  tok_issuerId :: string
  tok_subjectPrincipalId :: string
  tok_audience :: string
  tok_tenantId :: string
  tok_scopeClaims :: "string list"
  tok_jti :: string
  tok_algorithm :: string
  tok_issuedAt :: string
  tok_expiresAt :: string

datatype TokenDecisionStatus =
  Tkd_VERIFIED | Tkd_MALFORMED | Tkd_ISSUER_UNTRUSTED | Tkd_AUDIENCE_MISMATCH | Tkd_ALGORITHM_NOT_ALLOWED
  | Tkd_TENANT_MISMATCH | Tkd_REPLAYED | Tkd_EXPIRED | Tkd_REVOKED | Tkd_TYPE_MISUSE

record VerifyTokenInput =
  vti_token :: "TokenReferenceBase option"
  vti_expectedType :: TokenType
  vti_expectedAudience :: string
  vti_trustedIssuers :: "string set"
  vti_allowedAlgorithms :: "string set"
  vti_tenantId :: string
  vti_revoked :: bool
  vti_now :: string

text \<open>The set of identifiers seen is the caller's and is changed by a verification.\<close>

definition verifyToken :: "VerifyTokenInput \<Rightarrow> string set \<Rightarrow> TokenDecisionStatus IdentityDecision \<times> string set" where
  "verifyToken i seenJti =
     (case vti_token i of
        None \<Rightarrow> (identity_decide (vti_now i) [] [] Tkd_MALFORMED ''token_malformed'' ''halt'' None, seenJti)
      | Some t \<Rightarrow>
          (let reject = (\<lambda>s code. (identity_decide (vti_now i) [] [tok_issuerId t] s code ''halt'' None, seenJti)) in
           if \<not> isNonEmptyString (tok_tokenId t) \<or> \<not> isNonEmptyString (tok_jti t) then reject Tkd_MALFORMED ''token_malformed''
           else if tok_type t \<noteq> vti_expectedType i then reject Tkd_TYPE_MISUSE ''token_type_misuse''
           else if tok_issuerId t \<notin> vti_trustedIssuers i then reject Tkd_ISSUER_UNTRUSTED ''token_issuer_untrusted''
           else if tok_audience t \<noteq> vti_expectedAudience i then reject Tkd_AUDIENCE_MISMATCH ''token_audience_mismatch''
           else if tok_algorithm t \<notin> vti_allowedAlgorithms i then
             reject Tkd_ALGORITHM_NOT_ALLOWED ''token_algorithm_not_allowed''
           else if tok_tenantId t \<noteq> vti_tenantId i then reject Tkd_TENANT_MISMATCH ''token_tenant_mismatch''
           else if vti_revoked i then reject Tkd_REVOKED ''token_revoked''
           else if \<not> isFuture (tok_expiresAt t) (vti_now i) then reject Tkd_EXPIRED ''token_expired''
           else if tok_jti t \<in> seenJti then reject Tkd_REPLAYED ''token_replayed''
           else (identity_decide (vti_now i) [] [tok_issuerId t] Tkd_VERIFIED ''verified'' ''continue'' (Some (tok_expiresAt t)),
                 insert (tok_jti t) seenJti)))"

section \<open>session.ts\<close>

datatype TrustSessionState =
  Sess_CREATED | Sess_ACTIVE | Sess_IDLE | Sess_STEP_UP_REQUIRED | Sess_SUSPENDED | Sess_REVOKED | Sess_EXPIRED | Sess_TERMINATED

record TrustSession =
  ses_sessionId :: string
  ses_state :: TrustSessionState
  ses_scope :: IdentityScope
  ses_principalId :: string
  ses_credentialId :: string
  ses_authenticationMethod :: string
  ses_assuranceLevel :: AssuranceLevel
  ses_bindingRef :: string
  ses_issuedAt :: string
  ses_lastVerifiedAt :: string
  ses_expiresAt :: string
  ses_absoluteExpiresAt :: string
  ses_version :: nat

datatype SessionDecisionStatus =
  Sd_VALID | Sd_NOT_ACTIVE | Sd_REVOKED | Sd_EXPIRED | Sd_IDLE_TIMEOUT | Sd_STEP_UP_REQUIRED | Sd_TENANT_MISMATCH
  | Sd_COPY_DETECTED

record VerifySessionInput =
  tsi_session :: "TrustSession option"
  tsi_contextScope :: IdentityScope
  tsi_expectedBindingRef :: string
  tsi_idleTimeoutMs :: int
  tsi_now :: string
  tsi_privilegeChanged :: "bool option"

definition verifySession ::
  "VerifySessionInput \<Rightarrow> SessionDecisionStatus IdentityDecision \<times> (TrustSession \<times> string) option" where
  "verifySession i =
     (case tsi_session i of
        None \<Rightarrow> (identity_decide (tsi_now i) [] [] Sd_NOT_ACTIVE ''session_unknown'' ''halt'' None, None)
      | Some s \<Rightarrow>
          (let reject = (\<lambda>d code nextAction. (identity_decide (tsi_now i) [ses_sessionId s] [] d code nextAction None, None)) in
           if \<not> isNonEmptyString (ses_sessionId s) then reject Sd_NOT_ACTIVE ''session_unknown'' ''halt''
           else if ses_state s = Sess_REVOKED then reject Sd_REVOKED ''session_revoked'' ''halt''
           else if ses_state s = Sess_EXPIRED \<or> ses_state s = Sess_TERMINATED then reject Sd_EXPIRED ''session_expired'' ''halt''
           else if ses_state s = Sess_SUSPENDED \<or> ses_state s = Sess_CREATED then
             reject Sd_NOT_ACTIVE ''session_not_active'' ''halt''
           else if ses_bindingRef s \<noteq> tsi_expectedBindingRef i then reject Sd_COPY_DETECTED ''session_copy_detected'' ''halt''
           else if \<not> identity_sameScope (ses_scope s) (tsi_contextScope i) then
             reject Sd_TENANT_MISMATCH ''session_tenant_mismatch'' ''halt''
           else if \<not> isFuture (ses_absoluteExpiresAt s) (tsi_now i) \<or> \<not> isFuture (ses_expiresAt s) (tsi_now i) then
             reject Sd_EXPIRED ''session_absolute_timeout'' ''halt''
           else if elapsed_exceeds (ses_lastVerifiedAt s) (tsi_now i) (tsi_idleTimeoutMs i) then
             reject Sd_IDLE_TIMEOUT ''session_idle_timeout'' ''re_authenticate''
           else if tsi_privilegeChanged i = Some True then
             reject Sd_STEP_UP_REQUIRED ''privilege_change_reverify'' ''step_up''
           else (identity_decide (tsi_now i) [ses_sessionId s] [] Sd_VALID ''valid'' ''continue'' (Some (ses_expiresAt s)),
                 Some (s, tsi_now i))))"

text \<open>The store: a map from session ids.\<close>

type_synonym session_store = "string \<rightharpoonup> TrustSession"

definition session_create :: "TrustSession \<Rightarrow> session_store \<Rightarrow> (bool \<times> string) \<times> session_store" where
  "session_create s st =
     (if st (ses_sessionId s) \<noteq> None then ((False, ''session_fixation_denied''), st)
      else ((True, ''created''), st(ses_sessionId s \<mapsto> s)))"

definition session_get :: "string \<Rightarrow> session_store \<Rightarrow> TrustSession option" where
  "session_get k st = st k"

definition session_rotate :: "string \<Rightarrow> TrustSession \<Rightarrow> session_store \<Rightarrow> (bool \<times> string) \<times> session_store" where
  "session_rotate oldId new st =
     (case st oldId of
        None \<Rightarrow> ((False, ''session_unknown''), st)
      | Some old \<Rightarrow>
          if ses_sessionId new = oldId then ((False, ''rotation_requires_new_id''), st)
          else session_create new (st(oldId \<mapsto> old\<lparr> ses_state := Sess_TERMINATED \<rparr>)))"

definition session_revoke :: "string \<Rightarrow> session_store \<Rightarrow> session_store" where
  "session_revoke k st = (case st k of None \<Rightarrow> st | Some s \<Rightarrow> st(k \<mapsto> s\<lparr> ses_state := Sess_REVOKED \<rparr>))"

section \<open>federation.ts\<close>

datatype FederationProtocol =
  Fed_OIDC | Fed_OAUTH | Fed_SAML | Fed_ENTERPRISE_DIRECTORY | Fed_GOVERNMENT | Fed_DECENTRALIZED | Fed_WORKLOAD

record ExternalIdentityProvider =
  eip_providerId :: string
  eip_protocol :: FederationProtocol
  eip_issuerId :: string
  eip_metadataExpiresAt :: string
  eip_revoked :: bool

record FederationAssertion =
  fas_assertionId :: string
  fas_issuerId :: string
  fas_audience :: string
  fas_subjectRef :: string
  fas_claims :: "string list"
  fas_tenantMapping :: "IdentityScope option"
  fas_expiresAt :: string

datatype FederationDecisionStatus =
  Fdd_ACCEPTED | Fdd_UNKNOWN_ISSUER | Fdd_AUDIENCE_MISMATCH | Fdd_TENANT_MAPPING_MISSING | Fdd_METADATA_EXPIRED
  | Fdd_PROVIDER_REVOKED | Fdd_ROLE_INJECTION_DENIED | Fdd_EXPIRED

record EvaluateFederationInput =
  efi_provider :: ExternalIdentityProvider
  efi_assertion :: FederationAssertion
  efi_issuerAllowlist :: "string set"
  efi_expectedAudience :: string
  efi_mappings :: "(string \<times> string) list"
  efi_now :: string

text \<open>
  The pattern \<^verbatim>\<open>/(role|admin|scope|permission|privilege)/iu\<close>: case folding maps the long s to s and the Kelvin sign to
  k, which lie outside the modelled code units.
\<close>

definition privileged_claim :: "string \<Rightarrow> bool" where
  "privileged_claim claim =
     list_ex (\<lambda>w. js_includes w (toLowerCase claim)) [''role'', ''admin'', ''scope'', ''permission'', ''privilege'']"

definition evaluateFederation :: "EvaluateFederationInput \<Rightarrow> FederationDecisionStatus IdentityDecision" where
  "evaluateFederation i =
     (let p = efi_provider i; a = efi_assertion i;
          reject = (\<lambda>s code. identity_decide (efi_now i) [fas_assertionId a] [eip_issuerId p] s code ''halt'' None) in
      if eip_issuerId p \<notin> efi_issuerAllowlist i \<or> eip_issuerId p \<noteq> fas_issuerId a then
        reject Fdd_UNKNOWN_ISSUER ''federation_unknown_issuer''
      else if eip_revoked p then reject Fdd_PROVIDER_REVOKED ''federation_provider_revoked''
      else if \<not> isFuture (eip_metadataExpiresAt p) (efi_now i) then reject Fdd_METADATA_EXPIRED ''federation_metadata_expired''
      else if fas_audience a \<noteq> efi_expectedAudience i then reject Fdd_AUDIENCE_MISMATCH ''federation_audience_mismatch''
      else if \<not> isNonEmptyOpt (map_option isc_tenantId (fas_tenantMapping a)) then
        reject Fdd_TENANT_MAPPING_MISSING ''federation_tenant_mapping_missing''
      else if list_ex (\<lambda>c. privileged_claim c \<and> c \<notin> fst ` set (efi_mappings i)) (fas_claims a) then
        reject Fdd_ROLE_INJECTION_DENIED ''federation_role_injection_denied''
      else if \<not> isFuture (fas_expiresAt a) (efi_now i) then reject Fdd_EXPIRED ''federation_assertion_expired''
      else identity_decide (efi_now i) [fas_assertionId a] [eip_issuerId p] Fdd_ACCEPTED ''accepted'' ''continue''
             (Some (fas_expiresAt a)))"

definition evaluateAccountLinking :: "HumanApproval option \<Rightarrow> string \<Rightarrow> bool IdentityDecision" where
  "evaluateAccountLinking approval now =
     (if \<not> human_approved approval then
        identity_decide now [] [] False ''account_linking_requires_human'' ''obtain_approval'' None
      else identity_decide now [] [] True ''linked'' ''continue'' None)"

section \<open>recovery.ts\<close>

datatype channel_assurance = Channel_low | Channel_medium | Channel_high

record RecoveryRequest =
  rcq_requestId :: string
  rcq_targetPrincipalId :: string
  rcq_scope :: IdentityScope
  rcq_channelAssurance :: channel_assurance
  rcq_critical :: bool
  rcq_initiatorIsAI :: bool
  rcq_expiresAt :: string

record recovery_evidence =
  rce_evidenceRef :: string
  rce_used :: bool

record recovery_approval = HumanApproval +
  rca_humanApprovals :: int

datatype RecoveryDecisionStatus =
  Rcd_APPROVED | Rcd_AI_DENIED | Rcd_LOW_CHANNEL_DENIED | Rcd_MULTI_APPROVAL_REQUIRED | Rcd_EVIDENCE_REUSED | Rcd_EXPIRED

record RecoveryResult =
  rcr_decision :: "RecoveryDecisionStatus IdentityDecision"
  rcr_revokeAllSessions :: bool
  rcr_initialAssurance :: AssuranceLevel

definition evaluateRecovery ::
  "RecoveryRequest \<Rightarrow> recovery_evidence \<Rightarrow> recovery_approval option \<Rightarrow> string \<Rightarrow> RecoveryResult" where
  "evaluateRecovery r e approval now =
     (let d = identity_decide now [rcq_requestId r, rce_evidenceRef e] [];
          reject = (\<lambda>s code nextAction. \<lparr> rcr_decision = d s code nextAction None, rcr_revokeAllSessions = False,
                                         rcr_initialAssurance = A0_UNVERIFIED \<rparr>);
          required = (if rcq_critical r then 2 else 1) in
      if approval \<noteq> None \<and> \<not> hap_approverIsHuman (the approval) then reject Rcd_AI_DENIED ''ai_cannot_approve_recovery'' ''halt''
      else if rcq_channelAssurance r = Channel_low then reject Rcd_LOW_CHANNEL_DENIED ''recovery_low_channel_denied'' ''halt''
      else if rce_used e then reject Rcd_EVIDENCE_REUSED ''recovery_evidence_reused'' ''halt''
      else if \<not> isFuture (rcq_expiresAt r) now then reject Rcd_EXPIRED ''recovery_challenge_expired'' ''halt''
      else if \<not> human_approved (map_option HumanApproval.truncate approval) \<or> rca_humanApprovals (the approval) < required then
        reject Rcd_MULTI_APPROVAL_REQUIRED ''recovery_requires_human_approval'' ''obtain_approval''
      else \<lparr> rcr_decision = d Rcd_APPROVED ''approved'' ''continue'' None, rcr_revokeAllSessions = True,
             rcr_initialAssurance = A1_BASIC \<rparr>)"

datatype break_glass_scope =
  Bg_capability | Bg_connector | Bg_plugin | Bg_tenant | Bg_workspace | Bg_region | Bg_global

record BreakGlassAuthority =
  bga_authorityId :: string
  bga_isHuman :: bool

record BreakGlassRequest =
  bgq_requestId :: string
  bgq_scopeKind :: break_glass_scope
  bgq_reason :: string
  bgq_initiatorIsAI :: bool
  bgq_approvals :: "BreakGlassAuthority list"
  bgq_expiresAt :: string
  bgq_at :: string

datatype BreakGlassDecisionStatus =
  Bgd_GRANTED | Bgd_AI_DENIED | Bgd_NO_REASON | Bgd_MULTI_APPROVAL_REQUIRED | Bgd_MUST_EXPIRE | Bgd_TOO_LONG

definition BREAK_GLASS_MAX_MS :: int where
  "BREAK_GLASS_MAX_MS = 60 * 60 * 1000"

definition evaluateBreakGlass :: "BreakGlassRequest \<Rightarrow> BreakGlassDecisionStatus IdentityDecision" where
  "evaluateBreakGlass r =
     (let d = identity_decide (bgq_at r) [bgq_requestId r] [];
          humanApprovals = length (filter (\<lambda>a. bga_isHuman a \<and> isNonEmptyString (bga_authorityId a)) (bgq_approvals r));
          required = (if bgq_scopeKind r = Bg_global then 3 else 2) in
      if bgq_initiatorIsAI r then d Bgd_AI_DENIED ''ai_cannot_open_break_glass'' ''halt'' None
      else if \<not> isNonEmptyString (bgq_reason r) then d Bgd_NO_REASON ''break_glass_reason_required'' ''halt'' None
      else if humanApprovals < required then
        d Bgd_MULTI_APPROVAL_REQUIRED ''break_glass_multi_approval_required'' ''obtain_approval'' None
      else
        (case (dateParse (bgq_expiresAt r), dateParse (bgq_at r)) of
           (Some e, Some a) \<Rightarrow>
             if e \<le> a then d Bgd_MUST_EXPIRE ''break_glass_must_expire'' ''halt'' None
             else if e - a > BREAK_GLASS_MAX_MS then d Bgd_TOO_LONG ''break_glass_too_long'' ''halt'' None
             else d Bgd_GRANTED ''granted'' ''post_use_review'' (Some (bgq_expiresAt r))
         | _ \<Rightarrow> d Bgd_MUST_EXPIRE ''break_glass_must_expire'' ''halt'' None))"

section \<open>reference.ts\<close>

type_synonym identity_registry = "string \<rightharpoonup> TrustIdentity"

definition registry_key :: "string \<Rightarrow> IdentityScope \<Rightarrow> string" where
  "registry_key k s = isc_tenantId s @ ''::'' @ isc_workspaceId s @ ''::'' @ k"

definition registry_register :: "TrustIdentity \<Rightarrow> identity_registry \<Rightarrow> identity_registry" where
  "registry_register x reg = reg(registry_key (tid_identityId x) (tid_scope x) \<mapsto> x)"

definition registry_get :: "string \<Rightarrow> IdentityScope \<Rightarrow> identity_registry \<Rightarrow> TrustIdentity option" where
  "registry_get k s reg = reg (registry_key k s)"

definition revocation_key :: "string \<Rightarrow> string \<Rightarrow> string" where
  "revocation_key kind k = kind @ '':'' @ k"

definition revocation_revoke :: "string \<Rightarrow> string \<Rightarrow> string set \<Rightarrow> string set" where
  "revocation_revoke kind k st = insert (revocation_key kind k) st"

definition revocation_isRevoked :: "string \<Rightarrow> string \<Rightarrow> string set \<Rightarrow> bool" where
  "revocation_isRevoked kind k st \<longleftrightarrow> revocation_key kind k \<in> st"

definition issuer_nextRef :: "string \<Rightarrow> string \<Rightarrow> nat \<Rightarrow> string \<times> nat" where
  "issuer_nextRef issuerId prefix counter = (prefix @ ''_'' @ issuerId @ ''_'' @ show_nat (Suc counter), Suc counter)"

definition newFakeTrustedClock :: "string \<Rightarrow> int" where
  "newFakeTrustedClock nowIso = (case dateParse nowIso of Some t \<Rightarrow> t | None \<Rightarrow> 0)"

definition fake_clock_now :: "int \<Rightarrow> string result" where
  "fake_clock_now nowMs = toISOString nowMs"

definition fake_clock_advance :: "int \<Rightarrow> int \<Rightarrow> int" where
  "fake_clock_advance ms nowMs = nowMs + ms"

definition reference_trust :: "bool \<Rightarrow> bool \<Rightarrow> bool \<times> string" where
  "reference_trust anchorTrusted evidenceVerified =
     (if \<not> evidenceVerified then (False, ''evidence_unverified'')
      else if \<not> anchorTrusted then (False, ''anchor_untrusted'')
      else (True, ''trusted''))"

definition identity_assertNotTestReference :: "bool \<Rightarrow> IdentityRuntimeMode \<Rightarrow> unit result" where
  "identity_assertNotTestReference testOnly mode =
     (if mode = Idmode_production \<and> testOnly then
        Inl (JsError ''A test-only reference component cannot be used in production.'')
      else Inr ())"

section \<open>audit.ts\<close>

record IdentityAuditInput =
  iai_scope :: IdentityScope
  iai_event :: string
  iai_actorPrincipalRef :: string
  iai_onBehalfOfRef :: "string option"
  iai_outcome :: string
  iai_reasonCode :: string
  iai_at :: string
  iai_evidenceRefs :: "string list option"

definition identity_partitionKey :: "IdentityScope \<Rightarrow> string" where
  "identity_partitionKey s = scope_partition (isc_tenantId s) (isc_workspaceId s)"

definition identity_bodyOf :: "string \<Rightarrow> nat \<Rightarrow> IdentityAuditInput \<Rightarrow> (string \<times> cell) list" where
  "identity_bodyOf pk sequence i =
     [(''partitionKey'', Text pk), (''sequence'', Count sequence), (''event'', Text (iai_event i)),
      (''actorPrincipalRef'', Text (iai_actorPrincipalRef i)), (''onBehalfOfRef'', Maybe (iai_onBehalfOfRef i)),
      (''outcome'', Text (iai_outcome i)), (''reasonCode'', Text (iai_reasonCode i)), (''at'', Text (iai_at i)),
      (''evidenceRefs'', Texts (case iai_evidenceRefs i of Some rs \<Rightarrow> rs | None \<Rightarrow> []))]"

definition identity_audit_append ::
  "crypto \<Rightarrow> IdentityAuditInput \<Rightarrow> IdentityAuditInput audit_rows \<Rightarrow> IdentityAuditInput audit_row \<times> IdentityAuditInput audit_rows" where
  "identity_audit_append C i = rows_append C ''idaudit'' identity_bodyOf (identity_partitionKey (iai_scope i)) i"

definition identity_audit_entries :: "IdentityScope \<Rightarrow> IdentityAuditInput audit_rows \<Rightarrow> IdentityAuditInput audit_row list" where
  "identity_audit_entries s log = rows_partitions log (identity_partitionKey s)"

definition identity_verifyChain :: "crypto \<Rightarrow> IdentityScope \<Rightarrow> IdentityAuditInput audit_rows \<Rightarrow> bool" where
  "identity_verifyChain C s log = sink_verify_from C identity_bodyOf AUDIT_GENESIS 1 (identity_audit_entries s log)"

interpretation identity_rows: audit_format identity_bodyOf
  "[''partitionKey'', ''sequence'', ''event'', ''actorPrincipalRef'', ''onBehalfOfRef'', ''outcome'', ''reasonCode'', ''at'', ''evidenceRefs'']"
  by unfold_locales (simp_all add: identity_bodyOf_def not_index_Cons is_digit_def)

section \<open>When a decision is granted\<close>

lemma credential_verified_iff:
  "itd_decision (verifyCredential i) = Cd_VERIFIED \<longleftrightarrow>
     (\<exists>c. vci_credential i = Some c \<and> isNonEmptyString (crd_credentialId c) \<and> isNonEmptyString (crd_expiresAt c) \<and>
        crd_status c \<in> {Cstat_active, Cstat_rotated} \<and> \<not> vci_revoked i \<and> isFuture (crd_expiresAt c) (vci_now i) \<and>
        identity_sameScope (crd_scope c) (vci_contextScope i) \<and> crd_boundPrincipalId c = vci_principalId i \<and>
        \<not> (crd_wildcard c = Some True \<and> vci_mode i = Idmode_production) \<and>
        (vci_requireHumanCredential i = Some True \<longrightarrow> crd_type c \<in> set HUMAN_CREDENTIAL_TYPES))"
proof (cases "vci_credential i")
  case (Some c)
  have "crd_status c \<in> {Cstat_active, Cstat_rotated} \<longleftrightarrow> crd_status c \<noteq> Cstat_revoked \<and> crd_status c \<noteq> Cstat_expired"
    by (cases "crd_status c") simp_all
  then show ?thesis using Some by (auto simp: verifyCredential_def Let_def)
qed (simp add: verifyCredential_def)

text \<open>A rotated credential is not refused: the old one serves until it expires or is revoked.\<close>

lemma rotated_credential_verifies:
  "itd_decision (verifyCredential (i\<lparr> vci_credential := Some c \<rparr>)) = Cd_VERIFIED \<Longrightarrow>
   itd_decision (verifyCredential (i\<lparr> vci_credential := Some (c\<lparr> crd_status := Cstat_rotated \<rparr>) \<rparr>)) = Cd_VERIFIED"
  unfolding credential_verified_iff by auto

lemma scope_not_escalated: "assertNoScopeEscalation c requested = Inr granted \<Longrightarrow> set granted \<subseteq> set (crd_scopeClaims c)"
  by (auto simp: assertNoScopeEscalation_def Let_def filter_empty_conv split: if_splits)

text \<open>A token: the verification as a claim of its identifier.\<close>

definition token_claim :: "VerifyTokenInput \<Rightarrow> string set \<Rightarrow> bool \<times> string set" where
  "token_claim i seen = (let (d, seen') = verifyToken i seen in (itd_decision d = Tkd_VERIFIED, seen'))"

definition token_jti :: "VerifyTokenInput \<Rightarrow> string" where
  "token_jti i = (case vti_token i of Some t \<Rightarrow> tok_jti t | None \<Rightarrow> [])"

interpretation tokens: exact_one_shot token_claim token_jti id
proof
  show "token_jti q \<notin> id s \<and> id s' = insert (token_jti q) (id s)" if "token_claim q s = (True, s')" for q s s'
    using that by (auto simp: token_claim_def verifyToken_def token_jti_def Let_def split: option.splits if_splits)
  show "id s' = id s" if "token_claim q s = (False, s')" for q s s'
    using that by (auto simp: token_claim_def verifyToken_def Let_def split: option.splits if_splits)
qed

lemma token_verified_once:
  "claim_run token_claim qs seen = (won, seen') \<Longrightarrow> distinct (map token_jti won) \<and> token_jti ` set won \<inter> seen = {}"
  using tokens.claim_run_inv [of qs seen won seen'] by simp

lemma token_verified_iff:
  "itd_decision (fst (verifyToken i seen)) = Tkd_VERIFIED \<longleftrightarrow>
     (\<exists>t. vti_token i = Some t \<and> isNonEmptyString (tok_tokenId t) \<and> isNonEmptyString (tok_jti t) \<and> tok_type t = vti_expectedType i \<and>
        tok_issuerId t \<in> vti_trustedIssuers i \<and> tok_audience t = vti_expectedAudience i \<and>
        tok_algorithm t \<in> vti_allowedAlgorithms i \<and> tok_tenantId t = vti_tenantId i \<and> \<not> vti_revoked i \<and>
        isFuture (tok_expiresAt t) (vti_now i) \<and> tok_jti t \<notin> seen)"
  by (cases "vti_token i") (auto simp: verifyToken_def Let_def)

lemma session_valid_iff:
  "snd (verifySession i) = Some (s, at) \<longleftrightarrow>
     tsi_session i = Some s \<and> at = tsi_now i \<and> isNonEmptyString (ses_sessionId s) \<and>
     ses_state s \<in> {Sess_ACTIVE, Sess_IDLE, Sess_STEP_UP_REQUIRED} \<and> ses_bindingRef s = tsi_expectedBindingRef i \<and>
     identity_sameScope (ses_scope s) (tsi_contextScope i) \<and> isFuture (ses_absoluteExpiresAt s) (tsi_now i) \<and>
     isFuture (ses_expiresAt s) (tsi_now i) \<and> \<not> elapsed_exceeds (ses_lastVerifiedAt s) (tsi_now i) (tsi_idleTimeoutMs i) \<and>
     tsi_privilegeChanged i \<noteq> Some True"
proof (cases "tsi_session i")
  case (Some x)
  have "ses_state x \<in> {Sess_ACTIVE, Sess_IDLE, Sess_STEP_UP_REQUIRED} \<longleftrightarrow>
      ses_state x \<notin> {Sess_REVOKED, Sess_EXPIRED, Sess_TERMINATED, Sess_SUSPENDED, Sess_CREATED}"
    by (cases "ses_state x") simp_all
  then show ?thesis using Some by (auto simp: verifySession_def Let_def)
qed (simp add: verifySession_def)

text \<open>A session that waits for a step-up is valid all the same.\<close>

lemma step_up_session_valid:
  "snd (verifySession i) = Some (s, at) \<Longrightarrow>
   snd (verifySession (i\<lparr> tsi_session := Some (s\<lparr> ses_state := Sess_STEP_UP_REQUIRED \<rparr>) \<rparr>)) \<noteq> None"
  using session_valid_iff [of "i\<lparr> tsi_session := Some (s\<lparr> ses_state := Sess_STEP_UP_REQUIRED \<rparr>) \<rparr>" "s\<lparr> ses_state := Sess_STEP_UP_REQUIRED \<rparr>" "tsi_now i"]
  unfolding session_valid_iff [of i] by auto

section \<open>The session store\<close>

text \<open>The operations on the store, as steps.\<close>

inductive session_step :: "session_store \<Rightarrow> session_store \<Rightarrow> bool" where
  step_create: "session_step st (snd (session_create s st))"
| step_rotate: "session_step st (snd (session_rotate oldId s st))"
| step_revoke: "session_step st (session_revoke k st)"

inductive session_steps :: "session_store \<Rightarrow> session_store \<Rightarrow> bool" where
  steps_here: "session_steps st st"
| steps_on: "session_steps st su \<Longrightarrow> session_step su sv \<Longrightarrow> session_steps st sv"

definition session_ended :: "TrustSession option \<Rightarrow> bool" where
  "session_ended s = (case s of None \<Rightarrow> False | Some x \<Rightarrow> ses_state x \<in> {Sess_REVOKED, Sess_TERMINATED})"

definition store_well_keyed :: "session_store \<Rightarrow> bool" where
  "store_well_keyed st \<longleftrightarrow> (\<forall>k s. st k = Some s \<longrightarrow> ses_sessionId s = k)"

lemma session_step_well_keyed: "session_step st su \<Longrightarrow> store_well_keyed st \<Longrightarrow> store_well_keyed su"
  by (induction rule: session_step.induct)
    (auto simp: store_well_keyed_def session_create_def session_rotate_def session_revoke_def split: option.splits if_splits)

text \<open>A step changes no session but its state, and an ended session stays ended.\<close>

lemma session_step_keeps:
  "session_step st su \<Longrightarrow> st k = Some s \<Longrightarrow> \<exists>x. su k = Some (s\<lparr> ses_state := x \<rparr>) \<and> (x = ses_state s \<or> x \<in> {Sess_REVOKED, Sess_TERMINATED})"
proof (induction rule: session_step.induct)
  case (step_create st s')
  then show ?case by (intro exI [of _ "ses_state s"]) (auto simp: session_create_def split: if_splits)
next
  case (step_rotate st oldId s')
  then show ?case
    by (cases "st oldId") (auto simp: session_rotate_def session_create_def split: if_splits intro: exI [of _ "ses_state s"] exI [of _ Sess_TERMINATED])
next
  case (step_revoke st k')
  then show ?case
    by (cases "st k'") (auto simp: session_revoke_def intro: exI [of _ "ses_state s"] exI [of _ Sess_REVOKED])
qed

text \<open>
  C24. A session id belongs to one session for ever: whatever creations, rotations and revocations follow, the
  session stored under an id keeps every field but its state, and once revoked or terminated it stays so and
  is never verified as valid again.
\<close>

theorem ended_session_stays_ended:
  assumes "session_steps st su" "st k = Some s" "store_well_keyed st"
  shows "\<exists>x. su k = Some (s\<lparr> ses_state := x \<rparr>) \<and> store_well_keyed su \<and>
           (session_ended (st k) \<longrightarrow> session_ended (su k) \<and> snd (verifySession (i\<lparr> tsi_session := session_get k su \<rparr>)) = None)"
  using assms
proof (induction rule: session_steps.induct)
  case (steps_here st)
  have "session_ended (Some s) \<Longrightarrow> snd (verifySession (i\<lparr> tsi_session := Some s \<rparr>)) = None"
    by (auto simp: session_ended_def verifySession_def Let_def)
  then show ?case using steps_here by (intro exI [of _ "ses_state s"]) (simp add: session_get_def)
next
  case (steps_on st su sv)
  then obtain x where x: "su k = Some (s\<lparr> ses_state := x \<rparr>)" "store_well_keyed su" "session_ended (st k) \<Longrightarrow> session_ended (su k)"
    by blast
  obtain y where y: "sv k = Some (s\<lparr> ses_state := y \<rparr>)" "y = x \<or> y \<in> {Sess_REVOKED, Sess_TERMINATED}"
    using session_step_keeps [OF steps_on(2) x(1)] by auto
  have "session_ended (su k) \<Longrightarrow> session_ended (sv k)" using x(1) y by (auto simp: session_ended_def)
  moreover have "session_ended (sv k) \<Longrightarrow> snd (verifySession (i\<lparr> tsi_session := session_get k sv \<rparr>)) = None"
    using y(1) by (auto simp: session_ended_def session_get_def verifySession_def Let_def)
  ultimately show ?case using x y session_step_well_keyed [OF steps_on(2)] by blast
qed

definition demo_trust_session :: TrustSession where
  "demo_trust_session = \<lparr> ses_sessionId = ''s1'', ses_state = Sess_REVOKED,
     ses_scope = \<lparr> isc_tenantId = ''t'', isc_workspaceId = ''w'', isc_organizationId = None \<rparr>, ses_principalId = ''p'',
     ses_credentialId = ''c'', ses_authenticationMethod = ''passkey'', ses_assuranceLevel = A2_VERIFIED, ses_bindingRef = ''b'',
     ses_issuedAt = ''x'', ses_lastVerifiedAt = ''x'', ses_expiresAt = ''x'', ses_absoluteExpiresAt = ''x'', ses_version = 1 \<rparr>"

definition demo_verify_session :: VerifySessionInput where
  "demo_verify_session = \<lparr> tsi_session = None, tsi_contextScope = ses_scope demo_trust_session, tsi_expectedBindingRef = ''b'',
     tsi_idleTimeoutMs = 1000, tsi_now = ''x'', tsi_privilegeChanged = None \<rparr>"

theorem ended_session_stays_ended_witness:
  "snd (verifySession (demo_verify_session\<lparr> tsi_session :=
     session_get ''s1'' (snd (session_create (demo_trust_session\<lparr> ses_state := Sess_ACTIVE \<rparr>) [''s1'' \<mapsto> demo_trust_session])) \<rparr>)) = None"
proof -
  let ?st = "[''s1'' \<mapsto> demo_trust_session]"
  have s: "session_steps ?st (snd (session_create (demo_trust_session\<lparr> ses_state := Sess_ACTIVE \<rparr>) ?st))"
    by (rule steps_on [OF steps_here step_create])
  have k: "?st ''s1'' = Some demo_trust_session" by simp
  have w: "store_well_keyed ?st" by (simp add: store_well_keyed_def demo_trust_session_def)
  have e: "session_ended (?st ''s1'')" by (simp add: session_ended_def demo_trust_session_def)
  show ?thesis using ended_session_stays_ended [OF s k w, of demo_verify_session] e by blast
qed

text \<open>
  Rotation looks at no state: a revoked session can be rotated into a new active one. And when the new id is
  taken the old session is ended although the rotation fails.
\<close>

lemma revoked_session_rotates:
  "ses_sessionId new \<noteq> k \<Longrightarrow> st k = Some old \<Longrightarrow> ses_state old = Sess_REVOKED \<Longrightarrow> st (ses_sessionId new) = None \<Longrightarrow>
   fst (session_rotate k new st) = (True, ''created'') \<and> session_get (ses_sessionId new) (snd (session_rotate k new st)) = Some new"
  by (simp add: session_rotate_def session_create_def session_get_def)

lemma failed_rotation_ends_session:
  "ses_sessionId new \<noteq> k \<Longrightarrow> st k = Some old \<Longrightarrow> st (ses_sessionId new) \<noteq> None \<Longrightarrow>
   fst (fst (session_rotate k new st)) = False \<and> session_ended (session_get k (snd (session_rotate k new st)))"
  by (auto simp: session_rotate_def session_create_def session_get_def session_ended_def)

section \<open>Federation, recovery, break-glass\<close>

lemma federation_accepted_iff:
  "itd_decision (evaluateFederation i) = Fdd_ACCEPTED \<longleftrightarrow>
     (let p = efi_provider i; a = efi_assertion i in
      eip_issuerId p \<in> efi_issuerAllowlist i \<and> fas_issuerId a = eip_issuerId p \<and> \<not> eip_revoked p \<and>
      isFuture (eip_metadataExpiresAt p) (efi_now i) \<and> fas_audience a = efi_expectedAudience i \<and>
      isNonEmptyOpt (map_option isc_tenantId (fas_tenantMapping a)) \<and>
      (\<forall>c \<in> set (fas_claims a). privileged_claim c \<longrightarrow> c \<in> fst ` set (efi_mappings i)) \<and> isFuture (fas_expiresAt a) (efi_now i))"
  by (auto simp: evaluateFederation_def Let_def list_ex_iff)

lemma recovery_approved_iff:
  "itd_decision (rcr_decision (evaluateRecovery r e a now)) = Rcd_APPROVED \<longleftrightarrow>
     rcq_channelAssurance r \<noteq> Channel_low \<and> \<not> rce_used e \<and> isFuture (rcq_expiresAt r) now \<and>
     (\<exists>h. a = Some h \<and> hap_approverIsHuman h \<and> isNonEmptyString (hap_approvalId h) \<and>
          (if rcq_critical r then 2 else 1) \<le> rca_humanApprovals h)"
  by (cases a) (auto simp: evaluateRecovery_def Let_def human_approved_def HumanApproval.truncate_def)

text \<open>An approved recovery revokes all sessions and starts at the basic level; a refused one changes nothing.\<close>

lemma recovery_effects:
  "let x = evaluateRecovery r e a now in
   (rcr_revokeAllSessions x \<longleftrightarrow> itd_decision (rcr_decision x) = Rcd_APPROVED) \<and>
   assurance_meets A1_BASIC (rcr_initialAssurance x)"
  by (auto simp: evaluateRecovery_def Let_def assurance_meets_def ASSURANCE_RANK_def)

text \<open>Who started the recovery plays no part: an AI may.\<close>

lemma recovery_initiator_ignored: "evaluateRecovery (r\<lparr> rcq_initiatorIsAI := b \<rparr>) e a now = evaluateRecovery r e a now"
  by (simp add: evaluateRecovery_def Let_def)

lemma break_glass_granted_iff:
  "itd_decision (evaluateBreakGlass r) = Bgd_GRANTED \<longleftrightarrow>
     \<not> bgq_initiatorIsAI r \<and> isNonEmptyString (bgq_reason r) \<and>
     (if bgq_scopeKind r = Bg_global then 3 else 2) \<le>
       length (filter (\<lambda>a. bga_isHuman a \<and> isNonEmptyString (bga_authorityId a)) (bgq_approvals r)) \<and>
     (\<exists>e a. dateParse (bgq_expiresAt r) = Some e \<and> dateParse (bgq_at r) = Some a \<and> a < e \<and> e \<le> a + 3600000)"
  by (auto simp: evaluateBreakGlass_def Let_def BREAK_GLASS_MAX_MS_def split: option.splits)

text \<open>Approvals are counted, not compared: one authority named three times opens the break-glass of the whole system.\<close>

lemma break_glass_one_authority:
  assumes "itd_decision (evaluateBreakGlass r) = Bgd_GRANTED" "isNonEmptyString k"
  shows "itd_decision (evaluateBreakGlass (r\<lparr> bgq_scopeKind := Bg_global,
           bgq_approvals := replicate 3 \<lparr> bga_authorityId = k, bga_isHuman = True \<rparr> \<rparr>)) = Bgd_GRANTED"
  using assms unfolding break_glass_granted_iff by (simp add: numeral_3_eq_3)

section \<open>References and audit\<close>

lemma registry_keys_collide:
  "registry_get ''c'' \<lparr> isc_tenantId = ''t'', isc_workspaceId = ''w::b'', isc_organizationId = None \<rparr> reg =
   registry_get ''b::c'' \<lparr> isc_tenantId = ''t'', isc_workspaceId = ''w'', isc_organizationId = None \<rparr> reg"
  by (simp add: registry_get_def registry_key_def)

lemma revocation_recorded: "revocation_isRevoked k x (revocation_revoke k x st)"
  "revocation_isRevoked k x st \<Longrightarrow> revocation_isRevoked k x (revocation_revoke l y st)"
  by (simp_all add: revocation_isRevoked_def revocation_revoke_def)

inductive identity_log_reach :: "crypto \<Rightarrow> IdentityAuditInput audit_rows \<Rightarrow> bool" for C where
  identity_log_empty: "identity_log_reach C empty_rows"
| identity_log_append: "identity_log_reach C log \<Longrightarrow> identity_log_reach C (snd (identity_audit_append C i log))"

lemma identity_log_verifies: "identity_log_reach C log \<Longrightarrow> identity_verifyChain C s log"
proof -
  have "identity_log_reach C log \<Longrightarrow> sink_verify_from C identity_bodyOf AUDIT_GENESIS 1 (rows_partitions log k)" for k
    by (induction rule: identity_log_reach.induct)
      (simp add: empty_rows_def, simp only: identity_audit_append_def identity_rows.rows_append_verifies)
  then show "identity_log_reach C log \<Longrightarrow> ?thesis" by (simp add: identity_verifyChain_def identity_audit_entries_def)
qed

end
