(* ===== verification/Gov_Policy.thy ===== *)
theory Gov_Policy
  imports Complex_Main Crypto
begin

text \<open>
  \<^verbatim>\<open>governance/src/policy.ts\<close> with the scope of \<^verbatim>\<open>types.ts\<close> and \<^verbatim>\<open>hasUnsafeKeys\<close> of
  \<^verbatim>\<open>internal/crypto.ts\<close>: conditions over attributes in three-valued logic, the evaluation of a set of policies,
  the check for conflicts, activation and validation. The numbers of attributes are rational (the source has finite
  doubles); versions and priorities are integers. The texts for people are left out.
\<close>

section \<open>Attributes and conditions\<close>

datatype Attr = Attr_str string | Attr_num rat | Attr_bool bool

type_synonym AttributeBag = "(string \<times> Attr) list"

datatype PolicyCondition =
    C_always
  | C_attr_eq string Attr
  | C_attr_ne string Attr
  | C_attr_in string "Attr list"
  | C_attr_gte string rat
  | C_attr_lte string rat
  | C_and "PolicyCondition list"
  | C_or "PolicyCondition list"
  | C_not PolicyCondition

datatype TriState = Tri_true | Tri_false | Tri_unknown

definition MAX_CONDITION_DEPTH :: nat where "MAX_CONDITION_DEPTH = 32"

text \<open>
  \<^verbatim>\<open>attrs[name]\<close> on a plain object: an own attribute, else what the object inherits from
  \<^verbatim>\<open>Object.prototype\<close>, which is a function or an object and equal to no attribute value, else undefined.
\<close>

datatype lookup = Own Attr | Inherited | Undefined

definition object_prototype :: "string list" where
  "object_prototype =
     [''constructor'', ''__defineGetter__'', ''__defineSetter__'', ''hasOwnProperty'', ''__lookupGetter__'',
      ''__lookupSetter__'', ''isPrototypeOf'', ''propertyIsEnumerable'', ''toString'', ''valueOf'', ''__proto__'',
      ''toLocaleString'']"

definition attr_lookup :: "AttributeBag \<Rightarrow> string \<Rightarrow> lookup" where
  "attr_lookup attrs name =
     (case map_of attrs name of
        Some v \<Rightarrow> Own v
      | None \<Rightarrow> if name \<in> set object_prototype then Inherited else Undefined)"

definition tri :: "bool \<Rightarrow> TriState" where
  "tri b = (if b then Tri_true else Tri_false)"

definition defined_tri :: "lookup \<Rightarrow> (lookup \<Rightarrow> bool) \<Rightarrow> TriState" where
  "defined_tri v p = (if v = Undefined then Tri_unknown else tri (p v))"

definition number_tri :: "lookup \<Rightarrow> (rat \<Rightarrow> bool) \<Rightarrow> TriState" where
  "number_tri v p = (case v of Own (Attr_num n) \<Rightarrow> tri (p n) | _ \<Rightarrow> Tri_unknown)"

fun tri_not :: "TriState \<Rightarrow> TriState" where
  "tri_not Tri_unknown = Tri_unknown"
| "tri_not Tri_true = Tri_false"
| "tri_not Tri_false = Tri_true"

fun evaluateCondition :: "PolicyCondition \<Rightarrow> AttributeBag \<Rightarrow> nat \<Rightarrow> TriState"
  and and_loop :: "PolicyCondition list \<Rightarrow> AttributeBag \<Rightarrow> nat \<Rightarrow> bool \<Rightarrow> TriState"
  and or_loop :: "PolicyCondition list \<Rightarrow> AttributeBag \<Rightarrow> nat \<Rightarrow> bool \<Rightarrow> TriState" where
  "evaluateCondition C_always attrs depth = (if depth > MAX_CONDITION_DEPTH then Tri_unknown else Tri_true)"
| "evaluateCondition (C_attr_eq a x) attrs depth =
     (if depth > MAX_CONDITION_DEPTH then Tri_unknown else defined_tri (attr_lookup attrs a) (\<lambda>v. v = Own x))"
| "evaluateCondition (C_attr_ne a x) attrs depth =
     (if depth > MAX_CONDITION_DEPTH then Tri_unknown else defined_tri (attr_lookup attrs a) (\<lambda>v. v \<noteq> Own x))"
| "evaluateCondition (C_attr_in a xs) attrs depth =
     (if depth > MAX_CONDITION_DEPTH then Tri_unknown else defined_tri (attr_lookup attrs a) (\<lambda>v. v \<in> set (map Own xs)))"
| "evaluateCondition (C_attr_gte a x) attrs depth =
     (if depth > MAX_CONDITION_DEPTH then Tri_unknown else number_tri (attr_lookup attrs a) (\<lambda>n. n \<ge> x))"
| "evaluateCondition (C_attr_lte a x) attrs depth =
     (if depth > MAX_CONDITION_DEPTH then Tri_unknown else number_tri (attr_lookup attrs a) (\<lambda>n. n \<le> x))"
| "evaluateCondition (C_and cs) attrs depth =
     (if depth > MAX_CONDITION_DEPTH then Tri_unknown else and_loop cs attrs (depth + 1) False)"
| "evaluateCondition (C_or cs) attrs depth =
     (if depth > MAX_CONDITION_DEPTH then Tri_unknown else or_loop cs attrs (depth + 1) False)"
| "evaluateCondition (C_not c) attrs depth =
     (if depth > MAX_CONDITION_DEPTH then Tri_unknown else tri_not (evaluateCondition c attrs (depth + 1)))"
| "and_loop [] attrs depth sawUnknown = (if sawUnknown then Tri_unknown else Tri_true)"
| "and_loop (c # cs) attrs depth sawUnknown =
     (let r = evaluateCondition c attrs depth in
      if r = Tri_false then Tri_false else and_loop cs attrs depth (sawUnknown \<or> r = Tri_unknown))"
| "or_loop [] attrs depth sawUnknown = (if sawUnknown then Tri_unknown else Tri_false)"
| "or_loop (c # cs) attrs depth sawUnknown =
     (let r = evaluateCondition c attrs depth in
      if r = Tri_true then Tri_true else or_loop cs attrs depth (sawUnknown \<or> r = Tri_unknown))"

section \<open>Policies\<close>

record GovernanceScope =
  gsc_tenantId :: string
  gsc_workspaceId :: string

definition gov_sameScope :: "GovernanceScope \<Rightarrow> GovernanceScope \<Rightarrow> bool" where
  "gov_sameScope a b \<longleftrightarrow> gsc_tenantId a = gsc_tenantId b \<and> gsc_workspaceId a = gsc_workspaceId b"

datatype GovRuntimeMode = Govmode_test | Govmode_production
datatype GovPolicyEffect = Gov_ALLOW | Gov_DENY
datatype GovPolicyStatus = Pst_draft | Pst_active | Pst_revoked | Pst_expired

text \<open>The list of a target, or the wildcard.\<close>

datatype names = Any | Names "string list"

record PolicyTarget =
  tgt_actions :: names
  tgt_resourceTypes :: names

record GovPolicyRule =
  gpr_ruleId :: string
  gpr_effect :: GovPolicyEffect
  gpr_target :: PolicyTarget
  gpr_condition :: PolicyCondition
  gpr_priority :: int

record GovPolicy =
  gpo_policyId :: string
  gpo_version :: int
  gpo_status :: GovPolicyStatus
  gpo_tenantScope :: GovernanceScope
  gpo_rules :: "GovPolicyRule list"
  gpo_signatureRef :: "string option"
  gpo_issuerRef :: string
  gpo_createdAt :: string
  gpo_expiresAt :: "string option"
  gpo_previousVersionDigest :: "string option"

type_synonym GovPolicySet = "GovPolicy list"

datatype PolicyEvaluationStatus =
    Pe_ALLOW | Pe_DENY | Pe_POLICY_CONFLICT | Pe_NO_MATCH_DENY | Pe_EXPIRED | Pe_REVOKED | Pe_UNSIGNED_INACTIVE
  | Pe_TENANT_MISMATCH | Pe_MALFORMED

record GovPolicyContext =
  gpc_scope :: GovernanceScope
  gpc_action :: string
  gpc_resourceType :: string
  gpc_attributes :: AttributeBag
  gpc_mode :: GovRuntimeMode
  gpc_now :: string

record GovPolicyResult =
  gpx_status :: PolicyEvaluationStatus
  gpx_reasonCode :: string
  gpx_matchedPolicyRefs :: "string list"
  gpx_conflictingRefs :: "string list"

fun names_include :: "names \<Rightarrow> string \<Rightarrow> bool" where
  "names_include Any s = True"
| "names_include (Names xs) s = (s \<in> set xs)"

definition targetMatches :: "PolicyTarget \<Rightarrow> string \<Rightarrow> string \<Rightarrow> bool" where
  "targetMatches target action resourceType \<longleftrightarrow>
     names_include (tgt_actions target) action \<and> names_include (tgt_resourceTypes target) resourceType"

text \<open>\<^verbatim>\<open>None\<close> stands for \<^verbatim>\<open>"OK"\<close>; a comparison with a time that is no date is false.\<close>

definition policyUsable :: "GovPolicy \<Rightarrow> GovPolicyContext \<Rightarrow> PolicyEvaluationStatus option" where
  "policyUsable p ctx =
     (if \<not> gov_sameScope (gpo_tenantScope p) (gpc_scope ctx) then Some Pe_TENANT_MISMATCH
      else if gpo_status p = Pst_revoked then Some Pe_REVOKED
      else if gpo_status p = Pst_draft then Some Pe_UNSIGNED_INACTIVE
      else if (case gpo_expiresAt p of None \<Rightarrow> False | Some e \<Rightarrow> e \<noteq> [] \<and> isAtOrBefore e (gpc_now ctx)) then Some Pe_EXPIRED
      else if gpc_mode ctx = Govmode_production \<and> \<not> isNonEmptyOpt (gpo_signatureRef p) then Some Pe_UNSIGNED_INACTIVE
      else None)"

definition unsafe_key :: "string \<Rightarrow> bool" where
  "unsafe_key k \<longleftrightarrow> k \<in> {''__proto__'', ''prototype'', ''constructor''}"

text \<open>\<^verbatim>\<open>hasUnsafeKeys\<close> on a bag: its values are no objects.\<close>

definition unsafe_attributes :: "AttributeBag \<Rightarrow> bool" where
  "unsafe_attributes attrs \<longleftrightarrow> list_ex (unsafe_key \<circ> fst) attrs"

definition rule_ref :: "GovPolicy \<Rightarrow> GovPolicyRule \<Rightarrow> string" where
  "rule_ref p r = gpo_policyId p @ ''@v'' @ show_int (gpo_version p) @ ''#'' @ gpr_ruleId r"

text \<open>The rules of the usable policies whose target matches, in the order of the two loops.\<close>

definition matching_rules :: "GovPolicySet \<Rightarrow> GovPolicyContext \<Rightarrow> (GovPolicy \<times> GovPolicyRule) list" where
  "matching_rules ps ctx =
     concat (map (\<lambda>p. if policyUsable p ctx \<noteq> None then []
                      else map (Pair p) (filter (\<lambda>r. targetMatches (gpr_target r) (gpc_action ctx) (gpc_resourceType ctx)) (gpo_rules p)))
               ps)"

definition denies :: "GovPolicyContext \<Rightarrow> GovPolicy \<times> GovPolicyRule \<Rightarrow> bool" where
  "denies ctx pr \<longleftrightarrow> gpr_effect (snd pr) = Gov_DENY \<and> evaluateCondition (gpr_condition (snd pr)) (gpc_attributes ctx) 0 \<noteq> Tri_false"

definition allows :: "GovPolicyContext \<Rightarrow> GovPolicy \<times> GovPolicyRule \<Rightarrow> bool" where
  "allows ctx pr \<longleftrightarrow> gpr_effect (snd pr) = Gov_ALLOW \<and> evaluateCondition (gpr_condition (snd pr)) (gpc_attributes ctx) 0 = Tri_true"

definition evaluatePolicySet :: "GovPolicySet \<Rightarrow> GovPolicyContext \<Rightarrow> GovPolicyResult" where
  "evaluatePolicySet ps ctx =
     (if unsafe_attributes (gpc_attributes ctx) then
        \<lparr> gpx_status = Pe_MALFORMED, gpx_reasonCode = ''unsafe_attribute_keys'', gpx_matchedPolicyRefs = [], gpx_conflictingRefs = [] \<rparr>
      else
        (let rs = matching_rules ps ctx;
             applicableDenies = map (\<lambda>(p, r). rule_ref p r) (filter (denies ctx) rs);
             applicableAllows = map (\<lambda>(p, r). rule_ref p r) (filter (allows ctx) rs)
         in if applicableDenies \<noteq> [] then
              \<lparr> gpx_status = Pe_DENY, gpx_reasonCode = ''explicit_deny'', gpx_matchedPolicyRefs = applicableDenies, gpx_conflictingRefs = [] \<rparr>
            else if applicableAllows = [] then
              \<lparr> gpx_status = Pe_NO_MATCH_DENY, gpx_reasonCode = ''no_matching_allow'', gpx_matchedPolicyRefs = [], gpx_conflictingRefs = [] \<rparr>
            else
              \<lparr> gpx_status = Pe_ALLOW, gpx_reasonCode = ''policy_allow'', gpx_matchedPolicyRefs = applicableAllows, gpx_conflictingRefs = [] \<rparr>))"

text \<open>The map from priorities to effects, as the question whether one of them has both.\<close>

definition definite_rules :: "GovPolicySet \<Rightarrow> GovPolicyContext \<Rightarrow> (GovPolicy \<times> GovPolicyRule) list" where
  "definite_rules ps ctx =
     filter (\<lambda>(p, r). evaluateCondition (gpr_condition r) (gpc_attributes ctx) 0 = Tri_true) (matching_rules ps ctx)"

definition detectPolicyConflict :: "GovPolicySet \<Rightarrow> GovPolicyContext \<Rightarrow> GovPolicyResult" where
  "detectPolicyConflict ps ctx =
     (let rs = map snd (definite_rules ps ctx); refs = map (\<lambda>(p, r). rule_ref p r) (definite_rules ps ctx) in
      if list_ex (\<lambda>a. list_ex (\<lambda>d. gpr_priority a = gpr_priority d \<and> gpr_effect a = Gov_ALLOW \<and> gpr_effect d = Gov_DENY) rs) rs then
        \<lparr> gpx_status = Pe_POLICY_CONFLICT, gpx_reasonCode = ''policy_conflict_same_priority'', gpx_matchedPolicyRefs = refs, gpx_conflictingRefs = refs \<rparr>
      else evaluatePolicySet ps ctx)"

section \<open>Activation and validation\<close>

datatype proposer_kind = Prop_HUMAN | Prop_AGENT | Prop_SERVICE | Prop_SYSTEM
datatype PolicyActivationStatus = Act_ACTIVATED | Act_AI_CANNOT_ACTIVATE | Act_APPROVAL_REQUIRED | Act_SIGNATURE_REQUIRED

record PolicyActivationRequest =
  par_policyId :: string
  par_version :: int
  par_proposedByKind :: proposer_kind
  par_approvalRef :: "string option"
  par_signatureRef :: "string option"
  par_mode :: GovRuntimeMode

definition evaluatePolicyActivation :: "PolicyActivationRequest \<Rightarrow> PolicyActivationStatus" where
  "evaluatePolicyActivation req =
     (if par_proposedByKind req = Prop_AGENT then Act_AI_CANNOT_ACTIVATE
      else if par_mode req = Govmode_production \<and> \<not> isNonEmptyOpt (par_signatureRef req) then Act_SIGNATURE_REQUIRED
      else if \<not> isNonEmptyOpt (par_approvalRef req) then Act_APPROVAL_REQUIRED
      else Act_ACTIVATED)"

definition assertRevokedPolicyNotReused :: "GovPolicyStatus \<Rightarrow> unit result" where
  "assertRevokedPolicyNotReused status =
     (if status = Pst_revoked then Inl (JsError ''A revoked policy version cannot be reused or re-activated.'') else Inr ())"

text \<open>
  \<^verbatim>\<open>hasUnsafeKeys\<close> on a condition: none of its keys is unsafe, so only the depth of the object decides. Every
  property is one level deeper, and the elements of an array two.
\<close>

fun unsafe_condition :: "nat \<Rightarrow> PolicyCondition \<Rightarrow> bool" where
  "unsafe_condition depth (C_and cs) = (depth > 63 \<or> list_ex (unsafe_condition (depth + 2)) cs)"
| "unsafe_condition depth (C_or cs) = (depth > 63 \<or> list_ex (unsafe_condition (depth + 2)) cs)"
| "unsafe_condition depth (C_not c) = (depth > 63 \<or> unsafe_condition (depth + 1) c)"
| "unsafe_condition depth (C_attr_in a xs) = (depth > 63 \<or> (xs \<noteq> [] \<and> depth + 2 > 64))"
| "unsafe_condition depth _ = (depth > 63)"

fun conditionDepth :: "PolicyCondition \<Rightarrow> nat \<Rightarrow> nat" where
  "conditionDepth (C_and cs) depth =
     (if depth > MAX_CONDITION_DEPTH + 1 then depth else fold max (map (\<lambda>c. conditionDepth c (depth + 1)) cs) depth)"
| "conditionDepth (C_or cs) depth =
     (if depth > MAX_CONDITION_DEPTH + 1 then depth else fold max (map (\<lambda>c. conditionDepth c (depth + 1)) cs) depth)"
| "conditionDepth (C_not c) depth = (if depth > MAX_CONDITION_DEPTH + 1 then depth else conditionDepth c (depth + 1))"
| "conditionDepth _ depth = depth"

fun validate_rules :: "GovPolicyRule list \<Rightarrow> bool \<times> string" where
  "validate_rules [] = (True, ''policy_valid'')"
| "validate_rules (r # rs) =
     (if unsafe_condition 0 (gpr_condition r) then (False, ''unsafe_condition_keys'')
      else if conditionDepth (gpr_condition r) 0 > MAX_CONDITION_DEPTH then (False, ''condition_too_deep'')
      else validate_rules rs)"

definition validatePolicy :: "GovPolicy \<Rightarrow> bool \<times> string" where
  "validatePolicy p =
     (if \<not> isNonEmptyString (gpo_policyId p) \<or> gpo_version p < 1 then (False, ''policy_id_or_version_invalid'')
      else validate_rules (gpo_rules p))"

section \<open>Reference semantics\<close>

text \<open>
  Kleene's logic on the ranks 0 (false), 1 (unknown) and 2 (true), without a bound on the depth: a conjunction is
  the minimum, a disjunction the maximum.
\<close>

fun tri_rank :: "TriState \<Rightarrow> int" where
  "tri_rank Tri_false = 0"
| "tri_rank Tri_unknown = 1"
| "tri_rank Tri_true = 2"

fun kleene :: "AttributeBag \<Rightarrow> PolicyCondition \<Rightarrow> int" where
  "kleene attrs (C_and cs) = foldr min (map (kleene attrs) cs) 2"
| "kleene attrs (C_or cs) = foldr max (map (kleene attrs) cs) 0"
| "kleene attrs (C_not c) = 2 - kleene attrs c"
| "kleene attrs c = tri_rank (evaluateCondition c attrs 0)"

fun nesting :: "PolicyCondition \<Rightarrow> nat" where
  "nesting (C_and cs) = foldr max (map (\<lambda>c. Suc (nesting c)) cs) 0"
| "nesting (C_or cs) = foldr max (map (\<lambda>c. Suc (nesting c)) cs) 0"
| "nesting (C_not c) = Suc (nesting c)"
| "nesting _ = 0"

lemma tri_rank_range [simp]: "0 \<le> tri_rank t" "tri_rank t \<le> 2"
  by (cases t; simp)+

lemma tri_rank_inject [simp]: "tri_rank s = tri_rank t \<longleftrightarrow> s = t"
  by (cases s; cases t) simp_all

lemma tri_rank_not [simp]: "tri_rank (tri_not t) = 2 - tri_rank t"
  by (cases t) simp_all

lemma foldr_max_le: "foldr max xs (b :: nat) \<le> n \<longleftrightarrow> b \<le> n \<and> (\<forall>x \<in> set xs. x \<le> n)"
  by (induction xs) auto

lemma nesting_member:
  assumes "c \<in> set cs"
  shows "Suc (nesting c) \<le> nesting (C_and cs)" "Suc (nesting c) \<le> nesting (C_or cs)"
  using foldr_max_le [of "map (\<lambda>c. Suc (nesting c)) cs" 0 "foldr max (map (\<lambda>c. Suc (nesting c)) cs) 0"] assms by auto

lemma foldr_min_range: "(\<forall>x \<in> set xs. 0 \<le> x \<and> x \<le> 2) \<Longrightarrow> 0 \<le> foldr min xs 2 \<and> foldr min xs (2 :: int) \<le> 2"
  by (induction xs) auto

lemma foldr_max_range: "(\<forall>x \<in> set xs. 0 \<le> x \<and> x \<le> 2) \<Longrightarrow> 0 \<le> foldr max xs 0 \<and> foldr max xs (0 :: int) \<le> 2"
  by (induction xs) auto

lemma kleene_range: "0 \<le> kleene attrs c \<and> kleene attrs c \<le> 2"
proof (induction attrs c rule: kleene.induct)
  case (1 attrs cs) then show ?case using foldr_min_range [of "map (kleene attrs) cs"] by simp
next
  case (2 attrs cs) then show ?case using foldr_max_range [of "map (kleene attrs) cs"] by simp
next
  case (3 attrs c) then show ?case by simp
qed (simp_all only: kleene.simps tri_rank_range simp_thms)

lemma kleene_folds [simp]:
  "min 2 (foldr min (map (kleene attrs) cs) 2) = foldr min (map (kleene attrs) cs) 2" "min 0 (foldr min (map (kleene attrs) cs) 2) = 0"
  "max 0 (foldr max (map (kleene attrs) cs) 0) = foldr max (map (kleene attrs) cs) 0" "max 2 (foldr max (map (kleene attrs) cs) 0) = 2"
  using foldr_min_range [of "map (kleene attrs) cs"] foldr_max_range [of "map (kleene attrs) cs"] kleene_range by auto

lemma evaluate_kleene:
  "depth + nesting c \<le> MAX_CONDITION_DEPTH \<Longrightarrow> tri_rank (evaluateCondition c attrs depth) = kleene attrs c"
  "(\<forall>c \<in> set cs. depth + nesting c \<le> MAX_CONDITION_DEPTH) \<Longrightarrow>
     tri_rank (and_loop cs attrs depth u) = (if u then min 1 (foldr min (map (kleene attrs) cs) 2) else foldr min (map (kleene attrs) cs) 2)"
  "(\<forall>c \<in> set cs. depth + nesting c \<le> MAX_CONDITION_DEPTH) \<Longrightarrow>
     tri_rank (or_loop cs attrs depth u) = (if u then max 1 (foldr max (map (kleene attrs) cs) 0) else foldr max (map (kleene attrs) cs) 0)"
proof (induction c attrs depth and cs attrs depth u and cs attrs depth u rule: evaluateCondition_and_loop_or_loop.induct)
  case (7 cs attrs depth)
  have "depth + 1 + nesting c \<le> MAX_CONDITION_DEPTH" if "c \<in> set cs" for c
    using nesting_member [OF that] 7(2) by linarith
  then show ?case using 7 by simp
next
  case (8 cs attrs depth)
  have "depth + 1 + nesting c \<le> MAX_CONDITION_DEPTH" if "c \<in> set cs" for c
    using nesting_member [OF that] 8(2) by linarith
  then show ?case using 8 by simp
next
  case (11 c cs attrs depth u)
  then show ?case
    by (cases "evaluateCondition c attrs depth")
      (simp_all add: Let_def)
next
  case (13 c cs attrs depth u)
  then show ?case
    by (cases "evaluateCondition c attrs depth")
      (simp_all add: Let_def)
qed (simp_all)

text \<open>A policy that passes the validation is evaluated in full: the bound on the depth is never met.\<close>

lemma fold_max_ge: "(b :: nat) \<le> fold max xs b \<and> (\<forall>x \<in> set xs. x \<le> fold max xs b)"
proof (induction xs arbitrary: b)
  case (Cons x xs)
  show ?case using Cons.IH [of "max x b"] by auto
qed simp

lemma conditionDepth_ge: "d \<le> conditionDepth c d"
  by (induction c d rule: conditionDepth.induct) (use fold_max_ge in \<open>auto intro: Suc_leD\<close>)

lemma conditionDepth_nesting: "conditionDepth c d \<le> MAX_CONDITION_DEPTH \<Longrightarrow> d + nesting c \<le> MAX_CONDITION_DEPTH"
proof (induction c d rule: conditionDepth.induct)
  case (1 cs depth)
  have "depth + Suc (nesting c) \<le> MAX_CONDITION_DEPTH" if "c \<in> set cs" for c
    using 1 that fold_max_ge [of depth "map (\<lambda>c. conditionDepth c (depth + 1)) cs"] by (force split: if_splits)
  moreover have "depth \<le> MAX_CONDITION_DEPTH" using 1(2) conditionDepth_ge [of depth "C_and cs"] by simp
  ultimately have "foldr max (map (\<lambda>c. Suc (nesting c)) cs) 0 \<le> MAX_CONDITION_DEPTH - depth"
    by (auto simp: foldr_max_le add_le_imp_le_diff add.commute)
  then show ?case using \<open>depth \<le> MAX_CONDITION_DEPTH\<close> by simp
next
  case (2 cs depth)
  have "depth + Suc (nesting c) \<le> MAX_CONDITION_DEPTH" if "c \<in> set cs" for c
    using 2 that fold_max_ge [of depth "map (\<lambda>c. conditionDepth c (depth + 1)) cs"] by (force split: if_splits)
  moreover have "depth \<le> MAX_CONDITION_DEPTH" using 2(2) conditionDepth_ge [of depth "C_or cs"] by simp
  ultimately have "foldr max (map (\<lambda>c. Suc (nesting c)) cs) 0 \<le> MAX_CONDITION_DEPTH - depth"
    by (auto simp: foldr_max_le add_le_imp_le_diff add.commute)
  then show ?case using \<open>depth \<le> MAX_CONDITION_DEPTH\<close> by simp
qed (auto split: if_splits)

lemma validated_rule: "fst (validate_rules rs) \<Longrightarrow> r \<in> set rs \<Longrightarrow> conditionDepth (gpr_condition r) 0 \<le> MAX_CONDITION_DEPTH"
  by (induction rs) (auto split: if_splits)

lemma validated_condition_evaluates:
  assumes "fst (validatePolicy p)" "r \<in> set (gpo_rules p)"
  shows "tri_rank (evaluateCondition (gpr_condition r) attrs 0) = kleene attrs (gpr_condition r)"
proof -
  have "conditionDepth (gpr_condition r) 0 \<le> MAX_CONDITION_DEPTH"
    using assms validated_rule by (simp add: validatePolicy_def split: if_splits)
  then show ?thesis using conditionDepth_nesting evaluate_kleene(1) by blast
qed

section \<open>More attributes never take back a definite answer\<close>

definition bag_extends :: "AttributeBag \<Rightarrow> AttributeBag \<Rightarrow> bool" where
  "bag_extends small large \<longleftrightarrow>
     (\<forall>k v. map_of small k = Some v \<longrightarrow> map_of large k = Some v) \<and>
     (\<forall>k \<in> set object_prototype. map_of large k = map_of small k)"

lemma bag_extends_lookup:
  "bag_extends small large \<Longrightarrow> attr_lookup small k = attr_lookup large k \<or> attr_lookup small k = Undefined"
  unfolding bag_extends_def attr_lookup_def by (auto split: option.splits)

lemma and_loop_unknown: "and_loop cs attrs d True \<noteq> Tri_true"
  by (induction cs) (auto simp: Let_def)

lemma or_loop_unknown: "or_loop cs attrs d True \<noteq> Tri_false"
  by (induction cs) (auto simp: Let_def)

lemma definite_answers_stay:
  "bag_extends small large \<Longrightarrow> evaluateCondition c small d = t \<Longrightarrow> t \<noteq> Tri_unknown \<Longrightarrow> evaluateCondition c large d = t"
  "bag_extends small large \<Longrightarrow> and_loop cs small d u = t \<Longrightarrow> t \<noteq> Tri_unknown \<Longrightarrow> (\<forall>v. (v \<longrightarrow> u) \<longrightarrow> and_loop cs large d v = t)"
  "bag_extends small large \<Longrightarrow> or_loop cs small d u = t \<Longrightarrow> t \<noteq> Tri_unknown \<Longrightarrow> (\<forall>v. (v \<longrightarrow> u) \<longrightarrow> or_loop cs large d v = t)"
proof (induction c small d and cs small d u and cs small d u arbitrary: t and t and t
    rule: evaluateCondition_and_loop_or_loop.induct)
  case (2 a x attrs depth)
  then show ?case using bag_extends_lookup [OF 2(1), of a] by (auto simp: defined_tri_def split: if_splits)
next
  case (3 a x attrs depth)
  then show ?case using bag_extends_lookup [OF 3(1), of a] by (auto simp: defined_tri_def split: if_splits)
next
  case (4 a x attrs depth)
  then show ?case using bag_extends_lookup [OF 4(1), of a] by (auto simp: defined_tri_def split: if_splits)
next
  case (5 a x attrs depth)
  then show ?case using bag_extends_lookup [OF 5(1), of a] by (auto simp: number_tri_def split: if_splits)
next
  case (6 a x attrs depth)
  then show ?case using bag_extends_lookup [OF 6(1), of a] by (auto simp: number_tri_def split: if_splits)
next
  case (9 c attrs depth)
  then show ?case by (cases "evaluateCondition c attrs (depth + 1)") (auto split: if_splits)
next
  case (11 c cs attrs depth u)
  then show ?case using and_loop_unknown [of cs attrs depth] by (cases "evaluateCondition c attrs depth"; cases t) (auto simp: Let_def)
next
  case (13 c cs attrs depth u)
  then show ?case using or_loop_unknown [of cs attrs depth] by (cases "evaluateCondition c attrs depth"; cases t) (auto simp: Let_def)
qed (auto split: if_splits)

section \<open>What a set of policies decides\<close>

definition applicable :: "GovPolicyContext \<Rightarrow> GovPolicy \<Rightarrow> GovPolicyRule \<Rightarrow> bool" where
  "applicable ctx p r \<longleftrightarrow>
     r \<in> set (gpo_rules p) \<and> policyUsable p ctx = None \<and> targetMatches (gpr_target r) (gpc_action ctx) (gpc_resourceType ctx)"

lemma matching_rules_iff: "(p, r) \<in> set (matching_rules ps ctx) \<longleftrightarrow> p \<in> set ps \<and> applicable ctx p r"
  by (auto simp: matching_rules_def applicable_def)

lemma policyUsable_attributes [simp]: "policyUsable p (ctx\<lparr> gpc_attributes := a \<rparr>) = policyUsable p ctx"
  by (cases "gpo_expiresAt p") (simp_all add: policyUsable_def)

lemma applicable_attributes [simp]: "applicable (ctx\<lparr> gpc_attributes := a \<rparr>) p r \<longleftrightarrow> applicable ctx p r"
  by (simp add: applicable_def)

lemma policy_allow_iff:
  "gpx_status (evaluatePolicySet ps ctx) = Pe_ALLOW \<longleftrightarrow>
     \<not> unsafe_attributes (gpc_attributes ctx) \<and>
     (\<exists>p r. p \<in> set ps \<and> applicable ctx p r \<and> allows ctx (p, r)) \<and>
     (\<forall>p r. p \<in> set ps \<longrightarrow> applicable ctx p r \<longrightarrow> \<not> denies ctx (p, r))"
proof -
  have "filter f (matching_rules ps ctx) = [] \<longleftrightarrow> (\<forall>p r. p \<in> set ps \<longrightarrow> applicable ctx p r \<longrightarrow> \<not> f (p, r))" for f
    by (auto simp: filter_empty_conv matching_rules_iff)
  then show ?thesis by (auto simp: evaluatePolicySet_def Let_def)
qed

text \<open>A conflict among rules that definitely apply includes a denial, so it never hides an allowance.\<close>

lemma conflict_check_allows_iff:
  "gpx_status (detectPolicyConflict ps ctx) = Pe_ALLOW \<longleftrightarrow> gpx_status (evaluatePolicySet ps ctx) = Pe_ALLOW"
proof -
  have "False" if a: "gpx_status (evaluatePolicySet ps ctx) = Pe_ALLOW" and m: "(p, r) \<in> set (definite_rules ps ctx)"
    and d: "gpr_effect r = Gov_DENY" for p r
    using a m d by (auto simp: policy_allow_iff definite_rules_def matching_rules_iff denies_def)
  then show ?thesis by (auto simp: detectPolicyConflict_def Let_def list_ex_iff)
qed

lemma policy_conflict_iff:
  "gpx_status (detectPolicyConflict ps ctx) = Pe_POLICY_CONFLICT \<longleftrightarrow>
     (\<exists>p r q d. (p, r) \<in> set (definite_rules ps ctx) \<and> (q, d) \<in> set (definite_rules ps ctx) \<and>
        gpr_effect r = Gov_ALLOW \<and> gpr_effect d = Gov_DENY \<and> gpr_priority r = gpr_priority d)"
  by (auto simp: detectPolicyConflict_def evaluatePolicySet_def Let_def list_ex_iff) fastforce+

lemma more_attributes_keep_allow:
  assumes "bag_extends (gpc_attributes ctx) wider" "\<not> unsafe_attributes wider"
    and "gpx_status (evaluatePolicySet ps ctx) = Pe_ALLOW"
  shows "gpx_status (evaluatePolicySet ps (ctx\<lparr> gpc_attributes := wider \<rparr>)) = Pe_ALLOW"
proof -
  let ?c = "ctx\<lparr> gpc_attributes := wider \<rparr>"
  have "allows ?c (p, r)" if "allows ctx (p, r)" for p r
    using that definite_answers_stay(1) [OF assms(1)] by (simp add: allows_def)
  moreover have "\<not> denies ?c (p, r)" if "\<not> denies ctx (p, r)" for p r
    using that definite_answers_stay(1) [OF assms(1)] by (auto simp: denies_def)
  ultimately show ?thesis using assms(2,3) unfolding policy_allow_iff by auto
qed


definition demo_policy :: GovPolicy where
  "demo_policy =
     \<lparr> gpo_policyId = ''pol'', gpo_version = 1, gpo_status = Pst_active,
       gpo_tenantScope = \<lparr> gsc_tenantId = ''t'', gsc_workspaceId = ''w'' \<rparr>,
       gpo_rules =
         [\<lparr> gpr_ruleId = ''a'', gpr_effect = Gov_ALLOW, gpr_target = \<lparr> tgt_actions = Names [''read''], tgt_resourceTypes = Any \<rparr>,
            gpr_condition = C_attr_eq ''role'' (Attr_str ''editor''), gpr_priority = 1 \<rparr>,
          \<lparr> gpr_ruleId = ''d'', gpr_effect = Gov_DENY, gpr_target = \<lparr> tgt_actions = Any, tgt_resourceTypes = Any \<rparr>,
            gpr_condition = C_not (C_or [C_attr_eq ''role'' (Attr_str ''editor''), C_attr_gte ''level'' 3]), gpr_priority = 1 \<rparr>],
       gpo_signatureRef = Some ''sig'', gpo_issuerRef = ''i'', gpo_createdAt = [], gpo_expiresAt = None,
       gpo_previousVersionDigest = None \<rparr>"

definition demo_gov_context :: "AttributeBag \<Rightarrow> GovPolicyContext" where
  "demo_gov_context attrs =
     \<lparr> gpc_scope = \<lparr> gsc_tenantId = ''t'', gsc_workspaceId = ''w'' \<rparr>, gpc_action = ''read'', gpc_resourceType = ''doc'',
       gpc_attributes = attrs, gpc_mode = Govmode_production, gpc_now = ''2026-01-01T00:00:00.000Z'' \<rparr>"

lemma demo_policy_valid: "validatePolicy demo_policy = (True, ''policy_valid'')"
  by (simp add: validatePolicy_def demo_policy_def isNonEmptyString_iff is_ws_def MAX_CONDITION_DEPTH_def)


section \<open>What the comments do not say\<close>

text \<open>A policy whose status is \<^verbatim>\<open>expired\<close> is used like an active one; only its date can end it.\<close>

lemma expired_status_is_usable:
  "policyUsable (p\<lparr> gpo_status := Pst_expired \<rparr>) ctx = policyUsable (p\<lparr> gpo_status := Pst_active \<rparr>) ctx"
  by (simp add: policyUsable_def)

text \<open>An expiry that is no date never comes.\<close>

lemma unreadable_expiry_is_usable:
  "dateParse e = None \<Longrightarrow> policyUsable (p\<lparr> gpo_expiresAt := Some e \<rparr>) ctx = policyUsable (p\<lparr> gpo_expiresAt := None \<rparr>) ctx"
  by (simp add: policyUsable_def isAtOrBefore_def)

text \<open>An attribute that is absent but has the name of a method every object inherits satisfies \<^verbatim>\<open>attr_ne\<close>.\<close>

lemma inherited_attribute_satisfies: "evaluateCondition (C_attr_ne ''toString'' x) [] 0 = Tri_true"
  by (simp add: MAX_CONDITION_DEPTH_def attr_lookup_def object_prototype_def defined_tri_def tri_def)

text \<open>The evaluation alone never reports a conflict.\<close>

lemma evaluation_reports_no_conflict: "gpx_status (evaluatePolicySet ps ctx) \<noteq> Pe_POLICY_CONFLICT"
  by (simp add: evaluatePolicySet_def Let_def)

end
