(* ===== verification/Readiness.thy ===== *)
theory Readiness
  imports Prelude
begin

text \<open>
  The readiness check that the layers repeat in their \<^verbatim>\<open>health.ts\<close>: every critical dependency must have been reported as
  ready. A layer supplies the list of its critical dependencies; the decision, written once, is
  \<open>evaluate_readiness\<close>. Dependencies and health states are their texts.
\<close>

datatype readiness_decision = Layer_READY | Layer_STARTUP_REJECTED | Layer_READINESS_REVOKED

record readiness_result =
  rdy_decision :: readiness_decision
  rdy_missing :: "string list"
  rdy_unhealthy :: "string list"

text \<open>The reports as pairs of dependency and status, as a map: the last report of a dependency counts.\<close>

definition reported :: "(string \<times> string) list \<Rightarrow> string \<Rightarrow> string option" where
  "reported reports = map_of (rev reports)"

definition evaluate_readiness :: "string list \<Rightarrow> (string \<times> string) list \<Rightarrow> bool \<Rightarrow> bool \<Rightarrow> readiness_result" where
  "evaluate_readiness critical reports running trustedProduction =
     (let missing = filter (\<lambda>d. reported reports d = None) critical;
          unhealthy = filter (\<lambda>d. reported reports d \<notin> {None, Some ''READY''}) critical;
          ready = (missing = [] \<and> unhealthy = []);
          result = (\<lambda>decision. \<lparr> rdy_decision = decision, rdy_missing = missing, rdy_unhealthy = unhealthy \<rparr>)
      in if \<not> trustedProduction then result (if ready then Layer_READY else Layer_STARTUP_REJECTED)
         else if ready then result Layer_READY
         else result (if running then Layer_READINESS_REVOKED else Layer_STARTUP_REJECTED))"

section \<open>The layers\<close>

definition CRITICAL_IDENTITY_DEPENDENCIES :: "string list" where
  "CRITICAL_IDENTITY_DEPENDENCIES =
     [''trusted_clock'', ''revocation_source'', ''issuer_registry'', ''credential_verifier'', ''audit_sink'', ''tenant_resolver'',
      ''session_store'', ''replay_protection'', ''trust_anchor'']"

definition evaluateIdentityReadiness :: "(string \<times> string) list \<Rightarrow> bool \<Rightarrow> bool \<Rightarrow> readiness_result" where
  "evaluateIdentityReadiness = evaluate_readiness CRITICAL_IDENTITY_DEPENDENCIES"

definition CRITICAL_GOVERNANCE_DEPENDENCIES :: "string list" where
  "CRITICAL_GOVERNANCE_DEPENDENCIES =
     [''identity_trust'', ''policy_repository'', ''authorization_source'', ''capability_registry'', ''approval_store'', ''risk_source'',
      ''audit_sink'', ''trusted_clock'', ''revocation_source'']"

definition evaluateGovernanceReadiness :: "(string \<times> string) list \<Rightarrow> bool \<Rightarrow> bool \<Rightarrow> readiness_result" where
  "evaluateGovernanceReadiness = evaluate_readiness CRITICAL_GOVERNANCE_DEPENDENCIES"

definition CRITICAL_AGENT_RUNTIME_DEPENDENCIES :: "string list" where
  "CRITICAL_AGENT_RUNTIME_DEPENDENCIES =
     [''governance_gate'', ''identity_resolver'', ''sandbox_provider'', ''event_bus'', ''memory_gateway'', ''reasoner_adapter'',
      ''injection_classifier'', ''approval_center'', ''audit_sink'', ''trusted_clock'']"

definition evaluateAgentRuntimeReadiness :: "(string \<times> string) list \<Rightarrow> bool \<Rightarrow> bool \<Rightarrow> readiness_result" where
  "evaluateAgentRuntimeReadiness = evaluate_readiness CRITICAL_AGENT_RUNTIME_DEPENDENCIES"

definition CRITICAL_CONTENT_TRUST_DEPENDENCIES :: "string list" where
  "CRITICAL_CONTENT_TRUST_DEPENDENCIES = [''classifier'', ''detection_provider'', ''audit_ledger'', ''policy_source'', ''trusted_clock'']"

definition evaluateContentTrustReadiness :: "(string \<times> string) list \<Rightarrow> bool \<Rightarrow> bool \<Rightarrow> readiness_result" where
  "evaluateContentTrustReadiness = evaluate_readiness CRITICAL_CONTENT_TRUST_DEPENDENCIES"

definition CRITICAL_DETECTION_DEPENDENCIES :: "string list" where
  "CRITICAL_DETECTION_DEPENDENCIES = [''detector'', ''audit_ledger'', ''policy_source'', ''trusted_clock'']"

definition evaluateDetectionReadiness :: "(string \<times> string) list \<Rightarrow> bool \<Rightarrow> bool \<Rightarrow> readiness_result" where
  "evaluateDetectionReadiness = evaluate_readiness CRITICAL_DETECTION_DEPENDENCIES"

definition CRITICAL_SECRET_ACCESS_DEPENDENCIES :: "string list" where
  "CRITICAL_SECRET_ACCESS_DEPENDENCIES =
     [''materializer_port'', ''audit_ledger'', ''approval_channel'', ''permit_verifier'', ''sandbox_admission'', ''trusted_clock'']"

definition evaluateSecretAccessReadiness :: "(string \<times> string) list \<Rightarrow> bool \<Rightarrow> bool \<Rightarrow> readiness_result" where
  "evaluateSecretAccessReadiness = evaluate_readiness CRITICAL_SECRET_ACCESS_DEPENDENCIES"

definition CRITICAL_TENANT_DEPENDENCIES :: "string list" where
  "CRITICAL_TENANT_DEPENDENCIES = [''tenant_directory'', ''audit_ledger'', ''region_policy_source'', ''trusted_clock'']"

definition evaluateTenantBoundaryReadiness :: "(string \<times> string) list \<Rightarrow> bool \<Rightarrow> bool \<Rightarrow> readiness_result" where
  "evaluateTenantBoundaryReadiness = evaluate_readiness CRITICAL_TENANT_DEPENDENCIES"

definition CRITICAL_TOOL_FIREWALL_DEPENDENCIES :: "string list" where
  "CRITICAL_TOOL_FIREWALL_DEPENDENCIES =
     [''tool_registry'', ''connector_verifier'', ''schema_validator'', ''egress_policy'', ''kill_switch'', ''audit_sink'', ''trusted_clock'']"

definition evaluateToolFirewallReadiness :: "(string \<times> string) list \<Rightarrow> bool \<Rightarrow> bool \<Rightarrow> readiness_result" where
  "evaluateToolFirewallReadiness = evaluate_readiness CRITICAL_TOOL_FIREWALL_DEPENDENCIES"

definition CRITICAL_EXECUTION_DEPENDENCIES :: "string list" where
  "CRITICAL_EXECUTION_DEPENDENCIES = [''permit_consumer'', ''sandbox'', ''executor'', ''audit_sink'', ''trusted_clock'']"

definition evaluateExecutionReadiness :: "(string \<times> string) list \<Rightarrow> bool \<Rightarrow> bool \<Rightarrow> readiness_result" where
  "evaluateExecutionReadiness = evaluate_readiness CRITICAL_EXECUTION_DEPENDENCIES"

definition CRITICAL_PROMPT_FIREWALL_DEPENDENCIES :: "string list" where
  "CRITICAL_PROMPT_FIREWALL_DEPENDENCIES =
     [''normalizer'', ''injection_classifier'', ''content_trust'', ''detection_provider'', ''audit_ledger'', ''trusted_clock'']"

definition evaluatePromptFirewallReadiness :: "(string \<times> string) list \<Rightarrow> bool \<Rightarrow> bool \<Rightarrow> readiness_result" where
  "evaluatePromptFirewallReadiness = evaluate_readiness CRITICAL_PROMPT_FIREWALL_DEPENDENCIES"

definition CRITICAL_AGENT_SAFETY_DEPENDENCIES :: "string list" where
  "CRITICAL_AGENT_SAFETY_DEPENDENCIES = [''policy_source'', ''approval_channel'', ''audit_ledger'', ''trusted_clock'']"

definition evaluateAgentSafetyReadiness :: "(string \<times> string) list \<Rightarrow> bool \<Rightarrow> bool \<Rightarrow> readiness_result" where
  "evaluateAgentSafetyReadiness = evaluate_readiness CRITICAL_AGENT_SAFETY_DEPENDENCIES"

section \<open>Fail closed\<close>

lemma no_failures_iff:
  "filter (\<lambda>d. f d = None) ds = [] \<and> filter (\<lambda>d. f d \<notin> {None, Some r}) ds = [] \<longleftrightarrow> (\<forall>d \<in> set ds. f d = Some r)"
  by (induction ds) auto

lemma readiness_parts:
  "rdy_missing (evaluate_readiness critical reports running trusted) = filter (\<lambda>d. reported reports d = None) critical"
  "rdy_unhealthy (evaluate_readiness critical reports running trusted) =
     filter (\<lambda>d. reported reports d \<notin> {None, Some ''READY''}) critical"
  unfolding evaluate_readiness_def Let_def by (simp_all only: readiness_result.select_convs split: if_split) blast+

lemma readiness_iff:
  "rdy_decision (evaluate_readiness critical reports running trusted) = Layer_READY \<longleftrightarrow>
     (\<forall>d \<in> set critical. reported reports d = Some ''READY'')"
  unfolding evaluate_readiness_def Let_def no_failures_iff by simp

lemma readiness_names_the_rest:
  "set (rdy_missing (evaluate_readiness critical reports running trusted)) \<union>
     set (rdy_unhealthy (evaluate_readiness critical reports running trusted)) =
   {d \<in> set critical. reported reports d \<noteq> Some ''READY''}"
  unfolding readiness_parts by auto

text \<open>Readiness is only withdrawn from a layer that runs in trusted production.\<close>

lemma readiness_revoked_iff:
  "rdy_decision (evaluate_readiness critical reports running trusted) = Layer_READINESS_REVOKED \<longleftrightarrow>
     running \<and> trusted \<and> rdy_decision (evaluate_readiness critical reports running trusted) \<noteq> Layer_READY"
  by (auto simp: evaluate_readiness_def Let_def)

text \<open>A later report replaces an earlier one, so a dependency that fails after it was ready takes the layer down.\<close>

lemma late_failure_unready:
  assumes "d \<in> set critical" "s \<noteq> ''READY''"
  shows "rdy_decision (evaluate_readiness critical (reports @ [(d, s)]) running trusted) \<noteq> Layer_READY"
  using assms unfolding readiness_iff by (auto simp: reported_def)

text \<open>
  Every layer depends on the clock and on an audit: without a report on the clock none is ready.
\<close>

definition layer_dependencies :: "string list list" where
  "layer_dependencies =
     [CRITICAL_IDENTITY_DEPENDENCIES, CRITICAL_GOVERNANCE_DEPENDENCIES, CRITICAL_AGENT_RUNTIME_DEPENDENCIES,
      CRITICAL_CONTENT_TRUST_DEPENDENCIES, CRITICAL_DETECTION_DEPENDENCIES, CRITICAL_SECRET_ACCESS_DEPENDENCIES,
      CRITICAL_TENANT_DEPENDENCIES, CRITICAL_TOOL_FIREWALL_DEPENDENCIES, CRITICAL_EXECUTION_DEPENDENCIES,
      CRITICAL_PROMPT_FIREWALL_DEPENDENCIES, CRITICAL_AGENT_SAFETY_DEPENDENCIES]"

lemma layers_need_clock_and_audit:
  "critical \<in> set layer_dependencies \<Longrightarrow> ''trusted_clock'' \<in> set critical \<and> (''audit_sink'' \<in> set critical \<or> ''audit_ledger'' \<in> set critical)"
  by (auto simp: layer_dependencies_def CRITICAL_IDENTITY_DEPENDENCIES_def CRITICAL_GOVERNANCE_DEPENDENCIES_def
      CRITICAL_AGENT_RUNTIME_DEPENDENCIES_def CRITICAL_CONTENT_TRUST_DEPENDENCIES_def CRITICAL_DETECTION_DEPENDENCIES_def
      CRITICAL_SECRET_ACCESS_DEPENDENCIES_def CRITICAL_TENANT_DEPENDENCIES_def CRITICAL_TOOL_FIREWALL_DEPENDENCIES_def
      CRITICAL_EXECUTION_DEPENDENCIES_def CRITICAL_PROMPT_FIREWALL_DEPENDENCIES_def CRITICAL_AGENT_SAFETY_DEPENDENCIES_def)

lemma no_layer_without_clock:
  assumes "critical \<in> set layer_dependencies" "reported reports ''trusted_clock'' \<noteq> Some ''READY''"
  shows "rdy_decision (evaluate_readiness critical reports running trusted) \<noteq> Layer_READY"
  using layers_need_clock_and_audit [OF assms(1)] assms(2) unfolding readiness_iff by blast

end
