(* ===== verification/Governance.thy ===== *)
theory Governance
  imports Gov_Policy Readiness Scoped_Audit
begin

text \<open>
  \<^verbatim>\<open>governance/src\<close> but for the policies: authorization, capabilities, approvals, risk, the pipeline that composes
  their results into one decision and a permit, the consumption of permits, the in-memory references and the audit.
  Scores and weights are rational. The texts for people and the lists that the pipeline always leaves empty
  (evidence, obligations and references of a decision) are left out. A comparison of times with a text that is no
  date is false, as with \<^verbatim>\<open>NaN\<close>. Fields that no code reads are left out as well.
\<close>

section \<open>Types\<close>

datatype PrincipalKind =
    Kind_HUMAN | Kind_AGENT | Kind_DIGITAL_EMPLOYEE | Kind_SERVICE | Kind_RUNTIME | Kind_PLUGIN | Kind_MCP_SERVER | Kind_DEVICE | Kind_SYSTEM

definition gov_isHumanKind :: "PrincipalKind \<Rightarrow> bool" where
  "gov_isHumanKind k \<longleftrightarrow> k = Kind_HUMAN"

datatype ResourceSensitivity = Gsens_PUBLIC | Gsens_INTERNAL | Gsens_CONFIDENTIAL | Gsens_RESTRICTED | Gsens_REGULATED

record GovResourceRef =
  res_resourceType :: string
  res_resourceId :: string
  res_sensitivity :: ResourceSensitivity

datatype GovRiskLevel = Gr_NEGLIGIBLE | Gr_LOW | Gr_MEDIUM | Gr_HIGH | Gr_CRITICAL | Gr_UNKNOWN

record GovernanceRisk =
  grk_level :: GovRiskLevel
  grk_score :: rat
  grk_reasonCode :: string
  grk_factorRefs :: "string list"

record GovernanceObligation =
  obl_obligation :: string
  obl_reasonCode :: string
  obl_fulfilled :: bool

datatype GovernanceOutcome =
    Go_ALLOW | Go_DENY | Go_STEP_UP_REQUIRED | Go_APPROVAL_REQUIRED | Go_CONDITIONALLY_ALLOWED | Go_DEFERRED | Go_REVOKED
  | Go_EXPIRED | Go_EVIDENCE_MISSING | Go_CONTEXT_MISMATCH | Go_CAPABILITY_MISSING | Go_POLICY_CONFLICT | Go_RISK_TOO_HIGH
  | Go_SYSTEM_NOT_READY

definition isPositiveOutcome :: "GovernanceOutcome \<Rightarrow> bool" where
  "isPositiveOutcome outcome = (outcome = Go_ALLOW)"

record 's EngineResult =
  eng_status :: 's
  eng_reasonCode :: string
  eng_obligations :: "GovernanceObligation list"

definition engineResult :: "'s \<Rightarrow> string \<Rightarrow> 's EngineResult" where
  "engineResult status reasonCode = \<lparr> eng_status = status, eng_reasonCode = reasonCode, eng_obligations = [] \<rparr>"

lemma engineResult_simps [simp]:
  "eng_status (engineResult s r) = s" "eng_reasonCode (engineResult s r) = r" "eng_obligations (engineResult s r) = []"
  by (simp_all add: engineResult_def)

section \<open>Authorization\<close>

record GovRole =
  rol_roleId :: string
  rol_grants :: "(string \<times> string) list"

record Relationship =
  rel_subjectRef :: string
  rel_relation :: string
  rel_objectRef :: string

record AuthorizationSubject =
  asu_principalId :: string
  asu_principalKind :: PrincipalKind
  asu_scope :: GovernanceScope
  asu_roles :: "string list"
  asu_attributes :: AttributeBag
  asu_sessionFresh :: bool
  asu_revoked :: bool
  asu_delegatedFrom :: "(string \<times> string list) option"
  asu_impersonation :: "(bool \<times> bool) option"

record GovAuthorizationRequest =
  are_subject :: AuthorizationSubject
  are_action :: string
  are_resource :: GovResourceRef
  are_contextScope :: GovernanceScope
  are_knownRoles :: "string \<rightharpoonup> GovRole"
  are_knownActions :: "string set"
  are_riskLevel :: GovRiskLevel
  are_mode :: GovRuntimeMode

datatype AuthorizationStatus =
    As_AUTHORIZED | As_DENIED_NO_GRANT | As_TENANT_MISMATCH | As_WORKSPACE_MISMATCH | As_REVOKED | As_STALE_SESSION
  | As_UNKNOWN_ROLE | As_UNKNOWN_ACTION | As_WILDCARD_DENIED | As_SELF_ESCALATION_DENIED | As_DELEGATION_EXCEEDED
  | As_IMPERSONATION_BYPASS_DENIED | As_HUMAN_ROLE_MASQUERADE | As_RISK_TOO_HIGH | As_STEP_UP_REQUIRED

definition grantsAction :: "GovRole \<Rightarrow> string \<Rightarrow> string \<Rightarrow> GovRuntimeMode \<Rightarrow> bool" where
  "grantsAction role action resourceType mode \<longleftrightarrow>
     list_ex (\<lambda>(a, t).
       if (a = ''*'' \<or> t = ''*'') \<and> mode = Govmode_production then False
       else (a = ''*'' \<or> a = action) \<and> (t = ''*'' \<or> t = resourceType)) (rol_grants role)"

text \<open>The loop over the roles: \<^verbatim>\<open>None\<close> at a role that is not known.\<close>

fun resolve_roles :: "GovAuthorizationRequest \<Rightarrow> string list \<Rightarrow> bool \<Rightarrow> bool option" where
  "resolve_roles req [] granted = Some granted"
| "resolve_roles req (roleId # rs) granted =
     (if roleId = ''human'' then resolve_roles req rs granted
      else (case are_knownRoles req roleId of
              None \<Rightarrow> None
            | Some role \<Rightarrow>
                resolve_roles req rs
                  (granted \<or> grantsAction role (are_action req) (res_resourceType (are_resource req)) (are_mode req))))"

definition attr_true :: "AttributeBag \<Rightarrow> string \<Rightarrow> bool" where
  "attr_true attrs name \<longleftrightarrow> attr_lookup attrs name = Own (Attr_bool True)"

definition evaluateAuthorization :: "GovAuthorizationRequest \<Rightarrow> AuthorizationStatus EngineResult" where
  "evaluateAuthorization req =
     (let s = are_subject req in
      if asu_revoked s then engineResult As_REVOKED ''identity_revoked''
      else if gsc_tenantId (asu_scope s) \<noteq> gsc_tenantId (are_contextScope req) then engineResult As_TENANT_MISMATCH ''tenant_mismatch''
      else if gsc_workspaceId (asu_scope s) \<noteq> gsc_workspaceId (are_contextScope req) then
        engineResult As_WORKSPACE_MISMATCH ''workspace_mismatch''
      else if are_action req \<notin> are_knownActions req then engineResult As_UNKNOWN_ACTION ''unknown_action''
      else if (''human'' \<in> set (asu_roles s) \<or> attr_true (asu_attributes s) ''is_human'') \<and> asu_principalKind s \<noteq> Kind_HUMAN then
        engineResult As_HUMAN_ROLE_MASQUERADE ''human_role_masquerade''
      else if \<not> asu_sessionFresh s then engineResult As_STALE_SESSION ''stale_session''
      else if (case asu_impersonation s of None \<Rightarrow> False | Some (humanApproved, visible) \<Rightarrow> \<not> humanApproved \<or> \<not> visible) then
        engineResult As_IMPERSONATION_BYPASS_DENIED ''impersonation_bypass_denied''
      else (case resolve_roles req (asu_roles s) False of
              None \<Rightarrow> engineResult As_UNKNOWN_ROLE ''unknown_role''
            | Some granted \<Rightarrow>
                if attr_true (asu_attributes s) ''self_grant'' \<or> attr_true (asu_attributes s) ''grant_all'' then
                  engineResult As_SELF_ESCALATION_DENIED ''self_escalation_denied''
                else if (case asu_delegatedFrom s of None \<Rightarrow> False | Some (_, maxActions) \<Rightarrow> are_action req \<notin> set maxActions) then
                  engineResult As_DELEGATION_EXCEEDED ''delegation_exceeded''
                else if \<not> granted then engineResult As_DENIED_NO_GRANT ''no_grant''
                else if are_riskLevel req = Gr_CRITICAL then engineResult As_RISK_TOO_HIGH ''risk_critical''
                else if are_riskLevel req = Gr_HIGH \<or> are_riskLevel req = Gr_UNKNOWN then
                  (engineResult As_STEP_UP_REQUIRED ''step_up_required'')
                    \<lparr> eng_obligations := [\<lparr> obl_obligation = ''step_up'', obl_reasonCode = ''risk_elevated'', obl_fulfilled = False \<rparr>] \<rparr>
                else engineResult As_AUTHORIZED ''authorized''))"

definition hasRelationship :: "Relationship list \<Rightarrow> string \<Rightarrow> string \<Rightarrow> string \<Rightarrow> bool" where
  "hasRelationship rels subjectRef relation objectRef \<longleftrightarrow>
     list_ex (\<lambda>r. rel_subjectRef r = subjectRef \<and> rel_relation r = relation \<and> rel_objectRef r = objectRef) rels"

section \<open>Capabilities\<close>

record CapabilityConstraint =
  cco_maxUses :: "int option"
  cco_allowedRegions :: "string list option"
  cco_maxResourceCount :: "int option"

record GovCapabilityDescriptor =
  cde_capabilityId :: string
  cde_action :: string
  cde_resourceType :: string
  cde_registered :: bool

record CapabilityGrant =
  cgr_capabilityId :: string
  cgr_scope :: GovernanceScope
  cgr_principalId :: string
  cgr_action :: string
  cgr_resourceType :: string
  cgr_environment :: string
  cgr_issuerRef :: string
  cgr_issuedAt :: string
  cgr_expiresAt :: string
  cgr_constraint :: CapabilityConstraint
  cgr_contextHash :: string
  cgr_revoked :: bool
  cgr_delegatedFrom :: "string option"
  cgr_leaseNonce :: string

datatype GovCapabilityStatus =
    Gc_GRANTED | Gc_UNREGISTERED | Gc_WILDCARD_DENIED | Gc_EXPIRED | Gc_REVOKED | Gc_TENANT_MISMATCH | Gc_CONTEXT_HASH_MISMATCH
  | Gc_REPLAYED | Gc_ESCALATION_DENIED | Gc_TRANSFER_DENIED | Gc_USES_EXHAUSTED | Gc_REGION_DENIED

record CapabilityResolveInput =
  cri_grant :: "CapabilityGrant option"
  cri_descriptor :: "GovCapabilityDescriptor option"
  cri_requestScope :: GovernanceScope
  cri_requestPrincipalId :: string
  cri_action :: string
  cri_resourceType :: string
  cri_environment :: string
  cri_region :: "string option"
  cri_expectedContextHash :: string
  cri_seenNonces :: "string set"
  cri_usesSoFar :: int
  cri_mode :: GovRuntimeMode
  cri_now :: string

definition resolveCapability :: "CapabilityResolveInput \<Rightarrow> GovCapabilityStatus EngineResult" where
  "resolveCapability input =
     (case cri_grant input of
        None \<Rightarrow> engineResult Gc_UNREGISTERED ''capability_unregistered''
      | Some g \<Rightarrow>
          if (case cri_descriptor input of None \<Rightarrow> True | Some d \<Rightarrow> \<not> cde_registered d) then
            engineResult Gc_UNREGISTERED ''capability_descriptor_unregistered''
          else if cgr_action g = ''*'' \<or> cgr_resourceType g = ''*'' then engineResult Gc_WILDCARD_DENIED ''capability_wildcard_denied''
          else if cgr_revoked g then engineResult Gc_REVOKED ''capability_revoked''
          else if \<not> isNonEmptyString (cgr_expiresAt g) \<or> isAtOrBefore (cgr_expiresAt g) (cri_now input) then
            engineResult Gc_EXPIRED ''capability_expired''
          else if \<not> gov_sameScope (cgr_scope g) (cri_requestScope input) then engineResult Gc_TENANT_MISMATCH ''capability_tenant_mismatch''
          else if cgr_principalId g \<noteq> cri_requestPrincipalId input \<and> cgr_delegatedFrom g \<noteq> Some (cri_requestPrincipalId input) then
            engineResult Gc_TRANSFER_DENIED ''capability_transfer_denied''
          else if cgr_action g \<noteq> cri_action input \<or> cgr_resourceType g \<noteq> cri_resourceType input then
            engineResult Gc_ESCALATION_DENIED ''capability_escalation_denied''
          else if cgr_contextHash g \<noteq> cri_expectedContextHash input then engineResult Gc_CONTEXT_HASH_MISMATCH ''capability_context_mismatch''
          else if cgr_leaseNonce g \<in> cri_seenNonces input then engineResult Gc_REPLAYED ''capability_replayed''
          else if (case cco_maxUses (cgr_constraint g) of None \<Rightarrow> False | Some m \<Rightarrow> cri_usesSoFar input \<ge> m) then
            engineResult Gc_USES_EXHAUSTED ''capability_uses_exhausted''
          else if (case (cco_allowedRegions (cgr_constraint g), cri_region input) of
                     (Some regions, Some region) \<Rightarrow> region \<noteq> [] \<and> region \<notin> set regions | _ \<Rightarrow> False) then
            engineResult Gc_REGION_DENIED ''capability_region_denied''
          else engineResult Gc_GRANTED ''capability_granted'')"

definition gov_contextHash :: "crypto \<Rightarrow> json \<Rightarrow> string" where
  "gov_contextHash C v = sha256Hex C (canonicalJson v)"

definition capabilityContextHash :: "crypto \<Rightarrow> GovernanceScope \<Rightarrow> string \<Rightarrow> string \<Rightarrow> string \<Rightarrow> string \<Rightarrow> string" where
  "capabilityContextHash C scope principalId action resourceType environment =
     gov_contextHash C
       (JObj [(''scope'', JObj [(''tenantId'', JStr (gsc_tenantId scope)), (''workspaceId'', JStr (gsc_workspaceId scope))]),
              (''principalId'', JStr principalId), (''action'', JStr action), (''resourceType'', JStr resourceType),
              (''environment'', JStr environment)])"

definition assertCapabilityNotSufficientAlone :: "bool \<Rightarrow> bool \<Rightarrow> unit result" where
  "assertCapabilityNotSufficientAlone hasAuthorization hasPolicyAllow =
     (if \<not> hasAuthorization \<or> \<not> hasPolicyAllow then
        Inl (JsError ''A capability alone does not permit execution; authorization and policy must also allow.'')
      else Inr ())"

section \<open>Approvals\<close>

datatype GovApprovalStatus =
    Ap_PENDING | Ap_APPROVED | Ap_REJECTED | Ap_EXPIRED | Ap_REVOKED | Ap_CANCELLED | Ap_CHALLENGE_REQUIRED | Ap_STEP_UP_REQUIRED
  | Ap_QUORUM_NOT_MET | Ap_CONTEXT_CHANGED | Ap_ALREADY_CONSUMED | Ap_AI_APPROVAL_DENIED | Ap_SELF_APPROVAL_DENIED
  | Ap_NON_HUMAN_APPROVER_DENIED

record Approver =
  apv_principalId :: string
  apv_principalKind :: PrincipalKind
  apv_assuranceMet :: bool
  apv_stepUpCompleted :: bool

record GovApprovalRequirement =
  arq_quorum :: int
  arq_requireStepUp :: bool
  arq_singleUse :: bool
  arq_breakGlass :: bool

record GovApprovalRequest =
  gar_approvalId :: string
  gar_scope :: GovernanceScope
  gar_requesterPrincipalId :: string
  gar_action :: string
  gar_resourceRef :: string
  gar_contextHash :: string
  gar_requirement :: GovApprovalRequirement
  gar_expiresAt :: string
  gar_revoked :: bool
  gar_consumed :: bool

record ApprovalSubmission =
  sub_approvers :: "Approver list"
  sub_currentContextHash :: string
  sub_now :: string

fun approver_failure :: "GovApprovalRequest \<Rightarrow> Approver list \<Rightarrow> GovApprovalStatus EngineResult option" where
  "approver_failure req [] = None"
| "approver_failure req (a # as) =
     (if apv_principalKind a = Kind_AGENT \<or> apv_principalKind a = Kind_DIGITAL_EMPLOYEE then
        Some (engineResult Ap_AI_APPROVAL_DENIED ''ai_approval_denied'')
      else if \<not> gov_isHumanKind (apv_principalKind a) then
        Some (engineResult Ap_NON_HUMAN_APPROVER_DENIED ''non_human_approver_denied'')
      else if apv_principalId a = gar_requesterPrincipalId req then
        Some (engineResult Ap_SELF_APPROVAL_DENIED ''self_approval_denied'')
      else if arq_requireStepUp (gar_requirement req) \<and> \<not> apv_stepUpCompleted a then
        Some (engineResult Ap_STEP_UP_REQUIRED ''approver_step_up_required'')
      else if \<not> apv_assuranceMet a then Some (engineResult Ap_CHALLENGE_REQUIRED ''approver_assurance_insufficient'')
      else approver_failure req as)"

definition required_approvals :: "GovApprovalRequirement \<Rightarrow> int" where
  "required_approvals r = (if arq_breakGlass r then max (arq_quorum r) 2 else arq_quorum r)"

definition gov_evaluateApproval :: "GovApprovalRequest \<Rightarrow> ApprovalSubmission \<Rightarrow> GovApprovalStatus EngineResult" where
  "gov_evaluateApproval req sub =
     (if gar_revoked req then engineResult Ap_REVOKED ''approval_revoked''
      else if gar_consumed req then engineResult Ap_ALREADY_CONSUMED ''approval_already_consumed''
      else if \<not> isNonEmptyString (gar_expiresAt req) \<or> isAtOrBefore (gar_expiresAt req) (sub_now sub) then
        engineResult Ap_EXPIRED ''approval_expired''
      else if gar_contextHash req \<noteq> sub_currentContextHash sub then engineResult Ap_CONTEXT_CHANGED ''approval_context_changed''
      else if sub_approvers sub = [] then engineResult Ap_PENDING ''approval_pending''
      else (case approver_failure req (sub_approvers sub) of
              Some r \<Rightarrow> r
            | None \<Rightarrow>
                if int (card (set (map apv_principalId (sub_approvers sub)))) < required_approvals (gar_requirement req) then
                  engineResult Ap_QUORUM_NOT_MET ''quorum_not_met''
                else engineResult Ap_APPROVED ''approved''))"

definition assertApprovalBypassAudited :: "string option \<Rightarrow> unit result" where
  "assertApprovalBypassAudited auditRef =
     (if \<not> isNonEmptyOpt auditRef then Inl (JsError ''An approval bypass is not permitted without an immutable audit record.'') else Inr ())"

section \<open>Risk\<close>

record RiskFactor =
  rkf_factorId :: string
  rkf_source :: string
  rkf_weight :: rat
  rkf_present :: bool
  rkf_evidenceRef :: string
  rkf_stale :: bool

record RiskThresholds =
  rkt_tenantId :: string
  rkt_highAt :: rat
  rkt_criticalAt :: rat

definition CONSTITUTIONAL_MIN_HIGH_AT :: rat where "CONSTITUTIONAL_MIN_HIGH_AT = 60"
definition CONSTITUTIONAL_MAX_CRITICAL_AT :: rat where "CONSTITUTIONAL_MAX_CRITICAL_AT = 90"

datatype RiskStatus =
    Rks_SCORED | Rks_UNKNOWN_UNSAFE | Rks_MISSING_EVIDENCE | Rks_STALE_SIGNAL | Rks_CONFLICTING_SIGNALS | Rks_THRESHOLD_BELOW_MINIMUM

record RiskEvaluationResult =
  rer_status :: RiskStatus
  rer_reasonCode :: string
  rer_level :: GovRiskLevel
  rer_score :: rat
  rer_factorRefs :: "string list"

record EvaluateRiskInput =
  gri_factors :: "RiskFactor list"
  gri_thresholds :: RiskThresholds
  gri_signalsComplete :: bool
  gri_now :: string

text \<open>Only the flag of the result of \<^verbatim>\<open>clampThresholds\<close> depends on the check; the thresholds stay as they are.\<close>

definition clampThresholds :: "RiskThresholds \<Rightarrow> bool" where
  "clampThresholds t \<longleftrightarrow> \<not> (rkt_highAt t > CONSTITUTIONAL_MIN_HIGH_AT \<or> rkt_criticalAt t > CONSTITUTIONAL_MAX_CRITICAL_AT)"

fun factor_failure :: "RiskFactor list \<Rightarrow> (RiskStatus \<times> string) option" where
  "factor_failure [] = None"
| "factor_failure (f # fs) =
     (if rkf_evidenceRef f = [] then Some (Rks_MISSING_EVIDENCE, ''risk_factor_missing_evidence'')
      else if rkf_stale f then Some (Rks_STALE_SIGNAL, ''risk_signal_stale'')
      else factor_failure fs)"

definition risk_unknown :: "RiskStatus \<Rightarrow> string \<Rightarrow> string list \<Rightarrow> RiskEvaluationResult" where
  "risk_unknown status reasonCode refs =
     \<lparr> rer_status = status, rer_reasonCode = reasonCode, rer_level = Gr_UNKNOWN, rer_score = 100, rer_factorRefs = refs \<rparr>"

definition risk_level :: "RiskThresholds \<Rightarrow> rat \<Rightarrow> GovRiskLevel" where
  "risk_level t score =
     (if score \<ge> rkt_criticalAt t then Gr_CRITICAL
      else if score \<ge> rkt_highAt t then Gr_HIGH
      else if score \<ge> rkt_highAt t / 2 then Gr_MEDIUM
      else if score > 0 then Gr_LOW else Gr_NEGLIGIBLE)"

definition gov_evaluateRisk :: "EvaluateRiskInput \<Rightarrow> RiskEvaluationResult" where
  "gov_evaluateRisk input =
     (if \<not> clampThresholds (gri_thresholds input) then
        risk_unknown Rks_THRESHOLD_BELOW_MINIMUM ''threshold_below_constitutional_minimum'' []
      else if \<not> gri_signalsComplete input then risk_unknown Rks_UNKNOWN_UNSAFE ''risk_unknown_unsafe'' []
      else
        (let present = filter rkf_present (gri_factors input); ids = map rkf_factorId present in
         case factor_failure present of
           Some (status, reasonCode) \<Rightarrow> risk_unknown status reasonCode ids
         | None \<Rightarrow>
             if card (set ids) \<noteq> length ids then risk_unknown Rks_CONFLICTING_SIGNALS ''risk_conflicting_signals'' ids
             else (let score = max 0 (min 100 (sum_list (map rkf_weight present)))
                   in \<lparr> rer_status = Rks_SCORED, rer_reasonCode = ''risk_scored'', rer_level = risk_level (gri_thresholds input) score,
                        rer_score = score, rer_factorRefs = ids \<rparr>)))"

definition assertRiskNotDecidedByAiAlone :: "string \<Rightarrow> unit result" where
  "assertRiskNotDecidedByAiAlone deciderKind =
     (if deciderKind = ''AGENT'' \<or> deciderKind = ''DIGITAL_EMPLOYEE'' then
        Inl (JsError ''An AI cannot be the sole risk/security decision-maker.'')
      else Inr ())"

section \<open>The pipeline\<close>

record PipelineStageInput =
  psi_readiness :: readiness_decision
  psi_identityVerified :: bool
  psi_identityRevoked :: bool
  psi_tenantMatches :: bool
  psi_contextKnown :: bool
  psi_capability :: GovCapabilityStatus
  psi_authorization :: AuthorizationStatus
  psi_policy :: PolicyEvaluationStatus
  psi_riskLevel :: GovRiskLevel
  psi_approvalRequired :: bool
  psi_approval :: "GovApprovalStatus option"
  psi_auditWritable :: bool

record GovPipelineRequest =
  gpq_decisionId :: string
  gpq_scope :: GovernanceScope
  gpq_principalId :: string
  gpq_action :: string
  gpq_resource :: GovResourceRef
  gpq_traceId :: string
  gpq_correlationId :: string
  gpq_risk :: GovernanceRisk
  gpq_stages :: PipelineStageInput
  gpq_now :: string
  gpq_permitTtlMs :: int

record GovExecutionPermit =
  gep_permitId :: string
  gep_decisionId :: string
  gep_tenantId :: string
  gep_workspaceId :: string
  gep_principalId :: string
  gep_action :: string
  gep_resourceRef :: string
  gep_contextHash :: string
  gep_nonce :: string
  gep_issuedAt :: string
  gep_expiresAt :: string

record GovernanceDecision =
  gdn_decisionId :: string
  gdn_tenantId :: string
  gdn_workspaceId :: string
  gdn_principalId :: string
  gdn_action :: string
  gdn_resource :: GovResourceRef
  gdn_outcome :: GovernanceOutcome
  gdn_reasonCode :: string
  gdn_risk :: GovernanceRisk
  gdn_traceId :: string
  gdn_correlationId :: string
  gdn_evaluatedAt :: string
  gdn_expiresAt :: "string option"
  gdn_contextHash :: string

record GovPipelineResult =
  gpz_decision :: GovernanceDecision
  gpz_permit :: "GovExecutionPermit option"

definition resource_ref :: "GovResourceRef \<Rightarrow> string" where
  "resource_ref r = res_resourceType r @ '':'' @ res_resourceId r"

definition permitContextHash :: "crypto \<Rightarrow> GovPipelineRequest \<Rightarrow> string" where
  "permitContextHash C req =
     gov_contextHash C
       (JObj [(''tenant'', JStr (gsc_tenantId (gpq_scope req))), (''workspace'', JStr (gsc_workspaceId (gpq_scope req))),
              (''principal'', JStr (gpq_principalId req)), (''action'', JStr (gpq_action req)),
              (''resource'', JStr (resource_ref (gpq_resource req)))])"

text \<open>\<^verbatim>\<open>build\<close> with \<^verbatim>\<open>makeDecision\<close>.\<close>

definition gov_build :: "crypto \<Rightarrow> GovPipelineRequest \<Rightarrow> GovernanceOutcome \<Rightarrow> string \<Rightarrow> string option \<Rightarrow> GovernanceDecision" where
  "gov_build C req outcome reasonCode expiresAt =
     \<lparr> gdn_decisionId = gpq_decisionId req, gdn_tenantId = gsc_tenantId (gpq_scope req),
       gdn_workspaceId = gsc_workspaceId (gpq_scope req), gdn_principalId = gpq_principalId req, gdn_action = gpq_action req,
       gdn_resource = gpq_resource req, gdn_outcome = outcome, gdn_reasonCode = reasonCode, gdn_risk = gpq_risk req,
       gdn_traceId = gpq_traceId req, gdn_correlationId = gpq_correlationId req, gdn_evaluatedAt = gpq_now req,
       gdn_expiresAt = expiresAt, gdn_contextHash = permitContextHash C req \<rparr>"

text \<open>The status in lower case, as it enters a reason code.\<close>

fun capability_status_text :: "GovCapabilityStatus \<Rightarrow> string" where
  "capability_status_text Gc_GRANTED = ''granted''"
| "capability_status_text Gc_UNREGISTERED = ''unregistered''"
| "capability_status_text Gc_WILDCARD_DENIED = ''wildcard_denied''"
| "capability_status_text Gc_EXPIRED = ''expired''"
| "capability_status_text Gc_REVOKED = ''revoked''"
| "capability_status_text Gc_TENANT_MISMATCH = ''tenant_mismatch''"
| "capability_status_text Gc_CONTEXT_HASH_MISMATCH = ''context_hash_mismatch''"
| "capability_status_text Gc_REPLAYED = ''replayed''"
| "capability_status_text Gc_ESCALATION_DENIED = ''escalation_denied''"
| "capability_status_text Gc_TRANSFER_DENIED = ''transfer_denied''"
| "capability_status_text Gc_USES_EXHAUSTED = ''uses_exhausted''"
| "capability_status_text Gc_REGION_DENIED = ''region_denied''"

fun authorization_status_text :: "AuthorizationStatus \<Rightarrow> string" where
  "authorization_status_text As_AUTHORIZED = ''authorized''"
| "authorization_status_text As_DENIED_NO_GRANT = ''denied_no_grant''"
| "authorization_status_text As_TENANT_MISMATCH = ''tenant_mismatch''"
| "authorization_status_text As_WORKSPACE_MISMATCH = ''workspace_mismatch''"
| "authorization_status_text As_REVOKED = ''revoked''"
| "authorization_status_text As_STALE_SESSION = ''stale_session''"
| "authorization_status_text As_UNKNOWN_ROLE = ''unknown_role''"
| "authorization_status_text As_UNKNOWN_ACTION = ''unknown_action''"
| "authorization_status_text As_WILDCARD_DENIED = ''wildcard_denied''"
| "authorization_status_text As_SELF_ESCALATION_DENIED = ''self_escalation_denied''"
| "authorization_status_text As_DELEGATION_EXCEEDED = ''delegation_exceeded''"
| "authorization_status_text As_IMPERSONATION_BYPASS_DENIED = ''impersonation_bypass_denied''"
| "authorization_status_text As_HUMAN_ROLE_MASQUERADE = ''human_role_masquerade''"
| "authorization_status_text As_RISK_TOO_HIGH = ''risk_too_high''"
| "authorization_status_text As_STEP_UP_REQUIRED = ''step_up_required''"

fun policy_status_text :: "PolicyEvaluationStatus \<Rightarrow> string" where
  "policy_status_text Pe_ALLOW = ''allow''"
| "policy_status_text Pe_DENY = ''deny''"
| "policy_status_text Pe_POLICY_CONFLICT = ''policy_conflict''"
| "policy_status_text Pe_NO_MATCH_DENY = ''no_match_deny''"
| "policy_status_text Pe_EXPIRED = ''expired''"
| "policy_status_text Pe_REVOKED = ''revoked''"
| "policy_status_text Pe_UNSIGNED_INACTIVE = ''unsigned_inactive''"
| "policy_status_text Pe_TENANT_MISMATCH = ''tenant_mismatch''"
| "policy_status_text Pe_MALFORMED = ''malformed''"

text \<open>The first stage that blocks, with the outcome and the reason code of the decision.\<close>

definition stage_failure :: "PipelineStageInput \<Rightarrow> (GovernanceOutcome \<times> string) option" where
  "stage_failure s =
     (if psi_readiness s \<noteq> Layer_READY then Some (Go_SYSTEM_NOT_READY, ''governance_not_ready'')
      else if psi_identityRevoked s then Some (Go_REVOKED, ''identity_revoked'')
      else if \<not> psi_identityVerified s then Some (Go_CONTEXT_MISMATCH, ''identity_unverified'')
      else if \<not> psi_tenantMatches s then Some (Go_CONTEXT_MISMATCH, ''tenant_mismatch'')
      else if \<not> psi_contextKnown s then Some (Go_CONTEXT_MISMATCH, ''unknown_context'')
      else if psi_capability s \<noteq> Gc_GRANTED then Some (Go_CAPABILITY_MISSING, ''capability_'' @ capability_status_text (psi_capability s))
      else if psi_authorization s = As_RISK_TOO_HIGH then Some (Go_RISK_TOO_HIGH, ''authz_risk_too_high'')
      else if psi_authorization s = As_STEP_UP_REQUIRED then Some (Go_STEP_UP_REQUIRED, ''authz_step_up_required'')
      else if psi_authorization s \<noteq> As_AUTHORIZED then Some (Go_DENY, ''authz_'' @ authorization_status_text (psi_authorization s))
      else if psi_policy s = Pe_POLICY_CONFLICT then Some (Go_POLICY_CONFLICT, ''policy_conflict'')
      else if psi_policy s \<noteq> Pe_ALLOW then Some (Go_DENY, ''policy_'' @ policy_status_text (psi_policy s))
      else if psi_riskLevel s = Gr_CRITICAL then Some (Go_RISK_TOO_HIGH, ''risk_critical'')
      else if psi_riskLevel s = Gr_UNKNOWN then Some (Go_RISK_TOO_HIGH, ''risk_unknown_unsafe'')
      else if psi_approvalRequired s \<and> psi_approval s \<noteq> Some Ap_APPROVED then Some (Go_APPROVAL_REQUIRED, ''approval_required'')
      else if \<not> psi_auditWritable s then Some (Go_SYSTEM_NOT_READY, ''audit_unwritable'')
      else None)"

text \<open>\<^verbatim>\<open>new Date(Date.parse(now) + Math.max(1, ttl)).toISOString()\<close> throws when the sum is no time.\<close>

definition gov_expiry :: "string \<Rightarrow> int \<Rightarrow> string result" where
  "gov_expiry now ttl =
     (case dateParse now of None \<Rightarrow> Inl (RangeError ''Invalid time value'') | Some t \<Rightarrow> toISOString (t + max 1 ttl))"

definition evaluateGovernancePipeline :: "crypto \<Rightarrow> GovPipelineRequest \<Rightarrow> nat \<Rightarrow> GovPipelineResult result \<times> nat" where
  "evaluateGovernancePipeline C req draws =
     (case stage_failure (gpq_stages req) of
        Some (outcome, reasonCode) \<Rightarrow>
          (Inr \<lparr> gpz_decision = gov_build C req outcome reasonCode None, gpz_permit = None \<rparr>, draws)
      | None \<Rightarrow>
          (case gov_expiry (gpq_now req) (gpq_permitTtlMs req) of
             Inl e \<Rightarrow> (Inl e, draws)
           | Inr expiresAt \<Rightarrow>
               (let (permitId, n1) = newId C ''permit'' draws; (nonce, n2) = newId C ''nonce'' n1
                in (Inr \<lparr> gpz_decision = gov_build C req Go_ALLOW ''governance_allow'' (Some expiresAt),
                          gpz_permit =
                            Some \<lparr> gep_permitId = permitId, gep_decisionId = gpq_decisionId req,
                                   gep_tenantId = gsc_tenantId (gpq_scope req), gep_workspaceId = gsc_workspaceId (gpq_scope req),
                                   gep_principalId = gpq_principalId req, gep_action = gpq_action req,
                                   gep_resourceRef = resource_ref (gpq_resource req), gep_contextHash = permitContextHash C req,
                                   gep_nonce = nonce, gep_issuedAt = gpq_now req, gep_expiresAt = expiresAt \<rparr> \<rparr>, n2))))"

datatype PermitConsumeStatus =
    Pc_CONSUMED | Pc_PERMIT_EXPIRED | Pc_PERMIT_REPLAYED | Pc_PERMIT_CONTEXT_MISMATCH | Pc_PERMIT_TENANT_MISMATCH

definition consumeExecutionPermit ::
  "GovExecutionPermit \<Rightarrow> GovernanceScope \<Rightarrow> string \<Rightarrow> string set \<Rightarrow> string \<Rightarrow> PermitConsumeStatus" where
  "consumeExecutionPermit p contextScope expectedContextHash seenNonces now =
     (if isAtOrBefore (gep_expiresAt p) now then Pc_PERMIT_EXPIRED
      else if gep_tenantId p \<noteq> gsc_tenantId contextScope \<or> gep_workspaceId p \<noteq> gsc_workspaceId contextScope then Pc_PERMIT_TENANT_MISMATCH
      else if gep_contextHash p \<noteq> expectedContextHash then Pc_PERMIT_CONTEXT_MISMATCH
      else if gep_nonce p \<in> seenNonces then Pc_PERMIT_REPLAYED
      else Pc_CONSUMED)"

section \<open>In-memory references\<close>

record policy_repository =
  prp_byKey :: "string \<rightharpoonup> GovPolicy"
  prp_revoked :: "string set"

definition policy_key :: "string \<Rightarrow> int \<Rightarrow> string" where
  "policy_key k version = k @ ''@v'' @ show_int version"

definition policy_register :: "GovPolicy \<Rightarrow> policy_repository \<Rightarrow> policy_repository" where
  "policy_register p r = r\<lparr> prp_byKey := (prp_byKey r)(policy_key (gpo_policyId p) (gpo_version p) \<mapsto> p) \<rparr>"

definition policy_get :: "string \<Rightarrow> int \<Rightarrow> policy_repository \<Rightarrow> GovPolicy option" where
  "policy_get k version r = prp_byKey r (policy_key k version)"

definition policy_revoke :: "string \<Rightarrow> int \<Rightarrow> policy_repository \<Rightarrow> policy_repository" where
  "policy_revoke k version r = r\<lparr> prp_revoked := insert (policy_key k version) (prp_revoked r) \<rparr>"

definition policy_isRevoked :: "string \<Rightarrow> int \<Rightarrow> policy_repository \<Rightarrow> bool" where
  "policy_isRevoked k version r \<longleftrightarrow> policy_key k version \<in> prp_revoked r"

record capability_registry =
  crg_byId :: "string \<rightharpoonup> CapabilityGrant"
  crg_revoked :: "string set"

definition capability_register :: "CapabilityGrant \<Rightarrow> capability_registry \<Rightarrow> capability_registry" where
  "capability_register g r =
     r\<lparr> crg_byId := (crg_byId r)(gsc_tenantId (cgr_scope g) @ ''::'' @ cgr_capabilityId g \<mapsto> g) \<rparr>"

definition capability_resolve :: "string \<Rightarrow> string \<Rightarrow> capability_registry \<Rightarrow> CapabilityGrant option" where
  "capability_resolve capabilityId tenantId r = crg_byId r (tenantId @ ''::'' @ capabilityId)"

definition capability_revoke :: "string \<Rightarrow> capability_registry \<Rightarrow> capability_registry" where
  "capability_revoke capabilityId r = r\<lparr> crg_revoked := insert capabilityId (crg_revoked r) \<rparr>"

definition capability_isRevoked :: "string \<Rightarrow> capability_registry \<Rightarrow> bool" where
  "capability_isRevoked capabilityId r \<longleftrightarrow> capabilityId \<in> crg_revoked r"

type_synonym gov_approval_store = "string set"

definition approval_markConsumed :: "string \<Rightarrow> gov_approval_store \<Rightarrow> gov_approval_store" where
  "approval_markConsumed k st = insert k st"

definition approval_isConsumed :: "string \<Rightarrow> gov_approval_store \<Rightarrow> bool" where
  "approval_isConsumed k st \<longleftrightarrow> k \<in> st"

section \<open>Audit\<close>

record GovernanceAuditInput =
  gai_scope :: GovernanceScope
  gai_event :: string
  gai_actorRef :: string
  gai_outcome :: string
  gai_reasonCode :: string
  gai_decisionRef :: "string option"
  gai_at :: string

definition gov_partitionKey :: "GovernanceScope \<Rightarrow> string" where
  "gov_partitionKey s = scope_partition (gsc_tenantId s) (gsc_workspaceId s)"

definition gov_bodyOf :: "string \<Rightarrow> nat \<Rightarrow> GovernanceAuditInput \<Rightarrow> (string \<times> cell) list" where
  "gov_bodyOf pk sequence i =
     [(''partitionKey'', Text pk), (''sequence'', Count sequence), (''event'', Text (gai_event i)), (''actorRef'', Text (gai_actorRef i)),
      (''outcome'', Text (gai_outcome i)), (''reasonCode'', Text (gai_reasonCode i)), (''decisionRef'', Maybe (gai_decisionRef i)),
      (''at'', Text (gai_at i))]"

definition gov_audit_append ::
  "crypto \<Rightarrow> GovernanceAuditInput \<Rightarrow> GovernanceAuditInput audit_rows \<Rightarrow> GovernanceAuditInput audit_row \<times> GovernanceAuditInput audit_rows" where
  "gov_audit_append C i = rows_append C ''govaudit'' gov_bodyOf (gov_partitionKey (gai_scope i)) i"

definition gov_audit_entries :: "GovernanceScope \<Rightarrow> GovernanceAuditInput audit_rows \<Rightarrow> GovernanceAuditInput audit_row list" where
  "gov_audit_entries s rows = rows_partitions rows (gov_partitionKey s)"

definition gov_verifyChain :: "crypto \<Rightarrow> GovernanceScope \<Rightarrow> GovernanceAuditInput audit_rows \<Rightarrow> bool" where
  "gov_verifyChain C s rows = sink_verify_from C gov_bodyOf AUDIT_GENESIS 1 (gov_audit_entries s rows)"

interpretation gov_rows: audit_format gov_bodyOf
  "[''partitionKey'', ''sequence'', ''event'', ''actorRef'', ''outcome'', ''reasonCode'', ''decisionRef'', ''at'']"
  by unfold_locales (simp_all add: gov_bodyOf_def not_index_Cons is_digit_def)

lemma gov_append_verifies: "gov_verifyChain C s rows \<Longrightarrow> gov_verifyChain C s (snd (gov_audit_append C i rows))"
  unfolding gov_verifyChain_def gov_audit_entries_def gov_audit_append_def by (rule gov_rows.rows_append_verifies)

section \<open>When the engines say yes\<close>

lemma resolve_roles_iff:
  "resolve_roles req rs granted = Some g \<longleftrightarrow>
     (\<forall>r \<in> set rs. r = ''human'' \<or> are_knownRoles req r \<noteq> None) \<and>
     (g \<longleftrightarrow> granted \<or> (\<exists>r \<in> set rs. r \<noteq> ''human'' \<and>
        (\<exists>role. are_knownRoles req r = Some role \<and> grantsAction role (are_action req) (res_resourceType (are_resource req)) (are_mode req))))"
  by (induction rs arbitrary: granted) (auto split: option.splits)

lemma authorized_iff:
  "eng_status (evaluateAuthorization req) = As_AUTHORIZED \<longleftrightarrow>
     (let s = are_subject req in
      \<not> asu_revoked s \<and> gov_sameScope (asu_scope s) (are_contextScope req) \<and> are_action req \<in> are_knownActions req \<and>
      (asu_principalKind s = Kind_HUMAN \<or> \<not> (''human'' \<in> set (asu_roles s) \<or> attr_true (asu_attributes s) ''is_human'')) \<and>
      asu_sessionFresh s \<and> asu_impersonation s \<in> {None, Some (True, True)} \<and>
      resolve_roles req (asu_roles s) False = Some True \<and>
      \<not> attr_true (asu_attributes s) ''self_grant'' \<and> \<not> attr_true (asu_attributes s) ''grant_all'' \<and>
      (\<forall>d ms. asu_delegatedFrom s = Some (d, ms) \<longrightarrow> are_action req \<in> set ms) \<and>
      are_riskLevel req \<in> {Gr_NEGLIGIBLE, Gr_LOW, Gr_MEDIUM})"
  by (cases "are_riskLevel req"; cases "asu_impersonation (are_subject req)"; cases "asu_delegatedFrom (are_subject req)")
    (auto simp: evaluateAuthorization_def Let_def gov_sameScope_def split: option.splits)

text \<open>In production a wildcard grants nothing, so an authorized action is named by a grant of a known role.\<close>

lemma production_grant_explicit:
  assumes "eng_status (evaluateAuthorization req) = As_AUTHORIZED" "are_mode req = Govmode_production"
  shows "\<exists>r role. r \<in> set (asu_roles (are_subject req)) \<and> are_knownRoles req r = Some role \<and>
           (are_action req, res_resourceType (are_resource req)) \<in> set (rol_grants role)"
proof -
  have "resolve_roles req (asu_roles (are_subject req)) False = Some True" using assms(1) by (simp add: authorized_iff Let_def)
  then obtain r role where r: "r \<in> set (asu_roles (are_subject req))" "are_knownRoles req r = Some role"
    and g: "grantsAction role (are_action req) (res_resourceType (are_resource req)) (are_mode req)"
    unfolding resolve_roles_iff by blast
  have "(are_action req, res_resourceType (are_resource req)) \<in> set (rol_grants role)"
    using g assms(2) by (auto simp: grantsAction_def list_ex_iff split: if_splits)
  then show ?thesis using r by blast
qed

lemma capability_granted_iff:
  "eng_status (resolveCapability i) = Gc_GRANTED \<longleftrightarrow>
     (\<exists>g d. cri_grant i = Some g \<and> cri_descriptor i = Some d \<and> cde_registered d \<and> cgr_action g \<noteq> ''*'' \<and> cgr_resourceType g \<noteq> ''*'' \<and>
        \<not> cgr_revoked g \<and> isNonEmptyString (cgr_expiresAt g) \<and> \<not> isAtOrBefore (cgr_expiresAt g) (cri_now i) \<and>
        gov_sameScope (cgr_scope g) (cri_requestScope i) \<and>
        cri_requestPrincipalId i \<in> {cgr_principalId g} \<union> set_option (cgr_delegatedFrom g) \<and>
        cgr_action g = cri_action i \<and> cgr_resourceType g = cri_resourceType i \<and> cgr_contextHash g = cri_expectedContextHash i \<and>
        cgr_leaseNonce g \<notin> cri_seenNonces i \<and> (\<forall>m. cco_maxUses (cgr_constraint g) = Some m \<longrightarrow> cri_usesSoFar i < m) \<and>
        (\<forall>rs r. cco_allowedRegions (cgr_constraint g) = Some rs \<longrightarrow> cri_region i = Some r \<longrightarrow> r = [] \<or> r \<in> set rs))"
proof (cases "cri_grant i")
  case (Some g)
  then show ?thesis
    by (cases "cri_descriptor i"; cases "cgr_delegatedFrom g"; cases "cco_maxUses (cgr_constraint g)";
        cases "cco_allowedRegions (cgr_constraint g)"; cases "cri_region i") (simp_all add: resolveCapability_def, auto)
qed (simp add: resolveCapability_def)

lemma no_approver_failure_iff:
  "approver_failure req as = None \<longleftrightarrow>
     (\<forall>a \<in> set as. apv_principalKind a = Kind_HUMAN \<and> apv_principalId a \<noteq> gar_requesterPrincipalId req \<and>
        (arq_requireStepUp (gar_requirement req) \<longrightarrow> apv_stepUpCompleted a) \<and> apv_assuranceMet a)"
  by (induction as) (auto simp: gov_isHumanKind_def)

lemma approver_failure_not_approved: "approver_failure req as = Some r \<Longrightarrow> eng_status r \<noteq> Ap_APPROVED"
  by (induction as) (auto split: if_splits)

lemma gov_approved_iff:
  "eng_status (gov_evaluateApproval req sub) = Ap_APPROVED \<longleftrightarrow>
     \<not> gar_revoked req \<and> \<not> gar_consumed req \<and> isNonEmptyString (gar_expiresAt req) \<and> \<not> isAtOrBefore (gar_expiresAt req) (sub_now sub) \<and>
     gar_contextHash req = sub_currentContextHash sub \<and> sub_approvers sub \<noteq> [] \<and>
     (\<forall>a \<in> set (sub_approvers sub). apv_principalKind a = Kind_HUMAN \<and> apv_principalId a \<noteq> gar_requesterPrincipalId req \<and>
        (arq_requireStepUp (gar_requirement req) \<longrightarrow> apv_stepUpCompleted a) \<and> apv_assuranceMet a) \<and>
     required_approvals (gar_requirement req) \<le> int (card (apv_principalId ` set (sub_approvers sub)))"
  unfolding no_approver_failure_iff [symmetric]
  by (auto simp: gov_evaluateApproval_def approver_failure_not_approved split: option.splits)

text \<open>A break-glass approval has two different people behind it, neither of them the requester.\<close>

lemma break_glass_two_people:
  assumes "eng_status (gov_evaluateApproval req sub) = Ap_APPROVED" "arq_breakGlass (gar_requirement req)"
  shows "\<exists>a b. a \<in> set (sub_approvers sub) \<and> b \<in> set (sub_approvers sub) \<and> apv_principalId a \<noteq> apv_principalId b"
proof -
  have "2 \<le> card (apv_principalId ` set (sub_approvers sub))"
    using assms unfolding gov_approved_iff required_approvals_def by auto
  then have "\<not> (\<forall>p \<in> apv_principalId ` set (sub_approvers sub). \<forall>q \<in> apv_principalId ` set (sub_approvers sub). p = q)"
    using card_le_Suc0_iff_eq [of "apv_principalId ` set (sub_approvers sub)"] by simp
  then show ?thesis by blast
qed

lemma factor_failure_not_scored: "factor_failure fs = Some (st, m) \<Longrightarrow> st \<noteq> Rks_SCORED"
  by (induction fs) (auto split: if_splits)

text \<open>Whatever the tenant sets, a score of 90 is critical and one of 60 at least high.\<close>

lemma risk_constitutional:
  assumes "rer_status (gov_evaluateRisk i) = Rks_SCORED"
  shows "(90 \<le> rer_score (gov_evaluateRisk i) \<longrightarrow> rer_level (gov_evaluateRisk i) = Gr_CRITICAL) \<and>
         (60 \<le> rer_score (gov_evaluateRisk i) \<longrightarrow> rer_level (gov_evaluateRisk i) \<in> {Gr_HIGH, Gr_CRITICAL}) \<and>
         0 \<le> rer_score (gov_evaluateRisk i) \<and> rer_score (gov_evaluateRisk i) \<le> 100"
proof -
  have "clampThresholds (gri_thresholds i)" using assms by (auto simp: gov_evaluateRisk_def risk_unknown_def split: if_splits)
  then have "rkt_highAt (gri_thresholds i) \<le> 60" "rkt_criticalAt (gri_thresholds i) \<le> 90"
    by (simp_all add: clampThresholds_def CONSTITUTIONAL_MIN_HIGH_AT_def CONSTITUTIONAL_MAX_CRITICAL_AT_def)
  then have "(90 \<le> s \<longrightarrow> risk_level (gri_thresholds i) s = Gr_CRITICAL) \<and>
      (60 \<le> s \<longrightarrow> risk_level (gri_thresholds i) s \<in> {Gr_HIGH, Gr_CRITICAL})" for s
    by (auto simp: risk_level_def)
  then show ?thesis using assms
    by (auto simp: gov_evaluateRisk_def risk_unknown_def Let_def dest: factor_failure_not_scored split: if_splits option.splits)
qed

lemma unscored_risk_unknown: "rer_status (gov_evaluateRisk i) \<noteq> Rks_SCORED \<Longrightarrow> rer_level (gov_evaluateRisk i) = Gr_UNKNOWN"
  by (auto simp: gov_evaluateRisk_def risk_unknown_def Let_def split: option.splits)

section \<open>Permits\<close>

definition stages_pass :: "PipelineStageInput \<Rightarrow> bool" where
  "stages_pass s \<longleftrightarrow>
     psi_readiness s = Layer_READY \<and> psi_identityVerified s \<and> \<not> psi_identityRevoked s \<and> psi_tenantMatches s \<and> psi_contextKnown s \<and>
     psi_capability s = Gc_GRANTED \<and> psi_authorization s = As_AUTHORIZED \<and> psi_policy s = Pe_ALLOW \<and>
     psi_riskLevel s \<notin> {Gr_CRITICAL, Gr_UNKNOWN} \<and> (psi_approvalRequired s \<longrightarrow> psi_approval s = Some Ap_APPROVED) \<and>
     psi_auditWritable s"

lemma stage_failure_iff: "stage_failure s = None \<longleftrightarrow> stages_pass s"
  by (auto simp: stage_failure_def stages_pass_def)

lemma stage_failure_not_allow: "stage_failure s = Some (oc, m) \<Longrightarrow> oc \<noteq> Go_ALLOW"
  by (auto simp: stage_failure_def split: if_splits)

definition issued_permit :: "crypto \<Rightarrow> GovPipelineRequest \<Rightarrow> nat \<Rightarrow> string \<Rightarrow> GovExecutionPermit" where
  "issued_permit C req n expiresAt =
     \<lparr> gep_permitId = fst (newId C ''permit'' n), gep_decisionId = gpq_decisionId req,
       gep_tenantId = gsc_tenantId (gpq_scope req), gep_workspaceId = gsc_workspaceId (gpq_scope req),
       gep_principalId = gpq_principalId req, gep_action = gpq_action req,
       gep_resourceRef = resource_ref (gpq_resource req), gep_contextHash = permitContextHash C req,
       gep_nonce = fst (newId C ''nonce'' (Suc n)), gep_issuedAt = gpq_now req, gep_expiresAt = expiresAt \<rparr>"

lemma pipeline_cases:
  assumes "evaluateGovernancePipeline C req n = (Inr r, n')"
  obtains (refused) oc m where "stage_failure (gpq_stages req) = Some (oc, m)" "gdn_outcome (gpz_decision r) = oc" "gpz_permit r = None"
      "gdn_contextHash (gpz_decision r) = permitContextHash C req" "n' = n"
  | (granted) e where "stages_pass (gpq_stages req)" "gov_expiry (gpq_now req) (gpq_permitTtlMs req) = Inr e"
      "gdn_outcome (gpz_decision r) = Go_ALLOW" "gpz_permit r = Some (issued_permit C req n e)"
      "gdn_contextHash (gpz_decision r) = permitContextHash C req" "n' = n + 2"
proof (cases "stage_failure (gpq_stages req)")
  case None
  then have "stages_pass (gpq_stages req)" by (simp only: stage_failure_iff)
  then show ?thesis
    using assms granted None by (auto simp: evaluateGovernancePipeline_def issued_permit_def newId_def gov_build_def split: sum.splits)
next
  case (Some f)
  then show ?thesis using assms refused by (cases f) (auto simp: evaluateGovernancePipeline_def gov_build_def)
qed

lemma gov_expiry_time:
  assumes "gov_expiry now ttl = Inr e"
  obtains t where "dateParse now = Some t" "dateParse e = Some (t + max 1 ttl)"
  using assms by (cases "dateParse now") (auto simp: gov_expiry_def dest: dateParse_toISOString)

text \<open>
  C19. A decision of the pipeline is ALLOW exactly when every stage passed, and exactly then it comes with a permit.
  The permit can be consumed only in the tenant and workspace, with the context hash of the request, with an unused
  nonce, and, by a clock that shows a time, before the time of the request plus the time to live.
\<close>

theorem governance_permit_bound:
  assumes "evaluateGovernancePipeline C req n = (Inr r, n')"
  shows "(gdn_outcome (gpz_decision r) = Go_ALLOW \<longleftrightarrow> stages_pass (gpq_stages req)) \<and>
         (gpz_permit r \<noteq> None \<longleftrightarrow> stages_pass (gpq_stages req)) \<and>
         (\<forall>p scope hash seen now.
            gpz_permit r = Some p \<and> consumeExecutionPermit p scope hash seen now = Pc_CONSUMED \<longrightarrow>
            gov_sameScope scope (gpq_scope req) \<and> hash = permitContextHash C req \<and> gep_nonce p \<notin> seen \<and>
            (\<forall>t t0. dateParse now = Some t \<and> dateParse (gpq_now req) = Some t0 \<longrightarrow> t < t0 + max 1 (gpq_permitTtlMs req)))"
  using assms
proof (cases rule: pipeline_cases)
  case (refused oc m)
  then show ?thesis using stage_failure_iff [of "gpq_stages req"] stage_failure_not_allow by auto
next
  case (granted e)
  from granted(2) obtain t0 where "dateParse (gpq_now req) = Some t0" "dateParse e = Some (t0 + max 1 (gpq_permitTtlMs req))"
    by (rule gov_expiry_time)
  then show ?thesis using granted
    by (auto simp: consumeExecutionPermit_def issued_permit_def gov_sameScope_def isAtOrBefore_def split: if_splits)
qed

definition demo_gov_request :: GovPipelineRequest where
  "demo_gov_request =
     \<lparr> gpq_decisionId = ''d'', gpq_scope = \<lparr> gsc_tenantId = ''t'', gsc_workspaceId = ''w'' \<rparr>, gpq_principalId = ''p'', gpq_action = ''read'',
       gpq_resource = \<lparr> res_resourceType = ''doc'', res_resourceId = ''1'', res_sensitivity = Gsens_INTERNAL \<rparr>, gpq_traceId = ''tr'',
       gpq_correlationId = ''co'', gpq_risk = \<lparr> grk_level = Gr_LOW, grk_score = 1, grk_reasonCode = [], grk_factorRefs = [] \<rparr>,
       gpq_stages = \<lparr> psi_readiness = Layer_READY, psi_identityVerified = True, psi_identityRevoked = False, psi_tenantMatches = True,
         psi_contextKnown = True, psi_capability = Gc_GRANTED, psi_authorization = As_AUTHORIZED, psi_policy = Pe_ALLOW,
         psi_riskLevel = Gr_LOW, psi_approvalRequired = True, psi_approval = Some Ap_APPROVED, psi_auditWritable = True \<rparr>,
       gpq_now = ''1970-01-01T00:00:00.000Z'', gpq_permitTtlMs = 60000 \<rparr>"

lemma demo_gov_passes: "stages_pass (gpq_stages demo_gov_request)"
  by (simp add: stages_pass_def demo_gov_request_def)

lemma demo_gov_expiry: "gov_expiry (gpq_now demo_gov_request) (gpq_permitTtlMs demo_gov_request) = Inr ''1970-01-01T00:01:00.000Z''"
  by code_simp

lemma demo_gov_run: "\<exists>r n'. evaluateGovernancePipeline C demo_gov_request n = (Inr r, n') \<and> gdn_outcome (gpz_decision r) = Go_ALLOW"
proof -
  have "stage_failure (gpq_stages demo_gov_request) = None" using demo_gov_passes by (simp only: stage_failure_iff)
  then show ?thesis by (simp add: evaluateGovernancePipeline_def demo_gov_expiry newId_def gov_build_def)
qed

theorem governance_permit_bound_witness:
  "\<exists>r n'. evaluateGovernancePipeline demo_crypto demo_gov_request 0 = (Inr r, n') \<and> gpz_permit r \<noteq> None"
  using demo_gov_run [of demo_crypto 0] governance_permit_bound by metis

text \<open>A clock that shows no time never finds a permit, a capability or an approval expired.\<close>

lemma unreadable_clock_consumes:
  "dateParse now = None \<Longrightarrow> gep_nonce p \<notin> seen \<Longrightarrow>
     consumeExecutionPermit p \<lparr> gsc_tenantId = gep_tenantId p, gsc_workspaceId = gep_workspaceId p \<rparr> (gep_contextHash p) seen now = Pc_CONSUMED"
  by (simp add: consumeExecutionPermit_def isAtOrBefore_def split: option.split)

text \<open>A type and an id are joined by a colon, so two resources can share a context.\<close>

lemma resources_share_context:
  "permitContextHash C (req\<lparr> gpq_resource := \<lparr> res_resourceType = ''a:b'', res_resourceId = ''c'', res_sensitivity = s \<rparr> \<rparr>) =
   permitContextHash C (req\<lparr> gpq_resource := \<lparr> res_resourceType = ''a'', res_resourceId = ''b:c'', res_sensitivity = s \<rparr> \<rparr>)"
  by (simp add: permitContextHash_def resource_ref_def)

text \<open>A risk that is high passes the pipeline without an approval.\<close>

lemma high_risk_passes: "stages_pass s \<Longrightarrow> stages_pass (s\<lparr> psi_riskLevel := Gr_HIGH, psi_approvalRequired := False \<rparr>)"
  by (simp add: stages_pass_def)

text \<open>The environment of a capability is compared with nothing.\<close>

lemma capability_environment_ignored: "resolveCapability (i\<lparr> cri_environment := e \<rparr>) = resolveCapability i"
  by (cases "cri_grant i"; cases "cri_descriptor i"; cases "cri_region i"; cases "cco_allowedRegions (cgr_constraint (the (cri_grant i)))";
      cases "cco_maxUses (cgr_constraint (the (cri_grant i)))") (simp_all add: resolveCapability_def)

text \<open>The revocation of a capability does not look at the tenant.\<close>

lemma capability_revocation_all_tenants: "capability_isRevoked c (capability_revoke c r)"
  by (simp add: capability_isRevoked_def capability_revoke_def)

end
