(* ===== verification/Event_Audit.thy ===== *)
theory Event_Audit
  imports Event_Store
begin

text \<open>
  \<^verbatim>\<open>event-foundation/src/audit.ts\<close>: the audit of the events, a hash chain per tenant and workspace, and the
  check of a lineage for cycles. The chain is an instance of the shared theory of hash chains; the check
  is compared with the acyclicity of the relation from an event to its cause.
\<close>

section \<open>The audit sink\<close>

datatype EventAuditEventType =
  Ev_producer_registered | Ev_producer_revoked | Ev_event_accepted | Ev_event_rejected | Ev_event_duplicated | Ev_event_delivered
  | Ev_delivery_failed | Ev_retry_scheduled | Ev_retry_exhausted | Ev_dead_letter_created | Ev_replay_requested | Ev_replay_approved
  | Ev_replay_rejected | Ev_replay_completed | Ev_schema_registered | Ev_schema_deprecated | Ev_schema_revoked
  | Ev_subscription_created | Ev_subscription_revoked | Ev_checkpoint_advanced | Ev_integrity_failure_detected

fun audit_event_text :: "EventAuditEventType \<Rightarrow> string" where
  "audit_event_text Ev_producer_registered = ''producer_registered''"
| "audit_event_text Ev_producer_revoked = ''producer_revoked''"
| "audit_event_text Ev_event_accepted = ''event_accepted''"
| "audit_event_text Ev_event_rejected = ''event_rejected''"
| "audit_event_text Ev_event_duplicated = ''event_duplicated''"
| "audit_event_text Ev_event_delivered = ''event_delivered''"
| "audit_event_text Ev_delivery_failed = ''delivery_failed''"
| "audit_event_text Ev_retry_scheduled = ''retry_scheduled''"
| "audit_event_text Ev_retry_exhausted = ''retry_exhausted''"
| "audit_event_text Ev_dead_letter_created = ''dead_letter_created''"
| "audit_event_text Ev_replay_requested = ''replay_requested''"
| "audit_event_text Ev_replay_approved = ''replay_approved''"
| "audit_event_text Ev_replay_rejected = ''replay_rejected''"
| "audit_event_text Ev_replay_completed = ''replay_completed''"
| "audit_event_text Ev_schema_registered = ''schema_registered''"
| "audit_event_text Ev_schema_deprecated = ''schema_deprecated''"
| "audit_event_text Ev_schema_revoked = ''schema_revoked''"
| "audit_event_text Ev_subscription_created = ''subscription_created''"
| "audit_event_text Ev_subscription_revoked = ''subscription_revoked''"
| "audit_event_text Ev_checkpoint_advanced = ''checkpoint_advanced''"
| "audit_event_text Ev_integrity_failure_detected = ''integrity_failure_detected''"

datatype EventAuditOutcome = Event_ALLOWED | Event_DENIED

fun event_outcome_text :: "EventAuditOutcome \<Rightarrow> string" where
  "event_outcome_text Event_ALLOWED = ''ALLOWED''"
| "event_outcome_text Event_DENIED = ''DENIED''"

record EventAuditInput =
  eai_scope :: EventScope
  eai_event :: EventAuditEventType
  eai_actorRef :: string
  eai_originEventRef :: "string option"
  eai_outcome :: EventAuditOutcome
  eai_reasonCode :: string
  eai_at :: string
  eai_evidenceRefs :: "string list option"

record EventAuditRecord =
  ear_auditId :: string
  ear_input :: EventAuditInput
  ear_sequence :: nat
  ear_partitionKey :: string
  ear_previousHash :: string
  ear_currentHash :: string

definition EVENT_AUDIT_GENESIS :: string where
  "EVENT_AUDIT_GENESIS = replicate 64 (CHR ''0'')"

definition event_partitionKey :: "EventScope \<Rightarrow> string" where
  "event_partitionKey s = esc_tenantId s @ ''::'' @ esc_workspaceId s"

text \<open>What \<^verbatim>\<open>bodyOf\<close> takes of a record, besides the previous hash.\<close>

type_synonym event_audit_body =
  "(string \<times> nat) \<times> (EventAuditEventType \<times> string \<times> string option) \<times> (EventAuditOutcome \<times> string) \<times> string \<times> string list"

definition event_body :: "string \<Rightarrow> nat \<Rightarrow> EventAuditInput \<Rightarrow> event_audit_body" where
  "event_body pk sequence i =
     ((pk, sequence), (eai_event i, eai_actorRef i, eai_originEventRef i), (eai_outcome i, eai_reasonCode i), eai_at i,
      (case eai_evidenceRefs i of Some rs \<Rightarrow> rs | None \<Rightarrow> []))"

definition event_bodyOf :: "string \<Rightarrow> event_audit_body \<Rightarrow> json" where
  "event_bodyOf previousHash = (\<lambda>((pk, sequence), (event, actorRef, origin), (outcome, reasonCode), time, evidenceRefs).
     JObj ([(''partitionKey'', JStr pk), (''sequence'', JNum (int sequence)), (''event'', JStr (audit_event_text event)),
            (''actorRef'', JStr actorRef)] @
           opt_member ''originEventRef'' origin @
           [(''outcome'', JStr (event_outcome_text outcome)), (''reasonCode'', JStr reasonCode), (''at'', JStr time),
            (''evidenceRefs'', JArr (map JStr evidenceRefs)), (''previousHash'', JStr previousHash)]))"

definition event_audit_text :: "string \<Rightarrow> event_audit_body \<Rightarrow> string" where
  "event_audit_text previousHash body =
     canonicalJson (JObj [(''previousHash'', JStr previousHash), (''body'', event_bodyOf previousHash body)])"

record event_audit_log =
  eal_partitions :: "string \<Rightarrow> EventAuditRecord list"
  eal_draws :: nat

definition event_audit_append :: "crypto \<Rightarrow> EventAuditInput \<Rightarrow> event_audit_log \<Rightarrow> EventAuditRecord \<times> event_audit_log" where
  "event_audit_append C i log =
     (let key = event_partitionKey (eai_scope i); records = eal_partitions log key;
          previous = (if records = [] then None else Some (last records));
          sequence = (case previous of Some r \<Rightarrow> ear_sequence r | None \<Rightarrow> 0) + 1;
          previousHash = (case previous of Some r \<Rightarrow> ear_currentHash r | None \<Rightarrow> EVENT_AUDIT_GENESIS);
          currentHash = sha256Hex C (event_audit_text previousHash (event_body key sequence i));
          (auditId, n) = newId C ''evtaudit'' (eal_draws log);
          entry = \<lparr> ear_auditId = auditId, ear_input = i, ear_sequence = sequence, ear_partitionKey = key,
                    ear_previousHash = previousHash, ear_currentHash = currentHash \<rparr>
      in (entry, \<lparr> eal_partitions = (eal_partitions log)(key := records @ [entry]), eal_draws = n \<rparr>))"

definition event_audit_entries :: "EventScope \<Rightarrow> event_audit_log \<Rightarrow> EventAuditRecord list" where
  "event_audit_entries scope log = eal_partitions log (event_partitionKey scope)"

fun event_verify_from :: "crypto \<Rightarrow> string \<Rightarrow> nat \<Rightarrow> EventAuditRecord list \<Rightarrow> bool" where
  "event_verify_from C previous expected [] = True"
| "event_verify_from C previous expected (r # rs) =
     (if ear_previousHash r \<noteq> previous \<or> ear_sequence r \<noteq> expected then False
      else if sha256Hex C (event_audit_text previous (event_body (ear_partitionKey r) (ear_sequence r) (ear_input r))) \<noteq> ear_currentHash r
      then False
      else event_verify_from C (ear_currentHash r) (expected + 1) rs)"

definition event_verifyChain :: "crypto \<Rightarrow> EventScope \<Rightarrow> event_audit_log \<Rightarrow> bool" where
  "event_verifyChain C scope log = event_verify_from C EVENT_AUDIT_GENESIS 1 (event_audit_entries scope log)"

section \<open>Lineage\<close>

record EventLineageNode =
  eln_eventId :: string
  eln_causationId :: "string option"
  eln_correlationId :: string

text \<open>The map of parents: a later node with the same id replaces an earlier one.\<close>

definition lineage_parent :: "EventLineageNode list \<Rightarrow> string \<Rightarrow> string option" where
  "lineage_parent nodes e = Option.bind (map_of (rev (map (\<lambda>n. (eln_eventId n, eln_causationId n)) nodes)) e) id"

lemma lineage_parent_node: "lineage_parent nodes c = Some p \<Longrightarrow> c \<in> eln_eventId ` set nodes"
  by (auto simp: lineage_parent_def bind_eq_Some_conv dest!: map_of_SomeD)

text \<open>The inner loop: follow the causes until there is none, or one was seen before.\<close>

function lineage_walk :: "EventLineageNode list \<Rightarrow> string set \<Rightarrow> string option \<Rightarrow> bool" where
  "lineage_walk nodes seen cur =
     (case cur of
        None \<Rightarrow> False
      | Some c \<Rightarrow> if c \<in> seen then True else lineage_walk nodes (insert c seen) (lineage_parent nodes c))"
  by pat_completeness auto

termination
proof (relation "measure (\<lambda>(nodes, seen, cur). case cur of None \<Rightarrow> 0 | Some c \<Rightarrow> Suc (card (eln_eventId ` set nodes - seen)))", goal_cases)
  case (2 nodes seen cur c)
  show ?case
  proof (cases "lineage_parent nodes c")
    case None
    then show ?thesis using 2 by simp
  next
    case (Some p)
    then have "c \<in> eln_eventId ` set nodes - seen" using lineage_parent_node 2 by blast
    then have "eln_eventId ` set nodes - insert c seen \<subset> eln_eventId ` set nodes - seen" by blast
    then have "card (eln_eventId ` set nodes - insert c seen) < card (eln_eventId ` set nodes - seen)" by (rule psubset_card_mono [rotated]) simp
    then show ?thesis using 2 Some by simp
  qed
qed simp

declare lineage_walk.simps [simp del]

definition hasLineageCycle :: "EventLineageNode list \<Rightarrow> bool" where
  "hasLineageCycle nodes = list_ex (\<lambda>n. lineage_walk nodes {} (Some (eln_eventId n))) nodes"

section \<open>The chain\<close>

lemma audit_event_text_inject [simp]: "audit_event_text a = audit_event_text b \<longleftrightarrow> a = b"
  by (cases a; cases b; simp)

lemma event_outcome_text_inject [simp]: "event_outcome_text a = event_outcome_text b \<longleftrightarrow> a = b"
  by (cases a; cases b) simp_all

lemma js_values_strings [simp]: "list_all js_value (map JStr xs)"
  by (simp add: list_all_iff)

lemma json_eq_strings [simp]: "list_all2 json_eq (map JStr xs) (map JStr ys) \<longleftrightarrow> xs = ys"
  by (simp add: list_all2_map1 list_all2_map2 list.rel_eq)

lemma js_value_event_body [simp]: "js_value (event_bodyOf p b)"
proof -
  obtain pk sq ev ac og oc rc ti es where b: "b = ((pk, sq), (ev, ac, og), (oc, rc), ti, es)" by (metis prod.collapse)
  show ?thesis unfolding b event_bodyOf_def prod.case opt_member_def
    by (rule js_value_JObjI; cases og; simp add: not_index_Cons is_digit_def)
qed

lemma event_body_eq: "json_eq (event_bodyOf p b) (event_bodyOf q c) \<Longrightarrow> b = c"
proof -
  obtain pk sq ev ac og oc rc ti es where b: "b = ((pk, sq), (ev, ac, og), (oc, rc), ti, es)" by (metis prod.collapse)
  obtain pk' sq' ev' ac' og' oc' rc' ti' es' where c: "c = ((pk', sq'), (ev', ac', og'), (oc', rc'), ti', es')" by (metis prod.collapse)
  assume "json_eq (event_bodyOf p b) (event_bodyOf q c)"
  then show "b = c" unfolding b c event_bodyOf_def prod.case opt_member_def
    by (cases og; cases og') simp_all
qed

interpretation event_links: hash_chain event_audit_text
proof
  fix p q b c assume a: "event_audit_text p b = event_audit_text q c"
  let ?v = "\<lambda>p b. JObj [(''previousHash'', JStr p), (''body'', event_bodyOf p b)]"
  have js: "js_value (?v p b)" for p b by (rule js_value_JObjI) (simp_all add: not_index_Cons is_digit_def)
  have "json_eq (?v p b) (?v q c)" using a unfolding event_audit_text_def canonical_text_iff [OF js js] .
  then have "p = q" "json_eq (event_bodyOf p b) (event_bodyOf q c)" by auto
  then show "p = q \<and> b = c" using event_body_eq by blast
qed

definition event_audit_link :: "EventAuditRecord \<Rightarrow> event_audit_body link" where
  "event_audit_link r = \<lparr> lk_previous = ear_previousHash r, lk_body = event_body (ear_partitionKey r) (ear_sequence r) (ear_input r),
     lk_current = ear_currentHash r \<rparr>"

lemma event_verify_linked:
  "event_verify_from C p n rs \<longleftrightarrow>
     linked C event_audit_text p (map event_audit_link rs) \<and> numbered (\<lambda>b. snd (fst b)) n (map event_audit_link rs)"
  by (induction rs arbitrary: p n) (auto simp: event_audit_link_def event_body_def)

lemma event_verify_snoc:
  "event_verify_from C p n (rs @ [r]) \<longleftrightarrow> event_verify_from C p n rs \<and> ear_sequence r = n + length rs \<and>
     ear_previousHash r = (if rs = [] then p else ear_currentHash (last rs)) \<and>
     ear_currentHash r = sha256Hex C (event_audit_text (ear_previousHash r) (event_body (ear_partitionKey r) (ear_sequence r) (ear_input r)))"
  by (induction rs arbitrary: p n) auto

lemma event_append_verifies:
  assumes "event_verify_from C EVENT_AUDIT_GENESIS 1 (eal_partitions log key)"
  shows "event_verify_from C EVENT_AUDIT_GENESIS 1 (eal_partitions (snd (event_audit_append C i log)) key)"
proof -
  have n: "ear_sequence (last rs) = length rs" if "event_verify_from C EVENT_AUDIT_GENESIS 1 rs" "rs \<noteq> []" for rs
    using that by (cases rs rule: rev_cases) (auto simp: event_verify_snoc)
  show ?thesis
    using assms n [OF assms] event_verify_snoc [of C EVENT_AUDIT_GENESIS 1 "[]"]
    by (auto simp: event_audit_append_def Let_def event_verify_snoc split: prod.split)
qed

inductive event_log_reach :: "crypto \<Rightarrow> event_audit_log \<Rightarrow> bool" for C where
  event_log_empty: "eal_partitions log = (\<lambda>k. []) \<Longrightarrow> event_log_reach C log"
| event_log_append: "event_log_reach C log \<Longrightarrow> event_log_reach C (snd (event_audit_append C i log))"

lemma event_log_verifies: "event_log_reach C log \<Longrightarrow> event_verify_from C EVENT_AUDIT_GENESIS 1 (eal_partitions log key)"
  by (induction rule: event_log_reach.induct) (simp_all add: event_append_verifies [simplified])

text \<open>The audit of the events is tamper evident, under the assumptions on the digest of the other logs.\<close>

lemma event_audit_tamper_evident:
  assumes "event_log_reach C log" and "event_verify_from C EVENT_AUDIT_GENESIS 1 rs"
    and "link_head EVENT_AUDIT_GENESIS (map event_audit_link rs) =
         link_head EVENT_AUDIT_GENESIS (map event_audit_link (event_audit_entries scope log))"
    and "collision_free C EVENT_AUDIT_GENESIS
           (link_texts event_audit_text EVENT_AUDIT_GENESIS (map event_audit_link rs) \<union>
            link_texts event_audit_text EVENT_AUDIT_GENESIS (map event_audit_link (event_audit_entries scope log)))"
  shows "event_verifyChain C scope log \<and> map event_audit_link rs = map event_audit_link (event_audit_entries scope log)"
proof -
  have "event_verifyChain C scope log"
    using event_log_verifies [OF assms(1)] by (simp add: event_verifyChain_def event_audit_entries_def)
  then show ?thesis
    using assms(2-4) event_links.same_head_same_chain unfolding event_verifyChain_def event_verify_linked by blast
qed

section \<open>Cycles\<close>

definition cause_of :: "EventLineageNode list \<Rightarrow> (string \<times> string) set" where
  "cause_of nodes = {(e, p). lineage_parent nodes e = Some p}"

text \<open>A walk finds a repetition exactly when it comes to an event that was seen or that is on a cycle.\<close>

lemma lineage_walk_None [simp]: "\<not> lineage_walk nodes seen None"
  by (simp add: lineage_walk.simps)

lemma lineage_walk_Some:
  "lineage_walk nodes seen (Some c) \<longleftrightarrow> c \<in> seen \<or> lineage_walk nodes (insert c seen) (lineage_parent nodes c)"
  by (simp add: lineage_walk.simps [of nodes seen "Some c"])

lemma cause_of_fun: "(e, p) \<in> cause_of nodes \<Longrightarrow> (e, q) \<in> cause_of nodes \<Longrightarrow> p = q"
  by (simp add: cause_of_def)

lemma walk_sound:
  "lineage_walk nodes seen cur \<Longrightarrow> cur = Some c \<Longrightarrow> \<forall>s \<in> seen. (s, c) \<in> (cause_of nodes)\<^sup>+ \<Longrightarrow> \<exists>d. (d, d) \<in> (cause_of nodes)\<^sup>+"
proof (induction nodes seen cur arbitrary: c rule: lineage_walk.induct)
  case (1 nodes seen cur)
  show ?case
  proof (cases "c \<in> seen")
    case True
    then show ?thesis using 1 by blast
  next
    case False
    then obtain p where p: "lineage_parent nodes c = Some p" "lineage_walk nodes (insert c seen) (Some p)"
      using 1(2,3) by (cases "lineage_parent nodes c") (auto simp: lineage_walk_Some)
    then have "(c, p) \<in> cause_of nodes" by (simp add: cause_of_def)
    then have "\<forall>s \<in> insert c seen. (s, p) \<in> (cause_of nodes)\<^sup>+" using 1(4) by (auto intro: trancl_into_trancl)
    then show ?thesis using 1(1) [OF 1(3) False _ p(1)] p by simp
  qed
qed

lemma walk_complete:
  "(c, c) \<in> (cause_of nodes)\<^sup>+ \<Longrightarrow> cur = Some c \<Longrightarrow> lineage_walk nodes seen cur"
proof (induction nodes seen cur arbitrary: c rule: lineage_walk.induct)
  case (1 nodes seen cur)
  obtain p where p: "(c, p) \<in> cause_of nodes" "(p, c) \<in> (cause_of nodes)\<^sup>*"
    using 1(2) by (metis tranclD)
  then have "(p, p) \<in> (cause_of nodes)\<^sup>+" by (meson rtrancl_into_trancl1)
  then have "lineage_walk nodes (insert c seen) (Some p)" if "c \<notin> seen"
    using 1(1) [OF 1(3) that] p(1) by (simp add: cause_of_def)
  then show ?case using 1(3) p(1) by (auto simp: lineage_walk_Some cause_of_def)
qed

lemma cycle_in_nodes: "(d, d) \<in> (cause_of nodes)\<^sup>+ \<Longrightarrow> d \<in> eln_eventId ` set nodes"
  by (metis (mono_tags, lifting) case_prodD cause_of_def lineage_parent_node mem_Collect_eq tranclD)

text \<open>
  C31. The check of a lineage always ends, and it reports a cycle exactly when the relation from every
  event to its cause has one; causes that are not among the nodes end a chain.
\<close>

theorem lineage_cycle_iff: "hasLineageCycle nodes \<longleftrightarrow> \<not> acyclic {(e, p). lineage_parent nodes e = Some p}"
proof -
  have "hasLineageCycle nodes \<longleftrightarrow> (\<exists>d. (d, d) \<in> (cause_of nodes)\<^sup>+)"
  proof
    assume "hasLineageCycle nodes"
    then obtain n :: EventLineageNode where "lineage_walk nodes {} (Some (eln_eventId n))" by (auto simp: hasLineageCycle_def list_ex_iff)
    then show "\<exists>d. (d, d) \<in> (cause_of nodes)\<^sup>+" using walk_sound [of nodes "{}" _ "eln_eventId n"] by blast
  next
    assume "\<exists>d. (d, d) \<in> (cause_of nodes)\<^sup>+"
    then obtain d where d: "(d, d) \<in> (cause_of nodes)\<^sup>+" by blast
    then show "hasLineageCycle nodes"
      using cycle_in_nodes [OF d] walk_complete [OF d] by (auto simp: hasLineageCycle_def list_ex_iff)
  qed
  then show ?thesis by (simp add: acyclic_def cause_of_def)
qed

end
