(* ===== verification/Agent_Runtime.thy ===== *)
theory Agent_Runtime
  imports Event_Audit Edge_Security Scoped_Audit
begin

text \<open>
  \<^verbatim>\<open>agent-runtime/src\<close>: registration and life cycle of agents, the screen against injected instructions, the
  parsing of what the reasoner proposes, the seam to governance (\<^verbatim>\<open>action.ts\<close>), the loop, conversations, messages
  between agents, tools, approvals, schedules, background tasks, voice, the references and the audit. The texts for
  people and the references that stay empty are left out of a decision. The regular expressions of the reference
  classifier are not modelled: the verdict of a classifier is an input.
\<close>

section \<open>Decisions, kinds, provenance\<close>

record 's RuntimeDecision =
  rdn_decision :: 's
  rdn_reasonCode :: string
  rdn_evaluatedAt :: string

definition agent_decide :: "string \<Rightarrow> 's \<Rightarrow> string \<Rightarrow> 's RuntimeDecision" where
  "agent_decide now decision reasonCode = \<lparr> rdn_decision = decision, rdn_reasonCode = reasonCode, rdn_evaluatedAt = now \<rparr>"

lemma agent_decide_simps [simp]:
  "rdn_decision (agent_decide n d r) = d" "rdn_reasonCode (agent_decide n d r) = r" "rdn_evaluatedAt (agent_decide n d r) = n"
  by (simp_all add: agent_decide_def)

record AgentScope =
  asc_tenantId :: string
  asc_workspaceId :: string

datatype ActorKind = Actor_HUMAN | Actor_AGENT | Actor_DIGITAL_EMPLOYEE | Actor_SERVICE | Actor_SYSTEM

definition isAgentKind :: "ActorKind \<Rightarrow> bool" where
  "isAgentKind k \<longleftrightarrow> k = Actor_AGENT \<or> k = Actor_DIGITAL_EMPLOYEE"

datatype AgentGovernanceOutcome =
    Ao_ALLOW | Ao_DENY | Ao_STEP_UP_REQUIRED | Ao_APPROVAL_REQUIRED | Ao_CAPABILITY_MISSING | Ao_POLICY_CONFLICT | Ao_RISK_TOO_HIGH
  | Ao_CONTEXT_MISMATCH | Ao_REVOKED | Ao_EXPIRED | Ao_SYSTEM_NOT_READY

datatype InputSource = Src_SYSTEM_POLICY | Src_TOOL_SCHEMA | Src_USER | Src_TOOL_OUTPUT | Src_MEMORY | Src_AGENT_MESSAGE | Src_VOICE | Src_UNKNOWN
datatype InputTrust = Itr_TRUSTED | Itr_SEMI_TRUSTED | Itr_UNTRUSTED

fun trustOf :: "InputSource \<Rightarrow> InputTrust" where
  "trustOf Src_SYSTEM_POLICY = Itr_TRUSTED"
| "trustOf Src_TOOL_SCHEMA = Itr_TRUSTED"
| "trustOf Src_USER = Itr_SEMI_TRUSTED"
| "trustOf Src_TOOL_OUTPUT = Itr_UNTRUSTED"
| "trustOf Src_MEMORY = Itr_UNTRUSTED"
| "trustOf Src_AGENT_MESSAGE = Itr_UNTRUSTED"
| "trustOf Src_VOICE = Itr_UNTRUSTED"
| "trustOf Src_UNKNOWN = Itr_UNTRUSTED"

record TaggedInput =
  tin_source :: InputSource
  tin_trust :: InputTrust
  tin_contentDigest :: string
  tin_provenanceRef :: string
  tin_receivedAt :: string

definition tagInput :: "InputSource \<Rightarrow> string \<Rightarrow> string \<Rightarrow> string \<Rightarrow> TaggedInput" where
  "tagInput source contentDigest provenanceRef receivedAt =
     \<lparr> tin_source = source, tin_trust = trustOf source, tin_contentDigest = contentDigest, tin_provenanceRef = provenanceRef,
       tin_receivedAt = receivedAt \<rparr>"

definition mayBeTreatedAsInstruction :: "TaggedInput \<Rightarrow> bool" where
  "mayBeTreatedAsInstruction i \<longleftrightarrow> tin_trust i = Itr_TRUSTED"

definition isUntrusted :: "TaggedInput \<Rightarrow> bool" where
  "isUntrusted i \<longleftrightarrow> tin_trust i = Itr_UNTRUSTED"

section \<open>Registration\<close>

datatype agent_spec_status = Spec_registered | Spec_active | Spec_suspended | Spec_revoked

record AgentSpec =
  asp_agentId :: string
  asp_kind :: ActorKind
  asp_scope :: AgentScope
  asp_ownerPrincipalId :: string
  asp_purpose :: string
  asp_modelRef :: "string option"
  asp_status :: agent_spec_status
  asp_privileged :: bool
  asp_createdAt :: string

datatype AgentRegistrationStatus =
    Reg_REGISTERED | Reg_OWNERLESS_DENIED | Reg_NO_PURPOSE_DENIED | Reg_HUMAN_MASQUERADE_DENIED | Reg_PRIVILEGED_AGENT_DENIED
  | Reg_NOT_AN_AGENT_KIND | Reg_REVOKED

definition evaluateAgentRegistration :: "AgentSpec \<Rightarrow> string \<Rightarrow> AgentRegistrationStatus RuntimeDecision" where
  "evaluateAgentRegistration s now =
     (if \<not> isAgentKind (asp_kind s) then agent_decide now Reg_NOT_AN_AGENT_KIND ''not_an_agent_kind''
      else if asp_status s = Spec_revoked then agent_decide now Reg_REVOKED ''agent_revoked''
      else if \<not> isNonEmptyString (asp_ownerPrincipalId s) then agent_decide now Reg_OWNERLESS_DENIED ''ownerless_agent_denied''
      else if \<not> isNonEmptyString (asp_purpose s) then agent_decide now Reg_NO_PURPOSE_DENIED ''no_purpose_denied''
      else if asp_privileged s then agent_decide now Reg_PRIVILEGED_AGENT_DENIED ''privileged_agent_denied''
      else agent_decide now Reg_REGISTERED ''agent_registered'')"

definition assertAgentNotHuman :: "ActorKind \<Rightarrow> bool \<Rightarrow> unit result" where
  "assertAgentNotHuman kind claimsHuman =
     (if claimsHuman \<and> kind \<noteq> Actor_HUMAN then Inl (JsError ''A non-human agent cannot present as a HUMAN.'') else Inr ())"

definition assertNoAgentSelfMutation :: "AgentSpec \<Rightarrow> AgentSpec \<Rightarrow> unit result" where
  "assertNoAgentSelfMutation before after =
     (if asp_ownerPrincipalId before \<noteq> asp_ownerPrincipalId after \<or>
         asc_tenantId (asp_scope before) \<noteq> asc_tenantId (asp_scope after) \<or>
         asp_privileged before \<noteq> asp_privileged after \<or> asp_kind before \<noteq> asp_kind after
      then Inl (JsError ''An agent cannot change its own owner, tenant, kind or privilege (self-escalation denied).'')
      else Inr ())"

section \<open>Life cycle\<close>

datatype AgentState = Ag_REGISTERED | Ag_PROVISIONED | Ag_IDLE | Ag_ACTIVE | Ag_AWAITING_APPROVAL | Ag_SUSPENDED | Ag_REVOKED | Ag_TERMINATED
datatype AgentEvent = Ev_PROVISION | Ev_READY | Ev_ASSIGN | Ev_APPROVAL_REQUIRED | Ev_APPROVED | Ev_COMPLETE | Ev_SUSPEND | Ev_RESUME | Ev_REVOKE | Ev_TERMINATE

fun agent_transitions :: "AgentState \<Rightarrow> (AgentEvent \<times> AgentState) list" where
  "agent_transitions Ag_REGISTERED = [(Ev_PROVISION, Ag_PROVISIONED), (Ev_REVOKE, Ag_REVOKED), (Ev_TERMINATE, Ag_TERMINATED)]"
| "agent_transitions Ag_PROVISIONED = [(Ev_READY, Ag_IDLE), (Ev_REVOKE, Ag_REVOKED), (Ev_TERMINATE, Ag_TERMINATED)]"
| "agent_transitions Ag_IDLE = [(Ev_ASSIGN, Ag_ACTIVE), (Ev_REVOKE, Ag_REVOKED), (Ev_TERMINATE, Ag_TERMINATED)]"
| "agent_transitions Ag_ACTIVE =
     [(Ev_APPROVAL_REQUIRED, Ag_AWAITING_APPROVAL), (Ev_COMPLETE, Ag_IDLE), (Ev_SUSPEND, Ag_SUSPENDED), (Ev_TERMINATE, Ag_TERMINATED)]"
| "agent_transitions Ag_AWAITING_APPROVAL = [(Ev_APPROVED, Ag_ACTIVE), (Ev_SUSPEND, Ag_SUSPENDED), (Ev_TERMINATE, Ag_TERMINATED)]"
| "agent_transitions Ag_SUSPENDED = [(Ev_RESUME, Ag_IDLE), (Ev_REVOKE, Ag_REVOKED), (Ev_TERMINATE, Ag_TERMINATED)]"
| "agent_transitions Ag_REVOKED = []"
| "agent_transitions Ag_TERMINATED = []"

datatype TransitionStatus = Tr_TRANSITIONED | Tr_INVALID_TRANSITION | Tr_TERMINAL_STATE

definition agent_terminal :: "AgentState \<Rightarrow> bool" where
  "agent_terminal s \<longleftrightarrow> s = Ag_REVOKED \<or> s = Ag_TERMINATED"

definition evaluateTransition :: "AgentState \<Rightarrow> AgentEvent \<Rightarrow> string \<Rightarrow> TransitionStatus RuntimeDecision \<times> AgentState option" where
  "evaluateTransition from event now =
     (if agent_terminal from then (agent_decide now Tr_TERMINAL_STATE ''terminal_state'', None)
      else (case map_of (agent_transitions from) event of
              None \<Rightarrow> (agent_decide now Tr_INVALID_TRANSITION ''invalid_transition'', None)
            | Some next \<Rightarrow> (agent_decide now Tr_TRANSITIONED ''transitioned'', Some next)))"

definition assertHumanInitiatedHalt :: "string \<Rightarrow> AgentEvent \<Rightarrow> unit result" where
  "assertHumanInitiatedHalt initiatorKind event =
     (if (event = Ev_REVOKE \<or> event = Ev_TERMINATE) \<and> (initiatorKind = ''AGENT'' \<or> initiatorKind = ''DIGITAL_EMPLOYEE'') then
        Inl (JsError ''An agent cannot revoke or terminate itself or others; a human must initiate a halt.'')
      else Inr ())"

section \<open>Screening and proposals\<close>

datatype InjectionVerdict = Iv_CLEAN | Iv_SUSPICIOUS | Iv_MALICIOUS | Iv_UNSCREENED
datatype InjectionScreenStatus = Scr_PASS | Scr_QUARANTINE | Scr_STEP_UP_REQUIRED | Scr_BLOCK

definition evaluateInjectionScreen :: "TaggedInput \<Rightarrow> InjectionVerdict option \<Rightarrow> string \<Rightarrow> InjectionScreenStatus RuntimeDecision" where
  "evaluateInjectionScreen i verdict now =
     (if tin_trust i = Itr_TRUSTED then agent_decide now Scr_PASS ''trusted_input''
      else (case verdict of
              None \<Rightarrow> agent_decide now Scr_QUARANTINE ''unscreened_untrusted_input''
            | Some v \<Rightarrow>
                if v = Iv_MALICIOUS then agent_decide now Scr_BLOCK ''injection_malicious''
                else if v = Iv_SUSPICIOUS \<or> v = Iv_UNSCREENED then agent_decide now Scr_STEP_UP_REQUIRED ''injection_suspicious''
                else agent_decide now Scr_PASS ''injection_clean''))"

text \<open>The proposal as a JSON value. \<^verbatim>\<open>hasUnsafeKeys\<close> counts the levels of objects and arrays.\<close>

fun hasUnsafeKeys :: "json \<Rightarrow> nat \<Rightarrow> bool" where
  "hasUnsafeKeys (JArr vs) depth = (depth > 64 \<or> list_ex (\<lambda>v. hasUnsafeKeys v (depth + 1)) vs)"
| "hasUnsafeKeys (JObj kvs) depth =
     (depth > 64 \<or> list_ex (\<lambda>(k, v). k \<in> {''__proto__'', ''prototype'', ''constructor''} \<or> hasUnsafeKeys v (depth + 1)) kvs)"
| "hasUnsafeKeys _ depth = (depth > 64)"

datatype ProposedAction =
  Prop_TOOL_CALL string string | Prop_MESSAGE string string | Prop_MEMORY_WRITE string | Prop_RESPOND string | Prop_NOOP
datatype ProposalParseStatus = Pp_PARSED | Pp_MALFORMED | Pp_UNSAFE | Pp_UNKNOWN_KIND

record ProposalParseResult =
  ppr_status :: ProposalParseStatus
  ppr_action :: "ProposedAction option"
  ppr_reasonCode :: string

definition proposal_error :: "ProposalParseStatus \<Rightarrow> string \<Rightarrow> ProposalParseResult" where
  "proposal_error s m = \<lparr> ppr_status = s, ppr_action = None, ppr_reasonCode = m \<rparr>"

definition proposal_parsed :: "ProposedAction \<Rightarrow> ProposalParseResult" where
  "proposal_parsed a = \<lparr> ppr_status = Pp_PARSED, ppr_action = Some a, ppr_reasonCode = ''parsed'' \<rparr>"

text \<open>A property that is a text with more than white space.\<close>

definition text_prop :: "json \<Rightarrow> string \<Rightarrow> string option" where
  "text_prop r k = (case jget k r of Some (JStr s) \<Rightarrow> if isNonEmptyString s then Some s else None | _ \<Rightarrow> None)"

definition parseProposedAction :: "json \<Rightarrow> ProposalParseResult" where
  "parseProposedAction raw =
     (case raw of
        JObj _ \<Rightarrow>
          if hasUnsafeKeys raw 0 then proposal_error Pp_UNSAFE ''proposal_unsafe_keys''
          else (case jget ''kind'' raw of
                  Some (JStr kind) \<Rightarrow>
                    if kind = ''TOOL_CALL'' then
                      (case (text_prop raw ''tool'', text_prop raw ''argsDigest'') of
                         (Some t, Some a) \<Rightarrow> proposal_parsed (Prop_TOOL_CALL t a)
                       | _ \<Rightarrow> proposal_error Pp_MALFORMED ''tool_call_missing_fields'')
                    else if kind = ''MESSAGE'' then
                      (case (text_prop raw ''toAgentRef'', text_prop raw ''bodyDigest'') of
                         (Some t, Some b) \<Rightarrow> proposal_parsed (Prop_MESSAGE t b)
                       | _ \<Rightarrow> proposal_error Pp_MALFORMED ''message_missing_fields'')
                    else if kind = ''MEMORY_WRITE'' then
                      (case text_prop raw ''keyDigest'' of
                         Some k \<Rightarrow> proposal_parsed (Prop_MEMORY_WRITE k) | None \<Rightarrow> proposal_error Pp_MALFORMED ''memory_write_missing_fields'')
                    else if kind = ''RESPOND'' then
                      (case text_prop raw ''bodyDigest'' of
                         Some b \<Rightarrow> proposal_parsed (Prop_RESPOND b) | None \<Rightarrow> proposal_error Pp_MALFORMED ''respond_missing_fields'')
                    else if kind = ''NOOP'' then proposal_parsed Prop_NOOP
                    else proposal_error Pp_UNKNOWN_KIND ''proposal_unknown_kind''
                | _ \<Rightarrow> proposal_error Pp_UNKNOWN_KIND ''proposal_unknown_kind'')
      | JArr _ \<Rightarrow> if hasUnsafeKeys raw 0 then proposal_error Pp_UNSAFE ''proposal_unsafe_keys''
                  else proposal_error Pp_UNKNOWN_KIND ''proposal_unknown_kind''
      | _ \<Rightarrow> proposal_error Pp_MALFORMED ''proposal_not_object'')"

section \<open>The governed action\<close>

record GovernanceGateResult =
  ggr_outcome :: AgentGovernanceOutcome
  ggr_permitRef :: "string option"
  ggr_contextHash :: string
  ggr_reasonCode :: string

datatype action_kind = Ak_TOOL_CALL | Ak_MESSAGE | Ak_MEMORY_WRITE | Ak_RESPOND

record AgentActionRequest =
  aar_actionId :: string
  aar_agentId :: string
  aar_scope :: AgentScope
  aar_actionKind :: action_kind
  aar_critical :: bool
  aar_contextHash :: string

datatype AgentActionStatus =
    Aa_READY_TO_EXECUTE | Aa_BLOCKED_INJECTION | Aa_STEP_UP_REQUIRED | Aa_APPROVAL_REQUIRED | Aa_DENIED | Aa_PERMIT_MISSING
  | Aa_AUDIT_UNAVAILABLE | Aa_NOT_READY

record ExecutionTicket =
  tkt_actionId :: string
  tkt_permitRef :: string
  tkt_contextHash :: string
  tkt_tenantId :: string
  tkt_issuedAt :: string

fun agent_outcome_text :: "AgentGovernanceOutcome \<Rightarrow> string" where
  "agent_outcome_text Ao_ALLOW = ''allow''"
| "agent_outcome_text Ao_DENY = ''deny''"
| "agent_outcome_text Ao_STEP_UP_REQUIRED = ''step_up_required''"
| "agent_outcome_text Ao_APPROVAL_REQUIRED = ''approval_required''"
| "agent_outcome_text Ao_CAPABILITY_MISSING = ''capability_missing''"
| "agent_outcome_text Ao_POLICY_CONFLICT = ''policy_conflict''"
| "agent_outcome_text Ao_RISK_TOO_HIGH = ''risk_too_high''"
| "agent_outcome_text Ao_CONTEXT_MISMATCH = ''context_mismatch''"
| "agent_outcome_text Ao_REVOKED = ''revoked''"
| "agent_outcome_text Ao_EXPIRED = ''expired''"
| "agent_outcome_text Ao_SYSTEM_NOT_READY = ''system_not_ready''"

definition evaluateAgentAction ::
  "AgentActionRequest \<Rightarrow> InjectionScreenStatus \<Rightarrow> GovernanceGateResult \<Rightarrow> bool \<Rightarrow> string \<Rightarrow>
   AgentActionStatus RuntimeDecision \<times> ExecutionTicket option" where
  "evaluateAgentAction request screen gate auditWritable now =
     (let reject = (\<lambda>s m. (agent_decide now s m, None)); oc = ggr_outcome gate in
      if screen = Scr_BLOCK then reject Aa_BLOCKED_INJECTION ''injection_block''
      else if screen = Scr_QUARANTINE then reject Aa_BLOCKED_INJECTION ''injection_quarantine''
      else if screen = Scr_STEP_UP_REQUIRED then reject Aa_STEP_UP_REQUIRED ''injection_step_up''
      else if oc \<noteq> Ao_ALLOW then
        (if oc = Ao_APPROVAL_REQUIRED then reject Aa_APPROVAL_REQUIRED ''approval_required''
         else if oc = Ao_STEP_UP_REQUIRED then reject Aa_STEP_UP_REQUIRED ''step_up_required''
         else if oc = Ao_SYSTEM_NOT_READY then reject Aa_NOT_READY ''governance_not_ready''
         else reject Aa_DENIED (''governance_'' @ agent_outcome_text oc))
      else (case ggr_permitRef gate of
              None \<Rightarrow> reject Aa_PERMIT_MISSING ''permit_missing''
            | Some ref \<Rightarrow>
                if ref = [] then reject Aa_PERMIT_MISSING ''permit_missing''
                else if ggr_contextHash gate \<noteq> aar_contextHash request then reject Aa_DENIED ''context_hash_mismatch''
                else if \<not> auditWritable then reject Aa_AUDIT_UNAVAILABLE ''audit_unavailable''
                else (agent_decide now Aa_READY_TO_EXECUTE ''ready_to_execute'',
                      Some \<lparr> tkt_actionId = aar_actionId request, tkt_permitRef = ref, tkt_contextHash = aar_contextHash request,
                             tkt_tenantId = asc_tenantId (aar_scope request), tkt_issuedAt = now \<rparr>)))"

datatype permit_answer =
    Pa_CONSUMED | Pa_PERMIT_EXPIRED | Pa_PERMIT_REPLAYED | Pa_PERMIT_CONTEXT_MISMATCH | Pa_PERMIT_TENANT_MISMATCH | Pa_PERMIT_UNKNOWN
datatype TicketConsumeStatus = Tc_EXECUTED_ONCE | Tc_TICKET_REPLAYED | Tc_PERMIT_REJECTED

text \<open>The consumer of permits is a parameter with a state.\<close>

definition consumeExecutionTicket ::
  "ExecutionTicket \<Rightarrow> (string \<Rightarrow> string \<Rightarrow> string \<Rightarrow> string \<Rightarrow> 'c \<Rightarrow> permit_answer \<times> 'c) \<Rightarrow> string set \<Rightarrow> string \<Rightarrow> 'c \<Rightarrow>
   TicketConsumeStatus \<times> 'c" where
  "consumeExecutionTicket ticket consume seenTicketNonces now st =
     (if tkt_actionId ticket @ '':'' @ tkt_permitRef ticket \<in> seenTicketNonces then (Tc_TICKET_REPLAYED, st)
      else (let (answer, st') = consume (tkt_permitRef ticket) (tkt_contextHash ticket) (tkt_tenantId ticket) now st
            in (if answer = Pa_CONSUMED then Tc_EXECUTED_ONCE else Tc_PERMIT_REJECTED, st')))"

definition assertNoPermitCacheForCritical :: "bool \<Rightarrow> bool \<Rightarrow> unit result" where
  "assertNoPermitCacheForCritical critical servedFromCache =
     (if critical \<and> servedFromCache then
        Inl (JsError ''Critical actions must not use a cached permit/decision; one governance decision per execution.'')
      else Inr ())"

section \<open>The loop\<close>

datatype LoopPhase = Ph_PERCEIVE | Ph_PLAN | Ph_SCREEN | Ph_GOVERN | Ph_ACT | Ph_OBSERVE | Ph_HALT

definition phase_order :: "LoopPhase list" where
  "phase_order = [Ph_PERCEIVE, Ph_PLAN, Ph_SCREEN, Ph_GOVERN, Ph_ACT, Ph_OBSERVE]"

text \<open>\<^verbatim>\<open>indexOf\<close>: minus one when the element is missing.\<close>

definition phase_index :: "LoopPhase \<Rightarrow> int" where
  "phase_index p = (if p \<in> set phase_order then int (length (takeWhile (\<lambda>q. q \<noteq> p) phase_order)) else -1)"

datatype AdvanceStatus = Adv_ADVANCED | Adv_HALTED | Adv_OUT_OF_ORDER

definition advanceLoop :: "LoopPhase \<Rightarrow> AgentActionStatus option \<Rightarrow> string \<Rightarrow> AdvanceStatus RuntimeDecision \<times> LoopPhase option" where
  "advanceLoop current actionStatus now =
     (if current = Ph_HALT \<or> current = Ph_OBSERVE then (agent_decide now Adv_HALTED ''iteration_complete'', None)
      else if current = Ph_GOVERN \<and> actionStatus \<noteq> Some Aa_READY_TO_EXECUTE then
        (agent_decide now Adv_HALTED ''govern_not_allow'', Some Ph_HALT)
      else (agent_decide now Adv_ADVANCED ''advanced'', Some (phase_order ! nat (phase_index current + 1))))"

definition assertNoPhaseSkip :: "LoopPhase \<Rightarrow> LoopPhase \<Rightarrow> unit result" where
  "assertNoPhaseSkip from to =
     (if phase_index from \<ge> 0 \<and> phase_index to \<ge> 0 \<and> phase_index to \<noteq> phase_index from + 1 then
        Inl (JsError ''Loop phase skip denied.'')
      else Inr ())"

section \<open>Conversations and messages\<close>

record Turn =
  trn_turnId :: string
  trn_conversationId :: string
  trn_role :: string
  trn_channel :: string
  trn_contentDigest :: string
  trn_sequence :: int
  trn_createdAt :: string

record Conversation =
  cnv_conversationId :: string
  cnv_scope :: AgentScope
  cnv_agentId :: string
  cnv_open :: bool
  cnv_lastSequence :: int

datatype TurnAppendStatus = Ta_APPENDED | Ta_CONVERSATION_CLOSED | Ta_SEQUENCE_ROLLBACK | Ta_TENANT_MISMATCH

definition evaluateTurnAppend :: "Conversation \<Rightarrow> Turn \<Rightarrow> string \<Rightarrow> string \<Rightarrow> TurnAppendStatus RuntimeDecision" where
  "evaluateTurnAppend conversation turn contextTenantId now =
     (if asc_tenantId (cnv_scope conversation) \<noteq> contextTenantId then agent_decide now Ta_TENANT_MISMATCH ''conversation_tenant_mismatch''
      else if \<not> cnv_open conversation then agent_decide now Ta_CONVERSATION_CLOSED ''conversation_closed''
      else if trn_sequence turn \<le> cnv_lastSequence conversation then agent_decide now Ta_SEQUENCE_ROLLBACK ''turn_sequence_rollback''
      else agent_decide now Ta_APPENDED ''turn_appended'')"

datatype AgentRole = Role_SUPERVISOR | Role_WORKER
datatype MessageKind = Mk_TASK_ASSIGNMENT | Mk_TASK_RESULT | Mk_STATUS | Mk_ESCALATION

record AgentMessage =
  amg_messageId :: string
  amg_scope :: AgentScope
  amg_fromAgentId :: string
  amg_fromRole :: AgentRole
  amg_toAgentId :: string
  amg_toRole :: AgentRole
  amg_kind :: MessageKind
  amg_bodyDigest :: string
  amg_causationId :: "string option"
  amg_correlationId :: string
  amg_sentAt :: string

datatype MessageRoutingStatus =
    Mr_ROUTED | Mr_PEER_TO_PEER_DENIED | Mr_CROSS_TENANT_DENIED | Mr_SELF_MESSAGE_DENIED | Mr_INVALID_DIRECTION | Mr_LINEAGE_CYCLE_DENIED

text \<open>The map of parents has the edges of the lineage and, last, the one of the message; the walk is that of the event lineage.\<close>

definition agent_lineage :: "(string \<times> string option) list \<Rightarrow> string \<Rightarrow> string option \<Rightarrow> EventLineageNode list" where
  "agent_lineage lineage fromAgentId causationId =
     map (\<lambda>(a, c). \<lparr> eln_eventId = a, eln_causationId = c, eln_correlationId = [] \<rparr>) (lineage @ [(fromAgentId, causationId)])"

definition agent_hasLineageCycle :: "(string \<times> string option) list \<Rightarrow> string \<Rightarrow> string option \<Rightarrow> bool" where
  "agent_hasLineageCycle lineage fromAgentId causationId =
     lineage_walk (agent_lineage lineage fromAgentId causationId) {} (Some fromAgentId)"

definition evaluateMessageRouting ::
  "AgentMessage \<Rightarrow> string \<Rightarrow> (string \<times> string option) list \<Rightarrow> string \<Rightarrow> MessageRoutingStatus RuntimeDecision" where
  "evaluateMessageRouting m contextTenantId lineage now =
     (if asc_tenantId (amg_scope m) \<noteq> contextTenantId then agent_decide now Mr_CROSS_TENANT_DENIED ''cross_tenant_message_denied''
      else if amg_fromAgentId m = amg_toAgentId m then agent_decide now Mr_SELF_MESSAGE_DENIED ''self_message_denied''
      else if amg_fromRole m = Role_WORKER \<and> amg_toRole m = Role_WORKER then agent_decide now Mr_PEER_TO_PEER_DENIED ''peer_to_peer_denied''
      else if amg_kind m = Mk_TASK_ASSIGNMENT \<and> amg_fromRole m \<noteq> Role_SUPERVISOR then
        agent_decide now Mr_INVALID_DIRECTION ''assignment_must_come_from_supervisor''
      else if agent_hasLineageCycle lineage (amg_fromAgentId m) (amg_causationId m) then
        agent_decide now Mr_LINEAGE_CYCLE_DENIED ''lineage_cycle_denied''
      else agent_decide now Mr_ROUTED ''message_routed'')"

definition assertNoInheritedAuthority :: "string list \<Rightarrow> unit result" where
  "assertNoInheritedAuthority cs =
     (if cs \<noteq> [] then Inl (JsError ''A message recipient cannot inherit the sender's capabilities; it must re-govern its own actions.'')
      else Inr ())"

section \<open>Tools\<close>

datatype ToolRiskClass = Risk_READ_ONLY | Risk_MUTATING | Risk_EXTERNAL_EFFECT | Risk_IRREVERSIBLE | Risk_MONEY_MOVEMENT
datatype ToolOrigin = Org_FIRST_PARTY | Org_PLUGIN | Org_MCP_SERVER

record ToolDescriptor =
  tde_name :: string
  tde_action :: string
  tde_resourceType :: string
  tde_riskClass :: ToolRiskClass
  tde_origin :: ToolOrigin
  tde_schemaDigest :: string
  tde_signatureRef :: "string option"
  tde_registered :: bool

datatype ToolResolutionStatus = Tl_RESOLVED | Tl_UNKNOWN_TOOL | Tl_UNREGISTERED | Tl_UNSIGNED_PLUGIN_DENIED | Tl_REVOKED

definition resolveTool :: "ToolDescriptor option \<Rightarrow> bool \<Rightarrow> bool \<Rightarrow> string \<Rightarrow> ToolResolutionStatus RuntimeDecision" where
  "resolveTool descriptor revoked production now =
     (case descriptor of
        None \<Rightarrow> agent_decide now Tl_UNKNOWN_TOOL ''unknown_tool''
      | Some d \<Rightarrow>
          if \<not> tde_registered d then agent_decide now Tl_UNREGISTERED ''tool_unregistered''
          else if revoked then agent_decide now Tl_REVOKED ''tool_revoked''
          else if (tde_origin d = Org_PLUGIN \<or> tde_origin d = Org_MCP_SERVER) \<and> production \<and> \<not> isNonEmptyOpt (tde_signatureRef d) then
            agent_decide now Tl_UNSIGNED_PLUGIN_DENIED ''unsigned_plugin_denied''
          else agent_decide now Tl_RESOLVED ''tool_resolved'')"

definition requiresHumanApproval :: "ToolRiskClass \<Rightarrow> bool" where
  "requiresHumanApproval c \<longleftrightarrow> c = Risk_IRREVERSIBLE \<or> c = Risk_MONEY_MOVEMENT"

section \<open>Approvals, schedules, background tasks, voice\<close>

datatype approver_kind = Appr_HUMAN | Appr_AGENT | Appr_DIGITAL_EMPLOYEE | Appr_SERVICE
datatype ApprovalRelayStatus =
    Rl_REQUEST_DELIVERED | Rl_AI_APPROVER_DENIED | Rl_SELF_APPROVAL_DENIED | Rl_CONTEXT_CHANGED | Rl_EXPIRED | Rl_ALREADY_CONSUMED
  | Rl_APPROVAL_ACCEPTED

record RelayApprovalInput =
  rai_requesterPrincipalId :: string
  rai_approverPrincipalId :: "string option"
  rai_approverKind :: "approver_kind option"
  rai_boundContextHash :: string
  rai_currentContextHash :: string
  rai_expiresAt :: string
  rai_consumed :: bool
  rai_now :: string
  rai_decided :: bool

definition evaluateApprovalRelay :: "RelayApprovalInput \<Rightarrow> ApprovalRelayStatus RuntimeDecision" where
  "evaluateApprovalRelay i =
     (let out = agent_decide (rai_now i) in
      if \<not> rai_decided i then out Rl_REQUEST_DELIVERED ''approval_request_delivered''
      else if rai_approverKind i \<in> {Some Appr_AGENT, Some Appr_DIGITAL_EMPLOYEE, Some Appr_SERVICE} then
        out Rl_AI_APPROVER_DENIED ''ai_approver_denied''
      else if (case rai_approverPrincipalId i of None \<Rightarrow> False | Some a \<Rightarrow> a \<noteq> [] \<and> a = rai_requesterPrincipalId i) then
        out Rl_SELF_APPROVAL_DENIED ''self_approval_denied''
      else if rai_consumed i then out Rl_ALREADY_CONSUMED ''approval_already_consumed''
      else if isAtOrBefore (rai_expiresAt i) (rai_now i) then out Rl_EXPIRED ''approval_expired''
      else if rai_boundContextHash i \<noteq> rai_currentContextHash i then out Rl_CONTEXT_CHANGED ''approval_context_changed''
      else out Rl_APPROVAL_ACCEPTED ''approval_accepted'')"

datatype ScheduleState = Sch_PENDING | Sch_FIRED | Sch_CANCELLED | Sch_EXPIRED

record AgentSchedule =
  sch_scheduleId :: string
  sch_scope :: AgentScope
  sch_agentId :: string
  sch_kind :: string
  sch_state :: ScheduleState
  sch_fireAt :: string
  sch_expiresAt :: "string option"

datatype ScheduleFireStatus = Sf_FIRE_REQUIRES_FRESH_DECISION | Sf_NOT_DUE | Sf_EXPIRED | Sf_TERMINAL

definition evaluateScheduleFire :: "AgentSchedule \<Rightarrow> string \<Rightarrow> ScheduleFireStatus RuntimeDecision" where
  "evaluateScheduleFire s now =
     (if sch_state s = Sch_CANCELLED \<or> sch_state s = Sch_EXPIRED then agent_decide now Sf_TERMINAL ''schedule_terminal''
      else if (case sch_expiresAt s of None \<Rightarrow> False | Some e \<Rightarrow> e \<noteq> [] \<and> isAtOrBefore e now) then
        agent_decide now Sf_EXPIRED ''schedule_expired''
      else if isFuture (sch_fireAt s) now then agent_decide now Sf_NOT_DUE ''schedule_not_due''
      else agent_decide now Sf_FIRE_REQUIRES_FRESH_DECISION ''schedule_fire_fresh_decision'')"

definition assertScheduleCarriesNoPermit :: "bool \<Rightarrow> unit result" where
  "assertScheduleCarriesNoPermit hasStoredPermit =
     (if hasStoredPermit then Inl (JsError ''A schedule must not store an execution permit; it fires into a fresh governance decision.'')
      else Inr ())"

datatype WorkerTaskState = Wt_QUEUED | Wt_RUNNING | Wt_SUSPENDED | Wt_COMPLETED | Wt_DEAD_LETTERED

record AgentBackgroundTask =
  abt_taskId :: string
  abt_scope :: AgentScope
  abt_agentId :: string
  abt_state :: WorkerTaskState
  abt_attempts :: int
  abt_maxAttempts :: int
  abt_capabilityLeaseExpiresAt :: string

datatype WorkerAdmissionStatus = Wa_ADMITTED | Wa_DEAD_LETTER | Wa_LEASE_EXPIRED | Wa_TERMINAL

definition evaluateWorkerAdmission :: "AgentBackgroundTask \<Rightarrow> string \<Rightarrow> WorkerAdmissionStatus RuntimeDecision" where
  "evaluateWorkerAdmission t now =
     (if abt_state t = Wt_COMPLETED \<or> abt_state t = Wt_DEAD_LETTERED then agent_decide now Wa_TERMINAL ''task_terminal''
      else if abt_attempts t \<ge> abt_maxAttempts t then agent_decide now Wa_DEAD_LETTER ''task_attempts_exhausted''
      else if isAtOrBefore (abt_capabilityLeaseExpiresAt t) now then agent_decide now Wa_LEASE_EXPIRED ''capability_lease_expired''
      else agent_decide now Wa_ADMITTED ''task_admitted'')"

definition assertResumeReauthorized :: "bool \<Rightarrow> unit result" where
  "assertResumeReauthorized reauthorized =
     (if \<not> reauthorized then Inl (JsError ''A suspended task cannot resume on stale authorization; re-validate identity/trust/permit.'')
      else Inr ())"

datatype PushToTalkState = Ptt_IDLE | Ptt_CAPTURING | Ptt_FINALIZING | Ptt_COMPLETE
datatype VoiceTurnStatus = Vt_ACCEPTED_AS_GOVERNED_INPUT | Vt_NOT_FINALIZED | Vt_FULL_DUPLEX_NOT_SUPPORTED

definition evaluateVoiceTurn :: "PushToTalkState \<Rightarrow> bool \<Rightarrow> bool \<Rightarrow> string \<Rightarrow> VoiceTurnStatus RuntimeDecision" where
  "evaluateVoiceTurn state finalized fullDuplex now =
     (if fullDuplex then agent_decide now Vt_FULL_DUPLEX_NOT_SUPPORTED ''full_duplex_deferred''
      else if \<not> finalized \<or> state \<noteq> Ptt_COMPLETE then agent_decide now Vt_NOT_FINALIZED ''voice_not_finalized''
      else agent_decide now Vt_ACCEPTED_AS_GOVERNED_INPUT ''voice_governed_input'')"

section \<open>References and audit\<close>

type_synonym agent_registry = "string \<rightharpoonup> AgentSpec"

definition agent_register :: "AgentSpec \<Rightarrow> agent_registry \<Rightarrow> agent_registry" where
  "agent_register s r = r(asc_tenantId (asp_scope s) @ ''::'' @ asp_agentId s \<mapsto> s)"

definition agent_get :: "string \<Rightarrow> string \<Rightarrow> agent_registry \<Rightarrow> AgentSpec option" where
  "agent_get agentId tenantId r = r (tenantId @ ''::'' @ agentId)"

definition reference_gate :: "crypto \<Rightarrow> AgentGovernanceOutcome \<Rightarrow> string \<Rightarrow> nat \<Rightarrow> GovernanceGateResult \<times> nat" where
  "reference_gate C outcome contextHash n =
     (if outcome = Ao_ALLOW then
        (\<lparr> ggr_outcome = Ao_ALLOW, ggr_permitRef = Some (fst (newId C ''permit'' n)), ggr_contextHash = contextHash,
           ggr_reasonCode = ''reference_allow'' \<rparr>, Suc n)
      else (\<lparr> ggr_outcome = outcome, ggr_permitRef = None, ggr_contextHash = contextHash,
              ggr_reasonCode = ''reference_'' @ agent_outcome_text outcome \<rparr>, n))"

record reference_consumer =
  rfc_spent :: "string set"
  rfc_tenantOf :: "string \<rightharpoonup> string"
  rfc_contextOf :: "string \<rightharpoonup> string"

definition consumer_issue :: "string \<Rightarrow> string \<Rightarrow> string \<Rightarrow> reference_consumer \<Rightarrow> reference_consumer" where
  "consumer_issue ref tenantId contextHash s =
     s\<lparr> rfc_tenantOf := (rfc_tenantOf s)(ref \<mapsto> tenantId), rfc_contextOf := (rfc_contextOf s)(ref \<mapsto> contextHash) \<rparr>"

definition consumer_consume :: "string \<Rightarrow> string \<Rightarrow> string \<Rightarrow> string \<Rightarrow> reference_consumer \<Rightarrow> permit_answer \<times> reference_consumer" where
  "consumer_consume ref contextHash tenantId now s =
     (if rfc_tenantOf s ref = None then (Pa_PERMIT_UNKNOWN, s)
      else if ref \<in> rfc_spent s then (Pa_PERMIT_REPLAYED, s)
      else if rfc_tenantOf s ref \<noteq> Some tenantId then (Pa_PERMIT_TENANT_MISMATCH, s)
      else if rfc_contextOf s ref \<noteq> Some contextHash then (Pa_PERMIT_CONTEXT_MISMATCH, s)
      else (Pa_CONSUMED, s\<lparr> rfc_spent := insert ref (rfc_spent s) \<rparr>))"

record AgentAuditInput =
  aai_scope :: AgentScope
  aai_event :: string
  aai_actorRef :: string
  aai_outcome :: string
  aai_reasonCode :: string
  aai_correlationRef :: "string option"
  aai_at :: string

definition agent_partitionKey :: "AgentScope \<Rightarrow> string" where
  "agent_partitionKey s = scope_partition (asc_tenantId s) (asc_workspaceId s)"

definition agent_bodyOf :: "string \<Rightarrow> nat \<Rightarrow> AgentAuditInput \<Rightarrow> (string \<times> cell) list" where
  "agent_bodyOf pk sequence i =
     [(''partitionKey'', Text pk), (''sequence'', Count sequence), (''event'', Text (aai_event i)), (''actorRef'', Text (aai_actorRef i)),
      (''outcome'', Text (aai_outcome i)), (''reasonCode'', Text (aai_reasonCode i)), (''correlationRef'', Maybe (aai_correlationRef i)),
      (''at'', Text (aai_at i))]"

definition agent_audit_append ::
  "crypto \<Rightarrow> AgentAuditInput \<Rightarrow> AgentAuditInput audit_rows \<Rightarrow> AgentAuditInput audit_row \<times> AgentAuditInput audit_rows" where
  "agent_audit_append C i = rows_append C ''agentaudit'' agent_bodyOf (agent_partitionKey (aai_scope i)) i"

definition agent_audit_entries :: "AgentScope \<Rightarrow> AgentAuditInput audit_rows \<Rightarrow> AgentAuditInput audit_row list" where
  "agent_audit_entries s rows = rows_partitions rows (agent_partitionKey s)"

definition agent_verifyChain :: "crypto \<Rightarrow> AgentScope \<Rightarrow> AgentAuditInput audit_rows \<Rightarrow> bool" where
  "agent_verifyChain C s rows = sink_verify_from C agent_bodyOf AUDIT_GENESIS 1 (agent_audit_entries s rows)"

interpretation agent_rows: audit_format agent_bodyOf
  "[''partitionKey'', ''sequence'', ''event'', ''actorRef'', ''outcome'', ''reasonCode'', ''correlationRef'', ''at'']"
  by unfold_locales (simp_all add: agent_bodyOf_def not_index_Cons is_digit_def)

lemma agent_append_verifies: "agent_verifyChain C s rows \<Longrightarrow> agent_verifyChain C s (snd (agent_audit_append C i rows))"
  unfolding agent_verifyChain_def agent_audit_entries_def agent_audit_append_def by (rule agent_rows.rows_append_verifies)

text \<open>An assignment to \<^verbatim>\<open>__proto__\<close> makes no property of its own.\<close>

definition agent_sensitive_key :: "string \<Rightarrow> bool" where
  "agent_sensitive_key k =
     list_ex (\<lambda>w. js_includes w (toLowerCase k))
       [''password'', ''secret'', ''token'', ''apikey'', ''api_key'', ''api-key'', ''authorization'', ''credential'', ''ssn'', ''card'']"

definition agent_redact :: "(string \<times> json) list \<Rightarrow> (string \<times> json) list" where
  "agent_redact kvs =
     map (\<lambda>(k, v). (k, if agent_sensitive_key k then JStr ''[REDACTED]'' else v)) (filter (\<lambda>(k, _). k \<noteq> ''__proto__'') kvs)"

section \<open>What the decisions mean\<close>

lemma registered_iff:
  "rdn_decision (evaluateAgentRegistration s now) = Reg_REGISTERED \<longleftrightarrow>
     isAgentKind (asp_kind s) \<and> asp_status s \<noteq> Spec_revoked \<and> isNonEmptyString (asp_ownerPrincipalId s) \<and>
     isNonEmptyString (asp_purpose s) \<and> \<not> asp_privileged s"
  by (simp add: evaluateAgentRegistration_def)

text \<open>The comment also names the scope, the purpose and the status.\<close>

lemma self_mutation_of_workspace_and_status:
  "assertNoAgentSelfMutation s (s\<lparr> asp_scope := (asp_scope s)\<lparr> asc_workspaceId := w \<rparr>, asp_purpose := p, asp_status := st \<rparr>) = Inr ()"
  by (simp add: assertNoAgentSelfMutation_def)

definition agent_step :: "AgentState \<Rightarrow> AgentEvent \<Rightarrow> AgentState" where
  "agent_step s e = (case snd (evaluateTransition s e []) of Some s' \<Rightarrow> s' | None \<Rightarrow> s)"

lemma ended_agent_stays: "agent_terminal s \<Longrightarrow> foldl agent_step s es = s"
  by (induction es) (simp_all add: agent_step_def evaluateTransition_def)

text \<open>An agent at work, or one that waits for an approval, can be suspended and terminated, not revoked.\<close>

lemma revocable_iff:
  "rdn_decision (fst (evaluateTransition s Ev_REVOKE now)) = Tr_TRANSITIONED \<longleftrightarrow>
     s \<in> {Ag_REGISTERED, Ag_PROVISIONED, Ag_IDLE, Ag_SUSPENDED}"
  by (cases s) (simp_all add: evaluateTransition_def agent_terminal_def)

lemma screen_passes_iff:
  "rdn_decision (evaluateInjectionScreen i v now) = Scr_PASS \<longleftrightarrow> mayBeTreatedAsInstruction i \<or> v = Some Iv_CLEAN"
  by (cases v; cases "the v") (auto simp: evaluateInjectionScreen_def mayBeTreatedAsInstruction_def)

lemma instruction_sources: "mayBeTreatedAsInstruction (tagInput s d p t) \<longleftrightarrow> s \<in> {Src_SYSTEM_POLICY, Src_TOOL_SCHEMA}"
  by (cases s) (simp_all add: mayBeTreatedAsInstruction_def tagInput_def)

lemma ready_iff:
  "snd (evaluateAgentAction r screen gate w now) = Some t \<longleftrightarrow>
     screen = Scr_PASS \<and> ggr_outcome gate = Ao_ALLOW \<and> ggr_contextHash gate = aar_contextHash r \<and> w \<and> tkt_permitRef t \<noteq> [] \<and>
     ggr_permitRef gate = Some (tkt_permitRef t) \<and> tkt_actionId t = aar_actionId r \<and> tkt_contextHash t = aar_contextHash r \<and>
     tkt_tenantId t = asc_tenantId (aar_scope r) \<and> tkt_issuedAt t = now"
  by (cases screen; cases "ggr_permitRef gate") (auto simp: evaluateAgentAction_def Let_def)

lemma ready_decision_iff:
  "rdn_decision (fst (evaluateAgentAction r screen gate w now)) = Aa_READY_TO_EXECUTE \<longleftrightarrow> snd (evaluateAgentAction r screen gate w now) \<noteq> None"
  by (cases screen; cases "ggr_permitRef gate") (simp_all add: evaluateAgentAction_def Let_def)

text \<open>The loop enters the action phase from the governance phase only, and only when the action may run.\<close>

lemma phase_index_simps [simp]:
  "phase_index Ph_PERCEIVE = 0" "phase_index Ph_PLAN = 1" "phase_index Ph_SCREEN = 2" "phase_index Ph_GOVERN = 3"
  "phase_index Ph_ACT = 4" "phase_index Ph_OBSERVE = 5" "phase_index Ph_HALT = -1"
  by (simp_all add: phase_index_def phase_order_def)

lemma act_only_after_govern: "snd (advanceLoop p st now) = Some Ph_ACT \<longleftrightarrow> p = Ph_GOVERN \<and> st = Some Aa_READY_TO_EXECUTE"
  by (cases p) (simp_all add: advanceLoop_def phase_order_def)

lemma advance_skips_nothing: "snd (advanceLoop p st now) = Some q \<Longrightarrow> assertNoPhaseSkip p q = Inr ()"
  by (cases p) (auto simp: advanceLoop_def assertNoPhaseSkip_def phase_order_def split: if_splits)

lemma turns_increase: "rdn_decision (evaluateTurnAppend c t tenant now) = Ta_APPENDED \<Longrightarrow> cnv_lastSequence c < trn_sequence t"
  by (simp add: evaluateTurnAppend_def split: if_splits)

text \<open>Only messages between workers are refused as peers: two supervisors may exchange them.\<close>

lemma routed_iff:
  "rdn_decision (evaluateMessageRouting m tenant lineage now) = Mr_ROUTED \<longleftrightarrow>
     asc_tenantId (amg_scope m) = tenant \<and> amg_fromAgentId m \<noteq> amg_toAgentId m \<and>
     (amg_fromRole m = Role_SUPERVISOR \<or> amg_toRole m = Role_SUPERVISOR \<and> amg_kind m \<noteq> Mk_TASK_ASSIGNMENT) \<and>
     \<not> agent_hasLineageCycle lineage (amg_fromAgentId m) (amg_causationId m)"
  by (cases "amg_fromRole m"; cases "amg_toRole m") (auto simp: evaluateMessageRouting_def)

lemma routed_between_supervisors:
  "rdn_decision (evaluateMessageRouting m tenant lineage now) = Mr_ROUTED \<Longrightarrow>
   rdn_decision (evaluateMessageRouting (m\<lparr> amg_fromRole := Role_SUPERVISOR, amg_toRole := Role_SUPERVISOR \<rparr>) tenant lineage now) = Mr_ROUTED"
  unfolding routed_iff by simp

text \<open>A decision whose approver is not named is accepted.\<close>

lemma anonymous_approval_accepted:
  "rai_decided i \<Longrightarrow> rai_approverKind i = None \<Longrightarrow> rai_approverPrincipalId i = None \<Longrightarrow> \<not> rai_consumed i \<Longrightarrow>
   \<not> isAtOrBefore (rai_expiresAt i) (rai_now i) \<Longrightarrow> rai_boundContextHash i = rai_currentContextHash i \<Longrightarrow>
   rdn_decision (evaluateApprovalRelay i) = Rl_APPROVAL_ACCEPTED"
  by (simp add: evaluateApprovalRelay_def)

lemma fired_schedule_fires_again:
  "evaluateScheduleFire (s\<lparr> sch_state := Sch_FIRED \<rparr>) now = evaluateScheduleFire (s\<lparr> sch_state := Sch_PENDING \<rparr>) now"
  by (simp add: evaluateScheduleFire_def)

lemma admitted_task_bounded: "rdn_decision (evaluateWorkerAdmission t now) = Wa_ADMITTED \<Longrightarrow> abt_attempts t < abt_maxAttempts t"
  by (simp add: evaluateWorkerAdmission_def split: if_splits)

lemma redaction_hides: "(k, v) \<in> set (agent_redact kvs) \<Longrightarrow> agent_sensitive_key k \<Longrightarrow> v = JStr ''[REDACTED]''"
  by (auto simp: agent_redact_def)

text \<open>The reference consumer hands out each permit once.\<close>

definition consumer_claim :: "string \<times> string \<times> string \<times> string \<Rightarrow> reference_consumer \<Rightarrow> bool \<times> reference_consumer" where
  "consumer_claim q s = (case q of (ref, h, t, now) \<Rightarrow> (let (a, s') = consumer_consume ref h t now s in (a = Pa_CONSUMED, s')))"

interpretation reference_permits: exact_one_shot consumer_claim fst rfc_spent
  by unfold_locales (auto simp: consumer_claim_def consumer_consume_def Let_def split: if_splits prod.splits)

lemma reference_permit_consumed_once:
  "claim_run consumer_claim qs s = (won, s') \<Longrightarrow> distinct (map fst won) \<and> fst ` set won \<inter> rfc_spent s = {}"
  using reference_permits.claim_run_inv [of qs s won s'] by simp

end
