(* ===== verification/Agent_Governance.thy ===== *)
theory Agent_Governance
  imports Governance Agent_Runtime
begin

text \<open>
  \<^verbatim>\<open>agent-governance/src\<close>: the bridge from the governance pipeline to the actions of agents. A result of the
  pipeline becomes a gate result, its permit is kept in a store, and a ticket is consumed against that store. The
  main result follows a ticket that was executed back to the request governance allowed.
\<close>

fun mapGovernanceOutcome :: "GovernanceOutcome \<Rightarrow> AgentGovernanceOutcome" where
  "mapGovernanceOutcome Go_ALLOW = Ao_ALLOW"
| "mapGovernanceOutcome Go_DENY = Ao_DENY"
| "mapGovernanceOutcome Go_STEP_UP_REQUIRED = Ao_STEP_UP_REQUIRED"
| "mapGovernanceOutcome Go_APPROVAL_REQUIRED = Ao_APPROVAL_REQUIRED"
| "mapGovernanceOutcome Go_CAPABILITY_MISSING = Ao_CAPABILITY_MISSING"
| "mapGovernanceOutcome Go_POLICY_CONFLICT = Ao_POLICY_CONFLICT"
| "mapGovernanceOutcome Go_RISK_TOO_HIGH = Ao_RISK_TOO_HIGH"
| "mapGovernanceOutcome Go_CONTEXT_MISMATCH = Ao_CONTEXT_MISMATCH"
| "mapGovernanceOutcome Go_REVOKED = Ao_REVOKED"
| "mapGovernanceOutcome Go_EXPIRED = Ao_EXPIRED"
| "mapGovernanceOutcome Go_SYSTEM_NOT_READY = Ao_SYSTEM_NOT_READY"
| "mapGovernanceOutcome Go_CONDITIONALLY_ALLOWED = Ao_DENY"
| "mapGovernanceOutcome Go_DEFERRED = Ao_DENY"
| "mapGovernanceOutcome Go_EVIDENCE_MISSING = Ao_DENY"

definition isExecutableGovernanceOutcome :: "GovernanceOutcome \<Rightarrow> bool" where
  "isExecutableGovernanceOutcome outcome \<longleftrightarrow> outcome = Go_ALLOW"

record GovernancePermitStore =
  gps_permits :: "string \<rightharpoonup> GovExecutionPermit"
  gps_seenNonces :: "string set"

definition newGovernancePermitStore :: GovernancePermitStore where
  "newGovernancePermitStore = \<lparr> gps_permits = Map.empty, gps_seenNonces = {} \<rparr>"

definition store_register :: "GovExecutionPermit \<Rightarrow> GovernancePermitStore \<Rightarrow> string \<times> GovernancePermitStore" where
  "store_register permit st = (gep_permitId permit, st\<lparr> gps_permits := (gps_permits st)(gep_permitId permit \<mapsto> permit) \<rparr>)"

fun permit_answer_of :: "PermitConsumeStatus \<Rightarrow> permit_answer" where
  "permit_answer_of Pc_CONSUMED = Pa_CONSUMED"
| "permit_answer_of Pc_PERMIT_EXPIRED = Pa_PERMIT_EXPIRED"
| "permit_answer_of Pc_PERMIT_REPLAYED = Pa_PERMIT_REPLAYED"
| "permit_answer_of Pc_PERMIT_TENANT_MISMATCH = Pa_PERMIT_TENANT_MISMATCH"
| "permit_answer_of Pc_PERMIT_CONTEXT_MISMATCH = Pa_PERMIT_CONTEXT_MISMATCH"

definition store_consume ::
  "string \<Rightarrow> string \<Rightarrow> string \<Rightarrow> string \<Rightarrow> GovernancePermitStore \<Rightarrow> permit_answer \<times> GovernancePermitStore" where
  "store_consume ref contextHash tenantId now st =
     (case gps_permits st ref of
        None \<Rightarrow> (Pa_PERMIT_UNKNOWN, st)
      | Some permit \<Rightarrow>
          if gep_nonce permit \<in> gps_seenNonces st then (Pa_PERMIT_REPLAYED, st)
          else (let status = consumeExecutionPermit permit \<lparr> gsc_tenantId = tenantId, gsc_workspaceId = gep_workspaceId permit \<rparr>
                               contextHash (gps_seenNonces st) now
                in (permit_answer_of status,
                    if status = Pc_CONSUMED then st\<lparr> gps_seenNonces := insert (gep_nonce permit) (gps_seenNonces st) \<rparr> else st)))"

definition adaptGovernanceGate :: "GovPipelineResult \<Rightarrow> GovernancePermitStore \<Rightarrow> GovernanceGateResult \<times> GovernancePermitStore" where
  "adaptGovernanceGate result st =
     (let outcome = mapGovernanceOutcome (gdn_outcome (gpz_decision result)); contextHash = gdn_contextHash (gpz_decision result);
          reasonCode = gdn_reasonCode (gpz_decision result) in
      case (if outcome = Ao_ALLOW then gpz_permit result else None) of
        Some permit \<Rightarrow>
          (let (ref, st') = store_register permit st
           in (\<lparr> ggr_outcome = outcome, ggr_permitRef = Some ref, ggr_contextHash = contextHash, ggr_reasonCode = reasonCode \<rparr>, st'))
      | None \<Rightarrow>
          (\<lparr> ggr_outcome = (if outcome = Ao_ALLOW then Ao_DENY else outcome), ggr_permitRef = None, ggr_contextHash = contextHash,
             ggr_reasonCode = reasonCode \<rparr>, st))"

record GovernedAgentActionInput =
  gaa_pipelineResult :: GovPipelineResult
  gaa_actionId :: string
  gaa_agentId :: string
  gaa_scope :: AgentScope
  gaa_actionKind :: action_kind
  gaa_critical :: bool
  gaa_injectionScreen :: InjectionScreenStatus
  gaa_auditWritable :: bool
  gaa_now :: string

definition evaluateGovernedAgentAction ::
  "GovernedAgentActionInput \<Rightarrow> GovernancePermitStore \<Rightarrow>
   (AgentActionStatus RuntimeDecision \<times> ExecutionTicket option) \<times> GovernancePermitStore" where
  "evaluateGovernedAgentAction input st =
     (let (gate, st') = adaptGovernanceGate (gaa_pipelineResult input) st
      in (evaluateAgentAction
            \<lparr> aar_actionId = gaa_actionId input, aar_agentId = gaa_agentId input, aar_scope = gaa_scope input,
              aar_actionKind = gaa_actionKind input, aar_critical = gaa_critical input, aar_contextHash = ggr_contextHash gate \<rparr>
            (gaa_injectionScreen input) gate (gaa_auditWritable input) (gaa_now input), st'))"

definition consumeGovernedTicket ::
  "ExecutionTicket \<Rightarrow> string set \<Rightarrow> string \<Rightarrow> GovernancePermitStore \<Rightarrow> TicketConsumeStatus \<times> GovernancePermitStore" where
  "consumeGovernedTicket ticket seenTicketNonces now st = consumeExecutionTicket ticket store_consume seenTicketNonces now st"

section \<open>Steps\<close>

text \<open>
  The store as it is used: the result of a governance run is adapted for an action, or a ticket is consumed. A ticket
  need not be one the bridge gave out. \<open>executed\<close> lists the nonces of the permits that were spent, newest first.
\<close>

inductive governed :: "crypto \<Rightarrow> GovernancePermitStore \<Rightarrow> string list \<Rightarrow> bool" for C where
  start: "governed C newGovernancePermitStore []"
| act: "governed C st executed \<Longrightarrow> evaluateGovernancePipeline C req n = (Inr (gaa_pipelineResult input), n') \<Longrightarrow>
     governed C (snd (evaluateGovernedAgentAction input st)) executed"
| refused: "governed C st executed \<Longrightarrow> consumeGovernedTicket t seen now st = (status, st') \<Longrightarrow> status \<noteq> Tc_EXECUTED_ONCE \<Longrightarrow>
     governed C st' executed"
| execute: "governed C st executed \<Longrightarrow> consumeGovernedTicket t seen now st = (Tc_EXECUTED_ONCE, st') \<Longrightarrow>
     gps_permits st (tkt_permitRef t) = Some p \<Longrightarrow> governed C st' (gep_nonce p # executed)"

definition from_governance :: "crypto \<Rightarrow> GovExecutionPermit \<Rightarrow> GovPipelineRequest \<Rightarrow> bool" where
  "from_governance C p req \<longleftrightarrow>
     (\<exists>n e. stages_pass (gpq_stages req) \<and> gov_expiry (gpq_now req) (gpq_permitTtlMs req) = Inr e \<and> p = issued_permit C req n e)"

lemma adapted_store:
  assumes "evaluateGovernancePipeline C req n = (Inr r, n')" and "gps_permits (snd (adaptGovernanceGate r st)) k = Some p"
  shows "gps_permits st k = Some p \<or> from_governance C p req"
  using assms(1)
proof (cases rule: pipeline_cases)
  case (granted e)
  then show ?thesis using assms(2)
    by (auto simp: adaptGovernanceGate_def store_register_def Let_def from_governance_def split: if_splits)
next
  case (refused oc m)
  then show ?thesis using assms(2) by (simp add: adaptGovernanceGate_def Let_def split: if_splits)
qed

lemma adapted_nonces [simp]: "gps_seenNonces (snd (adaptGovernanceGate r st)) = gps_seenNonces st"
  by (simp add: adaptGovernanceGate_def store_register_def Let_def split: option.split)

lemma governed_action_store [simp]: "snd (evaluateGovernedAgentAction input st) = snd (adaptGovernanceGate (gaa_pipelineResult input) st)"
  by (simp add: evaluateGovernedAgentAction_def Let_def split: prod.split)

lemma consumed_ticket:
  assumes "consumeGovernedTicket t seen now st = (status, st')"
  shows "gps_permits st' = gps_permits st"
    "status \<noteq> Tc_EXECUTED_ONCE \<Longrightarrow> st' = st"
    "status = Tc_EXECUTED_ONCE \<Longrightarrow>
       \<exists>p. gps_permits st (tkt_permitRef t) = Some p \<and> gep_nonce p \<notin> gps_seenNonces st \<and>
         gps_seenNonces st' = insert (gep_nonce p) (gps_seenNonces st) \<and> gep_contextHash p = tkt_contextHash t \<and>
         gep_tenantId p = tkt_tenantId t \<and> \<not> isAtOrBefore (gep_expiresAt p) now"
  using assms
  by (auto simp: consumeGovernedTicket_def consumeExecutionTicket_def store_consume_def consumeExecutionPermit_def Let_def
      split: if_splits option.splits prod.splits)

lemma governed_invariant:
  "governed C st executed \<Longrightarrow>
     (\<forall>k p. gps_permits st k = Some p \<longrightarrow> (\<exists>req. from_governance C p req)) \<and> distinct executed \<and> set executed = gps_seenNonces st"
proof (induction rule: governed.induct)
  case start
  then show ?case by (simp add: newGovernancePermitStore_def)
next
  case (act st executed req n input n')
  then show ?case using adapted_store by fastforce
next
  case (refused st executed t seen now status st')
  then show ?case using consumed_ticket(2) by blast
next
  case (execute st executed t seen now st' p)
  then show ?case using consumed_ticket(1) [OF execute(2)] consumed_ticket(3) [OF execute(2)] by auto
qed

text \<open>
  C8. However governed actions and tickets interleave, the permits that were spent have different nonces, and a
  ticket that is executed belongs to a request every stage of governance passed: its permit was issued for that
  request, was not spent before, has the context hash of the ticket and the tenant of the ticket, and, by a clock
  that shows a time, has not outlived its time to live.
\<close>

theorem governed_execution_mediated:
  assumes "governed C st executed"
  shows "distinct executed \<and>
         (\<forall>t seen now st'. consumeGovernedTicket t seen now st = (Tc_EXECUTED_ONCE, st') \<longrightarrow>
            (\<exists>p req. gps_permits st (tkt_permitRef t) = Some p \<and> from_governance C p req \<and> stages_pass (gpq_stages req) \<and>
               gep_nonce p \<notin> set executed \<and> tkt_contextHash t = permitContextHash C req \<and>
               tkt_tenantId t = gsc_tenantId (gpq_scope req) \<and>
               (\<forall>c c0. dateParse now = Some c \<and> dateParse (gpq_now req) = Some c0 \<longrightarrow> c < c0 + max 1 (gpq_permitTtlMs req))))"
proof -
  note inv = governed_invariant [OF assms]
  have "\<exists>p req. gps_permits st (tkt_permitRef t) = Some p \<and> from_governance C p req \<and> stages_pass (gpq_stages req) \<and>
               gep_nonce p \<notin> set executed \<and> tkt_contextHash t = permitContextHash C req \<and> tkt_tenantId t = gsc_tenantId (gpq_scope req) \<and>
               (\<forall>c c0. dateParse now = Some c \<and> dateParse (gpq_now req) = Some c0 \<longrightarrow> c < c0 + max 1 (gpq_permitTtlMs req))"
    if ex: "consumeGovernedTicket t seen now st = (Tc_EXECUTED_ONCE, st')" for t seen now st'
  proof -
    obtain p where p: "gps_permits st (tkt_permitRef t) = Some p" "gep_nonce p \<notin> gps_seenNonces st" "gep_contextHash p = tkt_contextHash t"
      "gep_tenantId p = tkt_tenantId t" "\<not> isAtOrBefore (gep_expiresAt p) now"
      using consumed_ticket(3) [OF ex] by auto
    obtain req where req: "from_governance C p req" using inv p(1) by blast
    then obtain n e where pass: "stages_pass (gpq_stages req)" and e: "gov_expiry (gpq_now req) (gpq_permitTtlMs req) = Inr e"
      and pe: "p = issued_permit C req n e" by (auto simp: from_governance_def)
    from e obtain c0 where "dateParse (gpq_now req) = Some c0" "dateParse e = Some (c0 + max 1 (gpq_permitTtlMs req))" by (rule gov_expiry_time)
    then have "\<forall>c c1. dateParse now = Some c \<and> dateParse (gpq_now req) = Some c1 \<longrightarrow> c < c1 + max 1 (gpq_permitTtlMs req)"
      using p(5) by (auto simp: pe issued_permit_def isAtOrBefore_def)
    moreover have "gep_contextHash p = permitContextHash C req" "gep_tenantId p = gsc_tenantId (gpq_scope req)" by (simp_all add: pe issued_permit_def)
    ultimately show ?thesis using p req pass inv by auto
  qed
  then show ?thesis using inv by blast
qed

definition demo_governed :: "GovPipelineResult \<Rightarrow> GovernedAgentActionInput" where
  "demo_governed r =
     \<lparr> gaa_pipelineResult = r, gaa_actionId = ''a'', gaa_agentId = ''g'', gaa_scope = \<lparr> asc_tenantId = ''t'', asc_workspaceId = ''w'' \<rparr>,
       gaa_actionKind = Ak_TOOL_CALL, gaa_critical = True, gaa_injectionScreen = Scr_PASS, gaa_auditWritable = True,
       gaa_now = ''1970-01-01T00:00:00.000Z'' \<rparr>"

theorem governed_execution_mediated_witness:
  "\<exists>st t st' req. governed demo_crypto st [] \<and> consumeGovernedTicket t {} ''1970-01-01T00:00:10.000Z'' st = (Tc_EXECUTED_ONCE, st') \<and>
     stages_pass (gpq_stages req) \<and> tkt_contextHash t = permitContextHash demo_crypto req"
proof -
  obtain r n' where r: "evaluateGovernancePipeline demo_crypto demo_gov_request 0 = (Inr r, n')" "gdn_outcome (gpz_decision r) = Go_ALLOW"
    using demo_gov_run by blast
  have gp: "gpz_permit r = Some (issued_permit demo_crypto demo_gov_request 0 ''1970-01-01T00:01:00.000Z'')"
    using r(1) r(2) by (cases rule: pipeline_cases) (auto simp: demo_gov_expiry dest: stage_failure_not_allow)
  let ?p = "issued_permit demo_crypto demo_gov_request 0 ''1970-01-01T00:01:00.000Z''"
  let ?st = "snd (evaluateGovernedAgentAction (demo_governed r) newGovernancePermitStore)"
  let ?t = "\<lparr> tkt_actionId = ''a'', tkt_permitRef = gep_permitId ?p, tkt_contextHash = gep_contextHash ?p, tkt_tenantId = ''t'',
              tkt_issuedAt = ''1970-01-01T00:00:00.000Z'' \<rparr>"
  have g: "governed demo_crypto ?st []"
    using governed.act [OF governed.start, of demo_crypto demo_gov_request 0 "demo_governed r" n'] r(1) by (simp add: demo_governed_def)
  have st: "gps_permits ?st (gep_permitId ?p) = Some ?p" "gps_seenNonces ?st = {}"
    using r(2) gp by (simp_all add: adaptGovernanceGate_def store_register_def demo_governed_def newGovernancePermitStore_def Let_def)
  have "\<not> isAtOrBefore ''1970-01-01T00:01:00.000Z'' ''1970-01-01T00:00:10.000Z''" by code_simp
  then have "\<exists>st'. consumeGovernedTicket ?t {} ''1970-01-01T00:00:10.000Z'' ?st = (Tc_EXECUTED_ONCE, st')"
    using st by (simp add: consumeGovernedTicket_def consumeExecutionTicket_def store_consume_def consumeExecutionPermit_def
        issued_permit_def demo_gov_request_def Let_def)
  then show ?thesis using g governed_execution_mediated [OF g] by blast
qed

section \<open>Lemmas on the bridge\<close>

lemma mapped_allow_iff: "mapGovernanceOutcome oc = Ao_ALLOW \<longleftrightarrow> isExecutableGovernanceOutcome oc"
  by (cases oc) (simp_all add: isExecutableGovernanceOutcome_def)

text \<open>A gate that allows always carries a permit.\<close>

lemma adapted_allow_has_permit: "ggr_outcome (fst (adaptGovernanceGate r st)) = Ao_ALLOW \<Longrightarrow> ggr_permitRef (fst (adaptGovernanceGate r st)) \<noteq> None"
  by (auto simp: adaptGovernanceGate_def Let_def split: option.splits prod.splits if_splits)

text \<open>The store asks for the workspace of the permit itself, so a ticket has no workspace to be checked.\<close>

lemma workspace_never_compared:
  "store_consume ref h tenant now st = (Pa_PERMIT_TENANT_MISMATCH, st') \<Longrightarrow>
     \<exists>p. gps_permits st ref = Some p \<and> gep_tenantId p \<noteq> tenant"
  by (auto simp: store_consume_def consumeExecutionPermit_def Let_def split: option.splits if_splits)

end
