(* ===== verification/Spec2Isabelle.thy ===== *)
theory Spec2Isabelle
  imports Orchestrator Runtime_Engine Runtime_Checkpoint Kernel Event_Bus Memory_Log Event_Delivery
    Event_Health Ingress Trust_Sessions Agent_Governance
begin

text \<open>
  A verification library for the core of OSForge (\<^verbatim>\<open>src/packages\<close>): the secure execution pipeline, the
  runtime that executes what the pipeline lets through, the kernel that boots the modules, the
  orchestrator that runs workflows through the pipeline, the memory, the events, and the edge and identity
  layers in front of the pipeline.

  \<^bold>\<open>The program.\<close> A raw request is normalized and limited by the edge gate (\<^verbatim>\<open>edge-security/src\<close>) and bound to
  an identity, a session and its factors by the identity gate (\<^verbatim>\<open>identity/src\<close>); principals, credentials,
  sessions, delegations and trust are judged by \<^verbatim>\<open>identity-trust/src\<close>. A request with these results passes
  eight stages (\<^verbatim>\<open>pipeline/src/pipeline.ts\<close>): edge, identity and
  context binding, execution context, authorization, policy, approval, the issue of a signed permit,
  runtime isolation, and the final gate, which claims the permit in a replay store, consumes the
  approval and mints an authorization. Only then the executor is called; every run appends one record
  to a hash-chained audit log. The executor of the product is the runtime engine
  (\<^verbatim>\<open>runtime/src/engine.ts\<close>), which checks the authorization and the permit again, takes quota and
  resources, and runs the handler on a worker pool behind a scheduler, with retries, a circuit breaker
  and its own audit. The kernel (\<^verbatim>\<open>kernel/src\<close>) orders the modules by their dependencies, starts and
  stops them and restarts crashed ones; its bus carries their events. The orchestrator
  (\<^verbatim>\<open>orchestrator/src\<close>) orders the nodes of a workflow and sends each through the pipeline. The memory
  (\<^verbatim>\<open>memory/src\<close>) keeps versioned records per tenant and workspace, with an audit of its own, a timeline and
  a working memory. The events (\<^verbatim>\<open>event-foundation/src\<close>) pass a publish gate, are stored in append-only
  streams and delivered with retries, dead letters and replays. Agents (\<^verbatim>\<open>agent-runtime/src\<close>) act through the
  governance pipeline (\<^verbatim>\<open>governance/src\<close>), which turns the results of policy, authorization, capability, risk and
  approval into a decision and a permit; \<^verbatim>\<open>agent-governance/src\<close> keeps the permits and lets a ticket spend one.

  \<^bold>\<open>Theories and what they model.\<close>

  \<^item> \<^verbatim>\<open>Prelude\<close>: what the source uses of the language (trimming, decimal text, thrown errors as
    \<^verbatim>\<open>Inl\<close>), lemmas on strings, and the locales \<^verbatim>\<open>one_shot\<close> and \<^verbatim>\<open>exact_one_shot\<close>: the contract of a
    component that hands out each key once. They are interpreted on the replay store, the approvals, the
    runtime gate, the runtime engine and the idempotency keys of the events.
  \<^item> \<^verbatim>\<open>Js_Date\<close>, \<^verbatim>\<open>Json\<close>, \<^verbatim>\<open>Crypto\<close>: ISO timestamps as \<^verbatim>\<open>Date.parse\<close> and \<^verbatim>\<open>toISOString\<close> read and
    print them, canonical JSON with its parser, digests as parameters (\<^verbatim>\<open>pipeline/src/internal\<close>).
  \<^item> \<^verbatim>\<open>Protocol\<close>, \<^verbatim>\<open>Policy\<close>: contexts, permissions, policies and the execution gate with its brands
    (\<^verbatim>\<open>protocol/src/context.ts\<close>, \<^verbatim>\<open>policy/src\<close>).
  \<^item> \<^verbatim>\<open>Permit\<close>, \<^verbatim>\<open>Decision\<close>, \<^verbatim>\<open>Replay_Protection\<close>, \<^verbatim>\<open>Approval_Gate\<close>, \<^verbatim>\<open>Audit_Chain\<close>: the parts of
    \<^verbatim>\<open>pipeline/src\<close>, one file each.
  \<^item> \<^verbatim>\<open>Runtime_Isolation\<close>, \<^verbatim>\<open>Sandbox\<close>: \<^verbatim>\<open>runtime-isolation/src/index.ts\<close>; objects with a brand are
    references into a heap, so an object that was not made by the module has no entry there.
  \<^item> \<^verbatim>\<open>Secure_Pipeline\<close>: executor guard, final gate, \<^verbatim>\<open>SecurePipeline.run\<close> and the orchestrator of
    plans. The clock, the stores, the sink and the executor are fields of a record of dependencies; the
    world holds their states. \<^verbatim>\<open>Pipeline_Mediation\<close>, \<^verbatim>\<open>Pipeline_Audit\<close> and \<^verbatim>\<open>Pipeline_Liveness\<close> hold
    the lemmas on a run, stage by stage; \<^verbatim>\<open>Pipeline_Properties\<close> the results.
  \<^item> \<^verbatim>\<open>Circuit_Breaker\<close>, \<^verbatim>\<open>Quota\<close> (with the resource manager), \<^verbatim>\<open>Worker_Pool\<close> (with backpressure and
    scheduler), \<^verbatim>\<open>Runtime_Support\<close> (retry, cancellation, capabilities, context, tenant isolation, sandbox
    bridge, snapshot), \<^verbatim>\<open>Runtime_Engine\<close>: \<^verbatim>\<open>runtime/src\<close>. \<^verbatim>\<open>submit\<close> is cut where it awaits, so that
    submissions interleave.
  \<^item> \<^verbatim>\<open>Runtime_Checkpoint\<close>: the redaction of what leaves the runtime and the checkpoints made of it.
  \<^item> \<^verbatim>\<open>Topological_Sort\<close>: Kahn's algorithm as the code has it twice, for the boot order and for workflows. The
    locale \<^verbatim>\<open>kahn\<close> holds what the two loops share: how they choose the next node and keep the list of ready
    ones; its lemmas say what the loop returns.
  \<^item> \<^verbatim>\<open>Boot_Order\<close>, \<^verbatim>\<open>Kernel\<close>, \<^verbatim>\<open>Event_Bus\<close>: \<^verbatim>\<open>kernel/src\<close>. The methods of the modules and the handlers of the
    bus are parameters.
  \<^item> \<^verbatim>\<open>Workflow\<close>, \<^verbatim>\<open>Orchestrator\<close>: \<^verbatim>\<open>orchestrator/src\<close>; the second runs the nodes through the model of the
    pipeline.
  \<^item> \<^verbatim>\<open>Hash_Chain\<close>: what the hash-chained logs share, with the locales \<^verbatim>\<open>hash_chain_on\<close> (entries that satisfy a
    condition) and \<^verbatim>\<open>hash_chain\<close>; they are interpreted on the audit of the pipeline, the audit of the memory,
    the event store, the event audit and the audits below, and the check of the timeline is stated over them.
  \<^item> \<^verbatim>\<open>Scoped_Audit\<close>: the in-memory audit per tenant and workspace that many packages repeat, in its two forms
    (sink and ledger), over a record of fields; the locale \<^verbatim>\<open>audit_format\<close> says what a package has to show.
  \<^item> \<^verbatim>\<open>Memory\<close>, \<^verbatim>\<open>Memory_Log\<close>: \<^verbatim>\<open>memory/src\<close>, the versioned store over any audit sink, then the in-memory sink,
    the timeline and the working memory.
  \<^item> \<^verbatim>\<open>Event_Store\<close>, \<^verbatim>\<open>Event_Audit\<close>, \<^verbatim>\<open>Event_Publish\<close>, \<^verbatim>\<open>Event_Delivery\<close>, \<^verbatim>\<open>Event_Health\<close>: \<^verbatim>\<open>event-foundation/src\<close>,
    from the streams and the audit over the publish gate to delivery and readiness.
  \<^item> \<^verbatim>\<open>Edge_Security\<close>, \<^verbatim>\<open>Identity\<close>: the two gates in front of the pipeline; \<^verbatim>\<open>Ingress\<close> composes their results
    with the first stages of the pipeline.
  \<^item> \<^verbatim>\<open>Trust_Principals\<close> (principals, identities, evidence, trust, delegation, actors) and \<^verbatim>\<open>Trust_Sessions\<close>
    (credentials, tokens, sessions, federation, recovery, references, audit): \<^verbatim>\<open>identity-trust/src\<close>.
  \<^item> \<^verbatim>\<open>Gov_Policy\<close>, \<^verbatim>\<open>Governance\<close>: \<^verbatim>\<open>governance/src\<close>, the conditions and policies first, then the other engines, the
    pipeline and its permits.
  \<^item> \<^verbatim>\<open>Agent_Runtime\<close>, \<^verbatim>\<open>Agent_Governance\<close>: \<^verbatim>\<open>agent-runtime/src\<close> and the bridge to governance.
  \<^item> \<^verbatim>\<open>Readiness\<close>: the readiness decision that eleven packages have in their \<^verbatim>\<open>health.ts\<close>.

  \<^bold>\<open>What is shown.\<close>

  \<^item> Mediation: the executor is called at most once in a run and only after every gate passed; the
    engine admits only what the final gate authorized; runtime permits stem from a granted decision.
  \<^item> One use: no permit and no approval drives two executions, over any sequence of runs or of
    interleaved engine calls.
  \<^item> Audit: each run that returns has appended exactly one record; an appended log verifies; two logs
    with the same head are equal unless the digest collides.
  \<^item> Integrity: a permit that verifies has the claims that were signed, unless the MAC collides; it
    survives transport; canonical text is equal exactly for logically equal values.
  \<^item> Liveness: a request with all its proofs is executed. Termination: \<^verbatim>\<open>submit\<close> returns, the pool
    drains, the loops of the boot order and the pump end.
  \<^item> Isolation, bounds and accounting: quota counters within their limits and never shared between
    tenants without a colon in their id; resources equal to the reservations in flight; both caps of the
    worker pool; a bounded queue; state keyed by identity.
  \<^item> Refinement: the breaker over its string keys implements one state machine per tenant and
    capability; the memory store implements a versioned map with deletion marks. Equivalence: a boot
    order is found exactly when one exists; a lineage is reported cyclic exactly when it is.
  \<^item> Workflows: every node runs at most once, after the nodes it depends on, and only when they
    succeeded; through the orchestrator that includes every gate of the pipeline.
  \<^item> Memory: histories are append-only, numbered and intact under every operation; its audit verifies and
    is tamper evident; what a read of the working memory sees after a write.
  \<^item> Events: an append is atomic and checks the version; the publish gate accepts exactly when every gate
    passes; no idempotency key is accepted twice. The decisions on consumers, deliveries, retries, dead
    letters, replays, outbox, admission and privacy are characterised by lemmas.

  \<^item> Ingress: the edge gate admits exactly the clean, bounded and bound requests; the identity gate admits
    exactly what its seven checks demand; what both admit passes the first stages of the pipeline for the
    verified tenant and actor. Delegations only shrink what may be done; a session that ended stays ended.
  \<^item> Governance: policies decide as Kleene's logic says, and withholding attributes gains nothing; a permit is
    issued exactly when every stage passed; an executed ticket of an agent leads back to such a request.

  \<^bold>\<open>Conventions.\<close> Numbers are integers or naturals: the counters, costs and times of the code stay far
  below $2^{53}$, where the doubles of the language are exact. Strings are lists of characters 0..255.
  Maps are partial functions; where the order of a map matters it is a list. A call that throws is
  \<^verbatim>\<open>Inl\<close> of the error. The only fuel is in \<^verbatim>\<open>Json\<close>, where twice the length of the text and one is enough, and in
  \<^verbatim>\<open>Runtime_Engine.attempts\<close>, where one more than the maximum of attempts is enough; both are proved.
  Digests, UUIDs, \<^verbatim>\<open>localeCompare\<close>, the clock, the sinks, the handlers and the module hooks are
  parameters, with named hypotheses where a result needs one, each satisfied by a concrete instance in
  the witness.

  \<^bold>\<open>Not modelled.\<close> Timers, metrics, traces and logs; the adapter of the engine to the executor interface
  of the pipeline; contracts of external services, of which there is no code; the packages above the core
  (execution and safety levels of agents, tool and prompt firewalls, tenant boundary, secret access, content
  trust, detection, hardening, adapters) except for their readiness, and the demonstration product. The brands of the edge and identity results are
  booleans of their records, the texts of a decision for people are left out where no code reads them.
\<close>

end
